(* ===== verification/Prelude.thy ===== *)
theory Prelude
  imports Complex_Main "HOL-Library.AList" "HOL-Library.List_Lexorder" "HOL-Library.Char_ord"
begin

text \<open>
  Shared vocabulary of the development: the Python values and containers that every
  component uses.  A Python \<open>str\<close> is a \<open>string\<close> (one \<open>char\<close> per code point of the
  Latin-1 range, ordered lexicographically as Python orders them); a tuple or list is a
  HOL list; a \<open>dict\<close> whose iteration order matters is an association list that
  \<open>AList.update\<close> extends at the end and overwrites in place, as Python does; a
  \<open>defaultdict(list)\<close> that is only looked up is a total function.  The theory also
  declares the collections of rewrite rules that the component theories fill.
\<close>

type_synonym str = string

named_theorems evidence_simps \<open>what clean evidence implies\<close>
named_theorems record_grow \<open>recording steps never drop a conflict\<close>
named_theorems record_clean \<open>a recording step that ends without conflicts checked its facts\<close>
named_theorems decimal_simps \<open>exactness and sign rules of decimal arithmetic\<close>

subsection \<open>Ordered, duplicate-free sequences\<close>

text \<open>\<open>tuple(dict.fromkeys(xs))\<close>: the first occurrence of every value, in order.\<close>

fun dict_fromkeys :: "'a list \<Rightarrow> 'a list" where
  "dict_fromkeys [] = []"
| "dict_fromkeys (x # xs) = x # filter (\<lambda>y. y \<noteq> x) (dict_fromkeys xs)"

lemma set_dict_fromkeys [simp]: "set (dict_fromkeys xs) = set xs"
  by (induction xs) auto

lemma distinct_dict_fromkeys [simp]: "distinct (dict_fromkeys xs)"
  by (induction xs) auto

lemma dict_fromkeys_eq_Nil [simp]: "dict_fromkeys xs = [] \<longleftrightarrow> xs = []"
  by (cases xs) auto

lemma dict_fromkeys_distinct [simp]: "distinct xs \<Longrightarrow> dict_fromkeys xs = xs"
  by (induction xs) (auto simp: filter_id_conv)

text \<open>\<open>_append_unique\<close>-style insertion at the end of a list.\<close>

definition append_unique :: "'a list \<Rightarrow> 'a \<Rightarrow> 'a list" where
  "append_unique values v = (if v \<in> set values then values else values @ [v])"

lemma set_append_unique [simp]: "set (append_unique xs x) = insert x (set xs)"
  by (auto simp: append_unique_def)

lemma distinct_append_unique [simp]: "distinct (append_unique xs x) \<longleftrightarrow> distinct xs"
  by (auto simp: append_unique_def)

lemma append_unique_not_Nil [simp]: "append_unique xs x \<noteq> []"
  by (auto simp: append_unique_def)

subsection \<open>Dictionaries in insertion order\<close>

definition dict_setdefault :: "'k \<Rightarrow> 'v \<Rightarrow> ('k \<times> 'v) list \<Rightarrow> ('k \<times> 'v) list" where
  "dict_setdefault k v d = (case map_of d k of None \<Rightarrow> d @ [(k, v)] | Some _ \<Rightarrow> d)"

definition dict_get :: "('k \<times> 'v) list \<Rightarrow> 'k \<Rightarrow> 'v \<Rightarrow> 'v" where
  "dict_get d k v = (case map_of d k of None \<Rightarrow> v | Some w \<Rightarrow> w)"

text \<open>\<open>{key(x): val(x) for x in xs}\<close>: a later item overwrites an earlier one in place.\<close>

definition dict_of :: "('a \<Rightarrow> 'k) \<Rightarrow> ('a \<Rightarrow> 'v) \<Rightarrow> 'a list \<Rightarrow> ('k \<times> 'v) list" where
  "dict_of key val xs = foldl (\<lambda>d x. AList.update (key x) (val x) d) [] xs"

lemma map_of_setdefault:
  "map_of (dict_setdefault k v d) = (case map_of d k of None \<Rightarrow> (map_of d)(k \<mapsto> v) | Some _ \<Rightarrow> map_of d)"
  by (auto simp: dict_setdefault_def fun_eq_iff map_add_def split: option.splits)

lemma distinct_setdefault:
  "distinct (map fst d) \<Longrightarrow> distinct (map fst (dict_setdefault k v d))"
  by (auto simp: dict_setdefault_def map_of_eq_None_iff split: option.splits)

lemma keys_setdefault: "fst ` set (dict_setdefault k v d) = insert k (fst ` set d)"
proof (cases "map_of d k")
  case None
  then show ?thesis by (auto simp: dict_setdefault_def)
next
  case (Some w)
  then have "k \<in> fst ` set d" by (metis domI dom_map_of_conv_image_fst)
  with Some show ?thesis by (auto simp: dict_setdefault_def)
qed

lemma foldl_update_keys:
  "fst ` set (foldl (\<lambda>d x. AList.update (key x) (val x) d) d0 xs) = fst ` set d0 \<union> key ` set xs"
proof (induction xs arbitrary: d0)
  case (Cons x xs)
  have "fst ` set (AList.update (key x) (val x) d0) = insert (key x) (fst ` set d0)"
    using dom_update [of "key x" "val x" d0] by (simp add: dom_map_of_conv_image_fst)
  with Cons show ?case by auto
qed simp

lemma dict_of_keys: "fst ` set (dict_of key val xs) = key ` set xs"
  by (simp add: dict_of_def foldl_update_keys)

lemma foldl_update_distinct:
  "distinct (map fst d0) \<Longrightarrow>
   distinct (map fst (foldl (\<lambda>d x. AList.update (key x) (val x) d) d0 xs))"
  by (induction xs arbitrary: d0) (auto simp: distinct_update)

lemma dict_of_distinct: "distinct (map fst (dict_of key val xs))"
  by (simp add: dict_of_def foldl_update_distinct)

lemma foldl_update_lookup:
  "map_of (foldl (\<lambda>d x. AList.update (key x) (val x) d) d0 xs) k =
     (case find (\<lambda>x. key x = k) (rev xs) of None \<Rightarrow> map_of d0 k | Some x \<Rightarrow> Some (val x))"
proof (induction xs rule: rev_induct)
  case (snoc x xs)
  then show ?case by (auto simp: update_conv')
qed simp

lemma dict_of_lookup:
  "map_of (dict_of key val xs) k = map_option val (find (\<lambda>x. key x = k) (rev xs))"
  by (simp add: dict_of_def foldl_update_lookup map_option_case cong: option.case_cong)

lemma find_distinct_key:
  assumes "distinct (map key xs)" and "x \<in> set xs"
  shows "find (\<lambda>y. key y = key x) xs = Some x"
  using assms by (induction xs) auto

lemma dict_of_lookup_distinct:
  assumes "distinct (map key xs)" and "x \<in> set xs"
  shows "map_of (dict_of key val xs) (key x) = Some (val x)"
proof -
  have "find (\<lambda>y. key y = key x) (rev xs) = Some x"
    using assms by (intro find_distinct_key) (auto simp: rev_map [symmetric])
  then show ?thesis by (simp add: dict_of_lookup)
qed

lemma dict_of_lookupD:
  assumes "map_of (dict_of key val xs) k = Some v"
  obtains x where "x \<in> set xs" and "key x = k" and "v = val x"
  using assms by (auto simp: dict_of_lookup find_Some_iff set_conv_nth [symmetric])
    (metis nth_mem set_rev length_rev)

subsection \<open>Selecting from sequences\<close>

lemma sum_list_sort_key: "(\<Sum>x\<leftarrow>sort_key key xs. f x) = (\<Sum>x\<leftarrow>xs. (f x :: rat))"
proof -
  have "(\<Sum>x\<leftarrow>insort_key key y ys. f x) = f y + (\<Sum>x\<leftarrow>ys. f x)" for y ys by (induction ys) simp_all
  then show ?thesis by (induction xs) simp_all
qed

lemma find_SomeD: "find P xs = Some x \<Longrightarrow> x \<in> set xs \<and> P x"
  by (auto simp: find_Some_iff)

lemma find_NoneD: "find P xs = None \<Longrightarrow> x \<in> set xs \<Longrightarrow> \<not> P x"
  by (auto simp: find_None_iff)

text \<open>\<open>bisect_left\<close> and \<open>bisect_right\<close> on an ordered sequence: the number of elements
  before the insertion point.\<close>

definition bisect_left :: "'a::linorder list \<Rightarrow> 'a \<Rightarrow> nat" where
  "bisect_left xs x = length (takeWhile (\<lambda>y. y < x) xs)"

definition bisect_right :: "'a::linorder list \<Rightarrow> 'a \<Rightarrow> nat" where
  "bisect_right xs x = length (takeWhile (\<lambda>y. y \<le> x) xs)"

lemma bisect_right_le_length [simp]: "bisect_right xs x \<le> length xs"
  by (simp add: bisect_right_def length_takeWhile_le)

lemma bisect_left_le_length [simp]: "bisect_left xs x \<le> length xs"
  by (simp add: bisect_left_def length_takeWhile_le)

lemma bisect_right_before: "i < bisect_right xs x \<Longrightarrow> xs ! i \<le> x"
  by (metis bisect_right_def nth_mem set_takeWhileD takeWhile_nth)

lemma bisect_right_after:
  assumes "sorted xs" and "bisect_right xs x \<le> i" and "i < length xs"
  shows "x < xs ! i"
proof -
  let ?n = "bisect_right xs x"
  have "?n < length xs" using assms by simp
  then have "\<not> xs ! ?n \<le> x"
    unfolding bisect_right_def by (rule nth_length_takeWhile)
  moreover have "xs ! ?n \<le> xs ! i"
    using assms by (simp add: sorted_nth_mono)
  ultimately show ?thesis by simp
qed

lemma bisect_left_before: "i < bisect_left xs x \<Longrightarrow> xs ! i < x"
  by (metis bisect_left_def nth_mem set_takeWhileD takeWhile_nth)

lemma bisect_left_after:
  assumes "sorted xs" and "bisect_left xs x \<le> i" and "i < length xs"
  shows "x \<le> xs ! i"
proof -
  let ?n = "bisect_left xs x"
  have "?n < length xs" using assms by simp
  then have "\<not> xs ! ?n < x"
    unfolding bisect_left_def by (rule nth_length_takeWhile)
  moreover have "xs ! ?n \<le> xs ! i"
    using assms by (simp add: sorted_nth_mono)
  ultimately show ?thesis by simp
qed

subsection \<open>State-passing loops\<close>

text \<open>A predicate that one loop body keeps is kept by the whole \<open>for\<close> loop.\<close>

lemma foldl_keeps:
  assumes "P s" and "\<And>s x. P s \<Longrightarrow> x \<in> set xs \<Longrightarrow> P (f s x)"
  shows "P (foldl f s xs)"
  using assms by (induction xs arbitrary: s) auto

lemma foldl_reflects:
  assumes step: "\<And>s x. P (f s x) \<Longrightarrow> P s" and "P (foldl f s xs)"
  shows "P s"
  using assms(2) by (induction xs arbitrary: s) (auto intro: step)

text \<open>If the body reflects \<open>P\<close> and a body run that ends in \<open>P\<close> establishes \<open>Q x\<close>,
  then a loop that ends in \<open>P\<close> established \<open>Q x\<close> for every element.\<close>

lemma foldl_establishes:
  assumes step: "\<And>s x. P (f s x) \<Longrightarrow> P s"
    and est: "\<And>s x. x \<in> set xs \<Longrightarrow> P (f s x) \<Longrightarrow> Q x"
    and "P (foldl f s xs)" and "x \<in> set xs"
  shows "Q x"
  using assms(2-) proof (induction xs arbitrary: s)
  case (Cons y ys)
  show ?case
  proof (cases "x = y")
    case True
    from Cons.prems(2) have "P (foldl f (f s y) ys)" by simp
    then have "P (f s y)" by (rule foldl_reflects [of P f, rotated]) (rule step)
    with Cons.prems(1) True show ?thesis by auto
  next
    case False
    with Cons show ?thesis by auto
  qed
qed simp

lemma set_map_filter: "set (List.map_filter f xs) = {y. \<exists>x \<in> set xs. f x = Some y}"
  by (induction xs) (auto simp: List.map_filter_def split: option.splits)

end
