(* ===== verification/Py_Datetime.thy ===== *)
theory Py_Datetime
  imports Prelude
begin

text \<open>
  Python's aware \<open>datetime\<close> and \<open>date\<close>.  An aware datetime is an instant (microseconds since
  1970-01-01T00:00Z) together with the fixed UTC offset (microseconds) of its \<open>tzinfo\<close>.
  Ordering and equality are those of the instants, whatever the offsets; only the wall-clock
  fields (\<open>year\<close>, \<open>month\<close>, \<open>day\<close>, \<open>date()\<close>) and \<open>replace\<close> look at the offset.
  A \<open>date\<close> is its proleptic Gregorian ordinal, as \<open>date.toordinal()\<close> counts it; the
  conversions follow \<open>datetime\<close>'s reference implementation.  Years beyond 9999, where
  \<open>replace\<close> raises, are outside the model.
\<close>

datatype datetime = Datetime (instant: int) (utcoffset: int)

instantiation datetime :: preorder
begin

definition less_eq_datetime :: "datetime \<Rightarrow> datetime \<Rightarrow> bool" where
  "less_eq_datetime a b \<longleftrightarrow> instant a \<le> instant b"

definition less_datetime :: "datetime \<Rightarrow> datetime \<Rightarrow> bool" where
  "less_datetime a b \<longleftrightarrow> instant a < instant b"

instance
  by standard (auto simp: less_eq_datetime_def less_datetime_def)

end

text \<open>\<open>a == b\<close> on aware datetimes.\<close>

definition dt_eq :: "datetime \<Rightarrow> datetime \<Rightarrow> bool" where
  "dt_eq a b \<longleftrightarrow> instant a = instant b"

lemmas datetime_defs = less_eq_datetime_def less_datetime_def dt_eq_def

declare less_eq_datetime_def [simp] less_datetime_def [simp] dt_eq_def [simp]

fun opt_dt_eq :: "datetime option \<Rightarrow> datetime option \<Rightarrow> bool" where
  "opt_dt_eq None None = True"
| "opt_dt_eq (Some a) (Some b) = dt_eq a b"
| "opt_dt_eq _ _ = False"

lemma opt_dt_eq_refl [simp]: "opt_dt_eq a a"
  by (cases a) auto

type_synonym date = int

definition us_per_day :: int where "us_per_day = 86400000000"
definition us_per_hour :: int where "us_per_hour = 3600000000"

text \<open>The ordinal of 1970-01-01.\<close>

definition epoch_ordinal :: int where "epoch_ordinal = 719163"

definition dt_date :: "datetime \<Rightarrow> date" where
  "dt_date t = (instant t + utcoffset t) div us_per_day + epoch_ordinal"

definition dt_time :: "datetime \<Rightarrow> int" where
  "dt_time t = (instant t + utcoffset t) mod us_per_day"

text \<open>\<open>value.astimezone(UTC)\<close> and \<open>value.astimezone(other.tzinfo)\<close>.\<close>

definition to_utc :: "datetime \<Rightarrow> datetime" where
  "to_utc t = Datetime (instant t) 0"

definition astimezone :: "datetime \<Rightarrow> datetime \<Rightarrow> datetime" where
  "astimezone t other = Datetime (instant t) (utcoffset other)"

definition combine :: "date \<Rightarrow> int \<Rightarrow> int \<Rightarrow> datetime" where
  "combine d us off = Datetime ((d - epoch_ordinal) * us_per_day + us - off) off"

definition plus_hours :: "datetime \<Rightarrow> int \<Rightarrow> datetime" where
  "plus_hours t h = Datetime (instant t + h * us_per_hour) (utcoffset t)"

definition plus_days :: "datetime \<Rightarrow> int \<Rightarrow> datetime" where
  "plus_days t n = Datetime (instant t + n * us_per_day) (utcoffset t)"

text \<open>\<open>max\<close> and \<open>min\<close> of datetimes return the first of equal instants.\<close>

definition dt_max :: "datetime \<Rightarrow> datetime \<Rightarrow> datetime" where
  "dt_max a b = (if a < b then b else a)"

definition dt_min :: "datetime \<Rightarrow> datetime \<Rightarrow> datetime" where
  "dt_min a b = (if b < a then b else a)"

lemma combine_date [simp]:
  "0 \<le> us \<Longrightarrow> us < us_per_day \<Longrightarrow> dt_date (combine d us off) = d"
  by (simp add: combine_def dt_date_def us_per_day_def)

lemma combine_split: "combine (dt_date t) (dt_time t) (utcoffset t) = t"
  by (cases t) (simp add: combine_def dt_date_def dt_time_def minus_mod_eq_div_mult [symmetric])

lemma dt_time_bounds: "0 \<le> dt_time t" "dt_time t < us_per_day"
  by (simp_all add: dt_time_def us_per_day_def)

subsection \<open>The Gregorian calendar\<close>

definition is_leap :: "int \<Rightarrow> bool" where
  "is_leap y \<longleftrightarrow> y mod 4 = 0 \<and> (y mod 100 \<noteq> 0 \<or> y mod 400 = 0)"

definition days_before_year :: "int \<Rightarrow> int" where
  "days_before_year y = (y - 1) * 365 + (y - 1) div 4 - (y - 1) div 100 + (y - 1) div 400"

text \<open>\<open>calendar.monthrange(year, month)[1]\<close>.\<close>

definition days_in_month :: "int \<Rightarrow> int \<Rightarrow> int" where
  "days_in_month y m =
     (if m = 2 then (if is_leap y then 29 else 28)
      else if m \<in> {4, 6, 9, 11} then 30 else 31)"

definition days_before_month :: "int \<Rightarrow> int \<Rightarrow> int" where
  "days_before_month y m =
     [0, 31, 59, 90, 120, 151, 181, 212, 243, 273, 304, 334] ! nat (m - 1)
     + (if 2 < m \<and> is_leap y then 1 else 0)"

definition ymd2ord :: "int \<Rightarrow> int \<Rightarrow> int \<Rightarrow> date" where
  "ymd2ord y m d = days_before_year y + days_before_month y m + d"

definition year_of :: "date \<Rightarrow> int" where
  "year_of n =
     (let a = (n - 1) div 146097; r = (n - 1) mod 146097;
          b = r div 36524; r1 = r mod 36524;
          c = r1 div 1461; r2 = r1 mod 1461;
          d = r2 div 365;
          y = a * 400 + 1 + b * 100 + c * 4 + d
      in if d = 4 \<or> b = 4 then y - 1 else y)"

definition day_of_year :: "date \<Rightarrow> int" where
  "day_of_year n = n - days_before_year (year_of n)"

definition month_of :: "date \<Rightarrow> int" where
  "month_of n =
     int (length (filter (\<lambda>m. days_before_month (year_of n) m < day_of_year n)
       [1, 2, 3, 4, 5, 6, 7, 8, 9, 10, 11, 12]))"

definition day_of :: "date \<Rightarrow> int" where
  "day_of n = day_of_year n - days_before_month (year_of n) (month_of n)"

definition weekday :: "date \<Rightarrow> int" where
  "weekday n = (n + 6) mod 7"

lemma days_before_year_digits:
  assumes "0 \<le> b" "b \<le> 3" "0 \<le> c" "c \<le> 24" "0 \<le> d" "d \<le> 3"
  shows "days_before_year (a * 400 + 1 + b * 100 + c * 4 + d) =
    a * 146097 + b * 36524 + c * 1461 + d * 365"
proof -
  let ?z = "a * 400 + b * 100 + c * 4 + d"
  have "?z div 4 = a * 100 + b * 25 + c"
    using assms by (intro int_div_pos_eq [where r = d]) auto
  moreover have "?z div 100 = a * 4 + b"
    using assms by (intro int_div_pos_eq [where r = "c * 4 + d"]) auto
  moreover have "?z div 400 = a"
    using assms by (intro int_div_pos_eq [where r = "b * 100 + c * 4 + d"]) auto
  ultimately show ?thesis by (simp add: days_before_year_def algebra_simps)
qed

lemma div_step:
  fixes y k :: int
  assumes "0 < k"
  shows "y div k = (y - 1) div k + (if y mod k = 0 then 1 else 0)"
proof -
  let ?q = "(y - 1) div k" and ?r = "(y - 1) mod k"
  have y: "y = k * ?q + (?r + 1)" using mult_div_mod_eq [of k "y - 1"] by linarith
  have r: "0 \<le> ?r" "?r < k" using assms by simp_all
  show ?thesis
  proof (cases "?r + 1 < k")
    case True
    then have "y div k = ?q" and "y mod k = ?r + 1"
      using y r by (metis int_div_pos_eq add_increasing2 zero_le_one)
        (metis y r True int_mod_pos_eq add_increasing2 zero_le_one)
    with r show ?thesis by simp
  next
    case False
    with r have "?r + 1 = k" by simp
    with y have "y = k * ?q + k" by simp
    then have "y = k * (?q + 1) + 0" by (simp add: distrib_left)
    then have "y div k = ?q + 1" and "y mod k = 0"
      using assms by (metis int_div_pos_eq order_refl) (metis \<open>y = k * (?q + 1) + 0\<close> assms int_mod_pos_eq order_refl)
    then show ?thesis by simp
  qed
qed

lemma days_before_year_Suc:
  "days_before_year (y + 1) = days_before_year y + (if is_leap y then 366 else 365)"
proof -
  define m4 m100 m400 where "m4 = (y mod 4 = 0)" and "m100 = (y mod 100 = 0)"
    and "m400 = (y mod 400 = 0)"
  have "m400 \<Longrightarrow> m100" and "m100 \<Longrightarrow> m4"
    using dvd_mult_left [of 100 4 y] dvd_mult_left [of 4 25 y]
    by (simp_all add: m4_def m100_def m400_def mod_eq_0_iff_dvd)
  moreover have "is_leap y \<longleftrightarrow> m4 \<and> (\<not> m100 \<or> m400)"
    by (simp only: is_leap_def m4_def m100_def m400_def)
  moreover have "days_before_year (y + 1) = days_before_year y + 365
    + (if m4 then 1 else 0) - (if m100 then 1 else 0) + (if m400 then 1 else 0)"
    unfolding days_before_year_def add_diff_cancel_right' m4_def m100_def m400_def
    by (simp only: div_step [of 4 y, OF zero_less_numeral] div_step [of 100 y, OF zero_less_numeral]
        div_step [of 400 y, OF zero_less_numeral] left_diff_distrib)
  ultimately show ?thesis by (cases m4; cases m100; cases m400) auto
qed

lemma is_leap_fourth:
  assumes "0 \<le> c" "c \<le> 24" "c \<noteq> 24 \<or> b = 3"
  shows "is_leap (a * 400 + 1 + b * 100 + c * 4 + 3)" (is "is_leap ?y")
proof -
  have "?y mod 4 = 0" by (intro int_mod_pos_eq [where q = "100 * a + 25 * b + c + 1"]) auto
  moreover have "?y mod 100 = 4 * c + 4" if "c \<noteq> 24"
    using assms that by (intro int_mod_pos_eq [where q = "4 * a + b"]) auto
  moreover have "?y mod 400 = 0" if "c = 24" "b = 3"
    using that by (intro int_mod_pos_eq [where q = "a + 1"]) auto
  ultimately show ?thesis using assms unfolding is_leap_def by (cases "c = 24") simp_all
qed

lemma year_of_bounds:
  "days_before_year (year_of n) < n \<and> n \<le> days_before_year (year_of n + 1)"
proof -
  define a where "a = (n - 1) div 146097"
  define r where "r = (n - 1) mod 146097"
  define b where "b = r div 36524"
  define r1 where "r1 = r mod 36524"
  define c where "c = r1 div 1461"
  define r2 where "r2 = r1 mod 1461"
  define d where "d = r2 div 365"
  define e where "e = r2 mod 365"
  have n: "n - 1 = a * 146097 + r" and r: "r = b * 36524 + r1"
    and r1: "r1 = c * 1461 + r2" and r2: "r2 = d * 365 + e"
    by (simp_all add: a_def r_def b_def r1_def c_def r2_def d_def e_def)
  have bounds: "0 \<le> r" "r < 146097" "0 \<le> r1" "r1 < 36524" "0 \<le> r2" "r2 < 1461" "0 \<le> e" "e < 365"
    by (simp_all add: r_def r1_def r2_def e_def)
  have digits: "0 \<le> b" "b \<le> 4" "0 \<le> c" "c \<le> 24" "0 \<le> d" "d \<le> 4"
    using bounds r r1 r2 by linarith+
  let ?y = "a * 400 + 1 + b * 100 + c * 4 + d"
  have yo: "year_of n = (if d = 4 \<or> b = 4 then ?y - 1 else ?y)"
    by (simp add: year_of_def Let_def a_def r_def b_def r1_def c_def r2_def d_def)
  have lo: "days_before_year (year_of n) \<le> n - 1"
    and hi: "n - 1 < days_before_year (year_of n) + (if is_leap (year_of n) then 366 else 365)"
  proof -
    consider "b = 4" | "b \<le> 3" "d = 4" | "b \<le> 3" "d \<le> 3" using digits by linarith
    then have "days_before_year (year_of n) \<le> n - 1 \<and>
      n - 1 < days_before_year (year_of n) + (if is_leap (year_of n) then 366 else 365)"
    proof cases
      case 1
      with bounds r r1 r2 digits have z: "c = 0" "d = 0" "e = 0" "r1 = 0" "r2 = 0" by linarith+
      have "year_of n = a * 400 + 1 + 3 * 100 + 24 * 4 + 3" by (simp add: yo 1 z)
      moreover have "is_leap (a * 400 + 1 + 3 * 100 + 24 * 4 + 3)"
        by (rule is_leap_fourth) simp_all
      ultimately show ?thesis
        using days_before_year_digits [of 3 24 3 a] n r 1 z by simp
    next
      case 2
      with bounds r2 have z: "e = 0" by linarith
      have y: "year_of n = a * 400 + 1 + b * 100 + c * 4 + 3" by (simp add: yo 2)
      have "c \<noteq> 24 \<or> b = 3" using 2 bounds r r1 r2 digits by linarith
      then have "is_leap (a * 400 + 1 + b * 100 + c * 4 + 3)"
        using digits by (intro is_leap_fourth) auto
      then show ?thesis
        unfolding y using days_before_year_digits [of b c 3 a] n r r1 r2 2 z digits by simp
    next
      case 3
      then have "year_of n = ?y" by (simp add: yo)
      with 3 show ?thesis
        using days_before_year_digits [of b c d a] n r r1 r2 bounds digits by simp
    qed
    then show "days_before_year (year_of n) \<le> n - 1"
      and "n - 1 < days_before_year (year_of n) + (if is_leap (year_of n) then 366 else 365)"
      by auto
  qed
  then show ?thesis unfolding days_before_year_Suc by linarith
qed

lemma day_of_year_bounds:
  "1 \<le> day_of_year n" "day_of_year n \<le> (if is_leap (year_of n) then 366 else 365)"
  using year_of_bounds [of n] unfolding day_of_year_def days_before_year_Suc by linarith+

text \<open>The wall-clock fields of a date rebuild its ordinal, and are a valid date.\<close>

lemma ymd_roundtrip: "ymd2ord (year_of n) (month_of n) (day_of n) = n"
  by (simp add: ymd2ord_def day_of_def day_of_year_def)

lemma month_fields:
  "month_of n \<in> {1..12}" "1 \<le> day_of n" "day_of n \<le> days_in_month (year_of n) (month_of n)"
proof -
  let ?d = "day_of_year n"
  have d: "1 \<le> ?d" "?d \<le> (if is_leap (year_of n) then 366 else 365)"
    by (rule day_of_year_bounds)+
  have "month_of n \<in> {1..12} \<and> 1 \<le> day_of n \<and>
      day_of n \<le> days_in_month (year_of n) (month_of n)"
    using d unfolding month_of_def day_of_def days_before_month_def days_in_month_def
    by (cases "is_leap (year_of n)") (auto simp: nth_Cons_numeral)
  then show "month_of n \<in> {1..12}" "1 \<le> day_of n"
    "day_of n \<le> days_in_month (year_of n) (month_of n)" by auto
qed

subsection \<open>Calendar months\<close>

text \<open>\<open>value.replace(year=..., month=..., day=...)\<close>: the wall clock keeps its time and offset.\<close>

definition replace_ymd :: "datetime \<Rightarrow> int \<Rightarrow> int \<Rightarrow> int \<Rightarrow> datetime" where
  "replace_ymd t y m d = combine (ymd2ord y m d) (dt_time t) (utcoffset t)"

definition add_calendar_months :: "datetime \<Rightarrow> int \<Rightarrow> datetime" where
  "add_calendar_months value months =
     (let n = dt_date value;
          month_index = month_of n - 1 + months;
          year = year_of n + month_index div 12;
          month = month_index mod 12 + 1;
          day = min (day_of n) (days_in_month year month)
      in replace_ymd value year month day)"

lemma instant_combine: "instant (combine d us off) = (d - epoch_ordinal) * us_per_day + us - off"
  by (simp add: combine_def)

lemma instant_split:
  "instant t = (dt_date t - epoch_ordinal) * us_per_day + dt_time t - utcoffset t"
  using combine_split [of t] instant_combine by metis

lemma replace_ymd_later:
  assumes "dt_date t < ymd2ord y m d"
  shows "t < replace_ymd t y m d"
  using assms by (simp add: replace_ymd_def instant_combine instant_split [of t] us_per_day_def)

lemma six_months_later_ord:
  assumes "m \<in> {1..12}" "d \<le> days_in_month y m" "1 \<le> d"
  shows "ymd2ord y m d <
    ymd2ord (y + (m + 5) div 12) ((m + 5) mod 12 + 1)
      (min d (days_in_month (y + (m + 5) div 12) ((m + 5) mod 12 + 1)))"
proof -
  have "m = 1 \<or> m = 2 \<or> m = 3 \<or> m = 4 \<or> m = 5 \<or> m = 6 \<or> m = 7 \<or> m = 8 \<or> m = 9 \<or> m = 10 \<or>
    m = 11 \<or> m = 12" using assms(1) unfolding atLeastAtMost_iff by presburger
  then show ?thesis
    using assms(2,3)
    by (elim disjE; cases "is_leap y"; cases "is_leap (y + 1)";
        simp add: ymd2ord_def days_before_month_def days_in_month_def days_before_year_Suc
        nth_Cons_numeral)
qed

text \<open>Six calendar months always lead strictly forward, month ends included.\<close>

lemma add_six_months_later: "t < add_calendar_months t 6"
proof -
  let ?n = "dt_date t"
  have "ymd2ord (year_of ?n) (month_of ?n) (day_of ?n) <
    ymd2ord (year_of ?n + (month_of ?n + 5) div 12) ((month_of ?n + 5) mod 12 + 1)
      (min (day_of ?n) (days_in_month (year_of ?n + (month_of ?n + 5) div 12)
        ((month_of ?n + 5) mod 12 + 1)))"
    by (rule six_months_later_ord) (use month_fields [of ?n] in auto)
  then have "t < replace_ymd t (year_of ?n + (month_of ?n + 5) div 12)
    ((month_of ?n + 5) mod 12 + 1)
    (min (day_of ?n) (days_in_month (year_of ?n + (month_of ?n + 5) div 12)
        ((month_of ?n + 5) mod 12 + 1)))"
    by (intro replace_ymd_later) (simp add: ymd_roundtrip)
  then show ?thesis by (simp add: add_calendar_months_def Let_def diff_add_eq add.commute [of 5])
qed

lemma dt_max_lower: "a \<le> dt_max a b" "b \<le> dt_max a b"
  by (auto simp: dt_max_def)

lemma dt_min_upper: "dt_min a b \<le> a" "dt_min a b \<le> b"
  by (auto simp: dt_min_def)

end
