(* ===== verification/Market_Calendar.thy ===== *)
theory Market_Calendar
  imports Py_Datetime
begin

text \<open>
  \<open>portfolio/market_calendar.py\<close>: the immutable synthetic market calendars.  A calendar has a
  short list of active sessions and a long list of terminal sessions; the operations resolve
  dates and instants to session closes with the active list taking precedence inside its own
  coverage.  \<open>ValueError(message)\<close> is \<open>Inl message\<close>.  A \<open>cached_property\<close> is a function of
  the calendar.  Tuples of closing times are bisected by instant.
\<close>

record market_session =
  ms_ordinal :: int
  ms_closed_at :: datetime

record synthetic_market_calendar =
  cal_version_id :: str
  cal_sessions :: "market_session list"
  cal_monthly_selection_cutoffs :: "datetime list"
  cal_terminal_session_coverage_through :: date
  cal_terminal_sessions :: "market_session list"

definition session_date :: "market_session \<Rightarrow> date" where
  "session_date s = dt_date (ms_closed_at s)"

definition session_close :: "market_session \<Rightarrow> int" where
  "session_close s = instant (ms_closed_at s)"

text \<open>\<open>terminal_sessions or sessions\<close>.\<close>

definition extended_sessions :: "synthetic_market_calendar \<Rightarrow> market_session list" where
  "extended_sessions c = (if cal_terminal_sessions c \<noteq> [] then cal_terminal_sessions c else cal_sessions c)"

definition session_dates :: "synthetic_market_calendar \<Rightarrow> date list" where
  "session_dates c = map session_date (cal_sessions c)"

definition terminal_dates :: "synthetic_market_calendar \<Rightarrow> date list" where
  "terminal_dates c = map session_date (extended_sessions c)"

definition session_closes :: "synthetic_market_calendar \<Rightarrow> int list" where
  "session_closes c = map session_close (cal_sessions c)"

definition terminal_closes :: "synthetic_market_calendar \<Rightarrow> int list" where
  "terminal_closes c = map session_close (extended_sessions c)"

definition covered_sessions :: "synthetic_market_calendar \<Rightarrow> market_session list" where
  "covered_sessions c =
     (if cal_sessions c = [] then cal_terminal_sessions c
      else
        let extended = extended_sessions c;
            before = bisect_left (terminal_dates c) (hd (session_dates c));
            after = bisect_right (terminal_dates c) (last (session_dates c))
        in take before extended @ cal_sessions c @ drop after extended)"

definition covered_closes :: "synthetic_market_calendar \<Rightarrow> int list" where
  "covered_closes c = map session_close (covered_sessions c)"

text \<open>Whether a date lies inside the coverage of the active sessions.\<close>

definition in_active_coverage :: "synthetic_market_calendar \<Rightarrow> date \<Rightarrow> bool" where
  "in_active_coverage c d \<longleftrightarrow>
     cal_sessions c \<noteq> [] \<and>
     session_date (hd (cal_sessions c)) \<le> d \<and> d \<le> session_date (last (cal_sessions c))"

definition session_for :: "synthetic_market_calendar \<Rightarrow> int \<Rightarrow> market_session option" where
  "session_for c ordinal = find (\<lambda>s. ms_ordinal s = ordinal) (cal_sessions c)"

definition next_session_after :: "synthetic_market_calendar \<Rightarrow> datetime \<Rightarrow> market_session option" where
  "next_session_after c closed_at = find (\<lambda>s. closed_at < ms_closed_at s) (cal_sessions c)"

definition terminal_session_coverage_from :: "synthetic_market_calendar \<Rightarrow> date option" where
  "terminal_session_coverage_from c =
     (case extended_sessions c of [] \<Rightarrow> None | s # _ \<Rightarrow> Some (session_date s))"

definition sessions_after_open ::
    "synthetic_market_calendar \<Rightarrow> datetime \<Rightarrow> int \<Rightarrow> market_session list" where
  "sessions_after_open c value count =
     (if count \<le> 0 then []
      else if (case terminal_session_coverage_from c of
                 None \<Rightarrow> False | Some first \<Rightarrow> dt_date (to_utc value) < first) then []
      else
        let start = bisect_right (covered_closes c) (instant (plus_hours value 7))
        in take (nat count) (drop start (covered_sessions c)))"

definition recent_completed_sessions ::
    "synthetic_market_calendar \<Rightarrow> datetime \<Rightarrow> int \<Rightarrow> market_session list" where
  "recent_completed_sessions c value count =
     (if count \<le> 0 \<or> dt_date (to_utc value) > cal_terminal_session_coverage_through c then []
      else
        let end_at = bisect_right (covered_closes c) (instant value)
        in drop (end_at - nat count) (take end_at (covered_sessions c)))"

text \<open>\<open>sessions[index] if index >= 0 else None\<close> for \<open>index = n - 1\<close>.\<close>

definition last_of_first :: "nat \<Rightarrow> 'a list \<Rightarrow> 'a option" where
  "last_of_first n xs = (if 0 < n then Some (xs ! (n - 1)) else None)"

definition session_at_or_before ::
    "synthetic_market_calendar \<Rightarrow> datetime \<Rightarrow> market_session option" where
  "session_at_or_before c value =
     (if in_active_coverage c (dt_date (to_utc value)) then
        let n = bisect_right (session_closes c) (instant value)
        in if 0 < n then Some (cal_sessions c ! (n - 1))
           else if cal_terminal_sessions c = [] then None
           else last_of_first
                  (min (bisect_right (terminal_closes c) (instant value))
                       (bisect_left (terminal_dates c) (session_date (hd (cal_sessions c)))))
                  (cal_terminal_sessions c)
      else last_of_first (bisect_right (terminal_closes c) (instant value)) (extended_sessions c))"

definition next_monthly_selection_cutoff_after ::
    "synthetic_market_calendar \<Rightarrow> datetime \<Rightarrow> datetime option" where
  "next_monthly_selection_cutoff_after c closed_at =
     find (\<lambda>cutoff. closed_at < cutoff) (cal_monthly_selection_cutoffs c)"

definition last_terminal_session_on_or_before ::
    "synthetic_market_calendar \<Rightarrow> date \<Rightarrow> market_session option" where
  "last_terminal_session_on_or_before c target_date =
     (if in_active_coverage c target_date
      then last_of_first (bisect_right (session_dates c) target_date) (cal_sessions c)
      else last_of_first (bisect_right (terminal_dates c) target_date) (extended_sessions c))"

subsection \<open>Building the synthetic calendars\<close>

text \<open>The \<open>while current <= end\<close> loop of \<open>_weekday_sessions\<close>.\<close>

function weekday_loop :: "date \<Rightarrow> date \<Rightarrow> int \<Rightarrow> int \<Rightarrow> date set \<Rightarrow> market_session list" where
  "weekday_loop current end_date close_us ordinal excluded =
     (if current \<le> end_date then
        if weekday current < 5 \<and> current \<notin> excluded
        then \<lparr>ms_ordinal = ordinal, ms_closed_at = combine current close_us 0\<rparr>
               # weekday_loop (current + 1) end_date close_us (ordinal + 1) excluded
        else weekday_loop (current + 1) end_date close_us ordinal excluded
      else [])"
  by pat_completeness auto
termination
  by (relation "measure (\<lambda>(current, end_date, _, _, _). nat (end_date - current + 1))") auto

declare weekday_loop.simps [simp del]

definition weekday_sessions :: "date \<Rightarrow> date \<Rightarrow> int \<Rightarrow> int \<Rightarrow> date set \<Rightarrow> market_session list" where
  "weekday_sessions start end_date close_us first_ordinal excluded =
     weekday_loop start end_date close_us first_ordinal excluded"

definition weekday_sessions_with_stable_anchor ::
    "date \<Rightarrow> date \<Rightarrow> date \<Rightarrow> int \<Rightarrow> int \<Rightarrow> date set \<Rightarrow> market_session list" where
  "weekday_sessions_with_stable_anchor start anchor end_date close_us anchor_ordinal excluded =
     (let preceding = weekday_sessions start (anchor - 1) close_us 0 excluded
      in weekday_sessions start end_date close_us (anchor_ordinal - int (length preceding)) excluded)"

definition utc_at :: "int \<Rightarrow> int \<Rightarrow> int \<Rightarrow> int \<Rightarrow> datetime" where
  "utc_at y m d h = combine (ymd2ord y m d) (h * us_per_hour) 0"

definition terminal_range :: "int \<Rightarrow> date set \<Rightarrow> market_session list" where
  "terminal_range close_hour excluded =
     weekday_sessions_with_stable_anchor (ymd2ord 2032 1 1) (ymd2ord 2037 1 1)
       (ymd2ord 2050 12 31) (close_hour * us_per_hour) 1000000 excluded"

definition capital_calendar_v1 :: synthetic_market_calendar where
  "capital_calendar_v1 =
     \<lparr>cal_version_id = ''synthetic-capital-calendar-v1'',
      cal_sessions = map (\<lambda>(index, offset).
        \<lparr>ms_ordinal = 7101 + int index, ms_closed_at = plus_days (utc_at 2042 5 20 15) offset\<rparr>)
        (enumerate 0 ([0, 1, 2] @
          concat (map (\<lambda>week. map (\<lambda>day. 5 + week * 7 + day) [0, 1, 2, 3, 4])
            [0, 1, 2, 3, 4, 5, 6, 7, 8, 9, 10, 11]))),
      cal_monthly_selection_cutoffs = [],
      cal_terminal_session_coverage_through = ymd2ord 2050 12 31,
      cal_terminal_sessions = terminal_range 15 {}\<rparr>"

definition market_calendar_v1 :: synthetic_market_calendar where
  "market_calendar_v1 =
     \<lparr>cal_version_id = ''synthetic-market-calendar-v1'',
      cal_sessions = map (\<lambda>(ordinal, month, day).
        \<lparr>ms_ordinal = ordinal, ms_closed_at = utc_at 2042 month day 15\<rparr>)
        [(6101, 5, 20), (6102, 5, 21), (6103, 5, 22), (6104, 5, 25), (6105, 5, 26), (6106, 5, 27),
         (6107, 5, 28), (6108, 5, 29), (6109, 6, 1), (6110, 6, 2), (6111, 6, 3), (6112, 6, 4),
         (6113, 6, 5), (6114, 6, 8), (6115, 6, 9), (6116, 6, 10), (6117, 6, 11), (6118, 6, 12),
         (6119, 6, 15), (6120, 6, 16), (6121, 6, 17)],
      cal_monthly_selection_cutoffs = [utc_at 2042 6 17 16],
      cal_terminal_session_coverage_through = ymd2ord 2050 12 31,
      cal_terminal_sessions = terminal_range 15 {ymd2ord 2042 6 6}\<rparr>"

definition market_calendar_v2 :: synthetic_market_calendar where
  "market_calendar_v2 =
     \<lparr>cal_version_id = ''synthetic-market-calendar-v2'',
      cal_sessions = weekday_sessions (ymd2ord 2042 5 20) (ymd2ord 2042 8 26) (15 * us_per_hour)
        6101 {ymd2ord 2042 6 6},
      cal_monthly_selection_cutoffs = [utc_at 2042 6 17 16],
      cal_terminal_session_coverage_through = ymd2ord 2050 12 31,
      cal_terminal_sessions = terminal_range 15 {ymd2ord 2042 6 6}\<rparr>"

definition calendar_v1 :: synthetic_market_calendar where
  "calendar_v1 =
     \<lparr>cal_version_id = ''synthetic-calendar-v1'',
      cal_sessions = map (\<lambda>(index, offset).
        \<lparr>ms_ordinal = 101 + int index, ms_closed_at = plus_days (utc_at 2046 7 2 8) offset\<rparr>)
        (enumerate 0 (filter (\<lambda>offset. weekday (ymd2ord 2046 7 2) < 5 \<and>
            weekday (ymd2ord 2046 7 2 + offset) < 5) (map int [0..<30]))),
      cal_monthly_selection_cutoffs = [],
      cal_terminal_session_coverage_through = ymd2ord 2050 12 31,
      cal_terminal_sessions = terminal_range 8 {}\<rparr>"

definition synthetic_market_calendars :: "synthetic_market_calendar list" where
  "synthetic_market_calendars =
     [capital_calendar_v1, market_calendar_v1, market_calendar_v2, calendar_v1]"

definition find_market_calendar :: "str \<Rightarrow> synthetic_market_calendar option" where
  "find_market_calendar version_id =
     find (\<lambda>calendar. cal_version_id calendar = version_id) synthetic_market_calendars"

subsection \<open>Resolving dates and cutoffs\<close>

definition six_month_terminal_evaluation_at :: "datetime \<Rightarrow> str \<Rightarrow> str + datetime" where
  "six_month_terminal_evaluation_at value market_calendar_version =
     (let anchor = to_utc value;
          n = dt_date anchor;
          month_index = year_of n * 12 + month_of n - 1 + 6;
          year = month_index div 12;
          month_zero = month_index mod 12;
          target = replace_ymd anchor year (month_zero + 1)
            (min (day_of n) (days_in_month year (month_zero + 1)))
      in case find_market_calendar market_calendar_version of
           None \<Rightarrow> Inl ''MARKET_CALENDAR_VERSION_UNSUPPORTED''
         | Some calendar \<Rightarrow>
             if dt_date target > cal_terminal_session_coverage_through calendar
             then Inl ''MARKET_CALENDAR_TERMINAL_SESSION_UNAVAILABLE''
             else (case last_terminal_session_on_or_before calendar (dt_date target) of
                     None \<Rightarrow> Inl ''MARKET_CALENDAR_TERMINAL_SESSION_UNAVAILABLE''
                   | Some session \<Rightarrow> Inr (ms_closed_at session)))"

definition market_session_close_on :: "date \<Rightarrow> str \<Rightarrow> datetime option" where
  "market_session_close_on market_date market_calendar_version =
     (case find_market_calendar market_calendar_version of
        None \<Rightarrow> None
      | Some calendar \<Rightarrow>
          let sessions = (if in_active_coverage calendar market_date
                          then cal_sessions calendar else extended_sessions calendar);
              dates = map session_date sessions;
              index = bisect_left dates market_date
          in if index < length sessions \<and> dates ! index = market_date
             then Some (ms_closed_at (sessions ! index)) else None)"

text \<open>\<open>sessions[index] if index < len(sessions) else None\<close> at \<open>bisect_right(closes, later)\<close>.\<close>

definition session_closing_after :: "market_session list \<Rightarrow> int \<Rightarrow> market_session option" where
  "session_closing_after sessions later =
     (let index = bisect_right (map session_close sessions) later
      in if index < length sessions then Some (sessions ! index) else None)"

definition next_market_session_open_after :: "datetime \<Rightarrow> str \<Rightarrow> str + datetime" where
  "next_market_session_open_after value market_calendar_version =
     (case find_market_calendar market_calendar_version of
        None \<Rightarrow> Inl ''MARKET_CALENDAR_VERSION_UNSUPPORTED''
      | Some calendar \<Rightarrow>
          let cutoff_date = dt_date (to_utc value);
              active = in_active_coverage calendar cutoff_date;
              sessions = (if active then cal_sessions calendar else extended_sessions calendar);
              later = instant (plus_hours value 7);
              session = session_closing_after sessions later;
              session' =
                (if session = None \<and> active \<and> cal_terminal_sessions calendar \<noteq> []
                 then session_closing_after (cal_terminal_sessions calendar) later
                 else session)
          in if (case terminal_session_coverage_from calendar of
                   None \<Rightarrow> False | Some first \<Rightarrow> cutoff_date < first)
             then Inl ''MARKET_CALENDAR_ENTRY_WINDOW_UNAVAILABLE''
             else (case session' of
                     None \<Rightarrow> Inl ''MARKET_CALENDAR_ENTRY_WINDOW_UNAVAILABLE''
                   | Some s \<Rightarrow> Inr (plus_hours (ms_closed_at s) (-7))))"

subsection \<open>The weekday loop\<close>

definition trading_day :: "date set \<Rightarrow> date \<Rightarrow> bool" where
  "trading_day excluded d \<longleftrightarrow> weekday d < 5 \<and> d \<notin> excluded"

lemma weekday_loop_spec:
  "0 \<le> us \<Longrightarrow> us < us_per_day \<Longrightarrow>
    map session_date (weekday_loop s e us o1 X) = filter (trading_day X) [s..e] \<and>
    map session_close (weekday_loop s e us o1 X) =
      map (\<lambda>d. (d - epoch_ordinal) * us_per_day + us) (filter (trading_day X) [s..e]) \<and>
    map ms_ordinal (weekday_loop s e us o1 X) =
      map (\<lambda>i. o1 + int i) [0..<length (filter (trading_day X) [s..e])]"
proof (induction s e us o1 X rule: weekday_loop.induct)
  case (1 s e us o1 X)
  show ?case
  proof (cases "s \<le> e")
    case True
    then have upto: "[s..e] = s # [s + 1..e]" by (rule upto_rec1)
    show ?thesis
    proof (cases "trading_day X s")
      case day: True
      with True have step: "weekday_loop s e us o1 X =
          \<lparr>ms_ordinal = o1, ms_closed_at = combine s us 0\<rparr> # weekday_loop (s + 1) e us (o1 + 1) X"
        by (simp add: weekday_loop.simps [of s] trading_day_def)
      have shift: "map (\<lambda>i. o1 + 1 + int i) [0..<n] = map (\<lambda>i. o1 + int i) [1..<Suc n]" for n
        by (simp add: map_Suc_upt [symmetric] del: upt_Suc)
      from day True "1.IH"(1) "1.prems" show ?thesis
        by (simp add: step upto trading_day_def session_date_def session_close_def
            instant_combine shift upt_conv_Cons [of 0] del: upt_Suc)
    next
      case False
      with True have step: "weekday_loop s e us o1 X = weekday_loop (s + 1) e us o1 X"
        by (auto simp: weekday_loop.simps [of s] trading_day_def)
      from False True "1.IH"(2) "1.prems" show ?thesis by (simp add: step upto trading_day_def)
    qed
  next
    case False
    then show ?thesis by (simp add: weekday_loop.simps [of s])
  qed
qed

lemma sorted_trading_days: "sorted_wrt (<) (filter (trading_day X) [s..e])"
  by (rule sorted_wrt_filter) (simp add: sorted_wrt_upto)

lemma weekday_session_facts:
  assumes "0 \<le> us" and "us < us_per_day"
  shows weekday_session_dates:
      "map session_date (weekday_sessions s e us o1 X) = filter (trading_day X) [s..e]"
    and weekday_session_closes:
      "map session_close (weekday_sessions s e us o1 X) =
        map (\<lambda>d. (d - epoch_ordinal) * us_per_day + us) (filter (trading_day X) [s..e])"
    and weekday_session_ordinals:
      "map ms_ordinal (weekday_sessions s e us o1 X) =
        map (\<lambda>i. o1 + int i) [0..<length (filter (trading_day X) [s..e])]"
  using weekday_loop_spec [OF assms, of s e o1 X] by (simp_all add: weekday_sessions_def)

subsection \<open>Well-formed calendars\<close>

definition sessions_ordered :: "market_session list \<Rightarrow> bool" where
  "sessions_ordered ss \<longleftrightarrow>
     sorted_wrt (<) (map session_date ss) \<and> (\<forall>s \<in> set ss. utcoffset (ms_closed_at s) = 0)"

definition wf_calendar :: "synthetic_market_calendar \<Rightarrow> bool" where
  "wf_calendar c \<longleftrightarrow> sessions_ordered (cal_sessions c) \<and> sessions_ordered (cal_terminal_sessions c)"

lemma utc_date_less:
  assumes "dt_date a < dt_date b" and "utcoffset a = 0" and "utcoffset b = 0"
  shows "instant a < instant b"
  using assms by (simp add: dt_date_def us_per_day_def)

lemma sessions_ordered_dates: "sessions_ordered ss \<Longrightarrow> sorted (map session_date ss)"
  by (auto simp: sessions_ordered_def strict_sorted_imp_sorted)

lemma sessions_ordered_closes:
  assumes "sessions_ordered ss"
  shows "sorted_wrt (<) (map session_close ss)" and "sorted (map session_close ss)"
proof -
  have "sorted_wrt (\<lambda>a b. session_date a < session_date b) ss"
    using assms by (simp add: sessions_ordered_def sorted_wrt_map)
  then have "sorted_wrt (\<lambda>a b. session_close a < session_close b) ss"
    by (rule sorted_wrt_mono_rel [rotated])
      (use assms in \<open>auto simp: sessions_ordered_def session_date_def session_close_def utc_date_less\<close>)
  then show "sorted_wrt (<) (map session_close ss)" by (simp add: sorted_wrt_map)
  then show "sorted (map session_close ss)" by (simp add: strict_sorted_imp_sorted)
qed

lemma sessions_ordered_append:
  "sessions_ordered (xs @ ys) \<longleftrightarrow> sessions_ordered xs \<and> sessions_ordered ys \<and>
     (\<forall>x \<in> set xs. \<forall>y \<in> set ys. session_date x < session_date y)"
  by (auto simp: sessions_ordered_def sorted_wrt_append)

lemma sessions_ordered_take: "sessions_ordered ss \<Longrightarrow> sessions_ordered (take n ss)"
  by (metis append_take_drop_id sessions_ordered_append)

lemma sessions_ordered_drop: "sessions_ordered ss \<Longrightarrow> sessions_ordered (drop n ss)"
  by (metis append_take_drop_id sessions_ordered_append)

lemma weekday_loop_utc:
  "x \<in> set (weekday_loop s e us o1 X) \<Longrightarrow> utcoffset (ms_closed_at x) = 0"
proof (induction s e us o1 X rule: weekday_loop.induct)
  case (1 s e us o1 X)
  then show ?case
    by (subst (asm) weekday_loop.simps) (auto simp: combine_def split: if_splits)
qed

lemma weekday_sessions_ordered:
  assumes "0 \<le> us" and "us < us_per_day"
  shows "sessions_ordered (weekday_sessions s e us o1 X)"
  using assms sorted_trading_days [of X s e] weekday_loop_utc
  by (auto simp: sessions_ordered_def weekday_session_dates) (auto simp: weekday_sessions_def)

lemma offsets_ordered:
  assumes "sorted_wrt (<) offsets" and "utcoffset base = 0"
  shows "sessions_ordered (map (\<lambda>(index, offset).
    \<lparr>ms_ordinal = k + int index, ms_closed_at = plus_days base offset\<rparr>) (enumerate n offsets))"
proof -
  have dates: "dt_date (plus_days base d) = dt_date base + d" for d
    using assms(2) by (simp add: dt_date_def plus_days_def us_per_day_def)
  have "sorted_wrt (\<lambda>x y. snd x < snd y) (enumerate n offsets)"
    using assms(1) sorted_wrt_map [of "(<)" snd "enumerate n offsets"] by simp
  then show ?thesis
    using assms(2) by (auto simp: sessions_ordered_def session_date_def sorted_wrt_map
        case_prod_beta dates) (simp add: plus_days_def)
qed

lemma terminal_range_ordered: "h \<in> {0..23} \<Longrightarrow> sessions_ordered (terminal_range h X)"
  by (simp add: terminal_range_def weekday_sessions_with_stable_anchor_def Let_def
      weekday_sessions_ordered us_per_hour_def us_per_day_def)

lemma combine_offset [simp]: "utcoffset (combine d us off) = off"
  by (simp add: combine_def)

lemma utc_at_offset [simp]: "utcoffset (utc_at y m d h) = 0"
  by (simp add: utc_at_def combine_def)

lemma extended_sessions_ordered: "wf_calendar c \<Longrightarrow> sessions_ordered (extended_sessions c)"
  by (simp add: wf_calendar_def extended_sessions_def)

lemma wf_capital_calendar_v1: "wf_calendar capital_calendar_v1"
  unfolding wf_calendar_def capital_calendar_v1_def
  by (simp add: terminal_range_ordered del: enumerate_simps)
    (rule offsets_ordered; simp)

lemma wf_calendar_v1: "wf_calendar calendar_v1"
  unfolding wf_calendar_def calendar_v1_def
  by (auto simp: terminal_range_ordered del: enumerate_simps
      intro!: offsets_ordered sorted_wrt_filter simp: sorted_wrt_map)

lemma wf_market_calendar_v1: "wf_calendar market_calendar_v1"
proof -
  have "sessions_ordered (cal_sessions market_calendar_v1)"
    by (simp add: market_calendar_v1_def sessions_ordered_def session_date_def utc_at_def
        us_per_hour_def us_per_day_def ymd2ord_def days_before_month_def is_leap_def
        nth_Cons_numeral combine_offset)
  moreover have "sessions_ordered (cal_terminal_sessions market_calendar_v1)"
    by (simp add: market_calendar_v1_def terminal_range_ordered)
  ultimately show ?thesis by (simp add: wf_calendar_def)
qed

lemma wf_market_calendar_v2: "wf_calendar market_calendar_v2"
  unfolding wf_calendar_def market_calendar_v2_def
  by (simp add: terminal_range_ordered weekday_sessions_ordered us_per_hour_def us_per_day_def)

lemma wf_market_calendars: "find_market_calendar v = Some c \<Longrightarrow> wf_calendar c"
  using wf_capital_calendar_v1 wf_market_calendar_v1 wf_market_calendar_v2 wf_calendar_v1
  by (auto simp: find_market_calendar_def synthetic_market_calendars_def split: if_splits)

lemma covered_sessions_ordered:
  assumes wf: "wf_calendar c"
  shows "sessions_ordered (covered_sessions c)"
proof (cases "cal_sessions c = []")
  case True
  with wf show ?thesis by (simp add: covered_sessions_def wf_calendar_def)
next
  case False
  let ?ext = "extended_sessions c"
  define before after where "before = bisect_left (terminal_dates c) (hd (session_dates c))"
    and "after = bisect_right (terminal_dates c) (last (session_dates c))"
  have act: "sessions_ordered (cal_sessions c)" and ext: "sessions_ordered ?ext"
    using wf by (auto simp: wf_calendar_def extended_sessions_ordered)
  have span: "hd (session_dates c) \<le> session_date x" "session_date x \<le> last (session_dates c)"
    if "x \<in> set (cal_sessions c)" for x
  proof -
    have ss: "sorted (session_dates c)" and mem: "session_date x \<in> set (session_dates c)"
      using sessions_ordered_dates [OF act] that by (auto simp: session_dates_def)
    show "hd (session_dates c) \<le> session_date x"
      using ss mem by (cases "session_dates c") auto
    show "session_date x \<le> last (session_dates c)"
      using ss mem by (cases "session_dates c" rule: rev_cases) (auto simp: sorted_append)
  qed
  have pre: "session_date x < hd (session_dates c)" if "x \<in> set (take before ?ext)" for x
    using that by (auto simp: in_set_conv_nth before_def terminal_dates_def)
      (metis bisect_left_before bisect_left_le_length length_map nth_map order_less_le_trans)
  have post: "last (session_dates c) < session_date x" if "x \<in> set (drop after ?ext)" for x
  proof -
    from that obtain i where "after + i < length ?ext" and "x = ?ext ! (after + i)"
      by (auto simp: in_set_conv_nth) (metis add.commute less_diff_conv)
    with bisect_right_after [of "terminal_dates c" "last (session_dates c)" "after + i"]
    show ?thesis using sessions_ordered_dates [OF ext] by (simp add: after_def terminal_dates_def)
  qed
  have "covered_sessions c = take before ?ext @ cal_sessions c @ drop after ?ext"
    using False by (simp add: covered_sessions_def before_def after_def Let_def)
  moreover have "hd (session_dates c) \<le> last (session_dates c)"
    using span False by (metis last_in_set order_trans)
  ultimately show ?thesis
    using act sessions_ordered_take [OF ext] sessions_ordered_drop [OF ext] pre post span
    by (fastforce simp: sessions_ordered_append)
qed

lemma covered_closes_sorted: "wf_calendar c \<Longrightarrow> sorted (covered_closes c)"
  by (simp add: covered_closes_def sessions_ordered_closes(2) [OF covered_sessions_ordered])

lemma nth_filter_upto:
  fixes s e :: int
  assumes "i < length (filter P [s..e])"
  shows "length (filter P [s..filter P [s..e] ! i - 1]) = i"
proof -
  define xs d where "xs = filter P [s..e]" and "d = xs ! i"
  have i: "i < length xs" using assms by (simp add: xs_def)
  then have "d \<in> set xs" by (simp add: d_def)
  then have d: "s \<le> d" "d \<le> e" "P d" by (auto simp: xs_def)
  then have "xs = filter P ([s..d - 1] @ d # [d + 1..e])"
    unfolding xs_def by (metis append_Cons append_Nil append_assoc upto_split3)
  then have xs: "xs = filter P [s..d - 1] @ d # filter P [d + 1..e]" using d by simp
  define A where "A = filter P [s..d - 1]"
  from xs have "xs ! length A = d" "length A < length xs"
    by (simp_all add: A_def nth_append)
  then have "xs ! length A = xs ! i" "length A < length xs" by (simp_all add: d_def)
  moreover have "distinct xs" by (simp add: xs_def)
  ultimately have "length A = i" using i nth_eq_iff_index_eq by blast
  then show ?thesis by (simp add: A_def d_def xs_def)
qed

lemma weekday_session_nth:
  assumes us: "0 \<le> us" "us < us_per_day" and x: "x \<in> set (weekday_sessions s e us o1 X)"
  shows "ms_ordinal x = o1 + int (length (filter (trading_day X) [s..session_date x - 1])) \<and>
    s \<le> session_date x \<and> session_date x \<le> e \<and> trading_day X (session_date x)"
proof -
  let ?ss = "weekday_sessions s e us o1 X" and ?ds = "filter (trading_day X) [s..e]"
  from x obtain i where i: "i < length ?ss" "x = ?ss ! i" by (auto simp: in_set_conv_nth)
  have len: "length ?ss = length ?ds"
    using weekday_session_dates [OF us] by (metis length_map)
  have date: "session_date x = ?ds ! i"
    using i weekday_session_dates [OF us] by (metis nth_map)
  have "map ms_ordinal ?ss ! i = map (\<lambda>i. o1 + int i) [0..<length ?ds] ! i"
    by (simp only: weekday_session_ordinals [OF us])
  then have ord: "ms_ordinal x = o1 + int i" using i len by simp
  have "?ds ! i \<in> set ?ds" using i len by (intro nth_mem) simp
  then have "s \<le> ?ds ! i \<and> ?ds ! i \<le> e \<and> trading_day X (?ds ! i)"
    by (simp only: set_filter mem_Collect_eq set_upto atLeastAtMost_iff)
  moreover have "length (filter (trading_day X) [s..?ds ! i - 1]) = i"
    by (rule nth_filter_upto) (use i len in simp)
  ultimately show ?thesis unfolding date ord by (simp only:)
qed

text \<open>The saved sessions of the first market calendar are not weekdays: the fourth one closes on a Sunday,
  while the terminal sessions of the same calendar are weekdays only.\<close>

lemma saved_sessions_on_sunday:
  "\<exists>session \<in> set (cal_sessions market_calendar_v1). weekday (session_date session) = 6"
proof -
  have "weekday (dt_date (utc_at 2042 5 25 15)) = 6" by code_simp
  then show ?thesis by (simp add: market_calendar_v1_def session_date_def)
qed

text \<open>\<open>_weekday_sessions\<close> builds exactly one session for every weekday of the closed date
  range that is not excluded, in ascending date order, with consecutive ordinals.\<close>

lemma weekday_sessions_complete:
  assumes "0 \<le> us" and "us < us_per_day"
  shows "map session_date (weekday_sessions s e us o1 X) =
      filter (\<lambda>d. weekday d < 5 \<and> d \<notin> X) [s..e] \<and>
    map ms_ordinal (weekday_sessions s e us o1 X) =
      map (\<lambda>i. o1 + int i) [0..<length (weekday_sessions s e us o1 X)]"
proof -
  have "length (weekday_sessions s e us o1 X) = length (filter (trading_day X) [s..e])"
    using weekday_session_dates [OF assms] by (metis length_map)
  then show ?thesis
    using weekday_session_dates [OF assms, of s e o1 X] weekday_session_ordinals [OF assms, of s e o1 X]
    by (simp add: trading_day_def [abs_def])
qed

theorem weekday_sessions_complete_witness:
  "(0::int) \<le> 0 \<and> 0 < us_per_day \<and>
    map session_date (weekday_sessions 5 9 0 100 {6}) = filter (\<lambda>d. weekday d < 5 \<and> d \<notin> {6}) [5..9]"
  using weekday_sessions_complete [of 0 5 9 100 "{6}"] by (simp add: us_per_day_def)

text \<open>extending a calendar backwards keeps the session identities at its old anchor: whatever
  the start date, the ordinal of a session on or after the anchor is the anchor's ordinal plus the
  number of trading days from the anchor up to that session.\<close>

lemma stable_anchor_ordinals:
  assumes "0 \<le> us" and "us < us_per_day" and "start \<le> anchor"
    and "x \<in> set (weekday_sessions_with_stable_anchor start anchor e us k X)"
    and "anchor \<le> session_date x"
  shows "ms_ordinal x =
    k + int (length (filter (\<lambda>d. weekday d < 5 \<and> d \<notin> X) [anchor..session_date x - 1]))"
proof -
  let ?f = "filter (trading_day X)"
  let ?n = "int (length (weekday_sessions start (anchor - 1) us 0 X))"
  have n: "?n = int (length (?f [start..anchor - 1]))"
    using weekday_session_dates [OF assms(1,2)] by (metis length_map)
  have "ms_ordinal x = k - ?n + int (length (?f [start..session_date x - 1]))"
    using assms(4) weekday_session_nth [OF assms(1,2)]
    by (simp add: weekday_sessions_with_stable_anchor_def Let_def)
  moreover have "[start..session_date x - 1] = [start..anchor - 1] @ [anchor..session_date x - 1]"
    using assms(3,5) upto_split1 [of start anchor "session_date x - 1"]
    by (cases "session_date x = anchor") auto
  ultimately show ?thesis by (simp add: n trading_day_def [abs_def])
qed

theorem stable_anchor_ordinals_witness:
  "\<exists>x \<in> set (weekday_sessions_with_stable_anchor 1 3 5 0 50 {}). session_date x = 4 \<and>
     ms_ordinal x = 50 + int (length (filter (\<lambda>d. weekday d < 5 \<and> d \<notin> {}) [3..session_date x - 1]))"
proof -
  have us: "(0::int) \<le> 0" "0 < us_per_day" by (simp_all add: us_per_day_def)
  have "4 \<in> set (map session_date (weekday_sessions_with_stable_anchor 1 3 5 0 50 {}))"
    unfolding weekday_sessions_with_stable_anchor_def Let_def weekday_session_dates [OF us]
    by (simp add: trading_day_def weekday_def)
  then obtain x where x: "x \<in> set (weekday_sessions_with_stable_anchor 1 3 5 0 50 {})"
    and d: "session_date x = 4" by auto
  have "(1::int) \<le> 3" "3 \<le> session_date x" using d by auto
  from stable_anchor_ordinals [OF us this(1) x this(2)] x d show ?thesis by blast
qed

subsection \<open>Sessions relative to an instant\<close>

lemma instant_plus_hours: "instant (plus_hours t h) = instant t + h * us_per_hour"
  by (simp add: plus_hours_def)

text \<open>The first session of an ordered list whose close is strictly after an instant.\<close>

lemma session_closing_after_first:
  assumes ord: "sessions_ordered ss" and s: "session_closing_after ss v = Some s"
  shows "s \<in> set ss \<and> v < session_close s \<and>
    (\<forall>s' \<in> set ss. v < session_close s' \<longrightarrow> session_close s \<le> session_close s')"
proof -
  let ?cs = "map session_close ss"
  define n where "n = bisect_right ?cs v"
  have n: "n < length ss" and sn: "s = ss ! n"
    using s by (auto simp: session_closing_after_def Let_def n_def split: if_splits)
  have sorted: "sorted ?cs" using ord by (rule sessions_ordered_closes(2))
  have "v < session_close s"
    using bisect_right_after [OF sorted, of v n] n by (simp add: n_def sn)
  moreover have "session_close s \<le> session_close s'" if "s' \<in> set ss" "v < session_close s'" for s'
  proof -
    from that obtain j where j: "j < length ss" "s' = ss ! j" by (auto simp: in_set_conv_nth)
    have "n \<le> j"
    proof (rule ccontr)
      assume "\<not> n \<le> j"
      then have "?cs ! j \<le> v" by (intro bisect_right_before) (simp add: n_def)
      with that j show False by simp
    qed
    with sorted_nth_mono [OF sorted this] j show ?thesis by (simp add: sn)
  qed
  ultimately show ?thesis using n sn by simp
qed

text \<open>\<open>next_market_session_open_after\<close> returns an open strictly after the cutoff, seven hours
  before the close of a saved session, and no session of the list it was taken from opens between
  the cutoff and that open.\<close>

lemma next_open_is_first:
  assumes "next_market_session_open_after t v = Inr r"
  shows "\<exists>c ss s. find_market_calendar v = Some c \<and> ss \<in> {cal_sessions c, cal_terminal_sessions c} \<and>
    s \<in> set ss \<and> r = plus_hours (ms_closed_at s) (-7) \<and> t < r \<and>
    (\<forall>s' \<in> set ss. t < plus_hours (ms_closed_at s') (-7) \<longrightarrow> r \<le> plus_hours (ms_closed_at s') (-7))"
proof -
  from assms obtain c where c: "find_market_calendar v = Some c"
    by (auto simp: next_market_session_open_after_def split: option.splits)
  let ?later = "instant (plus_hours t 7)"
  have wf: "wf_calendar c" using c by (rule wf_market_calendars)
  from assms c obtain ss s where ss: "ss \<in> {cal_sessions c, cal_terminal_sessions c}"
    and s: "session_closing_after ss ?later = Some s" and r: "r = plus_hours (ms_closed_at s) (-7)"
    by (force simp: next_market_session_open_after_def Let_def extended_sessions_def
        split: option.splits if_splits)
  have "sessions_ordered ss" using ss wf by (auto simp: wf_calendar_def)
  from session_closing_after_first [OF this s] c ss r show ?thesis
    by (intro exI [of _ c] exI [of _ ss] exI [of _ s])
      (auto simp: instant_plus_hours session_close_def)
qed

lemmas calendar_eval = ymd2ord_def days_before_year_def days_before_month_def days_in_month_def
  is_leap_def nth_Cons_numeral us_per_hour_def us_per_day_def epoch_ordinal_def

lemma terminal_range_first:
  assumes "ymd2ord 2032 1 1 \<notin> X" and "h \<in> {0..23}"
  shows "terminal_range h X \<noteq> []" and "session_date (hd (terminal_range h X)) = ymd2ord 2032 1 1"
  using assms by (simp_all add: terminal_range_def weekday_sessions_with_stable_anchor_def
      weekday_sessions_def Let_def weekday_loop.simps [of 741808 748747] weekday_def session_date_def
      calendar_eval)

lemma next_open_example:
  "next_market_session_open_after (utc_at 2042 5 20 20) ''synthetic-market-calendar-v1'' =
     Inr (utc_at 2042 5 21 8)"
proof -
  let ?c = market_calendar_v1
  have cal: "find_market_calendar ''synthetic-market-calendar-v1'' = Some ?c"
    by (simp add: find_market_calendar_def synthetic_market_calendars_def capital_calendar_v1_def
        market_calendar_v1_def)
  have terminal: "cal_terminal_sessions ?c \<noteq> []"
    "session_date (hd (cal_terminal_sessions ?c)) = ymd2ord 2032 1 1"
    by (simp_all add: market_calendar_v1_def terminal_range_first calendar_eval)
  then have "terminal_session_coverage_from ?c = Some (ymd2ord 2032 1 1)"
    by (cases "cal_terminal_sessions ?c")
      (simp_all add: terminal_session_coverage_from_def extended_sessions_def)
  moreover have "in_active_coverage ?c (dt_date (to_utc (utc_at 2042 5 20 20)))"
    by (simp add: in_active_coverage_def market_calendar_v1_def session_date_def dt_date_def
        to_utc_def utc_at_def combine_def calendar_eval)
  moreover have "session_closing_after (cal_sessions ?c) (instant (plus_hours (utc_at 2042 5 20 20) 7)) =
      Some \<lparr>ms_ordinal = 6102, ms_closed_at = utc_at 2042 5 21 15\<rparr>"
    by (simp add: session_closing_after_def market_calendar_v1_def bisect_right_def session_close_def
        utc_at_def combine_def plus_hours_def calendar_eval)
  ultimately show ?thesis
    by (simp add: next_market_session_open_after_def cal Let_def)
      (simp add: dt_date_def to_utc_def utc_at_def combine_def plus_hours_def calendar_eval)
qed

theorem next_open_is_first_witness:
  "\<exists>c ss s. find_market_calendar ''synthetic-market-calendar-v1'' = Some c \<and>
    ss \<in> {cal_sessions c, cal_terminal_sessions c} \<and> s \<in> set ss \<and>
    utc_at 2042 5 21 8 = plus_hours (ms_closed_at s) (-7) \<and> utc_at 2042 5 20 20 < utc_at 2042 5 21 8"
  using next_open_is_first [OF next_open_example] by blast

text \<open>\<open>recent_completed_sessions\<close> returns the latest completed covered sessions: at most
  \<open>count\<close> of them, every one closed by the instant, and a covered session closed by the instant is
  left out only when \<open>count\<close> strictly later ones are returned.\<close>

lemma recent_completed_sessions_latest:
  assumes "wf_calendar c" and "0 < count"
    and "dt_date (to_utc t) \<le> cal_terminal_session_coverage_through c"
    and r: "r = recent_completed_sessions c t count"
  shows "length r \<le> nat count \<and>
    (\<forall>s \<in> set r. s \<in> set (covered_sessions c) \<and> ms_closed_at s \<le> t) \<and>
    (\<forall>s \<in> set (covered_sessions c). ms_closed_at s \<le> t \<and> s \<notin> set r \<longrightarrow>
      length r = nat count \<and> (\<forall>s' \<in> set r. ms_closed_at s < ms_closed_at s'))"
proof (intro conjI)
  let ?ss = "covered_sessions c" and ?cs = "covered_closes c"
  define n where "n = bisect_right ?cs (instant t)"
  have n_le: "n \<le> length ?ss"
    using bisect_right_le_length [of ?cs "instant t"] by (simp add: n_def covered_closes_def)
  have r': "r = drop (n - nat count) (take n ?ss)"
    using assms by (simp add: recent_completed_sessions_def Let_def n_def)
  show "length r \<le> nat count" using n_le by (simp add: r')
  have nth_r: "\<exists>i. n - nat count \<le> i \<and> i < n \<and> s = ?ss ! i" if "s \<in> set r" for s
    using that n_le by (auto simp: r' in_set_conv_nth) (metis add.commute le_add1 less_diff_conv)
  show "\<forall>s \<in> set r. s \<in> set ?ss \<and> ms_closed_at s \<le> t"
  proof
    fix s assume "s \<in> set r"
    from nth_r [OF this] obtain i where "i < n" "s = ?ss ! i" by blast
    then show "s \<in> set ?ss \<and> ms_closed_at s \<le> t"
      using n_le bisect_right_before [of i ?cs "instant t", folded n_def]
      by (simp add: covered_closes_def session_close_def)
  qed
  have strict: "session_close (?ss ! i) < session_close (?ss ! j)" if "i < j" "j < length ?ss" for i j
    using sessions_ordered_closes(1) [OF covered_sessions_ordered [OF assms(1)]] that
    by (simp add: sorted_wrt_map sorted_wrt_iff_nth_less)
  show "\<forall>s \<in> set ?ss. ms_closed_at s \<le> t \<and> s \<notin> set r \<longrightarrow>
      length r = nat count \<and> (\<forall>s' \<in> set r. ms_closed_at s < ms_closed_at s')"
  proof (intro ballI impI, elim conjE)
    fix s assume "s \<in> set ?ss" and closed: "ms_closed_at s \<le> t" and out: "s \<notin> set r"
    then obtain i where i: "i < length ?ss" "s = ?ss ! i" by (auto simp: in_set_conv_nth)
    have "i < n"
    proof (rule ccontr)
      assume "\<not> i < n"
      then have "instant t < ?cs ! i"
        using covered_closes_sorted [OF assms(1)] i
        by (intro bisect_right_after) (auto simp: n_def covered_closes_def)
      with closed i show False by (simp add: covered_closes_def session_close_def)
    qed
    moreover have "\<not> n - nat count \<le> i"
    proof
      assume le: "n - nat count \<le> i"
      have "r ! (i - (n - nat count)) = s" "i - (n - nat count) < length r"
        using le \<open>i < n\<close> n_le i by (auto simp: r')
      with out show False using nth_mem by blast
    qed
    ultimately show "length r = nat count \<and> (\<forall>s' \<in> set r. ms_closed_at s < ms_closed_at s')"
      using n_le nth_r strict i by (fastforce simp: r' session_close_def)
  qed
qed

theorem recent_completed_sessions_latest_witness:
  "length (recent_completed_sessions
     \<lparr>cal_version_id = ''v'', cal_sessions =
        [\<lparr>ms_ordinal = 1, ms_closed_at = Datetime 10 0\<rparr>,
         \<lparr>ms_ordinal = 2, ms_closed_at = Datetime (us_per_day + 10) 0\<rparr>],
      cal_monthly_selection_cutoffs = [], cal_terminal_session_coverage_through = 800000,
      cal_terminal_sessions = []\<rparr> (Datetime (us_per_day + 20) 0) 1) \<le> nat 1"
proof -
  let ?c = "\<lparr>cal_version_id = ''v'', cal_sessions =
        [\<lparr>ms_ordinal = 1, ms_closed_at = Datetime 10 0\<rparr>,
         \<lparr>ms_ordinal = 2, ms_closed_at = Datetime (us_per_day + 10) 0\<rparr>],
      cal_monthly_selection_cutoffs = [], cal_terminal_session_coverage_through = 800000,
      cal_terminal_sessions = []\<rparr>"
  have "wf_calendar ?c"
    by (simp add: wf_calendar_def sessions_ordered_def session_date_def dt_date_def calendar_eval)
  moreover have "(0::int) < 1" by simp
  moreover have "dt_date (to_utc (Datetime (us_per_day + 20) 0)) \<le>
      cal_terminal_session_coverage_through ?c"
    by (simp add: dt_date_def to_utc_def calendar_eval)
  ultimately show ?thesis
    using recent_completed_sessions_latest [of ?c 1 "Datetime (us_per_day + 20) 0"] by blast
qed

end
