(* ===== verification/Py_Decimal.thy ===== *)
theory Py_Decimal
  imports Prelude
begin

text \<open>
  Python's \<open>decimal.Decimal\<close> under a context of precision \<open>p\<close> with
  \<open>ROUND_HALF_EVEN\<close> (the default rounding, and the one every context of the program
  uses).  A finite \<open>Decimal\<close> is modelled by its numerical value, a rational: the program
  compares, sums and multiplies decimals and never looks at trailing zeros.  Addition,
  subtraction, multiplication and division compute the exact result and round it once to
  \<open>p\<close> significant digits.  The exponent range of the contexts (about a million) is not
  modelled, so there is no overflow; pydantic refuses infinities and NaNs at the boundary.
  \<open>fractions.Fraction\<close> is the rational itself, without rounding.
\<close>

type_synonym decimal = rat

subsection \<open>Half-even rounding to an integer\<close>

definition round_half_even :: "rat \<Rightarrow> int" where
  "round_half_even x =
     (let f = \<lfloor>x\<rfloor>; r = x - of_int f
      in if r < 1/2 then f else if r > 1/2 then f + 1 else if even f then f else f + 1)"

lemma round_half_even_bounds:
  "\<bar>of_int (round_half_even x) - x\<bar> \<le> 1/2"
  unfolding round_half_even_def Let_def
  using floor_correct [of x] by (auto simp: abs_le_iff not_less field_simps)

lemma round_half_even_of_int [simp]: "round_half_even (of_int n) = n"
  by (simp add: round_half_even_def)

lemma round_half_even_mono:
  assumes "x \<le> y"
  shows "round_half_even x \<le> round_half_even y"
proof (cases "\<lfloor>x\<rfloor> = \<lfloor>y\<rfloor>")
  case True
  with assms show ?thesis by (auto simp: round_half_even_def Let_def)
next
  case False
  with floor_mono [OF assms] have lt: "\<lfloor>x\<rfloor> + 1 \<le> \<lfloor>y\<rfloor>" by simp
  have "round_half_even x \<le> \<lfloor>x\<rfloor> + 1" by (simp add: round_half_even_def Let_def)
  moreover have "\<lfloor>y\<rfloor> \<le> round_half_even y" by (simp add: round_half_even_def Let_def)
  ultimately show ?thesis using lt by linarith
qed

subsection \<open>The adjusted exponent\<close>

text \<open>\<open>Decimal.adjusted()\<close> of a positive value: the exponent of its leading digit.\<close>

function adjusted_up :: "rat \<Rightarrow> int" where
  "adjusted_up x = (if x < 10 then 0 else 1 + adjusted_up (x / 10))"
  by pat_completeness auto
termination
proof (relation "measure (\<lambda>x. nat \<lfloor>x\<rfloor>)")
  fix x :: rat assume "\<not> x < 10"
  then have x: "10 \<le> x" by simp
  then have "x / 10 \<le> x - 1" by simp
  then have "\<lfloor>x / 10\<rfloor> \<le> \<lfloor>x\<rfloor> - 1" by (metis floor_diff_one floor_mono)
  moreover have "10 \<le> \<lfloor>x\<rfloor>" using x by (simp add: le_floor_iff)
  ultimately show "(x / 10, x) \<in> measure (\<lambda>x. nat \<lfloor>x\<rfloor>)" by simp
qed simp

function adjusted_down :: "rat \<Rightarrow> int" where
  "adjusted_down x = (if x \<le> 0 \<or> 1 \<le> x then 0 else adjusted_down (x * 10) - 1)"
  by pat_completeness auto
termination
proof (relation "measure (\<lambda>x. nat \<lfloor>1 / x\<rfloor>)")
  fix x :: rat assume "\<not> (x \<le> 0 \<or> 1 \<le> x)"
  then have x: "0 < x" "x < 1" by auto
  then have y: "1 \<le> 1 / x" by simp
  have "\<lfloor>1 / (x * 10)\<rfloor> < \<lfloor>1 / x\<rfloor>"
  proof (cases "1 / (x * 10) < 1")
    case True
    then have "\<lfloor>1 / (x * 10)\<rfloor> \<le> 0" by linarith
    moreover have "1 \<le> \<lfloor>1 / x\<rfloor>" using y by (simp add: le_floor_iff)
    ultimately show ?thesis by linarith
  next
    case False
    then have "10 \<le> 1 / x" using x by (simp add: field_simps)
    then have "1 / (x * 10) \<le> 1 / x - 1" by simp
    then have "\<lfloor>1 / (x * 10)\<rfloor> \<le> \<lfloor>1 / x\<rfloor> - 1" by (metis floor_diff_one floor_mono)
    then show ?thesis by simp
  qed
  moreover have "0 \<le> \<lfloor>1 / (x * 10)\<rfloor>" using x by simp
  ultimately have "nat \<lfloor>1 / (x * 10)\<rfloor> < nat \<lfloor>1 / x\<rfloor>" by linarith
  then show "(x * 10, x) \<in> measure (\<lambda>x. nat \<lfloor>1 / x\<rfloor>)" by (simp only: in_measure)
qed simp

declare adjusted_up.simps [simp del] adjusted_down.simps [simp del]

definition adjusted :: "rat \<Rightarrow> int" where
  "adjusted x = (if 1 \<le> x then adjusted_up x else adjusted_down x)"

lemma power_int_step: "(10::rat) powi (e + 1) = 10 * 10 powi e"
  by (simp add: power_int_add_1)

lemma adjusted_up_bounds:
  "1 \<le> x \<Longrightarrow> 10 powi adjusted_up x \<le> x \<and> x < 10 powi (adjusted_up x + 1)"
proof (induction x rule: adjusted_up.induct)
  case (1 x)
  show ?case
  proof (cases "x < 10")
    case True
    with "1.prems" show ?thesis by (simp add: adjusted_up.simps [of x])
  next
    case False
    then have "1 \<le> x / 10" by simp
    with "1.IH" False have "10 powi adjusted_up (x / 10) \<le> x / 10 \<and>
        x / 10 < 10 powi (adjusted_up (x / 10) + 1)" by simp
    moreover have "adjusted_up x = adjusted_up (x / 10) + 1"
      using False by (simp add: adjusted_up.simps [of x])
    ultimately show ?thesis
      by (simp only: power_int_step) linarith
  qed
qed

lemma adjusted_down_bounds:
  "0 < x \<Longrightarrow> x < 10 \<Longrightarrow> 10 powi adjusted_down x \<le> x \<and> x < 10 powi (adjusted_down x + 1)"
proof (induction x rule: adjusted_down.induct)
  case (1 x)
  show ?case
  proof (cases "1 \<le> x")
    case True
    with "1.prems" show ?thesis by (simp add: adjusted_down.simps [of x])
  next
    case False
    with "1" have IH: "10 powi adjusted_down (x * 10) \<le> x * 10 \<and>
        x * 10 < 10 powi (adjusted_down (x * 10) + 1)" by simp
    have "(10::rat) powi adjusted_down (x * 10) = 10 * 10 powi (adjusted_down (x * 10) - 1)"
      using power_int_step [of "adjusted_down (x * 10) - 1"] by simp
    with IH False "1.prems" show ?thesis
      by (simp add: adjusted_down.simps [of x] power_int_step)
  qed
qed

lemma adjusted_bounds:
  assumes "0 < x"
  shows "10 powi adjusted x \<le> x" and "x < 10 powi (adjusted x + 1)"
  using adjusted_up_bounds [of x] adjusted_down_bounds [of x] assms
  by (auto simp: adjusted_def)

lemma powi_10_shift: "(10::rat) powi (int k + e) = of_int (10 ^ k) * 10 powi e"
  by (simp add: power_int_add)

lemma powi_10_mono: "a \<le> b \<Longrightarrow> (10::rat) powi a \<le> 10 powi b"
  by (simp add: power_int_increasing)

lemma powi_10_less_cancel: "(10::rat) powi a < 10 powi b \<Longrightarrow> a < b"
  by (metis leD linorder_not_le powi_10_mono)

lemma adjusted_mono:
  assumes "0 < x" and "x \<le> y"
  shows "adjusted x \<le> adjusted y"
proof -
  have "10 powi adjusted x < (10::rat) powi (adjusted y + 1)"
    using adjusted_bounds [of x] adjusted_bounds [of y] assms by linarith
  then show ?thesis using powi_10_less_cancel by fastforce
qed

subsection \<open>Rounding to a precision\<close>

definition dec_quantum :: "nat \<Rightarrow> rat \<Rightarrow> rat" where
  "dec_quantum p x = 10 powi (adjusted \<bar>x\<bar> - int p + 1)"

definition dec_round :: "nat \<Rightarrow> rat \<Rightarrow> decimal" where
  "dec_round p x =
     (if x = 0 then 0 else of_int (round_half_even (x / dec_quantum p x)) * dec_quantum p x)"

definition dadd :: "nat \<Rightarrow> decimal \<Rightarrow> decimal \<Rightarrow> decimal" where
  "dadd p a b = dec_round p (a + b)"

definition dsub :: "nat \<Rightarrow> decimal \<Rightarrow> decimal \<Rightarrow> decimal" where
  "dsub p a b = dec_round p (a - b)"

definition dmul :: "nat \<Rightarrow> decimal \<Rightarrow> decimal \<Rightarrow> decimal" where
  "dmul p a b = dec_round p (a * b)"

text \<open>Division; every division of the modelled program has a divisor it has checked to be
  positive, so \<open>ZeroDivisionError\<close> has no branch here.\<close>

definition ddiv :: "nat \<Rightarrow> decimal \<Rightarrow> decimal \<Rightarrow> decimal" where
  "ddiv p a b = dec_round p (a / b)"

text \<open>\<open>sum(values, Decimal(0))\<close>: left to right, rounding after every addition.\<close>

definition dsum :: "nat \<Rightarrow> decimal list \<Rightarrow> decimal" where
  "dsum p xs = foldl (dadd p) 0 xs"

lemma dec_quantum_pos [simp]: "0 < dec_quantum p x"
  by (simp add: dec_quantum_def)

lemma dec_quantum_nz [simp]: "dec_quantum p x \<noteq> 0"
  using dec_quantum_pos [of p x] by linarith

lemma dec_round_0 [simp, decimal_simps]: "dec_round p 0 = 0"
  by (simp add: dec_round_def)

lemma dec_round_sign:
  "0 \<le> x \<Longrightarrow> 0 \<le> dec_round p x" "x \<le> 0 \<Longrightarrow> dec_round p x \<le> 0"
proof -
  assume "0 \<le> x"
  then have "round_half_even 0 \<le> round_half_even (x / dec_quantum p x)"
    by (intro round_half_even_mono) (simp add: less_imp_le)
  then show "0 \<le> dec_round p x"
    using round_half_even_of_int [of 0] by (simp add: dec_round_def less_imp_le)
next
  assume "x \<le> 0"
  then have "round_half_even (x / dec_quantum p x) \<le> round_half_even 0"
    by (intro round_half_even_mono) (simp add: divide_nonpos_pos)
  then show "dec_round p x \<le> 0"
    using round_half_even_of_int [of 0]
    by (simp add: dec_round_def mult_nonpos_nonneg less_imp_le)
qed

text \<open>The relative error of one rounding is at most half a unit in the last place.\<close>

lemma dec_round_error:
  assumes "x \<noteq> 0"
  shows "\<bar>dec_round p x - x\<bar> \<le> dec_quantum p x / 2"
proof -
  let ?q = "dec_quantum p x"
  have "dec_round p x - x = (of_int (round_half_even (x / ?q)) - x / ?q) * ?q"
    using assms by (simp add: dec_round_def left_diff_distrib)
  then have "\<bar>dec_round p x - x\<bar> = \<bar>of_int (round_half_even (x / ?q)) - x / ?q\<bar> * ?q"
    by (simp add: abs_mult less_imp_le)
  also have "\<dots> \<le> 1/2 * ?q"
    by (intro mult_right_mono round_half_even_bounds) (simp add: less_imp_le)
  finally show ?thesis by simp
qed

text \<open>A value that is a whole number of quanta is not changed.\<close>

lemma dec_round_multiple:
  assumes "x = of_int n * dec_quantum p x"
  shows "dec_round p x = x"
proof (cases "x = 0")
  case False
  from assms have "x / dec_quantum p x = of_int n" by (metis dec_quantum_nz nonzero_mult_div_cancel_right)
  with False show ?thesis
    by (metis assms dec_round_def round_half_even_of_int)
qed simp

lemma dec_round_grid:
  assumes x: "x = of_int n * 10 powi e" and small: "\<bar>n\<bar> < 10 ^ p"
  shows "dec_round p x = x"
proof (cases "x = 0")
  case False
  let ?a = "adjusted \<bar>x\<bar>"
  have abs_x: "\<bar>x\<bar> = of_int \<bar>n\<bar> * 10 powi e" by (simp add: x abs_mult)
  have "(of_int \<bar>n\<bar> :: rat) < of_int (10 ^ p)" using small by (simp only: of_int_less_iff)
  then have "\<bar>x\<bar> < 10 ^ p * 10 powi e"
    unfolding abs_x by (intro mult_strict_right_mono) auto
  also have "\<dots> = 10 powi (int p + e)" by (simp add: powi_10_shift)
  finally have "10 powi ?a < (10::rat) powi (int p + e)"
    using adjusted_bounds(1) [of "\<bar>x\<bar>"] False by linarith
  then have le: "?a - int p + 1 \<le> e" using powi_10_less_cancel by fastforce
  define d where "d = nat (e - (?a - int p + 1))"
  have "(10::rat) powi e = of_int (10 ^ d) * dec_quantum p x"
  proof -
    have "e = int d + (?a - int p + 1)" using le by (simp add: d_def)
    then have "(10::rat) powi e = 10 powi int d * 10 powi (?a - int p + 1)"
      by (metis power_int_add zero_neq_numeral)
    then show ?thesis by (simp add: dec_quantum_def)
  qed
  with x have "x = of_int (n * 10 ^ d) * dec_quantum p x" by simp
  then show ?thesis by (rule dec_round_multiple)
qed simp

lemma dec_round_of_int [decimal_simps]: "\<bar>n\<bar> < 10 ^ p \<Longrightarrow> dec_round p (of_int n) = of_int n"
  using dec_round_grid [of "of_int n" n 0 p] by simp

lemma dec_round_numeral [simp, decimal_simps]:
  "(numeral k :: int) < 10 ^ p \<Longrightarrow> dec_round p (numeral k) = numeral k"
  "(numeral k :: int) < 10 ^ p \<Longrightarrow> dec_round p (- numeral k) = - numeral k"
  using dec_round_of_int [of "numeral k" p] dec_round_of_int [of "- numeral k" p] by simp_all

lemma dec_round_one [simp, decimal_simps]:
  "0 < p \<Longrightarrow> dec_round p 1 = 1" "0 < p \<Longrightarrow> dec_round p (- 1) = - 1"
  using dec_round_of_int [of 1 p] dec_round_of_int [of "- 1" p] by (simp_all add: one_less_power)

subsection \<open>Symmetry and monotonicity\<close>

lemma round_half_even_minus: "round_half_even (- x) = - round_half_even x"
proof (cases "x = of_int \<lfloor>x\<rfloor>")
  case True
  then have "round_half_even (- x) = round_half_even (of_int (- \<lfloor>x\<rfloor>))" by simp
  also have "\<dots> = - \<lfloor>x\<rfloor>" by (rule round_half_even_of_int)
  also have "\<lfloor>x\<rfloor> = round_half_even x" using True by (metis round_half_even_of_int)
  finally show ?thesis .
next
  case False
  then have "\<lfloor>- x\<rfloor> = - \<lfloor>x\<rfloor> - 1"
    using floor_correct [of x] by (intro floor_unique) (auto simp: order.order_iff_strict)
  then show ?thesis by (auto simp: round_half_even_def Let_def)
qed

lemma dec_round_minus: "dec_round p (- x) = - dec_round p x"
  by (simp add: dec_round_def dec_quantum_def round_half_even_minus flip: minus_divide_left)

text \<open>A value on one side of a whole number of its own quanta rounds to the same side.\<close>

lemma dec_round_le:
  assumes "0 < z" and "z \<le> of_int m * dec_quantum p z"
  shows "dec_round p z \<le> of_int m * dec_quantum p z"
proof -
  have "z / dec_quantum p z \<le> of_int m" using assms by (simp add: pos_divide_le_eq)
  then have "round_half_even (z / dec_quantum p z) \<le> m"
    by (metis round_half_even_mono round_half_even_of_int)
  with assms show ?thesis by (simp add: dec_round_def less_imp_le mult_right_mono)
qed

lemma dec_round_ge:
  assumes "0 < z" and "of_int m * dec_quantum p z \<le> z"
  shows "of_int m * dec_quantum p z \<le> dec_round p z"
proof -
  have "of_int m \<le> z / dec_quantum p z" using assms by (simp add: pos_le_divide_eq)
  then have "m \<le> round_half_even (z / dec_quantum p z)"
    by (metis round_half_even_mono round_half_even_of_int)
  with assms show ?thesis by (simp add: dec_round_def less_imp_le mult_right_mono)
qed

lemma dec_round_decade:
  assumes "0 < x" and "0 < p"
  shows "10 powi adjusted x \<le> dec_round p x" and "dec_round p x \<le> 10 powi (adjusted x + 1)"
proof -
  have hi: "10 powi (adjusted x + 1) = of_int (10 ^ p) * dec_quantum p x"
    using powi_10_shift [of p "adjusted x - int p + 1"] assms by (simp add: dec_quantum_def)
  have lo: "10 powi adjusted x = of_int (10 ^ (p - 1)) * dec_quantum p x"
    using powi_10_shift [of "p - 1" "adjusted x - int p + 1"] assms
    by (simp add: dec_quantum_def of_nat_diff)
  show "dec_round p x \<le> 10 powi (adjusted x + 1)"
    using dec_round_le [of x "10 ^ p" p] adjusted_bounds(2) [of x] assms unfolding hi by simp
  show "10 powi adjusted x \<le> dec_round p x"
    using dec_round_ge [of x "10 ^ (p - 1)" p] adjusted_bounds(1) [of x] assms unfolding lo by simp
qed

lemma dec_round_pos: "0 < x \<Longrightarrow> 0 < p \<Longrightarrow> 0 < dec_round p x"
  by (rule less_le_trans [OF _ dec_round_decade(1)]) simp_all

lemma dec_round_mono_pos:
  assumes "0 < x" and "x \<le> y" and "0 < p"
  shows "dec_round p x \<le> dec_round p y"
proof (cases "adjusted x = adjusted y")
  case True
  then have "dec_quantum p x = dec_quantum p y" using assms by (simp add: dec_quantum_def)
  with assms show ?thesis
    by (auto simp: dec_round_def less_imp_le intro!: mult_right_mono round_half_even_mono
        divide_right_mono)
next
  case False
  with adjusted_mono [of x y] assms have lt: "adjusted x + 1 \<le> adjusted y" by simp
  have "dec_round p x \<le> 10 powi (adjusted x + 1)" using assms by (simp add: dec_round_decade)
  also have "\<dots> \<le> 10 powi adjusted y" using lt by (rule powi_10_mono)
  also have "\<dots> \<le> dec_round p y" using assms by (simp add: dec_round_decade)
  finally show ?thesis .
qed

lemma dec_round_mono:
  assumes "x \<le> y" and "0 < p"
  shows "dec_round p x \<le> dec_round p y"
proof -
  consider "0 < x" | "x \<le> 0" "0 \<le> y" | "y < 0" using assms by linarith
  then show ?thesis
  proof cases
    case 1
    then show ?thesis using assms by (rule dec_round_mono_pos)
  next
    case 2
    then show ?thesis using dec_round_sign(1) [of y p] dec_round_sign(2) [of x p] by linarith
  next
    case 3
    then have "dec_round p (- y) \<le> dec_round p (- x)"
      using assms by (intro dec_round_mono_pos) auto
    then show ?thesis by (simp add: dec_round_minus)
  qed
qed

lemma dec_round_eq_0_iff: "0 < p \<Longrightarrow> dec_round p x = 0 \<longleftrightarrow> x = 0"
  using dec_round_pos [of x p] dec_round_pos [of "- x" p]
  by (auto simp: dec_round_minus) (metis linorder_neqE_linordered_idom neg_0_less_iff_less order_less_irrefl)

lemma dmul_nonneg: "0 \<le> a \<Longrightarrow> 0 \<le> b \<Longrightarrow> 0 \<le> dmul p a b"
  by (simp add: dmul_def dec_round_sign)

lemma dadd_nonneg: "0 \<le> a \<Longrightarrow> 0 \<le> b \<Longrightarrow> 0 \<le> dadd p a b"
  by (simp add: dadd_def dec_round_sign)

lemma dsum_nonneg: "(\<And>x. x \<in> set xs \<Longrightarrow> 0 \<le> x) \<Longrightarrow> 0 \<le> dsum p xs"
  unfolding dsum_def by (rule foldl_keeps) (auto intro: dadd_nonneg)

lemma dsum_Nil [simp]: "dsum p [] = 0"
  by (simp add: dsum_def)

lemmas decimal_defs = dadd_def dsub_def dmul_def ddiv_def dsum_def

end
