(* ===== verification/Position_Contracts.thy ===== *)
theory Position_Contracts
  imports Py_Decimal Py_Datetime
begin

text \<open>
  \<open>position_management/contracts.py\<close>: the immutable broker facts and the reconciled snapshot.
  Every pydantic model is a record with the model's fields (a prefix keeps the field names of
  different models apart; a field whose type is a single literal carries no information and is
  left out, except the account type, which is copied into results).  A subclass is a record
  extension.  A \<open>model_validator\<close> is a function that returns the message of the \<open>ValueError\<close>
  it raises, or \<open>None\<close>.
\<close>

record position_evidence_clock =
  ec_business_effective_at :: "datetime option"
  ec_source_observed_at :: "datetime option"
  ec_locally_acquired_at :: "datetime option"
  ec_validated_at :: "datetime option"

record position_evidence =
  ev_source :: "str option"
  ev_source_version :: "str option"
  ev_business_effective_at :: "datetime option"
  ev_source_observed_at :: "datetime option"
  ev_locally_acquired_at :: "datetime option"
  ev_validated_at :: "datetime option"
  ev_cutoff_at :: "datetime option"
  ev_complete_through_at :: "datetime option"
  ev_expires_at :: "datetime option"

definition evidence_clock :: "position_evidence \<Rightarrow> position_evidence_clock" where
  "evidence_clock e =
     \<lparr>ec_business_effective_at = ev_business_effective_at e,
      ec_source_observed_at = ev_source_observed_at e,
      ec_locally_acquired_at = ev_locally_acquired_at e,
      ec_validated_at = ev_validated_at e\<rparr>"

text \<open>\<open>not value\<close> on an optional string.\<close>

definition str_missing :: "str option \<Rightarrow> bool" where
  "str_missing s \<longleftrightarrow> s = None \<or> s = Some []"

definition problem_codes :: "position_evidence \<Rightarrow> datetime \<Rightarrow> bool \<Rightarrow> str list" where
  "problem_codes e expected_cutoff require_current_completeness =
     (if str_missing (ev_source e) then [''SOURCE_MISSING''] else []) @
     (if str_missing (ev_source_version e) then [''SOURCE_VERSION_MISSING''] else []) @
     (case ev_cutoff_at e of
        None \<Rightarrow> [''FACT_CUTOFF_MISSING'']
      | Some cutoff \<Rightarrow>
          if require_current_completeness \<and> \<not> dt_eq cutoff expected_cutoff
          then [''FACT_CUTOFF_MISMATCH'']
          else if \<not> require_current_completeness \<and> cutoff > expected_cutoff
          then [''FACT_CUTOFF_AFTER_SNAPSHOT'']
          else []) @
     (if require_current_completeness then
        (case ev_complete_through_at e of
           None \<Rightarrow> [''FACT_COMPLETENESS_WATERMARK_MISSING'']
         | Some through \<Rightarrow>
             if through < expected_cutoff then [''FACT_COMPLETENESS_WATERMARK_INSUFFICIENT''] else [])
      else []) @
     (case (ev_business_effective_at e, ev_source_observed_at e, ev_locally_acquired_at e,
            ev_validated_at e) of
        (Some effective, Some observed, Some acquired, Some validated) \<Rightarrow>
          (case (if require_current_completeness then Some expected_cutoff else ev_cutoff_at e) of
             None \<Rightarrow> [''EVIDENCE_CLOCK_INVALID'']
           | Some clock_ceiling \<Rightarrow>
               if effective \<le> observed \<and> observed \<le> acquired \<and> acquired \<le> validated \<and>
                  validated \<le> clock_ceiling
               then [] else [''EVIDENCE_CLOCK_INVALID''])
      | _ \<Rightarrow> [''EVIDENCE_CLOCK_MISSING'']) @
     (case ev_expires_at e of
        None \<Rightarrow> []
      | Some expires \<Rightarrow>
          if require_current_completeness \<and> expires < expected_cutoff then [''FACT_EXPIRED''] else [])"

text \<open>Equality of evidence as Python compares it: datetimes by instant.\<close>

definition evidence_eq :: "position_evidence \<Rightarrow> position_evidence \<Rightarrow> bool" where
  "evidence_eq a b \<longleftrightarrow>
     ev_source a = ev_source b \<and> ev_source_version a = ev_source_version b \<and>
     opt_dt_eq (ev_business_effective_at a) (ev_business_effective_at b) \<and>
     opt_dt_eq (ev_source_observed_at a) (ev_source_observed_at b) \<and>
     opt_dt_eq (ev_locally_acquired_at a) (ev_locally_acquired_at b) \<and>
     opt_dt_eq (ev_validated_at a) (ev_validated_at b) \<and>
     opt_dt_eq (ev_cutoff_at a) (ev_cutoff_at b) \<and>
     opt_dt_eq (ev_complete_through_at a) (ev_complete_through_at b) \<and>
     opt_dt_eq (ev_expires_at a) (ev_expires_at b)"

datatype cash_availability_semantics = BROKER_FINAL_CASH_LAYERS | CASH_AVAILABILITY_UNKNOWN
datatype ledger_cash_semantics = OPENING_BALANCE_PLUS_AUTHORITATIVE_LEDGER | LEDGER_CASH_UNKNOWN

record cash_state =
  cs_cash_availability_semantics :: cash_availability_semantics
  cs_ledger_cash_semantics :: ledger_cash_semantics
  cs_opening_ledger_cash :: "decimal option"
  cs_opening_ledger_cash_evidence :: position_evidence
  cs_ledger_cash :: "decimal option"
  cs_trading_cash :: "decimal option"
  cs_transferable_cash :: "decimal option"
  cs_frozen_cash :: "decimal option"
  cs_receivable_cash :: "decimal option"
  cs_payable_cash :: "decimal option"
  cs_evidence :: position_evidence

datatype position_origin = SYSTEM_ORIGIN | EXTERNAL_ORIGIN
datatype sellable_semantics = BROKER_FINAL_SELLABLE | SELLABLE_UNKNOWN
datatype encumbrance_semantics = OVERLAPPING_NON_SELLABLE | ENCUMBRANCE_UNKNOWN

record broker_position_fact =
  bp_position_id :: str
  bp_origin :: position_origin
  bp_lifecycle_id :: str
  bp_issuer_id :: str
  bp_security_id :: str
  bp_total_quantity :: "decimal option"
  bp_broker_sellable_quantity :: "decimal option"
  bp_sellable_quantity_semantics :: sellable_semantics
  bp_encumbrance_quantity_semantics :: encumbrance_semantics
  bp_unsettled_quantity :: "decimal option"
  bp_frozen_quantity :: "decimal option"
  bp_restricted_quantity :: "decimal option"
  bp_open_sell_order_quantity :: "decimal option"
  bp_reported_cost_basis :: "decimal option"
  bp_market_price :: "decimal option"
  bp_evidence :: position_evidence

datatype order_side = BUY | SELL
datatype reserved_cash_semantics = BROKER_FINAL_RESERVED_CASH | NOT_APPLICABLE

record open_order =
  oo_order_id :: str
  oo_security_id :: str
  oo_side :: order_side
  oo_remaining_quantity :: "decimal option"
  oo_reserved_cash :: "decimal option"
  oo_reserved_cash_semantics :: reserved_cash_semantics
  oo_evidence :: position_evidence

datatype ledger_entry_type = FILL | FEE | TRANSFER_IN | TRANSFER_OUT | CORPORATE_ACTION

record position_ledger_entry =
  le_entry_id :: str
  le_entry_type :: ledger_entry_type
  le_security_id :: "str option"
  le_quantity_delta :: decimal
  le_cost_basis_delta :: decimal
  le_cash_delta :: decimal
  le_occurred_at :: datetime
  le_corrects_entry_id :: "str option"
  le_correction_reason :: "str option"
  le_evidence :: position_evidence

text \<open>The characters \<open>str.strip()\<close> removes.\<close>

definition is_py_space :: "char \<Rightarrow> bool" where
  "is_py_space c \<longleftrightarrow> of_char c \<in> {9..13 :: nat} \<or> of_char c \<in> {28..32 :: nat} \<or>
     of_char c = (133 :: nat) \<or> of_char c = (160 :: nat)"

definition validate_correction_reason :: "position_ledger_entry \<Rightarrow> str option" where
  "validate_correction_reason e =
     (if le_corrects_entry_id e = None \<and> le_correction_reason e \<noteq> None
      then Some ''correction_reason requires corrects_entry_id''
      else if le_corrects_entry_id e \<noteq> None \<and>
        (case le_correction_reason e of None \<Rightarrow> True | Some r \<Rightarrow> list_all is_py_space r)
      then Some ''correction_reason is required when corrects_entry_id is present''
      else None)"

definition ledger_entry_evidence_is_visible ::
    "'a position_ledger_entry_scheme \<Rightarrow> datetime \<Rightarrow> bool" where
  "ledger_entry_evidence_is_visible entry cutoff_at \<longleftrightarrow>
     le_occurred_at entry \<le> cutoff_at \<and>
     problem_codes (le_evidence entry) cutoff_at False = [] \<and>
     (case ev_source_observed_at (le_evidence entry) of
        None \<Rightarrow> False | Some observed \<Rightarrow> le_occurred_at entry \<le> observed)"

record execution_restriction =
  er_restriction_id :: str
  er_security_id :: "str option"
  er_kind :: str
  er_reason :: str
  er_active :: bool
  er_evidence :: position_evidence

record user_position_annotation =
  an_annotation_id :: str
  an_account_id :: str
  an_security_id :: str
  an_note :: str
  an_claimed_total_quantity :: "decimal option"
  an_claimed_cost_basis :: "decimal option"
  an_created_at :: datetime

record account_position_snapshot =
  ap_account_id :: str
  ap_account_type :: str
  ap_currency :: str
  ap_snapshot_evidence :: position_evidence
  ap_account_equity :: "decimal option"
  ap_account_equity_evidence :: position_evidence
  ap_cash_state :: cash_state
  ap_positions :: "broker_position_fact list"
  ap_open_orders :: "open_order list"
  ap_ledger_entries :: "position_ledger_entry list"
  ap_execution_restrictions :: "execution_restriction list"

definition validate_internal_position_identities :: "account_position_snapshot \<Rightarrow> str option" where
  "validate_internal_position_identities a =
     (if \<not> distinct (map bp_position_id (ap_positions a))
      then Some ''account position identifiers must be unique''
      else if \<not> distinct (map bp_security_id (ap_positions a))
      then Some ''account position securities must be unique''
      else None)"

record position_snapshot_command =
  psc_snapshot_id :: str
  psc_cutoff_at :: datetime
  psc_snapshot_evidence :: position_evidence
  psc_valuation_currency :: str
  psc_accounts :: "account_position_snapshot list"
  psc_annotations :: "user_position_annotation list"

definition psc_account_ids :: "position_snapshot_command \<Rightarrow> str list" where
  "psc_account_ids c = map ap_account_id (psc_accounts c)"

definition validate_common_snapshot_scope :: "position_snapshot_command \<Rightarrow> str option" where
  "validate_common_snapshot_scope c =
     (let account_ids = map ap_account_id (psc_accounts c) in
      if \<not> distinct account_ids then Some ''position snapshot account identities must be unique''
      else if \<exists>a \<in> set (psc_accounts c). ap_currency a \<noteq> psc_valuation_currency c
      then Some ''D0 position snapshot accounts require one valuation currency''
      else if \<exists>n \<in> set (psc_annotations c). an_account_id n \<notin> set account_ids
      then Some ''position annotation must belong to a captured account''
      else if \<not> distinct (map an_annotation_id (psc_annotations c))
      then Some ''position annotation identities must be unique''
      else None)"

record position_affected_scope =
  sc_account_id :: "str option"
  sc_security_id :: "str option"
  sc_fields :: "str list"

record position_fact_conflict =
  fc_conflict_id :: str
  fc_code :: str
  fc_affected_scope :: position_affected_scope
  fc_blocks_exact_statistical_quantity :: bool

datatype exact_quantity_status = AVAILABLE_QUANTITY | BLOCKED_QUANTITY

record position_action_unit =
  au_account_id :: str
  au_account_type :: str
  au_currency :: str
  au_position_id :: str
  au_origin :: position_origin
  au_lifecycle_id :: str
  au_issuer_id :: str
  au_security_id :: str
  au_total_quantity :: "decimal option"
  au_broker_sellable_quantity :: "decimal option"
  au_sellable_quantity_semantics :: sellable_semantics
  au_encumbrance_quantity_semantics :: encumbrance_semantics
  au_unsettled_quantity :: "decimal option"
  au_frozen_quantity :: "decimal option"
  au_restricted_quantity :: "decimal option"
  au_open_sell_order_quantity :: "decimal option"
  au_reported_cost_basis :: "decimal option"
  au_market_price :: "decimal option"
  au_exact_statistical_action_quantity :: "decimal option"
  au_exact_quantity_status :: exact_quantity_status
  au_reasons :: "str list"
  au_position_evidence :: position_evidence

record issuer_exposure =
  ie_issuer_id :: str
  ie_valuation_currency :: str
  ie_account_ids :: "str list"
  ie_current_market_exposure :: "decimal option"

record account_cash_state =
  ac_account_id :: str
  ac_account_type :: str
  ac_currency :: str
  ac_account_evidence :: position_evidence
  ac_account_equity :: "decimal option"
  ac_account_equity_evidence :: position_evidence
  ac_cash_availability_semantics :: cash_availability_semantics
  ac_ledger_cash_semantics :: ledger_cash_semantics
  ac_opening_ledger_cash :: "decimal option"
  ac_opening_ledger_cash_evidence :: position_evidence
  ac_ledger_cash :: "decimal option"
  ac_trading_cash :: "decimal option"
  ac_transferable_cash :: "decimal option"
  ac_frozen_cash :: "decimal option"
  ac_receivable_cash :: "decimal option"
  ac_payable_cash :: "decimal option"
  ac_cash_state_evidence :: position_evidence

record authoritative_ledger_entry = position_ledger_entry +
  le_account_id :: str

record account_open_order = open_order +
  oo_account_id :: str

record account_execution_restriction = execution_restriction +
  er_account_id :: str

record reconciled_position_snapshot =
  rs_snapshot_id :: str
  rs_cutoff_at :: datetime
  rs_valuation_currency :: str
  rs_snapshot_source :: "str option"
  rs_evidence_clock :: position_evidence_clock
  rs_snapshot_evidence :: position_evidence
  rs_total_account_equity :: "decimal option"
  rs_action_units :: "position_action_unit list"
  rs_issuer_exposures :: "issuer_exposure list"
  rs_cash_states :: "account_cash_state list"
  rs_unfinished_orders :: "account_open_order list"
  rs_execution_restrictions :: "account_execution_restriction list"
  rs_authoritative_ledger :: "authoritative_ledger_entry list"
  rs_user_annotations :: "user_position_annotation list"

datatype reconciliation_disposition = RECONCILED | CONFLICTED

record position_reconciliation_outcome =
  po_disposition :: reconciliation_disposition
  po_reasons :: "str list"
  po_snapshot :: reconciled_position_snapshot
  po_conflicts :: "position_fact_conflict list"

text \<open>\<open>AuthoritativeLedgerEntry(account_id=..., **entry.model_dump())\<close> and its siblings.\<close>

definition authoritative_entry :: "str \<Rightarrow> position_ledger_entry \<Rightarrow> authoritative_ledger_entry" where
  "authoritative_entry account_id entry =
     position_ledger_entry.extend entry (authoritative_ledger_entry.fields account_id)"

definition account_order :: "str \<Rightarrow> open_order \<Rightarrow> account_open_order" where
  "account_order account_id order = open_order.extend order (account_open_order.fields account_id)"

definition account_restriction ::
    "str \<Rightarrow> execution_restriction \<Rightarrow> account_execution_restriction" where
  "account_restriction account_id restriction =
     execution_restriction.extend restriction (account_execution_restriction.fields account_id)"

text \<open>Equality of two dumped ledger entries.\<close>

definition ledger_entry_eq ::
    "authoritative_ledger_entry \<Rightarrow> authoritative_ledger_entry \<Rightarrow> bool" where
  "ledger_entry_eq a b \<longleftrightarrow>
     le_account_id a = le_account_id b \<and> le_entry_id a = le_entry_id b \<and>
     le_entry_type a = le_entry_type b \<and> le_security_id a = le_security_id b \<and>
     le_quantity_delta a = le_quantity_delta b \<and> le_cost_basis_delta a = le_cost_basis_delta b \<and>
     le_cash_delta a = le_cash_delta b \<and> dt_eq (le_occurred_at a) (le_occurred_at b) \<and>
     le_corrects_entry_id a = le_corrects_entry_id b \<and>
     le_correction_reason a = le_correction_reason b \<and>
     evidence_eq (le_evidence a) (le_evidence b)"

subsection \<open>What clean evidence means\<close>

text \<open>Evidence without problem codes names its source and version, is cut off exactly (or, for
  retained facts, at the latest) at the snapshot cutoff, and its four clock readings are ordered.\<close>

lemma problem_codes_clean [evidence_simps]:
  assumes "problem_codes e cutoff current = []"
  obtains src ver eff obs acq val cut
  where "ev_source e = Some src" "src \<noteq> []" "ev_source_version e = Some ver" "ver \<noteq> []"
    and "ev_business_effective_at e = Some eff" "ev_source_observed_at e = Some obs"
    and "ev_locally_acquired_at e = Some acq" "ev_validated_at e = Some val"
    and "ev_cutoff_at e = Some cut"
    and "eff \<le> obs" "obs \<le> acq" "acq \<le> val" "val \<le> cutoff" "cut \<le> cutoff"
    and "current \<Longrightarrow> instant cut = instant cutoff"
  using assms unfolding problem_codes_def
  by (cases "ev_source e"; cases "ev_source_version e"; cases "ev_cutoff_at e";
      cases "ev_business_effective_at e"; cases "ev_source_observed_at e";
      cases "ev_locally_acquired_at e"; cases "ev_validated_at e")
    (auto simp: str_missing_def split: if_splits)

lemma evidence_eq_refl [simp]: "evidence_eq e e"
  by (simp add: evidence_eq_def)

lemma visible_entry_clock:
  assumes "ledger_entry_evidence_is_visible entry cutoff"
  obtains obs where "ev_source_observed_at (le_evidence entry) = Some obs"
    and "le_occurred_at entry \<le> obs" and "obs \<le> cutoff"
proof -
  from assms have clean: "problem_codes (le_evidence entry) cutoff False = []"
    by (simp add: ledger_entry_evidence_is_visible_def)
  show ?thesis
    by (rule problem_codes_clean [OF clean])
      (use assms that in \<open>auto simp: ledger_entry_evidence_is_visible_def\<close>)
qed

lemma authoritative_entry_simps [simp]:
  "le_entry_id (authoritative_entry a e) = le_entry_id e"
  "le_entry_type (authoritative_entry a e) = le_entry_type e"
  "le_security_id (authoritative_entry a e) = le_security_id e"
  "le_quantity_delta (authoritative_entry a e) = le_quantity_delta e"
  "le_cash_delta (authoritative_entry a e) = le_cash_delta e"
  "le_occurred_at (authoritative_entry a e) = le_occurred_at e"
  "le_corrects_entry_id (authoritative_entry a e) = le_corrects_entry_id e"
  "le_evidence (authoritative_entry a e) = le_evidence e"
  "le_account_id (authoritative_entry a e) = a"
  by (simp_all add: authoritative_entry_def position_ledger_entry.defs authoritative_ledger_entry.defs)

end
