(* ===== verification/Py_Hashlib.thy ===== *)
theory Py_Hashlib
  imports Prelude "HOL-Library.Word"
begin

text \<open>
  The two library calls behind the program's content-derived identifiers:
  \<open>json.dumps(value, ensure_ascii=True, separators=(",", ":"))\<close> on nested lists of strings and
  nulls, and \<open>sha256(data).hexdigest()\<close> (FIPS 180-4, 32-bit words).
\<close>

unbundle bit_operations_syntax

subsection \<open>JSON text\<close>

datatype json = JNull | JString str | JList "json list"

definition hex_digit :: "nat \<Rightarrow> char" where
  "hex_digit n = ''0123456789abcdef'' ! (n mod 16)"

definition hex4 :: "nat \<Rightarrow> str" where
  "hex4 n = [hex_digit (n div 4096), hex_digit (n div 256), hex_digit (n div 16), hex_digit n]"

definition json_escape :: "char \<Rightarrow> str" where
  "json_escape c =
     (let n = of_char c :: nat; backslash = char_of (92 :: nat) in
      if n = 34 then [backslash, char_of (34 :: nat)]
      else if n = 92 then [backslash, backslash]
      else if n = 10 then backslash # ''n''
      else if n = 13 then backslash # ''r''
      else if n = 9 then backslash # ''t''
      else if n = 12 then backslash # ''f''
      else if n = 8 then backslash # ''b''
      else if 32 \<le> n \<and> n \<le> 126 then [c]
      else backslash # CHR ''u'' # hex4 n)"

fun join_comma :: "str list \<Rightarrow> str" where
  "join_comma [] = []"
| "join_comma [x] = x"
| "join_comma (x # xs) = x @ '','' @ join_comma xs"

fun json_dumps :: "json \<Rightarrow> str" where
  "json_dumps JNull = ''null''"
| "json_dumps (JString s) = [char_of (34 :: nat)] @ concat (map json_escape s) @ [char_of (34 :: nat)]"
| "json_dumps (JList xs) = ''['' @ join_comma (map json_dumps xs) @ '']''"

definition json_opt :: "str option \<Rightarrow> json" where
  "json_opt s = (case s of None \<Rightarrow> JNull | Some v \<Rightarrow> JString v)"

subsection \<open>SHA-256\<close>

type_synonym w32 = "32 word"

definition rotr :: "nat \<Rightarrow> w32 \<Rightarrow> w32" where
  "rotr n x = drop_bit n x OR push_bit (32 - n) x"

definition sha_K :: "w32 list" where
  "sha_K =
    [1116352408, 1899447441, 3049323471, 3921009573, 961987163, 1508970993, 2453635748, 2870763221,
     3624381080, 310598401, 607225278, 1426881987, 1925078388, 2162078206, 2614888103, 3248222580,
     3835390401, 4022224774, 264347078, 604807628, 770255983, 1249150122, 1555081692, 1996064986,
     2554220882, 2821834349, 2952996808, 3210313671, 3336571891, 3584528711, 113926993, 338241895,
     666307205, 773529912, 1294757372, 1396182291, 1695183700, 1986661051, 2177026350, 2456956037,
     2730485921, 2820302411, 3259730800, 3345764771, 3516065817, 3600352804, 4094571909, 275423344,
     430227734, 506948616, 659060556, 883997877, 958139571, 1322822218, 1537002063, 1747873779,
     1955562222, 2024104815, 2227730452, 2361852424, 2428436474, 2756734187, 3204031479, 3329325298]"

type_synonym sha_state = "w32 \<times> w32 \<times> w32 \<times> w32 \<times> w32 \<times> w32 \<times> w32 \<times> w32"

definition sha_H0 :: sha_state where
  "sha_H0 = (1779033703, 3144134277, 1013904242, 2773480762, 1359893119, 2600822924, 528734635, 1541459225)"

definition be_word :: "nat list \<Rightarrow> w32" where
  "be_word bs = word_of_int (foldl (\<lambda>acc b. acc * 256 + int b) 0 bs)"

definition sha_pad :: "nat list \<Rightarrow> nat list" where
  "sha_pad m =
     (let n = length m; bits = n * 8
      in m @ [128] @ replicate ((119 - n mod 64) mod 64) 0 @
         map (\<lambda>i. (bits div 256 ^ (7 - i)) mod 256) [0, 1, 2, 3, 4, 5, 6, 7])"

fun chunks :: "nat \<Rightarrow> 'a list \<Rightarrow> 'a list list" where
  "chunks n xs = (if xs = [] \<or> n = 0 then [] else take n xs # chunks n (drop n xs))"

declare chunks.simps [simp del]

text \<open>The schedule is built newest word first.\<close>

fun sha_schedule :: "nat \<Rightarrow> w32 list \<Rightarrow> w32 list" where
  "sha_schedule 0 ws = rev ws"
| "sha_schedule (Suc k) ws =
     (let w15 = ws ! 14; w2 = ws ! 1; w16 = ws ! 15; w7 = ws ! 6;
          s0 = rotr 7 w15 XOR rotr 18 w15 XOR drop_bit 3 w15;
          s1 = rotr 17 w2 XOR rotr 19 w2 XOR drop_bit 10 w2
      in sha_schedule k ((w16 + s0 + w7 + s1) # ws))"

fun sha_round :: "sha_state \<Rightarrow> w32 \<times> w32 \<Rightarrow> sha_state" where
  "sha_round (a, b, c, d, e, f, g, h) (k, w) =
     (let S1 = rotr 6 e XOR rotr 11 e XOR rotr 25 e;
          ch = (e AND f) XOR (NOT e AND g);
          t1 = h + S1 + ch + k + w;
          S0 = rotr 2 a XOR rotr 13 a XOR rotr 22 a;
          maj = (a AND b) XOR (a AND c) XOR (b AND c);
          t2 = S0 + maj
      in (t1 + t2, a, b, c, d + t1, e, f, g))"

fun sha_add :: "sha_state \<Rightarrow> sha_state \<Rightarrow> sha_state" where
  "sha_add (a, b, c, d, e, f, g, h) (a', b', c', d', e', f', g', h') =
     (a + a', b + b', c + c', d + d', e + e', f + f', g + g', h + h')"

definition sha_block :: "sha_state \<Rightarrow> nat list \<Rightarrow> sha_state" where
  "sha_block st block =
     (let ws = sha_schedule 48 (rev (map be_word (chunks 4 block)))
      in sha_add st (foldl sha_round st (zip sha_K ws)))"

definition word_hex :: "w32 \<Rightarrow> str" where
  "word_hex w = map (\<lambda>i. hex_digit (unat (drop_bit (28 - 4 * i) w))) [0, 1, 2, 3, 4, 5, 6, 7]"

definition sha256_hexdigest :: "str \<Rightarrow> str" where
  "sha256_hexdigest s =
     (case foldl sha_block sha_H0 (chunks 64 (sha_pad (map of_char s))) of
        (a, b, c, d, e, f, g, h) \<Rightarrow> concat (map word_hex [a, b, c, d, e, f, g, h]))"

text \<open>A digest always has 64 hexadecimal digits.\<close>

lemma length_sha256_hexdigest [simp]: "length (sha256_hexdigest s) = 64"
  by (simp add: sha256_hexdigest_def word_hex_def split: prod.splits)

end
