(* ===== verification/Conflict_Recorder.thy ===== *)
theory Conflict_Recorder
  imports Position_Contracts Py_Hashlib
begin

text \<open>
  The conflict recorder of \<open>position_management/service.py\<close>: the closure \<open>record\<close> of
  \<open>_reconcile\<close> and the five collections it writes, as a state record that every recording step
  passes on.  \<open>defaultdict(list)\<close> is a total function with \<open>[]\<close> as default.  The interface a
  recording step relies on is the locale \<open>conflict_log\<close>: recording always leaves a conflict
  behind.  Inside it, a run of guarded checks ends without conflicts exactly when it started
  without and no guard fired; the reconciliation theorems rest on those equations.
\<close>

type_synonym scope = "str option \<times> str option"

record recorder =
  rc_conflicts :: "position_fact_conflict list"
  rc_conflict_keys :: "(str option \<times> str option \<times> str \<times> str list) set"
  rc_blocking :: "scope \<Rightarrow> str list"
  rc_valuation :: "scope \<Rightarrow> str list"
  rc_portfolio_blocking :: "str list"

definition empty_recorder :: recorder where
  "empty_recorder =
     \<lparr>rc_conflicts = [], rc_conflict_keys = {}, rc_blocking = (\<lambda>_. []), rc_valuation = (\<lambda>_. []),
      rc_portfolio_blocking = []\<rparr>"

text \<open>The keyword arguments of one \<open>record(...)\<close> call.\<close>

record report =
  rp_account_id :: "str option"
  rp_security_id :: "str option"
  rp_code :: str
  rp_fields :: "str list"
  rp_blocks_exact :: bool
  rp_portfolio_dependency :: bool
  rp_blocks_valuation :: bool

definition report_of ::
    "str option \<Rightarrow> str option \<Rightarrow> str \<Rightarrow> str list \<Rightarrow> bool \<Rightarrow> bool \<Rightarrow> bool \<Rightarrow> report" where
  "report_of account security code names blocks portfolio valuation =
     \<lparr>rp_account_id = account, rp_security_id = security, rp_code = code, rp_fields = names,
      rp_blocks_exact = blocks, rp_portfolio_dependency = portfolio, rp_blocks_valuation = valuation\<rparr>"

definition conflict_id :: "str option \<Rightarrow> str option \<Rightarrow> str \<Rightarrow> str list \<Rightarrow> str" where
  "conflict_id account_id security_id code names =
     ''position-conflict:'' @
     sha256_hexdigest (json_dumps (JList [json_opt account_id, json_opt security_id, JString code,
       JList (map JString names)]))"

definition report_conflict :: "report \<Rightarrow> position_fact_conflict" where
  "report_conflict r =
     \<lparr>fc_conflict_id = conflict_id (rp_account_id r) (rp_security_id r) (rp_code r) (rp_fields r),
      fc_code = rp_code r,
      fc_affected_scope = \<lparr>sc_account_id = rp_account_id r, sc_security_id = rp_security_id r,
        sc_fields = rp_fields r\<rparr>,
      fc_blocks_exact_statistical_quantity = rp_blocks_exact r\<rparr>"

definition report_key :: "report \<Rightarrow> str option \<times> str option \<times> str \<times> str list" where
  "report_key r = (rp_account_id r, rp_security_id r, rp_code r, rp_fields r)"

definition record_conflict :: "report \<Rightarrow> recorder \<Rightarrow> recorder" where
  "record_conflict r st =
     (let scope = (rp_account_id r, rp_security_id r); code = rp_code r;
          st1 = (if report_key r \<in> rc_conflict_keys st then st
                 else st\<lparr>rc_conflict_keys := insert (report_key r) (rc_conflict_keys st),
                         rc_conflicts := rc_conflicts st @ [report_conflict r]\<rparr>);
          st2 = (if rp_blocks_exact r then
                   (let st' = st1\<lparr>rc_blocking := (rc_blocking st1)
                          (scope := append_unique (rc_blocking st1 scope) code)\<rparr>
                    in if rp_portfolio_dependency r
                       then st'\<lparr>rc_portfolio_blocking :=
                              append_unique (rc_portfolio_blocking st') code\<rparr>
                       else st')
                 else st1)
      in if rp_blocks_valuation r
         then st2\<lparr>rc_valuation := (rc_valuation st2)
                (scope := append_unique (rc_valuation st2 scope) code)\<rparr>
         else st2)"

subsection \<open>Guarded checks and their sequences\<close>

text \<open>\<open>if guard: record(...)\<close>\<close>

definition check_if :: "('k \<Rightarrow> 's \<Rightarrow> 's) \<Rightarrow> bool \<Rightarrow> 'k \<Rightarrow> 's \<Rightarrow> 's" where
  "check_if record_step guard k s = (if guard then record_step k s else s)"

abbreviation check :: "bool \<Rightarrow> report \<Rightarrow> recorder \<Rightarrow> recorder" where
  "check \<equiv> check_if record_conflict"

text \<open>Statements one after another.\<close>

definition run_steps :: "('s \<Rightarrow> 's) list \<Rightarrow> 's \<Rightarrow> 's" where
  "run_steps steps s = foldl (\<lambda>s f. f s) s steps"

lemma run_steps_simps [simp]:
  "run_steps [] s = s" "run_steps (f # fs) s = run_steps fs (f s)"
  by (simp_all add: run_steps_def)

text \<open>\<open>for x in xs: ...\<close> over the recorder.\<close>

definition for_each :: "'a list \<Rightarrow> ('a \<Rightarrow> 's \<Rightarrow> 's) \<Rightarrow> 's \<Rightarrow> 's" where
  "for_each xs body s = foldl (\<lambda>s x. body x s) s xs"

locale conflict_log =
  fixes record_step :: "'k \<Rightarrow> 's \<Rightarrow> 's"
    and clean :: "'s \<Rightarrow> bool"
  assumes record_dirty: "\<not> clean (record_step k s)"
begin

lemma clean_check: "clean (check_if record_step g k s) \<longleftrightarrow> clean s \<and> \<not> g"
  by (simp add: check_if_def record_dirty)

lemma clean_for_each:
  assumes "\<And>x s. x \<in> set xs \<Longrightarrow> clean (body x s) \<longleftrightarrow> clean s \<and> P x"
  shows "clean (for_each xs body s) \<longleftrightarrow> clean s \<and> (\<forall>x \<in> set xs. P x)"
  using assms unfolding for_each_def by (induction xs arbitrary: s) auto

lemma clean_record_each:
  "clean (for_each xs (\<lambda>x. record_step (f x)) s) \<longleftrightarrow> clean s \<and> xs = []"
  using clean_for_each [of xs "\<lambda>x. record_step (f x)" "\<lambda>_. False" s] record_dirty
  by (cases xs) auto

end

definition no_conflicts :: "recorder \<Rightarrow> bool" where
  "no_conflicts st \<longleftrightarrow> rc_conflicts st = [] \<and> rc_conflict_keys st = {}"

lemma record_conflict_dirty: "\<not> no_conflicts (record_conflict r st)"
  by (auto simp: no_conflicts_def record_conflict_def Let_def)

interpretation rlog: conflict_log record_conflict no_conflicts
  by unfold_locales (rule record_conflict_dirty)

declare rlog.clean_check [simp]

subsection \<open>Runs of the recorder\<close>

text \<open>The states a recording step can reach: by recording, any number of times.\<close>

inductive recorded :: "recorder \<Rightarrow> recorder \<Rightarrow> bool" where
  recorded_refl: "recorded s s"
| recorded_step: "recorded s t \<Longrightarrow> recorded s (record_conflict r t)"

lemma recorded_trans: "recorded t u \<Longrightarrow> recorded s t \<Longrightarrow> recorded s u"
  by (induction rule: recorded.induct) (auto intro: recorded.intros)

definition recording :: "(recorder \<Rightarrow> recorder) \<Rightarrow> bool" where
  "recording f \<longleftrightarrow> (\<forall>s. recorded s (f s))"

lemma recordingD: "recording f \<Longrightarrow> recorded s (f s)"
  by (simp add: recording_def)

lemma recorded_after: "recording f \<Longrightarrow> recorded s t \<Longrightarrow> recorded s (f t)"
  by (rule recorded_trans) (auto simp: recording_def)

lemma recording_record [record_grow]: "recording (record_conflict r)"
  by (auto simp: recording_def intro: recorded.intros)

lemma recording_check [record_grow]: "recording (check g r)"
  by (auto simp: recording_def check_if_def intro: recorded.intros)

lemma recording_run_steps [record_grow]:
  "(\<And>f. f \<in> set fs \<Longrightarrow> recording f) \<Longrightarrow> recording (run_steps fs)"
proof (induction fs)
  case Nil
  then show ?case by (simp add: recording_def recorded_refl)
next
  case (Cons f fs)
  then have "recording f" and "recording (run_steps fs)" by auto
  then show ?case by (auto simp: recording_def intro: recorded_trans)
qed

lemma recording_for_each [record_grow]:
  assumes "\<And>x. x \<in> set xs \<Longrightarrow> recording (body x)"
  shows "recording (for_each xs body)"
proof -
  have "recorded s (for_each xs body s)" for s
    unfolding for_each_def
    by (rule foldl_keeps [where P = "recorded s"])
      (auto intro: recorded_refl recorded_trans recordingD [OF assms])
  then show ?thesis by (simp add: recording_def)
qed

lemma recording_id [record_grow]: "recording (\<lambda>s. s)"
  by (simp add: recording_def recorded_refl)

text \<open>\<open>conflict_keys\<close> holds exactly the keys of the recorded conflicts, each conflict is kept once,
  a conflict that blocks the exact quantity is retained as a reason of its scope, and every
  retained reason stems from a conflict.\<close>

definition conflict_key :: "position_fact_conflict \<Rightarrow> str option \<times> str option \<times> str \<times> str list" where
  "conflict_key c = (sc_account_id (fc_affected_scope c), sc_security_id (fc_affected_scope c),
     fc_code c, sc_fields (fc_affected_scope c))"

definition conflict_scope :: "position_fact_conflict \<Rightarrow> scope" where
  "conflict_scope c = (sc_account_id (fc_affected_scope c), sc_security_id (fc_affected_scope c))"

definition recorder_inv :: "recorder \<Rightarrow> bool" where
  "recorder_inv st \<longleftrightarrow>
     rc_conflict_keys st = conflict_key ` set (rc_conflicts st) \<and>
     distinct (map conflict_key (rc_conflicts st)) \<and>
     (\<forall>c \<in> set (rc_conflicts st). fc_blocks_exact_statistical_quantity c \<longrightarrow>
        fc_code c \<in> set (rc_blocking st (conflict_scope c))) \<and>
     (\<forall>sc code. code \<in> set (rc_blocking st sc) \<union> set (rc_valuation st sc) \<longrightarrow>
        (\<exists>c \<in> set (rc_conflicts st). conflict_scope c = sc \<and> fc_code c = code)) \<and>
     (\<forall>code \<in> set (rc_portfolio_blocking st). \<exists>c \<in> set (rc_conflicts st). fc_code c = code)"

lemma report_conflict_simps [simp]:
  "conflict_key (report_conflict r) = report_key r"
  "conflict_scope (report_conflict r) = (rp_account_id r, rp_security_id r)"
  "fc_code (report_conflict r) = rp_code r"
  "fc_blocks_exact_statistical_quantity (report_conflict r) = rp_blocks_exact r"
  by (simp_all add: conflict_key_def conflict_scope_def report_conflict_def report_key_def)

lemma record_conflict_fields:
  "rc_conflicts (record_conflict r st) =
     (if report_key r \<in> rc_conflict_keys st then rc_conflicts st
      else rc_conflicts st @ [report_conflict r])"
  "rc_conflict_keys (record_conflict r st) = insert (report_key r) (rc_conflict_keys st)"
  "rc_blocking (record_conflict r st) sc =
     (if rp_blocks_exact r \<and> sc = (rp_account_id r, rp_security_id r)
      then append_unique (rc_blocking st sc) (rp_code r) else rc_blocking st sc)"
  "rc_valuation (record_conflict r st) sc =
     (if rp_blocks_valuation r \<and> sc = (rp_account_id r, rp_security_id r)
      then append_unique (rc_valuation st sc) (rp_code r) else rc_valuation st sc)"
  "rc_portfolio_blocking (record_conflict r st) =
     (if rp_blocks_exact r \<and> rp_portfolio_dependency r
      then append_unique (rc_portfolio_blocking st) (rp_code r) else rc_portfolio_blocking st)"
  by (auto simp: record_conflict_def Let_def)

lemma recorder_inv_empty: "recorder_inv empty_recorder"
  by (simp add: recorder_inv_def empty_recorder_def)

lemma key_scope:
  "conflict_key c = report_key r \<Longrightarrow>
     conflict_scope c = (rp_account_id r, rp_security_id r) \<and> fc_code c = rp_code r"
  by (auto simp: conflict_key_def conflict_scope_def report_key_def)

lemma recorder_inv_record:
  assumes inv: "recorder_inv st"
  shows "recorder_inv (record_conflict r st)"
proof -
  have present: "\<exists>c \<in> set (rc_conflicts (record_conflict r st)).
      conflict_scope c = (rp_account_id r, rp_security_id r) \<and> fc_code c = rp_code r"
  proof (cases "report_key r \<in> rc_conflict_keys st")
    case True
    with inv obtain c where "c \<in> set (rc_conflicts st)" "conflict_key c = report_key r"
      by (metis (no_types, lifting) imageE recorder_inv_def)
    with True show ?thesis by (auto simp: record_conflict_fields dest: key_scope)
  next
    case False
    then show ?thesis by (simp add: record_conflict_fields)
  qed
  show ?thesis
    unfolding recorder_inv_def
  proof (intro conjI)
    show "rc_conflict_keys (record_conflict r st) =
        conflict_key ` set (rc_conflicts (record_conflict r st))"
      using inv by (auto simp: recorder_inv_def record_conflict_fields)
    show "distinct (map conflict_key (rc_conflicts (record_conflict r st)))"
      using inv by (auto simp: recorder_inv_def record_conflict_fields)
    show "\<forall>c \<in> set (rc_conflicts (record_conflict r st)). fc_blocks_exact_statistical_quantity c \<longrightarrow>
        fc_code c \<in> set (rc_blocking (record_conflict r st) (conflict_scope c))"
      using inv by (auto simp: recorder_inv_def record_conflict_fields)
    show "\<forall>sc code. code \<in> set (rc_blocking (record_conflict r st) sc) \<union>
        set (rc_valuation (record_conflict r st) sc) \<longrightarrow>
        (\<exists>c \<in> set (rc_conflicts (record_conflict r st)). conflict_scope c = sc \<and> fc_code c = code)"
      using inv present by (fastforce simp: recorder_inv_def record_conflict_fields split: if_splits)
    show "\<forall>code \<in> set (rc_portfolio_blocking (record_conflict r st)).
        \<exists>c \<in> set (rc_conflicts (record_conflict r st)). fc_code c = code"
      using inv present by (fastforce simp: recorder_inv_def record_conflict_fields split: if_splits)
  qed
qed

lemma recorded_inv: "recorded s t \<Longrightarrow> recorder_inv s \<Longrightarrow> recorder_inv t"
  by (induction rule: recorded.induct) (auto intro: recorder_inv_record)

text \<open>Nothing that was recorded is ever dropped.\<close>

lemma recorded_grows:
  assumes "recorded s t"
  shows "set (rc_conflicts s) \<subseteq> set (rc_conflicts t)"
    and "set (rc_blocking s sc) \<subseteq> set (rc_blocking t sc)"
    and "set (rc_valuation s sc) \<subseteq> set (rc_valuation t sc)"
    and "set (rc_portfolio_blocking s) \<subseteq> set (rc_portfolio_blocking t)"
  using assms by (induction rule: recorded.induct) (auto simp: record_conflict_fields)

lemma record_portfolio_sticks:
  assumes "rp_blocks_exact r" "rp_portfolio_dependency r"
    and "recorded (record_conflict r s) t"
  shows "rp_code r \<in> set (rc_portfolio_blocking t)"
  using recorded_grows(4) [OF assms(3)] assms(1,2) by (auto simp: record_conflict_fields)

lemma recorder_inv_clean:
  assumes "recorder_inv st" and "rc_conflicts st = []"
  shows "no_conflicts st" "rc_blocking st sc = []" "rc_valuation st sc = []"
    "rc_portfolio_blocking st = []"
proof -
  have no: "code \<notin> set (rc_blocking st sc) \<union> set (rc_valuation st sc)"
    "code \<notin> set (rc_portfolio_blocking st)" for code sc
    using assms by (auto simp: recorder_inv_def simp del: split_paired_All)
  show "no_conflicts st" using assms by (simp add: recorder_inv_def no_conflicts_def)
  show "rc_blocking st sc = []" "rc_valuation st sc = []" "rc_portfolio_blocking st = []"
    using no by (metis Un_iff list.set_intros(1) list.exhaust)+
qed

end
