(* ===== verification/Position_Checks.thy ===== *)
theory Position_Checks
  imports Conflict_Recorder
begin

text \<open>
  The recording functions of \<open>position_management/service.py\<close>, in the order of the source from
  \<open>_record_evidence\<close> to \<open>_record_position_problems\<close>: each takes the facts it looks at and the
  recorder, and passes the recorder on.  Arithmetic runs under the reconciliation context
  (precision 34).  For every function two lemmas follow: it only records (so nothing recorded
  before is lost), and it ends without conflicts exactly when it started without and the facts it
  looks at are in order.
\<close>

definition reconciliation_precision :: nat where "reconciliation_precision = 34"

abbreviation radd :: "decimal \<Rightarrow> decimal \<Rightarrow> decimal" where "radd \<equiv> dadd reconciliation_precision"
abbreviation rsub :: "decimal \<Rightarrow> decimal \<Rightarrow> decimal" where "rsub \<equiv> dsub reconciliation_precision"
abbreviation rmul :: "decimal \<Rightarrow> decimal \<Rightarrow> decimal" where "rmul \<equiv> dmul reconciliation_precision"
abbreviation rsum :: "decimal list \<Rightarrow> decimal" where "rsum \<equiv> dsum reconciliation_precision"

definition sum_if_complete :: "decimal option list \<Rightarrow> decimal option" where
  "sum_if_complete values =
     (if \<exists>v \<in> set values. v = None then None else Some (rsum (map the values)))"

definition record_evidence ::
    "position_evidence \<Rightarrow> datetime \<Rightarrow> str option \<Rightarrow> str option \<Rightarrow> str list \<Rightarrow> bool \<Rightarrow> bool \<Rightarrow> bool \<Rightarrow> bool \<Rightarrow>
     recorder \<Rightarrow> recorder" where
  "record_evidence evidence cutoff_at account_id security_id names blocks current portfolio valuation =
     for_each (problem_codes evidence cutoff_at current)
       (\<lambda>code. record_conflict (report_of account_id security_id code names blocks portfolio valuation))"

subsection \<open>Account facts\<close>

definition cash_layer_values :: "cash_state \<Rightarrow> (str \<times> str \<times> decimal option) list" where
  "cash_layer_values cash =
     [(''CASH_LEDGER_CASH_NEGATIVE'', ''cash_state.ledger_cash'', cs_ledger_cash cash),
      (''CASH_TRADING_CASH_NEGATIVE'', ''cash_state.trading_cash'', cs_trading_cash cash),
      (''CASH_TRANSFERABLE_CASH_NEGATIVE'', ''cash_state.transferable_cash'', cs_transferable_cash cash),
      (''CASH_FROZEN_CASH_NEGATIVE'', ''cash_state.frozen_cash'', cs_frozen_cash cash),
      (''CASH_RECEIVABLE_CASH_NEGATIVE'', ''cash_state.receivable_cash'', cs_receivable_cash cash),
      (''CASH_PAYABLE_CASH_NEGATIVE'', ''cash_state.payable_cash'', cs_payable_cash cash)]"

definition negative :: "decimal option \<Rightarrow> bool" where
  "negative v \<longleftrightarrow> (case v of None \<Rightarrow> False | Some x \<Rightarrow> x < 0)"

definition layers_inconsistent :: "cash_state \<Rightarrow> bool" where
  "layers_inconsistent cash \<longleftrightarrow>
     (case (cs_ledger_cash cash, cs_trading_cash cash, cs_transferable_cash cash) of
        (Some ledger, Some trading, Some transferable) \<Rightarrow> trading > ledger \<or> transferable > trading
      | _ \<Rightarrow> False)"

definition frozen_exceeds_ledger :: "cash_state \<Rightarrow> bool" where
  "frozen_exceeds_ledger cash \<longleftrightarrow>
     (case (cs_ledger_cash cash, cs_trading_cash cash, cs_frozen_cash cash) of
        (Some ledger, Some trading, Some frozen) \<Rightarrow> radd trading frozen > ledger
      | _ \<Rightarrow> False)"

definition record_cash_layer_relationships :: "account_position_snapshot \<Rightarrow> recorder \<Rightarrow> recorder" where
  "record_cash_layer_relationships account =
     (let cash = ap_cash_state account; acct = Some (ap_account_id account) in
      run_steps
       [for_each (cash_layer_values cash) (\<lambda>(code, name, v).
          check (negative v) (report_of acct None code [name] True True False)),
        check (layers_inconsistent cash)
          (report_of acct None ''CASH_AVAILABILITY_LAYERS_INCONSISTENT''
            [''cash_state.ledger_cash'', ''cash_state.trading_cash'', ''cash_state.transferable_cash'']
            True True False),
        check (frozen_exceeds_ledger cash)
          (report_of acct None ''CASH_FROZEN_EXCEEDS_LEDGER_AVAILABILITY''
            [''cash_state.ledger_cash'', ''cash_state.trading_cash'', ''cash_state.frozen_cash'']
            True True False)])"

definition cash_incomplete :: "cash_state \<Rightarrow> bool" where
  "cash_incomplete cash \<longleftrightarrow>
     None \<in> {cs_opening_ledger_cash cash, cs_ledger_cash cash, cs_trading_cash cash,
       cs_transferable_cash cash, cs_frozen_cash cash, cs_receivable_cash cash, cs_payable_cash cash}"

text \<open>The boolean result of \<open>_record_account_problems\<close> is \<open>account_manifest_incomplete\<close>.\<close>

definition account_manifest_incomplete :: "account_position_snapshot \<Rightarrow> datetime \<Rightarrow> bool" where
  "account_manifest_incomplete account cutoff_at \<longleftrightarrow>
     problem_codes (ap_snapshot_evidence account) cutoff_at True \<noteq> []"

definition record_account_problems ::
    "account_position_snapshot \<Rightarrow> datetime \<Rightarrow> recorder \<Rightarrow> recorder" where
  "record_account_problems account cutoff_at =
     (let cash = ap_cash_state account; acct = Some (ap_account_id account) in
      run_steps
       [check (cs_cash_availability_semantics cash = CASH_AVAILABILITY_UNKNOWN)
          (report_of acct None ''CASH_AVAILABILITY_SEMANTICS_UNKNOWN''
            [''cash_state.cash_availability_semantics''] True True False),
        check (cs_ledger_cash_semantics cash = LEDGER_CASH_UNKNOWN)
          (report_of acct None ''LEDGER_CASH_SEMANTICS_UNKNOWN''
            [''cash_state.ledger_cash_semantics''] True True False),
        record_evidence (ap_snapshot_evidence account) cutoff_at acct None [''snapshot_evidence'']
          True True True False,
        check (ap_account_equity account = None)
          (report_of acct None ''ACCOUNT_EQUITY_MISSING'' [''account_equity''] True True False),
        record_evidence (ap_account_equity_evidence account) cutoff_at acct None
          [''account_equity_evidence''] True True True False,
        check (cash_incomplete cash)
          (report_of acct None ''CASH_STATE_INCOMPLETE''
            [''opening_ledger_cash'', ''ledger_cash'', ''trading_cash'', ''transferable_cash'',
             ''frozen_cash'', ''receivable_cash'', ''payable_cash''] True True False),
        record_cash_layer_relationships account,
        record_evidence (cs_opening_ledger_cash_evidence cash) cutoff_at acct None
          [''cash_state.opening_ledger_cash_evidence''] True True True False,
        record_evidence (cs_evidence cash) cutoff_at acct None [''cash_state.evidence'']
          True True True False])"

definition record_opening_ledger_cash_history_conflicts ::
    "account_position_snapshot \<Rightarrow> account_cash_state option \<Rightarrow> recorder \<Rightarrow> recorder" where
  "record_opening_ledger_cash_history_conflicts account prior_cash_state =
     check (case prior_cash_state of
              None \<Rightarrow> False
            | Some prior \<Rightarrow>
                ac_opening_ledger_cash prior \<noteq> cs_opening_ledger_cash (ap_cash_state account))
       (report_of (Some (ap_account_id account)) None ''OPENING_LEDGER_CASH_MUTATED_ACROSS_SNAPSHOTS''
         [''cash_state.opening_ledger_cash''] True True False)"

subsection \<open>Correction lineages\<close>

text \<open>\<open>defaultdict(list)\<close> filled by key, in order of first occurrence.\<close>

definition group_by :: "('a \<Rightarrow> 'k) \<Rightarrow> 'a list \<Rightarrow> ('k \<times> 'a list) list" where
  "group_by key xs = map (\<lambda>k. (k, filter (\<lambda>x. key x = k) xs)) (dict_fromkeys (map key xs))"

text \<open>The \<open>while target is not None\<close> loop of \<open>_has_correction_cycle\<close>; \<open>correction_targets.get(t)\<close>
  is \<open>None\<close> for a missing key and for an entry that corrects nothing.\<close>

definition target_of :: "(str \<times> str option) list \<Rightarrow> str \<Rightarrow> str option" where
  "target_of targets entry_id = (case map_of targets entry_id of None \<Rightarrow> None | Some t \<Rightarrow> t)"

function cycle_loop :: "(str \<times> str option) list \<Rightarrow> str option \<Rightarrow> str set \<Rightarrow> bool" where
  "cycle_loop targets None seen = False"
| "cycle_loop targets (Some t) seen =
     (if t \<in> seen then True else cycle_loop targets (target_of targets t) (insert t seen))"
  by pat_completeness auto
termination
proof (relation "measure (\<lambda>(targets, target, seen).
    2 * card (fst ` set targets - seen) + (case target of None \<Rightarrow> 0 | Some _ \<Rightarrow> 1))")
  fix targets :: "(str \<times> str option) list" and t :: str and seen :: "str set"
  assume "t \<notin> seen"
  show "((targets, target_of targets t, insert t seen), targets, Some t, seen) \<in>
    measure (\<lambda>(targets, target, seen).
      2 * card (fst ` set targets - seen) + (case target of None \<Rightarrow> 0 | Some _ \<Rightarrow> 1))"
  proof (cases "t \<in> fst ` set targets")
    case True
    then have "fst ` set targets - insert t seen \<subset> fst ` set targets - seen"
      using \<open>t \<notin> seen\<close> by auto
    then have "card (fst ` set targets - insert t seen) < card (fst ` set targets - seen)"
      by (intro psubset_card_mono) auto
    then show ?thesis by (simp split: option.splits)
  next
    case False
    then have "map_of targets t = None" by (simp add: map_of_eq_None_iff)
    then have "target_of targets t = None" by (simp add: target_of_def)
    moreover have "fst ` set targets - insert t seen = fst ` set targets - seen" using False by auto
    ultimately show ?thesis by simp
  qed
qed simp

definition has_correction_cycle :: "str \<Rightarrow> (str \<times> str option) list \<Rightarrow> bool" where
  "has_correction_cycle entry_id targets = cycle_loop targets (target_of targets entry_id) {entry_id}"

type_synonym entries_by_id = "(str \<times> position_ledger_entry list) list"

definition entries_of :: "entries_by_id \<Rightarrow> str \<Rightarrow> position_ledger_entry list" where
  "entries_of entries entry_id = dict_get entries entry_id []"

lemma entries_of_key: "entries_of entries k \<noteq> [] \<Longrightarrow> k \<in> fst ` set entries"
  by (cases "map_of entries k") (auto simp: entries_of_def dict_get_def dest!: map_of_SomeD intro: rev_image_eqI)

function correction_lineage_is_invalid ::
    "position_ledger_entry \<Rightarrow> entries_by_id \<Rightarrow> datetime \<Rightarrow> str set \<Rightarrow> bool" where
  "correction_lineage_is_invalid entry entries cutoff_at lineage =
     (if le_entry_id entry \<in> lineage \<or> length (entries_of entries (le_entry_id entry)) \<noteq> 1 \<or>
         \<not> ledger_entry_evidence_is_visible entry cutoff_at
      then True
      else (case le_corrects_entry_id entry of
              None \<Rightarrow> False
            | Some target_id \<Rightarrow>
                if target_id = le_entry_id entry then True
                else (case entries_of entries target_id of
                        [target] \<Rightarrow>
                          (case ev_source_observed_at (le_evidence entry) of
                             None \<Rightarrow> True
                           | Some observed_at \<Rightarrow>
                               if observed_at < le_occurred_at target then True
                               else correction_lineage_is_invalid target entries cutoff_at
                                      (insert (le_entry_id entry) lineage))
                      | _ \<Rightarrow> True)))"
  by pat_completeness auto
termination
proof (relation "measure (\<lambda>(entry, entries, cutoff_at, lineage). card (fst ` set entries - lineage))")
  fix entry :: position_ledger_entry and entries :: entries_by_id and lineage :: "str set"
    and cutoff_at :: datetime and target :: position_ledger_entry
  assume a: "\<not> (le_entry_id entry \<in> lineage \<or> length (entries_of entries (le_entry_id entry)) \<noteq> 1 \<or>
    \<not> ledger_entry_evidence_is_visible entry cutoff_at)"
  then have "le_entry_id entry \<in> fst ` set entries" by (intro entries_of_key) auto
  with a have "fst ` set entries - insert (le_entry_id entry) lineage \<subset> fst ` set entries - lineage"
    by auto
  then show "((target, entries, cutoff_at, insert (le_entry_id entry) lineage), entry, entries,
      cutoff_at, lineage) \<in> measure (\<lambda>(entry, entries, cutoff_at, lineage). card (fst ` set entries - lineage))"
    by (simp add: psubset_card_mono)
qed simp_all

declare correction_lineage_is_invalid.simps [simp del]

subsection \<open>Ledger history\<close>

type_synonym prior_entries = "((str \<times> str) \<times> authoritative_ledger_entry) list"

definition history_entries_by_id ::
    "account_position_snapshot \<Rightarrow> prior_entries \<Rightarrow> entries_by_id" where
  "history_entries_by_id account prior_entries =
     (let current = group_by le_entry_id (ap_ledger_entries account) in
      map (\<lambda>((prior_account_id, entry_id), entry). (entry_id, [position_ledger_entry.truncate entry]))
        (filter (\<lambda>((prior_account_id, entry_id), entry).
           prior_account_id = ap_account_id account \<and> entry_id \<notin> fst ` set current) prior_entries) @
      current)"

definition correction_targets :: "entries_by_id \<Rightarrow> (str \<times> str option) list" where
  "correction_targets entries_by_id =
     map (\<lambda>(entry_id, entries). (entry_id, le_corrects_entry_id (hd entries)))
       (filter (\<lambda>(entry_id, entries). length entries = 1) entries_by_id)"

definition unresolved_corrections ::
    "account_position_snapshot \<Rightarrow> entries_by_id \<Rightarrow> datetime \<Rightarrow> str set" where
  "unresolved_corrections account entries_by_id cutoff_at =
     set (List.map_filter le_security_id
       (filter (\<lambda>entry. le_corrects_entry_id entry \<noteq> None \<and>
          correction_lineage_is_invalid entry entries_by_id cutoff_at {}) (ap_ledger_entries account)))"

text \<open>A record call about one ledger entry: it blocks the portfolio, and the valuation of the
  entry's security when it names one.\<close>

definition entry_report :: "str \<Rightarrow> str option \<Rightarrow> str \<Rightarrow> str list \<Rightarrow> report" where
  "entry_report account_id security_id code names =
     report_of (Some account_id) security_id code names True True (security_id \<noteq> None)"

text \<open>\<open>entry.security_id or target.security_id\<close>\<close>

definition str_or :: "str option \<Rightarrow> str option \<Rightarrow> str option" where
  "str_or a b = (if str_missing a then b else a)"

definition record_correction_conflicts ::
    "str \<Rightarrow> entries_by_id \<Rightarrow> (str \<times> str option) list \<Rightarrow> position_ledger_entry \<Rightarrow> recorder \<Rightarrow> recorder" where
  "record_correction_conflicts account_id entries_by_id targets entry st =
     (case le_corrects_entry_id entry of
        None \<Rightarrow> st
      | Some target_id \<Rightarrow>
          if target_id = le_entry_id entry then
            record_conflict (entry_report account_id (le_security_id entry)
              ''LEDGER_CORRECTION_SELF_REFERENCE'' [''ledger_entries.corrects_entry_id'']) st
          else (case entries_of entries_by_id target_id of
              [] \<Rightarrow> record_conflict (entry_report account_id (le_security_id entry)
                ''LEDGER_CORRECTION_TARGET_MISSING'' [''ledger_entries.corrects_entry_id'']) st
            | target # others \<Rightarrow>
                if others \<noteq> [] then
                  record_conflict (entry_report account_id (le_security_id entry)
                    ''LEDGER_CORRECTION_TARGET_AMBIGUOUS''
                    [''ledger_entries.entry_id'', ''ledger_entries.corrects_entry_id'']) st
                else if has_correction_cycle (le_entry_id entry) targets then
                  record_conflict (entry_report account_id (le_security_id entry)
                    ''LEDGER_CORRECTION_CYCLE'' [''ledger_entries.corrects_entry_id'']) st
                else if (case ev_source_observed_at (le_evidence entry) of
                           None \<Rightarrow> True | Some observed \<Rightarrow> observed < le_occurred_at target) then
                  record_conflict (entry_report account_id
                    (str_or (le_security_id entry) (le_security_id target))
                    ''LEDGER_CORRECTION_EVIDENCE_PRECEDES_TARGET''
                    [''ledger_entries.corrects_entry_id'', ''ledger_entries.evidence.source_observed_at'',
                     ''ledger_entries.occurred_at'']) st
                else st))"

definition entry_mutated :: "str \<Rightarrow> prior_entries \<Rightarrow> position_ledger_entry \<Rightarrow> bool" where
  "entry_mutated account_id prior_entries entry \<longleftrightarrow>
     (case map_of prior_entries (account_id, le_entry_id entry) of
        None \<Rightarrow> False
      | Some prior \<Rightarrow> \<not> ledger_entry_eq prior (authoritative_entry account_id entry))"

definition record_ledger_history_conflicts ::
    "account_position_snapshot \<Rightarrow> prior_entries \<Rightarrow> datetime \<Rightarrow> recorder \<Rightarrow> str set \<times> recorder" where
  "record_ledger_history_conflicts account prior_entries cutoff_at st =
     (let account_id = ap_account_id account;
          current_entry_ids = set (map le_entry_id (ap_ledger_entries account));
          entries_by_id = history_entries_by_id account prior_entries;
          targets = correction_targets entries_by_id
      in (unresolved_corrections account entries_by_id cutoff_at,
          run_steps
           [for_each prior_entries (\<lambda>((prior_account_id, prior_entry_id), historical_entry).
              check (prior_account_id = account_id \<and> prior_entry_id \<notin> current_entry_ids)
                (entry_report account_id (le_security_id historical_entry)
                  ''LEDGER_ENTRY_REMOVED_ACROSS_SNAPSHOTS'' [''ledger_entries.entry_id''])),
            for_each (ap_ledger_entries account) (\<lambda>entry.
              run_steps
               [check (entry_mutated account_id prior_entries entry)
                  (entry_report account_id (le_security_id entry)
                    ''LEDGER_ENTRY_MUTATED_ACROSS_SNAPSHOTS'' [''ledger_entries.entry_id'']),
                record_correction_conflicts account_id entries_by_id targets entry])] st))"

subsection \<open>The checks only record\<close>

lemmas recording_intros = recording_run_steps recording_for_each recording_check recording_record recording_id

lemma recording_evidence [record_grow]:
  "recording (record_evidence e cutoff account security names blocks current portfolio valuation)"
  unfolding record_evidence_def by (intro recording_intros)

lemma recording_cash_layers [record_grow]: "recording (record_cash_layer_relationships account)"
  unfolding record_cash_layer_relationships_def Let_def
  by (rule recording_run_steps) (auto intro!: recording_intros)

lemma recording_account_problems [record_grow]: "recording (record_account_problems account cutoff)"
  unfolding record_account_problems_def Let_def
  by (rule recording_run_steps) (auto intro!: record_grow)

lemma recording_opening_cash [record_grow]:
  "recording (record_opening_ledger_cash_history_conflicts account prior)"
  unfolding record_opening_ledger_cash_history_conflicts_def by (intro recording_intros)

lemma recording_corrections [record_grow]:
  "recording (record_correction_conflicts account_id entries targets entry)"
  unfolding recording_def record_correction_conflicts_def
  by (auto simp: Let_def intro: recorded.intros split: option.splits list.splits)

lemma recording_ledger_history [record_grow]:
  "recording (\<lambda>st. snd (record_ledger_history_conflicts account prior cutoff st))"
  unfolding record_ledger_history_conflicts_def Let_def snd_conv
  by (rule recording_run_steps) (auto intro!: record_grow)

subsection \<open>When the checks stay silent\<close>

lemma clean_evidence [record_clean]:
  "no_conflicts (record_evidence e cutoff account security names blocks current portfolio valuation s) \<longleftrightarrow>
     no_conflicts s \<and> problem_codes e cutoff current = []"
  unfolding record_evidence_def by (rule rlog.clean_record_each)

text \<open>Complete cash layers that nest: what can be transferred is part of what can be traded, and
  what can be traded and what is frozen fit into the ledger cash.\<close>

definition cash_layers_nested :: "cash_state \<Rightarrow> bool" where
  "cash_layers_nested cash \<longleftrightarrow>
     (\<exists>opening ledger trading transferable frozen receivable payable.
        cs_opening_ledger_cash cash = Some opening \<and> cs_ledger_cash cash = Some ledger \<and>
        cs_trading_cash cash = Some trading \<and> cs_transferable_cash cash = Some transferable \<and>
        cs_frozen_cash cash = Some frozen \<and> cs_receivable_cash cash = Some receivable \<and>
        cs_payable_cash cash = Some payable \<and>
        0 \<le> transferable \<and> transferable \<le> trading \<and> trading \<le> ledger \<and> 0 \<le> frozen \<and>
        radd trading frozen \<le> ledger \<and> 0 \<le> receivable \<and> 0 \<le> payable)"

lemma clean_cash_layers [record_clean]:
  "no_conflicts (record_cash_layer_relationships account s) \<longleftrightarrow>
     no_conflicts s \<and> (\<forall>(code, name, v) \<in> set (cash_layer_values (ap_cash_state account)). \<not> negative v) \<and>
     \<not> layers_inconsistent (ap_cash_state account) \<and> \<not> frozen_exceeds_ledger (ap_cash_state account)"
  unfolding record_cash_layer_relationships_def Let_def
  by (simp add: rlog.clean_for_each [where P = "\<lambda>(code, name, v). \<not> negative v"] split_beta)

lemma cash_layers_nested_iff:
  "cash_layers_nested cash \<longleftrightarrow>
     \<not> cash_incomplete cash \<and> (\<forall>(code, name, v) \<in> set (cash_layer_values cash). \<not> negative v) \<and>
     \<not> layers_inconsistent cash \<and> \<not> frozen_exceeds_ledger cash"
  by (cases "cs_opening_ledger_cash cash"; cases "cs_ledger_cash cash"; cases "cs_trading_cash cash";
      cases "cs_transferable_cash cash"; cases "cs_frozen_cash cash"; cases "cs_receivable_cash cash";
      cases "cs_payable_cash cash")
    (auto simp: cash_layers_nested_def cash_incomplete_def cash_layer_values_def negative_def
      layers_inconsistent_def frozen_exceeds_ledger_def)

definition account_facts_in_order :: "account_position_snapshot \<Rightarrow> datetime \<Rightarrow> bool" where
  "account_facts_in_order account cutoff_at \<longleftrightarrow>
     cs_cash_availability_semantics (ap_cash_state account) = BROKER_FINAL_CASH_LAYERS \<and>
     cs_ledger_cash_semantics (ap_cash_state account) = OPENING_BALANCE_PLUS_AUTHORITATIVE_LEDGER \<and>
     ap_account_equity account \<noteq> None \<and> cash_layers_nested (ap_cash_state account) \<and>
     (\<forall>e \<in> {ap_snapshot_evidence account, ap_account_equity_evidence account,
        cs_opening_ledger_cash_evidence (ap_cash_state account), cs_evidence (ap_cash_state account)}.
        problem_codes e cutoff_at True = [])"

lemma cash_availability_known [simp]:
  "s \<noteq> CASH_AVAILABILITY_UNKNOWN \<longleftrightarrow> s = BROKER_FINAL_CASH_LAYERS"
  by (cases s) auto

lemma ledger_cash_known [simp]:
  "s \<noteq> LEDGER_CASH_UNKNOWN \<longleftrightarrow> s = OPENING_BALANCE_PLUS_AUTHORITATIVE_LEDGER"
  by (cases s) auto

lemma clean_account_problems [record_clean]:
  "no_conflicts (record_account_problems account cutoff s) \<longleftrightarrow>
     no_conflicts s \<and> account_facts_in_order account cutoff"
  unfolding record_account_problems_def Let_def account_facts_in_order_def cash_layers_nested_iff
  by (simp add: clean_evidence clean_cash_layers) blast

lemma clean_opening_cash [record_clean]:
  "no_conflicts (record_opening_ledger_cash_history_conflicts account prior s) \<longleftrightarrow>
     no_conflicts s \<and>
     (\<forall>p. prior = Some p \<longrightarrow> cs_opening_ledger_cash (ap_cash_state account) = ac_opening_ledger_cash p)"
  unfolding record_opening_ledger_cash_history_conflicts_def by (auto split: option.splits)

text \<open>A correction in order: exactly one entry of the account has the corrected identity, following
  the corrections from the entry never comes back, and the correction was observed at or after the
  corrected entry occurred.\<close>

definition correction_in_order ::
    "entries_by_id \<Rightarrow> (str \<times> str option) list \<Rightarrow> position_ledger_entry \<Rightarrow> bool" where
  "correction_in_order entries_by_id targets entry \<longleftrightarrow>
     (case le_corrects_entry_id entry of
        None \<Rightarrow> True
      | Some target_id \<Rightarrow>
          target_id \<noteq> le_entry_id entry \<and> \<not> has_correction_cycle (le_entry_id entry) targets \<and>
          (\<exists>target observed. entries_of entries_by_id target_id = [target] \<and>
             ev_source_observed_at (le_evidence entry) = Some observed \<and>
             le_occurred_at target \<le> observed))"

lemma clean_corrections [record_clean]:
  "no_conflicts (record_correction_conflicts account_id entries targets entry s) \<longleftrightarrow>
     no_conflicts s \<and> correction_in_order entries targets entry"
  unfolding record_correction_conflicts_def correction_in_order_def
  by (auto simp: Let_def record_conflict_dirty not_less split: option.splits list.splits)

definition ledger_history_in_order :: "account_position_snapshot \<Rightarrow> prior_entries \<Rightarrow> bool" where
  "ledger_history_in_order account prior_entries \<longleftrightarrow>
     (\<forall>((account_id, entry_id), entry) \<in> set prior_entries. account_id = ap_account_id account \<longrightarrow>
        entry_id \<in> le_entry_id ` set (ap_ledger_entries account)) \<and>
     (\<forall>entry \<in> set (ap_ledger_entries account).
        \<not> entry_mutated (ap_account_id account) prior_entries entry \<and>
        correction_in_order (history_entries_by_id account prior_entries)
          (correction_targets (history_entries_by_id account prior_entries)) entry)"

lemma clean_ledger_history [record_clean]:
  "no_conflicts (snd (record_ledger_history_conflicts account prior cutoff s)) \<longleftrightarrow>
     no_conflicts s \<and> ledger_history_in_order account prior"
proof -
  let ?id = "ap_account_id account"
  let ?ids = "set (map le_entry_id (ap_ledger_entries account))"
  let ?hist = "history_entries_by_id account prior"
  have removed: "no_conflicts (for_each prior (\<lambda>((a, e), h).
        check (a = ?id \<and> e \<notin> ?ids) (entry_report ?id (le_security_id h) code names)) s) \<longleftrightarrow>
      no_conflicts s \<and> (\<forall>p \<in> set prior. fst (fst p) = ?id \<longrightarrow> snd (fst p) \<in> ?ids)" for s code names
    by (rule rlog.clean_for_each) auto
  have entries: "no_conflicts (for_each (ap_ledger_entries account) (\<lambda>entry.
        run_steps [check (entry_mutated ?id prior entry) (r entry),
          record_correction_conflicts ?id ?hist (correction_targets ?hist) entry]) s) \<longleftrightarrow>
      no_conflicts s \<and> (\<forall>entry \<in> set (ap_ledger_entries account).
        \<not> entry_mutated ?id prior entry \<and> correction_in_order ?hist (correction_targets ?hist) entry)"
    for s r
    by (rule rlog.clean_for_each) (simp add: clean_corrections)
  show ?thesis
    unfolding record_ledger_history_conflicts_def Let_def snd_conv run_steps_simps entries removed
      ledger_history_in_order_def
    by (auto simp: split_beta)
qed

end
