(* ===== verification/Ledger_Pass.thy ===== *)
theory Ledger_Pass
  imports Position_Checks
begin

text \<open>
  \<open>_reconstruct_ledger\<close> of \<open>position_management/service.py\<close>: one pass over an account's ledger
  entries.  The variables the pass updates are the record \<open>ledger_pass\<close>; the first loop reports
  duplicated identities, the second looks at every entry and adds its deltas.  The lemmas say what
  the pass leaves behind: the entries in order, per security the sums of the deltas that occurred
  by the cutoff, and a cash delta exactly when every entry could be used.
\<close>

text \<open>\<open>d[k].append(v)\<close> on a \<open>defaultdict(list)\<close>.\<close>

definition dict_append :: "'k \<Rightarrow> 'v \<Rightarrow> ('k \<times> 'v list) list \<Rightarrow> ('k \<times> 'v list) list" where
  "dict_append k v d = AList.update k (dict_get d k [] @ [v]) d"

record ledger_pass =
  lp_recorder :: recorder
  lp_output :: "authoritative_ledger_entry list"
  lp_entries_by_security :: "(str \<times> (decimal \<times> decimal) list) list"
  lp_cash_deltas :: "decimal list"
  lp_cash_complete :: bool
  lp_unresolved :: "str set"

text \<open>\<open>sorted(ids, key=lambda value: (value is not None, value or ""))\<close>\<close>

definition sorted_optional :: "str option list \<Rightarrow> str option list" where
  "sorted_optional ids =
     (if None \<in> set ids then [None] else []) @ map Some (sort (remdups (List.map_filter (\<lambda>x. x) ids)))"

definition with_security :: "str option \<Rightarrow> str set \<Rightarrow> str set" where
  "with_security security_id ids = (case security_id of None \<Rightarrow> ids | Some s \<Rightarrow> insert s ids)"

definition duplicate_step ::
    "str \<Rightarrow> position_ledger_entry list \<Rightarrow> ledger_pass \<Rightarrow> ledger_pass" where
  "duplicate_step account_id duplicate_entries lp =
     (if length duplicate_entries < 2 then lp
      else (foldl (\<lambda>lp security_id.
              lp\<lparr>lp_recorder := record_conflict (entry_report account_id security_id
                   ''LEDGER_ENTRY_ID_DUPLICATED'' [''ledger_entries.entry_id'']) (lp_recorder lp),
                 lp_unresolved := with_security security_id (lp_unresolved lp)\<rparr>)
            lp (sorted_optional (map le_security_id duplicate_entries)))
           \<lparr>lp_cash_complete := False\<rparr>)"

text \<open>\<open>cash_complete = False\<close> and the security of the entry becomes unresolved, when \<open>problem\<close>.\<close>

definition flag_entry :: "bool \<Rightarrow> str option \<Rightarrow> ledger_pass \<Rightarrow> ledger_pass" where
  "flag_entry problem security_id lp =
     (if problem then lp\<lparr>lp_cash_complete := False,
        lp_unresolved := with_security security_id (lp_unresolved lp)\<rparr> else lp)"

definition on_recorder :: "(recorder \<Rightarrow> recorder) \<Rightarrow> ledger_pass \<Rightarrow> ledger_pass" where
  "on_recorder f lp = lp\<lparr>lp_recorder := f (lp_recorder lp)\<rparr>"

definition observed_before_occurrence :: "position_ledger_entry \<Rightarrow> bool" where
  "observed_before_occurrence entry \<longleftrightarrow>
     (case ev_source_observed_at (le_evidence entry) of
        None \<Rightarrow> False | Some observed \<Rightarrow> observed < le_occurred_at entry)"

definition security_id_missing :: "position_ledger_entry \<Rightarrow> bool" where
  "security_id_missing entry \<longleftrightarrow> le_security_id entry = None \<and>
     (le_entry_type entry \<in> {FILL, CORPORATE_ACTION} \<or> le_quantity_delta entry \<noteq> 0 \<or>
      le_cost_basis_delta entry \<noteq> 0)"

definition ledger_entry_step ::
    "str \<Rightarrow> datetime \<Rightarrow> position_ledger_entry \<Rightarrow> ledger_pass \<Rightarrow> ledger_pass" where
  "ledger_entry_step account_id cutoff_at entry lp =
     (let security_id = le_security_id entry;
          lp = lp\<lparr>lp_output := lp_output lp @ [authoritative_entry account_id entry]\<rparr>
      in if le_occurred_at entry > cutoff_at then
           flag_entry True security_id
             (on_recorder (record_conflict (entry_report account_id security_id
                ''LEDGER_ENTRY_AFTER_CUTOFF'' [''ledger_entries.occurred_at''])) lp)
         else
           (let lp = on_recorder (record_evidence (le_evidence entry) cutoff_at (Some account_id)
                  security_id [''ledger_entries.evidence''] True False True (security_id \<noteq> None)) lp;
                lp = flag_entry (problem_codes (le_evidence entry) cutoff_at False \<noteq> []) security_id lp;
                lp = on_recorder (check (observed_before_occurrence entry)
                  (entry_report account_id security_id ''LEDGER_ENTRY_EVIDENCE_PRECEDES_OCCURRENCE''
                    [''ledger_entries.occurred_at'', ''ledger_entries.evidence.source_observed_at''])) lp;
                lp = flag_entry (observed_before_occurrence entry) security_id lp;
                lp = on_recorder (check (security_id_missing entry)
                  (report_of (Some account_id) None ''LEDGER_ENTRY_SECURITY_ID_MISSING''
                    [''ledger_entries.entry_type'', ''ledger_entries.security_id'',
                     ''ledger_entries.quantity_delta'', ''ledger_entries.cost_basis_delta'']
                    True True False)) lp;
                lp = lp\<lparr>lp_cash_complete := lp_cash_complete lp \<and> \<not> security_id_missing entry\<rparr>;
                lp = lp\<lparr>lp_cash_deltas := lp_cash_deltas lp @ [le_cash_delta entry]\<rparr>
            in (case security_id of
                  None \<Rightarrow> lp
                | Some s \<Rightarrow> lp\<lparr>lp_entries_by_security := dict_append s
                    (le_quantity_delta entry, le_cost_basis_delta entry) (lp_entries_by_security lp)\<rparr>)))"

definition ledger_pass_result :: "str \<Rightarrow> datetime \<Rightarrow> position_ledger_entry list \<Rightarrow> ledger_pass \<Rightarrow> ledger_pass" where
  "ledger_pass_result account_id cutoff_at entries lp =
     for_each entries (ledger_entry_step account_id cutoff_at)
       (for_each (map snd (group_by le_entry_id entries)) (duplicate_step account_id) lp)"

type_synonym ledger_totals = "(str \<times> decimal \<times> decimal) list"

definition reconstruct_ledger ::
    "account_position_snapshot \<Rightarrow> datetime \<Rightarrow> recorder \<Rightarrow> authoritative_ledger_entry list \<Rightarrow> str set \<Rightarrow>
     ledger_totals \<times> decimal option \<times> str set \<times> recorder \<times> authoritative_ledger_entry list" where
  "reconstruct_ledger account cutoff_at st output unresolved_security_ids =
     (let lp = ledger_pass_result (ap_account_id account) cutoff_at (ap_ledger_entries account)
            \<lparr>lp_recorder = st, lp_output = output, lp_entries_by_security = [], lp_cash_deltas = [],
             lp_cash_complete = True, lp_unresolved = unresolved_security_ids\<rparr>
      in (map (\<lambda>(security_id, entries).
               (security_id, rsum (map fst entries), rsum (map snd entries))) (lp_entries_by_security lp),
          (if lp_cash_complete lp then Some (rsum (lp_cash_deltas lp)) else None),
          lp_unresolved lp, lp_recorder lp, lp_output lp))"

subsection \<open>Dictionaries of lists\<close>

lemma dict_get_append:
  "dict_get (dict_append k v d) k' [] = (if k' = k then dict_get d k [] @ [v] else dict_get d k' [])"
  by (simp add: dict_append_def dict_get_def update_conv')

lemma keys_dict_append: "fst ` set (dict_append k v d) = insert k (fst ` set d)"
  by (simp add: dict_append_def dom_update)

lemma distinct_dict_append:
  "distinct (map fst d) \<Longrightarrow> distinct (map fst (dict_append k v d))"
  by (simp add: dict_append_def distinct_update)

lemma set_sorted_optional [simp]: "set (sorted_optional ids) = set ids"
proof (rule set_eqI)
  show "x \<in> set (sorted_optional ids) \<longleftrightarrow> x \<in> set ids" for x
    by (cases x) (auto simp: sorted_optional_def set_map_filter)
qed

subsection \<open>What one entry does\<close>

lemma entry_visible_iff:
  "ledger_entry_evidence_is_visible entry cutoff \<longleftrightarrow>
     le_occurred_at entry \<le> cutoff \<and> problem_codes (le_evidence entry) cutoff False = [] \<and>
     \<not> observed_before_occurrence entry"
proof (cases "problem_codes (le_evidence entry) cutoff False = []")
  case True
  then obtain obs where "ev_source_observed_at (le_evidence entry) = Some obs"
    by (rule problem_codes_clean)
  then show ?thesis
    by (auto simp: ledger_entry_evidence_is_visible_def observed_before_occurrence_def)
qed (simp add: ledger_entry_evidence_is_visible_def)

lemma flag_entry_fields [simp]:
  "lp_recorder (flag_entry b s lp) = lp_recorder lp"
  "lp_output (flag_entry b s lp) = lp_output lp"
  "lp_entries_by_security (flag_entry b s lp) = lp_entries_by_security lp"
  "lp_cash_deltas (flag_entry b s lp) = lp_cash_deltas lp"
  "lp_cash_complete (flag_entry b s lp) \<longleftrightarrow> lp_cash_complete lp \<and> \<not> b"
  "lp_unresolved (flag_entry b s lp) = lp_unresolved lp \<union> (if b then set_option s else {})"
  by (cases s; simp add: flag_entry_def with_security_def)+

lemma on_recorder_fields [simp]:
  "lp_recorder (on_recorder f lp) = f (lp_recorder lp)"
  "lp_output (on_recorder f lp) = lp_output lp"
  "lp_entries_by_security (on_recorder f lp) = lp_entries_by_security lp"
  "lp_cash_deltas (on_recorder f lp) = lp_cash_deltas lp"
  "lp_cash_complete (on_recorder f lp) = lp_cash_complete lp"
  "lp_unresolved (on_recorder f lp) = lp_unresolved lp"
  by (simp_all add: on_recorder_def)

lemma ledger_entry_step_fields:
  "lp_output (ledger_entry_step a cutoff entry lp) = lp_output lp @ [authoritative_entry a entry]"
  "lp_cash_deltas (ledger_entry_step a cutoff entry lp) =
     lp_cash_deltas lp @ (if le_occurred_at entry \<le> cutoff then [le_cash_delta entry] else [])"
  "lp_entries_by_security (ledger_entry_step a cutoff entry lp) =
     (case le_security_id entry of
        None \<Rightarrow> lp_entries_by_security lp
      | Some s \<Rightarrow> if le_occurred_at entry \<le> cutoff
          then dict_append s (le_quantity_delta entry, le_cost_basis_delta entry) (lp_entries_by_security lp)
          else lp_entries_by_security lp)"
  "lp_cash_complete (ledger_entry_step a cutoff entry lp) \<longleftrightarrow>
     lp_cash_complete lp \<and> ledger_entry_evidence_is_visible entry cutoff \<and> \<not> security_id_missing entry"
  "lp_unresolved (ledger_entry_step a cutoff entry lp) =
     lp_unresolved lp \<union>
       (if ledger_entry_evidence_is_visible entry cutoff then {} else set_option (le_security_id entry))"
  unfolding entry_visible_iff
  by (auto simp: ledger_entry_step_def Let_def less_le_not_le not_less split: option.splits)

lemma ledger_entry_step_recorder:
  "recorded (lp_recorder lp) (lp_recorder (ledger_entry_step a cutoff entry lp))"
  "no_conflicts (lp_recorder (ledger_entry_step a cutoff entry lp)) \<longleftrightarrow>
     no_conflicts (lp_recorder lp) \<and> ledger_entry_evidence_is_visible entry cutoff \<and>
     \<not> security_id_missing entry"
proof -
  show "recorded (lp_recorder lp) (lp_recorder (ledger_entry_step a cutoff entry lp))"
    by (auto simp: ledger_entry_step_def Let_def split: option.splits
        intro!: recorded_refl recorded_after [OF recording_record] recorded_after [OF recording_check]
          recorded_after [OF recording_evidence])
  show "no_conflicts (lp_recorder (ledger_entry_step a cutoff entry lp)) \<longleftrightarrow>
     no_conflicts (lp_recorder lp) \<and> ledger_entry_evidence_is_visible entry cutoff \<and>
     \<not> security_id_missing entry"
    unfolding entry_visible_iff
    by (auto simp: ledger_entry_step_def Let_def record_conflict_dirty clean_evidence less_le_not_le
        not_less split: option.splits)
qed

subsection \<open>What the pass does\<close>

lemma duplicate_step_fields:
  "lp_output (duplicate_step a es lp) = lp_output lp"
  "lp_cash_deltas (duplicate_step a es lp) = lp_cash_deltas lp"
  "lp_entries_by_security (duplicate_step a es lp) = lp_entries_by_security lp"
  "lp_cash_complete (duplicate_step a es lp) \<longleftrightarrow> lp_cash_complete lp \<and> length es < 2"
  "lp_unresolved (duplicate_step a es lp) = lp_unresolved lp \<union>
     (if length es < 2 then {} else {s. \<exists>e \<in> set es. le_security_id e = Some s})"
proof -
  let ?f = "\<lambda>lp security_id. lp\<lparr>lp_recorder := record_conflict (entry_report a security_id
      ''LEDGER_ENTRY_ID_DUPLICATED'' [''ledger_entries.entry_id'']) (lp_recorder lp),
    lp_unresolved := with_security security_id (lp_unresolved lp)\<rparr>"
  have out: "lp_output (foldl ?f lp ids) = lp_output lp"
    "lp_cash_deltas (foldl ?f lp ids) = lp_cash_deltas lp"
    "lp_entries_by_security (foldl ?f lp ids) = lp_entries_by_security lp"
    "lp_unresolved (foldl ?f lp ids) = lp_unresolved lp \<union> {s. Some s \<in> set ids}" for ids lp
    by (induction ids arbitrary: lp) (auto simp: with_security_def split: option.splits)
  show "lp_output (duplicate_step a es lp) = lp_output lp"
    "lp_cash_deltas (duplicate_step a es lp) = lp_cash_deltas lp"
    "lp_entries_by_security (duplicate_step a es lp) = lp_entries_by_security lp"
    "lp_cash_complete (duplicate_step a es lp) \<longleftrightarrow> lp_cash_complete lp \<and> length es < 2"
    "lp_unresolved (duplicate_step a es lp) = lp_unresolved lp \<union>
       (if length es < 2 then {} else {s. \<exists>e \<in> set es. le_security_id e = Some s})"
    by (auto simp: duplicate_step_def out image_iff) (metis+)?
qed

lemma duplicate_step_recorder:
  "recorded (lp_recorder lp) (lp_recorder (duplicate_step a es lp))"
  "no_conflicts (lp_recorder (duplicate_step a es lp)) \<longleftrightarrow>
     no_conflicts (lp_recorder lp) \<and> length es < 2"
proof -
  let ?r = "\<lambda>security_id. entry_report a security_id
      ''LEDGER_ENTRY_ID_DUPLICATED'' [''ledger_entries.entry_id'']"
  let ?f = "\<lambda>lp security_id. lp\<lparr>lp_recorder := record_conflict (?r security_id) (lp_recorder lp),
    lp_unresolved := with_security security_id (lp_unresolved lp)\<rparr>"
  have fold: "lp_recorder (foldl ?f lp ids) = for_each ids (\<lambda>s. record_conflict (?r s)) (lp_recorder lp)"
    for ids lp
    by (induction ids arbitrary: lp) (simp_all add: for_each_def)
  have ids: "sorted_optional (map le_security_id es) = [] \<longleftrightarrow> es = []"
    by (metis set_sorted_optional set_empty list.map_disc_iff)
  show "recorded (lp_recorder lp) (lp_recorder (duplicate_step a es lp))"
    by (auto simp: duplicate_step_def fold intro!: recorded_refl recordingD recording_intros)
  show "no_conflicts (lp_recorder (duplicate_step a es lp)) \<longleftrightarrow>
     no_conflicts (lp_recorder lp) \<and> length es < 2"
    by (auto simp: duplicate_step_def fold rlog.clean_record_each ids)
qed

lemma group_by_singletons:
  "(\<forall>es \<in> set (map snd (group_by key xs)). length es < 2) \<longleftrightarrow> distinct (map key xs)"
proof -
  have "distinct (map key xs) \<longleftrightarrow> (\<forall>k. length (filter (\<lambda>x. key x = k) xs) < 2)"
  proof (induction xs)
    case (Cons x xs)
    have "(\<forall>k. length (filter (\<lambda>y. key y = k) (x # xs)) < 2) \<longleftrightarrow>
        filter (\<lambda>y. key y = key x) xs = [] \<and> (\<forall>k. length (filter (\<lambda>y. key y = k) xs) < 2)"
      by (auto simp: less_Suc_eq numeral_2_eq_2 split: if_splits)
    also have "filter (\<lambda>y. key y = key x) xs = [] \<longleftrightarrow> key x \<notin> set (map key xs)"
      by (simp add: filter_empty_conv image_iff eq_commute [of "key x"])
    finally show ?case using Cons by simp
  qed simp
  moreover have "(\<forall>k. length (filter (\<lambda>x. key x = k) xs) < 2) \<longleftrightarrow>
      (\<forall>k \<in> key ` set xs. length (filter (\<lambda>x. key x = k) xs) < 2)"
  proof -
    have "length (filter (\<lambda>x. key x = k) xs) < 2" if "k \<notin> key ` set xs" for k
      using that by (subst filter_False) auto
    then show ?thesis by metis
  qed
  ultimately show ?thesis by (auto simp: group_by_def)
qed

text \<open>The fields after each of the two loops.\<close>

lemma for_each_append:
  assumes "\<And>x s. f (body x s) = f s @ g x"
  shows "f (for_each xs body s) = f s @ concat (map g xs)"
  unfolding for_each_def using assms by (induction xs arbitrary: s) auto

lemma for_each_same:
  assumes "\<And>x s. f (body x s) = f s"
  shows "f (for_each xs body s) = f s"
  unfolding for_each_def using assms by (induction xs arbitrary: s) auto

lemma for_each_all:
  assumes "\<And>x s. f (body x s) \<longleftrightarrow> f s \<and> P x"
  shows "f (for_each xs body s) \<longleftrightarrow> f s \<and> (\<forall>x \<in> set xs. P x)"
  unfolding for_each_def using assms by (induction xs arbitrary: s) auto

lemma for_each_Un:
  assumes "\<And>x s. f (body x s) = f s \<union> g x"
  shows "f (for_each xs body s) = f s \<union> (\<Union>x \<in> set xs. g x)"
  unfolding for_each_def using assms by (induction xs arbitrary: s) auto

lemma for_each_recorded:
  assumes "\<And>x s. recorded (f s) (f (body x s))"
  shows "recorded (f s) (f (for_each xs body s))"
  unfolding for_each_def using assms
  by (induction xs arbitrary: s) (auto intro: recorded_refl recorded_trans)

definition occurred_by :: "datetime \<Rightarrow> position_ledger_entry list \<Rightarrow> position_ledger_entry list" where
  "occurred_by cutoff entries = filter (\<lambda>e. le_occurred_at e \<le> cutoff) entries"

lemma entries_by_security_lookup:
  "dict_get (lp_entries_by_security (for_each entries (ledger_entry_step a cutoff) lp)) s [] =
     dict_get (lp_entries_by_security lp) s [] @
     map (\<lambda>e. (le_quantity_delta e, le_cost_basis_delta e))
       (filter (\<lambda>e. le_security_id e = Some s) (occurred_by cutoff entries))"
proof -
  have "dict_get (lp_entries_by_security (for_each entries (ledger_entry_step a cutoff) lp)) s [] =
      dict_get (lp_entries_by_security lp) s [] @
      concat (map (\<lambda>e. if le_occurred_at e \<le> cutoff \<and> le_security_id e = Some s
        then [(le_quantity_delta e, le_cost_basis_delta e)] else []) entries)"
    by (rule for_each_append [where f = "\<lambda>lp. dict_get (lp_entries_by_security lp) s []"])
      (auto simp: ledger_entry_step_fields dict_get_append split: option.splits)
  also have "concat (map (\<lambda>e. if le_occurred_at e \<le> cutoff \<and> le_security_id e = Some s
        then [(le_quantity_delta e, le_cost_basis_delta e)] else []) entries) =
      map (\<lambda>e. (le_quantity_delta e, le_cost_basis_delta e))
        (filter (\<lambda>e. le_security_id e = Some s) (occurred_by cutoff entries))"
    by (induction entries) (auto simp: occurred_by_def)
  finally show ?thesis .
qed

lemma entries_by_security_keys:
  "fst ` set (lp_entries_by_security (for_each entries (ledger_entry_step a cutoff) lp)) =
     fst ` set (lp_entries_by_security lp) \<union> {s. \<exists>e \<in> set (occurred_by cutoff entries). le_security_id e = Some s}"
proof -
  have "fst ` set (lp_entries_by_security (for_each entries (ledger_entry_step a cutoff) lp)) =
      fst ` set (lp_entries_by_security lp) \<union>
      (\<Union>e \<in> set entries. if le_occurred_at e \<le> cutoff then set_option (le_security_id e) else {})"
    by (rule for_each_Un [where f = "\<lambda>lp. fst ` set (lp_entries_by_security lp)"])
      (auto simp: ledger_entry_step_fields keys_dict_append split: option.splits)
  then show ?thesis by (auto simp: occurred_by_def split: if_splits)
qed

subsection \<open>The result of \<open>_reconstruct_ledger\<close>\<close>

definition entries_usable :: "datetime \<Rightarrow> position_ledger_entry list \<Rightarrow> bool" where
  "entries_usable cutoff entries \<longleftrightarrow> distinct (map le_entry_id entries) \<and>
     (\<forall>e \<in> set entries. ledger_entry_evidence_is_visible e cutoff \<and> \<not> security_id_missing e)"

definition unusable_securities :: "datetime \<Rightarrow> position_ledger_entry list \<Rightarrow> str set" where
  "unusable_securities cutoff entries =
     {s. \<exists>e \<in> set entries. le_security_id e = Some s \<and>
       (\<not> ledger_entry_evidence_is_visible e cutoff \<or>
        1 < length (filter (\<lambda>e'. le_entry_id e' = le_entry_id e) entries))}"

definition security_entries :: "datetime \<Rightarrow> position_ledger_entry list \<Rightarrow> str \<Rightarrow> position_ledger_entry list" where
  "security_entries cutoff entries s = filter (\<lambda>e. le_security_id e = Some s) (occurred_by cutoff entries)"

definition ledger_total ::
    "datetime \<Rightarrow> position_ledger_entry list \<Rightarrow> str \<Rightarrow> decimal \<times> decimal" where
  "ledger_total cutoff entries s =
     (rsum (map le_quantity_delta (security_entries cutoff entries s)),
      rsum (map le_cost_basis_delta (security_entries cutoff entries s)))"

lemma reconstruct_recorder:
  assumes "reconstruct_ledger account cutoff st output unresolved = (totals, cash, unresolved', st', output')"
  shows "recorded st st'"
    and "no_conflicts st' \<longleftrightarrow> no_conflicts st \<and> entries_usable cutoff (ap_ledger_entries account)"
    and "output' = output @ map (authoritative_entry (ap_account_id account)) (ap_ledger_entries account)"
proof -
  let ?es = "ap_ledger_entries account" and ?a = "ap_account_id account"
  let ?lp0 = "\<lparr>lp_recorder = st, lp_output = output, lp_entries_by_security = [], lp_cash_deltas = [],
             lp_cash_complete = True, lp_unresolved = unresolved\<rparr>"
  let ?lp1 = "for_each (map snd (group_by le_entry_id ?es)) (duplicate_step ?a) ?lp0"
  let ?lp2 = "for_each ?es (ledger_entry_step ?a cutoff) ?lp1"
  have st': "st' = lp_recorder ?lp2" and out': "output' = lp_output ?lp2"
    using assms by (simp_all add: reconstruct_ledger_def ledger_pass_result_def Let_def)
  have "recorded (lp_recorder ?lp0) (lp_recorder ?lp1)"
    by (rule for_each_recorded) (rule duplicate_step_recorder)
  moreover have "recorded (lp_recorder ?lp1) (lp_recorder ?lp2)"
    by (rule for_each_recorded) (rule ledger_entry_step_recorder)
  ultimately show "recorded st st'" unfolding st' by (auto intro: recorded_trans)
  have "no_conflicts (lp_recorder ?lp1) \<longleftrightarrow> no_conflicts (lp_recorder ?lp0) \<and>
      (\<forall>es \<in> set (map snd (group_by le_entry_id ?es)). length es < 2)"
    by (rule for_each_all [where f = "\<lambda>lp. no_conflicts (lp_recorder lp)"]) (rule duplicate_step_recorder)
  moreover have "no_conflicts (lp_recorder ?lp2) \<longleftrightarrow> no_conflicts (lp_recorder ?lp1) \<and>
      (\<forall>e \<in> set ?es. ledger_entry_evidence_is_visible e cutoff \<and> \<not> security_id_missing e)"
    by (rule for_each_all [where f = "\<lambda>lp. no_conflicts (lp_recorder lp)"]) (rule ledger_entry_step_recorder)
  ultimately show "no_conflicts st' \<longleftrightarrow> no_conflicts st \<and> entries_usable cutoff ?es"
    by (auto simp only: st' group_by_singletons entries_usable_def ledger_pass.select_convs)
  have "lp_output ?lp1 = lp_output ?lp0"
    by (rule for_each_same) (rule duplicate_step_fields)
  moreover have "lp_output ?lp2 = lp_output ?lp1 @ concat (map (\<lambda>e. [authoritative_entry ?a e]) ?es)"
    by (rule for_each_append) (rule ledger_entry_step_fields)
  moreover have "concat (map (\<lambda>e. [authoritative_entry ?a e]) es) = map (authoritative_entry ?a) es" for es
    by (induction es) auto
  ultimately show "output' = output @ map (authoritative_entry ?a) ?es" unfolding out' by simp
qed

lemma duplicated_securities:
  "(\<Union>es \<in> set (map snd (group_by le_entry_id xs)).
      if length es < 2 then {} else {s. \<exists>e \<in> set es. le_security_id e = Some s}) =
   {s. \<exists>e \<in> set xs. le_security_id e = Some s \<and>
      1 < length (filter (\<lambda>e'. le_entry_id e' = le_entry_id e) xs)}"
proof -
  let ?g = "\<lambda>k. filter (\<lambda>e'. le_entry_id e' = k) xs"
  have "(\<Union>es \<in> set (map snd (group_by le_entry_id xs)).
      if length es < 2 then {} else {s. \<exists>e \<in> set es. le_security_id e = Some s}) =
    (\<Union>e' \<in> set xs. if length (?g (le_entry_id e')) < 2 then {}
      else {s. \<exists>e \<in> set (?g (le_entry_id e')). le_security_id e = Some s})"
    by (simp only: group_by_def map_map comp_def snd_conv list.set_map set_dict_fromkeys image_image)
  also have "\<dots> = {s. \<exists>e \<in> set xs. le_security_id e = Some s \<and> 1 < length (?g (le_entry_id e))}"
  proof (rule set_eqI, rule iffI)
    fix s
    assume "s \<in> {s. \<exists>e \<in> set xs. le_security_id e = Some s \<and> 1 < length (?g (le_entry_id e))}"
    then obtain e where "e \<in> set xs" "le_security_id e = Some s" "1 < length (?g (le_entry_id e))" by auto
    then show "s \<in> (\<Union>e' \<in> set xs. if length (?g (le_entry_id e')) < 2 then {}
      else {s. \<exists>e \<in> set (?g (le_entry_id e')). le_security_id e = Some s})"
      by (intro UN_I [of e]) auto
  next
    fix s
    assume "s \<in> (\<Union>e' \<in> set xs. if length (?g (le_entry_id e')) < 2 then {}
      else {s. \<exists>e \<in> set (?g (le_entry_id e')). le_security_id e = Some s})"
    then obtain e e' where "e' \<in> set xs" "\<not> length (?g (le_entry_id e')) < 2" "e \<in> set xs"
      "le_entry_id e = le_entry_id e'" "le_security_id e = Some s"
      by (auto split: if_splits)
    then show "s \<in> {s. \<exists>e \<in> set xs. le_security_id e = Some s \<and> 1 < length (?g (le_entry_id e))}"
      by (intro CollectI bexI [of _ e]) simp_all
  qed
  finally show ?thesis .
qed

lemma reconstruct_totals:
  assumes "reconstruct_ledger account cutoff st output unresolved = (totals, cash, unresolved', st', output')"
  shows "dict_get totals s (0, 0) = ledger_total cutoff (ap_ledger_entries account) s"
    and "fst ` set totals =
      {s. \<exists>e \<in> set (occurred_by cutoff (ap_ledger_entries account)). le_security_id e = Some s}"
    and "distinct (map fst totals)"
    and "cash = (if entries_usable cutoff (ap_ledger_entries account)
       then Some (rsum (map le_cash_delta (ap_ledger_entries account))) else None)"
    and "unresolved' = unresolved \<union> unusable_securities cutoff (ap_ledger_entries account)"
proof -
  let ?es = "ap_ledger_entries account" and ?a = "ap_account_id account"
  let ?lp0 = "\<lparr>lp_recorder = st, lp_output = output, lp_entries_by_security = [], lp_cash_deltas = [],
             lp_cash_complete = True, lp_unresolved = unresolved\<rparr>"
  let ?lp1 = "for_each (map snd (group_by le_entry_id ?es)) (duplicate_step ?a) ?lp0"
  let ?lp2 = "for_each ?es (ledger_entry_step ?a cutoff) ?lp1"
  let ?sums = "\<lambda>(security_id, entries). (security_id, rsum (map fst entries), rsum (map snd entries))"
  have tot: "totals = map ?sums (lp_entries_by_security ?lp2)"
    and cash: "cash = (if lp_cash_complete ?lp2 then Some (rsum (lp_cash_deltas ?lp2)) else None)"
    and unres: "unresolved' = lp_unresolved ?lp2"
    using assms by (simp_all add: reconstruct_ledger_def ledger_pass_result_def Let_def)
  have by1: "lp_entries_by_security ?lp1 = []"
    using for_each_same [of lp_entries_by_security "duplicate_step ?a"] by (simp add: duplicate_step_fields)
  have look: "dict_get (lp_entries_by_security ?lp2) s [] =
      map (\<lambda>e. (le_quantity_delta e, le_cost_basis_delta e)) (security_entries cutoff ?es s)"
    unfolding entries_by_security_lookup by1 by (simp add: dict_get_def security_entries_def)
  have getmap: "dict_get (map ?sums d) s (0, 0) =
      (let l = dict_get d s [] in (rsum (map fst l), rsum (map snd l)))" for d
    by (induction d) (auto simp: dict_get_def Let_def dsum_def)
  show "dict_get totals s (0, 0) = ledger_total cutoff ?es s"
    unfolding tot getmap look by (simp add: Let_def ledger_total_def comp_def)
  have keys: "map fst totals = map fst (lp_entries_by_security ?lp2)"
    unfolding tot by (simp add: split_beta comp_def)
  then have "fst ` set totals = fst ` set (lp_entries_by_security ?lp2)" by (metis list.set_map)
  then show "fst ` set totals = {s. \<exists>e \<in> set (occurred_by cutoff ?es). le_security_id e = Some s}"
    using entries_by_security_keys [of ?es ?a cutoff ?lp1] by (simp add: by1)
  have "distinct (map fst (lp_entries_by_security (for_each es (ledger_entry_step ?a cutoff) lp)))"
    if "distinct (map fst (lp_entries_by_security lp))" for es lp
    using that unfolding for_each_def
    by (induction es arbitrary: lp)
      (auto simp: ledger_entry_step_fields distinct_dict_append split: option.splits)
  then show "distinct (map fst totals)" unfolding keys by (simp add: by1)
  have c1: "lp_cash_complete ?lp1 \<longleftrightarrow> distinct (map le_entry_id ?es)"
    using for_each_all [of lp_cash_complete "duplicate_step ?a" "\<lambda>es. length es < 2"]
      group_by_singletons [of le_entry_id ?es]
    by (simp add: duplicate_step_fields)
  have c2: "lp_cash_complete ?lp2 \<longleftrightarrow> lp_cash_complete ?lp1 \<and>
      (\<forall>e \<in> set ?es. ledger_entry_evidence_is_visible e cutoff \<and> \<not> security_id_missing e)"
    by (rule for_each_all) (rule ledger_entry_step_fields)
  have "lp_cash_deltas ?lp1 = []"
    using for_each_same [of lp_cash_deltas "duplicate_step ?a"] by (simp add: duplicate_step_fields)
  moreover have "lp_cash_deltas ?lp2 = lp_cash_deltas ?lp1 @
      concat (map (\<lambda>e. if le_occurred_at e \<le> cutoff then [le_cash_delta e] else []) ?es)"
    by (rule for_each_append) (rule ledger_entry_step_fields)
  moreover have "concat (map (\<lambda>e. if le_occurred_at e \<le> cutoff then [le_cash_delta e] else []) es) =
      map le_cash_delta es" if "\<forall>e \<in> set es. le_occurred_at e \<le> cutoff" for es
    using that by (induction es) auto
  ultimately show "cash = (if entries_usable cutoff ?es then Some (rsum (map le_cash_delta ?es)) else None)"
    unfolding cash c1 c2 entries_usable_def by (auto simp: ledger_entry_evidence_is_visible_def)
  have "lp_unresolved ?lp1 = unresolved \<union> (\<Union>es \<in> set (map snd (group_by le_entry_id ?es)).
      if length es < 2 then {} else {s. \<exists>e \<in> set es. le_security_id e = Some s})"
    using for_each_Un [of lp_unresolved "duplicate_step ?a"] by (simp add: duplicate_step_fields)
  moreover have "lp_unresolved ?lp2 = lp_unresolved ?lp1 \<union> (\<Union>e \<in> set ?es.
      if ledger_entry_evidence_is_visible e cutoff then {} else set_option (le_security_id e))"
    by (rule for_each_Un) (rule ledger_entry_step_fields)
  ultimately show "unresolved' = unresolved \<union> unusable_securities cutoff ?es"
    unfolding unres duplicated_securities by (auto simp: unusable_securities_def split: if_splits)
qed

end
