(* ===== verification/Position_Facts.thy ===== *)
theory Position_Facts
  imports Ledger_Pass
begin

text \<open>
  The remaining account checks of \<open>position_management/service.py\<close>: \<open>_reconcile_orders\<close>,
  \<open>_record_buy_reserve\<close>, \<open>_record_cash_and_equity\<close>, \<open>_record_quantity\<close> and
  \<open>_record_position_problems\<close>, each with the lemma that it only records and the exact condition
  under which it records nothing.
\<close>

subsection \<open>Open orders\<close>

record order_pass =
  op_recorder :: recorder
  op_sell_quantities :: "(str \<times> decimal option list) list"
  op_buy_reserves :: "decimal option list"
  op_orders_by_id :: "(str \<times> open_order) list"

definition side_name :: "order_side \<Rightarrow> str" where
  "side_name side = (case side of BUY \<Rightarrow> ''BUY'' | SELL \<Rightarrow> ''SELL'')"

text \<open>A record call about one order: only a buy order concerns the whole portfolio.\<close>

definition order_report :: "str \<Rightarrow> open_order \<Rightarrow> str \<Rightarrow> str list \<Rightarrow> report" where
  "order_report account_id order code names =
     report_of (Some account_id) (Some (oo_security_id order)) code names True (oo_side order = BUY) False"

definition record_order_quantity :: "str \<Rightarrow> datetime \<Rightarrow> open_order \<Rightarrow> recorder \<Rightarrow> recorder" where
  "record_order_quantity account_id cutoff_at order =
     run_steps
      [record_evidence (oo_evidence order) cutoff_at (Some account_id) (Some (oo_security_id order))
         [''open_orders.evidence''] True True (oo_side order = BUY) False,
       check (oo_remaining_quantity order = None)
         (order_report account_id order (side_name (oo_side order) @ ''_ORDER_REMAINING_QUANTITY_MISSING'')
           [''open_orders.remaining_quantity'']),
       check (negative (oo_remaining_quantity order))
         (order_report account_id order (side_name (oo_side order) @ ''_ORDER_REMAINING_QUANTITY_NEGATIVE'')
           [''open_orders.remaining_quantity''])]"

definition record_order_reservation :: "str \<Rightarrow> open_order \<Rightarrow> recorder \<Rightarrow> recorder" where
  "record_order_reservation account_id order =
     (case oo_side order of
        SELL \<Rightarrow> check (oo_reserved_cash order \<noteq> None \<or> oo_reserved_cash_semantics order \<noteq> NOT_APPLICABLE)
          (order_report account_id order ''SELL_ORDER_CASH_RESERVATION_INVALID''
            [''open_orders.reserved_cash'', ''open_orders.reserved_cash_semantics''])
      | BUY \<Rightarrow> run_steps
         [check (oo_reserved_cash_semantics order \<noteq> BROKER_FINAL_RESERVED_CASH)
            (order_report account_id order ''BUY_ORDER_RESERVED_CASH_SEMANTICS_UNKNOWN''
              [''open_orders.reserved_cash_semantics'']),
          check (oo_reserved_cash order = None)
            (order_report account_id order ''BUY_ORDER_RESERVED_CASH_MISSING''
              [''open_orders.reserved_cash'']),
          check (negative (oo_reserved_cash order))
            (order_report account_id order ''BUY_ORDER_RESERVED_CASH_NEGATIVE''
              [''open_orders.reserved_cash''])])"

definition order_step :: "str \<Rightarrow> datetime \<Rightarrow> open_order \<Rightarrow> order_pass \<Rightarrow> order_pass" where
  "order_step account_id cutoff_at order op =
     (case map_of (op_orders_by_id op) (oo_order_id order) of
        Some prior_order \<Rightarrow>
          op\<lparr>op_recorder := for_each (dict_fromkeys [oo_security_id prior_order, oo_security_id order])
               (\<lambda>security_id. record_conflict (report_of (Some account_id) (Some security_id)
                  ''OPEN_ORDER_ID_DUPLICATED'' [''open_orders.order_id''] True
                  (oo_side order = BUY \<or> oo_side prior_order = BUY) False)) (op_recorder op)\<rparr>
      | None \<Rightarrow>
          (let op = op\<lparr>op_orders_by_id := AList.update (oo_order_id order) order (op_orders_by_id op),
                 op_recorder := record_order_reservation account_id order
                   (record_order_quantity account_id cutoff_at order (op_recorder op))\<rparr>
           in (case oo_side order of
                 SELL \<Rightarrow> op\<lparr>op_sell_quantities := dict_append (oo_security_id order)
                   (oo_remaining_quantity order) (op_sell_quantities op)\<rparr>
               | BUY \<Rightarrow> op\<lparr>op_buy_reserves := op_buy_reserves op @ [oo_reserved_cash order]\<rparr>)))"

definition reconcile_orders ::
    "account_position_snapshot \<Rightarrow> datetime \<Rightarrow> recorder \<Rightarrow>
     (str \<times> decimal option) list \<times> decimal option \<times> str set \<times> recorder" where
  "reconcile_orders account cutoff_at st =
     (let op = for_each (ap_open_orders account) (order_step (ap_account_id account) cutoff_at)
            \<lparr>op_recorder = st, op_sell_quantities = [], op_buy_reserves = [], op_orders_by_id = []\<rparr>
      in (map (\<lambda>(security_id, values). (security_id, sum_if_complete values)) (op_sell_quantities op),
          sum_if_complete (op_buy_reserves op),
          set (map oo_security_id (filter (\<lambda>order. oo_side order = SELL) (ap_open_orders account))),
          op_recorder op))"

definition record_buy_reserve :: "account_position_snapshot \<Rightarrow> decimal option \<Rightarrow> recorder \<Rightarrow> recorder" where
  "record_buy_reserve account buy_reserves =
     check (case (buy_reserves, cs_frozen_cash (ap_cash_state account)) of
              (Some reserves, Some frozen) \<Rightarrow> reserves > frozen | _ \<Rightarrow> False)
       (report_of (Some (ap_account_id account)) None ''BUY_ORDER_RESERVE_EXCEEDS_FROZEN_CASH''
         [''open_orders.reserved_cash'', ''cash_state.frozen_cash''] True True False)"

subsection \<open>Cash and equity\<close>

definition position_market_value :: "broker_position_fact \<Rightarrow> decimal option" where
  "position_market_value position =
     (case (bp_total_quantity position, bp_market_price position) of
        (Some quantity, Some price) \<Rightarrow> if quantity \<ge> 0 \<and> price > 0 then Some (rmul quantity price) else None
      | _ \<Rightarrow> None)"

definition ledger_cash_mismatch :: "cash_state \<Rightarrow> decimal option \<Rightarrow> bool" where
  "ledger_cash_mismatch cash ledger_cash_delta \<longleftrightarrow>
     (case (cs_opening_ledger_cash cash, ledger_cash_delta, cs_ledger_cash cash) of
        (Some opening, Some delta, Some ledger) \<Rightarrow> radd opening delta \<noteq> ledger | _ \<Rightarrow> False)"

definition account_equity_mismatch :: "account_position_snapshot \<Rightarrow> bool" where
  "account_equity_mismatch account \<longleftrightarrow>
     (let cash = ap_cash_state account;
          market_value = sum_if_complete (map position_market_value (ap_positions account))
      in case (market_value, cs_ledger_cash cash, cs_receivable_cash cash, cs_payable_cash cash,
               ap_account_equity account) of
           (Some value, Some ledger, Some receivable, Some payable, Some equity) \<Rightarrow>
             rsub (radd (radd ledger value) receivable) payable \<noteq> equity
         | _ \<Rightarrow> False)"

definition record_cash_and_equity ::
    "account_position_snapshot \<Rightarrow> decimal option \<Rightarrow> recorder \<Rightarrow> recorder" where
  "record_cash_and_equity account ledger_cash_delta =
     (let acct = Some (ap_account_id account) in
      run_steps
       [check (ledger_cash_mismatch (ap_cash_state account) ledger_cash_delta)
          (report_of acct None ''LEDGER_CASH_MISMATCH''
            [''cash_state.ledger_cash'', ''cash_state.opening_ledger_cash'', ''ledger_entries.cash_delta'']
            True True False),
        check (account_equity_mismatch account)
          (report_of acct None ''ACCOUNT_EQUITY_MISMATCH''
            [''account_equity'', ''cash_state.ledger_cash'', ''positions.total_quantity'',
             ''positions.market_price'', ''cash_state.receivable_cash'', ''cash_state.payable_cash'']
            True True False)])"

subsection \<open>Positions\<close>

definition record_quantity ::
    "str \<Rightarrow> str \<Rightarrow> decimal option \<Rightarrow> str \<Rightarrow> str \<Rightarrow> bool \<Rightarrow> bool \<Rightarrow> recorder \<Rightarrow> recorder" where
  "record_quantity account_id security_id v name prefix valuation portfolio st =
     (let rep = (\<lambda>code. report_of (Some account_id) (Some security_id) code [''positions.'' @ name]
                   True portfolio valuation)
      in case v of
           None \<Rightarrow> record_conflict (rep (prefix @ ''_MISSING'')) st
         | Some x \<Rightarrow> if x < 0 then record_conflict (rep (prefix @ ''_NEGATIVE'')) st else st)"

definition encumbrances :: "broker_position_fact \<Rightarrow> (str \<times> str \<times> decimal option) list" where
  "encumbrances position =
     [(''unsettled_quantity'', ''UNSETTLED_QUANTITY'', bp_unsettled_quantity position),
      (''frozen_quantity'', ''FROZEN_QUANTITY'', bp_frozen_quantity position),
      (''restricted_quantity'', ''RESTRICTED_QUANTITY'', bp_restricted_quantity position),
      (''open_sell_order_quantity'', ''OPEN_SELL_ORDER_QUANTITY'', bp_open_sell_order_quantity position)]"

definition exceeds_total :: "decimal option \<Rightarrow> broker_position_fact \<Rightarrow> bool" where
  "exceeds_total v position \<longleftrightarrow>
     (case (v, bp_total_quantity position) of
        (Some x, Some held) \<Rightarrow> held \<ge> 0 \<and> x > held | _ \<Rightarrow> False)"

text \<open>\<open>value or Decimal("0")\<close>\<close>

definition or_zero :: "decimal option \<Rightarrow> decimal" where
  "or_zero v = (case v of None \<Rightarrow> 0 | Some x \<Rightarrow> x)"

definition encumbered_quantity :: "broker_position_fact \<Rightarrow> decimal" where
  "encumbered_quantity position =
     max (max (max (or_zero (bp_unsettled_quantity position)) (or_zero (bp_frozen_quantity position)))
       (or_zero (bp_restricted_quantity position))) (or_zero (bp_open_sell_order_quantity position))"

definition sellable_contradicts :: "broker_position_fact \<Rightarrow> bool" where
  "sellable_contradicts position \<longleftrightarrow>
     (case (bp_total_quantity position, bp_broker_sellable_quantity position) of
        (Some held, Some sellable) \<Rightarrow>
          held \<ge> 0 \<and> sellable \<ge> 0 \<and> radd sellable (encumbered_quantity position) > held
      | _ \<Rightarrow> False)"

definition record_position_quantities ::
    "str \<Rightarrow> broker_position_fact \<Rightarrow> datetime \<Rightarrow> recorder \<Rightarrow> recorder" where
  "record_position_quantities account_id position cutoff_at =
     (let sec = bp_security_id position;
          rep = (\<lambda>code names. report_of (Some account_id) (Some sec) code names True False False)
      in run_steps
       [record_evidence (bp_evidence position) cutoff_at (Some account_id) (Some sec)
          [''positions.evidence''] True True True True,
        record_quantity account_id sec (bp_total_quantity position) ''total_quantity''
          ''TOTAL_QUANTITY'' True True,
        for_each (encumbrances position) (\<lambda>(name, prefix, v).
          run_steps
           [record_quantity account_id sec v name prefix False False,
            check (exceeds_total v position)
              (rep (prefix @ ''_OUT_OF_BOUNDS'') [''positions.'' @ name, ''positions.total_quantity''])]),
        check (bp_broker_sellable_quantity position = None)
          (rep ''BROKER_SELLABLE_QUANTITY_MISSING'' [''positions.broker_sellable_quantity'']),
        check (negative (bp_broker_sellable_quantity position) \<or>
               exceeds_total (bp_broker_sellable_quantity position) position)
          (rep ''BROKER_SELLABLE_QUANTITY_OUT_OF_BOUNDS''
            [''positions.broker_sellable_quantity'', ''positions.total_quantity'']),
        check (bp_sellable_quantity_semantics position = SELLABLE_UNKNOWN)
          (rep ''SELLABLE_QUANTITY_SEMANTICS_UNKNOWN'' [''positions.sellable_quantity_semantics'']),
        check (bp_encumbrance_quantity_semantics position = ENCUMBRANCE_UNKNOWN)
          (rep ''ENCUMBRANCE_QUANTITY_SEMANTICS_UNKNOWN'' [''positions.encumbrance_quantity_semantics'']),
        check (bp_encumbrance_quantity_semantics position \<noteq> ENCUMBRANCE_UNKNOWN \<and>
               sellable_contradicts position)
          (rep ''BROKER_SELLABLE_QUANTITY_CONTRADICTS_ENCUMBRANCES''
            [''positions.broker_sellable_quantity'', ''positions.unsettled_quantity'',
             ''positions.frozen_quantity'', ''positions.restricted_quantity'',
             ''positions.open_sell_order_quantity'', ''positions.total_quantity''])])"

definition record_position_values ::
    "str \<Rightarrow> broker_position_fact \<Rightarrow> ledger_totals \<Rightarrow> (str \<times> decimal option) list \<Rightarrow> recorder \<Rightarrow> recorder" where
  "record_position_values account_id position ledger_by_security sell_orders =
     (let sec = bp_security_id position;
          rep = (\<lambda>code names. report_of (Some account_id) (Some sec) code names True False False);
          priced = (\<lambda>code names. report_of (Some account_id) (Some sec) code names True True True);
          (quantity, cost) = dict_get ledger_by_security sec (0, 0);
          order_quantity = dict_get sell_orders sec (Some 0)
      in run_steps
       [check (bp_reported_cost_basis position = None)
          (rep ''COST_BASIS_MISSING'' [''positions.reported_cost_basis'']),
        check (negative (bp_reported_cost_basis position))
          (rep ''COST_BASIS_NEGATIVE'' [''positions.reported_cost_basis'']),
        check (bp_market_price position = None)
          (priced ''MARKET_PRICE_MISSING'' [''positions.market_price'']),
        check (case bp_market_price position of None \<Rightarrow> False | Some price \<Rightarrow> price \<le> 0)
          (priced ''MARKET_PRICE_NON_POSITIVE'' [''positions.market_price'']),
        check (case bp_total_quantity position of None \<Rightarrow> False | Some held \<Rightarrow> quantity \<noteq> held)
          (priced ''LEDGER_QUANTITY_MISMATCH'' [''positions.total_quantity'', ''ledger_entries.quantity_delta'']),
        check (case bp_reported_cost_basis position of None \<Rightarrow> False | Some basis \<Rightarrow> cost \<noteq> basis)
          (rep ''LEDGER_COST_BASIS_MISMATCH''
            [''positions.reported_cost_basis'', ''ledger_entries.cost_basis_delta'']),
        check (bp_open_sell_order_quantity position = None \<or> order_quantity = None \<or>
               bp_open_sell_order_quantity position \<noteq> order_quantity)
          (rep ''OPEN_SELL_ORDER_MISMATCH''
            [''positions.open_sell_order_quantity'', ''open_orders.remaining_quantity''])])"

definition record_position_problems ::
    "str \<Rightarrow> broker_position_fact \<Rightarrow> datetime \<Rightarrow> ledger_totals \<Rightarrow> (str \<times> decimal option) list \<Rightarrow>
     recorder \<Rightarrow> recorder" where
  "record_position_problems account_id position cutoff_at ledger_by_security sell_orders st =
     record_position_values account_id position ledger_by_security sell_orders
       (record_position_quantities account_id position cutoff_at st)"

subsection \<open>The checks only record\<close>

lemma recording_order_quantity [record_grow]: "recording (record_order_quantity a cutoff order)"
  unfolding record_order_quantity_def by (rule recording_run_steps) (auto intro!: record_grow)

lemma recording_order_reservation [record_grow]: "recording (record_order_reservation a order)"
  unfolding record_order_reservation_def
  by (cases "oo_side order") (auto intro!: recording_run_steps record_grow)

lemma order_step_recorded: "recorded (op_recorder op) (op_recorder (order_step a cutoff order op))"
  by (auto simp: order_step_def Let_def split: option.splits order_side.splits
      intro!: recorded_refl recordingD recording_for_each recording_record
        recorded_after [OF recording_order_quantity] recorded_after [OF recording_order_reservation])

lemma reconcile_orders_recorded:
  "reconcile_orders account cutoff st = (sells, buys, ids, st') \<Longrightarrow> recorded st st'"
  using for_each_recorded [of op_recorder "order_step (ap_account_id account) cutoff", OF order_step_recorded,
      of "\<lparr>op_recorder = st, op_sell_quantities = [], op_buy_reserves = [], op_orders_by_id = []\<rparr>"]
  by (auto simp: reconcile_orders_def Let_def)

lemma recording_buy_reserve [record_grow]: "recording (record_buy_reserve account reserves)"
  unfolding record_buy_reserve_def by (rule recording_check)

lemma recording_cash_and_equity [record_grow]: "recording (record_cash_and_equity account delta)"
  unfolding record_cash_and_equity_def Let_def by (rule recording_run_steps) (auto intro!: record_grow)

lemma recording_quantity [record_grow]:
  "recording (record_quantity a sec v name prefix valuation portfolio)"
  by (auto simp: recording_def record_quantity_def Let_def intro: recorded.intros split: option.splits)

lemma recording_position_quantities: "recording (record_position_quantities a position cutoff)"
  unfolding record_position_quantities_def Let_def
  by (rule recording_run_steps) (auto intro!: record_grow recording_run_steps)

lemma recording_position_values: "recording (record_position_values a position totals sells)"
  unfolding record_position_values_def Let_def
  by (auto simp: split_beta intro!: recording_run_steps record_grow)

lemma recording_position_problems [record_grow]:
  "recording (record_position_problems a position cutoff totals sells)"
  unfolding recording_def record_position_problems_def
  by (auto intro!: recorded_after [OF recording_position_values] recordingD [OF recording_position_quantities])

subsection \<open>When the checks stay silent\<close>

definition non_negative :: "decimal option \<Rightarrow> bool" where
  "non_negative v \<longleftrightarrow> (case v of None \<Rightarrow> False | Some x \<Rightarrow> 0 \<le> x)"

lemma non_negative_iff: "non_negative v \<longleftrightarrow> v \<noteq> None \<and> \<not> negative v"
  by (cases v) (auto simp: non_negative_def negative_def)

definition order_in_order :: "datetime \<Rightarrow> open_order \<Rightarrow> bool" where
  "order_in_order cutoff order \<longleftrightarrow>
     problem_codes (oo_evidence order) cutoff True = [] \<and> non_negative (oo_remaining_quantity order) \<and>
     (case oo_side order of
        SELL \<Rightarrow> oo_reserved_cash order = None \<and> oo_reserved_cash_semantics order = NOT_APPLICABLE
      | BUY \<Rightarrow> non_negative (oo_reserved_cash order) \<and>
          oo_reserved_cash_semantics order = BROKER_FINAL_RESERVED_CASH)"

lemma clean_order_checks:
  "no_conflicts (record_order_reservation a order (record_order_quantity a cutoff order s)) \<longleftrightarrow>
     no_conflicts s \<and> order_in_order cutoff order"
  by (cases "oo_side order")
    (auto simp: record_order_reservation_def record_order_quantity_def clean_evidence order_in_order_def
      non_negative_iff)

lemma order_step_new:
  assumes "oo_order_id order \<notin> fst ` set (op_orders_by_id op)"
  shows "op_recorder (order_step a cutoff order op) =
      record_order_reservation a order (record_order_quantity a cutoff order (op_recorder op))"
    and "fst ` set (op_orders_by_id (order_step a cutoff order op)) =
      insert (oo_order_id order) (fst ` set (op_orders_by_id op))"
    and "op_sell_quantities (order_step a cutoff order op) = (if oo_side order = SELL
      then dict_append (oo_security_id order) (oo_remaining_quantity order) (op_sell_quantities op)
      else op_sell_quantities op)"
    and "op_buy_reserves (order_step a cutoff order op) = op_buy_reserves op @
      (if oo_side order = BUY then [oo_reserved_cash order] else [])"
proof -
  from assms have "map_of (op_orders_by_id op) (oo_order_id order) = None"
    by (simp add: map_of_eq_None_iff)
  then show "op_recorder (order_step a cutoff order op) =
      record_order_reservation a order (record_order_quantity a cutoff order (op_recorder op))"
    and "fst ` set (op_orders_by_id (order_step a cutoff order op)) =
      insert (oo_order_id order) (fst ` set (op_orders_by_id op))"
    and "op_sell_quantities (order_step a cutoff order op) = (if oo_side order = SELL
      then dict_append (oo_security_id order) (oo_remaining_quantity order) (op_sell_quantities op)
      else op_sell_quantities op)"
    and "op_buy_reserves (order_step a cutoff order op) = op_buy_reserves op @
      (if oo_side order = BUY then [oo_reserved_cash order] else [])"
    by (cases "oo_side order"; simp add: order_step_def Let_def dom_update)+
qed

lemma order_step_duplicate:
  assumes "oo_order_id order \<in> fst ` set (op_orders_by_id op)"
  shows "\<not> no_conflicts (op_recorder (order_step a cutoff order op))"
proof -
  from assms obtain prior where "map_of (op_orders_by_id op) (oo_order_id order) = Some prior"
    by (metis map_of_eq_None_iff not_None_eq)
  then show ?thesis
    by (simp add: order_step_def rlog.clean_record_each del: dict_fromkeys.simps)
qed

lemma clean_orders:
  "no_conflicts (op_recorder (for_each orders (order_step a cutoff) op)) \<longleftrightarrow>
     no_conflicts (op_recorder op) \<and> distinct (map oo_order_id orders) \<and>
     (\<forall>order \<in> set orders. oo_order_id order \<notin> fst ` set (op_orders_by_id op) \<and>
        order_in_order cutoff order)"
proof (induction orders arbitrary: op)
  case (Cons order orders)
  let ?op = "order_step a cutoff order op"
  have step: "for_each (order # orders) (order_step a cutoff) op = for_each orders (order_step a cutoff) ?op"
    by (simp add: for_each_def)
  show ?case
  proof (cases "oo_order_id order \<in> fst ` set (op_orders_by_id op)")
    case True
    then show ?thesis unfolding step Cons using order_step_duplicate [OF True] by auto
  next
    case False
    show ?thesis
      unfolding step Cons order_step_new [OF False] clean_order_checks using False
      by auto (metis image_eqI)
  qed
qed (simp add: for_each_def)

definition orders_of :: "order_side \<Rightarrow> open_order list \<Rightarrow> open_order list" where
  "orders_of side orders = filter (\<lambda>order. oo_side order = side) orders"

definition sell_quantities :: "str \<Rightarrow> open_order list \<Rightarrow> decimal option list" where
  "sell_quantities s orders =
     map oo_remaining_quantity (filter (\<lambda>order. oo_security_id order = s) (orders_of SELL orders))"

lemma orders_collected:
  assumes "distinct (map oo_order_id orders)"
    and "\<forall>order \<in> set orders. oo_order_id order \<notin> fst ` set (op_orders_by_id op)"
  shows "op_buy_reserves (for_each orders (order_step a cutoff) op) =
      op_buy_reserves op @ map oo_reserved_cash (orders_of BUY orders) \<and>
      dict_get (op_sell_quantities (for_each orders (order_step a cutoff) op)) s [] =
      dict_get (op_sell_quantities op) s [] @ sell_quantities s orders"
  using assms
proof (induction orders arbitrary: op)
  case (Cons order orders)
  let ?op = "order_step a cutoff order op"
  have step: "for_each (order # orders) (order_step a cutoff) op = for_each orders (order_step a cutoff) ?op"
    by (simp add: for_each_def)
  have new: "oo_order_id order \<notin> fst ` set (op_orders_by_id op)" using Cons.prems by simp
  have rest: "distinct (map oo_order_id orders)"
      "\<forall>order \<in> set orders. oo_order_id order \<notin> fst ` set (op_orders_by_id ?op)"
    using Cons.prems by (auto simp: order_step_new [OF new]) (metis image_eqI)
  show ?case
    unfolding step Cons.IH [OF rest, THEN conjunct1] Cons.IH [OF rest, THEN conjunct2] order_step_new [OF new]
    by (cases "oo_side order") (simp_all add: orders_of_def sell_quantities_def dict_get_append)
qed (simp_all add: for_each_def orders_of_def sell_quantities_def)

definition orders_in_order :: "datetime \<Rightarrow> open_order list \<Rightarrow> bool" where
  "orders_in_order cutoff orders \<longleftrightarrow>
     distinct (map oo_order_id orders) \<and> (\<forall>order \<in> set orders. order_in_order cutoff order)"

lemma sum_if_complete_Nil: "sum_if_complete [] = Some 0"
  by (simp add: sum_if_complete_def dsum_def)

lemma reconcile_orders_result:
  assumes "reconcile_orders account cutoff st = (sells, buys, ids, st')"
  shows "no_conflicts st' \<longleftrightarrow> no_conflicts st \<and> orders_in_order cutoff (ap_open_orders account)"
    and "ids = oo_security_id ` set (orders_of SELL (ap_open_orders account))"
    and "distinct (map oo_order_id (ap_open_orders account)) \<Longrightarrow>
      buys = sum_if_complete (map oo_reserved_cash (orders_of BUY (ap_open_orders account)))"
    and "distinct (map oo_order_id (ap_open_orders account)) \<Longrightarrow>
      dict_get sells s (Some 0) = sum_if_complete (sell_quantities s (ap_open_orders account))"
proof -
  let ?init = "\<lparr>op_recorder = st, op_sell_quantities = [], op_buy_reserves = [], op_orders_by_id = []\<rparr>"
  let ?orders = "ap_open_orders account"
  let ?op = "for_each ?orders (order_step (ap_account_id account) cutoff) ?init"
  have res: "st' = op_recorder ?op" "buys = sum_if_complete (op_buy_reserves ?op)"
    "sells = map (\<lambda>(security_id, values). (security_id, sum_if_complete values)) (op_sell_quantities ?op)"
    "ids = oo_security_id ` set (orders_of SELL ?orders)"
    using assms by (simp_all add: reconcile_orders_def Let_def orders_of_def)
  show "no_conflicts st' \<longleftrightarrow> no_conflicts st \<and> orders_in_order cutoff ?orders"
    unfolding res clean_orders orders_in_order_def by simp
  show "ids = oo_security_id ` set (orders_of SELL ?orders)" by (fact res)
  assume distinct: "distinct (map oo_order_id ?orders)"
  show "buys = sum_if_complete (map oo_reserved_cash (orders_of BUY ?orders))"
    unfolding res using orders_collected [OF distinct, of ?init] by simp
  have "dict_get (map (\<lambda>(k, vs). (k, sum_if_complete vs)) d) s (Some 0) = sum_if_complete (dict_get d s [])"
    for d
    by (induction d) (auto simp: dict_get_def sum_if_complete_Nil)
  then show "dict_get sells s (Some 0) = sum_if_complete (sell_quantities s ?orders)"
    unfolding res using orders_collected [OF distinct, of ?init] by (simp add: dict_get_def)
qed

definition buy_reserves_covered :: "account_position_snapshot \<Rightarrow> decimal option \<Rightarrow> bool" where
  "buy_reserves_covered account reserves \<longleftrightarrow>
     (\<forall>r f. reserves = Some r \<longrightarrow> cs_frozen_cash (ap_cash_state account) = Some f \<longrightarrow> r \<le> f)"

lemma clean_buy_reserve [record_clean]:
  "no_conflicts (record_buy_reserve account reserves s) \<longleftrightarrow>
     no_conflicts s \<and> buy_reserves_covered account reserves"
  unfolding record_buy_reserve_def buy_reserves_covered_def
  by (cases reserves; cases "cs_frozen_cash (ap_cash_state account)") auto

lemma clean_cash_and_equity [record_clean]:
  "no_conflicts (record_cash_and_equity account delta s) \<longleftrightarrow>
     no_conflicts s \<and> \<not> ledger_cash_mismatch (ap_cash_state account) delta \<and> \<not> account_equity_mismatch account"
  by (auto simp: record_cash_and_equity_def Let_def)

lemma clean_quantity [record_clean]:
  "no_conflicts (record_quantity a sec v name prefix valuation portfolio s) \<longleftrightarrow>
     no_conflicts s \<and> non_negative v"
  by (cases v) (auto simp: record_quantity_def Let_def record_conflict_dirty non_negative_def)

text \<open>A position in order: every quantity lies between zero and the total, what can be sold and the
  largest encumbrance fit into the total, it has a cost basis and a positive price, and the ledger
  and the open orders say the same.\<close>

definition position_in_order ::
    "datetime \<Rightarrow> decimal \<times> decimal \<Rightarrow> decimal option \<Rightarrow> broker_position_fact \<Rightarrow> bool" where
  "position_in_order cutoff ledger open_sells position \<longleftrightarrow>
     problem_codes (bp_evidence position) cutoff True = [] \<and>
     bp_sellable_quantity_semantics position = BROKER_FINAL_SELLABLE \<and>
     bp_encumbrance_quantity_semantics position = OVERLAPPING_NON_SELLABLE \<and>
     (\<exists>held sellable unsettled frozen restricted open_sell basis price.
        bp_total_quantity position = Some held \<and> bp_broker_sellable_quantity position = Some sellable \<and>
        bp_unsettled_quantity position = Some unsettled \<and> bp_frozen_quantity position = Some frozen \<and>
        bp_restricted_quantity position = Some restricted \<and>
        bp_open_sell_order_quantity position = Some open_sell \<and>
        bp_reported_cost_basis position = Some basis \<and> bp_market_price position = Some price \<and>
        {unsettled, frozen, restricted, open_sell, sellable} \<subseteq> {0..held} \<and>
        radd sellable (max (max (max unsettled frozen) restricted) open_sell) \<le> held \<and>
        0 \<le> basis \<and> 0 < price \<and> ledger = (held, basis) \<and> open_sells = Some open_sell)"

lemma sellable_known [simp]: "s \<noteq> SELLABLE_UNKNOWN \<longleftrightarrow> s = BROKER_FINAL_SELLABLE"
  by (cases s) auto

lemma encumbrance_known [simp]: "s \<noteq> ENCUMBRANCE_UNKNOWN \<longleftrightarrow> s = OVERLAPPING_NON_SELLABLE"
  by (cases s) auto

lemma clean_position_quantities:
  "no_conflicts (record_position_quantities a position cutoff s) \<longleftrightarrow>
     no_conflicts s \<and> problem_codes (bp_evidence position) cutoff True = [] \<and>
     non_negative (bp_total_quantity position) \<and>
     (\<forall>(name, prefix, v) \<in> set (encumbrances position). non_negative v \<and> \<not> exceeds_total v position) \<and>
     non_negative (bp_broker_sellable_quantity position) \<and>
     \<not> exceeds_total (bp_broker_sellable_quantity position) position \<and>
     bp_sellable_quantity_semantics position = BROKER_FINAL_SELLABLE \<and>
     bp_encumbrance_quantity_semantics position = OVERLAPPING_NON_SELLABLE \<and>
     \<not> sellable_contradicts position"
proof -
  have each: "no_conflicts (for_each (encumbrances position) (\<lambda>(name, prefix, v).
          run_steps
           [record_quantity a sec v name prefix False False,
            check (exceeds_total v position) (r name prefix)]) s) \<longleftrightarrow>
      no_conflicts s \<and> (\<forall>x \<in> set (encumbrances position).
        non_negative (snd (snd x)) \<and> \<not> exceeds_total (snd (snd x)) position)" for s sec r
    by (rule rlog.clean_for_each) (auto simp: clean_quantity)
  show ?thesis
    unfolding record_position_quantities_def Let_def run_steps_simps rlog.clean_check each
      clean_quantity clean_evidence
    by (auto simp: non_negative_iff split_beta)
qed

lemma clean_position_problems [record_clean]:
  "no_conflicts (record_position_problems a position cutoff totals sells s) \<longleftrightarrow>
     no_conflicts s \<and> position_in_order cutoff (dict_get totals (bp_security_id position) (0, 0))
       (dict_get sells (bp_security_id position) (Some 0)) position"
proof -
  obtain q c where ledger: "dict_get totals (bp_security_id position) (0, 0) = (q, c)" by fastforce
  show ?thesis
    unfolding record_position_problems_def record_position_values_def Let_def ledger prod.case
      run_steps_simps rlog.clean_check clean_position_quantities position_in_order_def
    by (cases "bp_total_quantity position"; cases "bp_broker_sellable_quantity position";
        cases "bp_unsettled_quantity position"; cases "bp_frozen_quantity position";
        cases "bp_restricted_quantity position"; cases "bp_open_sell_order_quantity position";
        cases "bp_reported_cost_basis position"; cases "bp_market_price position")
      (auto simp: non_negative_def negative_def exceeds_total_def encumbrances_def sellable_contradicts_def
        encumbered_quantity_def or_zero_def)
qed

end
