(* ===== verification/Position_Reconcile.thy ===== *)
theory Position_Reconcile
  imports Position_Facts
begin

text \<open>
  \<open>reconcile\<close> of \<open>position_management/service.py\<close>: the loop over the accounts as a step on a record
  of the variables of \<open>_reconcile\<close>, the projections of action units and issuer exposures, and the
  outcome.  The loop body is cut where the source leaves blank lines: account facts and ledger,
  orders and restrictions, positions and cash.
\<close>

record reconcile_state =
  rl_recorder :: recorder
  rl_incomplete_manifest :: bool
  rl_equities :: "decimal option list"
  rl_cash_states :: "account_cash_state list"
  rl_orders_output :: "account_open_order list"
  rl_restrictions_output :: "account_execution_restriction list"
  rl_ledger_output :: "authoritative_ledger_entry list"
  rl_position_rows :: "(account_position_snapshot \<times> broker_position_fact) list"
  rl_active_restrictions :: "str \<times> str option \<Rightarrow> execution_restriction list"
  rl_issuer_by_security :: "(str \<times> str set) list"
  rl_missing_summary :: "str set"

definition rl_record :: "(recorder \<Rightarrow> recorder) \<Rightarrow> reconcile_state \<Rightarrow> reconcile_state" where
  "rl_record f rl = rl\<lparr>rl_recorder := f (rl_recorder rl)\<rparr>"

definition account_cash_state_of :: "account_position_snapshot \<Rightarrow> account_cash_state" where
  "account_cash_state_of account =
     (let cash = ap_cash_state account in
      \<lparr>ac_account_id = ap_account_id account, ac_account_type = ap_account_type account,
       ac_currency = ap_currency account, ac_account_evidence = ap_snapshot_evidence account,
       ac_account_equity = ap_account_equity account,
       ac_account_equity_evidence = ap_account_equity_evidence account,
       ac_cash_availability_semantics = cs_cash_availability_semantics cash,
       ac_ledger_cash_semantics = cs_ledger_cash_semantics cash,
       ac_opening_ledger_cash = cs_opening_ledger_cash cash,
       ac_opening_ledger_cash_evidence = cs_opening_ledger_cash_evidence cash,
       ac_ledger_cash = cs_ledger_cash cash, ac_trading_cash = cs_trading_cash cash,
       ac_transferable_cash = cs_transferable_cash cash, ac_frozen_cash = cs_frozen_cash cash,
       ac_receivable_cash = cs_receivable_cash cash, ac_payable_cash = cs_payable_cash cash,
       ac_cash_state_evidence = cs_evidence cash\<rparr>)"

definition prior_entries_of :: "authoritative_ledger_entry list \<Rightarrow> prior_entries" where
  "prior_entries_of prior_ledger =
     foldl (\<lambda>d entry. dict_setdefault (le_account_id entry, le_entry_id entry) entry d) [] prior_ledger"

definition prior_cash_of :: "account_cash_state list \<Rightarrow> (str \<times> account_cash_state) list" where
  "prior_cash_of prior_cash_states =
     foldl (\<lambda>d cash_state. dict_setdefault (ac_account_id cash_state) cash_state d) [] prior_cash_states"

subsection \<open>The loop over the accounts\<close>

text \<open>The first part of the loop body, up to the open orders; returns the reconstructed ledger, its
  cash delta and the unresolved securities.\<close>

definition account_ledger_step ::
    "datetime \<Rightarrow> prior_entries \<Rightarrow> (str \<times> account_cash_state) list \<Rightarrow> account_position_snapshot \<Rightarrow>
     reconcile_state \<Rightarrow> ledger_totals \<times> decimal option \<times> str set \<times> reconcile_state" where
  "account_ledger_step cutoff_at prior_entries prior_cash account rl =
     (let acct = ap_account_id account;
          rl = rl\<lparr>rl_equities := rl_equities rl @ [ap_account_equity account],
             rl_recorder := record_account_problems account cutoff_at (rl_recorder rl),
             rl_incomplete_manifest :=
               account_manifest_incomplete account cutoff_at \<or> rl_incomplete_manifest rl,
             rl_cash_states := rl_cash_states rl @ [account_cash_state_of account],
             rl_orders_output := rl_orders_output rl @ map (account_order acct) (ap_open_orders account),
             rl_restrictions_output := rl_restrictions_output rl @
               map (account_restriction acct) (ap_execution_restrictions account)\<rparr>;
          rl = rl_record (record_opening_ledger_cash_history_conflicts account
             (map_of prior_cash acct)) rl;
          (unresolved_corrections, st) =
             record_ledger_history_conflicts account prior_entries cutoff_at (rl_recorder rl);
          (ledger_by_security, ledger_cash_delta, unresolved_ledger, st, output) =
             reconstruct_ledger account cutoff_at st (rl_ledger_output rl) unresolved_corrections;
          st = for_each (sorted_list_of_set unresolved_corrections) (\<lambda>security_id.
             record_conflict (report_of (Some acct) (Some security_id)
               ''LEDGER_CORRECTION_LINEAGE_UNRESOLVED''
               [''ledger_entries.corrects_entry_id'', ''ledger_entries.evidence''] True True True)) st
      in (ledger_by_security, ledger_cash_delta, unresolved_ledger,
          rl\<lparr>rl_recorder := st, rl_ledger_output := output\<rparr>))"

definition restriction_step ::
    "datetime \<Rightarrow> str \<Rightarrow> execution_restriction \<Rightarrow> reconcile_state \<Rightarrow> reconcile_state" where
  "restriction_step cutoff_at acct restriction rl =
     (let evidence_codes = problem_codes (er_evidence restriction) cutoff_at True;
          rl = rl_record (record_evidence (er_evidence restriction) cutoff_at (Some acct)
             (er_security_id restriction) [''execution_restrictions.evidence''] True True False False) rl;
          key = (acct, er_security_id restriction)
      in if er_active restriction \<and> evidence_codes = []
         then rl\<lparr>rl_active_restrictions := (rl_active_restrictions rl)
                (key := rl_active_restrictions rl key @ [restriction])\<rparr>
         else rl)"

definition position_step ::
    "datetime \<Rightarrow> ledger_totals \<Rightarrow> (str \<times> decimal option) list \<Rightarrow> account_position_snapshot \<Rightarrow>
     broker_position_fact \<Rightarrow> reconcile_state \<Rightarrow> reconcile_state" where
  "position_step cutoff_at ledger_by_security sell_orders account position rl =
     (let sec = bp_security_id position;
          issuers = rl_issuer_by_security rl
      in rl\<lparr>rl_position_rows := rl_position_rows rl @ [(account, position)],
            rl_issuer_by_security := AList.update sec
              (insert (bp_issuer_id position) (dict_get issuers sec {})) issuers,
            rl_recorder := record_position_problems (ap_account_id account) position cutoff_at
              ledger_by_security sell_orders (rl_recorder rl)\<rparr>)"

definition summary_required ::
    "account_position_snapshot \<Rightarrow> ledger_totals \<Rightarrow> str set \<Rightarrow> str set \<Rightarrow> str set" where
  "summary_required account ledger_by_security sell_order_security_ids unresolved_ledger =
     set (map fst (filter (\<lambda>(security_id, quantity, cost). quantity \<noteq> 0 \<or> cost \<noteq> 0) ledger_by_security)) \<union>
     sell_order_security_ids \<union>
     set (List.map_filter (\<lambda>restriction. if er_active restriction then er_security_id restriction else None)
       (ap_execution_restrictions account)) \<union>
     unresolved_ledger"

definition missing_summaries :: "account_position_snapshot \<Rightarrow> str set \<Rightarrow> str list" where
  "missing_summaries account required =
     sorted_list_of_set (required - set (map bp_security_id (ap_positions account)))"

definition account_step ::
    "datetime \<Rightarrow> prior_entries \<Rightarrow> (str \<times> account_cash_state) list \<Rightarrow> account_position_snapshot \<Rightarrow>
     reconcile_state \<Rightarrow> reconcile_state" where
  "account_step cutoff_at prior_entries prior_cash account rl =
     (let acct = ap_account_id account;
          (ledger_by_security, ledger_cash_delta, unresolved_ledger, rl) =
             account_ledger_step cutoff_at prior_entries prior_cash account rl;
          (sell_orders, buy_reserves, sell_order_security_ids, st) =
             reconcile_orders account cutoff_at (rl_recorder rl);
          rl = rl\<lparr>rl_recorder := record_buy_reserve account buy_reserves st\<rparr>;
          rl = for_each (ap_execution_restrictions account) (restriction_step cutoff_at acct) rl;
          rl = for_each (ap_positions account)
             (position_step cutoff_at ledger_by_security sell_orders account) rl;
          missing = missing_summaries account
             (summary_required account ledger_by_security sell_order_security_ids unresolved_ledger);
          rl = rl_record (for_each missing (\<lambda>security_id.
             record_conflict (report_of (Some acct) (Some security_id) ''BROKER_POSITION_SUMMARY_MISSING''
               [''positions'', ''ledger_entries'', ''open_orders'', ''execution_restrictions'']
               True True True))) rl;
          rl = rl\<lparr>rl_missing_summary := rl_missing_summary rl \<union> set missing\<rparr>
      in rl_record (record_cash_and_equity account ledger_cash_delta) rl)"

definition initial_state :: "position_snapshot_command \<Rightarrow> reconcile_state" where
  "initial_state command =
     \<lparr>rl_recorder = record_evidence (psc_snapshot_evidence command) (psc_cutoff_at command) None None
        [''snapshot_evidence''] True True True False empty_recorder,
      rl_incomplete_manifest =
        problem_codes (psc_snapshot_evidence command) (psc_cutoff_at command) True \<noteq> [],
      rl_equities = [], rl_cash_states = [], rl_orders_output = [], rl_restrictions_output = [],
      rl_ledger_output = [], rl_position_rows = [], rl_active_restrictions = (\<lambda>_. []),
      rl_issuer_by_security = [], rl_missing_summary = {}\<rparr>"

definition account_loop ::
    "position_snapshot_command \<Rightarrow> authoritative_ledger_entry list \<Rightarrow> account_cash_state list \<Rightarrow>
     reconcile_state" where
  "account_loop command prior_ledger prior_cash_states =
     for_each (psc_accounts command)
       (account_step (psc_cutoff_at command) (prior_entries_of prior_ledger) (prior_cash_of prior_cash_states))
       (initial_state command)"

subsection \<open>Projections\<close>

definition scoped_reasons :: "(scope \<Rightarrow> str list) \<Rightarrow> str \<Rightarrow> str \<Rightarrow> str list" where
  "scoped_reasons values account_id security_id =
     dict_fromkeys (values (None, None) @ values (None, Some security_id) @
       values (Some account_id, None) @ values (Some account_id, Some security_id))"

definition action_reasons ::
    "(str \<times> str option \<Rightarrow> execution_restriction list) \<Rightarrow> (scope \<Rightarrow> str list) \<Rightarrow> str list \<Rightarrow>
     account_position_snapshot \<Rightarrow> broker_position_fact \<Rightarrow> str list" where
  "action_reasons active_restrictions blocking portfolio_blocking account position =
     (let restrictions = active_restrictions (ap_account_id account, None) @
            active_restrictions (ap_account_id account, Some (bp_security_id position))
      in dict_fromkeys (portfolio_blocking @
           scoped_reasons blocking (ap_account_id account) (bp_security_id position) @
           map (\<lambda>r. ''EXECUTION_RESTRICTION_ACTIVE:'' @ er_restriction_id r) restrictions))"

definition exact_quantity :: "broker_position_fact \<Rightarrow> str list \<Rightarrow> decimal option" where
  "exact_quantity position reasons =
     (if bp_broker_sellable_quantity position \<noteq> None \<and>
         bp_sellable_quantity_semantics position = BROKER_FINAL_SELLABLE \<and> reasons = []
      then bp_broker_sellable_quantity position else None)"

definition action_unit ::
    "account_position_snapshot \<Rightarrow> broker_position_fact \<Rightarrow> str list \<Rightarrow> position_action_unit" where
  "action_unit account position reasons =
     \<lparr>au_account_id = ap_account_id account, au_account_type = ap_account_type account,
      au_currency = ap_currency account, au_position_id = bp_position_id position,
      au_origin = bp_origin position, au_lifecycle_id = bp_lifecycle_id position,
      au_issuer_id = bp_issuer_id position, au_security_id = bp_security_id position,
      au_total_quantity = bp_total_quantity position,
      au_broker_sellable_quantity = bp_broker_sellable_quantity position,
      au_sellable_quantity_semantics = bp_sellable_quantity_semantics position,
      au_encumbrance_quantity_semantics = bp_encumbrance_quantity_semantics position,
      au_unsettled_quantity = bp_unsettled_quantity position,
      au_frozen_quantity = bp_frozen_quantity position,
      au_restricted_quantity = bp_restricted_quantity position,
      au_open_sell_order_quantity = bp_open_sell_order_quantity position,
      au_reported_cost_basis = bp_reported_cost_basis position,
      au_market_price = bp_market_price position,
      au_exact_statistical_action_quantity = exact_quantity position reasons,
      au_exact_quantity_status =
        (if exact_quantity position reasons \<noteq> None then AVAILABLE_QUANTITY else BLOCKED_QUANTITY),
      au_reasons = reasons, au_position_evidence = bp_evidence position\<rparr>"

definition project_actions ::
    "(account_position_snapshot \<times> broker_position_fact) list \<Rightarrow>
     (str \<times> str option \<Rightarrow> execution_restriction list) \<Rightarrow> (scope \<Rightarrow> str list) \<Rightarrow> str list \<Rightarrow>
     position_action_unit list" where
  "project_actions rows active_restrictions blocking portfolio_blocking =
     map (\<lambda>(account, position). action_unit account position
       (action_reasons active_restrictions blocking portfolio_blocking account position)) rows"

definition exposure_value :: "broker_position_fact list \<Rightarrow> decimal" where
  "exposure_value positions =
     rsum (List.map_filter (\<lambda>position.
       case (bp_total_quantity position, bp_market_price position) of
         (Some quantity, Some price) \<Rightarrow> Some (rmul quantity price) | _ \<Rightarrow> None) positions)"

definition exposure_invalid ::
    "(scope \<Rightarrow> str list) \<Rightarrow> bool \<Rightarrow> str set \<Rightarrow> account_position_snapshot \<times> broker_position_fact \<Rightarrow> bool" where
  "exposure_invalid valuation has_missing conflicting row \<longleftrightarrow>
     has_missing \<or> bp_security_id (snd row) \<in> conflicting \<or>
     scoped_reasons valuation (ap_account_id (fst row)) (bp_security_id (snd row)) \<noteq> []"

definition project_exposures ::
    "(account_position_snapshot \<times> broker_position_fact) list \<Rightarrow> str \<Rightarrow> (scope \<Rightarrow> str list) \<Rightarrow> bool \<Rightarrow>
     str set \<Rightarrow> issuer_exposure list" where
  "project_exposures rows currency valuation has_missing conflicting =
     (let issuer_rows = group_by (\<lambda>row. bp_issuer_id (snd row)) rows;
          invalid_issuers = set (map (\<lambda>row. bp_issuer_id (snd row))
            (filter (exposure_invalid valuation has_missing conflicting) rows))
      in map (\<lambda>(issuer_id, values).
           \<lparr>ie_issuer_id = issuer_id, ie_valuation_currency = currency,
            ie_account_ids = dict_fromkeys (map (\<lambda>row. ap_account_id (fst row)) values),
            ie_current_market_exposure =
              (if issuer_id \<in> invalid_issuers then None else Some (exposure_value (map snd values)))\<rparr>)
         (sort_key fst issuer_rows))"

subsection \<open>The outcome\<close>

definition conflicting_securities :: "reconcile_state \<Rightarrow> str list" where
  "conflicting_securities rl =
     map fst (filter (\<lambda>(security_id, issuers). card issuers > 1) (sort_key fst (rl_issuer_by_security rl)))"

definition record_issuer_conflicts :: "reconcile_state \<Rightarrow> recorder \<Rightarrow> recorder" where
  "record_issuer_conflicts rl =
     for_each (conflicting_securities rl) (\<lambda>security_id.
       record_conflict (report_of None (Some security_id) ''SECURITY_ISSUER_IDENTITY_CONFLICT''
         [''positions.security_id'', ''positions.issuer_id''] True True True))"

definition record_annotation_conflicts :: "position_snapshot_command \<Rightarrow> recorder \<Rightarrow> recorder" where
  "record_annotation_conflicts command =
     for_each (psc_annotations command) (\<lambda>annotation.
       check (an_created_at annotation > psc_cutoff_at command)
         (report_of (Some (an_account_id annotation)) (Some (an_security_id annotation))
           ''ANNOTATION_AFTER_CUTOFF'' [''annotations.created_at''] False False False))"

definition coverage_codes :: "str list" where
  "coverage_codes =
     [''LEDGER_ENTRY_REMOVED_ACROSS_SNAPSHOTS'', ''LEDGER_ENTRY_SECURITY_ID_MISSING'',
      ''LEDGER_ENTRY_MUTATED_ACROSS_SNAPSHOTS'', ''LEDGER_CORRECTION_SELF_REFERENCE'',
      ''LEDGER_CORRECTION_TARGET_MISSING'', ''LEDGER_CORRECTION_CYCLE'',
      ''LEDGER_CORRECTION_EVIDENCE_PRECEDES_TARGET'']"

definition reconciled_snapshot ::
    "position_snapshot_command \<Rightarrow> reconcile_state \<Rightarrow> recorder \<Rightarrow> reconciled_position_snapshot" where
  "reconciled_snapshot command rl st =
     (let has_unresolved_holding_coverage =
            list_ex (\<lambda>conflict. fc_code conflict \<in> set coverage_codes) (rc_conflicts st)
      in \<lparr>rs_snapshot_id = psc_snapshot_id command, rs_cutoff_at = psc_cutoff_at command,
          rs_valuation_currency = psc_valuation_currency command,
          rs_snapshot_source = ev_source (psc_snapshot_evidence command),
          rs_evidence_clock = evidence_clock (psc_snapshot_evidence command),
          rs_snapshot_evidence = psc_snapshot_evidence command,
          rs_total_account_equity =
            (if rc_portfolio_blocking st = [] then sum_if_complete (rl_equities rl) else None),
          rs_action_units = project_actions (rl_position_rows rl) (rl_active_restrictions rl)
            (rc_blocking st) (rc_portfolio_blocking st),
          rs_issuer_exposures = project_exposures (rl_position_rows rl) (psc_valuation_currency command)
            (rc_valuation st)
            (rl_missing_summary rl \<noteq> {} \<or> rl_incomplete_manifest rl \<or> has_unresolved_holding_coverage)
            (set (conflicting_securities rl)),
          rs_cash_states = rl_cash_states rl, rs_unfinished_orders = rl_orders_output rl,
          rs_execution_restrictions = rl_restrictions_output rl,
          rs_authoritative_ledger = rl_ledger_output rl,
          rs_user_annotations = psc_annotations command\<rparr>)"

definition final_recorder :: "position_snapshot_command \<Rightarrow> reconcile_state \<Rightarrow> recorder" where
  "final_recorder command rl =
     record_annotation_conflicts command (record_issuer_conflicts rl (rl_recorder rl))"

definition reconcile ::
    "position_snapshot_command \<Rightarrow> authoritative_ledger_entry list \<Rightarrow> account_cash_state list \<Rightarrow>
     position_reconciliation_outcome" where
  "reconcile command prior_ledger prior_cash_states =
     (let rl = account_loop command prior_ledger prior_cash_states;
          st = final_recorder command rl;
          snapshot = reconciled_snapshot command rl st
      in if rc_conflicts st \<noteq> []
         then \<lparr>po_disposition = CONFLICTED,
               po_reasons = dict_fromkeys (map fc_code (rc_conflicts st)),
               po_snapshot = snapshot, po_conflicts = rc_conflicts st\<rparr>
         else \<lparr>po_disposition = RECONCILED,
               po_reasons = [''AUTHORITATIVE_POSITION_FACTS_RECONCILED''],
               po_snapshot = snapshot, po_conflicts = []\<rparr>)"

subsection \<open>Fields of the account loop\<close>

lemma rl_record_fields [simp]:
  "rl_recorder (rl_record f rl) = f (rl_recorder rl)"
  "rl_incomplete_manifest (rl_record f rl) = rl_incomplete_manifest rl"
  "rl_equities (rl_record f rl) = rl_equities rl"
  "rl_cash_states (rl_record f rl) = rl_cash_states rl"
  "rl_orders_output (rl_record f rl) = rl_orders_output rl"
  "rl_restrictions_output (rl_record f rl) = rl_restrictions_output rl"
  "rl_ledger_output (rl_record f rl) = rl_ledger_output rl"
  "rl_position_rows (rl_record f rl) = rl_position_rows rl"
  "rl_active_restrictions (rl_record f rl) = rl_active_restrictions rl"
  "rl_issuer_by_security (rl_record f rl) = rl_issuer_by_security rl"
  "rl_missing_summary (rl_record f rl) = rl_missing_summary rl"
  by (simp_all add: rl_record_def)

lemma restriction_loop_fields [simp]:
  fixes rs c a rl
  defines "rl' \<equiv> for_each rs (restriction_step c a) rl"
  shows "rl_equities rl' = rl_equities rl" "rl_ledger_output rl' = rl_ledger_output rl"
    "rl_position_rows rl' = rl_position_rows rl" "rl_issuer_by_security rl' = rl_issuer_by_security rl"
    "rl_missing_summary rl' = rl_missing_summary rl" "rl_incomplete_manifest rl' = rl_incomplete_manifest rl"
    "rl_cash_states rl' = rl_cash_states rl" "rl_orders_output rl' = rl_orders_output rl"
  unfolding rl'_def
  by (rule for_each_same; simp add: restriction_step_def Let_def)+

lemma position_loop_fields [simp]:
  fixes ps c t s a rl
  defines "rl' \<equiv> for_each ps (position_step c t s a) rl"
  shows "rl_equities rl' = rl_equities rl" "rl_ledger_output rl' = rl_ledger_output rl"
    "rl_active_restrictions rl' = rl_active_restrictions rl"
    "rl_missing_summary rl' = rl_missing_summary rl" "rl_incomplete_manifest rl' = rl_incomplete_manifest rl"
    "rl_cash_states rl' = rl_cash_states rl" "rl_orders_output rl' = rl_orders_output rl"
  unfolding rl'_def
  by (rule for_each_same; simp add: position_step_def Let_def)+

lemma position_loop_rows [simp]:
  "rl_position_rows (for_each ps (position_step c t s a) rl) = rl_position_rows rl @ map (Pair a) ps"
proof -
  have "rl_position_rows (for_each ps (position_step c t s a) rl) =
      rl_position_rows rl @ concat (map (\<lambda>p. [(a, p)]) ps)"
    by (rule for_each_append) (simp add: position_step_def Let_def)
  also have "concat (map (\<lambda>p. [(a, p)]) ps) = map (Pair a) ps" by (induction ps) auto
  finally show ?thesis .
qed

lemma restriction_loop_recorder:
  "recorded (rl_recorder rl) (rl_recorder (for_each rs (restriction_step c a) rl))"
  "no_conflicts (rl_recorder (for_each rs (restriction_step c a) rl)) \<longleftrightarrow>
     no_conflicts (rl_recorder rl) \<and> (\<forall>r \<in> set rs. problem_codes (er_evidence r) c True = [])"
proof -
  have rec: "rl_recorder (restriction_step c a r rl) = record_evidence (er_evidence r) c (Some a)
      (er_security_id r) [''execution_restrictions.evidence''] True True False False (rl_recorder rl)" for r rl
    by (simp add: restriction_step_def Let_def)
  show "recorded (rl_recorder rl) (rl_recorder (for_each rs (restriction_step c a) rl))"
    by (rule for_each_recorded) (simp add: rec recordingD [OF recording_evidence])
  show "no_conflicts (rl_recorder (for_each rs (restriction_step c a) rl)) \<longleftrightarrow>
     no_conflicts (rl_recorder rl) \<and> (\<forall>r \<in> set rs. problem_codes (er_evidence r) c True = [])"
    by (rule for_each_all [where f = "\<lambda>rl. no_conflicts (rl_recorder rl)"]) (simp add: rec clean_evidence)
qed

lemma position_loop_recorder:
  "recorded (rl_recorder rl) (rl_recorder (for_each ps (position_step c t s a) rl))"
  "no_conflicts (rl_recorder (for_each ps (position_step c t s a) rl)) \<longleftrightarrow>
     no_conflicts (rl_recorder rl) \<and>
     (\<forall>p \<in> set ps. position_in_order c (dict_get t (bp_security_id p) (0, 0))
        (dict_get s (bp_security_id p) (Some 0)) p)"
proof -
  have rec: "rl_recorder (position_step c t s a p rl) =
      record_position_problems (ap_account_id a) p c t s (rl_recorder rl)" for p rl
    by (simp add: position_step_def Let_def)
  show "recorded (rl_recorder rl) (rl_recorder (for_each ps (position_step c t s a) rl))"
    by (rule for_each_recorded) (simp add: rec recordingD [OF recording_position_problems])
  show "no_conflicts (rl_recorder (for_each ps (position_step c t s a) rl)) \<longleftrightarrow>
     no_conflicts (rl_recorder rl) \<and>
     (\<forall>p \<in> set ps. position_in_order c (dict_get t (bp_security_id p) (0, 0))
        (dict_get s (bp_security_id p) (Some 0)) p)"
    by (rule for_each_all [where f = "\<lambda>rl. no_conflicts (rl_recorder rl)"])
      (simp add: rec clean_position_problems)
qed

text \<open>The first part of the loop body.\<close>

definition ledger_facts_in_order ::
    "datetime \<Rightarrow> prior_entries \<Rightarrow> (str \<times> account_cash_state) list \<Rightarrow> account_position_snapshot \<Rightarrow> bool" where
  "ledger_facts_in_order cutoff prior_entries prior_cash account \<longleftrightarrow>
     account_facts_in_order account cutoff \<and>
     (\<forall>p. map_of prior_cash (ap_account_id account) = Some p \<longrightarrow>
        cs_opening_ledger_cash (ap_cash_state account) = ac_opening_ledger_cash p) \<and>
     ledger_history_in_order account prior_entries \<and>
     entries_usable cutoff (ap_ledger_entries account) \<and>
     (\<forall>e \<in> set (ap_ledger_entries account).
        le_security_id e \<noteq> None \<longrightarrow> le_corrects_entry_id e \<noteq> None \<longrightarrow>
        \<not> correction_lineage_is_invalid e (history_entries_by_id account prior_entries) cutoff {})"

lemma unresolved_corrections_empty:
  "unresolved_corrections account entries cutoff = {} \<longleftrightarrow>
     (\<forall>e \<in> set (ap_ledger_entries account).
        le_security_id e \<noteq> None \<longrightarrow> le_corrects_entry_id e \<noteq> None \<longrightarrow>
        \<not> correction_lineage_is_invalid e entries cutoff {})"
  by (auto simp: unresolved_corrections_def set_map_filter) (metis option.distinct(1))

lemma finite_unresolved_corrections [simp]: "finite (unresolved_corrections account entries cutoff)"
  by (simp add: unresolved_corrections_def)

lemma account_ledger_step_after_history:
  assumes step: "account_ledger_step c pe pc account rl = (totals, delta, unresolved, rl')"
  shows "recorded (snd (record_ledger_history_conflicts account pe c
      (record_opening_ledger_cash_history_conflicts account (map_of pc (ap_account_id account))
        (record_account_problems account c (rl_recorder rl))))) (rl_recorder rl')"
    (is "recorded ?st2 _")
proof -
  let ?unres = "unresolved_corrections account (history_entries_by_id account pe) c"
  have hist: "fst (record_ledger_history_conflicts account pe c st) = ?unres" for st
    by (simp add: record_ledger_history_conflicts_def Let_def)
  obtain t d u st' out where recon:
    "reconstruct_ledger account c ?st2 (rl_ledger_output rl) ?unres = (t, d, u, st', out)"
    by (metis surj_pair)
  show ?thesis
    using step reconstruct_recorder(1) [OF recon]
    by (auto simp: account_ledger_step_def Let_def rl_record_def hist split_beta recon
        intro!: recorded_after [OF recording_for_each] recording_record)
qed

lemma account_ledger_step_result:
  assumes step: "account_ledger_step c pe pc account rl = (totals, delta, unresolved, rl')"
  shows "recorded (rl_recorder rl) (rl_recorder rl')"
    and "no_conflicts (rl_recorder rl') \<longleftrightarrow>
      no_conflicts (rl_recorder rl) \<and> ledger_facts_in_order c pe pc account"
    and "\<exists>st st'. reconstruct_ledger account c st (rl_ledger_output rl)
      (unresolved_corrections account (history_entries_by_id account pe) c) =
      (totals, delta, unresolved, st', rl_ledger_output rl')"
    and "rl_position_rows rl' = rl_position_rows rl" "rl_issuer_by_security rl' = rl_issuer_by_security rl"
    "rl_active_restrictions rl' = rl_active_restrictions rl"
    "rl_missing_summary rl' = rl_missing_summary rl"
    "rl_equities rl' = rl_equities rl @ [ap_account_equity account]"
    "rl_cash_states rl' = rl_cash_states rl @ [account_cash_state_of account]"
    "rl_incomplete_manifest rl' \<longleftrightarrow>
      account_manifest_incomplete account c \<or> rl_incomplete_manifest rl"
proof -
  let ?unres = "unresolved_corrections account (history_entries_by_id account pe) c"
  let ?st1 = "record_opening_ledger_cash_history_conflicts account (map_of pc (ap_account_id account))
      (record_account_problems account c (rl_recorder rl))"
  let ?st2 = "snd (record_ledger_history_conflicts account pe c ?st1)"
  let ?lineage = "\<lambda>st. for_each (sorted_list_of_set ?unres) (\<lambda>security_id.
      record_conflict (report_of (Some (ap_account_id account)) (Some security_id)
        ''LEDGER_CORRECTION_LINEAGE_UNRESOLVED''
        [''ledger_entries.corrects_entry_id'', ''ledger_entries.evidence''] True True True)) st"
  have hist: "fst (record_ledger_history_conflicts account pe c st) = ?unres" for st
    by (simp add: record_ledger_history_conflicts_def Let_def)
  obtain t d u st' out where recon:
    "reconstruct_ledger account c ?st2 (rl_ledger_output rl) ?unres = (t, d, u, st', out)"
    by (metis surj_pair)
  have fields: "totals = t" "delta = d" "unresolved = u" "rl_recorder rl' = ?lineage st'"
      "rl_ledger_output rl' = out"
    "rl_position_rows rl' = rl_position_rows rl" "rl_issuer_by_security rl' = rl_issuer_by_security rl"
    "rl_active_restrictions rl' = rl_active_restrictions rl"
    "rl_missing_summary rl' = rl_missing_summary rl"
    "rl_equities rl' = rl_equities rl @ [ap_account_equity account]"
    "rl_cash_states rl' = rl_cash_states rl @ [account_cash_state_of account]"
    "rl_incomplete_manifest rl' \<longleftrightarrow>
      account_manifest_incomplete account c \<or> rl_incomplete_manifest rl"
    using step by (auto simp: account_ledger_step_def Let_def rl_record_def hist split_beta recon)
  have "recorded (rl_recorder rl) ?st2"
    by (intro recorded_after [OF recording_ledger_history] recorded_after [OF recording_opening_cash]
        recordingD [OF recording_account_problems])
  with account_ledger_step_after_history [OF step] show "recorded (rl_recorder rl) (rl_recorder rl')"
    by (blast intro: recorded_trans)
  show "no_conflicts (rl_recorder rl') \<longleftrightarrow>
      no_conflicts (rl_recorder rl) \<and> ledger_facts_in_order c pe pc account"
    unfolding fields rlog.clean_record_each reconstruct_recorder(2) [OF recon] clean_ledger_history
      clean_opening_cash clean_account_problems ledger_facts_in_order_def
      unresolved_corrections_empty [symmetric]
    by auto
  show "\<exists>st st'. reconstruct_ledger account c st (rl_ledger_output rl) ?unres =
      (totals, delta, unresolved, st', rl_ledger_output rl')"
    using recon unfolding fields by blast
qed (use step in \<open>auto simp: account_ledger_step_def Let_def rl_record_def split_beta\<close>)

text \<open>An account in order: its facts and its ledger are, its orders are and their reserves are frozen,
  restrictions and positions are evidenced, every security the ledger, an order or a restriction
  knows has a position, and cash and equity add up.\<close>

definition holdings_covered :: "datetime \<Rightarrow> account_position_snapshot \<Rightarrow> bool" where
  "holdings_covered cutoff account \<longleftrightarrow>
     (\<forall>s. ledger_total cutoff (ap_ledger_entries account) s \<noteq> (0, 0) \<or>
        s \<in> oo_security_id ` set (orders_of SELL (ap_open_orders account)) \<or>
        (\<exists>r \<in> set (ap_execution_restrictions account). er_active r \<and> er_security_id r = Some s) \<longrightarrow>
        s \<in> bp_security_id ` set (ap_positions account))"

definition account_in_order ::
    "datetime \<Rightarrow> prior_entries \<Rightarrow> (str \<times> account_cash_state) list \<Rightarrow> account_position_snapshot \<Rightarrow> bool" where
  "account_in_order cutoff prior_entries prior_cash account \<longleftrightarrow>
     ledger_facts_in_order cutoff prior_entries prior_cash account \<and>
     orders_in_order cutoff (ap_open_orders account) \<and>
     buy_reserves_covered account
       (sum_if_complete (map oo_reserved_cash (orders_of BUY (ap_open_orders account)))) \<and>
     (\<forall>r \<in> set (ap_execution_restrictions account). problem_codes (er_evidence r) cutoff True = []) \<and>
     (\<forall>p \<in> set (ap_positions account).
        position_in_order cutoff (ledger_total cutoff (ap_ledger_entries account) (bp_security_id p))
          (sum_if_complete (sell_quantities (bp_security_id p) (ap_open_orders account))) p) \<and>
     holdings_covered cutoff account \<and>
     \<not> ledger_cash_mismatch (ap_cash_state account)
       (Some (rsum (map le_cash_delta (ap_ledger_entries account)))) \<and>
     \<not> account_equity_mismatch account"

lemma rsum_Nil [simp]: "rsum [] = 0"
  by (simp add: dsum_def)

lemma ledger_total_absent:
  assumes "\<nexists>e. e \<in> set (occurred_by cutoff entries) \<and> le_security_id e = Some s"
  shows "ledger_total cutoff entries s = (0, 0)"
proof -
  have "security_entries cutoff entries s = []"
    using assms by (auto simp: security_entries_def filter_empty_conv)
  then show ?thesis by (simp add: ledger_total_def)
qed

lemma required_totals:
  assumes "reconstruct_ledger account c st out unres = (totals, delta, unres', st', out')"
  shows "set (map fst (filter (\<lambda>(security_id, quantity, cost). quantity \<noteq> 0 \<or> cost \<noteq> 0) totals)) =
     {s. ledger_total c (ap_ledger_entries account) s \<noteq> (0, 0)}"
proof -
  note res = reconstruct_totals [OF assms]
  have "s \<in> set (map fst (filter (\<lambda>(security_id, quantity, cost). quantity \<noteq> 0 \<or> cost \<noteq> 0) totals)) \<longleftrightarrow>
      (\<exists>v. map_of totals s = Some v \<and> v \<noteq> (0, 0))" for s
    using map_of_eq_Some_iff [OF res(3)] by (force simp: image_iff)
  moreover have "(\<exists>v. map_of totals s = Some v \<and> v \<noteq> (0, 0)) \<longleftrightarrow> dict_get totals s (0, 0) \<noteq> (0, 0)" for s
    by (cases "map_of totals s") (simp_all add: dict_get_def)
  ultimately show ?thesis unfolding res(1) by blast
qed

lemma usable_resolved:
  assumes "entries_usable c entries"
  shows "unusable_securities c entries = {}"
proof -
  have "length (filter (\<lambda>x. le_entry_id x = le_entry_id e) entries) < 2" if "e \<in> set entries" for e
    using assms that group_by_singletons [of le_entry_id entries]
    by (auto simp: entries_usable_def group_by_def)
  then show ?thesis using assms
    by (fastforce simp: unusable_securities_def entries_usable_def not_less)
qed

lemma finite_unusable [simp]: "finite (unusable_securities c entries)"
proof -
  have "unusable_securities c entries \<subseteq> set (List.map_filter le_security_id entries)"
    by (auto simp: unusable_securities_def set_map_filter)
  then show ?thesis by (rule finite_subset) simp
qed

lemma missing_summaries_Nil:
  assumes "finite required"
  shows "missing_summaries account required = [] \<longleftrightarrow> required \<subseteq> bp_security_id ` set (ap_positions account)"
  using assms by (simp add: missing_summaries_def)

lemma account_step_after_ledger:
  assumes led: "account_ledger_step c pe pc account rl = (totals, delta, unres, rl1)"
  shows "recorded (rl_recorder rl1) (rl_recorder (account_step c pe pc account rl))"
proof -
  obtain sells buys ids st where ord:
    "reconcile_orders account c (rl_recorder rl1) = (sells, buys, ids, st)" by (metis surj_pair)
  let ?rl2 = "rl1\<lparr>rl_recorder := record_buy_reserve account buys st\<rparr>"
  let ?rl3 = "for_each (ap_execution_restrictions account) (restriction_step c (ap_account_id account)) ?rl2"
  let ?rl4 = "for_each (ap_positions account) (position_step c totals sells account) ?rl3"
  have "recorded (rl_recorder rl1) (rl_recorder ?rl2)"
    using reconcile_orders_recorded [OF ord] recording_buy_reserve
    by (auto intro: recorded_trans recorded_after)
  then have "recorded (rl_recorder rl1) (rl_recorder ?rl4)"
    by (meson position_loop_recorder(1) restriction_loop_recorder(1) recorded_trans)
  then show ?thesis
    by (auto simp: account_step_def Let_def led ord intro!: recorded_after [OF recording_cash_and_equity]
        recorded_after [OF recording_for_each] recording_record)
qed

lemma account_step_recorder:
  "recorded (rl_recorder rl) (rl_recorder (account_step c pe pc account rl))" (is ?grows)
  "no_conflicts (rl_recorder (account_step c pe pc account rl)) \<longleftrightarrow>
     no_conflicts (rl_recorder rl) \<and> account_in_order c pe pc account" (is ?clean)
proof -
  let ?a = "ap_account_id account"
  obtain totals delta unres rl1 where led:
    "account_ledger_step c pe pc account rl = (totals, delta, unres, rl1)" by (metis surj_pair)
  obtain sells buys ids st where ord:
    "reconcile_orders account c (rl_recorder rl1) = (sells, buys, ids, st)" by (metis surj_pair)
  let ?rl2 = "rl1\<lparr>rl_recorder := record_buy_reserve account buys st\<rparr>"
  let ?rl3 = "for_each (ap_execution_restrictions account) (restriction_step c ?a) ?rl2"
  let ?rl4 = "for_each (ap_positions account) (position_step c totals sells account) ?rl3"
  let ?missing = "missing_summaries account (summary_required account totals ids unres)"
  let ?rep = "\<lambda>security_id. report_of (Some ?a) (Some security_id) ''BROKER_POSITION_SUMMARY_MISSING''
      [''positions'', ''ledger_entries'', ''open_orders'', ''execution_restrictions''] True True True"
  have rec: "rl_recorder (account_step c pe pc account rl) = record_cash_and_equity account delta
      (for_each ?missing (\<lambda>s. record_conflict (?rep s)) (rl_recorder ?rl4))"
    by (simp add: account_step_def Let_def led ord)
  note ledger = account_ledger_step_result [OF led]
  from ledger(3) obtain st0 st0' where recon:
    "reconstruct_ledger account c st0 (rl_ledger_output rl)
       (unresolved_corrections account (history_entries_by_id account pe) c) =
     (totals, delta, unres, st0', rl_ledger_output rl1)" by blast
  note totals = reconstruct_totals [OF recon]
  show ?grows by (rule recorded_trans [OF account_step_after_ledger [OF led] ledger(1)])
  have base: "no_conflicts (rl_recorder (account_step c pe pc account rl)) \<longleftrightarrow>
      no_conflicts (rl_recorder rl) \<and> ledger_facts_in_order c pe pc account \<and>
      orders_in_order c (ap_open_orders account) \<and> buy_reserves_covered account buys \<and>
      (\<forall>r \<in> set (ap_execution_restrictions account). problem_codes (er_evidence r) c True = []) \<and>
      (\<forall>p \<in> set (ap_positions account). position_in_order c (dict_get totals (bp_security_id p) (0, 0))
        (dict_get sells (bp_security_id p) (Some 0)) p) \<and>
      ?missing = [] \<and> \<not> ledger_cash_mismatch (ap_cash_state account) delta \<and>
      \<not> account_equity_mismatch account"
    unfolding rec clean_cash_and_equity rlog.clean_record_each position_loop_recorder(2)
      restriction_loop_recorder(2)
    by (auto simp: clean_buy_reserve reconcile_orders_result(1) [OF ord] ledger(2))
  show ?clean
  proof (cases "ledger_facts_in_order c pe pc account \<and> orders_in_order c (ap_open_orders account)")
    case True
    then have usable: "entries_usable c (ap_ledger_entries account)"
      and distinct: "distinct (map oo_order_id (ap_open_orders account))"
      and corr: "unresolved_corrections account (history_entries_by_id account pe) c = {}"
      by (auto simp: ledger_facts_in_order_def orders_in_order_def unresolved_corrections_empty)
    have unres: "unres = {}" using totals(5) corr usable_resolved [OF usable] by simp
    have ids: "ids = oo_security_id ` set (orders_of SELL (ap_open_orders account))"
      by (rule reconcile_orders_result [OF ord])
    have "?missing = [] \<longleftrightarrow> summary_required account totals ids unres \<subseteq> bp_security_id ` set (ap_positions account)"
      by (rule missing_summaries_Nil) (simp add: summary_required_def unres ids)
    also have "\<dots> \<longleftrightarrow> holdings_covered c account"
      unfolding summary_required_def required_totals [OF recon] unres ids holdings_covered_def
      by (auto simp: set_map_filter split: if_splits)
    finally have missing: "?missing = [] \<longleftrightarrow> holdings_covered c account" .
    have delta: "delta = Some (rsum (map le_cash_delta (ap_ledger_entries account)))"
      using totals(4) usable by simp
    show ?thesis
      unfolding base account_in_order_def missing totals(1) delta
        reconcile_orders_result(3) [OF ord distinct] reconcile_orders_result(4) [OF ord distinct]
      by auto
  next
    case False
    then show ?thesis unfolding base account_in_order_def by auto
  qed
qed

subsection \<open>The whole loop\<close>

lemma account_step_outputs:
  fixes c pe pc account rl
  defines "rl' \<equiv> account_step c pe pc account rl"
  shows "rl_ledger_output rl' = rl_ledger_output rl @
      map (authoritative_entry (ap_account_id account)) (ap_ledger_entries account)"
    and "rl_position_rows rl' = rl_position_rows rl @ map (Pair account) (ap_positions account)"
    and "rl_equities rl' = rl_equities rl @ [ap_account_equity account]"
    and "rl_cash_states rl' = rl_cash_states rl @ [account_cash_state_of account]"
    and "rl_incomplete_manifest rl' \<longleftrightarrow>
      account_manifest_incomplete account c \<or> rl_incomplete_manifest rl"
proof -
  obtain totals delta unres rl1 where led:
    "account_ledger_step c pe pc account rl = (totals, delta, unres, rl1)" by (metis surj_pair)
  obtain sells buys ids st where ord:
    "reconcile_orders account c (rl_recorder rl1) = (sells, buys, ids, st)" by (metis surj_pair)
  note ledger = account_ledger_step_result [OF led]
  have "rl_ledger_output rl1 = rl_ledger_output rl @
      map (authoritative_entry (ap_account_id account)) (ap_ledger_entries account)"
    using ledger(3) reconstruct_recorder(3) by blast
  then show "rl_ledger_output rl' = rl_ledger_output rl @
      map (authoritative_entry (ap_account_id account)) (ap_ledger_entries account)"
    and "rl_position_rows rl' = rl_position_rows rl @ map (Pair account) (ap_positions account)"
    and "rl_equities rl' = rl_equities rl @ [ap_account_equity account]"
    and "rl_cash_states rl' = rl_cash_states rl @ [account_cash_state_of account]"
    and "rl_incomplete_manifest rl' \<longleftrightarrow>
      account_manifest_incomplete account c \<or> rl_incomplete_manifest rl"
    by (simp_all add: rl'_def account_step_def Let_def led ord ledger)
qed

definition all_rows ::
    "account_position_snapshot list \<Rightarrow> (account_position_snapshot \<times> broker_position_fact) list" where
  "all_rows accounts = concat (map (\<lambda>account. map (Pair account) (ap_positions account)) accounts)"

lemma account_loop_outputs:
  "rl_ledger_output (account_loop command pl pc) = concat (map (\<lambda>account.
     map (authoritative_entry (ap_account_id account)) (ap_ledger_entries account)) (psc_accounts command))"
  "rl_position_rows (account_loop command pl pc) = all_rows (psc_accounts command)"
  "rl_equities (account_loop command pl pc) = map ap_account_equity (psc_accounts command)"
  "rl_cash_states (account_loop command pl pc) = map account_cash_state_of (psc_accounts command)"
proof -
  let ?body = "account_step (psc_cutoff_at command) (prior_entries_of pl) (prior_cash_of pc)"
  show "rl_ledger_output (account_loop command pl pc) = concat (map (\<lambda>account.
     map (authoritative_entry (ap_account_id account)) (ap_ledger_entries account)) (psc_accounts command))"
    using for_each_append [where f = rl_ledger_output and body = ?body, OF account_step_outputs(1)]
    by (simp add: account_loop_def initial_state_def)
  show "rl_position_rows (account_loop command pl pc) = all_rows (psc_accounts command)"
    using for_each_append [where f = rl_position_rows and body = ?body, OF account_step_outputs(2)]
   
    by (simp add: account_loop_def initial_state_def all_rows_def)
  show "rl_equities (account_loop command pl pc) = map ap_account_equity (psc_accounts command)"
    using for_each_append [where f = rl_equities and body = ?body, OF account_step_outputs(3)]
    by (simp add: account_loop_def initial_state_def)
  show "rl_cash_states (account_loop command pl pc) = map account_cash_state_of (psc_accounts command)"
    using for_each_append [where f = rl_cash_states and body = ?body, OF account_step_outputs(4)]
    by (simp add: account_loop_def initial_state_def)
qed

lemma account_loop_manifest:
  "rl_incomplete_manifest (account_loop command pl pc) \<longleftrightarrow>
     problem_codes (psc_snapshot_evidence command) (psc_cutoff_at command) True \<noteq> [] \<or>
     (\<exists>account \<in> set (psc_accounts command). account_manifest_incomplete account (psc_cutoff_at command))"
proof -
  have "(\<not> rl_incomplete_manifest (account_loop command pl pc)) \<longleftrightarrow>
      (\<not> rl_incomplete_manifest (initial_state command)) \<and>
      (\<forall>account \<in> set (psc_accounts command). \<not> account_manifest_incomplete account (psc_cutoff_at command))"
    unfolding account_loop_def
    by (rule for_each_all [where f = "\<lambda>rl. \<not> rl_incomplete_manifest rl"]) (auto simp: account_step_outputs)
  then show ?thesis by (auto simp: initial_state_def)
qed

lemma no_conflicts_empty: "no_conflicts empty_recorder"
  by (simp add: no_conflicts_def empty_recorder_def)

lemma account_loop_recorder:
  "recorded empty_recorder (rl_recorder (account_loop command pl pc))"
  "no_conflicts (rl_recorder (account_loop command pl pc)) \<longleftrightarrow>
     problem_codes (psc_snapshot_evidence command) (psc_cutoff_at command) True = [] \<and>
     (\<forall>account \<in> set (psc_accounts command).
        account_in_order (psc_cutoff_at command) (prior_entries_of pl) (prior_cash_of pc) account)"
proof -
  have "recorded (rl_recorder (initial_state command)) (rl_recorder (account_loop command pl pc))"
    unfolding account_loop_def by (rule for_each_recorded) (rule account_step_recorder)
  moreover have "recorded empty_recorder (rl_recorder (initial_state command))"
    by (simp add: initial_state_def recordingD [OF recording_evidence])
  ultimately show "recorded empty_recorder (rl_recorder (account_loop command pl pc))"
    by (rule recorded_trans)
  have "no_conflicts (rl_recorder (account_loop command pl pc)) \<longleftrightarrow>
      no_conflicts (rl_recorder (initial_state command)) \<and> (\<forall>account \<in> set (psc_accounts command).
        account_in_order (psc_cutoff_at command) (prior_entries_of pl) (prior_cash_of pc) account)"
    unfolding account_loop_def
    by (rule for_each_all [where f = "\<lambda>rl. no_conflicts (rl_recorder rl)"]) (rule account_step_recorder)
  then show "no_conflicts (rl_recorder (account_loop command pl pc)) \<longleftrightarrow>
     problem_codes (psc_snapshot_evidence command) (psc_cutoff_at command) True = [] \<and>
     (\<forall>account \<in> set (psc_accounts command).
        account_in_order (psc_cutoff_at command) (prior_entries_of pl) (prior_cash_of pc) account)"
    by (simp add: initial_state_def clean_evidence no_conflicts_empty)
qed

text \<open>\<open>issuer_by_security\<close> holds, for every security of a collected row, the issuers named for it.\<close>

definition issuers_of ::
    "(account_position_snapshot \<times> broker_position_fact) list \<Rightarrow> str \<Rightarrow> str set" where
  "issuers_of rows s = {bp_issuer_id p | a p. (a, p) \<in> set rows \<and> bp_security_id p = s}"

lemma issuers_of_append:
  "issuers_of (rows @ [(a, p)]) s =
     (if bp_security_id p = s then insert (bp_issuer_id p) (issuers_of rows s) else issuers_of rows s)"
  by (auto simp: issuers_of_def)

definition issuers_collected :: "reconcile_state \<Rightarrow> bool" where
  "issuers_collected rl \<longleftrightarrow>
     distinct (map fst (rl_issuer_by_security rl)) \<and>
     (\<forall>s. map_of (rl_issuer_by_security rl) s =
        (if issuers_of (rl_position_rows rl) s = {} then None else Some (issuers_of (rl_position_rows rl) s)))"

lemma issuers_collected_position:
  assumes "issuers_collected rl"
  shows "issuers_collected (position_step c t s a p rl)"
  using assms
  by (auto simp: issuers_collected_def position_step_def Let_def distinct_update update_conv'
      issuers_of_append dict_get_def)

lemma issuers_collected_account:
  assumes "issuers_collected rl"
  shows "issuers_collected (account_step c pe pc account rl)"
proof -
  obtain totals delta unres rl1 where led:
    "account_ledger_step c pe pc account rl = (totals, delta, unres, rl1)" by (metis surj_pair)
  obtain sells buys ids st where ord:
    "reconcile_orders account c (rl_recorder rl1) = (sells, buys, ids, st)" by (metis surj_pair)
  let ?rl2 = "rl1\<lparr>rl_recorder := record_buy_reserve account buys st\<rparr>"
  let ?rl3 = "for_each (ap_execution_restrictions account) (restriction_step c (ap_account_id account)) ?rl2"
  let ?rl4 = "for_each (ap_positions account) (position_step c totals sells account) ?rl3"
  have "issuers_collected ?rl3"
    using assms account_ledger_step_result(4,5) [OF led] by (simp add: issuers_collected_def)
  then have "issuers_collected ?rl4"
    unfolding for_each_def by (rule foldl_keeps) (rule issuers_collected_position)
  then show ?thesis by (simp add: issuers_collected_def account_step_def Let_def led ord)
qed

lemma issuers_collected_loop: "issuers_collected (account_loop command pl pc)"
  unfolding account_loop_def for_each_def
proof (rule foldl_keeps)
  show "issuers_collected (initial_state command)"
    by (simp add: issuers_collected_def initial_state_def issuers_of_def)
qed (rule issuers_collected_account)

lemma conflicting_securities_Nil:
  assumes "issuers_collected rl"
  shows "conflicting_securities rl = [] \<longleftrightarrow>
    (\<forall>s i j. i \<in> issuers_of (rl_position_rows rl) s \<longrightarrow> j \<in> issuers_of (rl_position_rows rl) s \<longrightarrow> i = j)"
proof -
  have fin: "finite (issuers_of (rl_position_rows rl) s)" for s
    by (rule finite_subset [of _ "(\<lambda>row. bp_issuer_id (snd row)) ` set (rl_position_rows rl)"])
      (force simp: issuers_of_def)+
  have "conflicting_securities rl = [] \<longleftrightarrow>
      (\<forall>(s, issuers) \<in> set (rl_issuer_by_security rl). card issuers \<le> 1)"
    by (auto simp: conflicting_securities_def filter_empty_conv not_less)
  also have "\<dots> \<longleftrightarrow> (\<forall>s issuers. map_of (rl_issuer_by_security rl) s = Some issuers \<longrightarrow> card issuers \<le> 1)"
  proof -
    have "distinct (map fst (rl_issuer_by_security rl))" using assms by (simp add: issuers_collected_def)
    from map_of_eq_Some_iff [OF this] show ?thesis by auto
  qed
  also have "\<dots> \<longleftrightarrow> (\<forall>s. card (issuers_of (rl_position_rows rl) s) \<le> 1)"
    using assms by (auto simp: issuers_collected_def) (metis card.empty zero_le)
  also have "\<dots> \<longleftrightarrow> (\<forall>s i j. i \<in> issuers_of (rl_position_rows rl) s \<longrightarrow> j \<in> issuers_of (rl_position_rows rl) s \<longrightarrow> i = j)"
    using fin card_le_Suc0_iff_eq by (metis One_nat_def)
  finally show ?thesis .
qed

subsection \<open>The final recorder\<close>

lemma recording_issuer_conflicts [record_grow]: "recording (record_issuer_conflicts rl)"
  unfolding record_issuer_conflicts_def by (intro recording_intros)

lemma recording_annotation_conflicts [record_grow]: "recording (record_annotation_conflicts command)"
  unfolding record_annotation_conflicts_def by (intro recording_intros)

lemma final_recorder_after_loop:
  "recorded (rl_recorder rl) (final_recorder command rl)"
  unfolding final_recorder_def
  by (intro recorded_after [OF recording_annotation_conflicts] recordingD [OF recording_issuer_conflicts])

lemma final_recorder_recorded:
  "recorded empty_recorder (final_recorder command (account_loop command pl pc))"
  by (rule recorded_trans [OF final_recorder_after_loop account_loop_recorder(1)])

lemmas final_recorder_inv = recorded_inv [OF final_recorder_recorded recorder_inv_empty]

definition one_issuer_per_security :: "position_snapshot_command \<Rightarrow> bool" where
  "one_issuer_per_security command \<longleftrightarrow>
     (\<forall>s i j. i \<in> issuers_of (all_rows (psc_accounts command)) s \<longrightarrow>
        j \<in> issuers_of (all_rows (psc_accounts command)) s \<longrightarrow> i = j)"

definition snapshot_in_order ::
    "position_snapshot_command \<Rightarrow> authoritative_ledger_entry list \<Rightarrow> account_cash_state list \<Rightarrow> bool" where
  "snapshot_in_order command prior_ledger prior_cash_states \<longleftrightarrow>
     problem_codes (psc_snapshot_evidence command) (psc_cutoff_at command) True = [] \<and>
     (\<forall>account \<in> set (psc_accounts command). account_in_order (psc_cutoff_at command)
        (prior_entries_of prior_ledger) (prior_cash_of prior_cash_states) account) \<and>
     one_issuer_per_security command \<and>
     (\<forall>annotation \<in> set (psc_annotations command). an_created_at annotation \<le> psc_cutoff_at command)"

lemma clean_final_recorder:
  "no_conflicts (final_recorder command (account_loop command pl pc)) \<longleftrightarrow> snapshot_in_order command pl pc"
proof -
  have ann: "no_conflicts (record_annotation_conflicts command s) \<longleftrightarrow> no_conflicts s \<and>
      (\<forall>annotation \<in> set (psc_annotations command). an_created_at annotation \<le> psc_cutoff_at command)" for s
    unfolding record_annotation_conflicts_def by (rule rlog.clean_for_each) (auto simp: not_less)
  show ?thesis
    unfolding final_recorder_def ann record_issuer_conflicts_def rlog.clean_record_each
      conflicting_securities_Nil [OF issuers_collected_loop] account_loop_outputs account_loop_recorder
      snapshot_in_order_def one_issuer_per_security_def
    by auto
qed

lemma reconcile_fields:
  fixes command pl pc
  defines "st \<equiv> final_recorder command (account_loop command pl pc)"
  shows "po_disposition (reconcile command pl pc) = (if rc_conflicts st = [] then RECONCILED else CONFLICTED)"
    and "po_conflicts (reconcile command pl pc) = rc_conflicts st"
    and "po_reasons (reconcile command pl pc) =
      (if rc_conflicts st = [] then [''AUTHORITATIVE_POSITION_FACTS_RECONCILED'']
       else dict_fromkeys (map fc_code (rc_conflicts st)))"
    and "po_snapshot (reconcile command pl pc) =
      reconciled_snapshot command (account_loop command pl pc) st"
  by (simp_all add: reconcile_def Let_def st_def)

lemma reconciled_iff_clean:
  "po_disposition (reconcile command pl pc) = RECONCILED \<longleftrightarrow>
     no_conflicts (final_recorder command (account_loop command pl pc))"
  using recorder_inv_clean(1) [OF final_recorder_inv]
  by (auto simp: reconcile_fields no_conflicts_def)

subsection \<open>What is recorded in a loop sticks\<close>

lemma for_each_sticks:
  assumes "x \<in> set xs" and "\<And>s. Q (body x s)" and "\<And>y s. Q s \<Longrightarrow> Q (body y s)"
  shows "Q (for_each xs body s)"
proof -
  from assms(1) obtain as bs where "xs = as @ x # bs" by (meson split_list)
  moreover have "Q (foldl (\<lambda>s x. body x s) s' bs)" if "Q s'" for s' bs
    by (rule foldl_keeps) (use that assms(3) in auto)
  ultimately show ?thesis using assms(2) by (simp add: for_each_def)
qed

text \<open>A reason of the whole portfolio reaches every action unit and hides the total equity.\<close>

definition portfolio_blocked :: "str \<Rightarrow> position_reconciliation_outcome \<Rightarrow> bool" where
  "portfolio_blocked code outcome \<longleftrightarrow>
     po_disposition outcome = CONFLICTED \<and> code \<in> set (po_reasons outcome) \<and>
     rs_total_account_equity (po_snapshot outcome) = None \<and>
     (\<forall>u \<in> set (rs_action_units (po_snapshot outcome)).
        au_exact_statistical_action_quantity u = None \<and> au_exact_quantity_status u = BLOCKED_QUANTITY \<and>
        code \<in> set (au_reasons u))"

lemma exact_quantity_blocked: "reasons \<noteq> [] \<Longrightarrow> exact_quantity position reasons = None"
  by (simp add: exact_quantity_def)

lemma action_unit_blocked:
  assumes "code \<in> set reasons"
  shows "au_exact_statistical_action_quantity (action_unit account position reasons) = None"
    "au_exact_quantity_status (action_unit account position reasons) = BLOCKED_QUANTITY"
    "code \<in> set (au_reasons (action_unit account position reasons))"
proof -
  have "exact_quantity position reasons = None"
    by (rule exact_quantity_blocked) (use assms in auto)
  then show "au_exact_statistical_action_quantity (action_unit account position reasons) = None"
    "au_exact_quantity_status (action_unit account position reasons) = BLOCKED_QUANTITY"
    "code \<in> set (au_reasons (action_unit account position reasons))"
    using assms by (simp_all add: action_unit_def)
qed

lemma portfolio_blocked_outcome:
  assumes "code \<in> set (rc_portfolio_blocking (final_recorder command (account_loop command pl pc)))"
  shows "portfolio_blocked code (reconcile command pl pc)"
proof -
  let ?st = "final_recorder command (account_loop command pl pc)"
  from assms final_recorder_inv obtain c where c: "c \<in> set (rc_conflicts ?st)" "fc_code c = code"
    unfolding recorder_inv_def by blast
  then have ne: "rc_conflicts ?st \<noteq> []" by auto
  have reasons: "code \<in> set (action_reasons active blocking (rc_portfolio_blocking ?st) account position)"
    for active blocking account position
    using assms by (auto simp: action_reasons_def Let_def)
  show ?thesis
    unfolding portfolio_blocked_def reconcile_fields
    using ne c assms action_unit_blocked [OF reasons]
    by (auto simp: reconciled_snapshot_def Let_def project_actions_def image_iff)
qed

end
