(* ===== verification/Position_Properties.thy ===== *)
theory Position_Properties
  imports Position_Reconcile
begin

text \<open>
  The properties of the reconciliation.  Concrete snapshots for the witnesses come first: one
  account that bought five shares for fifty, all of whose facts agree, and variations of it.
\<close>

definition demo_time :: datetime where "demo_time = Datetime 63900000000000000 0"

definition demo_evidence :: position_evidence where
  "demo_evidence =
     \<lparr>ev_source = Some ''broker'', ev_source_version = Some ''1'',
      ev_business_effective_at = Some demo_time, ev_source_observed_at = Some demo_time,
      ev_locally_acquired_at = Some demo_time, ev_validated_at = Some demo_time,
      ev_cutoff_at = Some demo_time, ev_complete_through_at = Some demo_time, ev_expires_at = None\<rparr>"

definition demo_entry :: position_ledger_entry where
  "demo_entry =
     \<lparr>le_entry_id = ''L1'', le_entry_type = FILL, le_security_id = Some ''S'', le_quantity_delta = 5,
      le_cost_basis_delta = 50, le_cash_delta = - 50, le_occurred_at = demo_time,
      le_corrects_entry_id = None, le_correction_reason = None, le_evidence = demo_evidence\<rparr>"

definition demo_position :: broker_position_fact where
  "demo_position =
     \<lparr>bp_position_id = ''P'', bp_origin = SYSTEM_ORIGIN, bp_lifecycle_id = ''C'', bp_issuer_id = ''I'',
      bp_security_id = ''S'', bp_total_quantity = Some 5, bp_broker_sellable_quantity = Some 5,
      bp_sellable_quantity_semantics = BROKER_FINAL_SELLABLE,
      bp_encumbrance_quantity_semantics = OVERLAPPING_NON_SELLABLE, bp_unsettled_quantity = Some 0,
      bp_frozen_quantity = Some 0, bp_restricted_quantity = Some 0, bp_open_sell_order_quantity = Some 0,
      bp_reported_cost_basis = Some 50, bp_market_price = Some 20, bp_evidence = demo_evidence\<rparr>"

definition demo_account :: account_position_snapshot where
  "demo_account =
     \<lparr>ap_account_id = ''A'', ap_account_type = ''CASH'', ap_currency = ''USD'',
      ap_snapshot_evidence = demo_evidence, ap_account_equity = Some 150,
      ap_account_equity_evidence = demo_evidence,
      ap_cash_state = \<lparr>cs_cash_availability_semantics = BROKER_FINAL_CASH_LAYERS,
        cs_ledger_cash_semantics = OPENING_BALANCE_PLUS_AUTHORITATIVE_LEDGER,
        cs_opening_ledger_cash = Some 100, cs_opening_ledger_cash_evidence = demo_evidence,
        cs_ledger_cash = Some 50, cs_trading_cash = Some 50, cs_transferable_cash = Some 50,
        cs_frozen_cash = Some 0, cs_receivable_cash = Some 0, cs_payable_cash = Some 0,
        cs_evidence = demo_evidence\<rparr>,
      ap_positions = [demo_position], ap_open_orders = [], ap_ledger_entries = [demo_entry],
      ap_execution_restrictions = []\<rparr>"

definition demo_command :: position_snapshot_command where
  "demo_command =
     \<lparr>psc_snapshot_id = ''demo'', psc_cutoff_at = demo_time, psc_snapshot_evidence = demo_evidence,
      psc_valuation_currency = ''USD'', psc_accounts = [demo_account], psc_annotations = []\<rparr>"

lemmas demo_defs = demo_time_def demo_evidence_def demo_entry_def demo_position_def demo_account_def
  demo_command_def

lemma demo_evidence_clean: "problem_codes demo_evidence demo_time current = []"
  by (simp add: problem_codes_def demo_defs str_missing_def)

lemma demo_entry_visible: "ledger_entry_evidence_is_visible demo_entry demo_time"
  using demo_evidence_clean [of False]
  by (simp add: ledger_entry_evidence_is_visible_def demo_defs)

lemma dsum_one [simp]: "dsum p [x] = dec_round p x"
  by (simp add: dsum_def dadd_def)

lemma demo_ledger: "ledger_total demo_time [demo_entry] s = (if s = ''S'' then (5, 50) else (0, 0))"
  by (simp add: ledger_total_def security_entries_def occurred_by_def demo_entry_def
      reconciliation_precision_def)

lemma demo_facts_in_order: "account_facts_in_order demo_account demo_time"
  using demo_evidence_clean [of True]
  by (simp add: account_facts_in_order_def demo_account_def cash_layers_nested_def dadd_def
      reconciliation_precision_def)

lemma demo_ledger_in_order: "ledger_facts_in_order demo_time [] [] demo_account"
  unfolding ledger_facts_in_order_def
  using demo_facts_in_order demo_entry_visible
  by (simp add: demo_account_def ledger_history_in_order_def entry_mutated_def correction_in_order_def
      entries_usable_def security_id_missing_def) (simp add: demo_entry_def)

lemma demo_account_in_order: "account_in_order demo_time [] [] demo_account"
  unfolding account_in_order_def
  using demo_ledger_in_order demo_evidence_clean [of True]
  by (simp add: demo_account_def orders_in_order_def orders_of_def buy_reserves_covered_def
      sum_if_complete_def position_in_order_def demo_ledger sell_quantities_def holdings_covered_def
      ledger_cash_mismatch_def account_equity_mismatch_def)
    (simp add: demo_position_def demo_entry_def dadd_def dsub_def dmul_def position_market_value_def
      reconciliation_precision_def)

lemma demo_in_order: "snapshot_in_order demo_command [] []"
  using demo_account_in_order demo_evidence_clean [of True]
  by (simp add: snapshot_in_order_def demo_command_def prior_entries_of_def prior_cash_of_def
      one_issuer_per_security_def all_rows_def)
    (simp add: issuers_of_def demo_account_def)

subsection \<open>Lookup in the retained history\<close>

lemma prior_lookup_acc:
  "map_of (foldl (\<lambda>d entry. dict_setdefault (le_account_id entry, le_entry_id entry) entry d) d pl) k =
     (case map_of d k of
        Some e \<Rightarrow> Some e
      | None \<Rightarrow> find (\<lambda>e. (le_account_id e, le_entry_id e) = k) pl)"
  by (induction pl arbitrary: d) (auto simp: map_of_setdefault split: option.splits)

lemma prior_lookup:
  "map_of (prior_entries_of pl) (a, i) = find (\<lambda>e. le_account_id e = a \<and> le_entry_id e = i) pl"
  by (simp add: prior_entries_of_def prior_lookup_acc)

subsection \<open>Reasons that stick\<close>

text \<open>Once a portfolio-wide reason is recorded while an account is processed, it stays.\<close>

lemma account_loop_sticks:
  assumes "account \<in> set (psc_accounts command)"
    and "\<And>rl. code \<in> set (rc_portfolio_blocking (rl_recorder
       (account_step (psc_cutoff_at command) (prior_entries_of pl) (prior_cash_of pc) account rl)))"
  shows "portfolio_blocked code (reconcile command pl pc)"
proof (rule portfolio_blocked_outcome)
  let ?body = "account_step (psc_cutoff_at command) (prior_entries_of pl) (prior_cash_of pc)"
  have "code \<in> set (rc_portfolio_blocking (rl_recorder (account_loop command pl pc)))"
    unfolding account_loop_def
  proof (rule for_each_sticks [OF assms(1), where Q = "\<lambda>rl. code \<in> set (rc_portfolio_blocking (rl_recorder rl))"])
    show "code \<in> set (rc_portfolio_blocking (rl_recorder (?body y rl)))"
      if "code \<in> set (rc_portfolio_blocking (rl_recorder rl))" for y rl
      using that recorded_grows(4) [OF account_step_recorder(1)] by blast
  qed (rule assms(2))
  then show "code \<in> set (rc_portfolio_blocking (final_recorder command (account_loop command pl pc)))"
    using recorded_grows(4) [OF final_recorder_after_loop] by blast
qed

lemma history_conflict_sticks:
  assumes "\<And>st. code \<in> set (rc_portfolio_blocking (snd (record_ledger_history_conflicts account pe c st)))"
  shows "code \<in> set (rc_portfolio_blocking (rl_recorder (account_step c pe pc account rl)))"
proof -
  obtain totals delta unres rl1 where led:
    "account_ledger_step c pe pc account rl = (totals, delta, unres, rl1)" by (metis surj_pair)
  obtain sells buys ids st where ord:
    "reconcile_orders account c (rl_recorder rl1) = (sells, buys, ids, st)" by (metis surj_pair)
  let ?st2 = "snd (record_ledger_history_conflicts account pe c
      (record_opening_ledger_cash_history_conflicts account (map_of pc (ap_account_id account))
        (record_account_problems account c (rl_recorder rl))))"
  have "recorded ?st2 (rl_recorder rl1)"
    by (rule account_ledger_step_after_history [OF led])
  moreover have "recorded (rl_recorder rl1) (rl_recorder (account_step c pe pc account rl))"
    by (rule account_step_after_ledger [OF led])
  ultimately show ?thesis
    using assms recorded_grows(4) by blast
qed

lemma removed_entry_reported:
  assumes "((ap_account_id account, i), prior) \<in> set pe"
    and "i \<notin> le_entry_id ` set (ap_ledger_entries account)"
  shows "''LEDGER_ENTRY_REMOVED_ACROSS_SNAPSHOTS'' \<in>
    set (rc_portfolio_blocking (snd (record_ledger_history_conflicts account pe c st)))"
proof -
  let ?code = "''LEDGER_ENTRY_REMOVED_ACROSS_SNAPSHOTS''"
  let ?id = "ap_account_id account" and ?ids = "set (map le_entry_id (ap_ledger_entries account))"
  let ?removed = "for_each pe (\<lambda>((prior_account_id, prior_entry_id), historical_entry).
      check (prior_account_id = ?id \<and> prior_entry_id \<notin> ?ids)
        (entry_report ?id (le_security_id historical_entry) ?code [''ledger_entries.entry_id''])) st"
  have "?code \<in> set (rc_portfolio_blocking ?removed)"
    by (rule for_each_sticks [OF assms(1), where Q = "\<lambda>st. ?code \<in> set (rc_portfolio_blocking st)"])
      (use assms(2) in \<open>auto simp: check_if_def record_conflict_fields entry_report_def report_of_def\<close>)
  moreover have "recorded ?removed (snd (record_ledger_history_conflicts account pe c st))"
    unfolding record_ledger_history_conflicts_def Let_def snd_conv run_steps_simps
    by (intro recordingD recording_for_each)
      (auto simp: recording_def intro!: recorded_after [OF recording_corrections] recordingD [OF recording_check])
  ultimately show ?thesis using recorded_grows(4) by blast
qed

lemma mutated_entry_reported:
  assumes "entry \<in> set (ap_ledger_entries account)"
    and "entry_mutated (ap_account_id account) pe entry"
  shows "''LEDGER_ENTRY_MUTATED_ACROSS_SNAPSHOTS'' \<in>
    set (rc_portfolio_blocking (snd (record_ledger_history_conflicts account pe c st)))"
  unfolding record_ledger_history_conflicts_def Let_def snd_conv run_steps_simps
proof (rule for_each_sticks [OF assms(1), where Q =
      "\<lambda>st. ''LEDGER_ENTRY_MUTATED_ACROSS_SNAPSHOTS'' \<in> set (rc_portfolio_blocking st)"], goal_cases)
  case (1 s)
  show ?case
    using recorded_grows(4) [OF recordingD [OF recording_corrections]] assms(2)
    by (force simp: check_if_def record_conflict_fields entry_report_def report_of_def)
next
  case (2 y s)
  then show ?case
    using recorded_grows(4) [OF recordingD [OF recording_corrections]]
    by (force simp: check_if_def record_conflict_fields)
qed

text \<open>C1: Reconciliation succeeds exactly on the snapshots whose facts are all in order: complete,
  evidenced and nested cash, a ledger that retains and soundly corrects the history and explains
  cash, quantities and cost, orders and restrictions covered by positions, one issuer per security,
  no annotation from after the cutoff.\<close>

theorem reconciled_iff_in_order:
  "po_disposition (reconcile command prior_ledger prior_cash_states) = RECONCILED \<longleftrightarrow>
     snapshot_in_order command prior_ledger prior_cash_states"
  by (simp only: reconciled_iff_clean clean_final_recorder)

text \<open>C2: The ledger is append-only across snapshots.  If the earliest retained entry for an account
  and identity has no equal entry in the account's current ledger, the outcome is conflicted with
  the removal or the mutation as reason, no total equity is stated and no action unit of the
  whole portfolio has an exact quantity.\<close>

theorem ledger_history_append_only:
  assumes account: "account \<in> set (psc_accounts command)"
    and prior: "find (\<lambda>e. le_account_id e = ap_account_id account \<and> le_entry_id e = i) prior_ledger = Some prior"
    and changed: "\<forall>e \<in> set (ap_ledger_entries account). le_entry_id e = i \<longrightarrow>
      \<not> ledger_entry_eq prior (authoritative_entry (ap_account_id account) e)"
  shows "portfolio_blocked ''LEDGER_ENTRY_REMOVED_ACROSS_SNAPSHOTS'' (reconcile command prior_ledger prior_cash) \<or>
    portfolio_blocked ''LEDGER_ENTRY_MUTATED_ACROSS_SNAPSHOTS'' (reconcile command prior_ledger prior_cash)"
proof (cases "i \<in> le_entry_id ` set (ap_ledger_entries account)")
  case False
  have "((ap_account_id account, i), prior) \<in> set (prior_entries_of prior_ledger)"
    using prior by (metis map_of_SomeD prior_lookup)
  from removed_entry_reported [OF this False] show ?thesis
    by (intro disjI1 account_loop_sticks [OF account] history_conflict_sticks)
next
  case True
  then obtain entry where "entry \<in> set (ap_ledger_entries account)" "le_entry_id entry = i" by auto
  moreover from calculation have "entry_mutated (ap_account_id account) (prior_entries_of prior_ledger) entry"
    using prior changed by (simp add: entry_mutated_def prior_lookup)
  ultimately show ?thesis
    by (intro disjI2 account_loop_sticks [OF account] history_conflict_sticks mutated_entry_reported)
qed

text \<open>The demonstration account had another fill, which its ledger no longer shows.\<close>

theorem ledger_history_append_only_witness:
  "portfolio_blocked ''LEDGER_ENTRY_REMOVED_ACROSS_SNAPSHOTS''
     (reconcile demo_command [authoritative_entry ''A'' (demo_entry\<lparr>le_entry_id := ''L0''\<rparr>)] []) \<or>
   portfolio_blocked ''LEDGER_ENTRY_MUTATED_ACROSS_SNAPSHOTS''
     (reconcile demo_command [authoritative_entry ''A'' (demo_entry\<lparr>le_entry_id := ''L0''\<rparr>)] [])"
  by (rule ledger_history_append_only [where account = demo_account and i = "''L0''"])
    (simp_all add: demo_command_def demo_account_def demo_entry_def)

subsection \<open>Blocking scopes and exact quantities\<close>

text \<open>A scope covers a unit when each of its account and security is absent or the unit's.\<close>

definition scope_covers :: "position_affected_scope \<Rightarrow> position_action_unit \<Rightarrow> bool" where
  "scope_covers sc u \<longleftrightarrow>
     (case sc_account_id sc of None \<Rightarrow> True | Some a \<Rightarrow> a = au_account_id u) \<and>
     (case sc_security_id sc of None \<Rightarrow> True | Some s \<Rightarrow> s = au_security_id u)"

lemma action_unit_fields [simp]:
  "au_account_id (action_unit account position reasons) = ap_account_id account"
  "au_security_id (action_unit account position reasons) = bp_security_id position"
  "au_reasons (action_unit account position reasons) = reasons"
  "au_total_quantity (action_unit account position reasons) = bp_total_quantity position"
  "au_broker_sellable_quantity (action_unit account position reasons) = bp_broker_sellable_quantity position"
  "au_exact_statistical_action_quantity (action_unit account position reasons) = exact_quantity position reasons"
  by (simp_all add: action_unit_def)

lemma action_units_of:
  "rs_action_units (po_snapshot (reconcile command pl pc)) =
     (let rl = account_loop command pl pc; st = final_recorder command rl in
      map (\<lambda>(account, position). action_unit account position
        (action_reasons (rl_active_restrictions rl) (rc_blocking st) (rc_portfolio_blocking st) account position))
        (all_rows (psc_accounts command)))"
  by (simp add: reconcile_fields reconciled_snapshot_def project_actions_def Let_def account_loop_outputs)

lemma action_unitE:
  assumes "u \<in> set (rs_action_units (po_snapshot (reconcile command pl pc)))"
  obtains account position reasons where "account \<in> set (psc_accounts command)"
    "position \<in> set (ap_positions account)" "u = action_unit account position reasons"
    "reasons = action_reasons (rl_active_restrictions (account_loop command pl pc))
       (rc_blocking (final_recorder command (account_loop command pl pc)))
       (rc_portfolio_blocking (final_recorder command (account_loop command pl pc))) account position"
  using assms by (auto simp: action_units_of Let_def all_rows_def)

lemma blocking_reaches_unit:
  assumes "code \<in> set (blocking (sc_account_id sc, sc_security_id sc))"
    and "scope_covers sc (action_unit account position reasons)"
  shows "code \<in> set (action_reasons active blocking portfolio account position)"
  using assms by (cases "sc_account_id sc"; cases "sc_security_id sc")
    (auto simp: action_reasons_def scoped_reasons_def scope_covers_def Let_def)

text \<open>C3: A conflict that blocks exact quantities blocks every action unit its scope covers, and is
  named among the unit's reasons.\<close>

theorem conflict_blocks_its_scope:
  assumes "conflict \<in> set (po_conflicts (reconcile command prior_ledger prior_cash))"
    and "fc_blocks_exact_statistical_quantity conflict"
    and "u \<in> set (rs_action_units (po_snapshot (reconcile command prior_ledger prior_cash)))"
    and "scope_covers (fc_affected_scope conflict) u"
  shows "au_exact_statistical_action_quantity u = None \<and> au_exact_quantity_status u = BLOCKED_QUANTITY \<and>
    fc_code conflict \<in> set (au_reasons u)"
proof -
  let ?st = "final_recorder command (account_loop command prior_ledger prior_cash)"
  have "fc_code conflict \<in> set (rc_blocking ?st (conflict_scope conflict))"
    using final_recorder_inv assms(1,2) by (auto simp: recorder_inv_def reconcile_fields)
  moreover from assms(3) obtain account position reasons where u: "u = action_unit account position reasons"
    "reasons = action_reasons (rl_active_restrictions (account_loop command prior_ledger prior_cash))
       (rc_blocking ?st) (rc_portfolio_blocking ?st) account position"
    by (rule action_unitE)
  ultimately have "fc_code conflict \<in> set reasons"
    using assms(4) by (auto simp: conflict_scope_def intro!: blocking_reaches_unit)
  from action_unit_blocked [OF this, of account position] show ?thesis unfolding u(1) by simp
qed

lemma snapshot_evidence_reported:
  assumes "code \<in> set (problem_codes (psc_snapshot_evidence command) (psc_cutoff_at command) True)"
  shows "report_conflict (report_of None None code [''snapshot_evidence''] True True False) \<in>
    set (po_conflicts (reconcile command pl pc))"
proof -
  let ?r = "\<lambda>code. report_of None None code [''snapshot_evidence''] True True False"
  let ?codes = "problem_codes (psc_snapshot_evidence command) (psc_cutoff_at command) True"
  have keep: "report_conflict (?r code) \<in> set (rc_conflicts (for_each codes (\<lambda>code. record_conflict (?r code)) st))"
    if "code \<in> set codes" "report_key (?r code) \<notin> rc_conflict_keys st" for codes st
    using that
  proof (induction codes arbitrary: st)
    case (Cons x xs)
    show ?case
    proof (cases "x = code")
      case True
      then have "report_conflict (?r code) \<in> set (rc_conflicts (record_conflict (?r x) st))"
        using Cons.prems by (simp add: record_conflict_fields)
      then show ?thesis
        using recorded_grows(1) [OF recordingD [OF recording_for_each [OF recording_record]]]
        by (fastforce simp: for_each_def)
    next
      case False
      then show ?thesis using Cons.IH [of "record_conflict (?r x) st"] Cons.prems
        by (simp add: for_each_def record_conflict_fields report_key_def report_of_def)
    qed
  qed simp
  have "report_conflict (?r code) \<in> set (rc_conflicts (rl_recorder (initial_state command)))"
    using keep [OF assms, of empty_recorder]
    by (simp add: initial_state_def record_evidence_def empty_recorder_def)
  moreover have "recorded (rl_recorder (initial_state command)) (rl_recorder (account_loop command pl pc))"
    unfolding account_loop_def by (rule for_each_recorded) (rule account_step_recorder)
  ultimately show ?thesis
    unfolding reconcile_fields using recorded_grows(1) final_recorder_after_loop by blast
qed

definition demo_unsourced :: position_snapshot_command where
  "demo_unsourced = demo_command\<lparr>psc_snapshot_evidence := demo_evidence\<lparr>ev_source := None\<rparr>\<rparr>"

theorem conflict_blocks_its_scope_witness:
  "let u = hd (rs_action_units (po_snapshot (reconcile demo_unsourced [] []))) in
   au_exact_statistical_action_quantity u = None \<and> au_exact_quantity_status u = BLOCKED_QUANTITY \<and>
   ''SOURCE_MISSING'' \<in> set (au_reasons u)"
proof -
  let ?c = "report_conflict (report_of None None ''SOURCE_MISSING'' [''snapshot_evidence''] True True False)"
  let ?u = "hd (rs_action_units (po_snapshot (reconcile demo_unsourced [] [])))"
  have "?c \<in> set (po_conflicts (reconcile demo_unsourced [] []))"
    by (rule snapshot_evidence_reported) (simp add: demo_unsourced_def problem_codes_def str_missing_def)
  moreover have "?u \<in> set (rs_action_units (po_snapshot (reconcile demo_unsourced [] [])))"
    by (simp add: action_units_of Let_def all_rows_def demo_unsourced_def demo_command_def demo_account_def)
  ultimately show ?thesis
    using conflict_blocks_its_scope [of ?c demo_unsourced "[]" "[]" ?u]
    by (simp add: report_conflict_def report_of_def scope_covers_def)
qed

text \<open>C4: In a reconciled snapshot every action unit names a total and a sellable quantity with
  \<open>0 <= sellable <= total\<close>; the exact quantity is the sellable one, or absent because of execution
  restrictions alone.\<close>

theorem reconciled_exact_quantity:
  assumes "po_disposition (reconcile command prior_ledger prior_cash) = RECONCILED"
    and "u \<in> set (rs_action_units (po_snapshot (reconcile command prior_ledger prior_cash)))"
  shows "\<exists>sellable held. au_broker_sellable_quantity u = Some sellable \<and> au_total_quantity u = Some held \<and>
    0 \<le> sellable \<and> sellable \<le> held \<and>
    au_exact_statistical_action_quantity u = (if au_reasons u = [] then Some sellable else None) \<and>
    (\<forall>reason \<in> set (au_reasons u). \<exists>i. reason = ''EXECUTION_RESTRICTION_ACTIVE:'' @ i)"
proof -
  let ?rl = "account_loop command prior_ledger prior_cash"
  let ?st = "final_recorder command ?rl"
  have clean: "no_conflicts ?st" using assms(1) by (simp add: reconciled_iff_clean)
  then have "rc_conflicts ?st = []" by (simp add: no_conflicts_def)
  note quiet = recorder_inv_clean [OF final_recorder_inv this]
  from assms(2) obtain account position reasons where u: "account \<in> set (psc_accounts command)"
    "position \<in> set (ap_positions account)" "u = action_unit account position reasons"
    "reasons = action_reasons (rl_active_restrictions ?rl) (rc_blocking ?st) (rc_portfolio_blocking ?st)
       account position"
    by (rule action_unitE)
  have "account_in_order (psc_cutoff_at command) (prior_entries_of prior_ledger) (prior_cash_of prior_cash) account"
    using clean u(1) by (simp add: clean_final_recorder snapshot_in_order_def)
  then have "\<exists>ledger sells. position_in_order (psc_cutoff_at command) ledger sells position"
    using u(2) unfolding account_in_order_def by blast
  then obtain sellable held where q: "bp_broker_sellable_quantity position = Some sellable"
    "bp_total_quantity position = Some held" "0 \<le> sellable" "sellable \<le> held"
    "bp_sellable_quantity_semantics position = BROKER_FINAL_SELLABLE"
    by (auto simp: position_in_order_def)
  have "reason \<in> set reasons \<Longrightarrow> \<exists>i. reason = ''EXECUTION_RESTRICTION_ACTIVE:'' @ i" for reason
    unfolding u(4) action_reasons_def scoped_reasons_def Let_def quiet by auto
  with q show ?thesis
    by (auto simp: u(3) exact_quantity_def)
qed

theorem reconciled_exact_quantity_witness:
  "let u = hd (rs_action_units (po_snapshot (reconcile demo_command [] []))) in
   \<exists>sellable held. au_broker_sellable_quantity u = Some sellable \<and> au_total_quantity u = Some held \<and>
    0 \<le> sellable \<and> sellable \<le> held \<and>
    au_exact_statistical_action_quantity u = (if au_reasons u = [] then Some sellable else None) \<and>
    (\<forall>reason \<in> set (au_reasons u). \<exists>i. reason = ''EXECUTION_RESTRICTION_ACTIVE:'' @ i)"
  unfolding Let_def
proof (rule reconciled_exact_quantity [where command = demo_command and prior_ledger = "[]" and prior_cash = "[]"])
  show "po_disposition (reconcile demo_command [] []) = RECONCILED"
    by (simp add: reconciled_iff_clean clean_final_recorder demo_in_order)
qed (simp add: action_units_of Let_def all_rows_def demo_command_def demo_account_def)

subsection \<open>What the outcome contains\<close>

text \<open>No conflict is reported twice, the disposition is conflicted exactly when there are
  conflicts, and the reasons of a conflicted outcome are the codes of its conflicts, each once.\<close>

lemma conflicts_reported_once:
  "let outcome = reconcile command prior_ledger prior_cash in
   distinct (map conflict_key (po_conflicts outcome)) \<and> distinct (po_reasons outcome) \<and>
   (if po_conflicts outcome = []
    then po_disposition outcome = RECONCILED \<and>
      po_reasons outcome = [''AUTHORITATIVE_POSITION_FACTS_RECONCILED'']
    else po_disposition outcome = CONFLICTED \<and>
      set (po_reasons outcome) = fc_code ` set (po_conflicts outcome))"
  using final_recorder_inv [of command prior_ledger prior_cash]
  by (simp add: Let_def reconcile_fields recorder_inv_def)

text \<open>Whatever the conflicts, the snapshot keeps all ledger entries of all accounts in order, one
  cash state per account and one action unit per position; a stated total equity is the sum of
  the accounts' equities.\<close>

lemma snapshot_keeps_facts:
  "let snapshot = po_snapshot (reconcile command prior_ledger prior_cash) in
   rs_authoritative_ledger snapshot = concat (map (\<lambda>account.
     map (authoritative_entry (ap_account_id account)) (ap_ledger_entries account)) (psc_accounts command)) \<and>
   rs_cash_states snapshot = map account_cash_state_of (psc_accounts command) \<and>
   map (\<lambda>u. (au_account_id u, au_security_id u, au_total_quantity u)) (rs_action_units snapshot) =
     concat (map (\<lambda>account. map (\<lambda>position.
       (ap_account_id account, bp_security_id position, bp_total_quantity position)) (ap_positions account))
       (psc_accounts command)) \<and>
   rs_total_account_equity snapshot \<in>
     {None, sum_if_complete (map ap_account_equity (psc_accounts command))}"
proof -
  have "map (\<lambda>u. (au_account_id u, au_security_id u, au_total_quantity u))
      (rs_action_units (po_snapshot (reconcile command prior_ledger prior_cash))) =
    concat (map (\<lambda>account. map (\<lambda>position.
       (ap_account_id account, bp_security_id position, bp_total_quantity position)) (ap_positions account))
       (psc_accounts command))"
    by (simp add: action_units_of Let_def all_rows_def map_concat comp_def split_beta)
  then show ?thesis
    by (simp add: Let_def reconcile_fields reconciled_snapshot_def account_loop_outputs)
qed

subsection \<open>Issuer exposures\<close>

lemma group_by_keys [simp]: "map fst (group_by key xs) = dict_fromkeys (map key xs)"
  by (simp add: group_by_def comp_def)

lemma group_by_lookup: "(k, ys) \<in> set (group_by key xs) \<Longrightarrow> ys = filter (\<lambda>x. key x = k) xs"
  by (auto simp: group_by_def)

lemma strict_sort_by_key:
  assumes "distinct (map fst xs)"
  shows "sorted_wrt (<) (map fst (sort_key fst xs))"
proof -
  have "sorted (map fst (sort_key fst xs))" by simp
  moreover have "distinct (map fst (sort_key fst xs))"
    using assms by (metis distinct_map distinct_sort set_sort)
  ultimately show ?thesis by (simp add: strict_sorted_iff)
qed

text \<open>The snapshot has exactly one exposure per issuer of a position, in increasing order of the
  issuer, in the valuation currency.\<close>

lemma issuer_exposures_complete:
  "let exposures = rs_issuer_exposures (po_snapshot (reconcile command prior_ledger prior_cash)) in
   sorted_wrt (<) (map ie_issuer_id exposures) \<and>
   set (map ie_issuer_id exposures) =
     {bp_issuer_id p | account p. account \<in> set (psc_accounts command) \<and> p \<in> set (ap_positions account)} \<and>
   set (map ie_valuation_currency exposures) \<subseteq> {psc_valuation_currency command}"
proof -
  let ?rows = "all_rows (psc_accounts command)"
  let ?key = "\<lambda>row. bp_issuer_id (snd row)"
  let ?exposures = "rs_issuer_exposures (po_snapshot (reconcile command prior_ledger prior_cash))"
  have ids: "map ie_issuer_id ?exposures = map fst (sort_key fst (group_by ?key ?rows))"
    by (simp add: reconcile_fields reconciled_snapshot_def project_exposures_def Let_def comp_def split_beta
        account_loop_outputs)
  have "sorted_wrt (<) (map ie_issuer_id ?exposures)"
    unfolding ids by (rule strict_sort_by_key) simp
  moreover have "set (map ie_issuer_id ?exposures) = fst ` set (group_by ?key ?rows)"
    unfolding ids by (simp only: list.set_map set_sort)
  moreover have "fst ` set (group_by ?key ?rows) = ?key ` set ?rows"
    by (metis group_by_keys list.set_map set_dict_fromkeys)
  moreover have "?key ` set ?rows =
      {bp_issuer_id p | account p. account \<in> set (psc_accounts command) \<and> p \<in> set (ap_positions account)}"
    by (force simp: all_rows_def)
  moreover have "set (map ie_valuation_currency ?exposures) \<subseteq> {psc_valuation_currency command}"
    by (auto simp: reconcile_fields reconciled_snapshot_def project_exposures_def Let_def split_beta)
  ultimately show ?thesis by (simp only: Let_def)
qed

lemma missing_summary_dirty:
  assumes "no_conflicts (rl_recorder rl) \<Longrightarrow> rl_missing_summary rl = {}"
    and "no_conflicts (rl_recorder (account_step c pe pc account rl))"
  shows "rl_missing_summary (account_step c pe pc account rl) = {}"
proof -
  obtain totals delta unres rl1 where led:
    "account_ledger_step c pe pc account rl = (totals, delta, unres, rl1)" by (metis surj_pair)
  obtain sells buys ids st where ord:
    "reconcile_orders account c (rl_recorder rl1) = (sells, buys, ids, st)" by (metis surj_pair)
  have "no_conflicts (rl_recorder rl)" using assms(2) by (simp add: account_step_recorder)
  then have "rl_missing_summary rl = {}" by (rule assms(1))
  moreover have "missing_summaries account (summary_required account totals ids unres) = []"
    using assms(2)
    by (simp add: account_step_def Let_def led ord clean_cash_and_equity rlog.clean_record_each)
  ultimately show ?thesis
    by (simp add: account_step_def Let_def led ord account_ledger_step_result(7) [OF led])
qed

lemma missing_summary_loop:
  assumes "no_conflicts (rl_recorder (account_loop command pl pc))"
  shows "rl_missing_summary (account_loop command pl pc) = {}"
proof -
  have "no_conflicts (rl_recorder (account_loop command pl pc)) \<longrightarrow>
      rl_missing_summary (account_loop command pl pc) = {}"
    unfolding account_loop_def for_each_def
  proof (rule foldl_keeps)
    show "no_conflicts (rl_recorder (account_step c pe pc account rl)) \<longrightarrow>
        rl_missing_summary (account_step c pe pc account rl) = {}"
      if "no_conflicts (rl_recorder rl) \<longrightarrow> rl_missing_summary rl = {}" for c pe pc account rl
      using that missing_summary_dirty by blast
  qed (simp add: initial_state_def)
  then show ?thesis using assms by blast
qed

text \<open>In a reconciled snapshot the exposure to an issuer is the sum, over all accounts, of quantity
  times price of the positions in that issuer.\<close>

lemma reconciled_exposure_value:
  assumes "po_disposition (reconcile command prior_ledger prior_cash) = RECONCILED"
    and "e \<in> set (rs_issuer_exposures (po_snapshot (reconcile command prior_ledger prior_cash)))"
  shows "ie_current_market_exposure e = Some (exposure_value
    (filter (\<lambda>p. bp_issuer_id p = ie_issuer_id e) (concat (map ap_positions (psc_accounts command)))))"
proof -
  let ?rl = "account_loop command prior_ledger prior_cash"
  let ?st = "final_recorder command ?rl"
  let ?rows = "all_rows (psc_accounts command)"
  have clean: "no_conflicts ?st" using assms(1) by (simp add: reconciled_iff_clean)
  then have st: "rc_conflicts ?st = []" by (simp add: no_conflicts_def)
  note quiet = recorder_inv_clean [OF final_recorder_inv st]
  have loop: "no_conflicts (rl_recorder ?rl)" "conflicting_securities ?rl = []"
    using clean by (auto simp: clean_final_recorder snapshot_in_order_def account_loop_recorder
        conflicting_securities_Nil [OF issuers_collected_loop] account_loop_outputs one_issuer_per_security_def)
  have manifest: "\<not> rl_incomplete_manifest ?rl"
    using clean by (auto simp: account_loop_manifest clean_final_recorder snapshot_in_order_def
        account_in_order_def ledger_facts_in_order_def account_facts_in_order_def account_manifest_incomplete_def)
  from assms(2) obtain k rows where "(k, rows) \<in> set (group_by (\<lambda>row. bp_issuer_id (snd row)) ?rows)"
    and e: "ie_issuer_id e = k" "ie_current_market_exposure e = Some (exposure_value (map snd rows))"
    by (auto simp: reconcile_fields reconciled_snapshot_def project_exposures_def Let_def st loop manifest
        missing_summary_loop account_loop_outputs exposure_invalid_def scoped_reasons_def quiet)
  then have "rows = filter (\<lambda>row. bp_issuer_id (snd row) = k) ?rows" by (simp add: group_by_lookup)
  moreover have "map snd (filter (\<lambda>row. bp_issuer_id (snd row) = k) (all_rows accounts)) =
      filter (\<lambda>p. bp_issuer_id p = k) (concat (map ap_positions accounts))" for accounts
    by (induction accounts) (auto simp: all_rows_def filter_map comp_def)
  ultimately show ?thesis using e by simp
qed

theorem reconciled_exposure_value_witness:
  "ie_current_market_exposure (hd (rs_issuer_exposures (po_snapshot (reconcile demo_command [] [])))) =
     Some 100"
proof -
  let ?es = "rs_issuer_exposures (po_snapshot (reconcile demo_command [] []))"
  have es: "map ie_issuer_id ?es = [''I'']"
    by (simp add: reconcile_fields reconciled_snapshot_def project_exposures_def Let_def account_loop_outputs
        all_rows_def demo_command_def demo_account_def group_by_def demo_position_def)
  then have "hd ?es \<in> set ?es" "ie_issuer_id (hd ?es) = ''I''" by (cases ?es; simp)+
  moreover have "po_disposition (reconcile demo_command [] []) = RECONCILED"
    by (simp add: reconciled_iff_clean clean_final_recorder demo_in_order)
  ultimately show ?thesis
    using reconciled_exposure_value [of demo_command "[]" "[]" "hd ?es"]
    by (simp add: demo_command_def demo_account_def demo_position_def exposure_value_def
        List.map_filter_def dmul_def reconciliation_precision_def)
qed

subsection \<open>User annotations\<close>

lemma annotation_conflicts_silent:
  "rc_blocking (record_annotation_conflicts command st) = rc_blocking st"
  "rc_valuation (record_annotation_conflicts command st) = rc_valuation st"
  "rc_portfolio_blocking (record_annotation_conflicts command st) = rc_portfolio_blocking st"
  "list_ex (\<lambda>c. fc_code c \<in> set coverage_codes) (rc_conflicts (record_annotation_conflicts command st)) \<longleftrightarrow>
     list_ex (\<lambda>c. fc_code c \<in> set coverage_codes) (rc_conflicts st)"
  unfolding record_annotation_conflicts_def
  by (rule for_each_same; auto simp: check_if_def record_conflict_fields report_of_def report_conflict_def
      coverage_codes_def fun_eq_iff)+

text \<open>What a user notes about a position has no effect on the capital facts: with any other
  annotations the snapshot's equity, action units and issuer exposures are the same.\<close>

lemma annotations_do_not_interfere:
  "let s = po_snapshot (reconcile command prior_ledger prior_cash);
       t = po_snapshot (reconcile (command\<lparr>psc_annotations := notes\<rparr>) prior_ledger prior_cash)
   in rs_total_account_equity t = rs_total_account_equity s \<and> rs_action_units t = rs_action_units s \<and>
      rs_issuer_exposures t = rs_issuer_exposures s"
proof -
  have loop: "account_loop (command\<lparr>psc_annotations := notes\<rparr>) prior_ledger prior_cash =
      account_loop command prior_ledger prior_cash"
    by (simp add: account_loop_def initial_state_def)
  show ?thesis
    by (simp add: Let_def reconcile_fields reconciled_snapshot_def loop final_recorder_def
        annotation_conflicts_silent)
qed

subsection \<open>Correction lineages\<close>

text \<open>The \<open>n\<close>-th entry identity on the chain of corrections from an entry.\<close>

definition chain :: "(str \<times> str option) list \<Rightarrow> nat \<Rightarrow> str option \<Rightarrow> str option" where
  "chain targets n = (\<lambda>t. Option.bind t (target_of targets)) ^^ n"

lemma chain_simps [simp]:
  "chain targets 0 t = t" "chain targets (Suc n) t = chain targets n (Option.bind t (target_of targets))"
  "chain targets n None = None"
  by (induction n) (simp_all add: chain_def funpow_swap1)

lemma chain_add: "chain targets (m + n) t = chain targets m (chain targets n t)"
  by (simp add: chain_def funpow_add)

lemma chain_Suc_left: "chain targets (Suc n) t = Option.bind (chain targets n t) (target_of targets)"
  by (simp add: chain_def)

text \<open>The loop reports a cycle only on a chain that never ends: every identity it has seen lies on
  the chain before the current one, so meeting one again closes a loop.\<close>

lemma cycle_loop_sound:
  assumes "cycle_loop targets t seen"
    and "\<And>x. x \<in> seen \<Longrightarrow> \<exists>k. chain targets (Suc k) (Some x) = t"
  shows "chain targets n t \<noteq> None"
  using assms
proof (induction targets t seen arbitrary: n rule: cycle_loop.induct)
  case (2 targets t seen)
  show ?case
  proof (cases "t \<in> seen")
    case True
    then obtain k where k: "chain targets (Suc k) (Some t) = Some t" using 2(3) by blast
    have loop: "chain targets (Suc k * m) (Some t) = Some t" for m
      by (induction m) (simp_all only: mult_0_right mult_Suc_right chain_add chain_simps(1) k)
    have "chain targets (k * n) (chain targets n (Some t)) = Some t"
      using loop [of n] by (simp add: add.commute flip: chain_add)
    then show ?thesis by (metis chain_simps(3) option.distinct(1))
  next
    case False
    have "chain targets n (target_of targets t) \<noteq> None" for n
    proof (rule 2(1) [OF False])
      show "cycle_loop targets (target_of targets t) (insert t seen)" using 2(2) False by simp
      show "\<exists>k. chain targets (Suc k) (Some x) = target_of targets t" if "x \<in> insert t seen" for x
      proof (cases "x = t")
        case True
        then show ?thesis by (intro exI [of _ 0]) simp
      next
        case False
        with that have "x \<in> seen" by simp
        then obtain k where "chain targets (Suc k) (Some x) = Some t" using 2(3) by blast
        then have "chain targets (Suc (Suc k)) (Some x) = target_of targets t"
          unfolding chain_Suc_left [of _ "Suc k"] by simp
        then show ?thesis by blast
      qed
    qed
    then show ?thesis by (cases n) simp_all
  qed
qed simp

lemma cycle_loop_complete:
  assumes "\<not> cycle_loop targets t seen"
  shows "\<exists>n. chain targets n t = None"
  using assms
proof (induction targets t seen rule: cycle_loop.induct)
  case (1 targets seen)
  then show ?case by simp
next
  case (2 targets t seen)
  then obtain n where "chain targets n (target_of targets t) = None" by (auto split: if_splits)
  then have "chain targets (Suc n) (Some t) = None" by simp
  then show ?case by blast
qed

text \<open>A correction cycle is reported for an entry exactly when following the corrections from it
  never ends.\<close>

lemma has_correction_cycle_iff:
  "has_correction_cycle entry_id targets \<longleftrightarrow> (\<forall>n. chain targets n (Some entry_id) \<noteq> None)"
proof
  assume "has_correction_cycle entry_id targets"
  then have "chain targets n (target_of targets entry_id) \<noteq> None" for n
    unfolding has_correction_cycle_def
    by (rule cycle_loop_sound) (auto intro!: exI [of _ 0])
  then show "\<forall>n. chain targets n (Some entry_id) \<noteq> None"
    by (metis bind.simps(2) chain_simps(1,2) not0_implies_Suc option.distinct(1))
next
  assume "\<forall>n. chain targets n (Some entry_id) \<noteq> None"
  then have "\<forall>n. chain targets n (target_of targets entry_id) \<noteq> None"
    by (metis bind.simps(2) chain_simps(2))
  then show "has_correction_cycle entry_id targets"
    unfolding has_correction_cycle_def using cycle_loop_complete by blast
qed

text \<open>A sound lineage of height \<open>n\<close>: the entry is the only one with its identity and visible, and
  either it corrects nothing or the entry it corrects was there when the correction was observed
  and has itself a sound lineage.\<close>

inductive sound_lineage :: "entries_by_id \<Rightarrow> datetime \<Rightarrow> nat \<Rightarrow> position_ledger_entry \<Rightarrow> bool"
  for entries cutoff where
  sound_origin: "entries_of entries (le_entry_id e) = [e] \<Longrightarrow> ledger_entry_evidence_is_visible e cutoff \<Longrightarrow>
    le_corrects_entry_id e = None \<Longrightarrow> sound_lineage entries cutoff 0 e"
| sound_correction: "entries_of entries (le_entry_id e) = [e] \<Longrightarrow> ledger_entry_evidence_is_visible e cutoff \<Longrightarrow>
    le_corrects_entry_id e = Some t \<Longrightarrow> entries_of entries t = [target] \<Longrightarrow>
    ev_source_observed_at (le_evidence e) = Some observed \<Longrightarrow> le_occurred_at target \<le> observed \<Longrightarrow>
    sound_lineage entries cutoff n target \<Longrightarrow> sound_lineage entries cutoff (Suc n) e"

inductive_cases sound_lineageE: "sound_lineage entries cutoff n e"

lemma sound_lineage_self: "sound_lineage entries cutoff n e \<Longrightarrow> entries_of entries (le_entry_id e) = [e]"
  by (auto elim: sound_lineageE)

lemma sound_lineage_height:
  "sound_lineage entries cutoff n e \<Longrightarrow> sound_lineage entries cutoff m e \<Longrightarrow> m = n"
proof (induction arbitrary: m rule: sound_lineage.induct)
  case (sound_origin e)
  from sound_origin(4) show ?case by (rule sound_lineageE) (use sound_origin(3) in auto)
next
  case (sound_correction e t target observed n)
  from sound_correction(9) show ?case
    by (rule sound_lineageE) (use sound_correction(3,4,8) in auto)
qed

lemma sound_lineage_valid:
  assumes "sound_lineage entries cutoff n e"
    and "\<And>x. x \<in> lineage \<Longrightarrow> \<exists>e' m. n < m \<and> sound_lineage entries cutoff m e' \<and> le_entry_id e' = x"
  shows "\<not> correction_lineage_is_invalid e entries cutoff lineage"
  using assms
proof (induction arbitrary: lineage rule: sound_lineage.induct)
  case (sound_origin e)
  have "le_entry_id e \<notin> lineage"
  proof
    assume "le_entry_id e \<in> lineage"
    then obtain e' m where e': "0 < m" "sound_lineage entries cutoff m e'" "le_entry_id e' = le_entry_id e"
      using sound_origin.prems by blast
    then have "e' = e" using sound_origin(1) sound_lineage_self by fastforce
    with e'(1,2) sound_lineage.sound_origin [OF sound_origin(1-3)] show False
      using sound_lineage_height by blast
  qed
  then show ?case using sound_origin by (subst correction_lineage_is_invalid.simps) simp
next
  case (sound_correction e t target observed n)
  note e = sound_lineage.sound_correction [OF sound_correction(1-7)]
  have fresh: "le_entry_id e \<notin> lineage"
  proof
    assume "le_entry_id e \<in> lineage"
    then obtain e' m where e': "Suc n < m" "sound_lineage entries cutoff m e'" "le_entry_id e' = le_entry_id e"
      using sound_correction.prems by blast
    then have "e' = e" using sound_correction(1) sound_lineage_self by fastforce
    with e' e show False using sound_lineage_height by blast
  qed
  have other: "t \<noteq> le_entry_id e"
  proof
    assume "t = le_entry_id e"
    then have "target = e" using sound_correction(1,4) by simp
    with sound_correction(7) have "sound_lineage entries cutoff n e" by simp
    from sound_lineage_height [OF e this] show False by simp
  qed
  have "\<not> correction_lineage_is_invalid target entries cutoff (insert (le_entry_id e) lineage)"
  proof (rule sound_correction(8))
    fix x assume "x \<in> insert (le_entry_id e) lineage"
    then show "\<exists>e' m. n < m \<and> sound_lineage entries cutoff m e' \<and> le_entry_id e' = x"
      using e sound_correction.prems by (metis Suc_lessD insertE lessI)
  qed
  then show ?case using fresh other sound_correction(1-6)
    by (subst correction_lineage_is_invalid.simps) (simp add: not_less less_le_not_le)
qed

lemma valid_sound_lineage:
  assumes "\<not> correction_lineage_is_invalid e entries cutoff lineage"
    and "\<And>k e. entries_of entries k = [e] \<Longrightarrow> le_entry_id e = k"
    and "entries_of entries (le_entry_id e) = [e]"
  shows "\<exists>n. sound_lineage entries cutoff n e"
  using assms
proof (induction e entries cutoff lineage rule: correction_lineage_is_invalid.induct)
  case (1 e entries cutoff lineage)
  note inv = 1(2) [unfolded correction_lineage_is_invalid.simps [of e]]
  have vis: "ledger_entry_evidence_is_visible e cutoff" using inv by (auto split: if_splits)
  show ?case
  proof (cases "le_corrects_entry_id e")
    case None
    then show ?thesis using sound_origin [OF 1(4) vis] by blast
  next
    case (Some t)
    from inv Some obtain target where target: "entries_of entries t = [target]"
      by (auto split: if_splits list.splits)
    from inv Some target obtain observed where obs: "ev_source_observed_at (le_evidence e) = Some observed"
        "\<not> observed < le_occurred_at target"
        "\<not> correction_lineage_is_invalid target entries cutoff (insert (le_entry_id e) lineage)"
      by (auto split: if_splits option.splits)
    have id: "le_entry_id target = t" using 1(3) target by blast
    have "\<exists>n. sound_lineage entries cutoff n target"
      by (rule 1(1)) (use inv Some target obs id 1(3) in \<open>auto split: if_splits\<close>)
    then show ?thesis
      using sound_correction [OF 1(4) vis Some target obs(1)] obs(2) by (auto simp: not_less)
  qed
qed

lemma prior_entries_keyed:
  assumes "((a, i), e) \<in> set (prior_entries_of pl)"
  shows "le_entry_id e = i"
proof -
  have "\<forall>p \<in> set (prior_entries_of pl). le_entry_id (snd p) = snd (fst p)"
    unfolding prior_entries_of_def
    by (rule foldl_keeps) (auto simp: dict_setdefault_def split: option.splits)
  then show ?thesis using assms by fastforce
qed

lemma truncate_id [simp]: "le_entry_id (position_ledger_entry.truncate e) = le_entry_id e"
  by (simp add: position_ledger_entry.defs)

lemma history_keyed:
  assumes "entries_of (history_entries_by_id account (prior_entries_of pl)) k = [e]"
  shows "le_entry_id e = k"
proof -
  let ?h = "history_entries_by_id account (prior_entries_of pl)"
  have "(k, [e]) \<in> set ?h"
    using assms by (cases "map_of ?h k") (auto simp: entries_of_def dict_get_def dest: map_of_SomeD)
  then show ?thesis
  proof (simp add: history_entries_by_id_def Let_def, elim disjE)
    assume "(k, [e]) \<in> set (group_by le_entry_id (ap_ledger_entries account))"
    from group_by_lookup [OF this] show ?thesis by (metis (mono_tags) filter_eq_ConsD)
  qed (auto dest: prior_entries_keyed)
qed

lemma history_current:
  assumes "entry \<in> set (ap_ledger_entries account)"
  shows "entries_of (history_entries_by_id account pe) (le_entry_id entry) =
    filter (\<lambda>e. le_entry_id e = le_entry_id entry) (ap_ledger_entries account)"
proof -
  let ?cur = "group_by le_entry_id (ap_ledger_entries account)"
  have "le_entry_id entry \<in> set (map fst ?cur)" using assms by simp
  then have key: "le_entry_id entry \<in> fst ` set ?cur" by (simp only: list.set_map)
  have "map_of ?cur (le_entry_id entry) =
      Some (filter (\<lambda>e. le_entry_id e = le_entry_id entry) (ap_ledger_entries account))"
    using assms by (subst map_of_eq_Some_iff) (auto simp: group_by_def comp_def)
  moreover have "map_of (map (\<lambda>((prior_account_id, entry_id), e). (entry_id, [position_ledger_entry.truncate e]))
      (filter (\<lambda>((prior_account_id, entry_id), e). prior_account_id = ap_account_id account \<and>
        entry_id \<notin> fst ` set ?cur) pe)) (le_entry_id entry) = None"
    using key by (force simp: map_of_eq_None_iff)
  ultimately show ?thesis
    by (simp add: history_entries_by_id_def Let_def entries_of_def dict_get_def map_add_def)
qed

text \<open>C5: For an entry of an account's ledger, the recursive lineage check fails exactly when there is no
  sound lineage: every entry on the way down to an entry that corrects nothing is the only one with
  its identity, visible at the cutoff, and observed no earlier than the entry it corrects occurred.\<close>

theorem correction_lineage_iff_sound:
  assumes "entry \<in> set (ap_ledger_entries account)"
  shows "correction_lineage_is_invalid entry (history_entries_by_id account (prior_entries_of pl)) cutoff {} \<longleftrightarrow>
    (\<nexists>n. sound_lineage (history_entries_by_id account (prior_entries_of pl)) cutoff n entry)"
proof
  let ?h = "history_entries_by_id account (prior_entries_of pl)"
  show "\<nexists>n. sound_lineage ?h cutoff n entry" if "correction_lineage_is_invalid entry ?h cutoff {}"
    using that sound_lineage_valid [where lineage = "{}"] by blast
  show "correction_lineage_is_invalid entry ?h cutoff {}" if none: "\<nexists>n. sound_lineage ?h cutoff n entry"
  proof (rule ccontr)
    assume valid: "\<not> correction_lineage_is_invalid entry ?h cutoff {}"
    then have "length (entries_of ?h (le_entry_id entry)) = 1"
      by (subst (asm) correction_lineage_is_invalid.simps) (auto split: if_splits)
    then obtain x where x: "entries_of ?h (le_entry_id entry) = [x]" by (auto simp: length_Suc_conv)
    have "entry \<in> set (entries_of ?h (le_entry_id entry))"
      using assms by (simp add: history_current)
    with x have "entries_of ?h (le_entry_id entry) = [entry]" by simp
    from valid_sound_lineage [OF valid _ this] history_keyed none show False by blast
  qed
qed

text \<open>The fill of the demonstration account corrects nothing; a lineage of height zero.\<close>

theorem correction_lineage_iff_sound_witness:
  "correction_lineage_is_invalid demo_entry (history_entries_by_id demo_account (prior_entries_of []))
     demo_time {} \<longleftrightarrow>
   (\<nexists>n. sound_lineage (history_entries_by_id demo_account (prior_entries_of [])) demo_time n demo_entry)"
  by (rule correction_lineage_iff_sound) (simp add: demo_account_def)

end
