(* ===== verification/Portfolio_Contracts.thy ===== *)
theory Portfolio_Contracts
  imports Market_Calendar Py_Decimal
begin

text \<open>
  \<open>portfolio/contracts.py\<close>: accounts, risk budgets, proposals, confirmations and authorizations as
  records, the validators as functions that return the message of the error they raise, and the
  preview of a proposal.  The bounds of single fields (\<open>Field(gt=0, lt=1)\<close> and the like) are
  collected in \<open>valid_risk_budget\<close>.
\<close>

record complete_account_snapshot =
  ca_account_id :: str
  ca_account_type :: str
  ca_currency :: str
  ca_permissions :: "str list"
  ca_captured_at :: datetime
  ca_cash_fact_id :: str
  ca_positions_fact_id :: str
  ca_receivables_fact_id :: str
  ca_payables_fact_id :: str
  ca_unfinished_trades_fact_id :: str

definition validate_permissions :: "complete_account_snapshot \<Rightarrow> str option" where
  "validate_permissions a =
     (if \<not> distinct (ca_permissions a) then Some ''account permissions must be unique'' else None)"

record portfolio_snapshot =
  sn_snapshot_id :: str
  sn_cutoff_at :: datetime
  sn_accounts :: "complete_account_snapshot list"
  sn_selected_account_ids :: "str list"

definition sn_account_ids :: "portfolio_snapshot \<Rightarrow> str list" where
  "sn_account_ids s = map ca_account_id (sn_accounts s)"

definition selected_accounts :: "portfolio_snapshot \<Rightarrow> complete_account_snapshot list" where
  "selected_accounts s = filter (\<lambda>a. ca_account_id a \<in> set (sn_selected_account_ids s)) (sn_accounts s)"

definition validate_complete_account_selection :: "portfolio_snapshot \<Rightarrow> str option" where
  "validate_complete_account_selection s =
     (if \<not> distinct (sn_account_ids s) then Some ''portfolio snapshot accounts must be unique''
      else if \<not> distinct (sn_selected_account_ids s)
      then Some ''portfolio selection accounts must be unique''
      else if \<not> set (sn_selected_account_ids s) \<subseteq> set (sn_account_ids s)
      then Some ''portfolio selection must use captured full accounts''
      else if \<exists>a \<in> set (sn_accounts s). \<not> dt_eq (ca_captured_at a) (sn_cutoff_at s)
      then Some ''portfolio accounts must share the portfolio cutoff''
      else None)"

subsection \<open>Risk budgets\<close>

record two_threshold_budget =
  tt_target_ratio :: decimal
  tt_hard_ratio :: decimal

definition validate_threshold_order :: "two_threshold_budget \<Rightarrow> str option" where
  "validate_threshold_order b =
     (if tt_target_ratio b \<ge> tt_hard_ratio b then Some ''target ratio must be lower than hard ratio''
      else None)"

record cash_budget =
  cb_target_ratio :: decimal
  cb_hard_ratio :: decimal

definition validate_cash_threshold_order :: "cash_budget \<Rightarrow> str option" where
  "validate_cash_threshold_order b =
     (if cb_target_ratio b \<le> cb_hard_ratio b
      then Some ''cash target ratio must be higher than hard ratio'' else None)"

record drawdown_budget =
  db_caution_ratio :: decimal
  db_defensive_ratio :: decimal
  db_preservation_ratio :: decimal

definition validate_drawdown_threshold_order :: "drawdown_budget \<Rightarrow> str option" where
  "validate_drawdown_threshold_order b =
     (if \<not> (db_caution_ratio b < db_defensive_ratio b \<and> db_defensive_ratio b < db_preservation_ratio b)
      then Some ''drawdown ratios must be strictly increasing'' else None)"

datatype protection_direction = REDUCE_DIRECTION | EXIT_DIRECTION

record deterministic_protection_floor =
  pf_retained_directions :: "protection_direction list"

definition validate_retained_directions :: "deterministic_protection_floor \<Rightarrow> str option" where
  "validate_retained_directions f =
     (if \<not> distinct (pf_retained_directions f) then Some ''protection directions must be unique'' else None)"

record stress_calculation_policy =
  sp_version_id :: str
  sp_shock_ratio :: decimal
  sp_disposal_friction_ratio :: decimal
  sp_registered_at :: datetime

definition stress_policy_eq :: "stress_calculation_policy \<Rightarrow> stress_calculation_policy \<Rightarrow> bool" where
  "stress_policy_eq a b \<longleftrightarrow>
     sp_version_id a = sp_version_id b \<and> sp_shock_ratio a = sp_shock_ratio b \<and>
     sp_disposal_friction_ratio a = sp_disposal_friction_ratio b \<and>
     dt_eq (sp_registered_at a) (sp_registered_at b)"

record personal_risk_budget =
  rb_version_id :: str
  rb_action_policy_version_id :: str
  rb_generator_version :: str
  rb_seed :: int
  rb_effective_at :: datetime
  rb_expires_at :: datetime
  rb_concentration :: two_threshold_budget
  rb_stress :: two_threshold_budget
  rb_cash :: cash_budget
  rb_drawdown :: drawdown_budget
  rb_downside_grid :: "decimal list"
  rb_protection_floor :: deterministic_protection_floor
  rb_stress_calculation :: "stress_calculation_policy option"

definition validate_duration_and_grid :: "personal_risk_budget \<Rightarrow> str option" where
  "validate_duration_and_grid b =
     (if \<not> dt_eq (rb_expires_at b) (add_calendar_months (rb_effective_at b) 6)
      then Some ''risk budget must expire exactly six calendar months after effective_at''
      else if \<exists>v \<in> set (rb_downside_grid b). v \<le> 0 \<or> v \<ge> 1
      then Some ''downside grid values must be ratios between zero and one''
      else if sort (rb_downside_grid b) \<noteq> rb_downside_grid b
      then Some ''downside grid values must be ordered''
      else if \<not> distinct (rb_downside_grid b)
      then Some ''downside grid values must be unique''
      else (case rb_stress_calculation b of
              None \<Rightarrow> None
            | Some policy \<Rightarrow>
                if sp_shock_ratio policy \<noteq> last (rb_downside_grid b) \<or>
                   sp_registered_at policy > rb_effective_at b
                then Some ''stress policy must predate activation and use the highest grid'' else None))"

definition proper_ratio :: "decimal \<Rightarrow> bool" where
  "proper_ratio r \<longleftrightarrow> 0 < r \<and> r < 1"

definition valid_risk_budget :: "personal_risk_budget \<Rightarrow> bool" where
  "valid_risk_budget b \<longleftrightarrow>
     list_all proper_ratio
       [tt_target_ratio (rb_concentration b), tt_hard_ratio (rb_concentration b),
        tt_target_ratio (rb_stress b), tt_hard_ratio (rb_stress b),
        cb_target_ratio (rb_cash b), cb_hard_ratio (rb_cash b), db_caution_ratio (rb_drawdown b),
        db_defensive_ratio (rb_drawdown b), db_preservation_ratio (rb_drawdown b)] \<and>
     (case rb_stress_calculation b of
        None \<Rightarrow> True
      | Some policy \<Rightarrow> proper_ratio (sp_shock_ratio policy) \<and>
          0 \<le> sp_disposal_friction_ratio policy \<and> sp_disposal_friction_ratio policy < 1) \<and>
     validate_threshold_order (rb_concentration b) = None \<and>
     validate_threshold_order (rb_stress b) = None \<and>
     validate_cash_threshold_order (rb_cash b) = None \<and>
     validate_drawdown_threshold_order (rb_drawdown b) = None \<and>
     rb_downside_grid b \<noteq> [] \<and> pf_retained_directions (rb_protection_floor b) \<noteq> [] \<and>
     validate_retained_directions (rb_protection_floor b) = None \<and>
     validate_duration_and_grid b = None"

definition relaxes_downside_grid :: "personal_risk_budget \<Rightarrow> personal_risk_budget \<Rightarrow> bool" where
  "relaxes_downside_grid b previous \<longleftrightarrow>
     last (rb_downside_grid b) > last (rb_downside_grid previous) \<or>
     list_ex (\<lambda>(current, prior). current > prior) (zip (rb_downside_grid b) (rb_downside_grid previous))"

definition changes_downside_grid :: "personal_risk_budget \<Rightarrow> personal_risk_budget \<Rightarrow> bool" where
  "changes_downside_grid b previous \<longleftrightarrow> rb_downside_grid b \<noteq> rb_downside_grid previous"

definition relaxes :: "personal_risk_budget \<Rightarrow> personal_risk_budget \<Rightarrow> bool" where
  "relaxes b previous \<longleftrightarrow>
     tt_target_ratio (rb_concentration b) > tt_target_ratio (rb_concentration previous) \<or>
     tt_hard_ratio (rb_concentration b) > tt_hard_ratio (rb_concentration previous) \<or>
     tt_target_ratio (rb_stress b) > tt_target_ratio (rb_stress previous) \<or>
     tt_hard_ratio (rb_stress b) > tt_hard_ratio (rb_stress previous) \<or>
     cb_target_ratio (rb_cash b) < cb_target_ratio (rb_cash previous) \<or>
     cb_hard_ratio (rb_cash b) < cb_hard_ratio (rb_cash previous) \<or>
     db_caution_ratio (rb_drawdown b) > db_caution_ratio (rb_drawdown previous) \<or>
     db_defensive_ratio (rb_drawdown b) > db_defensive_ratio (rb_drawdown previous) \<or>
     db_preservation_ratio (rb_drawdown b) > db_preservation_ratio (rb_drawdown previous) \<or>
     relaxes_downside_grid b previous \<or>
     (case rb_stress_calculation previous of
        None \<Rightarrow> False
      | Some prior \<Rightarrow>
          (case rb_stress_calculation b of
             None \<Rightarrow> True
           | Some policy \<Rightarrow>
               sp_disposal_friction_ratio policy < sp_disposal_friction_ratio prior \<or>
               sp_shock_ratio policy < sp_shock_ratio prior)) \<or>
     \<not> set (pf_retained_directions (rb_protection_floor previous)) \<subseteq>
       set (pf_retained_directions (rb_protection_floor b))"

subsection \<open>Proposals\<close>

record dated_cash_obligation =
  co_obligation_id :: str
  co_amount :: decimal
  co_purpose :: str
  co_latest_usable_at :: datetime
  co_target_account_id :: str

record portfolio_proposal =
  pp_portfolio_id :: str
  pp_snapshot :: portfolio_snapshot
  pp_activation_snapshot :: "portfolio_snapshot option"
  pp_risk_budget :: personal_risk_budget
  pp_cash_obligations :: "dated_cash_obligation list"

definition effective_snapshot :: "portfolio_proposal \<Rightarrow> portfolio_snapshot" where
  "effective_snapshot p = (case pp_activation_snapshot p of None \<Rightarrow> pp_snapshot p | Some a \<Rightarrow> a)"

definition validate_activation :: "portfolio_proposal \<Rightarrow> portfolio_snapshot \<Rightarrow> str option" where
  "validate_activation p activation =
     (if sn_snapshot_id activation = sn_snapshot_id (pp_snapshot p)
      then Some ''activation snapshot must use a distinct snapshot identity''
      else if sn_cutoff_at activation \<le> sn_cutoff_at (pp_snapshot p)
      then Some ''activation snapshot must follow the selected portfolio snapshot''
      else if sn_account_ids activation \<noteq> sn_account_ids (pp_snapshot p)
      then Some ''activation snapshot must retain the selected portfolio account scope''
      else if sn_selected_account_ids activation \<noteq> sn_selected_account_ids (pp_snapshot p)
      then Some ''activation snapshot must retain the selected portfolio account selection''
      else None)"

definition validate_proposal_binding :: "portfolio_proposal \<Rightarrow> str option" where
  "validate_proposal_binding p =
     (if \<not> dt_eq (rb_effective_at (pp_risk_budget p)) (sn_cutoff_at (effective_snapshot p))
      then Some ''risk budget effective_at must match the activation portfolio snapshot cutoff''
      else (case (case pp_activation_snapshot p of None \<Rightarrow> None | Some a \<Rightarrow> validate_activation p a) of
              Some message \<Rightarrow> Some message
            | None \<Rightarrow>
                if \<not> distinct (map co_obligation_id (pp_cash_obligations p))
                then Some ''cash obligations must be unique''
                else if \<exists>ob \<in> set (pp_cash_obligations p).
                  co_target_account_id ob \<notin> set (sn_selected_account_ids (pp_snapshot p))
                then Some ''cash obligation must target a selected account''
                else None))"

definition proposal_evidence_available_by :: "portfolio_proposal \<Rightarrow> datetime \<Rightarrow> bool" where
  "proposal_evidence_available_by p cutoff \<longleftrightarrow>
     sn_cutoff_at (pp_snapshot p) \<le> cutoff \<and>
     (case pp_activation_snapshot p of None \<Rightarrow> True | Some a \<Rightarrow> sn_cutoff_at a \<le> cutoff)"

subsection \<open>Evidence for a changed budget\<close>

record normal_market_session_evidence =
  ns_evidence_id :: str
  ns_market_calendar_version_id :: str
  ns_market_session_ordinal :: int
  ns_closed_at :: datetime

record risk_budget_relaxation_evidence =
  re_evidence_id :: str
  re_predecessor_authorization_id :: str
  re_predecessor_risk_budget_version_id :: str
  re_normal_from_at :: datetime
  re_normal_through_at :: datetime
  re_normal_market_sessions :: "normal_market_session_evidence list"
  re_monthly_selection_cutoff_at :: datetime
  re_available_at :: datetime

definition dt_list_eq :: "datetime list \<Rightarrow> datetime list \<Rightarrow> bool" where
  "dt_list_eq xs ys \<longleftrightarrow> list_all2 dt_eq xs ys"

definition validate_calendar_window ::
    "risk_budget_relaxation_evidence \<Rightarrow> synthetic_market_calendar \<Rightarrow> str option" where
  "validate_calendar_window e cal =
     (let sessions = re_normal_market_sessions e;
          ordinals = map ns_market_session_ordinal sessions;
          closed_at = map ns_closed_at sessions;
          references = map (session_for cal) ordinals
      in if ordinals \<noteq> [hd ordinals .. hd ordinals + int (length ordinals) - 1]
         then Some ''risk relaxation market sessions must be consecutive''
         else if list_ex (\<lambda>(previous, current). current \<le> previous) (zip closed_at (tl closed_at))
         then Some ''risk relaxation market sessions must close in strictly increasing order''
         else if None \<in> set references
         then Some ''risk relaxation sessions must match the immutable market calendar''
         else if \<not> dt_list_eq closed_at (map (\<lambda>r. ms_closed_at (the r)) references)
         then Some ''risk relaxation sessions must match the immutable market calendar''
         else if \<not> dt_eq (re_normal_from_at e) (hd closed_at) \<or> \<not> dt_eq (re_normal_through_at e) (last closed_at)
         then Some ''risk relaxation evidence must bind the first and last normal market sessions''
         else (case next_monthly_selection_cutoff_after cal (re_normal_through_at e) of
                 None \<Rightarrow> Some ''risk relaxation evidence must bind the next monthly selection cutoff''
               | Some expected \<Rightarrow>
                   if \<not> dt_eq (re_monthly_selection_cutoff_at e) expected
                   then Some ''risk relaxation evidence must bind the next monthly selection cutoff''
                   else None))"

definition validate_normal_window :: "risk_budget_relaxation_evidence \<Rightarrow> str option" where
  "validate_normal_window e =
     (let sessions = re_normal_market_sessions e in
      if \<not> (re_normal_from_at e \<le> re_normal_through_at e \<and> re_normal_through_at e \<le> re_available_at e \<and>
            re_available_at e \<le> re_monthly_selection_cutoff_at e)
      then Some ''risk relaxation evidence must preserve its normal-state window''
      else if \<not> distinct (map ns_evidence_id sessions)
      then Some ''risk relaxation market-session evidence must be unique''
      else if card (set (map ns_market_calendar_version_id sessions)) \<noteq> 1
      then Some ''risk relaxation sessions must use one immutable market calendar version''
      else (case find_market_calendar (ns_market_calendar_version_id (hd sessions)) of
              None \<Rightarrow> Some ''risk relaxation sessions must reference a known immutable market calendar''
            | Some cal \<Rightarrow> validate_calendar_window e cal))"

definition normal_window_is_current_at :: "risk_budget_relaxation_evidence \<Rightarrow> datetime \<Rightarrow> bool" where
  "normal_window_is_current_at e at_time \<longleftrightarrow>
     at_time \<le> re_normal_through_at e \<or>
     (case find_market_calendar (ns_market_calendar_version_id (hd (re_normal_market_sessions e))) of
        None \<Rightarrow> False
      | Some cal \<Rightarrow>
          (case next_session_after cal (re_normal_through_at e) of
             None \<Rightarrow> False | Some session \<Rightarrow> at_time < ms_closed_at session))"

record downside_grid_requalification_evidence =
  dg_evidence_id :: str
  dg_predecessor_authorization_id :: str
  dg_predecessor_risk_budget_version_id :: str
  dg_action_policy_version_id :: str
  dg_historical_out_of_sample_evidence_id :: str
  dg_historical_completed_at :: datetime
  dg_locked_forward_confirmation_id :: str
  dg_locked_forward_confirmed_at :: datetime
  dg_available_at :: datetime

definition requalification_eq ::
    "downside_grid_requalification_evidence \<Rightarrow> downside_grid_requalification_evidence \<Rightarrow> bool" where
  "requalification_eq a b \<longleftrightarrow>
     dg_evidence_id a = dg_evidence_id b \<and>
     dg_predecessor_authorization_id a = dg_predecessor_authorization_id b \<and>
     dg_predecessor_risk_budget_version_id a = dg_predecessor_risk_budget_version_id b \<and>
     dg_action_policy_version_id a = dg_action_policy_version_id b \<and>
     dg_historical_out_of_sample_evidence_id a = dg_historical_out_of_sample_evidence_id b \<and>
     dt_eq (dg_historical_completed_at a) (dg_historical_completed_at b) \<and>
     dg_locked_forward_confirmation_id a = dg_locked_forward_confirmation_id b \<and>
     dt_eq (dg_locked_forward_confirmed_at a) (dg_locked_forward_confirmed_at b) \<and>
     dt_eq (dg_available_at a) (dg_available_at b)"

definition requalification_ids :: "downside_grid_requalification_evidence \<Rightarrow> str list" where
  "requalification_ids e =
     [dg_evidence_id e, dg_historical_out_of_sample_evidence_id e, dg_locked_forward_confirmation_id e]"

definition validate_immutable_requalification_proof ::
    "downside_grid_requalification_evidence \<Rightarrow> str option" where
  "validate_immutable_requalification_proof e =
     (if \<not> (dg_historical_completed_at e \<le> dg_locked_forward_confirmed_at e \<and>
            dg_locked_forward_confirmed_at e \<le> dg_available_at e)
      then Some ''downside-grid requalification must preserve historical and locked-forward order''
      else if \<not> distinct (requalification_ids e)
      then Some ''downside-grid requalification evidence identities must be distinct''
      else None)"

subsection \<open>Confirmations, authorizations and outcomes\<close>

record portfolio_confirmation =
  cf_confirmation_id :: str
  cf_user_id :: str
  cf_portfolio_id :: str
  cf_snapshot_id :: str
  cf_risk_budget_version_id :: str
  cf_confirmed_at :: datetime
  cf_relaxation_evidence :: "risk_budget_relaxation_evidence option"
  cf_downside_grid_requalification :: "downside_grid_requalification_evidence option"

record portfolio_confirmation_command =
  pcc_proposal :: portfolio_proposal
  pcc_previous_authorization_id :: "str option"
  pcc_confirmation :: portfolio_confirmation

definition validate_confirmation_binding :: "portfolio_confirmation_command \<Rightarrow> str option" where
  "validate_confirmation_binding c =
     (let p = pcc_proposal c; cf = pcc_confirmation c; budget = pp_risk_budget p in
      if cf_portfolio_id cf \<noteq> pp_portfolio_id p \<or> cf_snapshot_id cf \<noteq> sn_snapshot_id (pp_snapshot p) \<or>
         cf_risk_budget_version_id cf \<noteq> rb_version_id budget
      then Some ''confirmation must bind the proposed portfolio snapshot and budget''
      else if cf_confirmed_at cf > rb_effective_at budget
      then Some ''confirmation must not postdate the risk budget effective_at''
      else if cf_confirmed_at cf < sn_cutoff_at (pp_snapshot p)
      then Some ''confirmation must not predate the portfolio cutoff''
      else if (case rb_stress_calculation budget of
                 None \<Rightarrow> False | Some policy \<Rightarrow> sp_registered_at policy > cf_confirmed_at cf)
      then Some ''stress policy must predate confirmation''
      else if pcc_previous_authorization_id c \<noteq> None
      then (case pp_activation_snapshot p of
              None \<Rightarrow> Some ''forward authorization requires a post-confirmation activation snapshot''
            | Some activation \<Rightarrow>
                if sn_cutoff_at activation \<le> cf_confirmed_at cf
                then Some ''activation snapshot must follow user confirmation'' else None)
      else None)"

datatype requested_action = NEW_EXPOSURE | DETERMINISTIC_PROTECTION

record portfolio_use_command =
  puc_portfolio_id :: str
  puc_authorization_id :: str
  puc_requested_action :: requested_action

datatype portfolio_command =
    PORTFOLIO_PREVIEW portfolio_proposal
  | PORTFOLIO_CONFIRM portfolio_confirmation_command
  | PORTFOLIO_USE portfolio_use_command

datatype exclusion_reason = NOT_SELECTED | UNSUPPORTED_ACCOUNT_TYPE | UNKNOWN_ACCOUNT_TYPE

fun exclusion_name :: "exclusion_reason \<Rightarrow> str" where
  "exclusion_name NOT_SELECTED = ''NOT_SELECTED''"
| "exclusion_name UNSUPPORTED_ACCOUNT_TYPE = ''UNSUPPORTED_ACCOUNT_TYPE''"
| "exclusion_name UNKNOWN_ACCOUNT_TYPE = ''UNKNOWN_ACCOUNT_TYPE''"

record excluded_account =
  ea_account_id :: str
  ea_account_type :: str
  ea_reason :: exclusion_reason

record portfolio_preview =
  pv_portfolio_id :: str
  pv_snapshot_id :: str
  pv_included_accounts :: "complete_account_snapshot list"
  pv_included_account_ids :: "str list"
  pv_excluded_accounts :: "excluded_account list"
  pv_blocking_account_ids :: "str list"
  pv_blocking_accounts :: "excluded_account list"

record portfolio_authorization =
  pa_authorization_id :: str
  pa_proposal :: portfolio_proposal
  pa_confirmation :: portfolio_confirmation
  pa_previous_authorization_id :: "str option"
  pa_recorded_at :: datetime

definition authorization_evidence_available_by :: "portfolio_authorization \<Rightarrow> datetime \<Rightarrow> bool" where
  "authorization_evidence_available_by a cutoff \<longleftrightarrow>
     proposal_evidence_available_by (pa_proposal a) cutoff \<and>
     cf_confirmed_at (pa_confirmation a) \<le> cutoff \<and>
     (case cf_relaxation_evidence (pa_confirmation a) of None \<Rightarrow> True | Some e \<Rightarrow> re_available_at e \<le> cutoff) \<and>
     (case cf_downside_grid_requalification (pa_confirmation a) of
        None \<Rightarrow> True | Some e \<Rightarrow> dg_available_at e \<le> cutoff)"

record portfolio_authorization_usage =
  us_requested_action :: requested_action
  us_allowed :: bool
  us_authorization_snapshot :: portfolio_authorization
  us_retained_protection_floor :: deterministic_protection_floor
  us_unfinished_cash_obligations :: "dated_cash_obligation list"
  us_reasons :: "str list"
  us_checked_at :: datetime

datatype authorization_disposition = PREVIEWED | APPROVED | DENIED

record portfolio_authorization_outcome =
  out_disposition :: authorization_disposition
  out_reasons :: "str list"
  out_preview :: "portfolio_preview option"
  out_authorization :: "portfolio_authorization option"
  out_usage :: "portfolio_authorization_usage option"

subsection \<open>Previews\<close>

definition exclusion_reason_of :: "str \<Rightarrow> exclusion_reason" where
  "exclusion_reason_of account_type =
     (if account_type = ''SIMULATED_CASH'' then NOT_SELECTED
      else if account_type \<in> {''SIMULATED_MARGIN'', ''SIMULATED_SECURITIES_BORROWING'', ''SIMULATED_PLEDGED'',
        ''SIMULATED_COLLATERAL'', ''SIMULATED_LIABILITY''}
      then UNSUPPORTED_ACCOUNT_TYPE
      else UNKNOWN_ACCOUNT_TYPE)"

definition excluded_account_of :: "complete_account_snapshot \<Rightarrow> excluded_account" where
  "excluded_account_of a =
     \<lparr>ea_account_id = ca_account_id a, ea_account_type = ca_account_type a,
      ea_reason = exclusion_reason_of (ca_account_type a)\<rparr>"

definition blocking_accounts :: "portfolio_snapshot \<Rightarrow> excluded_account list" where
  "blocking_accounts s =
     map excluded_account_of (filter (\<lambda>a. ca_account_type a \<noteq> ''SIMULATED_CASH'') (selected_accounts s))"

definition preview_for :: "portfolio_proposal \<Rightarrow> portfolio_preview" where
  "preview_for p =
     (let s = pp_snapshot p; blocking = blocking_accounts s in
      \<lparr>pv_portfolio_id = pp_portfolio_id p, pv_snapshot_id = sn_snapshot_id s,
       pv_included_accounts = selected_accounts s, pv_included_account_ids = sn_selected_account_ids s,
       pv_excluded_accounts = map excluded_account_of
         (filter (\<lambda>a. ca_account_id a \<notin> set (sn_selected_account_ids s)) (sn_accounts s)),
       pv_blocking_account_ids = map ea_account_id blocking, pv_blocking_accounts = blocking\<rparr>)"

definition confirmation_block_reasons :: "portfolio_preview \<Rightarrow> str list" where
  "confirmation_block_reasons pv = map (\<lambda>a. exclusion_name (ea_reason a)) (pv_blocking_accounts pv)"

definition activation_block_reasons :: "portfolio_proposal \<Rightarrow> str list" where
  "activation_block_reasons p =
     (case pp_activation_snapshot p of
        None \<Rightarrow> []
      | Some activation \<Rightarrow> map (\<lambda>a. exclusion_name (ea_reason a)) (blocking_accounts activation))"

definition portfolio_id_for :: "portfolio_command \<Rightarrow> str" where
  "portfolio_id_for c =
     (case c of PORTFOLIO_USE u \<Rightarrow> puc_portfolio_id u
      | PORTFOLIO_PREVIEW p \<Rightarrow> pp_portfolio_id p
      | PORTFOLIO_CONFIRM cc \<Rightarrow> pp_portfolio_id (pcc_proposal cc))"

subsection \<open>What validity gives\<close>

text \<open>A valid budget is in force for a positive span.\<close>

lemma valid_budget_expires_later:
  assumes "valid_risk_budget b"
  shows "rb_effective_at b < rb_expires_at b"
proof -
  have "dt_eq (rb_expires_at b) (add_calendar_months (rb_effective_at b) 6)"
    using assms by (auto simp: valid_risk_budget_def validate_duration_and_grid_def split: if_splits)
  then show ?thesis using add_six_months_later [of "rb_effective_at b"] by (simp add: dt_eq_def)
qed

lemma valid_budget_stress:
  assumes "valid_risk_budget b"
  shows "0 < tt_target_ratio (rb_stress b)" "tt_target_ratio (rb_stress b) < tt_hard_ratio (rb_stress b)"
    "tt_hard_ratio (rb_stress b) < 1"
    and "rb_stress_calculation b = Some policy \<Longrightarrow>
      0 < sp_shock_ratio policy \<and> 0 \<le> sp_disposal_friction_ratio policy"
  using assms
  by (auto simp: valid_risk_budget_def proper_ratio_def validate_threshold_order_def split: if_splits)

text \<open>A proposal is offered for confirmation only with cash accounts selected.\<close>

lemma confirmation_block_reasons_Nil:
  "confirmation_block_reasons (preview_for p) = [] \<longleftrightarrow>
     (\<forall>a \<in> set (selected_accounts (pp_snapshot p)). ca_account_type a = ''SIMULATED_CASH'')"
  by (auto simp: confirmation_block_reasons_def preview_for_def Let_def blocking_accounts_def filter_empty_conv)

lemma activation_block_reasons_Nil:
  "activation_block_reasons p = [] \<longleftrightarrow>
     (\<forall>s. pp_activation_snapshot p = Some s \<longrightarrow>
        (\<forall>a \<in> set (selected_accounts s). ca_account_type a = ''SIMULATED_CASH''))"
  by (auto simp: activation_block_reasons_def blocking_accounts_def filter_empty_conv split: option.splits)

end
