(* ===== verification/Portfolio_Stress.thy ===== *)
theory Portfolio_Stress
  imports Portfolio_Contracts Position_Contracts
begin

text \<open>
  \<open>portfolio/stress.py\<close>: the gross-stress assessment of a reconciled snapshot.  \<open>assess_stress\<close>
  returns \<open>None\<close> where an \<open>assert\<close> of the source would fail.  The calculation runs under a
  decimal context of 34 digits.
\<close>

definition stress_precision :: nat where "stress_precision = 34"

abbreviation sadd :: "decimal \<Rightarrow> decimal \<Rightarrow> decimal" where "sadd \<equiv> dadd stress_precision"
abbreviation ssub :: "decimal \<Rightarrow> decimal \<Rightarrow> decimal" where "ssub \<equiv> dsub stress_precision"
abbreviation smul :: "decimal \<Rightarrow> decimal \<Rightarrow> decimal" where "smul \<equiv> dmul stress_precision"
abbreviation sdiv :: "decimal \<Rightarrow> decimal \<Rightarrow> decimal" where "sdiv \<equiv> ddiv stress_precision"
abbreviation ssum :: "decimal list \<Rightarrow> decimal" where "ssum \<equiv> dsum stress_precision"

record portfolio_stress_command =
  sc_portfolio_id :: str
  sc_authorization_id :: str
  sc_position_snapshot :: position_snapshot_command

record stress_contribution =
  ct_account_id :: str
  ct_security_id :: str
  ct_current_exposure :: decimal
  ct_adverse_price_loss :: decimal
  ct_disposal_friction :: decimal

record stress_ledger_reference =
  lr_account_id :: str
  lr_entry_id :: str

record stress_restoration_fill = stress_ledger_reference +
  rf_net_quantity :: decimal
  rf_net_cash_delta :: decimal

datatype obligation_status = OUTSTANDING | SATISFIED

record stress_obligation =
  so_obligation_id :: str
  so_target_stress_ratio :: decimal
  so_status :: obligation_status
  so_triggered_at :: datetime
  so_restoration_fills :: "stress_restoration_fill list"
  so_restoration_corrections :: "stress_ledger_reference list"

datatype stress_state = NORMAL | BUFFER | HARD_BREACH | UNKNOWN_STRESS

record portfolio_stress_outcome =
  st_state :: stress_state
  st_reasons :: "str list"
  st_portfolio_id :: str
  st_authorization_id :: str
  st_snapshot_id :: str
  st_cutoff_at :: datetime
  st_account_ids :: "str list"
  st_gross_stress_loss :: "decimal option"
  st_net_liquidation_equity :: "decimal option"
  st_stress_ratio :: "decimal option"
  st_contributions :: "stress_contribution list"
  st_new_exposure_blocked :: bool
  st_obligation :: "stress_obligation option"
  st_execution_blocked :: bool
  st_residual_restoration_gap :: "decimal option"
  st_risk_budget_version_id :: "str option"
  st_calculation_policy :: "stress_calculation_policy option"
  st_budget :: "two_threshold_budget option"

definition lineage_denials :: "str list" where
  "lineage_denials =
     [''STRESS_AUTHORIZATION_UNAVAILABLE'', ''STRESS_ACCOUNT_SCOPE_MISMATCH'',
      ''STRESS_RETAINED_SCOPE_NOT_COVERED'', ''STRESS_SNAPSHOT_NOT_FORWARD'']"

definition lineage_denied :: "str list \<Rightarrow> bool" where
  "lineage_denied reasons \<longleftrightarrow> set lineage_denials \<inter> set reasons \<noteq> {}"

subsection \<open>Sales after corrections\<close>

type_synonym ledger_index = "((str \<times> str) \<times> authoritative_ledger_entry) list"

text \<open>The inner \<open>while\<close> of \<open>_effective_sales\<close>: follow the corrections to the root; \<open>None\<close> where the
  function returns \<open>()\<close>.\<close>

lemma map_of_values: "map_of d k = Some v \<Longrightarrow> v \<in> snd ` set d"
  by (metis image_eqI map_of_SomeD snd_conv)

function correction_root ::
    "ledger_index \<Rightarrow> authoritative_ledger_entry \<Rightarrow> str set \<Rightarrow> authoritative_ledger_entry option" where
  "correction_root indexed origin visited =
     (case le_corrects_entry_id origin of
        None \<Rightarrow> Some origin
      | Some target_id \<Rightarrow>
          if le_entry_id origin \<in> visited then None
          else (case map_of indexed (le_account_id origin, target_id) of
                  None \<Rightarrow> None
                | Some target \<Rightarrow> correction_root indexed target (insert (le_entry_id origin) visited)))"
  by pat_completeness auto
termination
proof (relation "measure (\<lambda>(indexed, origin, visited).
    2 * card (le_entry_id ` snd ` set indexed - visited) +
    (if le_entry_id origin \<in> le_entry_id ` snd ` set indexed then 0 else 1))")
  fix indexed :: ledger_index and origin target :: authoritative_ledger_entry and visited target_id
  assume fresh: "le_entry_id origin \<notin> visited"
    and target: "map_of indexed (le_account_id origin, target_id) = Some target"
  let ?ids = "le_entry_id ` snd ` set indexed"
  have mem: "le_entry_id target \<in> ?ids" using map_of_values [OF target] by blast
  have "2 * card (?ids - insert (le_entry_id origin) visited) <
      2 * card (?ids - visited) + (if le_entry_id origin \<in> ?ids then 0 else 1)"
  proof (cases "le_entry_id origin \<in> ?ids")
    case True
    then have "?ids - insert (le_entry_id origin) visited \<subset> ?ids - visited" using fresh by auto
    then have "card (?ids - insert (le_entry_id origin) visited) < card (?ids - visited)"
      by (intro psubset_card_mono) auto
    with True show ?thesis by simp
  next
    case False
    then have "?ids - insert (le_entry_id origin) visited = ?ids - visited" by auto
    with False show ?thesis by simp
  qed
  with mem show "((indexed, target, insert (le_entry_id origin) visited), indexed, origin, visited) \<in>
      measure (\<lambda>(indexed, origin, visited). 2 * card (le_entry_id ` snd ` set indexed - visited) +
        (if le_entry_id origin \<in> le_entry_id ` snd ` set indexed then 0 else 1))"
    by simp
qed simp

declare correction_root.simps [simp del]

definition entry_key :: "authoritative_ledger_entry \<Rightarrow> str \<times> str" where
  "entry_key entry = (le_account_id entry, le_entry_id entry)"

type_synonym sale_sums = "((str \<times> str) \<times> decimal \<times> decimal) list"

text \<open>One round of the outer loop: the dictionaries \<open>quantities\<close> and \<open>cash_deltas\<close> have the same keys
  and are kept as one.\<close>

definition sales_step ::
    "ledger_index \<Rightarrow> datetime \<Rightarrow> sale_sums option \<Rightarrow> authoritative_ledger_entry \<Rightarrow> sale_sums option" where
  "sales_step indexed cutoff_at totals entry =
     (case totals of
        None \<Rightarrow> None
      | Some d \<Rightarrow>
          if \<not> ledger_entry_evidence_is_visible entry cutoff_at then None
          else (case correction_root indexed entry {} of
                  None \<Rightarrow> None
                | Some origin \<Rightarrow>
                    let (quantity, cash) = dict_get d (entry_key origin) (0, 0) in
                    Some (AList.update (entry_key origin)
                      (sadd quantity (le_quantity_delta entry), sadd cash (le_cash_delta entry)) d)))"

definition restoration_fill :: "(str \<times> str) \<times> decimal \<times> decimal \<Rightarrow> stress_restoration_fill" where
  "restoration_fill row =
     \<lparr>lr_account_id = fst (fst row), lr_entry_id = snd (fst row),
      rf_net_quantity = fst (snd row), rf_net_cash_delta = snd (snd row)\<rparr>"

definition effective_sales ::
    "authoritative_ledger_entry list \<Rightarrow> datetime \<Rightarrow> datetime \<Rightarrow> stress_restoration_fill list" where
  "effective_sales entries after cutoff_at =
     (let indexed = dict_of entry_key (\<lambda>e. e) entries in
      case foldl (sales_step indexed cutoff_at) (Some []) entries of
        None \<Rightarrow> []
      | Some totals \<Rightarrow>
          map restoration_fill (filter (\<lambda>(key, quantity, cash). quantity < 0 \<and>
            (case map_of indexed key of
               None \<Rightarrow> False
             | Some origin \<Rightarrow> le_entry_type origin = FILL \<and> le_occurred_at origin > after)) totals))"

subsection \<open>The assessment\<close>

definition stress_policy_of :: "portfolio_authorization_usage option \<Rightarrow> stress_calculation_policy option" where
  "stress_policy_of usage =
     (case usage of
        None \<Rightarrow> None
      | Some u \<Rightarrow> rb_stress_calculation (pp_risk_budget (pa_proposal (us_authorization_snapshot u))))"

definition usage_budget :: "portfolio_authorization_usage \<Rightarrow> personal_risk_budget" where
  "usage_budget u = pp_risk_budget (pa_proposal (us_authorization_snapshot u))"

definition stress_corrections :: "authoritative_ledger_entry list \<Rightarrow> stress_ledger_reference list" where
  "stress_corrections ledger =
     map (\<lambda>entry. \<lparr>lr_account_id = le_account_id entry, lr_entry_id = le_entry_id entry\<rparr>)
       (filter (\<lambda>entry. le_corrects_entry_id entry \<noteq> None \<and>
          (le_quantity_delta entry > 0 \<or> le_cash_delta entry < 0)) ledger)"

definition fill_key :: "stress_restoration_fill \<Rightarrow> str \<times> str" where
  "fill_key fill = (lr_account_id fill, lr_entry_id fill)"

definition still_confirmed :: "position_reconciliation_outcome \<Rightarrow> stress_obligation \<Rightarrow> bool" where
  "still_confirmed position obligation =
     (let snapshot = po_snapshot position;
          current_fills = effective_sales (rs_authoritative_ledger snapshot)
            (so_triggered_at obligation) (rs_cutoff_at snapshot);
          current_by_id = dict_of fill_key (\<lambda>f. f) current_fills
      in po_disposition position = RECONCILED \<and> so_restoration_fills obligation \<noteq> [] \<and>
         set (stress_corrections (rs_authoritative_ledger snapshot)) \<subseteq>
           set (so_restoration_corrections obligation) \<and>
         list_all (\<lambda>fill. case map_of current_by_id (fill_key fill) of
             None \<Rightarrow> False
           | Some current \<Rightarrow> rf_net_quantity current \<le> rf_net_quantity fill \<and>
               rf_net_cash_delta current \<ge> rf_net_cash_delta fill) (so_restoration_fills obligation))"

definition carried_obligation ::
    "position_reconciliation_outcome \<Rightarrow> portfolio_stress_outcome list \<Rightarrow> stress_obligation option" where
  "carried_obligation position lineage =
     (let visible = filter (\<lambda>item. st_cutoff_at item < rs_cutoff_at (po_snapshot position)) lineage in
      if visible = [] then None
      else (case st_obligation (last visible) of
              None \<Rightarrow> None
            | Some obligation \<Rightarrow>
                if so_status obligation = SATISFIED \<and> \<not> still_confirmed position obligation
                then Some (obligation\<lparr>so_status := OUTSTANDING\<rparr>) else Some obligation))"

definition scope_not_covered :: "portfolio_stress_command \<Rightarrow> portfolio_stress_outcome list \<Rightarrow> bool" where
  "scope_not_covered command lineage \<longleftrightarrow>
     list_ex (\<lambda>item. \<not> set (st_account_ids item) \<subseteq> set (psc_account_ids (sc_position_snapshot command))) lineage"

definition stress_reasons ::
    "portfolio_stress_command \<Rightarrow> portfolio_authorization_usage option \<Rightarrow> position_reconciliation_outcome \<Rightarrow>
     portfolio_stress_outcome list \<Rightarrow> str list" where
  "stress_reasons command usage position lineage =
     (let snapshot = po_snapshot position in
      (case usage of
         None \<Rightarrow> [''STRESS_AUTHORIZATION_UNAVAILABLE'']
       | Some u \<Rightarrow>
           if \<not> us_allowed u then [''STRESS_AUTHORIZATION_UNAVAILABLE'']
           else if set (sn_selected_account_ids (pp_snapshot (pa_proposal (us_authorization_snapshot u)))) \<noteq>
               set (psc_account_ids (sc_position_snapshot command))
           then [''STRESS_ACCOUNT_SCOPE_MISMATCH''] else []) @
      (if stress_policy_of usage = None then [''STRESS_POLICY_REQUIRED''] else []) @
      (if list_ex (\<lambda>item. st_cutoff_at item \<ge> rs_cutoff_at snapshot) lineage
       then [''STRESS_SNAPSHOT_NOT_FORWARD''] else []) @
      (if scope_not_covered command lineage then [''STRESS_RETAINED_SCOPE_NOT_COVERED''] else []) @
      (if rs_total_account_equity snapshot = None \<or>
          list_ex (\<lambda>exposure. ie_current_market_exposure exposure = None) (rs_issuer_exposures snapshot)
       then [''STRESS_VALUATION_UNKNOWN''] else []))"

definition allowed_budget :: "portfolio_authorization_usage option \<Rightarrow> personal_risk_budget option" where
  "allowed_budget usage =
     (case usage of None \<Rightarrow> None | Some u \<Rightarrow> if us_allowed u then Some (usage_budget u) else None)"

text \<open>The obligation after the retained scope and the current budget are taken into account.\<close>

definition tightened_obligation ::
    "portfolio_stress_command \<Rightarrow> portfolio_authorization_usage option \<Rightarrow> position_reconciliation_outcome \<Rightarrow>
     portfolio_stress_outcome list \<Rightarrow> stress_obligation option" where
  "tightened_obligation command usage position lineage =
     (let obligation = (if scope_not_covered command lineage then None
            else carried_obligation position lineage)
      in case (obligation, allowed_budget usage) of
           (Some ob, Some budget) \<Rightarrow>
             if so_status ob = OUTSTANDING \<and>
                \<not> lineage_denied (stress_reasons command usage position lineage)
             then Some (ob\<lparr>so_target_stress_ratio :=
               min (so_target_stress_ratio ob) (tt_target_ratio (rb_stress budget))\<rparr>)
             else Some ob
         | _ \<Rightarrow> obligation)"

definition stress_unavailable ::
    "portfolio_stress_command \<Rightarrow> portfolio_authorization_usage option \<Rightarrow> position_reconciliation_outcome \<Rightarrow>
     stress_obligation option \<Rightarrow> str list \<Rightarrow> portfolio_stress_outcome" where
  "stress_unavailable command usage position obligation reasons =
     (let snapshot = po_snapshot position; budget = allowed_budget usage in
      \<lparr>st_state = UNKNOWN_STRESS, st_reasons = reasons, st_portfolio_id = sc_portfolio_id command,
       st_authorization_id = sc_authorization_id command, st_snapshot_id = rs_snapshot_id snapshot,
       st_cutoff_at = rs_cutoff_at snapshot, st_account_ids = psc_account_ids (sc_position_snapshot command),
       st_gross_stress_loss = None, st_net_liquidation_equity = None, st_stress_ratio = None,
       st_contributions = [], st_new_exposure_blocked = True, st_obligation = obligation,
       st_execution_blocked = True, st_residual_restoration_gap = None,
       st_risk_budget_version_id = map_option rb_version_id budget,
       st_calculation_policy = (if budget = None then None else stress_policy_of usage),
       st_budget = map_option rb_stress budget\<rparr>)"

definition stress_contribution_of ::
    "stress_calculation_policy \<Rightarrow> position_action_unit \<Rightarrow> stress_contribution" where
  "stress_contribution_of policy unit =
     (let exposure = smul (the (au_total_quantity unit)) (the (au_market_price unit)) in
      \<lparr>ct_account_id = au_account_id unit, ct_security_id = au_security_id unit,
       ct_current_exposure = exposure, ct_adverse_price_loss = smul exposure (sp_shock_ratio policy),
       ct_disposal_friction = smul exposure (sp_disposal_friction_ratio policy)\<rparr>)"

definition unit_priced :: "position_action_unit \<Rightarrow> bool" where
  "unit_priced unit \<longleftrightarrow> au_total_quantity unit \<noteq> None \<and> au_market_price unit \<noteq> None"

definition net_equity :: "decimal \<Rightarrow> stress_contribution list \<Rightarrow> decimal" where
  "net_equity equity contributions = ssub equity (ssum (map ct_disposal_friction contributions))"

definition gross_loss :: "stress_contribution list \<Rightarrow> decimal" where
  "gross_loss contributions =
     ssum (map (\<lambda>c. sadd (ct_adverse_price_loss c) (ct_disposal_friction c)) contributions)"

definition stress_state_of :: "two_threshold_budget \<Rightarrow> decimal \<Rightarrow> decimal \<Rightarrow> stress_state" where
  "stress_state_of budget loss equity =
     (if loss > smul (tt_hard_ratio budget) equity then HARD_BREACH
      else if loss > smul (tt_target_ratio budget) equity then BUFFER else NORMAL)"

definition new_obligation ::
    "portfolio_stress_command \<Rightarrow> position_reconciliation_outcome \<Rightarrow> two_threshold_budget \<Rightarrow> stress_obligation" where
  "new_obligation command position budget =
     \<lparr>so_obligation_id = ''stress-obligation:'' @ sc_authorization_id command @ '':'' @
        rs_snapshot_id (po_snapshot position),
      so_target_stress_ratio = tt_target_ratio budget, so_status = OUTSTANDING,
      so_triggered_at = rs_cutoff_at (po_snapshot position), so_restoration_fills = [],
      so_restoration_corrections = []\<rparr>"

definition triggered_obligation ::
    "portfolio_stress_command \<Rightarrow> position_reconciliation_outcome \<Rightarrow> two_threshold_budget \<Rightarrow> stress_state \<Rightarrow>
     stress_obligation option \<Rightarrow> stress_obligation option" where
  "triggered_obligation command position budget state obligation =
     (if state = HARD_BREACH \<and>
         (case obligation of None \<Rightarrow> True | Some ob \<Rightarrow> so_status ob = SATISFIED)
      then Some (new_obligation command position budget) else obligation)"

definition settled_obligation ::
    "position_reconciliation_outcome \<Rightarrow> decimal \<Rightarrow> decimal \<Rightarrow> stress_obligation option \<Rightarrow>
     stress_obligation option" where
  "settled_obligation position loss equity obligation =
     (case obligation of
        None \<Rightarrow> None
      | Some ob \<Rightarrow>
          let snapshot = po_snapshot position;
              confirmed_reduction = effective_sales (rs_authoritative_ledger snapshot)
                (so_triggered_at ob) (rs_cutoff_at snapshot)
          in if loss \<le> smul (so_target_stress_ratio ob) equity \<and> confirmed_reduction \<noteq> [] \<and>
                po_disposition position = RECONCILED
             then Some (ob\<lparr>so_status := SATISFIED, so_restoration_fills := confirmed_reduction,
                  so_restoration_corrections := stress_corrections (rs_authoritative_ledger snapshot)\<rparr>)
             else Some ob)"

definition remaining_loss :: "stress_calculation_policy \<Rightarrow> position_action_unit list \<Rightarrow> decimal" where
  "remaining_loss policy units =
     ssum (List.map_filter (\<lambda>unit.
       case (au_total_quantity unit, au_exact_statistical_action_quantity unit, au_market_price unit) of
         (Some held, Some exact, Some price) \<Rightarrow>
           Some (smul (smul (ssub held exact) price)
             (sadd (sp_shock_ratio policy) (sp_disposal_friction_ratio policy)))
       | _ \<Rightarrow> None) units)"

definition is_outstanding :: "stress_obligation option \<Rightarrow> bool" where
  "is_outstanding obligation \<longleftrightarrow> (case obligation of None \<Rightarrow> False | Some ob \<Rightarrow> so_status ob = OUTSTANDING)"

definition residual_gap ::
    "stress_calculation_policy \<Rightarrow> position_action_unit list \<Rightarrow> decimal \<Rightarrow> stress_obligation option \<Rightarrow>
     decimal option" where
  "residual_gap policy units equity obligation =
     (if is_outstanding obligation \<and>
         list_all (\<lambda>unit. au_exact_statistical_action_quantity unit \<noteq> None) units
      then Some (max 0 (ssub (remaining_loss policy units)
        (smul (so_target_stress_ratio (the obligation)) equity)))
      else None)"

definition assess_stress ::
    "portfolio_stress_command \<Rightarrow> portfolio_authorization_outcome \<Rightarrow> position_reconciliation_outcome \<Rightarrow>
     portfolio_stress_outcome list \<Rightarrow> portfolio_stress_outcome option" where
  "assess_stress command authorization position history =
     (let usage = out_usage authorization;
          lineage = filter (\<lambda>item. \<not> lineage_denied (st_reasons item)) history;
          reasons = stress_reasons command usage position lineage;
          carried = tightened_obligation command usage position lineage;
          unavailable = stress_unavailable command usage position carried reasons;
          units = rs_action_units (po_snapshot position)
      in if reasons \<noteq> [] then Some unavailable
         else (case (usage, stress_policy_of usage, allowed_budget usage,
                     rs_total_account_equity (po_snapshot position)) of
                 (Some u, Some policy, Some risk_budget, Some total_equity) \<Rightarrow>
                   if \<not> list_all unit_priced units then None
                   else
                     let contributions = map (stress_contribution_of policy) units;
                         equity = net_equity total_equity contributions;
                         loss = gross_loss contributions;
                         budget = rb_stress risk_budget
                     in if equity \<le> 0
                        then Some (unavailable\<lparr>st_reasons := [''STRESS_NET_EQUITY_NON_POSITIVE''],
                               st_contributions := contributions, st_gross_stress_loss := Some loss,
                               st_net_liquidation_equity := Some equity\<rparr>)
                        else
                          let state = stress_state_of budget loss equity;
                              obligation = settled_obligation position loss equity
                                (triggered_obligation command position budget state carried);
                              outstanding = is_outstanding obligation;
                              gap = residual_gap policy units equity obligation;
                              expired = us_checked_at u \<ge> rb_expires_at risk_budget
                          in Some (unavailable\<lparr>st_state := state,
                               st_reasons := (if expired then [''RISK_BUDGET_EXPIRED''] else []),
                               st_gross_stress_loss := Some loss, st_net_liquidation_equity := Some equity,
                               st_stress_ratio := Some (sdiv loss equity),
                               st_contributions := contributions,
                               st_new_exposure_blocked := state \<noteq> NORMAL \<or> outstanding \<or> expired,
                               st_obligation := obligation, st_residual_restoration_gap := gap,
                               st_execution_blocked :=
                                 outstanding \<and> (case gap of None \<Rightarrow> True | Some g \<Rightarrow> g > 0)\<rparr>)
               | _ \<Rightarrow> None))"

end
