(* ===== verification/Portfolio_Authorization.thy ===== *)
theory Portfolio_Authorization
  imports Portfolio_Stress
begin

text \<open>
  \<open>portfolio/service.py\<close>: adjudication of portfolio commands against the retained history of
  outcomes.  A chain of \<open>elif\<close> conditions that each set one reason is the first reason of a list
  (\<open>first_reason\<close>); the conditions have no effects, so evaluating all of them is the same.
\<close>

definition deny :: "str list \<Rightarrow> portfolio_preview option \<Rightarrow> portfolio_authorization_outcome" where
  "deny reasons preview =
     \<lparr>out_disposition = DENIED, out_reasons = reasons, out_preview = preview, out_authorization = None,
      out_usage = None\<rparr>"

definition reason_if :: "bool \<Rightarrow> str \<Rightarrow> str option" where
  "reason_if condition reason = (if condition then Some reason else None)"

fun first_reason :: "str option list \<Rightarrow> str option" where
  "first_reason [] = None"
| "first_reason (None # rs) = first_reason rs"
| "first_reason (Some r # rs) = Some r"

subsection \<open>Histories\<close>

type_synonym outcomes = "portfolio_authorization_outcome list"

definition authorizations :: "outcomes \<Rightarrow> portfolio_authorization list" where
  "authorizations history = List.map_filter out_authorization history"

definition portfolio_authorizations :: "outcomes \<Rightarrow> str \<Rightarrow> portfolio_authorization list" where
  "portfolio_authorizations history portfolio_id =
     filter (\<lambda>a. pp_portfolio_id (pa_proposal a) = portfolio_id) (authorizations history)"

definition authorization_by_id :: "outcomes \<Rightarrow> str \<Rightarrow> str \<Rightarrow> portfolio_authorization option" where
  "authorization_by_id history portfolio_id authorization_id =
     find (\<lambda>a. pa_authorization_id a = authorization_id) (portfolio_authorizations history portfolio_id)"

definition effective_at :: "portfolio_authorization \<Rightarrow> datetime" where
  "effective_at a = rb_effective_at (pp_risk_budget (pa_proposal a))"

definition unresolved_cash_obligations ::
    "outcomes \<Rightarrow> str \<Rightarrow> datetime option \<Rightarrow> dated_cash_obligation list" where
  "unresolved_cash_obligations history portfolio_id effective_by =
     map snd (foldl (\<lambda>d ob. dict_setdefault (co_obligation_id ob) ob d) []
       (concat (map (\<lambda>a. pp_cash_obligations (pa_proposal a))
         (filter (\<lambda>a. case effective_by of None \<Rightarrow> True | Some t \<Rightarrow> effective_at a \<le> t)
           (portfolio_authorizations history portfolio_id)))))"

definition history_available_by :: "outcomes \<Rightarrow> datetime \<Rightarrow> outcomes" where
  "history_available_by history cutoff =
     filter (\<lambda>outcome. case out_authorization outcome of
       None \<Rightarrow> True | Some a \<Rightarrow> authorization_evidence_available_by a cutoff) history"

definition lineage_leaf ::
    "portfolio_authorization list \<Rightarrow> portfolio_authorization option \<times> str option" where
  "lineage_leaf as =
     (if as = [] then (None, None)
      else (case filter (\<lambda>a. pa_authorization_id a \<notin>
                set (List.map_filter pa_previous_authorization_id as)) as of
              [a] \<Rightarrow> (Some a, None)
            | _ \<Rightarrow> (None, Some ''AUTHORIZATION_HISTORY_CONFLICT'')))"

definition current_authorization ::
    "outcomes \<Rightarrow> str \<Rightarrow> portfolio_authorization option \<times> str option" where
  "current_authorization history portfolio_id = lineage_leaf (portfolio_authorizations history portfolio_id)"

definition active_authorization ::
    "outcomes \<Rightarrow> str \<Rightarrow> datetime \<Rightarrow> portfolio_authorization option \<times> str option" where
  "active_authorization history portfolio_id observed_at =
     lineage_leaf (filter (\<lambda>a. effective_at a \<le> observed_at)
       (portfolio_authorizations history portfolio_id))"

subsection \<open>Reasons to deny a confirmation\<close>

definition proposal_snapshot_ids :: "portfolio_proposal \<Rightarrow> str set" where
  "proposal_snapshot_ids p =
     insert (sn_snapshot_id (pp_snapshot p))
       (case pp_activation_snapshot p of None \<Rightarrow> {} | Some s \<Rightarrow> {sn_snapshot_id s})"

definition reused_authorization_identity_reason ::
    "portfolio_confirmation_command \<Rightarrow> outcomes \<Rightarrow> str option" where
  "reused_authorization_identity_reason command history =
     (let p = pcc_proposal command; as = portfolio_authorizations history (pp_portfolio_id p) in
      first_reason
       [reason_if (list_ex (\<lambda>a. rb_version_id (pp_risk_budget (pa_proposal a)) = rb_version_id (pp_risk_budget p)) as)
          ''RISK_BUDGET_VERSION_REUSE'',
        reason_if (list_ex (\<lambda>a. proposal_snapshot_ids (pa_proposal a) \<inter> proposal_snapshot_ids p \<noteq> {}) as)
          ''PORTFOLIO_SNAPSHOT_VERSION_REUSE'',
        reason_if (list_ex (\<lambda>a. cf_confirmation_id (pa_confirmation a) =
            cf_confirmation_id (pcc_confirmation command)) as)
          ''PORTFOLIO_CONFIRMATION_REUSE''])"

definition reused_cash_obligation_identity_reason ::
    "portfolio_confirmation_command \<Rightarrow> outcomes \<Rightarrow> str option" where
  "reused_cash_obligation_identity_reason command history =
     (let p = pcc_proposal command;
          existing = concat (map (\<lambda>a. map co_obligation_id (pp_cash_obligations (pa_proposal a)))
            (portfolio_authorizations history (pp_portfolio_id p)))
      in reason_if (set existing \<inter> set (map co_obligation_id (pp_cash_obligations p)) \<noteq> {})
           ''CASH_OBLIGATION_ID_REUSE'')"

definition overlapping_portfolio_scope_reason :: "portfolio_proposal \<Rightarrow> outcomes \<Rightarrow> str option" where
  "overlapping_portfolio_scope_reason p owner_history =
     reason_if (list_ex (\<lambda>a. pp_portfolio_id (pa_proposal a) \<noteq> pp_portfolio_id p \<and>
         set (sn_account_ids (pp_snapshot p)) \<inter> set (sn_account_ids (pp_snapshot (pa_proposal a))) \<noteq> {})
         (authorizations owner_history))
       ''PORTFOLIO_ACCOUNT_SCOPE_CONFLICT''"

definition requalification_invalid ::
    "portfolio_confirmation_command \<Rightarrow> portfolio_authorization \<Rightarrow> datetime \<Rightarrow>
     downside_grid_requalification_evidence \<Rightarrow> bool" where
  "requalification_invalid command current cutoff e \<longleftrightarrow>
     (let previous_budget = pp_risk_budget (pa_proposal current);
          proposed_budget = pp_risk_budget (pcc_proposal command);
          cf = pcc_confirmation command
      in dg_predecessor_authorization_id e \<noteq> pa_authorization_id current \<or>
         dg_predecessor_risk_budget_version_id e \<noteq> rb_version_id previous_budget \<or>
         dg_action_policy_version_id e \<noteq> rb_action_policy_version_id proposed_budget \<or>
         dg_historical_completed_at e < rb_effective_at previous_budget \<or>
         dg_locked_forward_confirmed_at e \<ge> cf_confirmed_at cf \<or>
         dg_locked_forward_confirmation_id e = cf_confirmation_id cf \<or>
         dg_available_at e > cf_confirmed_at cf \<or> dg_available_at e > cutoff)"

definition downside_grid_requalification_reason ::
    "portfolio_confirmation_command \<Rightarrow> portfolio_authorization \<Rightarrow> datetime \<Rightarrow> str option" where
  "downside_grid_requalification_reason command current cutoff =
     (let previous_budget = pp_risk_budget (pa_proposal current);
          proposed_budget = pp_risk_budget (pcc_proposal command);
          grid_changed = changes_downside_grid proposed_budget previous_budget
      in if grid_changed \<and> rb_action_policy_version_id proposed_budget = rb_action_policy_version_id previous_budget
         then Some ''DOWNSIDE_GRID_ACTION_POLICY_VERSION_REQUIRED''
         else if \<not> grid_changed then None
         else (case cf_downside_grid_requalification (pcc_confirmation command) of
                 None \<Rightarrow> Some ''DOWNSIDE_GRID_REQUALIFICATION_REQUIRED''
               | Some e \<Rightarrow> reason_if (requalification_invalid command current cutoff e)
                   ''DOWNSIDE_GRID_REQUALIFICATION_INVALID''))"

definition redefined_action_policy_grid_reason :: "portfolio_proposal \<Rightarrow> outcomes \<Rightarrow> str option" where
  "redefined_action_policy_grid_reason p owner_history =
     (let budget = pp_risk_budget p in
      reason_if (list_ex (\<lambda>a. let retained = pp_risk_budget (pa_proposal a) in
          rb_action_policy_version_id retained = rb_action_policy_version_id budget \<and>
          rb_downside_grid retained \<noteq> rb_downside_grid budget) (authorizations owner_history))
        ''DOWNSIDE_GRID_ACTION_POLICY_REDEFINED'')"

definition redefined_stress_policy_reason :: "portfolio_proposal \<Rightarrow> outcomes \<Rightarrow> str option" where
  "redefined_stress_policy_reason p history =
     (case rb_stress_calculation (pp_risk_budget p) of
        None \<Rightarrow> None
      | Some policy \<Rightarrow>
          reason_if (list_ex (\<lambda>a. case rb_stress_calculation (pp_risk_budget (pa_proposal a)) of
              None \<Rightarrow> False
            | Some retained \<Rightarrow> sp_version_id retained = sp_version_id policy \<and>
                \<not> stress_policy_eq retained policy) (authorizations history))
            ''STRESS_CALCULATION_POLICY_REDEFINED'')"

definition requalification_identity_is_rebound ::
    "downside_grid_requalification_evidence \<Rightarrow> downside_grid_requalification_evidence \<Rightarrow> bool" where
  "requalification_identity_is_rebound retained submitted \<longleftrightarrow>
     set (requalification_ids retained) \<inter> set (requalification_ids submitted) \<noteq> {} \<and>
     \<not> requalification_eq retained submitted"

definition redefined_requalification_identity_reason ::
    "portfolio_confirmation_command \<Rightarrow> outcomes \<Rightarrow> str option" where
  "redefined_requalification_identity_reason command owner_history =
     (case cf_downside_grid_requalification (pcc_confirmation command) of
        None \<Rightarrow> None
      | Some submitted \<Rightarrow>
          reason_if (list_ex (\<lambda>a. case cf_downside_grid_requalification (pa_confirmation a) of
              None \<Rightarrow> False
            | Some retained \<Rightarrow> requalification_identity_is_rebound retained submitted)
              (authorizations owner_history))
            ''DOWNSIDE_GRID_REQUALIFICATION_EVIDENCE_REDEFINED'')"

definition relaxation_evidence_invalid ::
    "portfolio_confirmation_command \<Rightarrow> portfolio_authorization \<Rightarrow> datetime \<Rightarrow>
     risk_budget_relaxation_evidence \<Rightarrow> bool" where
  "relaxation_evidence_invalid command current cutoff e \<longleftrightarrow>
     (let budget = pp_risk_budget (pa_proposal current); p = pcc_proposal command;
          confirmed_at = cf_confirmed_at (pcc_confirmation command)
      in re_predecessor_authorization_id e \<noteq> pa_authorization_id current \<or>
         re_predecessor_risk_budget_version_id e \<noteq> rb_version_id budget \<or>
         re_normal_from_at e < rb_effective_at budget \<or> re_normal_through_at e > rb_expires_at budget \<or>
         re_normal_through_at e > confirmed_at \<or> \<not> normal_window_is_current_at e confirmed_at \<or>
         re_available_at e > confirmed_at \<or> re_available_at e > cutoff \<or>
         (case pp_activation_snapshot p of
            None \<Rightarrow> True
          | Some activation \<Rightarrow>
              \<not> dt_eq (re_monthly_selection_cutoff_at e) (sn_cutoff_at activation) \<or>
              \<not> dt_eq (sn_cutoff_at activation) (rb_effective_at (pp_risk_budget p))))"

definition stress_unresolved :: "portfolio_stress_outcome list \<Rightarrow> bool" where
  "stress_unresolved records \<longleftrightarrow>
     records \<noteq> [] \<and> (st_state (last records) \<noteq> NORMAL \<or> is_outstanding (st_obligation (last records)))"

definition risk_budget_relaxation_reason ::
    "portfolio_confirmation_command \<Rightarrow> portfolio_authorization \<Rightarrow> outcomes \<Rightarrow> datetime \<Rightarrow>
     portfolio_stress_outcome list \<Rightarrow> str option" where
  "risk_budget_relaxation_reason command current history cutoff stress_history =
     (case cf_relaxation_evidence (pcc_confirmation command) of
        None \<Rightarrow> Some ''RISK_BUDGET_RELAXATION_EVIDENCE_REQUIRED''
      | Some e \<Rightarrow>
          if relaxation_evidence_invalid command current cutoff e
          then Some ''RISK_BUDGET_RELAXATION_EVIDENCE_INVALID''
          else
            let visible_stress = filter (\<lambda>r. st_cutoff_at r \<le>
                  dt_min cutoff (cf_confirmed_at (pcc_confirmation command))) stress_history
            in reason_if (unresolved_cash_obligations history (pp_portfolio_id (pcc_proposal command)) None \<noteq> [] \<or>
                 stress_unresolved visible_stress \<or> stress_unresolved stress_history)
                 ''RISK_BUDGET_RELAXATION_OBLIGATIONS_UNRESOLVED'')"

definition proposal_evidence_reason :: "portfolio_proposal \<Rightarrow> datetime \<Rightarrow> datetime \<Rightarrow> str option" where
  "proposal_evidence_reason p cutoff now =
     first_reason
      [reason_if (\<not> proposal_evidence_available_by p cutoff) ''PORTFOLIO_EVIDENCE_AFTER_CUTOFF'',
       reason_if (\<not> proposal_evidence_available_by p now) ''PORTFOLIO_EVIDENCE_NOT_AVAILABLE'']"

definition confirmation_evidence_times :: "portfolio_confirmation \<Rightarrow> datetime list" where
  "confirmation_evidence_times cf =
     (case cf_relaxation_evidence cf of None \<Rightarrow> [] | Some e \<Rightarrow> [re_available_at e]) @
     (case cf_downside_grid_requalification cf of None \<Rightarrow> [] | Some e \<Rightarrow> [dg_available_at e])"

definition confirmation_evidence_reason ::
    "portfolio_confirmation_command \<Rightarrow> datetime \<Rightarrow> datetime \<Rightarrow> str option" where
  "confirmation_evidence_reason command cutoff now =
     (let cf = pcc_confirmation command; times = confirmation_evidence_times cf in
      first_reason
       [reason_if (cf_confirmed_at cf > cutoff \<or> list_ex (\<lambda>t. t > cutoff) times) ''PORTFOLIO_EVIDENCE_AFTER_CUTOFF'',
        reason_if (cf_confirmed_at cf > now \<or> list_ex (\<lambda>t. t > now) times) ''PORTFOLIO_EVIDENCE_NOT_AVAILABLE''])"

text \<open>The chain of conditions of a confirmation, in the order of the source.\<close>

definition confirmation_denial ::
    "portfolio_confirmation_command \<Rightarrow> datetime \<Rightarrow> outcomes \<Rightarrow> outcomes \<Rightarrow> portfolio_stress_outcome list \<Rightarrow>
     str option" where
  "confirmation_denial command cutoff lineage_history owner_history stress_history =
     (let p = pcc_proposal command;
          (current, history_reason) = current_authorization lineage_history (pp_portfolio_id p);
          previous = pcc_previous_authorization_id command
      in first_reason
       [overlapping_portfolio_scope_reason p owner_history,
        history_reason,
        reason_if (case current of None \<Rightarrow> False
          | Some a \<Rightarrow> \<not> authorization_evidence_available_by a cutoff) ''PORTFOLIO_LINEAGE_AFTER_CUTOFF'',
        reason_if (current = None \<and> previous \<noteq> None) ''PREVIOUS_AUTHORIZATION_NOT_FOUND'',
        reason_if (current \<noteq> None \<and> previous = None) ''PREVIOUS_AUTHORIZATION_REQUIRED'',
        reason_if (case current of None \<Rightarrow> False | Some a \<Rightarrow> previous \<noteq> Some (pa_authorization_id a))
          ''AUTHORIZATION_REVISION_CONFLICT'',
        (case current of None \<Rightarrow> None | Some a \<Rightarrow> downside_grid_requalification_reason command a cutoff),
        redefined_action_policy_grid_reason p owner_history,
        redefined_stress_policy_reason p owner_history,
        redefined_requalification_identity_reason command owner_history,
        reused_authorization_identity_reason command lineage_history,
        reused_cash_obligation_identity_reason command lineage_history,
        reason_if (case current of None \<Rightarrow> False
          | Some a \<Rightarrow> rb_effective_at (pp_risk_budget p) \<le> effective_at a) ''RISK_BUDGET_NOT_FORWARD_EFFECTIVE'',
        (case current of None \<Rightarrow> None
         | Some a \<Rightarrow> if relaxes (pp_risk_budget p) (pp_risk_budget (pa_proposal a))
             then risk_budget_relaxation_reason command a lineage_history cutoff stress_history else None)])"

definition adjudicate_confirmation ::
    "portfolio_confirmation_command \<Rightarrow> str \<Rightarrow> datetime \<Rightarrow> datetime \<Rightarrow> outcomes \<Rightarrow> outcomes \<Rightarrow> bool \<Rightarrow>
     portfolio_stress_outcome list \<Rightarrow> portfolio_authorization_outcome" where
  "adjudicate_confirmation command event_id now cutoff lineage_history owner_history prerequisite_met stress_history =
     (let p = pcc_proposal command; preview = preview_for p in
      case confirmation_evidence_reason command cutoff now of
        Some reason \<Rightarrow> deny [reason] None
      | None \<Rightarrow>
          if \<not> prerequisite_met then deny [''BUSINESS_PREREQUISITE_NOT_MET''] (Some preview)
          else
            let reasons = (case confirmation_denial command cutoff lineage_history owner_history stress_history of
                  Some reason \<Rightarrow> [reason]
                | None \<Rightarrow> dict_fromkeys (confirmation_block_reasons preview @ activation_block_reasons p))
            in if reasons \<noteq> [] then deny reasons (Some preview)
               else \<lparr>out_disposition = APPROVED, out_reasons = [''PORTFOLIO_AUTHORIZATION_RECORDED''],
                     out_preview = Some preview,
                     out_authorization = Some \<lparr>pa_authorization_id = event_id, pa_proposal = p,
                       pa_confirmation = pcc_confirmation command,
                       pa_previous_authorization_id = pcc_previous_authorization_id command,
                       pa_recorded_at = now\<rparr>,
                     out_usage = None\<rparr>)"

subsection \<open>Use of an authorization\<close>

definition use_outcome ::
    "portfolio_use_command \<Rightarrow> portfolio_authorization \<Rightarrow> dated_cash_obligation list \<Rightarrow> datetime \<Rightarrow> bool \<Rightarrow> str \<Rightarrow>
     portfolio_authorization_outcome" where
  "use_outcome command a obligations now allowed reason =
     \<lparr>out_disposition = (if allowed then APPROVED else DENIED), out_reasons = [reason],
      out_preview = Some (preview_for (pa_proposal a)), out_authorization = None,
      out_usage = Some \<lparr>us_requested_action = puc_requested_action command, us_allowed = allowed,
        us_authorization_snapshot = a,
        us_retained_protection_floor = rb_protection_floor (pp_risk_budget (pa_proposal a)),
        us_unfinished_cash_obligations = obligations, us_reasons = [reason], us_checked_at = now\<rparr>\<rparr>"

text \<open>The check of \<open>require_current_authorization\<close> against one history: the reason to deny.\<close>

definition not_current_reason ::
    "outcomes \<Rightarrow> str \<Rightarrow> datetime \<Rightarrow> portfolio_authorization \<Rightarrow> str option" where
  "not_current_reason history portfolio_id now a =
     (let (active, reason) = active_authorization history portfolio_id now in
      case reason of
        Some r \<Rightarrow> Some r
      | None \<Rightarrow> reason_if (case active of None \<Rightarrow> True
          | Some x \<Rightarrow> pa_authorization_id x \<noteq> pa_authorization_id a) ''CURRENT_PORTFOLIO_AUTHORIZATION_REQUIRED'')"

definition adjudicate_new_exposure ::
    "portfolio_use_command \<Rightarrow> datetime \<Rightarrow> outcomes \<Rightarrow> outcomes \<Rightarrow> portfolio_authorization \<Rightarrow>
     dated_cash_obligation list \<Rightarrow> portfolio_authorization_outcome" where
  "adjudicate_new_exposure command now history lineage_history a obligations =
     (let pid = puc_portfolio_id command; preview = Some (preview_for (pa_proposal a));
          result = use_outcome command a obligations now;
          (lineage_active, lineage_active_reason) = active_authorization lineage_history pid now
      in case lineage_active_reason of
           Some reason \<Rightarrow> deny [reason] preview
         | None \<Rightarrow>
             if (case lineage_active of None \<Rightarrow> False
                 | Some x \<Rightarrow> pa_authorization_id x \<noteq> pa_authorization_id a)
             then result False ''CURRENT_PORTFOLIO_AUTHORIZATION_REQUIRED''
             else (case snd (current_authorization history pid) of
                     Some reason \<Rightarrow> deny [reason] preview
                   | None \<Rightarrow>
                       let (active, active_reason) = active_authorization history pid now in
                       case active_reason of
                         Some reason \<Rightarrow> deny [reason] preview
                       | None \<Rightarrow>
                           if (case active of None \<Rightarrow> True
                               | Some x \<Rightarrow> pa_authorization_id x \<noteq> pa_authorization_id a)
                           then result False ''CURRENT_PORTFOLIO_AUTHORIZATION_REQUIRED''
                           else if now \<ge> rb_expires_at (pp_risk_budget (pa_proposal a))
                           then result False ''RISK_BUDGET_EXPIRED''
                           else result True ''NEW_EXPOSURE_AUTHORIZED''))"

definition adjudicate_use ::
    "portfolio_use_command \<Rightarrow> datetime \<Rightarrow> outcomes \<Rightarrow> outcomes \<Rightarrow> str list \<Rightarrow> bool \<Rightarrow> bool \<Rightarrow>
     portfolio_authorization_outcome" where
  "adjudicate_use command now history lineage_history access_account_ids prerequisite_met require_current =
     (if \<not> prerequisite_met \<and> puc_requested_action command = NEW_EXPOSURE
      then deny [''BUSINESS_PREREQUISITE_NOT_MET''] None
      else (case authorization_by_id history (puc_portfolio_id command) (puc_authorization_id command) of
              None \<Rightarrow> deny [''PORTFOLIO_AUTHORIZATION_REQUIRED''] None
            | Some a \<Rightarrow>
                let obligations = unresolved_cash_obligations history (puc_portfolio_id command) (Some now);
                    required = set (sn_account_ids (pp_snapshot (pa_proposal a))) \<union>
                      set (map co_target_account_id obligations);
                    preview = preview_for (pa_proposal a)
                in if \<not> required \<subseteq> set access_account_ids
                   then deny [''AUTHORIZATION_SCOPE_MISMATCH''] None
                   else (case (if require_current
                          then first_reason
                            [not_current_reason lineage_history (puc_portfolio_id command) now a,
                             not_current_reason history (puc_portfolio_id command) now a]
                          else None) of
                          Some reason \<Rightarrow> deny [reason] (Some preview)
                        | None \<Rightarrow>
                            if now < effective_at a
                            then use_outcome command a obligations now False ''RISK_BUDGET_NOT_YET_EFFECTIVE''
                            else if puc_requested_action command = DETERMINISTIC_PROTECTION
                            then use_outcome command a obligations now True ''DETERMINISTIC_PROTECTION_RETAINED''
                            else adjudicate_new_exposure command now history lineage_history a obligations)))"

record adjudication_context =
  ax_event_id :: str
  ax_now :: datetime
  ax_cutoff :: datetime
  ax_history :: outcomes
  ax_lineage_history :: "outcomes option"
  ax_owner_lineage_history :: "outcomes option"
  ax_access_account_ids :: "str list"
  ax_business_prerequisite_met :: bool
  ax_require_current_authorization :: bool
  ax_stress_history :: "portfolio_stress_outcome list"

definition adjudicate :: "portfolio_command \<Rightarrow> adjudication_context \<Rightarrow> portfolio_authorization_outcome" where
  "adjudicate command ctx =
     (let now = ax_now ctx; cutoff = ax_cutoff ctx;
          history = history_available_by (ax_history ctx) cutoff;
          lineage_history = (case ax_lineage_history ctx of None \<Rightarrow> history | Some h \<Rightarrow> h);
          owner_history = (case ax_owner_lineage_history ctx of None \<Rightarrow> lineage_history | Some h \<Rightarrow> h)
      in case command of
           PORTFOLIO_USE use \<Rightarrow>
             adjudicate_use use now history lineage_history (ax_access_account_ids ctx)
               (ax_business_prerequisite_met ctx) (ax_require_current_authorization ctx)
         | PORTFOLIO_PREVIEW p \<Rightarrow>
             (case proposal_evidence_reason p cutoff now of
                Some reason \<Rightarrow> deny [reason] None
              | None \<Rightarrow>
                  \<lparr>out_disposition = PREVIEWED, out_reasons = [''PORTFOLIO_SCOPE_PREVIEWED''],
                   out_preview = Some (preview_for p), out_authorization = None, out_usage = None\<rparr>)
         | PORTFOLIO_CONFIRM confirm \<Rightarrow>
             (case proposal_evidence_reason (pcc_proposal confirm) cutoff now of
                Some reason \<Rightarrow> deny [reason] None
              | None \<Rightarrow>
                  adjudicate_confirmation confirm (ax_event_id ctx) now cutoff lineage_history owner_history
                    (ax_business_prerequisite_met ctx) (ax_stress_history ctx)))"

end
