(* ===== verification/Authorization_Ledger.thy ===== *)
theory Authorization_Ledger
  imports Portfolio_Authorization
begin

text \<open>
  The decision ledger as the portfolio adjudication sees it: \<open>adapters/persistence/decision_ledger.py\<close>
  reads the outcomes of one owner, of one portfolio of that owner, and of those the ones whose
  evidence predates a cutoff; \<open>decision_cases/service.py\<close> adjudicates a case against them and appends
  the outcome.  A ledger is a list of facts in the order of their event sequence; the relation
  \<open>ledger_reachable\<close> has one rule for every kind of event that is appended.
\<close>

record result_access_scope =
  ras_user_id :: str
  ras_visibility :: str
  ras_account_ids :: "str list"

record decision_event_fact =
  fact_event_id :: str
  fact_corrects_event_id :: "str option"
  fact_access_scope :: "result_access_scope option"
  fact_portfolio :: "portfolio_authorization_outcome option"

type_synonym decision_ledger = "decision_event_fact list"

definition original_event_facts :: "decision_ledger \<Rightarrow> decision_ledger" where
  "original_event_facts facts = filter (\<lambda>event. fact_corrects_event_id event = None) facts"

definition owned_outcome ::
    "result_access_scope \<Rightarrow> decision_event_fact \<Rightarrow> portfolio_authorization_outcome option" where
  "owned_outcome access_scope event =
     (case (fact_access_scope event, fact_portfolio event) of
        (Some scope, Some portfolio) \<Rightarrow>
          if ras_user_id scope = ras_user_id access_scope \<and>
             ras_visibility scope = ras_visibility access_scope \<and> out_authorization portfolio \<noteq> None
          then Some portfolio else None
      | _ \<Rightarrow> None)"

definition portfolio_authorization_owner_lineage ::
    "decision_ledger \<Rightarrow> result_access_scope \<Rightarrow> outcomes" where
  "portfolio_authorization_owner_lineage facts access_scope =
     List.map_filter (owned_outcome access_scope) (original_event_facts facts)"

definition portfolio_authorization_lineage ::
    "decision_ledger \<Rightarrow> result_access_scope \<Rightarrow> str \<Rightarrow> outcomes" where
  "portfolio_authorization_lineage facts access_scope portfolio_id =
     filter (\<lambda>portfolio. case out_authorization portfolio of
         None \<Rightarrow> False | Some a \<Rightarrow> pp_portfolio_id (pa_proposal a) = portfolio_id)
       (portfolio_authorization_owner_lineage facts access_scope)"

definition portfolio_authorization_history ::
    "decision_ledger \<Rightarrow> result_access_scope \<Rightarrow> str \<Rightarrow> datetime \<Rightarrow> outcomes" where
  "portfolio_authorization_history facts access_scope portfolio_id cutoff =
     filter (\<lambda>portfolio. case out_authorization portfolio of
         None \<Rightarrow> False | Some a \<Rightarrow> authorization_evidence_available_by a cutoff)
       (portfolio_authorization_lineage facts access_scope portfolio_id)"

text \<open>A case submitted to the host, with what the adjudication takes from its surroundings.\<close>

record portfolio_case =
  hc_event_id :: str
  hc_access_scope :: result_access_scope
  hc_command :: portfolio_command
  hc_observed_at :: datetime
  hc_knowledge_cutoff :: datetime
  hc_business_succeeded :: bool
  hc_stress_history :: "portfolio_stress_outcome list"

definition case_context :: "decision_ledger \<Rightarrow> portfolio_case \<Rightarrow> adjudication_context" where
  "case_context facts c =
     (let scope = hc_access_scope c; portfolio_id = portfolio_id_for (hc_command c) in
      \<lparr>ax_event_id = hc_event_id c, ax_now = hc_observed_at c, ax_cutoff = hc_knowledge_cutoff c,
       ax_history = portfolio_authorization_history facts scope portfolio_id (hc_knowledge_cutoff c),
       ax_lineage_history = Some (portfolio_authorization_lineage facts scope portfolio_id),
       ax_owner_lineage_history = Some (portfolio_authorization_owner_lineage facts scope),
       ax_access_account_ids = ras_account_ids scope,
       ax_business_prerequisite_met = hc_business_succeeded c,
       ax_require_current_authorization = False, ax_stress_history = hc_stress_history c\<rparr>)"

definition adjudicate_case :: "decision_ledger \<Rightarrow> portfolio_case \<Rightarrow> portfolio_authorization_outcome" where
  "adjudicate_case facts c = adjudicate (hc_command c) (case_context facts c)"

definition case_fact :: "decision_ledger \<Rightarrow> portfolio_case \<Rightarrow> decision_event_fact" where
  "case_fact facts c =
     \<lparr>fact_event_id = hc_event_id c, fact_corrects_event_id = None,
      fact_access_scope = Some (hc_access_scope c), fact_portfolio = Some (adjudicate_case facts c)\<rparr>"

definition valid_portfolio_command :: "portfolio_command \<Rightarrow> bool" where
  "valid_portfolio_command command \<longleftrightarrow>
     (case command of
        PORTFOLIO_USE u \<Rightarrow> True
      | PORTFOLIO_PREVIEW p \<Rightarrow> valid_risk_budget (pp_risk_budget p) \<and> validate_proposal_binding p = None
      | PORTFOLIO_CONFIRM c \<Rightarrow>
          valid_risk_budget (pp_risk_budget (pcc_proposal c)) \<and>
          validate_proposal_binding (pcc_proposal c) = None \<and> validate_confirmation_binding c = None)"

text \<open>
  An event is a case with a portfolio command, a case without one, or the correction of an earlier
  event.  Identifiers of events are the primary key of the table of events.
\<close>

inductive ledger_reachable :: "decision_ledger \<Rightarrow> bool" where
  empty: "ledger_reachable []"
| adjudicated: "ledger_reachable facts \<Longrightarrow> hc_event_id c \<notin> fact_event_id ` set facts \<Longrightarrow>
    valid_portfolio_command (hc_command c) \<Longrightarrow> ledger_reachable (facts @ [case_fact facts c])"
| unrelated: "ledger_reachable facts \<Longrightarrow> fact_event_id event \<notin> fact_event_id ` set facts \<Longrightarrow>
    fact_portfolio event = None \<Longrightarrow> ledger_reachable (facts @ [event])"
| correction: "ledger_reachable facts \<Longrightarrow> fact_event_id event \<notin> fact_event_id ` set facts \<Longrightarrow>
    fact_corrects_event_id event \<noteq> None \<Longrightarrow> ledger_reachable (facts @ [event])"

subsection \<open>Reading a ledger\<close>

lemma first_reason_None: "first_reason rs = None \<longleftrightarrow> (\<forall>r \<in> set rs. r = None)"
  by (induction rs rule: first_reason.induct) auto

lemma first_reason_not_Nil: "first_reason rs = Some r \<Longrightarrow> Some r \<in> set rs"
  by (induction rs rule: first_reason.induct) auto

lemma reason_if_None [simp]: "reason_if b r = None \<longleftrightarrow> \<not> b"
  by (simp add: reason_if_def)

lemma portfolio_authorizations_filter:
  "portfolio_authorizations h pid = filter (\<lambda>a. pp_portfolio_id (pa_proposal a) = pid) (authorizations h)"
  by (simp add: portfolio_authorizations_def)

lemma authorizations_Nil [simp]: "authorizations [] = []"
  by (simp add: authorizations_def List.map_filter_def)

lemma authorizations_append [simp]: "authorizations (xs @ ys) = authorizations xs @ authorizations ys"
  by (simp add: authorizations_def List.map_filter_def)

lemma authorizations_filter:
  "authorizations (filter (\<lambda>x. case out_authorization x of None \<Rightarrow> b | Some a \<Rightarrow> P a) h) =
   filter P (authorizations h)"
  by (induction h) (auto simp: authorizations_def List.map_filter_simps split: option.splits)

definition owner_authorizations :: "decision_ledger \<Rightarrow> result_access_scope \<Rightarrow> portfolio_authorization list" where
  "owner_authorizations facts scope = authorizations (portfolio_authorization_owner_lineage facts scope)"

abbreviation in_portfolio :: "str \<Rightarrow> portfolio_authorization \<Rightarrow> bool" where
  "in_portfolio pid a \<equiv> pp_portfolio_id (pa_proposal a) = pid"

text \<open>The authorizations of one portfolio of one owner, in the order they were recorded.\<close>

definition recorded_authorizations ::
    "decision_ledger \<Rightarrow> result_access_scope \<Rightarrow> str \<Rightarrow> portfolio_authorization list" where
  "recorded_authorizations facts scope pid = filter (in_portfolio pid) (owner_authorizations facts scope)"

lemma authorizations_lineage [simp]:
  "authorizations (portfolio_authorization_lineage facts scope pid) = recorded_authorizations facts scope pid"
  by (simp add: portfolio_authorization_lineage_def authorizations_filter recorded_authorizations_def
      owner_authorizations_def)

lemma authorizations_history [simp]:
  "authorizations (portfolio_authorization_history facts scope pid cutoff) =
   filter (\<lambda>a. authorization_evidence_available_by a cutoff) (recorded_authorizations facts scope pid)"
  by (simp add: portfolio_authorization_history_def authorizations_filter)

lemma authorizations_available [simp]:
  "authorizations (history_available_by h cutoff) =
   filter (\<lambda>a. authorization_evidence_available_by a cutoff) (authorizations h)"
  by (simp add: history_available_by_def authorizations_filter)

lemma portfolio_authorizations_lineage [simp]:
  "portfolio_authorizations (portfolio_authorization_lineage facts scope pid) pid =
   recorded_authorizations facts scope pid"
  by (simp add: portfolio_authorizations_def) (simp add: recorded_authorizations_def)

lemma portfolio_authorizations_history [simp]:
  "portfolio_authorizations
     (history_available_by (portfolio_authorization_history facts scope pid cutoff) cutoff) pid =
   filter (\<lambda>a. authorization_evidence_available_by a cutoff) (recorded_authorizations facts scope pid)"
  by (simp add: portfolio_authorizations_def) (auto simp: recorded_authorizations_def intro!: filter_cong)

lemma owner_authorizations_append:
  "owner_authorizations (facts @ [event]) scope = owner_authorizations facts scope @
     (if fact_corrects_event_id event = None
      then (case owned_outcome scope event of
              None \<Rightarrow> [] | Some portfolio \<Rightarrow> authorizations [portfolio]) else [])"
  by (auto simp: owner_authorizations_def portfolio_authorization_owner_lineage_def
      original_event_facts_def List.map_filter_def)

subsection \<open>What an approved confirmation went through\<close>

definition confirmed_authorization ::
    "portfolio_confirmation_command \<Rightarrow> str \<Rightarrow> datetime \<Rightarrow> portfolio_authorization" where
  "confirmed_authorization c event_id now =
     \<lparr>pa_authorization_id = event_id, pa_proposal = pcc_proposal c, pa_confirmation = pcc_confirmation c,
      pa_previous_authorization_id = pcc_previous_authorization_id c, pa_recorded_at = now\<rparr>"

lemma use_no_authorization:
  "out_authorization (adjudicate_use u now h l acc pre cur) = None"
  by (auto simp: adjudicate_use_def adjudicate_new_exposure_def deny_def use_outcome_def Let_def split_beta
      split: option.splits)

lemma adjudicate_authorizationD:
  assumes "out_authorization (adjudicate command ctx) = Some a"
  obtains c where "command = PORTFOLIO_CONFIRM c"
    "a = confirmed_authorization c (ax_event_id ctx) (ax_now ctx)"
    "proposal_evidence_reason (pcc_proposal c) (ax_cutoff ctx) (ax_now ctx) = None"
    "confirmation_evidence_reason c (ax_cutoff ctx) (ax_now ctx) = None"
    "ax_business_prerequisite_met ctx"
    "out_authorization (adjudicate_confirmation c (ax_event_id ctx) (ax_now ctx) (ax_cutoff ctx)
       (case ax_lineage_history ctx of
          None \<Rightarrow> history_available_by (ax_history ctx) (ax_cutoff ctx) | Some h \<Rightarrow> h)
       (case ax_owner_lineage_history ctx of
          None \<Rightarrow> (case ax_lineage_history ctx of
            None \<Rightarrow> history_available_by (ax_history ctx) (ax_cutoff ctx) | Some h \<Rightarrow> h)
        | Some h \<Rightarrow> h) (ax_business_prerequisite_met ctx) (ax_stress_history ctx)) = Some a"
proof (cases command)
  case (PORTFOLIO_CONFIRM c)
  then have *: "proposal_evidence_reason (pcc_proposal c) (ax_cutoff ctx) (ax_now ctx) = None"
    using assms by (auto simp: adjudicate_def Let_def deny_def split: option.splits)
  then have out: "adjudicate command ctx = adjudicate_confirmation c (ax_event_id ctx) (ax_now ctx) (ax_cutoff ctx)
       (case ax_lineage_history ctx of
          None \<Rightarrow> history_available_by (ax_history ctx) (ax_cutoff ctx) | Some h \<Rightarrow> h)
       (case ax_owner_lineage_history ctx of
          None \<Rightarrow> (case ax_lineage_history ctx of
            None \<Rightarrow> history_available_by (ax_history ctx) (ax_cutoff ctx) | Some h \<Rightarrow> h)
        | Some h \<Rightarrow> h) (ax_business_prerequisite_met ctx) (ax_stress_history ctx)"
    using PORTFOLIO_CONFIRM by (simp add: adjudicate_def Let_def)
  show ?thesis
    by (rule that [OF PORTFOLIO_CONFIRM _ * _ _ assms [unfolded out]])
      (use assms [unfolded out] in \<open>auto simp: adjudicate_confirmation_def Let_def deny_def
        confirmed_authorization_def split: option.splits if_splits\<close>)
qed (use assms in \<open>auto simp: adjudicate_def Let_def deny_def use_no_authorization split: option.splits\<close>)

lemma confirmation_approvedD:
  assumes "out_authorization (adjudicate_confirmation c event_id now cutoff lineage owner pre stress) = Some a"
  shows "confirmation_denial c cutoff lineage owner stress = None"
    "confirmation_block_reasons (preview_for (pcc_proposal c)) = []"
    "activation_block_reasons (pcc_proposal c) = []"
  using assms
  by (auto simp: adjudicate_confirmation_def Let_def deny_def split: option.splits if_splits)

text \<open>The facts a confirmation without a reason to deny establishes, one per condition of the chain.\<close>

lemma confirmation_denial_None:
  assumes "confirmation_denial c cutoff lineage owner stress = None"
    and "current_authorization lineage (pp_portfolio_id (pcc_proposal c)) = (current, reason)"
  shows "overlapping_portfolio_scope_reason (pcc_proposal c) owner = None" "reason = None"
    "current = None \<Longrightarrow> pcc_previous_authorization_id c = None"
    "current = Some x \<Longrightarrow> pcc_previous_authorization_id c = Some (pa_authorization_id x)"
    "current = Some x \<Longrightarrow> authorization_evidence_available_by x cutoff"
    "current = Some x \<Longrightarrow> effective_at x < rb_effective_at (pp_risk_budget (pcc_proposal c))"
    "current = Some x \<Longrightarrow> downside_grid_requalification_reason c x cutoff = None"
    "current = Some x \<Longrightarrow> relaxes (pp_risk_budget (pcc_proposal c)) (pp_risk_budget (pa_proposal x)) \<Longrightarrow>
       risk_budget_relaxation_reason c x lineage cutoff stress = None"
    "reused_authorization_identity_reason c lineage = None"
    "reused_cash_obligation_identity_reason c lineage = None"
    "redefined_action_policy_grid_reason (pcc_proposal c) owner = None"
    "redefined_stress_policy_reason (pcc_proposal c) owner = None"
    "redefined_requalification_identity_reason c owner = None"
  using assms
  by (auto simp: confirmation_denial_def Let_def first_reason_None not_le split: option.splits)

end
