(* ===== verification/Stress_Properties.thy ===== *)
theory Stress_Properties
  imports Position_Properties Portfolio_Stress
begin

text \<open>
  Properties of the stress assessment: new exposure passes only on complete, current and
  sufficient evidence; an outstanding obligation to reduce is never lost; the sales that settle it
  are net of their corrections; and on an outcome of the reconciliation no assertion of the source
  fails.
\<close>

subsection \<open>Cases of the assessment\<close>

definition stress_lineage :: "portfolio_stress_outcome list \<Rightarrow> portfolio_stress_outcome list" where
  "stress_lineage history = filter (\<lambda>item. \<not> lineage_denied (st_reasons item)) history"

lemma assess_stress_cases:
  assumes "assess_stress command authorization position history = Some outcome"
  obtains (unavailable) "stress_reasons command (out_usage authorization) position (stress_lineage history) \<noteq> []"
      "st_state outcome = UNKNOWN_STRESS" "st_new_exposure_blocked outcome"
      "st_obligation outcome = tightened_obligation command (out_usage authorization) position
         (stress_lineage history)"
  | (insolvent) "st_state outcome = UNKNOWN_STRESS" "st_new_exposure_blocked outcome"
      "st_obligation outcome = tightened_obligation command (out_usage authorization) position
         (stress_lineage history)"
  | (assessed) u policy total contributions equity loss where
      "stress_reasons command (out_usage authorization) position (stress_lineage history) = []"
      "out_usage authorization = Some u" "us_allowed u" "rb_stress_calculation (usage_budget u) = Some policy"
      "rs_total_account_equity (po_snapshot position) = Some total"
      "contributions = map (stress_contribution_of policy) (rs_action_units (po_snapshot position))"
      "equity = net_equity total contributions" "loss = gross_loss contributions" "0 < equity"
      "st_gross_stress_loss outcome = Some loss" "st_net_liquidation_equity outcome = Some equity"
      "st_state outcome = stress_state_of (rb_stress (usage_budget u)) loss equity"
      "st_obligation outcome = settled_obligation position loss equity
         (triggered_obligation command position (rb_stress (usage_budget u)) (st_state outcome)
           (tightened_obligation command (out_usage authorization) position (stress_lineage history)))"
      "st_new_exposure_blocked outcome \<longleftrightarrow> st_state outcome \<noteq> NORMAL \<or>
         is_outstanding (st_obligation outcome) \<or> us_checked_at u \<ge> rb_expires_at (usage_budget u)"
proof (cases "stress_reasons command (out_usage authorization) position (stress_lineage history) = []")
  case False
  then show ?thesis using assms
    by (intro unavailable) (auto simp: assess_stress_def Let_def stress_lineage_def stress_unavailable_def)
next
  case True
  then obtain u where u: "out_usage authorization = Some u" "us_allowed u"
    by (auto simp: stress_reasons_def Let_def split: option.splits if_splits)
  from True u obtain policy where policy: "rb_stress_calculation (usage_budget u) = Some policy"
    by (auto simp: stress_reasons_def Let_def stress_policy_of_def usage_budget_def split: if_splits)
  from True obtain total where total: "rs_total_account_equity (po_snapshot position) = Some total"
    by (auto simp: stress_reasons_def Let_def split: if_splits)
  note facts = True u policy total
  let ?cs = "map (stress_contribution_of policy) (rs_action_units (po_snapshot position))"
  show ?thesis
  proof (cases "net_equity total ?cs \<le> 0")
    case nonpos: True
    then show ?thesis using assms facts
      by (intro insolvent)
        (auto simp: assess_stress_def Let_def stress_lineage_def stress_policy_of_def allowed_budget_def
          usage_budget_def stress_unavailable_def split: if_splits)
  next
    case False
    then show ?thesis using assms facts
      by (intro assessed [of u policy total ?cs])
        (auto simp: assess_stress_def Let_def stress_lineage_def stress_policy_of_def allowed_budget_def
          usage_budget_def stress_unavailable_def split: if_splits)
  qed
qed

lemma stress_reasons_Nil:
  assumes "stress_reasons command usage position lineage = []"
  shows "\<forall>item \<in> set lineage. st_cutoff_at item < rs_cutoff_at (po_snapshot position) \<and>
      set (st_account_ids item) \<subseteq> set (psc_account_ids (sc_position_snapshot command))"
    and "usage = Some u \<Longrightarrow>
      set (sn_selected_account_ids (pp_snapshot (pa_proposal (us_authorization_snapshot u)))) =
        set (psc_account_ids (sc_position_snapshot command))"
    and "\<forall>exposure \<in> set (rs_issuer_exposures (po_snapshot position)). ie_current_market_exposure exposure \<noteq> None"
  using assms
  by (auto simp: stress_reasons_def Let_def scope_not_covered_def list_ex_iff not_le split: if_splits)

text \<open>C6: New exposure is not blocked only on complete evidence: the authorization is usable for exactly
  the accounts of the snapshot and not expired, equity and every issuer exposure are known, every
  retained assessment is older and covered, no reduction is outstanding, and the gross loss is
  within the target ratio of a positive net equity.\<close>

theorem stress_fails_closed:
  assumes "assess_stress command authorization position history = Some outcome"
    and "\<not> st_new_exposure_blocked outcome"
  shows "\<exists>u total loss equity. out_usage authorization = Some u \<and> us_allowed u \<and>
    us_checked_at u < rb_expires_at (usage_budget u) \<and>
    set (sn_selected_account_ids (pp_snapshot (pa_proposal (us_authorization_snapshot u)))) =
      set (psc_account_ids (sc_position_snapshot command)) \<and>
    rs_total_account_equity (po_snapshot position) = Some total \<and>
    (\<forall>e \<in> set (rs_issuer_exposures (po_snapshot position)). ie_current_market_exposure e \<noteq> None) \<and>
    (\<forall>item \<in> set (stress_lineage history). st_cutoff_at item < rs_cutoff_at (po_snapshot position) \<and>
      set (st_account_ids item) \<subseteq> set (psc_account_ids (sc_position_snapshot command))) \<and>
    \<not> is_outstanding (st_obligation outcome) \<and>
    st_gross_stress_loss outcome = Some loss \<and> st_net_liquidation_equity outcome = Some equity \<and>
    0 < equity \<and> loss \<le> smul (tt_target_ratio (rb_stress (usage_budget u))) equity"
  using assms(1)
proof (cases rule: assess_stress_cases)
  case (assessed u policy total contributions equity loss)
  have "\<not> us_checked_at u \<ge> rb_expires_at (usage_budget u)" "st_state outcome = NORMAL"
    "\<not> is_outstanding (st_obligation outcome)"
    using assms(2) assessed(14) by auto
  moreover from this assessed(12) have "loss \<le> smul (tt_target_ratio (rb_stress (usage_budget u))) equity"
    by (auto simp: stress_state_of_def split: if_splits)
  ultimately show ?thesis
    using stress_reasons_Nil [OF assessed(1)] assessed(2,3,5,9-11)
    by (intro exI [of _ u] exI [of _ total] exI [of _ loss] exI [of _ equity]) (auto simp: not_le)
qed (use assms(2) in auto)

subsection \<open>A concrete assessment\<close>

definition demo_budget :: personal_risk_budget where
  "demo_budget =
     \<lparr>rb_version_id = ''B1'', rb_action_policy_version_id = ''AP1'', rb_generator_version = ''g'', rb_seed = 7,
      rb_effective_at = demo_time, rb_expires_at = add_calendar_months demo_time 6,
      rb_concentration = \<lparr>tt_target_ratio = 1 / 5, tt_hard_ratio = 2 / 5\<rparr>,
      rb_stress = \<lparr>tt_target_ratio = 1 / 5, tt_hard_ratio = 2 / 5\<rparr>,
      rb_cash = \<lparr>cb_target_ratio = 2 / 5, cb_hard_ratio = 1 / 5\<rparr>,
      rb_drawdown = \<lparr>db_caution_ratio = 1 / 10, db_defensive_ratio = 1 / 5, db_preservation_ratio = 2 / 5\<rparr>,
      rb_downside_grid = [1 / 10], rb_protection_floor = \<lparr>pf_retained_directions = [REDUCE_DIRECTION]\<rparr>,
      rb_stress_calculation = Some \<lparr>sp_version_id = ''SP1'', sp_shock_ratio = 1 / 10,
        sp_disposal_friction_ratio = 0, sp_registered_at = demo_time\<rparr>\<rparr>"

definition demo_proposal :: portfolio_proposal where
  "demo_proposal =
     \<lparr>pp_portfolio_id = ''PF'', pp_snapshot = \<lparr>sn_snapshot_id = ''SN1'', sn_cutoff_at = demo_time,
        sn_accounts = [\<lparr>ca_account_id = ''A'', ca_account_type = ''SIMULATED_CASH'', ca_currency = ''USD'',
          ca_permissions = [''TRADE''], ca_captured_at = demo_time, ca_cash_fact_id = ''c'',
          ca_positions_fact_id = ''p'', ca_receivables_fact_id = ''r'', ca_payables_fact_id = ''y'',
          ca_unfinished_trades_fact_id = ''u''\<rparr>],
        sn_selected_account_ids = [''A'']\<rparr>,
      pp_activation_snapshot = None, pp_risk_budget = demo_budget, pp_cash_obligations = []\<rparr>"

definition demo_confirmation :: portfolio_confirmation where
  "demo_confirmation =
     \<lparr>cf_confirmation_id = ''CF1'', cf_user_id = ''U'', cf_portfolio_id = ''PF'', cf_snapshot_id = ''SN1'',
      cf_risk_budget_version_id = ''B1'', cf_confirmed_at = demo_time, cf_relaxation_evidence = None,
      cf_downside_grid_requalification = None\<rparr>"

definition demo_authorization :: portfolio_authorization where
  "demo_authorization =
     \<lparr>pa_authorization_id = ''AU1'', pa_proposal = demo_proposal, pa_confirmation = demo_confirmation,
      pa_previous_authorization_id = None, pa_recorded_at = demo_time\<rparr>"

definition demo_usage :: portfolio_authorization_outcome where
  "demo_usage =
     \<lparr>out_disposition = APPROVED, out_reasons = [''NEW_EXPOSURE_AUTHORIZED''], out_preview = None,
      out_authorization = None,
      out_usage = Some \<lparr>us_requested_action = NEW_EXPOSURE, us_allowed = True,
        us_authorization_snapshot = demo_authorization,
        us_retained_protection_floor = rb_protection_floor demo_budget, us_unfinished_cash_obligations = [],
        us_reasons = [''NEW_EXPOSURE_AUTHORIZED''], us_checked_at = demo_time\<rparr>\<rparr>"

definition demo_stress_command :: portfolio_stress_command where
  "demo_stress_command =
     \<lparr>sc_portfolio_id = ''PF'', sc_authorization_id = ''AU1'', sc_position_snapshot = demo_command\<rparr>"

lemmas demo_portfolio_defs = demo_budget_def demo_proposal_def demo_confirmation_def
  demo_authorization_def demo_usage_def demo_stress_command_def

lemma demo_fields [simp]:
  "psc_accounts demo_command = [demo_account]" "psc_cutoff_at demo_command = demo_time"
  "psc_account_ids demo_command = [''A'']" "psc_valuation_currency demo_command = ''USD''"
  "ap_account_id demo_account = ''A''" "ap_positions demo_account = [demo_position]"
  "ap_account_equity demo_account = Some 150" "ap_ledger_entries demo_account = [demo_entry]"
  "bp_security_id demo_position = ''S''" "bp_issuer_id demo_position = ''I''"
  "bp_total_quantity demo_position = Some 5" "bp_market_price demo_position = Some 20"
  by (simp_all add: demo_command_def demo_account_def demo_position_def psc_account_ids_def)

lemma demo_conflict_free:
  "rc_conflicts (final_recorder demo_command (account_loop demo_command [] [])) = []"
  using demo_in_order by (simp add: no_conflicts_def flip: clean_final_recorder)

lemmas demo_quiet = recorder_inv_clean [OF final_recorder_inv demo_conflict_free]

lemma demo_no_missing_summary: "rl_missing_summary (account_loop demo_command [] []) = {}"
  by (rule missing_summary_loop)
    (use demo_in_order in \<open>simp add: account_loop_recorder snapshot_in_order_def\<close>)

lemma demo_equity: "rs_total_account_equity (po_snapshot (reconcile demo_command [] [])) = Some 150"
  by (simp add: reconcile_fields reconciled_snapshot_def Let_def demo_quiet account_loop_outputs
      sum_if_complete_def reconciliation_precision_def)

lemma demo_exposures:
  "\<forall>e \<in> set (rs_issuer_exposures (po_snapshot (reconcile demo_command [] []))).
     ie_current_market_exposure e \<noteq> None"
proof -
  have "\<not> rl_incomplete_manifest (account_loop demo_command [] [])"
    "conflicting_securities (account_loop demo_command [] []) = []"
    using demo_in_order
    by (auto simp: account_loop_manifest snapshot_in_order_def account_in_order_def
        ledger_facts_in_order_def account_facts_in_order_def account_manifest_incomplete_def
        conflicting_securities_Nil [OF issuers_collected_loop] account_loop_outputs one_issuer_per_security_def)
  then show ?thesis
    by (auto simp: reconcile_fields reconciled_snapshot_def project_exposures_def Let_def demo_conflict_free
        demo_no_missing_summary exposure_invalid_def scoped_reasons_def demo_quiet split_beta)
qed

lemma demo_units:
  "map au_total_quantity (rs_action_units (po_snapshot (reconcile demo_command [] []))) = [Some 5]"
  "map au_market_price (rs_action_units (po_snapshot (reconcile demo_command [] []))) = [Some 20]"
  by (simp_all add: action_units_of Let_def all_rows_def action_unit_def)

definition demo_outcome :: portfolio_stress_outcome where
  "demo_outcome =
     the (assess_stress demo_stress_command demo_usage (reconcile demo_command [] []) [])"

lemma demo_usage_facts:
  "\<exists>u. out_usage demo_usage = Some u \<and> us_checked_at u = demo_time"
  "stress_policy_of (out_usage demo_usage) = Some \<lparr>sp_version_id = ''SP1'', sp_shock_ratio = 1 / 10,
     sp_disposal_friction_ratio = 0, sp_registered_at = demo_time\<rparr>"
  "allowed_budget (out_usage demo_usage) = Some demo_budget"
  "rb_stress demo_budget = \<lparr>tt_target_ratio = 1 / 5, tt_hard_ratio = 2 / 5\<rparr>"
  "rb_expires_at demo_budget = add_calendar_months demo_time 6"
  by (simp_all add: demo_usage_def demo_authorization_def demo_proposal_def stress_policy_of_def
      allowed_budget_def usage_budget_def) (simp_all add: demo_budget_def)

lemma demo_assessment:
  "assess_stress demo_stress_command demo_usage (reconcile demo_command [] []) [] = Some demo_outcome"
  "\<not> st_new_exposure_blocked demo_outcome"
proof -
  let ?units = "rs_action_units (po_snapshot (reconcile demo_command [] []))"
  obtain unit where units: "?units = [unit]" "au_total_quantity unit = Some 5" "au_market_price unit = Some 20"
    using demo_units by (cases ?units) auto
  have reasons: "stress_reasons demo_stress_command (out_usage demo_usage) (reconcile demo_command [] []) [] = []"
    using demo_exposures
    by (simp add: stress_reasons_def Let_def demo_portfolio_defs demo_equity stress_policy_of_def
        scope_not_covered_def list_ex_iff)
  have carried: "tightened_obligation demo_stress_command (out_usage demo_usage)
      (reconcile demo_command [] []) [] = None"
    by (simp add: tightened_obligation_def scope_not_covered_def carried_obligation_def Let_def)
  have "demo_time < add_calendar_months demo_time 6" by (rule add_six_months_later)
  then have "\<exists>outcome. assess_stress demo_stress_command demo_usage (reconcile demo_command [] []) [] =
      Some outcome \<and> \<not> st_new_exposure_blocked outcome"
    using reasons carried units demo_usage_facts
    by (cases "out_usage demo_usage")
      (auto simp: assess_stress_def Let_def demo_equity unit_priced_def net_equity_def gross_loss_def
        stress_contribution_of_def dsub_def dmul_def dadd_def stress_state_of_def triggered_obligation_def
        settled_obligation_def is_outstanding_def stress_precision_def)
  then show "assess_stress demo_stress_command demo_usage (reconcile demo_command [] []) [] = Some demo_outcome"
    "\<not> st_new_exposure_blocked demo_outcome"
    by (auto simp: demo_outcome_def)
qed

theorem stress_fails_closed_witness:
  "\<exists>u total loss equity. out_usage demo_usage = Some u \<and> us_allowed u \<and>
    us_checked_at u < rb_expires_at (usage_budget u) \<and>
    set (sn_selected_account_ids (pp_snapshot (pa_proposal (us_authorization_snapshot u)))) =
      set (psc_account_ids (sc_position_snapshot demo_stress_command)) \<and>
    rs_total_account_equity (po_snapshot (reconcile demo_command [] [])) = Some total \<and>
    (\<forall>e \<in> set (rs_issuer_exposures (po_snapshot (reconcile demo_command [] []))).
      ie_current_market_exposure e \<noteq> None) \<and>
    (\<forall>item \<in> set (stress_lineage []). st_cutoff_at item < rs_cutoff_at (po_snapshot (reconcile demo_command [] [])) \<and>
      set (st_account_ids item) \<subseteq> set (psc_account_ids (sc_position_snapshot demo_stress_command))) \<and>
    \<not> is_outstanding (st_obligation demo_outcome) \<and>
    st_gross_stress_loss demo_outcome = Some loss \<and> st_net_liquidation_equity demo_outcome = Some equity \<and>
    0 < equity \<and> loss \<le> smul (tt_target_ratio (rb_stress (usage_budget u))) equity"
  by (rule stress_fails_closed [OF demo_assessment])

subsection \<open>Obligations\<close>

lemma tightened_keeps:
  assumes "\<not> scope_not_covered command lineage"
    and "filter (\<lambda>item. st_cutoff_at item < rs_cutoff_at (po_snapshot position)) lineage \<noteq> []"
    and "st_obligation (last (filter (\<lambda>item. st_cutoff_at item < rs_cutoff_at (po_snapshot position)) lineage)) =
      Some ob"
    and "so_status ob = OUTSTANDING"
  shows "\<exists>ratio \<le> so_target_stress_ratio ob. tightened_obligation command usage position lineage =
    Some (ob\<lparr>so_target_stress_ratio := ratio\<rparr>)"
proof -
  have "carried_obligation position lineage = Some ob"
    using assms(2-4) by (simp add: carried_obligation_def Let_def)
  then show ?thesis
    using assms(1,4)
    by (auto simp: tightened_obligation_def Let_def split: option.splits
        intro: exI [of _ "so_target_stress_ratio ob"]) (metis min.cobounded1)
qed

text \<open>C7: An outstanding obligation to reduce is never lost.  The next assessment that covers the retained
  accounts carries the same obligation with a target that is no weaker, and it is marked satisfied
  only on a reconciled snapshot that shows sales after the trigger and a loss within that target.\<close>

theorem outstanding_obligation_persists:
  assumes "assess_stress command authorization position history = Some outcome"
    and "\<not> scope_not_covered command (stress_lineage history)"
    and "prior = filter (\<lambda>item. st_cutoff_at item < rs_cutoff_at (po_snapshot position)) (stress_lineage history)"
    and "prior \<noteq> []" and "st_obligation (last prior) = Some ob" and "so_status ob = OUTSTANDING"
  shows "\<exists>ob'. st_obligation outcome = Some ob' \<and> so_obligation_id ob' = so_obligation_id ob \<and>
    so_triggered_at ob' = so_triggered_at ob \<and> so_target_stress_ratio ob' \<le> so_target_stress_ratio ob \<and>
    (if so_status ob' = OUTSTANDING then st_new_exposure_blocked outcome
     else po_disposition position = RECONCILED \<and>
       so_restoration_fills ob' = effective_sales (rs_authoritative_ledger (po_snapshot position))
         (so_triggered_at ob) (rs_cutoff_at (po_snapshot position)) \<and> so_restoration_fills ob' \<noteq> [] \<and>
       (\<exists>loss equity. st_gross_stress_loss outcome = Some loss \<and> st_net_liquidation_equity outcome = Some equity \<and>
         loss \<le> smul (so_target_stress_ratio ob') equity))"
proof -
  from tightened_keeps [OF assms(2) assms(4,5) [unfolded assms(3)] assms(6)]
  obtain ratio where ratio: "ratio \<le> so_target_stress_ratio ob"
    "tightened_obligation command (out_usage authorization) position (stress_lineage history) =
      Some (ob\<lparr>so_target_stress_ratio := ratio\<rparr>)" by blast
  from assms(1) show ?thesis
  proof (cases rule: assess_stress_cases)
    case (assessed u policy total contributions equity loss)
    have obl: "st_obligation outcome = settled_obligation position loss equity
        (Some (ob\<lparr>so_target_stress_ratio := ratio\<rparr>))"
      using assessed(13) ratio(2) assms(6) by (simp add: triggered_obligation_def)
    show ?thesis
      using ratio(1) assms(6) assessed(10,11,14)
      by (auto simp: obl settled_obligation_def Let_def is_outstanding_def)
  qed (use ratio assms(6) in auto)
qed

subsection \<open>No assertion fails\<close>

text \<open>A position without total quantity or without price blocks the whole portfolio, so that a snapshot
  with a total equity has both for every unit.\<close>

lemma unpriced_position_blocks:
  assumes "bp_total_quantity p = None \<or> bp_market_price p = None"
  shows "rc_portfolio_blocking (record_position_problems a p c totals sells st) \<noteq> []"
proof -
  let ?blocked = "\<lambda>st. rc_portfolio_blocking st \<noteq> []"
  have keep: "?blocked t" if "?blocked s" "recorded s t" for s t
    using recorded_grows(4) [OF that(2)] that(1) by auto
  have step: "?blocked (f s)" if "?blocked s" "recording f" for f s
    using keep that by (auto simp: recording_def)
  show ?thesis
  proof (cases "bp_total_quantity p")
    case None
    have "?blocked (record_quantity a (bp_security_id p) (bp_total_quantity p) ''total_quantity''
        ''TOTAL_QUANTITY'' True True s)" for s
      by (simp add: None record_quantity_def Let_def record_conflict_fields report_of_def)
    then have "?blocked (record_position_quantities a p c st)"
      unfolding record_position_quantities_def Let_def run_steps_simps
      by (intro step [OF _ recording_check] step [OF _ recording_for_each])
        (auto simp: recording_def intro!: recorded_after [OF recording_check] recordingD [OF recording_quantity])
    then show ?thesis
      unfolding record_position_problems_def by (rule step) (rule recording_position_values)
  next
    case (Some q)
    then have "bp_market_price p = None" using assms by simp
    moreover have "?blocked (check True (report_of (Some a) (Some (bp_security_id p)) code names True True True) s)"
      for s code names
      by (simp add: check_if_def record_conflict_fields report_of_def)
    ultimately show ?thesis
      unfolding record_position_problems_def record_position_values_def Let_def run_steps_simps split_beta
      by (intro step [OF step [OF step [OF step [OF _ recording_check] recording_check] recording_check]
            recording_check]) simp
  qed
qed

lemma account_step_blocks:
  assumes "p \<in> set (ap_positions account)" and "bp_total_quantity p = None \<or> bp_market_price p = None"
  shows "rc_portfolio_blocking (rl_recorder (account_step c pe pc account rl)) \<noteq> []"
proof -
  let ?blocked = "\<lambda>st. rc_portfolio_blocking st \<noteq> []"
  have keep: "?blocked t" if "?blocked s" "recorded s t" for s t
    using recorded_grows(4) [OF that(2)] that(1) by auto
  obtain totals delta unres rl1 where led:
    "account_ledger_step c pe pc account rl = (totals, delta, unres, rl1)" by (metis surj_pair)
  obtain sells buys ids st where ord:
    "reconcile_orders account c (rl_recorder rl1) = (sells, buys, ids, st)" by (metis surj_pair)
  have "?blocked (rl_recorder (for_each (ap_positions account) (position_step c totals sells account) rl'))" for rl'
  proof (rule for_each_sticks [OF assms(1), where Q = "\<lambda>rl. ?blocked (rl_recorder rl)"])
    show "?blocked (rl_recorder (position_step c totals sells account p s))" for s
      using unpriced_position_blocks [OF assms(2)] by (simp add: position_step_def Let_def)
    show "?blocked (rl_recorder (position_step c totals sells account y s))" if "?blocked (rl_recorder s)" for y s
      using keep [OF that recordingD [OF recording_position_problems]] by (simp add: position_step_def Let_def)
  qed
  moreover have "?blocked (record_cash_and_equity account delta (for_each xs (\<lambda>x. record_conflict (r x)) s))"
    if "?blocked s" for s and xs :: "str list" and r
    using that
    by (rule keep) (intro recorded_after [OF recording_cash_and_equity] recordingD recording_for_each
        recording_record)
  ultimately show ?thesis by (simp add: account_step_def Let_def led ord)
qed

lemma priced_units:
  assumes "rs_total_account_equity (po_snapshot (reconcile command pl pc)) \<noteq> None"
    and "u \<in> set (rs_action_units (po_snapshot (reconcile command pl pc)))"
  shows "unit_priced u"
proof (rule ccontr)
  assume unpriced: "\<not> unit_priced u"
  let ?blocked = "\<lambda>st. rc_portfolio_blocking st \<noteq> []"
  from assms(2) obtain account p reasons where u: "account \<in> set (psc_accounts command)"
    "p \<in> set (ap_positions account)" "u = action_unit account p reasons"
    by (rule action_unitE)
  then have none: "bp_total_quantity p = None \<or> bp_market_price p = None"
    using unpriced by (auto simp: unit_priced_def action_unit_def)
  have "?blocked (rl_recorder (account_loop command pl pc))"
    unfolding account_loop_def
  proof (rule for_each_sticks [OF u(1), where Q = "\<lambda>rl. ?blocked (rl_recorder rl)"])
    fix y and s :: reconcile_state
    assume "?blocked (rl_recorder s)"
    then show "?blocked (rl_recorder (account_step (psc_cutoff_at command) (prior_entries_of pl)
        (prior_cash_of pc) y s))"
      using recorded_grows(4) [OF account_step_recorder(1)] by (metis set_empty subset_empty)
  qed (rule account_step_blocks [OF u(2) none])
  then have "?blocked (final_recorder command (account_loop command pl pc))"
    using recorded_grows(4) [OF final_recorder_after_loop] by (metis set_empty subset_empty)
  then show False
    using assms(1) by (simp add: reconcile_fields reconciled_snapshot_def Let_def)
qed

lemma assess_stress_defined:
  "\<exists>outcome. assess_stress command authorization (reconcile positions pl pc) history = Some outcome"
proof (cases "stress_reasons command (out_usage authorization) (reconcile positions pl pc) (stress_lineage history) = []")
  case True
  then obtain u where u: "out_usage authorization = Some u" "us_allowed u"
    by (auto simp: stress_reasons_def Let_def split: option.splits if_splits)
  moreover from True u obtain policy where "stress_policy_of (out_usage authorization) = Some policy"
    by (auto simp: stress_reasons_def Let_def split: if_splits)
  moreover from True obtain total where
    total: "rs_total_account_equity (po_snapshot (reconcile positions pl pc)) = Some total"
    by (auto simp: stress_reasons_def Let_def split: if_splits)
  moreover have "list_all unit_priced (rs_action_units (po_snapshot (reconcile positions pl pc)))"
    unfolding list_all_iff by (intro ballI priced_units) (simp_all add: total)
  ultimately show ?thesis
    using True by (simp add: assess_stress_def Let_def stress_lineage_def allowed_budget_def)
qed (simp add: assess_stress_def Let_def stress_lineage_def)

text \<open>On every outcome of the position reconciliation the stress assessment returns a result: none of
  the assertions in \<open>assess_stress\<close> can fail, because a snapshot that states a total equity has a
  quantity and a price for every action unit.\<close>

lemma assess_stress_total:
  "assess_stress command authorization (reconcile positions prior_ledger prior_cash) history \<noteq> None"
  using assess_stress_defined [of command authorization positions prior_ledger prior_cash history] by auto

definition demo_obligation :: stress_obligation where
  "demo_obligation =
     \<lparr>so_obligation_id = ''OB1'', so_target_stress_ratio = 1 / 20, so_status = OUTSTANDING,
      so_triggered_at = plus_days demo_time (- 1), so_restoration_fills = [], so_restoration_corrections = []\<rparr>"

definition demo_prior :: portfolio_stress_outcome where
  "demo_prior = demo_outcome\<lparr>st_reasons := [], st_cutoff_at := plus_days demo_time (- 1),
     st_account_ids := [''A''], st_obligation := Some demo_obligation\<rparr>"

theorem outstanding_obligation_persists_witness:
  "let outcome = the (assess_stress demo_stress_command demo_usage (reconcile demo_command [] []) [demo_prior])
   in \<exists>ob'. st_obligation outcome = Some ob' \<and> so_obligation_id ob' = ''OB1'' \<and>
     so_triggered_at ob' = so_triggered_at demo_obligation \<and>
     so_target_stress_ratio ob' \<le> so_target_stress_ratio demo_obligation"
proof -
  let ?position = "reconcile demo_command [] []"
  obtain outcome where out: "assess_stress demo_stress_command demo_usage ?position [demo_prior] = Some outcome"
    using assess_stress_defined by blast
  have lineage: "stress_lineage [demo_prior] = [demo_prior]"
    by (simp add: stress_lineage_def lineage_denied_def demo_prior_def)
  have covered: "\<not> scope_not_covered demo_stress_command (stress_lineage [demo_prior])"
    unfolding lineage by (simp add: scope_not_covered_def demo_prior_def demo_stress_command_def)
  have cutoff: "rs_cutoff_at (po_snapshot ?position) = demo_time"
    by (simp add: reconcile_fields reconciled_snapshot_def Let_def)
  have prior: "[demo_prior] = filter (\<lambda>item. st_cutoff_at item < rs_cutoff_at (po_snapshot ?position))
      (stress_lineage [demo_prior])"
    unfolding lineage cutoff by (simp add: demo_prior_def plus_days_def us_per_day_def)
  have ob: "st_obligation (last [demo_prior]) = Some demo_obligation" "so_status demo_obligation = OUTSTANDING"
    "so_obligation_id demo_obligation = ''OB1''"
    by (simp_all add: demo_prior_def) (simp_all add: demo_obligation_def)
  from outstanding_obligation_persists [OF out covered prior _ ob(1,2)] show ?thesis
    by (auto simp: out ob(3))
qed

subsection \<open>Effective sales\<close>

lemma correction_root_origin:
  assumes "correction_root indexed e visited = Some r"
  shows "le_corrects_entry_id r = None \<and> (r = e \<or> r \<in> snd ` set indexed)"
  using assms
proof (induction indexed e visited rule: correction_root.induct)
  case (1 indexed e visited)
  show ?case
  proof (cases "le_corrects_entry_id e")
    case None
    then show ?thesis using 1(2) by (simp add: correction_root.simps [of _ e])
  next
    case (Some t)
    then obtain target where target: "le_entry_id e \<notin> visited"
      "map_of indexed (le_account_id e, t) = Some target"
      "correction_root indexed target (insert (le_entry_id e) visited) = Some r"
      using 1(2) by (auto simp: correction_root.simps [of _ e] split: if_splits option.splits)
    from 1(1) [OF Some target] map_of_values [OF target(2)] show ?thesis by auto
  qed
qed

definition root_key :: "ledger_index \<Rightarrow> authoritative_ledger_entry \<Rightarrow> (str \<times> str) option" where
  "root_key indexed e = map_option entry_key (correction_root indexed e {})"

definition lineage_of ::
    "ledger_index \<Rightarrow> authoritative_ledger_entry list \<Rightarrow> str \<times> str \<Rightarrow> authoritative_ledger_entry list" where
  "lineage_of indexed entries key = filter (\<lambda>e. root_key indexed e = Some key) entries"

lemma dsum_append: "dsum p (xs @ [x]) = dadd p (dsum p xs) x"
  by (simp add: dsum_def)

lemma sales_step_None [simp]: "sales_step indexed cutoff None e = None"
  by (simp add: sales_step_def)

lemma sales_fold:
  assumes "foldl (sales_step indexed cutoff) (Some []) entries = Some d"
  shows "(\<forall>e \<in> set entries. ledger_entry_evidence_is_visible e cutoff \<and> root_key indexed e \<noteq> None) \<and>
    distinct (map fst d) \<and> fst ` set d = {k. \<exists>e \<in> set entries. root_key indexed e = Some k} \<and>
    (\<forall>k. dict_get d k (0, 0) =
       (ssum (map le_quantity_delta (lineage_of indexed entries k)),
        ssum (map le_cash_delta (lineage_of indexed entries k))))"
  using assms
proof (induction entries arbitrary: d rule: rev_induct)
  case Nil
  then show ?case by (auto simp: dict_get_def lineage_of_def dsum_def)
next
  case (snoc e entries)
  from snoc.prems obtain d0 where d0: "foldl (sales_step indexed cutoff) (Some []) entries = Some d0"
    and step: "sales_step indexed cutoff (Some d0) e = Some d"
    by (cases "foldl (sales_step indexed cutoff) (Some []) entries") auto
  from step obtain r where r: "ledger_entry_evidence_is_visible e cutoff"
    "correction_root indexed e {} = Some r"
    by (auto simp: sales_step_def split: if_splits option.splits)
  then have key: "root_key indexed e = Some (entry_key r)" by (simp add: root_key_def)
  have d: "d = AList.update (entry_key r)
      (sadd (fst (dict_get d0 (entry_key r) (0, 0))) (le_quantity_delta e),
       sadd (snd (dict_get d0 (entry_key r) (0, 0))) (le_cash_delta e)) d0"
    using step r by (auto simp: sales_step_def split_beta Let_def)
  note IH = snoc.IH [OF d0]
  have lin: "lineage_of indexed (entries @ [e]) k =
      (if k = entry_key r then lineage_of indexed entries k @ [e] else lineage_of indexed entries k)" for k
    by (auto simp: lineage_of_def key)
  have "dict_get d k (0, 0) = (if k = entry_key r
      then (sadd (fst (dict_get d0 k (0, 0))) (le_quantity_delta e), sadd (snd (dict_get d0 k (0, 0))) (le_cash_delta e))
      else dict_get d0 k (0, 0))" for k
    by (simp add: d dict_get_def update_conv')
  then have "\<forall>k. dict_get d k (0, 0) =
       (ssum (map le_quantity_delta (lineage_of indexed (entries @ [e]) k)),
        ssum (map le_cash_delta (lineage_of indexed (entries @ [e]) k)))"
    using IH by (simp add: lin dsum_append del: split_paired_All)
  moreover have "distinct (map fst d)" unfolding d using IH by (simp add: distinct_update)
  moreover have "fst ` set d = {k. \<exists>x \<in> set (entries @ [e]). root_key indexed x = Some k}"
    unfolding d using IH key by (auto simp: dom_update)
  ultimately show ?case using IH r key by auto
qed

text \<open>A sale counts towards restoration only net of its corrections.  Every reported fill is a fill
  that occurred after the trigger and corrects nothing; its quantity and cash are the sums over all
  entries whose chain of corrections ends in it, and the net quantity is a reduction.  A single entry
  that is not visible at the cutoff voids the whole report.\<close>

lemma effective_sales_net_of_corrections:
  assumes "distinct (map entry_key entries)"
    and "fill \<in> set (effective_sales entries after cutoff)"
  shows "\<exists>sale \<in> set entries. fill_key fill = entry_key sale \<and> le_corrects_entry_id sale = None \<and>
    le_entry_type sale = FILL \<and> after < le_occurred_at sale \<and> rf_net_quantity fill < 0 \<and>
    rf_net_quantity fill =
      ssum (map le_quantity_delta (lineage_of (dict_of entry_key (\<lambda>e. e) entries) entries (entry_key sale))) \<and>
    rf_net_cash_delta fill =
      ssum (map le_cash_delta (lineage_of (dict_of entry_key (\<lambda>e. e) entries) entries (entry_key sale))) \<and>
    (\<forall>e \<in> set entries. ledger_entry_evidence_is_visible e cutoff)"
proof -
  let ?ix = "dict_of entry_key (\<lambda>e. e) entries"
  from assms(2) obtain d k q c sale where d: "foldl (sales_step ?ix cutoff) (Some []) entries = Some d"
    and row: "(k, q, c) \<in> set d" "q < 0" "fill = restoration_fill (k, q, c)"
    and sale: "map_of ?ix k = Some sale" "le_entry_type sale = FILL" "after < le_occurred_at sale"
  proof -
    obtain d where d: "foldl (sales_step ?ix cutoff) (Some []) entries = Some d"
      and "fill \<in> set (map restoration_fill (filter (\<lambda>(key, quantity, cash). quantity < 0 \<and>
        (case map_of ?ix key of None \<Rightarrow> False
         | Some origin \<Rightarrow> le_entry_type origin = FILL \<and> le_occurred_at origin > after)) d))"
      using assms(2)
      by (cases "foldl (sales_step ?ix cutoff) (Some []) entries") (auto simp: effective_sales_def Let_def)
    then show ?thesis using that [OF d] by (auto split: option.splits)
  qed
  note fold = sales_fold [OF d]
  have mem: "sale \<in> set entries" "entry_key sale = k" using dict_of_lookupD [OF sale(1)] by auto
  have get: "dict_get d k (0, 0) = (q, c)"
    using row(1) fold by (simp add: dict_get_def map_of_eq_Some_iff)
  have "k \<in> fst ` set d" using row(1) by force
  then obtain e r where er: "e \<in> set entries" "correction_root ?ix e {} = Some r" "entry_key r = k"
    using fold by (auto simp: root_key_def)
  have "snd ` set ?ix \<subseteq> set entries"
  proof
    fix x assume "x \<in> snd ` set ?ix"
    then obtain key where "(key, x) \<in> set ?ix" by auto
    then have "map_of ?ix key = Some x" using dict_of_distinct by (metis map_of_eq_Some_iff)
    then show "x \<in> set entries" using dict_of_lookupD by fastforce
  qed
  with correction_root_origin [OF er(2)] er(1) have "r \<in> set entries" "le_corrects_entry_id r = None" by auto
  with assms(1) er(3) mem have "le_corrects_entry_id sale = None"
    by (metis distinct_map inj_on_def)
  then show ?thesis
    using mem sale row get fold
    by (intro bexI [of _ sale]) (auto simp: restoration_fill_def fill_key_def)
qed

definition demo_sale :: authoritative_ledger_entry where
  "demo_sale = authoritative_entry ''A'' (demo_entry\<lparr>le_quantity_delta := - 5, le_cash_delta := 50\<rparr>)"

lemma demo_sale_fields:
  "le_corrects_entry_id demo_sale = None" "le_entry_type demo_sale = FILL"
  "entry_key demo_sale = (''A'', ''L1'')" "le_quantity_delta demo_sale = - 5" "le_cash_delta demo_sale = 50"
  "le_occurred_at demo_sale = demo_time" "ledger_entry_evidence_is_visible demo_sale demo_time"
  using demo_entry_visible
  by (simp_all add: demo_sale_def entry_key_def ledger_entry_evidence_is_visible_def split: option.splits)
    (simp_all add: demo_entry_def)

lemma demo_sale_effective:
  "restoration_fill ((''A'', ''L1''), - 5, 50) \<in>
     set (effective_sales [demo_sale] (plus_days demo_time (- 1)) demo_time)"
  by (simp add: effective_sales_def Let_def sales_step_def demo_sale_fields correction_root.simps dict_of_def
      dict_get_def dadd_def stress_precision_def plus_days_def us_per_day_def)

theorem effective_sales_net_of_corrections_witness:
  "let fill = restoration_fill ((''A'', ''L1''), - 5, 50);
       index = dict_of entry_key (\<lambda>e. e) [demo_sale]
   in \<exists>sale \<in> {demo_sale}. fill_key fill = entry_key sale \<and> le_corrects_entry_id sale = None \<and>
        rf_net_quantity fill = ssum (map le_quantity_delta (lineage_of index [demo_sale] (entry_key sale))) \<and>
        rf_net_cash_delta fill = ssum (map le_cash_delta (lineage_of index [demo_sale] (entry_key sale)))"
  using effective_sales_net_of_corrections [OF _ demo_sale_effective] by (simp add: Let_def)

end
