(* ===== verification/Authorization_Properties.thy ===== *)
theory Authorization_Properties
  imports Authorization_Ledger Stress_Properties
begin

text \<open>
  Properties of the portfolio authorization: the lineage of a portfolio is a chain in every reachable
  ledger, and what an approval, a relaxation and a retained protection rest on.
\<close>

subsection \<open>Chains\<close>

fun linked :: "str option \<Rightarrow> portfolio_authorization list \<Rightarrow> bool" where
  "linked previous [] = True"
| "linked previous (a # as) \<longleftrightarrow>
     pa_previous_authorization_id a = previous \<and> linked (Some (pa_authorization_id a)) as"

definition authorization_chain :: "portfolio_authorization list \<Rightarrow> bool" where
  "authorization_chain as \<longleftrightarrow> linked None as \<and> distinct (map pa_authorization_id as) \<and>
     sorted_wrt (\<lambda>a b. effective_at a < effective_at b) as"

lemma linked_append:
  "linked previous (as @ bs) \<longleftrightarrow> linked previous as \<and>
     linked (if as = [] then previous else Some (pa_authorization_id (last as))) bs"
  by (induction previous as rule: linked.induct) auto

lemma linked_previous:
  assumes "linked previous as" and "as \<noteq> []"
  shows "map pa_previous_authorization_id as = previous # map (\<lambda>a. Some (pa_authorization_id a)) (butlast as)"
  using assms by (induction previous as rule: linked.induct) auto

lemma chain_superseded:
  assumes "authorization_chain as" and "as \<noteq> []"
  shows "set (List.map_filter pa_previous_authorization_id as) = pa_authorization_id ` set (butlast as)"
proof -
  have "set (map pa_previous_authorization_id as) = insert None (Some ` pa_authorization_id ` set (butlast as))"
    using assms linked_previous [of None as] by (simp add: authorization_chain_def image_image)
  moreover have "x \<in> set (List.map_filter pa_previous_authorization_id as) \<longleftrightarrow>
      Some x \<in> set (map pa_previous_authorization_id as)" for x
    by (force simp: set_map_filter)
  ultimately show ?thesis by auto
qed

lemma chain_butlast:
  assumes "authorization_chain as" and "as \<noteq> []"
  shows "pa_authorization_id (last as) \<notin> pa_authorization_id ` set (butlast as)"
  using assms by (cases as rule: rev_cases) (auto simp: authorization_chain_def)

lemma chain_leaf:
  assumes "authorization_chain as" and "as \<noteq> []"
  shows "lineage_leaf as = (Some (last as), None)"
proof -
  obtain bs b where as: "as = bs @ [b]" using assms(2) by (cases as rule: rev_cases) auto
  have "filter (\<lambda>a. pa_authorization_id a \<notin> set (List.map_filter pa_previous_authorization_id as)) as = [b]"
    using chain_superseded [OF assms] chain_butlast [OF assms] by (auto simp: as filter_empty_conv)
  then show ?thesis using assms(2) by (simp add: lineage_leaf_def as)
qed

lemma chain_prefix: "authorization_chain (as @ bs) \<Longrightarrow> authorization_chain as"
  by (auto simp: authorization_chain_def linked_append sorted_wrt_append)

lemma sorted_filter_prefix:
  assumes "sorted_wrt (\<lambda>a b. effective_at a < effective_at b) as"
  shows "filter (\<lambda>a. effective_at a \<le> t) as = takeWhile (\<lambda>a. effective_at a \<le> t) as"
  using assms
proof (induction as)
  case (Cons a as)
  show ?case
  proof (cases "effective_at a \<le> t")
    case False
    have "\<not> effective_at b \<le> t" if "b \<in> set as" for b
      using Cons.prems False that by fastforce
    then show ?thesis using False by (simp add: filter_empty_conv del: less_eq_datetime_def)
  qed (use Cons in simp)
qed simp

lemma chain_effective:
  assumes "authorization_chain as"
  shows "authorization_chain (filter (\<lambda>a. effective_at a \<le> t) as)"
proof -
  have "filter (\<lambda>a. effective_at a \<le> t) as = takeWhile (\<lambda>a. effective_at a \<le> t) as"
    using assms by (simp add: authorization_chain_def sorted_filter_prefix del: less_eq_datetime_def)
  then show ?thesis
    using assms chain_prefix [of "takeWhile (\<lambda>a. effective_at a \<le> t) as" "dropWhile (\<lambda>a. effective_at a \<le> t) as"]
    by (simp del: less_eq_datetime_def)
qed

lemma chain_last_latest:
  assumes "authorization_chain as" and "a \<in> set as"
  shows "effective_at a \<le> effective_at (last as)"
  using assms by (cases as rule: rev_cases) (fastforce simp: authorization_chain_def sorted_wrt_append)+

lemma chain_id_unique:
  assumes "authorization_chain as" "a \<in> set as" "b \<in> set as" "pa_authorization_id a = pa_authorization_id b"
  shows "a = b"
  using assms by (auto simp: authorization_chain_def distinct_map inj_on_def)

subsection \<open>The invariant of the ledger\<close>

definition owner_invariant :: "portfolio_authorization list \<Rightarrow> bool" where
  "owner_invariant as \<longleftrightarrow>
     (\<forall>pid. authorization_chain (filter (in_portfolio pid) as) \<and>
        distinct (map co_obligation_id (concat (map (\<lambda>a. pp_cash_obligations (pa_proposal a))
          (filter (in_portfolio pid) as)))) \<and>
        distinct (map (\<lambda>a. rb_version_id (pp_risk_budget (pa_proposal a))) (filter (in_portfolio pid) as)) \<and>
        distinct (map (\<lambda>a. cf_confirmation_id (pa_confirmation a)) (filter (in_portfolio pid) as))) \<and>
     (\<forall>a \<in> set as. \<forall>b \<in> set as. pp_portfolio_id (pa_proposal a) \<noteq> pp_portfolio_id (pa_proposal b) \<longrightarrow>
        set (sn_account_ids (pp_snapshot (pa_proposal a))) \<inter>
        set (sn_account_ids (pp_snapshot (pa_proposal b))) = {}) \<and>
     (\<forall>a \<in> set as. valid_risk_budget (pp_risk_budget (pa_proposal a)))"

lemma owner_invariant_Nil: "owner_invariant []"
  by (simp add: owner_invariant_def authorization_chain_def)

lemma chain_append:
  assumes "authorization_chain as" and "pa_authorization_id a \<notin> pa_authorization_id ` set as"
    and "pa_previous_authorization_id a = (if as = [] then None else Some (pa_authorization_id (last as)))"
    and "as \<noteq> [] \<Longrightarrow> effective_at (last as) < effective_at a"
  shows "authorization_chain (as @ [a])"
proof -
  have "effective_at x < effective_at a" if "x \<in> set as" for x
  proof -
    have "effective_at (last as) < effective_at a" using assms(4) that by fastforce
    then show ?thesis using chain_last_latest [OF assms(1) that] by simp
  qed
  then show ?thesis
    using assms(1-3) by (auto simp: authorization_chain_def linked_append sorted_wrt_append)
qed

text \<open>An authorization that was confirmed against the recorded lineage keeps the invariant.\<close>

lemma owner_invariant_append:
  assumes inv: "owner_invariant as"
    and lineage: "portfolio_authorizations lineage (pp_portfolio_id (pcc_proposal c)) =
      filter (in_portfolio (pp_portfolio_id (pcc_proposal c))) as"
    and owner: "authorizations owner = as"
    and denial: "confirmation_denial c cutoff lineage owner stress = None"
    and valid: "valid_portfolio_command (PORTFOLIO_CONFIRM c)"
    and fresh: "event_id \<notin> pa_authorization_id ` set as"
  shows "owner_invariant (as @ [confirmed_authorization c event_id now])"
proof -
  let ?a = "confirmed_authorization c event_id now" and ?pid = "pp_portfolio_id (pcc_proposal c)"
  let ?as = "filter (in_portfolio ?pid) as"
  have chain: "authorization_chain ?as" using inv by (simp add: owner_invariant_def)
  have current: "current_authorization lineage ?pid = (if ?as = [] then None else Some (last ?as), None)"
    using chain_leaf [OF chain] by (simp add: current_authorization_def lineage lineage_leaf_def)
  note checked = confirmation_denial_None [OF denial current]
  have new_chain: "authorization_chain (?as @ [?a])"
    by (rule chain_append [OF chain])
      (use fresh checked(3,4,6) in \<open>auto simp: confirmed_authorization_def effective_at_def\<close>)
  have version: "rb_version_id (pp_risk_budget (pcc_proposal c)) \<notin>
      (\<lambda>a. rb_version_id (pp_risk_budget (pa_proposal a))) ` set ?as"
    and confirmation: "cf_confirmation_id (pcc_confirmation c) \<notin>
      (\<lambda>a. cf_confirmation_id (pa_confirmation a)) ` set ?as"
    using checked(9) unfolding reused_authorization_identity_reason_def Let_def first_reason_None lineage
    by (auto simp: list_ex_iff)
  have obligations: "set (map co_obligation_id (concat (map (\<lambda>a. pp_cash_obligations (pa_proposal a)) ?as))) \<inter>
      co_obligation_id ` set (pp_cash_obligations (pcc_proposal c)) = {}"
    using checked(10) unfolding reused_cash_obligation_identity_reason_def Let_def lineage
    by (auto simp: map_concat comp_def)
  have own: "distinct (map co_obligation_id (pp_cash_obligations (pcc_proposal c)))"
    using valid by (auto simp: valid_portfolio_command_def validate_proposal_binding_def split: if_splits option.splits)
  have disjoint: "set (sn_account_ids (pp_snapshot (pcc_proposal c))) \<inter>
      set (sn_account_ids (pp_snapshot (pa_proposal b))) = {}"
    if "b \<in> set as" "pp_portfolio_id (pa_proposal b) \<noteq> ?pid" for b
    using checked(1) that unfolding overlapping_portfolio_scope_reason_def owner by (auto simp: list_ex_iff)
  have new: "pa_proposal ?a = pcc_proposal c" "pa_confirmation ?a = pcc_confirmation c"
    by (simp_all add: confirmed_authorization_def)
  have per_portfolio: "authorization_chain (filter (in_portfolio pid) (as @ [?a])) \<and>
      distinct (map co_obligation_id (concat (map (\<lambda>a. pp_cash_obligations (pa_proposal a))
        (filter (in_portfolio pid) (as @ [?a]))))) \<and>
      distinct (map (\<lambda>a. rb_version_id (pp_risk_budget (pa_proposal a))) (filter (in_portfolio pid) (as @ [?a]))) \<and>
      distinct (map (\<lambda>a. cf_confirmation_id (pa_confirmation a)) (filter (in_portfolio pid) (as @ [?a])))" for pid
  proof (cases "pid = ?pid")
    case True
    have "distinct (map co_obligation_id (concat (map (\<lambda>a. pp_cash_obligations (pa_proposal a)) ?as)))"
      "distinct (map (\<lambda>a. rb_version_id (pp_risk_budget (pa_proposal a))) ?as)"
      "distinct (map (\<lambda>a. cf_confirmation_id (pa_confirmation a)) ?as)"
      using inv by (simp_all add: owner_invariant_def)
    then show ?thesis using True new_chain version confirmation obligations own by (simp add: new)
  next
    case False
    then show ?thesis using inv by (simp add: owner_invariant_def new)
  qed
  moreover have "valid_risk_budget (pp_risk_budget (pcc_proposal c))"
    using valid by (simp add: valid_portfolio_command_def)
  ultimately show ?thesis
    using inv disjoint by (auto simp: owner_invariant_def new Int_commute)
qed

lemma owner_lineage_cong:
  assumes "ras_user_id scope = ras_user_id scope'" and "ras_visibility scope = ras_visibility scope'"
  shows "portfolio_authorization_owner_lineage facts scope = portfolio_authorization_owner_lineage facts scope'"
proof -
  have "owned_outcome scope = owned_outcome scope'"
    using assms by (intro ext) (simp add: owned_outcome_def split: option.split)
  then show ?thesis by (simp add: portfolio_authorization_owner_lineage_def)
qed

lemma owner_authorizations_case:
  "owner_authorizations (facts @ [case_fact facts c]) scope = owner_authorizations facts scope @
     (if ras_user_id (hc_access_scope c) = ras_user_id scope \<and>
         ras_visibility (hc_access_scope c) = ras_visibility scope
      then (case out_authorization (adjudicate_case facts c) of None \<Rightarrow> [] | Some a \<Rightarrow> [a]) else [])"
  by (auto simp: owner_authorizations_append case_fact_def owned_outcome_def authorizations_def
      List.map_filter_simps split: option.splits)

lemma case_event_id [simp]:
  "fact_event_id (case_fact facts c) = hc_event_id c"
  "pa_authorization_id (confirmed_authorization cc event_id now) = event_id"
  by (simp_all add: case_fact_def confirmed_authorization_def)

lemma owner_authorizations_unrelated:
  "fact_portfolio event = None \<Longrightarrow> owner_authorizations (facts @ [event]) scope = owner_authorizations facts scope"
  "fact_corrects_event_id event \<noteq> None \<Longrightarrow>
     owner_authorizations (facts @ [event]) scope = owner_authorizations facts scope"
  by (auto simp: owner_authorizations_append owned_outcome_def split: option.splits)

lemma reachable_invariant:
  assumes "ledger_reachable facts"
  shows "owner_invariant (owner_authorizations facts scope) \<and>
    pa_authorization_id ` set (owner_authorizations facts scope) \<subseteq> fact_event_id ` set facts"
  using assms
proof induction
  case empty
  have "owner_authorizations [] scope = []"
    by (simp add: owner_authorizations_def portfolio_authorization_owner_lineage_def original_event_facts_def
        List.map_filter_simps)
  then show ?case by (simp add: owner_invariant_Nil)
next
  case (adjudicated facts c)
  show ?case
  proof (cases "ras_user_id (hc_access_scope c) = ras_user_id scope \<and>
      ras_visibility (hc_access_scope c) = ras_visibility scope \<and>
      out_authorization (adjudicate_case facts c) \<noteq> None")
    case True
    then obtain a where a: "out_authorization (adjudicate_case facts c) = Some a" by blast
    then obtain cc where cc: "hc_command c = PORTFOLIO_CONFIRM cc"
      "a = confirmed_authorization cc (hc_event_id c) (hc_observed_at c)"
      and out: "out_authorization (adjudicate_confirmation cc (hc_event_id c) (hc_observed_at c)
        (hc_knowledge_cutoff c)
        (portfolio_authorization_lineage facts (hc_access_scope c) (pp_portfolio_id (pcc_proposal cc)))
        (portfolio_authorization_owner_lineage facts (hc_access_scope c))
        (hc_business_succeeded c) (hc_stress_history c)) = Some a"
      unfolding adjudicate_case_def
      by (elim adjudicate_authorizationD) (simp add: case_context_def Let_def portfolio_id_for_def)
    have same: "owner_authorizations facts (hc_access_scope c) = owner_authorizations facts scope"
      using owner_lineage_cong [of "hc_access_scope c" scope] True by (simp add: owner_authorizations_def)
    have "owner_invariant (owner_authorizations facts scope @ [a])"
      unfolding cc(2)
    proof (rule owner_invariant_append)
      show "confirmation_denial cc (hc_knowledge_cutoff c)
          (portfolio_authorization_lineage facts (hc_access_scope c) (pp_portfolio_id (pcc_proposal cc)))
          (portfolio_authorization_owner_lineage facts (hc_access_scope c)) (hc_stress_history c) = None"
        by (rule confirmation_approvedD [OF out])
    qed (use adjudicated cc same in \<open>auto simp: recorded_authorizations_def owner_authorizations_def\<close>)
    then show ?thesis
      using adjudicated.IH True a cc(2) by (auto simp: owner_authorizations_case)
  next
    case False
    then have "owner_authorizations (facts @ [case_fact facts c]) scope = owner_authorizations facts scope"
      by (auto simp: owner_authorizations_case split: option.splits)
    then show ?thesis using adjudicated.IH by auto
  qed
qed (auto simp: owner_authorizations_unrelated)

lemma recorded_chain:
  assumes "ledger_reachable facts"
  shows "authorization_chain (recorded_authorizations facts scope pid)"
  using reachable_invariant [OF assms, of scope]
  by (simp add: recorded_authorizations_def owner_invariant_def)

text \<open>C8: In every reachable ledger, for every owner: the authorizations of a portfolio form one chain
  (each names its predecessor, event identifiers are distinct and effective times strictly increase),
  no risk-budget version, confirmation or cash obligation is used twice in a portfolio, every budget is
  valid, and two portfolios never share an account.\<close>

theorem authorization_lineage_invariant:
  assumes "ledger_reachable facts"
  shows "owner_invariant (owner_authorizations facts scope)"
  using reachable_invariant [OF assms] by blast

text \<open>The specification of the authorization in force: the latest effective one.\<close>

definition in_force :: "portfolio_authorization list \<Rightarrow> datetime \<Rightarrow> portfolio_authorization \<Rightarrow> bool" where
  "in_force as t a \<longleftrightarrow> a \<in> set as \<and> effective_at a \<le> t \<and>
     (\<forall>b \<in> set as. effective_at b \<le> t \<longrightarrow> b = a \<or> effective_at b < effective_at a)"

lemma chain_strictly_earlier:
  assumes "authorization_chain as" "a \<in> set as" "a \<noteq> last as"
  shows "effective_at a < effective_at (last as)"
  using assms by (cases as rule: rev_cases) (auto simp: authorization_chain_def sorted_wrt_append)

lemma chain_in_force:
  assumes "authorization_chain as"
  shows "lineage_leaf (filter (\<lambda>a. effective_at a \<le> t) as) = (Some a, reason) \<longleftrightarrow>
      in_force as t a \<and> reason = None"
    and "lineage_leaf (filter (\<lambda>a. effective_at a \<le> t) as) = (None, reason) \<longleftrightarrow>
      (\<forall>a \<in> set as. \<not> effective_at a \<le> t) \<and> reason = None"
proof -
  let ?as = "filter (\<lambda>a. effective_at a \<le> t) as"
  note chain = chain_effective [OF assms, of t]
  have leaf: "lineage_leaf ?as = (if ?as = [] then None else Some (last ?as), None)"
    using chain_leaf [OF chain] by (simp add: lineage_leaf_def)
  have unique: "in_force as t a \<longleftrightarrow> ?as \<noteq> [] \<and> a = last ?as" for a
  proof
    assume force: "in_force as t a"
    then have member: "a \<in> set ?as" by (simp add: in_force_def)
    have "a = last ?as"
    proof (rule ccontr)
      assume "a \<noteq> last ?as"
      with chain_strictly_earlier [OF chain member] have "effective_at a < effective_at (last ?as)" .
      moreover have "last ?as \<in> set ?as" using member by (metis empty_iff last_in_set list.set(1))
      ultimately show False using force by (auto simp: in_force_def)
    qed
    then show "?as \<noteq> [] \<and> a = last ?as" using member by (metis empty_iff list.set(1))
  next
    assume "?as \<noteq> [] \<and> a = last ?as"
    moreover from this have "last ?as \<in> set ?as" by (intro last_in_set) blast
    ultimately show "in_force as t a"
      using chain_strictly_earlier [OF chain] by (auto simp: in_force_def simp del: less_eq_datetime_def less_datetime_def)
  qed
  show "lineage_leaf ?as = (Some a, reason) \<longleftrightarrow> in_force as t a \<and> reason = None"
    unfolding leaf unique by auto
  show "lineage_leaf ?as = (None, reason) \<longleftrightarrow> (\<forall>a \<in> set as. \<not> effective_at a \<le> t) \<and> reason = None"
    unfolding leaf by (auto simp: filter_empty_conv)
qed

text \<open>C9: On a reachable ledger the active authorization of a lineage, computed as the one leaf that no
  other authorization names as its predecessor, is the specified one: the authorization with the latest
  effective time not after the time asked for.  There is none exactly if none is effective yet, and a
  history conflict is never reported.\<close>

theorem active_authorization_refines_in_force:
  assumes "ledger_reachable facts"
  shows "case active_authorization (portfolio_authorization_lineage facts scope pid) pid t of
      (Some a, reason) \<Rightarrow> in_force (recorded_authorizations facts scope pid) t a \<and> reason = None
    | (None, reason) \<Rightarrow> (\<forall>a \<in> set (recorded_authorizations facts scope pid). t < effective_at a) \<and> reason = None"
  using chain_in_force [OF recorded_chain [OF assms, of scope pid], of t]
  by (auto simp: active_authorization_def not_le split: prod.split option.split)

subsection \<open>Uses\<close>

lemma adjudicate_case_use:
  assumes "hc_command c = PORTFOLIO_USE u"
  shows "adjudicate_case facts c = adjudicate_use u (hc_observed_at c)
    (history_available_by (portfolio_authorization_history facts (hc_access_scope c) (puc_portfolio_id u)
      (hc_knowledge_cutoff c)) (hc_knowledge_cutoff c))
    (portfolio_authorization_lineage facts (hc_access_scope c) (puc_portfolio_id u))
    (ras_account_ids (hc_access_scope c)) (hc_business_succeeded c) False"
  using assms by (simp add: adjudicate_case_def adjudicate_def case_context_def Let_def portfolio_id_for_def)

lemma outcome_disposition [simp]:
  "out_disposition (deny reasons preview) = DENIED"
  "out_disposition (use_outcome u a obligations now allowed reason) = (if allowed then APPROVED else DENIED)"
  by (simp_all add: deny_def use_outcome_def)

lemma adjudicate_use_approvedD:
  assumes "out_disposition (adjudicate_use u now h l acc pre False) = APPROVED"
    and "puc_requested_action u = NEW_EXPOSURE"
  shows "pre \<and> (\<exists>a. authorization_by_id h (puc_portfolio_id u) (puc_authorization_id u) = Some a \<and>
    set (sn_account_ids (pp_snapshot (pa_proposal a))) \<subseteq> set acc \<and> effective_at a \<le> now \<and>
    now < rb_expires_at (pp_risk_budget (pa_proposal a)) \<and>
    (\<exists>x. active_authorization h (puc_portfolio_id u) now = (Some x, None) \<and>
       pa_authorization_id x = pa_authorization_id a) \<and>
    (\<exists>y. active_authorization l (puc_portfolio_id u) now = (y, None) \<and>
       (case y of None \<Rightarrow> True | Some x \<Rightarrow> pa_authorization_id x = pa_authorization_id a)))"
  using assms
  by (simp add: adjudicate_use_def adjudicate_new_exposure_def Let_def split_beta split: if_splits option.splits)
    (auto simp: prod_eq_iff split: if_splits)

text \<open>C10: New exposure is approved only under the authorization in force: the request names an authorization
  recorded for that portfolio and owner whose evidence predates the cutoff, it is the latest effective
  one of the whole lineage (not only of what is visible at the cutoff), its budget has not expired, all
  its accounts are accessible, and the business prerequisite holds.\<close>

theorem new_exposure_needs_authorization_in_force:
  assumes "ledger_reachable facts" and "hc_command c = PORTFOLIO_USE u"
    and "puc_requested_action u = NEW_EXPOSURE" and "out_disposition (adjudicate_case facts c) = APPROVED"
  shows "\<exists>a. in_force (recorded_authorizations facts (hc_access_scope c) (puc_portfolio_id u)) (hc_observed_at c) a \<and>
    pa_authorization_id a = puc_authorization_id u \<and>
    authorization_evidence_available_by a (hc_knowledge_cutoff c) \<and>
    hc_observed_at c < rb_expires_at (pp_risk_budget (pa_proposal a)) \<and>
    set (sn_account_ids (pp_snapshot (pa_proposal a))) \<subseteq> set (ras_account_ids (hc_access_scope c)) \<and>
    hc_business_succeeded c"
proof -
  let ?as = "recorded_authorizations facts (hc_access_scope c) (puc_portfolio_id u)"
  note chain = recorded_chain [OF assms(1), of "hc_access_scope c" "puc_portfolio_id u"]
  from adjudicate_use_approvedD [OF assms(4) [unfolded adjudicate_case_use [OF assms(2)]] assms(3)]
  obtain a y where a: "a \<in> set ?as" "pa_authorization_id a = puc_authorization_id u"
      "authorization_evidence_available_by a (hc_knowledge_cutoff c)"
      "set (sn_account_ids (pp_snapshot (pa_proposal a))) \<subseteq> set (ras_account_ids (hc_access_scope c))"
      "effective_at a \<le> hc_observed_at c" "hc_observed_at c < rb_expires_at (pp_risk_budget (pa_proposal a))"
      "hc_business_succeeded c"
    and y: "lineage_leaf (filter (\<lambda>a. effective_at a \<le> hc_observed_at c) ?as) = (y, None)"
      "case y of None \<Rightarrow> True | Some x \<Rightarrow> pa_authorization_id x = pa_authorization_id a"
    by (auto simp: authorization_by_id_def active_authorization_def simp del: less_eq_datetime_def less_datetime_def
        dest!: find_SomeD)
  have "y = Some a"
  proof (cases y)
    case None
    then show ?thesis using chain_in_force(2) [OF chain] y(1) a(1,5) by blast
  next
    case (Some x)
    then have "in_force ?as (hc_observed_at c) x" using chain_in_force(1) [OF chain] y(1) by blast
    then show ?thesis using Some y(2) a(1) chain_id_unique [OF chain] by (auto simp: in_force_def)
  qed
  then show ?thesis using a y(1) chain_in_force(1) [OF chain] by blast
qed

lemma setdefault_fold_distinct:
  assumes "distinct (map key xs)" and "key ` set xs \<inter> fst ` set d = {}"
  shows "foldl (\<lambda>d x. dict_setdefault (key x) x d) d xs = d @ map (\<lambda>x. (key x, x)) xs"
  using assms
proof (induction xs arbitrary: d)
  case (Cons x xs)
  then have "map_of d (key x) = None" by (auto simp: map_of_eq_None_iff)
  then have "dict_setdefault (key x) x d = d @ [(key x, x)]" by (simp add: dict_setdefault_def)
  then show ?case using Cons by auto
qed simp

lemma dict_setdefault_not_Nil [simp]: "dict_setdefault k v d \<noteq> []"
  by (cases d) (auto simp: dict_setdefault_def split: option.split)

lemma setdefault_fold_Nil:
  "foldl (\<lambda>d x. dict_setdefault (key x) x d) d xs = [] \<longleftrightarrow> d = [] \<and> xs = []"
  by (induction xs arbitrary: d) simp_all

lemma distinct_concat_filter:
  assumes "distinct (map key (concat (map f xs)))"
  shows "distinct (map key (concat (map f (filter P xs))))"
  using assms by (induction xs) auto

text \<open>No obligation is dropped or merged: on a reachable ledger the unfinished obligations are those of
  the effective authorizations one after the other.\<close>

lemma unresolved_cash_obligations_exact:
  assumes "ledger_reachable facts"
  shows "unresolved_cash_obligations
      (history_available_by (portfolio_authorization_history facts scope pid cutoff) cutoff) pid (Some now) =
    concat (map (\<lambda>a. pp_cash_obligations (pa_proposal a))
      (filter (\<lambda>a. authorization_evidence_available_by a cutoff \<and> effective_at a \<le> now)
        (recorded_authorizations facts scope pid)))"
proof -
  have "distinct (map co_obligation_id (concat (map (\<lambda>a. pp_cash_obligations (pa_proposal a))
      (recorded_authorizations facts scope pid))))"
    using reachable_invariant [OF assms, of scope] by (simp add: owner_invariant_def recorded_authorizations_def)
  from distinct_concat_filter [OF this,
      of "\<lambda>a. authorization_evidence_available_by a cutoff \<and> effective_at a \<le> now"]
  show ?thesis
    by (simp add: unresolved_cash_obligations_def setdefault_fold_distinct comp_def conj_commute
        del: less_eq_datetime_def)
qed

lemma find_unique:
  assumes "x \<in> set xs" "P x" "\<And>y. y \<in> set xs \<Longrightarrow> P y \<Longrightarrow> y = x"
  shows "find P xs = Some x"
proof (cases "find P xs")
  case None
  then show ?thesis using find_NoneD [OF None assms(1)] assms(2) by blast
next
  case (Some y)
  then show ?thesis using find_SomeD [OF Some] assms(3) by simp
qed

text \<open>C11: Deterministic protection is always available.  Whoever can access the accounts of a recorded
  authorization that is effective and visible at the cutoff, and the accounts its unfinished cash
  obligations are due in, is allowed to protect under it, even after it has expired, has been superseded
  or without the business prerequisite; the outcome states the retained protection floor and every
  unfinished obligation.\<close>

theorem deterministic_protection_retained:
  assumes "ledger_reachable facts" and "hc_command c = PORTFOLIO_USE u"
    and "puc_requested_action u = DETERMINISTIC_PROTECTION"
    and "a \<in> set (recorded_authorizations facts (hc_access_scope c) (puc_portfolio_id u))"
    and "pa_authorization_id a = puc_authorization_id u"
    and "authorization_evidence_available_by a (hc_knowledge_cutoff c)" and "effective_at a \<le> hc_observed_at c"
    and "obligations = concat (map (\<lambda>a. pp_cash_obligations (pa_proposal a))
      (filter (\<lambda>a. authorization_evidence_available_by a (hc_knowledge_cutoff c) \<and>
          effective_at a \<le> hc_observed_at c)
        (recorded_authorizations facts (hc_access_scope c) (puc_portfolio_id u))))"
    and "set (sn_account_ids (pp_snapshot (pa_proposal a))) \<union> co_target_account_id ` set obligations
      \<subseteq> set (ras_account_ids (hc_access_scope c))"
  shows "adjudicate_case facts c =
    use_outcome u a obligations (hc_observed_at c) True ''DETERMINISTIC_PROTECTION_RETAINED''"
proof -
  let ?history = "history_available_by (portfolio_authorization_history facts (hc_access_scope c)
      (puc_portfolio_id u) (hc_knowledge_cutoff c)) (hc_knowledge_cutoff c)"
  note chain = recorded_chain [OF assms(1), of "hc_access_scope c" "puc_portfolio_id u"]
  have found: "authorization_by_id ?history (puc_portfolio_id u) (puc_authorization_id u) = Some a"
    unfolding authorization_by_id_def
    by (rule find_unique) (use assms(4-6) chain_id_unique [OF chain] in auto)
  have owed: "unresolved_cash_obligations ?history (puc_portfolio_id u) (Some (hc_observed_at c)) = obligations"
    unfolding unresolved_cash_obligations_exact [OF assms(1)] assms(8) ..
  show ?thesis
    unfolding adjudicate_case_use [OF assms(2)]
    using assms(3,7,9) by (simp add: adjudicate_use_def found owed Let_def)
qed

subsection \<open>Relaxations\<close>

text \<open>A budget is relaxed only on evidence.  When a confirmed successor permits more risk than the
  authorization it succeeds, the confirmation carries evidence for that predecessor that is valid at the
  cutoff, the portfolio has no cash obligation on record, and the last stress assessment, in all of the
  history and in what was visible to the confirmation, is normal with no outstanding reduction.\<close>

lemma relaxation_needs_evidence:
  assumes "ledger_reachable facts" and "hc_command c = PORTFOLIO_CONFIRM cc"
    and "pid = pp_portfolio_id (pcc_proposal cc)"
    and "lineage = recorded_authorizations facts (hc_access_scope c) pid" and "lineage \<noteq> []"
    and "relaxes (pp_risk_budget (pcc_proposal cc)) (pp_risk_budget (pa_proposal (last lineage)))"
    and "out_disposition (adjudicate_case facts c) = APPROVED"
  shows "\<exists>e. cf_relaxation_evidence (pcc_confirmation cc) = Some e \<and>
    \<not> relaxation_evidence_invalid cc (last lineage) (hc_knowledge_cutoff c) e \<and>
    concat (map (\<lambda>a. pp_cash_obligations (pa_proposal a)) lineage) = [] \<and>
    \<not> stress_unresolved (hc_stress_history c) \<and>
    \<not> stress_unresolved (filter (\<lambda>r. st_cutoff_at r \<le>
        dt_min (hc_knowledge_cutoff c) (cf_confirmed_at (pcc_confirmation cc))) (hc_stress_history c))"
proof -
  have "out_authorization (adjudicate_case facts c) \<noteq> None"
    using assms(2,7) by (auto simp: adjudicate_case_def adjudicate_def adjudicate_confirmation_def Let_def
        split: option.splits if_splits)
  then obtain a where out: "out_authorization (adjudicate_confirmation cc (hc_event_id c) (hc_observed_at c)
        (hc_knowledge_cutoff c) (portfolio_authorization_lineage facts (hc_access_scope c) pid)
        (portfolio_authorization_owner_lineage facts (hc_access_scope c))
        (hc_business_succeeded c) (hc_stress_history c)) = Some a"
    using assms(2,3) unfolding adjudicate_case_def
    by (auto elim!: adjudicate_authorizationD simp: case_context_def Let_def portfolio_id_for_def)
  have current: "current_authorization (portfolio_authorization_lineage facts (hc_access_scope c) pid)
      (pp_portfolio_id (pcc_proposal cc)) = (Some (last lineage), None)"
    using chain_leaf [OF recorded_chain [OF assms(1)]] assms(3-5) by (simp add: current_authorization_def)
  note reason = confirmation_denial_None(8) [OF confirmation_approvedD(1) [OF out] current refl assms(6)]
  have "unresolved_cash_obligations (portfolio_authorization_lineage facts (hc_access_scope c) pid) pid None = [] \<longleftrightarrow>
      concat (map (\<lambda>a. pp_cash_obligations (pa_proposal a)) lineage) = []"
    unfolding unresolved_cash_obligations_def portfolio_authorizations_lineage assms(4)
    by (simp add: setdefault_fold_Nil del: concat_eq_Nil_conv)
  moreover obtain e where "cf_relaxation_evidence (pcc_confirmation cc) = Some e"
    using reason by (cases "cf_relaxation_evidence (pcc_confirmation cc)")
      (simp_all add: risk_budget_relaxation_reason_def)
  ultimately show ?thesis
    using reason unfolding risk_budget_relaxation_reason_def assms(3) [symmetric]
    by (simp add: Let_def del: less_eq_datetime_def concat_eq_Nil_conv split: if_splits)
qed

subsection \<open>The shape of an outcome\<close>

definition well_formed_outcome :: "portfolio_authorization_outcome \<Rightarrow> bool" where
  "well_formed_outcome x \<longleftrightarrow> out_reasons x \<noteq> [] \<and>
     (case out_disposition x of
        PREVIEWED \<Rightarrow> out_preview x \<noteq> None \<and> out_authorization x = None \<and> out_usage x = None
      | APPROVED \<Rightarrow> out_preview x \<noteq> None \<and>
          (case out_usage x of None \<Rightarrow> out_authorization x \<noteq> None
           | Some u \<Rightarrow> us_allowed u \<and> out_authorization x = None \<and> us_reasons u = out_reasons x)
      | DENIED \<Rightarrow> out_authorization x = None \<and>
          (case out_usage x of None \<Rightarrow> True | Some u \<Rightarrow> \<not> us_allowed u \<and> us_reasons u = out_reasons x))"

text \<open>C12: Every adjudication returns a well-formed outcome: it gives a reason; a preview carries nothing
  but the preview; an approval carries either a recorded authorization or an allowed usage, never both;
  a denial carries no authorization and at most a usage that is not allowed.\<close>

theorem adjudicate_well_formed: "well_formed_outcome (adjudicate command ctx)"
proof -
  have "well_formed_outcome (deny [r] preview)" "rs \<noteq> [] \<Longrightarrow> well_formed_outcome (deny rs preview)"
    "well_formed_outcome (use_outcome u a obligations now allowed r)" for r rs preview u a obligations now allowed
    by (simp_all add: well_formed_outcome_def deny_def use_outcome_def)
  note wf = this
  have "well_formed_outcome (adjudicate_use u now h l acc pre cur)" for u now h l acc pre cur
    by (simp add: adjudicate_use_def adjudicate_new_exposure_def Let_def split_beta wf split: option.split)
  moreover have "well_formed_outcome (adjudicate_confirmation c e now cutoff l owner pre stress)"
    for c e now cutoff l owner pre stress
    by (simp add: adjudicate_confirmation_def Let_def wf split: option.split)
      (simp add: well_formed_outcome_def)
  moreover have "well_formed_outcome \<lparr>out_disposition = PREVIEWED, out_reasons = [''PORTFOLIO_SCOPE_PREVIEWED''],
      out_preview = Some pv, out_authorization = None, out_usage = None\<rparr>" for pv
    by (simp add: well_formed_outcome_def)
  ultimately show ?thesis
    by (simp add: adjudicate_def Let_def wf split: portfolio_command.split option.split)
qed

subsection \<open>A concrete ledger\<close>

definition demo_scope :: result_access_scope where
  "demo_scope = \<lparr>ras_user_id = ''U'', ras_visibility = ''PRIVATE'', ras_account_ids = [''A'']\<rparr>"

definition demo_case :: portfolio_case where
  "demo_case =
     \<lparr>hc_event_id = ''AU1'', hc_access_scope = demo_scope,
      hc_command = PORTFOLIO_CONFIRM \<lparr>pcc_proposal = demo_proposal, pcc_previous_authorization_id = None,
        pcc_confirmation = demo_confirmation\<rparr>,
      hc_observed_at = demo_time, hc_knowledge_cutoff = demo_time, hc_business_succeeded = True,
      hc_stress_history = []\<rparr>"

definition demo_facts :: decision_ledger where
  "demo_facts = [case_fact [] demo_case]"

definition demo_use :: "requested_action \<Rightarrow> portfolio_case" where
  "demo_use action = demo_case\<lparr>hc_event_id := ''E2'', hc_command := PORTFOLIO_USE
     \<lparr>puc_portfolio_id = ''PF'', puc_authorization_id = ''AU1'', puc_requested_action = action\<rparr>\<rparr>"

text \<open>A successor with a weaker stress target, on evidence for the two days before its confirmation.\<close>

definition demo_relaxed :: portfolio_confirmation_command where
  "demo_relaxed =
     \<lparr>pcc_proposal = demo_proposal
        \<lparr>pp_snapshot := (pp_snapshot demo_proposal)\<lparr>sn_snapshot_id := ''SN2'',
           sn_cutoff_at := plus_days demo_time 1\<rparr>,
         pp_activation_snapshot := Some ((pp_snapshot demo_proposal)\<lparr>sn_snapshot_id := ''SN3'',
           sn_cutoff_at := plus_days demo_time 3\<rparr>),
         pp_risk_budget := demo_budget\<lparr>rb_version_id := ''B2'', rb_effective_at := plus_days demo_time 3,
           rb_expires_at := add_calendar_months (plus_days demo_time 3) 6,
           rb_stress := \<lparr>tt_target_ratio = 1 / 4, tt_hard_ratio = 2 / 5\<rparr>\<rparr>\<rparr>,
      pcc_previous_authorization_id = Some ''AU1'',
      pcc_confirmation = demo_confirmation
        \<lparr>cf_confirmation_id := ''CF2'', cf_snapshot_id := ''SN2'', cf_risk_budget_version_id := ''B2'',
         cf_confirmed_at := plus_days demo_time 2,
         cf_relaxation_evidence := Some
           \<lparr>re_evidence_id = ''RE'', re_predecessor_authorization_id = ''AU1'',
            re_predecessor_risk_budget_version_id = ''B1'', re_normal_from_at = demo_time,
            re_normal_through_at = plus_days demo_time 2, re_normal_market_sessions = [],
            re_monthly_selection_cutoff_at = plus_days demo_time 3,
            re_available_at = plus_days demo_time 2\<rparr>\<rparr>\<rparr>"

definition demo_relax_case :: portfolio_case where
  "demo_relax_case = demo_case\<lparr>hc_event_id := ''AU2'', hc_command := PORTFOLIO_CONFIRM demo_relaxed,
     hc_observed_at := plus_days demo_time 3, hc_knowledge_cutoff := plus_days demo_time 3\<rparr>"

lemma demo_valid: "valid_portfolio_command (hc_command demo_case)"
  by code_simp

lemma demo_reachable: "ledger_reachable demo_facts"
  using ledger_reachable.adjudicated [OF ledger_reachable.empty, of demo_case] demo_valid
  by (simp add: demo_facts_def)

lemma demo_recorded: "recorded_authorizations demo_facts demo_scope ''PF'' = [demo_authorization]"
  by code_simp

lemma demo_dispositions:
  "out_disposition (adjudicate_case demo_facts (demo_use NEW_EXPOSURE)) = APPROVED"
  "out_disposition (adjudicate_case demo_facts demo_relax_case) = APPROVED"
  by code_simp+

theorem authorization_lineage_invariant_witness:
  "ledger_reachable demo_facts \<and> owner_invariant (owner_authorizations demo_facts demo_scope)"
  using authorization_lineage_invariant [OF demo_reachable] demo_reachable by blast

theorem active_authorization_refines_in_force_witness:
  "case active_authorization (portfolio_authorization_lineage demo_facts demo_scope ''PF'') ''PF'' demo_time of
      (Some a, reason) \<Rightarrow> in_force [demo_authorization] demo_time a \<and> reason = None
    | (None, reason) \<Rightarrow> (\<forall>a \<in> set [demo_authorization]. demo_time < effective_at a) \<and> reason = None"
  using active_authorization_refines_in_force [OF demo_reachable, of demo_scope "''PF''" demo_time]
  by (simp only: demo_recorded)

theorem new_exposure_needs_authorization_in_force_witness:
  "\<exists>a. in_force [demo_authorization] demo_time a \<and> pa_authorization_id a = ''AU1'' \<and>
     demo_time < rb_expires_at (pp_risk_budget (pa_proposal a))"
  using new_exposure_needs_authorization_in_force
    [OF demo_reachable _ _ demo_dispositions(1),
      of "\<lparr>puc_portfolio_id = ''PF'', puc_authorization_id = ''AU1'', puc_requested_action = NEW_EXPOSURE\<rparr>"]
    demo_recorded
  by (auto simp: demo_use_def demo_case_def simp del: less_datetime_def)

theorem deterministic_protection_retained_witness:
  "adjudicate_case demo_facts (demo_use DETERMINISTIC_PROTECTION) =
     use_outcome \<lparr>puc_portfolio_id = ''PF'', puc_authorization_id = ''AU1'',
         puc_requested_action = DETERMINISTIC_PROTECTION\<rparr>
       demo_authorization [] demo_time True ''DETERMINISTIC_PROTECTION_RETAINED''"
proof -
  let ?u = "\<lparr>puc_portfolio_id = ''PF'', puc_authorization_id = ''AU1'',
    puc_requested_action = DETERMINISTIC_PROTECTION\<rparr>" and ?c = "demo_use DETERMINISTIC_PROTECTION"
  have fields: "hc_access_scope ?c = demo_scope" "hc_knowledge_cutoff ?c = demo_time"
    "hc_observed_at ?c = demo_time" "hc_command ?c = PORTFOLIO_USE ?u"
    by (simp_all add: demo_use_def demo_case_def)
  have "authorization_evidence_available_by demo_authorization demo_time" by code_simp
  moreover have "effective_at demo_authorization \<le> demo_time" by code_simp
  moreover have "sn_account_ids (pp_snapshot (pa_proposal demo_authorization)) = [''A'']"
    "pp_cash_obligations (pa_proposal demo_authorization) = []"
    "pa_authorization_id demo_authorization = ''AU1''" "ras_account_ids demo_scope = [''A'']"
    by (simp_all add: demo_portfolio_defs sn_account_ids_def demo_scope_def)
  ultimately show ?thesis
    using deterministic_protection_retained [OF demo_reachable, of ?c ?u demo_authorization "[]"]
    by (simp add: fields demo_recorded)
qed

theorem relaxation_needs_evidence_witness:
  "\<exists>e. cf_relaxation_evidence (pcc_confirmation demo_relaxed) = Some e \<and>
     \<not> relaxation_evidence_invalid demo_relaxed demo_authorization (plus_days demo_time 3) e"
proof -
  have "relaxes (pp_risk_budget (pcc_proposal demo_relaxed)) (pp_risk_budget (pa_proposal demo_authorization))"
    by code_simp
  moreover have "hc_command demo_relax_case = PORTFOLIO_CONFIRM demo_relaxed"
    "hc_access_scope demo_relax_case = demo_scope" "hc_knowledge_cutoff demo_relax_case = plus_days demo_time 3"
    "pp_portfolio_id (pcc_proposal demo_relaxed) = ''PF''"
    by (simp_all add: demo_relax_case_def demo_case_def demo_relaxed_def demo_proposal_def)
  ultimately show ?thesis
    using relaxation_needs_evidence [OF demo_reachable, of demo_relax_case demo_relaxed "''PF''" "[demo_authorization]"]
      demo_dispositions(2) demo_recorded by auto
qed

end
