(* ===== verification/Capital_Units.thy ===== *)
theory Capital_Units
  imports Portfolio_Contracts Position_Contracts
begin

text \<open>
  \<open>portfolio/drawdown_contracts.py\<close> and \<open>portfolio/drawdown_flows.py\<close>: the records of the drawdown
  protection and the exact unit accounting of capital flows.  A \<open>Fraction\<close> is a rational number; a
  \<open>ValueError\<close> is the left value of a sum, and a dictionary lookup without the key is the separate
  error \<open>KeyError\<close>, which the code does not catch.
\<close>

record drawdown_policy =
  dp_generator_version :: str
  dp_seed :: int
  dp_version_id :: str
  dp_defensive_exposure_ratio :: decimal
  dp_caution_recovery_ratio :: decimal
  dp_defensive_recovery_ratio :: decimal
  dp_caution_recovery_sessions :: int
  dp_defensive_recovery_sessions :: int
  dp_cooling_sessions :: int
  dp_market_calendar_version_id :: str

record drawdown_valuation =
  dv_position_event_id :: str
  dv_liquidation_cost :: "decimal option"
  dv_evidence :: position_evidence

record drawdown_recovery_gate =
  rg_hard_gate_active :: bool
  rg_evidence :: position_evidence

record flow_ledger_key =
  fk_account_id :: str
  fk_entry_id :: str

datatype flow_kind = EXTERNAL | INTERNAL

record capital_flow =
  fl_flow_id :: str
  fl_kind :: flow_kind
  fl_occurred_at :: datetime
  fl_before_valuation :: drawdown_valuation
  fl_ledger_keys :: "flow_ledger_key list"

record exact_ratio =
  xr_numerator :: int
  xr_denominator :: int

definition from_fraction :: "rat \<Rightarrow> exact_ratio" where
  "from_fraction v = \<lparr>xr_numerator = fst (quotient_of v), xr_denominator = snd (quotient_of v)\<rparr>"

definition fraction_of :: "exact_ratio \<Rightarrow> rat" where
  "fraction_of r = Fract (xr_numerator r) (xr_denominator r)"

record capital_reauthorization =
  cr_confirmation_id :: str
  cr_authorization_id :: str
  cr_previous_epoch_id :: str
  cr_epoch_id :: str
  cr_confirmed_at :: datetime

datatype drawdown_operation = OPEN | OBSERVE | CLOSE | REAUTHORIZE

record drawdown_command =
  dc_operation :: drawdown_operation
  dc_portfolio_id :: str
  dc_authorization_id :: str
  dc_epoch_id :: str
  dc_previous_decision_id :: "str option"
  dc_cutoff_at :: datetime
  dc_valuation :: drawdown_valuation
  dc_policy :: drawdown_policy
  dc_market_session_ordinal :: "int option"
  dc_other_risk_gate :: "drawdown_recovery_gate option"
  dc_capital_flows :: "capital_flow list"
  dc_reauthorization :: "capital_reauthorization option"

datatype risk_state = RISK_NORMAL | CAUTION | DEFENSIVE | PRESERVATION

datatype risk_direction = REDUCE | EXIT

datatype epoch_status = EPOCH_OPEN | EPOCH_CLOSED

record drawdown_state =
  ds_decision_id :: str
  ds_epoch_id :: str
  ds_portfolio_id :: str
  ds_authorization_id :: str
  ds_account_ids :: "str list"
  ds_cutoff_at :: datetime
  ds_accounting_cutoff_at :: datetime
  ds_policy :: drawdown_policy
  ds_thresholds :: drawdown_budget
  ds_net_liquidation_equity :: "decimal option"
  ds_units :: decimal
  ds_unit_nav :: "decimal option"
  ds_high_water_nav :: decimal
  ds_maximum_drawdown :: decimal
  ds_current_drawdown :: "decimal option"
  ds_risk_state :: risk_state
  ds_new_exposure_blocked :: bool
  ds_valuation :: drawdown_valuation
  ds_current_stock_exposure :: "decimal option"
  ds_stock_exposure_limit :: "decimal option"
  ds_risk_direction :: "risk_direction option"
  ds_execution_blocked :: bool
  ds_stock_exposure_target_value :: "decimal option"
  ds_recovery_sessions :: int
  ds_last_recovery_session :: "int option"
  ds_last_observed_session :: "int option"
  ds_exact_units :: exact_ratio
  ds_exact_peak :: exact_ratio
  ds_processed_transfers :: "flow_ledger_key list"
  ds_processed_stock_events :: "flow_ledger_key list"
  ds_processed_flow_ids :: "str list"
  ds_epoch_status :: epoch_status
  ds_closed_at :: "datetime option"
  ds_cooling_sessions :: int
  ds_previous_epoch_id :: "str option"
  ds_reauthorization :: "capital_reauthorization option"

datatype drawdown_disposition = ACCEPTED | DRAWDOWN_DENIED | UNKNOWN_EVIDENCE

record drawdown_outcome =
  do_disposition :: drawdown_disposition
  do_reasons :: "str list"
  do_state :: "drawdown_state option"

subsection \<open>Unit accounting\<close>

record unit_accounting =
  ua_units :: rat
  ua_peak :: rat
  ua_flow_ids :: "str list"
  ua_interval_drawdown :: rat

datatype flow_error = ValueError str | KeyError flow_ledger_key

definition capital_precision :: nat where "capital_precision = 50"

definition decimal_value :: "rat \<Rightarrow> decimal" where
  "decimal_value v =
     ddiv capital_precision (of_int (fst (quotient_of v))) (of_int (snd (quotient_of v)))"

definition valuation_evidence ::
    "drawdown_valuation \<Rightarrow> reconciled_position_snapshot \<Rightarrow> position_evidence list" where
  "valuation_evidence valuation snapshot =
     [dv_evidence valuation, rs_snapshot_evidence snapshot] @
     map au_position_evidence (filter (\<lambda>unit. au_total_quantity unit \<notin> {None, Some 0}) (rs_action_units snapshot)) @
     map ac_account_evidence (rs_cash_states snapshot) @
     map ac_account_equity_evidence (rs_cash_states snapshot) @
     map ac_cash_state_evidence (rs_cash_states snapshot)"

definition equity_for ::
    "drawdown_valuation \<Rightarrow> position_reconciliation_outcome option \<Rightarrow> str list \<Rightarrow> str \<Rightarrow> datetime \<Rightarrow>
     flow_error + rat" where
  "equity_for valuation position account_ids currency flow_at =
     (case position of
        None \<Rightarrow> Inl (ValueError ''DRAWDOWN_EVIDENCE_UNKNOWN'')
      | Some pos \<Rightarrow>
          let snapshot = po_snapshot pos in
          (case (rs_total_account_equity snapshot, dv_liquidation_cost valuation) of
             (Some account_equity, Some cost) \<Rightarrow>
               if po_disposition pos \<noteq> RECONCILED \<or> rs_valuation_currency snapshot \<noteq> currency \<or>
                  set (map ac_account_id (rs_cash_states snapshot)) \<noteq> set account_ids \<or>
                  problem_codes (dv_evidence valuation) (rs_cutoff_at snapshot) True \<noteq> []
               then Inl (ValueError ''DRAWDOWN_EVIDENCE_UNKNOWN'')
               else if list_ex (\<lambda>e. case ev_expires_at e of None \<Rightarrow> False | Some t \<Rightarrow> t < flow_at)
                   (valuation_evidence valuation snapshot)
               then Inl (ValueError ''CAPITAL_FLOW_VALUATION_EXPIRED'')
               else Inr (account_equity - cost)
           | _ \<Rightarrow> Inl (ValueError ''DRAWDOWN_EVIDENCE_UNKNOWN'')))"

definition ledger_key :: "authoritative_ledger_entry \<Rightarrow> flow_ledger_key" where
  "ledger_key entry = \<lparr>fk_account_id = le_account_id entry, fk_entry_id = le_entry_id entry\<rparr>"

definition transfer_keys :: "position_reconciliation_outcome \<Rightarrow> flow_ledger_key list" where
  "transfer_keys position =
     map ledger_key (filter (\<lambda>entry. le_entry_type entry \<in> {TRANSFER_IN, TRANSFER_OUT})
       (rs_authoritative_ledger (po_snapshot position)))"

text \<open>The amount one ledger entry contributes to a flow: cash and the value of transferred stock.\<close>

definition entry_amount ::
    "position_reconciliation_outcome \<Rightarrow> datetime \<Rightarrow> flow_ledger_key \<Rightarrow> authoritative_ledger_entry \<Rightarrow>
     flow_error + rat" where
  "entry_amount position occurred_at key entry =
     (if \<not> dt_eq (le_occurred_at entry) occurred_at \<or> le_corrects_entry_id entry \<noteq> None
      then Inl (ValueError ''CAPITAL_FLOW_CLOCK_UNKNOWN'')
      else if le_quantity_delta entry = 0 then Inr (le_cash_delta entry)
      else
        (case find (\<lambda>unit. au_account_id unit = fk_account_id key \<and>
             Some (au_security_id unit) = le_security_id entry) (rs_action_units (po_snapshot position)) of
           None \<Rightarrow> Inl (ValueError ''CAPITAL_FLOW_ASSET_VALUE_UNKNOWN'')
         | Some holding \<Rightarrow>
             (case au_market_price holding of
                None \<Rightarrow> Inl (ValueError ''CAPITAL_FLOW_ASSET_VALUE_UNKNOWN'')
              | Some price \<Rightarrow>
                  if opt_dt_eq (ev_business_effective_at (au_position_evidence holding)) (Some occurred_at)
                  then Inr (le_cash_delta entry + le_quantity_delta entry * price)
                  else Inl (ValueError ''CAPITAL_FLOW_ASSET_VALUE_UNKNOWN''))))"

fun flow_amount ::
    "position_reconciliation_outcome \<Rightarrow> (flow_ledger_key \<times> authoritative_ledger_entry) list \<Rightarrow> datetime \<Rightarrow>
     flow_ledger_key list \<Rightarrow> rat \<Rightarrow> flow_error + rat" where
  "flow_amount position entries occurred_at [] amount = Inr amount"
| "flow_amount position entries occurred_at (key # keys) amount =
     (case map_of entries key of
        None \<Rightarrow> Inl (KeyError key)
      | Some entry \<Rightarrow>
          (case entry_amount position occurred_at key entry of
             Inl e \<Rightarrow> Inl e
           | Inr v \<Rightarrow> flow_amount position entries occurred_at keys (amount + v)))"

text \<open>The variables of the loop over the flows.\<close>

record flow_loop =
  fp_units :: rat
  fp_peak :: rat
  fp_interval_drawdown :: rat
  fp_processed :: "flow_ledger_key set"
  fp_preceding_flow_at :: "datetime option"

definition flow_step ::
    "drawdown_command \<Rightarrow> drawdown_state \<Rightarrow> position_reconciliation_outcome \<Rightarrow>
     (str \<Rightarrow> position_reconciliation_outcome option) \<Rightarrow>
     (flow_ledger_key \<times> authoritative_ledger_entry) list \<Rightarrow> capital_flow \<Rightarrow> flow_loop \<Rightarrow>
     flow_error + flow_loop" where
  "flow_step command prior position before_positions entries flow fp =
     (case before_positions (dv_position_event_id (fl_before_valuation flow)) of
        None \<Rightarrow> Inl (ValueError ''CAPITAL_FLOW_CLOCK_UNKNOWN'')
      | Some before \<Rightarrow>
          if \<not> (ds_accounting_cutoff_at prior \<le> rs_cutoff_at (po_snapshot before) \<and>
                rs_cutoff_at (po_snapshot before) \<le> fl_occurred_at flow \<and>
                fl_occurred_at flow \<le> dc_cutoff_at command)
          then Inl (ValueError ''CAPITAL_FLOW_CLOCK_UNKNOWN'')
          else if (case fp_preceding_flow_at fp of None \<Rightarrow> False
                   | Some t \<Rightarrow> rs_cutoff_at (po_snapshot before) < t) \<or>
                  set (transfer_keys before) \<noteq> fp_processed fp
          then Inl (ValueError ''CAPITAL_FLOW_SEQUENCE_UNKNOWN'')
          else
            (case equity_for (fl_before_valuation flow) (Some before) (ds_account_ids prior)
                    (rs_valuation_currency (po_snapshot position)) (fl_occurred_at flow) of
               Inl e \<Rightarrow> Inl e
             | Inr pre_equity \<Rightarrow>
                 if pre_equity \<le> 0 \<or> fp_units fp \<le> 0
                 then Inl (ValueError ''CAPITAL_FLOW_VALUE_UNKNOWN'')
                 else
                   let pre_nav = pre_equity / fp_units fp;
                       peak = max (fp_peak fp) pre_nav;
                       interval_drawdown = max (fp_interval_drawdown fp) (1 - pre_nav / peak)
                   in case flow_amount position entries (fl_occurred_at flow) (fl_ledger_keys flow) 0 of
                        Inl e \<Rightarrow> Inl e
                      | Inr amount \<Rightarrow>
                          if fl_kind flow = INTERNAL \<and>
                             (amount \<noteq> 0 \<or> card (set (map fk_account_id (fl_ledger_keys flow))) < 2)
                          then Inl (ValueError ''INTERNAL_TRANSFER_UNRECONCILED'')
                          else
                            let units = (if fl_kind flow = INTERNAL then fp_units fp
                                         else fp_units fp + amount / pre_nav)
                            in if units < 0 then Inl (ValueError ''CAPITAL_UNITS_NEGATIVE'')
                               else Inr \<lparr>fp_units = units, fp_peak = peak,
                                 fp_interval_drawdown = interval_drawdown,
                                 fp_processed = fp_processed fp \<union> set (fl_ledger_keys flow),
                                 fp_preceding_flow_at = Some (fl_occurred_at flow)\<rparr>))"

fun flow_steps ::
    "(capital_flow \<Rightarrow> flow_loop \<Rightarrow> flow_error + flow_loop) \<Rightarrow> capital_flow list \<Rightarrow> flow_loop \<Rightarrow>
     flow_error + flow_loop" where
  "flow_steps step [] fp = Inr fp"
| "flow_steps step (flow # flows) fp =
     (case step flow fp of Inl e \<Rightarrow> Inl e | Inr fp' \<Rightarrow> flow_steps step flows fp')"

definition flow_coverage_reason ::
    "drawdown_command \<Rightarrow> drawdown_state \<Rightarrow> position_reconciliation_outcome \<Rightarrow> str option" where
  "flow_coverage_reason command prior position =
     (let new_keys = set (transfer_keys position) - set (ds_processed_transfers prior);
          flows = dc_capital_flows command;
          declared = concat (map fl_ledger_keys flows);
          ids = map fl_flow_id flows
      in if \<not> distinct declared \<or> set declared \<noteq> new_keys then Some ''CAPITAL_FLOW_COVERAGE_UNKNOWN''
         else if \<not> distinct ids \<or> set ids \<inter> set (ds_processed_flow_ids prior) \<noteq> {}
         then Some ''CAPITAL_FLOW_IDENTITY_CONFLICT''
         else if list_ex (\<lambda>(left, right). fl_occurred_at left \<ge> fl_occurred_at right) (zip flows (tl flows))
         then Some ''CAPITAL_FLOW_CLOCK_UNKNOWN'' else None)"

definition adjusted_units ::
    "drawdown_command \<Rightarrow> drawdown_state \<Rightarrow> position_reconciliation_outcome \<Rightarrow>
     (str \<Rightarrow> position_reconciliation_outcome option) \<Rightarrow> flow_error + unit_accounting" where
  "adjusted_units command prior position before_positions =
     (case flow_coverage_reason command prior position of
        Some reason \<Rightarrow> Inl (ValueError reason)
      | None \<Rightarrow>
          let entries = dict_of ledger_key (\<lambda>e. e) (rs_authoritative_ledger (po_snapshot position)) in
          case flow_steps (flow_step command prior position before_positions entries)
                 (dc_capital_flows command)
                 \<lparr>fp_units = fraction_of (ds_exact_units prior), fp_peak = fraction_of (ds_exact_peak prior),
                  fp_interval_drawdown = 0, fp_processed = set (ds_processed_transfers prior),
                  fp_preceding_flow_at = None\<rparr> of
            Inl e \<Rightarrow> Inl e
          | Inr fp \<Rightarrow>
              Inr \<lparr>ua_units = fp_units fp, ua_peak = fp_peak fp,
                   ua_flow_ids = ds_processed_flow_ids prior @ map fl_flow_id (dc_capital_flows command),
                   ua_interval_drawdown = fp_interval_drawdown fp\<rparr>)"

end
