(* ===== verification/Drawdown.thy ===== *)
theory Drawdown
  imports Capital_Units
begin

text \<open>
  \<open>portfolio/drawdown.py\<close>: the adjudication of a drawdown command against the retained history of a
  portfolio.  The function is one definition per part: the authorization it works under, the reasons
  to deny before any evidence is read, the evidence, the accounting, the risk state, the recovery and
  the life of the epoch.  \<open>None\<close> as the result of \<open>adjudicate_drawdown\<close> is an uncaught exception.
\<close>

definition last_state :: "drawdown_outcome list \<Rightarrow> drawdown_state option" where
  "last_state history =
     (case List.map_filter do_state history of [] \<Rightarrow> None | states \<Rightarrow> Some (last states))"

definition last_such :: "('a \<Rightarrow> bool) \<Rightarrow> 'a list \<Rightarrow> 'a option" where
  "last_such P xs = find P (rev xs)"

definition requested_capital ::
    "drawdown_command \<Rightarrow> portfolio_authorization_outcome list \<Rightarrow> portfolio_authorization option" where
  "requested_capital command authorizations =
     last_such (\<lambda>a. pa_authorization_id a = dc_authorization_id command)
       (List.map_filter out_authorization authorizations)"

definition effective_capital ::
    "drawdown_command \<Rightarrow> portfolio_authorization_outcome list \<Rightarrow> portfolio_authorization option" where
  "effective_capital command authorizations =
     last_such (\<lambda>a. pp_portfolio_id (pa_proposal a) = dc_portfolio_id command \<and>
         authorization_evidence_available_by a (dc_cutoff_at command) \<and>
         rb_effective_at (pp_risk_budget (pa_proposal a)) \<le> dc_cutoff_at command)
       (List.map_filter out_authorization authorizations)"

definition capital_for ::
    "drawdown_command \<Rightarrow> drawdown_state option \<Rightarrow> portfolio_authorization_outcome list \<Rightarrow>
     portfolio_authorization \<Rightarrow> portfolio_authorization" where
  "capital_for command prior authorizations requested =
     (if (case prior of None \<Rightarrow> True | Some p \<Rightarrow> ds_epoch_status p = EPOCH_OPEN) \<or>
         dc_operation command = REAUTHORIZE
      then (case effective_capital command authorizations of None \<Rightarrow> requested | Some a \<Rightarrow> a)
      else requested)"

definition capital_scope_invalid ::
    "drawdown_command \<Rightarrow> str list \<Rightarrow> portfolio_authorization \<Rightarrow> bool" where
  "capital_scope_invalid command account_ids capital \<longleftrightarrow>
     (let budget = pp_risk_budget (pa_proposal capital) in
      pp_portfolio_id (pa_proposal capital) \<noteq> dc_portfolio_id command \<or>
      set (sn_selected_account_ids (pp_snapshot (pa_proposal capital))) \<noteq> set account_ids \<or>
      \<not> authorization_evidence_available_by capital (dc_cutoff_at command) \<or>
      rb_effective_at budget > dc_cutoff_at command \<or>
      (dc_operation command \<in> {OPEN, REAUTHORIZE} \<and> dc_cutoff_at command \<ge> rb_expires_at budget))"

definition epoch_revision_conflict ::
    "drawdown_command \<Rightarrow> str list \<Rightarrow> drawdown_state option \<Rightarrow> bool" where
  "epoch_revision_conflict command account_ids prior \<longleftrightarrow>
     (case prior of
        None \<Rightarrow> True
      | Some p \<Rightarrow>
          dc_previous_decision_id command \<noteq> Some (ds_decision_id p) \<or>
          (dc_operation command \<noteq> REAUTHORIZE \<and> dc_epoch_id command \<noteq> ds_epoch_id p) \<or>
          dc_portfolio_id command \<noteq> ds_portfolio_id p \<or> set account_ids \<noteq> set (ds_account_ids p) \<or>
          dc_cutoff_at command \<le> ds_cutoff_at p \<or> dc_policy command \<noteq> ds_policy p)"

definition reauthorization_invalid ::
    "drawdown_command \<Rightarrow> portfolio_authorization \<Rightarrow> drawdown_state option \<Rightarrow> drawdown_outcome list \<Rightarrow> bool" where
  "reauthorization_invalid command capital prior history \<longleftrightarrow>
     (case (prior, dc_reauthorization command) of
        (Some p, Some confirmation) \<Rightarrow>
          ds_epoch_status p \<noteq> EPOCH_CLOSED \<or> ds_closed_at p = None \<or>
          ds_cooling_sessions p < dp_cooling_sessions (ds_policy p) \<or>
          ds_authorization_id p = dc_authorization_id command \<or>
          cr_authorization_id confirmation \<noteq> dc_authorization_id command \<or>
          pa_authorization_id capital \<noteq> dc_authorization_id command \<or>
          cr_previous_epoch_id confirmation \<noteq> ds_epoch_id p \<or>
          cr_epoch_id confirmation \<noteq> dc_epoch_id command \<or>
          \<not> (ds_cutoff_at p < cr_confirmed_at confirmation \<and>
             cr_confirmed_at confirmation \<le> dc_cutoff_at command) \<or>
          \<not> dt_eq (cf_confirmed_at (pa_confirmation capital)) (cr_confirmed_at confirmation) \<or>
          list_ex (\<lambda>item. case do_state item of None \<Rightarrow> False
            | Some state \<Rightarrow> ds_epoch_id state = dc_epoch_id command) history \<or>
          dc_capital_flows command \<noteq> []
      | _ \<Rightarrow> True)"

definition drawdown_policy_invalid :: "drawdown_command \<Rightarrow> drawdown_budget \<Rightarrow> bool" where
  "drawdown_policy_invalid command thresholds \<longleftrightarrow>
     find_market_calendar (dp_market_calendar_version_id (dc_policy command)) = None \<or>
     (dc_operation command \<in> {OPEN, REAUTHORIZE} \<and>
      (dp_caution_recovery_ratio (dc_policy command) \<ge> db_caution_ratio thresholds \<or>
       dp_defensive_recovery_ratio (dc_policy command) \<ge> db_defensive_ratio thresholds))"

text \<open>The reasons to deny that come before the evidence, in the order of the source.\<close>

definition drawdown_denial ::
    "drawdown_command \<Rightarrow> str list \<Rightarrow> portfolio_authorization \<Rightarrow> drawdown_state option \<Rightarrow>
     drawdown_outcome list \<Rightarrow> str option" where
  "drawdown_denial command account_ids capital prior history =
     (if capital_scope_invalid command account_ids capital then Some ''CAPITAL_AUTHORIZATION_SCOPE''
      else if dc_operation command = OPEN \<and> (prior \<noteq> None \<or> dc_previous_decision_id command \<noteq> None)
      then Some ''CAPITAL_EPOCH_ALREADY_EXISTS''
      else if dc_operation command \<noteq> OPEN \<and> epoch_revision_conflict command account_ids prior
      then Some ''CAPITAL_EPOCH_REVISION_CONFLICT''
      else if dc_operation command = REAUTHORIZE \<and> reauthorization_invalid command capital prior history
      then Some ''CAPITAL_REAUTHORIZATION_REQUIRED''
      else if drawdown_policy_invalid command (rb_drawdown (pp_risk_budget (pa_proposal capital)))
      then Some ''DRAWDOWN_POLICY_INVALID'' else None)"

definition accounting_currencies ::
    "drawdown_command \<Rightarrow> str list \<Rightarrow> portfolio_authorization_outcome list \<Rightarrow> portfolio_authorization \<Rightarrow>
     drawdown_state option \<Rightarrow> str set" where
  "accounting_currencies command account_ids authorizations capital prior =
     (let ids = insert (pa_authorization_id capital)
            (case prior of None \<Rightarrow> {}
             | Some p \<Rightarrow> if dc_operation command \<noteq> REAUTHORIZE then {ds_authorization_id p} else {})
      in set (map ca_currency (filter (\<lambda>account. ca_account_id account \<in> set account_ids)
           (concat (map (\<lambda>a. sn_accounts (pp_snapshot (pa_proposal a)))
             (filter (\<lambda>a. pa_authorization_id a \<in> ids) (List.map_filter out_authorization authorizations)))))))"

text \<open>The current equity and its cost, when the evidence for them is complete.\<close>

definition drawdown_evidence ::
    "drawdown_command \<Rightarrow> str list \<Rightarrow> str set \<Rightarrow> position_reconciliation_outcome option \<Rightarrow>
     (position_reconciliation_outcome \<times> decimal) option" where
  "drawdown_evidence command account_ids currencies position =
     (case position of
        None \<Rightarrow> None
      | Some pos \<Rightarrow>
          let snapshot = po_snapshot pos in
          (case (rs_total_account_equity snapshot, dv_liquidation_cost (dc_valuation command)) of
             (Some account_equity, Some cost) \<Rightarrow>
               if po_disposition pos \<noteq> RECONCILED \<or> currencies \<noteq> {rs_valuation_currency snapshot} \<or>
                  \<not> dt_eq (rs_cutoff_at snapshot) (dc_cutoff_at command) \<or>
                  set (map ac_account_id (rs_cash_states snapshot)) \<noteq> set account_ids \<or>
                  problem_codes (dv_evidence (dc_valuation command)) (dc_cutoff_at command) True \<noteq> []
               then None else Some (pos, dsub capital_precision account_equity cost)
           | _ \<Rightarrow> None))"

definition unknown_evidence ::
    "drawdown_state option \<Rightarrow> drawdown_command \<Rightarrow> str \<Rightarrow> str \<Rightarrow> drawdown_outcome" where
  "unknown_evidence prior command event_id reason =
     \<lparr>do_disposition = UNKNOWN_EVIDENCE, do_reasons = [reason],
      do_state = map_option (\<lambda>p. p
        \<lparr>ds_decision_id := event_id, ds_cutoff_at := dc_cutoff_at command, ds_valuation := dc_valuation command,
         ds_net_liquidation_equity := None, ds_unit_nav := None, ds_current_drawdown := None,
         ds_current_stock_exposure := None, ds_new_exposure_blocked := True, ds_recovery_sessions := 0,
         ds_last_recovery_session := None, ds_cooling_sessions := 0, ds_execution_blocked := True,
         ds_stock_exposure_target_value := None\<rparr>) prior\<rparr>"

definition drawdown_denied :: "str list \<Rightarrow> drawdown_state option \<Rightarrow> drawdown_outcome" where
  "drawdown_denied reasons state =
     \<lparr>do_disposition = DRAWDOWN_DENIED, do_reasons = reasons, do_state = state\<rparr>"

subsection \<open>Facts of the position\<close>

definition fully_reconciled_zero :: "reconciled_position_snapshot \<Rightarrow> bool" where
  "fully_reconciled_zero snapshot \<longleftrightarrow>
     list_all (\<lambda>unit. au_total_quantity unit = Some 0) (rs_action_units snapshot) \<and>
     rs_unfinished_orders snapshot = [] \<and> \<not> list_ex er_active (rs_execution_restrictions snapshot) \<and>
     list_all (\<lambda>cash. ac_frozen_cash cash = Some 0 \<and> ac_receivable_cash cash = Some 0 \<and>
       ac_payable_cash cash = Some 0) (rs_cash_states snapshot)"

definition stock_events :: "reconciled_position_snapshot \<Rightarrow> flow_ledger_key list" where
  "stock_events snapshot =
     map ledger_key (filter (\<lambda>entry. le_quantity_delta entry \<noteq> 0) (rs_authoritative_ledger snapshot))"

definition new_stock_events :: "reconciled_position_snapshot \<Rightarrow> drawdown_state option \<Rightarrow> flow_ledger_key set" where
  "new_stock_events snapshot prior =
     (case prior of None \<Rightarrow> {} | Some p \<Rightarrow> set (stock_events snapshot) - set (ds_processed_stock_events p))"

definition stock_exposure :: "reconciled_position_snapshot \<Rightarrow> decimal" where
  "stock_exposure snapshot =
     dsum capital_precision (map (\<lambda>e. case ie_current_market_exposure e of None \<Rightarrow> 0 | Some v \<Rightarrow> v)
       (rs_issuer_exposures snapshot))"

definition sellable_exposure :: "reconciled_position_snapshot \<Rightarrow> rat" where
  "sellable_exposure snapshot =
     sum_list (map (\<lambda>unit. (case au_exact_statistical_action_quantity unit of None \<Rightarrow> 0 | Some q \<Rightarrow> q) *
       (case au_market_price unit of None \<Rightarrow> 0 | Some v \<Rightarrow> v)) (rs_action_units snapshot))"

subsection \<open>The risk state\<close>

definition escalated_risk :: "drawdown_budget \<Rightarrow> rat \<Rightarrow> risk_state \<Rightarrow> risk_state" where
  "escalated_risk thresholds interval_drawdown risk =
     (if interval_drawdown \<ge> db_preservation_ratio thresholds then PRESERVATION
      else if risk \<noteq> PRESERVATION \<and> interval_drawdown \<ge> db_defensive_ratio thresholds then DEFENSIVE
      else if risk = RISK_NORMAL \<and> interval_drawdown \<ge> db_caution_ratio thresholds then CAUTION
      else risk)"

definition command_session :: "drawdown_command \<Rightarrow> market_session option" where
  "command_session command =
     (case (find_market_calendar (dp_market_calendar_version_id (dc_policy command)),
            dc_market_session_ordinal command) of
        (Some calendar, Some ordinal) \<Rightarrow> session_for calendar ordinal
      | _ \<Rightarrow> None)"

text \<open>The close of a session that the command observes before the next session closes.\<close>

definition observed_session ::
    "drawdown_command \<Rightarrow> reconciled_position_snapshot \<Rightarrow> market_session option" where
  "observed_session command snapshot =
     (case command_session command of
        None \<Rightarrow> None
      | Some session \<Rightarrow>
          if opt_dt_eq (ec_business_effective_at (rs_evidence_clock snapshot)) (Some (ms_closed_at session)) \<and>
             ms_closed_at session \<le> dc_cutoff_at command \<and>
             (case find_market_calendar (dp_market_calendar_version_id (dc_policy command)) of
                None \<Rightarrow> True
              | Some calendar \<Rightarrow>
                  (case next_session_after calendar (ms_closed_at session) of
                     None \<Rightarrow> True | Some next \<Rightarrow> dc_cutoff_at command < ms_closed_at next))
          then Some session else None)"

definition gate_clear :: "drawdown_command \<Rightarrow> bool" where
  "gate_clear command \<longleftrightarrow>
     (case dc_other_risk_gate command of
        None \<Rightarrow> False
      | Some gate \<Rightarrow> \<not> rg_hard_gate_active gate \<and>
          problem_codes (rg_evidence gate) (dc_cutoff_at command) True = [])"

definition new_close :: "drawdown_state option \<Rightarrow> market_session option \<Rightarrow> market_session option" where
  "new_close prior observed =
     (case observed of
        None \<Rightarrow> None
      | Some session \<Rightarrow>
          (case (case prior of None \<Rightarrow> None | Some p \<Rightarrow> ds_last_observed_session p) of
             None \<Rightarrow> Some session
           | Some previous \<Rightarrow> if ms_ordinal session > previous then Some session else None))"

definition last_observed :: "drawdown_state option \<Rightarrow> market_session option \<Rightarrow> int option" where
  "last_observed prior observed =
     (let previous = (case prior of None \<Rightarrow> None | Some p \<Rightarrow> ds_last_observed_session p) in
      case observed of
        None \<Rightarrow> previous
      | Some session \<Rightarrow>
          Some (max (case previous of None \<Rightarrow> ms_ordinal session
            | Some n \<Rightarrow> if n = 0 then ms_ordinal session else n) (ms_ordinal session)))"

definition invalid_period :: "drawdown_command \<Rightarrow> market_session option \<Rightarrow> bool" where
  "invalid_period command observed \<longleftrightarrow> dc_market_session_ordinal command \<noteq> None \<and> observed = None"

definition recovery_eligible ::
    "drawdown_policy \<Rightarrow> drawdown_budget \<Rightarrow> risk_state \<Rightarrow> rat \<Rightarrow> rat \<Rightarrow> decimal \<Rightarrow> decimal \<Rightarrow> bool" where
  "recovery_eligible policy thresholds risk interval_drawdown drawdown exposure equity \<longleftrightarrow>
     (risk = CAUTION \<and> interval_drawdown < db_caution_ratio thresholds \<and>
      drawdown < dp_caution_recovery_ratio policy) \<or>
     (risk = DEFENSIVE \<and> interval_drawdown < db_defensive_ratio thresholds \<and>
      drawdown < dp_defensive_recovery_ratio policy \<and>
      exposure \<le> equity * dp_defensive_exposure_ratio policy)"

text \<open>The risk state, the count of recovery sessions and the last of them after the observation.\<close>

definition recovered_risk ::
    "drawdown_policy \<Rightarrow> risk_state \<Rightarrow> drawdown_state \<Rightarrow> market_session option \<Rightarrow>
     risk_state \<times> int \<times> int option" where
  "recovered_risk policy risk p close =
     (case close of
        None \<Rightarrow> (risk, ds_recovery_sessions p, ds_last_recovery_session p)
      | Some session \<Rightarrow>
          let count = (if ds_last_recovery_session p = Some (ms_ordinal session - 1)
                       then ds_recovery_sessions p + 1 else 1);
              required = (if risk = CAUTION then dp_caution_recovery_sessions policy
                          else dp_defensive_recovery_sessions policy)
          in if count \<ge> required then (if risk = CAUTION then RISK_NORMAL else CAUTION, 0, None)
             else (risk, count, Some (ms_ordinal session)))"

definition risk_after ::
    "drawdown_command \<Rightarrow> drawdown_budget \<Rightarrow> drawdown_state option \<Rightarrow> market_session option \<Rightarrow> rat \<Rightarrow>
     rat option \<Rightarrow> decimal \<Rightarrow> decimal \<Rightarrow> risk_state \<times> int \<times> int option" where
  "risk_after command thresholds prior observed interval_drawdown drawdown exposure equity =
     (let risk = escalated_risk thresholds interval_drawdown
            (case prior of None \<Rightarrow> RISK_NORMAL | Some p \<Rightarrow> ds_risk_state p)
      in case (prior, drawdown) of
           (Some p, Some d) \<Rightarrow>
             if risk = ds_risk_state p \<and> gate_clear command \<and> \<not> invalid_period command observed \<and>
                recovery_eligible (dc_policy command) thresholds risk interval_drawdown d exposure equity
             then recovered_risk (dc_policy command) risk p (new_close prior observed)
             else (risk, 0, None)
         | _ \<Rightarrow> (risk, 0, None))"

subsection \<open>The life of an epoch\<close>

text \<open>Whether a close counts for the cooling period: it is on a later day than the closing of the epoch
  and no stock moved on or after its day.\<close>

definition cooling_close ::
    "reconciled_position_snapshot \<Rightarrow> datetime option \<Rightarrow> market_session \<Rightarrow> bool" where
  "cooling_close snapshot closed_at session \<longleftrightarrow>
     (case closed_at of
        None \<Rightarrow> False
      | Some t \<Rightarrow> dt_date (ms_closed_at session) > dt_date (astimezone t (ms_closed_at session))) \<and>
     \<not> list_ex (\<lambda>entry. le_quantity_delta entry \<noteq> 0 \<and>
         dt_date (astimezone (le_occurred_at entry) (ms_closed_at session)) \<ge> dt_date (ms_closed_at session))
       (rs_authoritative_ledger snapshot)"

record epoch_progress =
  ep_status :: epoch_status
  ep_closed_at :: "datetime option"
  ep_cooling :: int
  ep_count :: int
  ep_last_session :: "int option"

definition epoch_after ::
    "drawdown_command \<Rightarrow> reconciled_position_snapshot \<Rightarrow> drawdown_state option \<Rightarrow> bool \<Rightarrow>
     market_session option \<Rightarrow> int \<Rightarrow> int option \<Rightarrow> epoch_progress" where
  "epoch_after command snapshot prior closure_denied observed count last_session =
     (let status = (case prior of None \<Rightarrow> EPOCH_OPEN | Some p \<Rightarrow> ds_epoch_status p);
          closed_at = (case prior of None \<Rightarrow> None | Some p \<Rightarrow> ds_closed_at p);
          zero = fully_reconciled_zero snapshot
      in if dc_operation command = CLOSE \<and> \<not> closure_denied
         then \<lparr>ep_status = EPOCH_CLOSED, ep_closed_at = Some (dc_cutoff_at command), ep_cooling = 0,
               ep_count = 0, ep_last_session = None\<rparr>
         else (case prior of
                 None \<Rightarrow> \<lparr>ep_status = status, ep_closed_at = closed_at, ep_cooling = 0, ep_count = count,
                          ep_last_session = last_session\<rparr>
               | Some p \<Rightarrow>
                   if status \<noteq> EPOCH_CLOSED
                   then \<lparr>ep_status = status, ep_closed_at = closed_at, ep_cooling = 0, ep_count = count,
                         ep_last_session = last_session\<rparr>
                   else
                     let continuous = new_stock_events snapshot prior = {};
                         keeps = zero \<and> gate_clear command \<and> continuous \<and> \<not> invalid_period command observed;
                         kept = (if keeps then (ds_cooling_sessions p, ds_last_recovery_session p)
                                 else (0, last_session));
                         progress = (case new_close prior observed of
                             None \<Rightarrow> kept
                           | Some session \<Rightarrow>
                               if zero \<and> gate_clear command \<and> cooling_close snapshot closed_at session
                               then (if ds_last_recovery_session p = Some (ms_ordinal session - 1) \<and> continuous
                                     then ds_cooling_sessions p + 1 else 1, Some (ms_ordinal session))
                               else kept)
                     in \<lparr>ep_status = status, ep_closed_at = closed_at, ep_cooling = fst progress,
                         ep_count = 0, ep_last_session = snd progress\<rparr>))"

subsection \<open>The state after an observation\<close>

definition exposure_limit :: "drawdown_policy \<Rightarrow> risk_state \<Rightarrow> decimal option" where
  "exposure_limit policy risk =
     (if risk = PRESERVATION then Some 0
      else if risk = DEFENSIVE then Some (dp_defensive_exposure_ratio policy) else None)"

definition exposure_target :: "decimal \<Rightarrow> decimal option \<Rightarrow> decimal option" where
  "exposure_target equity limit = map_option (\<lambda>l. decimal_value (max equity 0 * l)) limit"

definition direction_of :: "risk_state \<Rightarrow> decimal \<Rightarrow> decimal option \<Rightarrow> risk_direction option" where
  "direction_of risk exposure target =
     (if risk = PRESERVATION then Some EXIT
      else (case target of None \<Rightarrow> None | Some v \<Rightarrow> if exposure > v then Some REDUCE else None))"

text \<open>The unit value, the drawdown from the highest one and the worst drawdown since the last
  observation.\<close>

definition unit_value :: "decimal \<Rightarrow> rat \<Rightarrow> rat option" where
  "unit_value equity units = (if units = 0 then None else Some (equity / units))"

definition peak_after :: "rat \<Rightarrow> rat option \<Rightarrow> rat" where
  "peak_after peak nav = (case nav of None \<Rightarrow> peak | Some v \<Rightarrow> max peak v)"

definition drawdown_from :: "rat \<Rightarrow> rat option \<Rightarrow> rat option" where
  "drawdown_from peak nav = map_option (\<lambda>v. 1 - v / peak) nav"

definition interval_after :: "rat \<Rightarrow> rat option \<Rightarrow> rat" where
  "interval_after interval drawdown = (case drawdown of None \<Rightarrow> interval | Some d \<Rightarrow> max interval d)"

definition observed_state ::
    "drawdown_command \<Rightarrow> str \<Rightarrow> str list \<Rightarrow> portfolio_authorization \<Rightarrow> position_reconciliation_outcome \<Rightarrow>
     decimal \<Rightarrow> bool \<Rightarrow> str option \<Rightarrow> drawdown_state option \<Rightarrow> unit_accounting \<Rightarrow> drawdown_state" where
  "observed_state command event_id account_ids capital position equity closure_denied predecessor prior accounting =
     (let snapshot = po_snapshot position;
          budget = pp_risk_budget (pa_proposal capital);
          units = ua_units accounting;
          nav = unit_value equity units;
          peak = peak_after (ua_peak accounting) nav;
          drawdown = drawdown_from peak nav;
          interval_drawdown = interval_after (ua_interval_drawdown accounting) drawdown;
          exposure = stock_exposure snapshot;
          observed = observed_session command snapshot;
          (risk, count, last_session) = risk_after command (rb_drawdown budget) prior observed
            interval_drawdown drawdown exposure equity;
          epoch = epoch_after command snapshot prior closure_denied observed count last_session;
          limit = exposure_limit (dc_policy command) risk;
          target = exposure_target equity limit
      in \<lparr>ds_decision_id = event_id, ds_epoch_id = dc_epoch_id command, ds_portfolio_id = dc_portfolio_id command,
          ds_authorization_id = pa_authorization_id capital, ds_account_ids = account_ids,
          ds_cutoff_at = dc_cutoff_at command, ds_accounting_cutoff_at = dc_cutoff_at command,
          ds_policy = dc_policy command, ds_thresholds = rb_drawdown budget,
          ds_net_liquidation_equity = Some equity, ds_units = decimal_value units,
          ds_unit_nav = map_option decimal_value nav, ds_high_water_nav = decimal_value peak,
          ds_maximum_drawdown = max (case prior of None \<Rightarrow> 0 | Some p \<Rightarrow> ds_maximum_drawdown p)
            (decimal_value interval_drawdown),
          ds_current_drawdown = map_option decimal_value drawdown, ds_risk_state = risk,
          ds_new_exposure_blocked = (risk \<noteq> RISK_NORMAL \<or> ep_status epoch = EPOCH_CLOSED \<or>
            dc_cutoff_at command \<ge> rb_expires_at budget \<or> nav = None),
          ds_valuation = dc_valuation command, ds_current_stock_exposure = Some exposure,
          ds_stock_exposure_limit = limit, ds_risk_direction = direction_of risk exposure target,
          ds_execution_blocked = (case target of None \<Rightarrow> False
            | Some v \<Rightarrow> exposure - sellable_exposure snapshot > v),
          ds_stock_exposure_target_value = target, ds_recovery_sessions = ep_count epoch,
          ds_last_recovery_session = ep_last_session epoch,
          ds_last_observed_session = last_observed prior observed,
          ds_exact_units = from_fraction units, ds_exact_peak = from_fraction peak,
          ds_processed_transfers = transfer_keys position, ds_processed_stock_events = stock_events snapshot,
          ds_processed_flow_ids = ua_flow_ids accounting, ds_epoch_status = ep_status epoch,
          ds_closed_at = ep_closed_at epoch, ds_cooling_sessions = ep_cooling epoch,
          ds_previous_epoch_id = predecessor,
          ds_reauthorization = (case prior of None \<Rightarrow> dc_reauthorization command
            | Some p \<Rightarrow> ds_reauthorization p)\<rparr>)"

definition observed_outcome ::
    "drawdown_command \<Rightarrow> str \<Rightarrow> str list \<Rightarrow> portfolio_authorization \<Rightarrow> position_reconciliation_outcome \<Rightarrow>
     decimal \<Rightarrow> bool \<Rightarrow> str option \<Rightarrow> drawdown_state option \<Rightarrow> unit_accounting \<Rightarrow> drawdown_outcome" where
  "observed_outcome command event_id account_ids capital position equity closure_denied predecessor prior accounting =
     \<lparr>do_disposition = (if closure_denied then DRAWDOWN_DENIED else ACCEPTED),
      do_reasons = [if closure_denied then ''CAPITAL_EXECUTION_RECONCILIATION_REQUIRED''
                    else if ua_units accounting = 0 then ''CAPITAL_UNITS_REDEEMED''
                    else if prior = None then ''CAPITAL_EPOCH_OPENED'' else ''DRAWDOWN_OBSERVED''],
      do_state = Some (observed_state command event_id account_ids capital position equity closure_denied
        predecessor prior accounting)\<rparr>"

definition opening_accounting :: "decimal \<Rightarrow> unit_accounting" where
  "opening_accounting equity =
     \<lparr>ua_units = equity, ua_peak = 1, ua_flow_ids = [], ua_interval_drawdown = 0\<rparr>"

text \<open>The adjudication once the position and its equity are known.\<close>

definition adjudicate_observation ::
    "drawdown_command \<Rightarrow> str \<Rightarrow> str list \<Rightarrow> portfolio_authorization \<Rightarrow> position_reconciliation_outcome \<Rightarrow>
     decimal \<Rightarrow> drawdown_state option \<Rightarrow> (str \<Rightarrow> position_reconciliation_outcome option) \<Rightarrow>
     drawdown_outcome option" where
  "adjudicate_observation command event_id account_ids capital position equity prior before_positions =
     (let snapshot = po_snapshot position;
          zero = fully_reconciled_zero snapshot;
          predecessor = (case prior of None \<Rightarrow> None
            | Some p \<Rightarrow> if dc_operation command = REAUTHORIZE then Some (ds_epoch_id p) else ds_previous_epoch_id p);
          closure_denied = (dc_operation command = CLOSE \<and> (\<not> zero \<or>
            (case prior of None \<Rightarrow> False | Some p \<Rightarrow> ds_epoch_status p = EPOCH_CLOSED)));
          observed = observed_outcome command event_id account_ids capital position equity closure_denied predecessor
      in if equity \<le> 0 \<and> dc_operation command \<in> {OPEN, REAUTHORIZE}
         then Some (drawdown_denied [''POSITIVE_INITIAL_CAPITAL_REQUIRED''] None)
         else if dc_operation command = REAUTHORIZE \<and> \<not> zero
         then Some (drawdown_denied [''CAPITAL_EXECUTION_RECONCILIATION_REQUIRED''] None)
         else if dc_operation command = REAUTHORIZE \<and> new_stock_events snapshot prior \<noteq> {}
         then let retained = unknown_evidence prior command event_id ''CAPITAL_COOLING_CONTINUITY_REQUIRED''
              in Some (drawdown_denied (do_reasons retained) (do_state retained))
         else (case (if dc_operation command = REAUTHORIZE then None else prior) of
                 None \<Rightarrow> Some (observed None (opening_accounting equity))
               | Some p \<Rightarrow>
                   (case adjusted_units command p position before_positions of
                      Inl (ValueError reason) \<Rightarrow> Some (unknown_evidence prior command event_id reason)
                    | Inl (KeyError key) \<Rightarrow> None
                    | Inr accounting \<Rightarrow> Some (observed prior accounting))))"

definition adjudicate_drawdown ::
    "drawdown_command \<Rightarrow> str \<Rightarrow> str list \<Rightarrow> portfolio_authorization_outcome list \<Rightarrow>
     position_reconciliation_outcome option \<Rightarrow> drawdown_outcome list \<Rightarrow> bool \<Rightarrow>
     (str \<Rightarrow> position_reconciliation_outcome option) \<Rightarrow> drawdown_outcome option" where
  "adjudicate_drawdown command event_id account_ids authorizations position history prerequisite_met before_positions =
     (let prior = last_state history in
      case requested_capital command authorizations of
        None \<Rightarrow> Some (drawdown_denied [''CAPITAL_AUTHORIZATION_REQUIRED''] None)
      | Some requested \<Rightarrow>
          if \<not> prerequisite_met then Some (drawdown_denied [''CAPITAL_AUTHORIZATION_REQUIRED''] None)
          else
            let capital = capital_for command prior authorizations requested in
            case drawdown_denial command account_ids capital prior history of
              Some reason \<Rightarrow> Some (drawdown_denied [reason] None)
            | None \<Rightarrow>
                (case drawdown_evidence command account_ids
                        (accounting_currencies command account_ids authorizations capital prior) position of
                   None \<Rightarrow> Some (unknown_evidence prior command event_id ''DRAWDOWN_EVIDENCE_UNKNOWN'')
                 | Some (pos, equity) \<Rightarrow>
                     adjudicate_observation command event_id account_ids capital pos equity prior before_positions))"

end
