(* ===== verification/Drawdown_Properties.thy ===== *)
theory Drawdown_Properties
  imports Drawdown
begin

text \<open>
  Properties of the drawdown protection: exact unit accounting, the risk state as a state machine, what
  an epoch never takes back, and the conditions of new exposure and of a new epoch.
\<close>

subsection \<open>Exact ratios\<close>

definition valid_ratio :: "exact_ratio \<Rightarrow> bool" where
  "valid_ratio r \<longleftrightarrow> 0 < xr_denominator r \<and> coprime (xr_numerator r) (xr_denominator r)"

lemma fraction_of_from_fraction [simp]: "fraction_of (from_fraction v) = v"
  by (metis (no_types) Fract_of_int_quotient exact_ratio.select_convs(1,2) fraction_of_def from_fraction_def
      prod.collapse quotient_of_div)

lemma decimal_value_round: "decimal_value v = dec_round capital_precision v"
proof -
  obtain n d where "quotient_of v = (n, d)" by fastforce
  then show ?thesis using quotient_of_div [of v n d] by (simp add: decimal_value_def ddiv_def)
qed



subsection \<open>Unit accounting\<close>

lemma scaled_step:
  assumes "0 < (equity :: rat)" "0 < units"
  shows "units + amount / (equity / units) = units * (equity + amount) / equity"
    "units * (equity + 0) / equity = units"
  using assms by (simp_all add: field_simps)

lemma flow_stepE:
  assumes "flow_step command prior position before_positions entries flow fp = Inr fp'"
  obtains before pre_equity amount where
    "before_positions (dv_position_event_id (fl_before_valuation flow)) = Some before"
    "set (transfer_keys before) = fp_processed fp"
    "equity_for (fl_before_valuation flow) (Some before) (ds_account_ids prior)
       (rs_valuation_currency (po_snapshot position)) (fl_occurred_at flow) = Inr pre_equity"
    "flow_amount position entries (fl_occurred_at flow) (fl_ledger_keys flow) 0 = Inr amount"
    "0 < pre_equity" "0 < fp_units fp" "fl_kind flow = INTERNAL \<Longrightarrow> amount = 0"
    "fp_units fp' = fp_units fp * (pre_equity + amount) / pre_equity" "0 \<le> fp_units fp'"
    "fp_peak fp' = max (fp_peak fp) (pre_equity / fp_units fp)"
    "fp_interval_drawdown fp' =
       max (fp_interval_drawdown fp) (1 - pre_equity / fp_units fp / fp_peak fp')"
    "fp_processed fp' = fp_processed fp \<union> set (fl_ledger_keys flow)"
proof -
  let ?at = "fl_occurred_at flow"
  obtain before where before: "before_positions (dv_position_event_id (fl_before_valuation flow)) = Some before"
    "set (transfer_keys before) = fp_processed fp"
    using assms by (auto simp: flow_step_def split: option.splits if_splits)
  obtain equity where equity: "equity_for (fl_before_valuation flow) (Some before) (ds_account_ids prior)
       (rs_valuation_currency (po_snapshot position)) ?at = Inr equity" "0 < equity" "0 < fp_units fp"
    using assms before
    by (cases "equity_for (fl_before_valuation flow) (Some before) (ds_account_ids prior)
       (rs_valuation_currency (po_snapshot position)) ?at")
      (auto simp: flow_step_def Let_def not_le split: if_splits)
  obtain amount where amount: "flow_amount position entries ?at (fl_ledger_keys flow) 0 = Inr amount"
    using assms before equity
    by (cases "flow_amount position entries ?at (fl_ledger_keys flow) 0")
      (auto simp: flow_step_def Let_def split: if_splits)
  let ?units = "if fl_kind flow = INTERNAL then fp_units fp
    else fp_units fp + amount / (equity / fp_units fp)"
  have *: "(fl_kind flow = INTERNAL \<longrightarrow> amount = 0) \<and> 0 \<le> ?units \<and>
      fp' = \<lparr>fp_units = ?units, fp_peak = max (fp_peak fp) (equity / fp_units fp),
        fp_interval_drawdown = max (fp_interval_drawdown fp)
          (1 - equity / fp_units fp / max (fp_peak fp) (equity / fp_units fp)),
        fp_processed = fp_processed fp \<union> set (fl_ledger_keys flow),
        fp_preceding_flow_at = Some (fl_occurred_at flow)\<rparr>"
    using assms before equity amount by (simp add: flow_step_def Let_def not_le split: if_splits)
  have "?units = fp_units fp * (equity + amount) / equity"
    using * scaled_step [OF equity(2,3)] by (cases "fl_kind flow") simp_all
  then show ?thesis
    using * by (intro that [OF before equity(1) amount equity(2,3)]) auto
qed

lemma flow_steps_append:
  "flow_steps step (xs @ ys) fp = (case flow_steps step xs fp of Inl e \<Rightarrow> Inl e | Inr fp' \<Rightarrow> flow_steps step ys fp')"
  by (induction step xs fp rule: flow_steps.induct) (auto split: sum.splits)

text \<open>The specification of the accounting: at every flow the number of units grows with the equity, so
  that equity per unit is the same before and after it.\<close>

definition scaled_units :: "rat \<Rightarrow> (rat \<times> rat) list \<Rightarrow> rat" where
  "scaled_units units flows = foldl (\<lambda>u (equity, amount). u * (equity + amount) / equity) units flows"

fun flow_valued ::
    "drawdown_state \<Rightarrow> position_reconciliation_outcome \<Rightarrow> (str \<Rightarrow> position_reconciliation_outcome option) \<Rightarrow>
     (flow_ledger_key \<times> authoritative_ledger_entry) list \<Rightarrow> capital_flow \<Rightarrow> rat \<times> rat \<Rightarrow> bool" where
  "flow_valued prior position before_positions entries flow (equity, amount) \<longleftrightarrow>
      0 < equity \<and>
      (\<exists>before. before_positions (dv_position_event_id (fl_before_valuation flow)) = Some before \<and>
        equity_for (fl_before_valuation flow) (Some before) (ds_account_ids prior)
          (rs_valuation_currency (po_snapshot position)) (fl_occurred_at flow) = Inr equity) \<and>
      flow_amount position entries (fl_occurred_at flow) (fl_ledger_keys flow) 0 = Inr amount \<and>
      (fl_kind flow = INTERNAL \<longrightarrow> amount = 0)"

lemma flow_steps_scaled:
  assumes "flow_steps (flow_step command prior position before_positions entries) flows fp = Inr fp'"
  shows "\<exists>values. list_all2 (flow_valued prior position before_positions entries) flows values \<and>
    fp_units fp' = scaled_units (fp_units fp) values"
  using assms
proof (induction flows arbitrary: fp)
  case (Cons flow flows)
  then obtain mid where mid: "flow_step command prior position before_positions entries flow fp = Inr mid"
    "flow_steps (flow_step command prior position before_positions entries) flows mid = Inr fp'"
    by (auto split: sum.splits)
  from Cons.IH [OF mid(2)] obtain rest where rest: "list_all2 (flow_valued prior position before_positions entries) flows rest" "fp_units fp' = scaled_units (fp_units mid) rest"
    by blast
  from mid(1) show ?case
  proof (cases rule: flow_stepE)
    case (1 before pre_equity amount)
    then show ?thesis
      using rest by (intro exI [of _ "(pre_equity, amount) # rest"]) (simp add: scaled_units_def)
  qed
qed (auto simp: scaled_units_def intro: exI [of _ "[]"])

lemma flow_steps_bounds:
  assumes "flow_steps (flow_step command prior position before_positions entries) flows fp = Inr fp'"
    and "0 < fp_peak fp" "0 \<le> fp_units fp" "0 \<le> fp_interval_drawdown fp" "fp_interval_drawdown fp < 1"
  shows "fp_peak fp \<le> fp_peak fp'" "0 \<le> fp_units fp'" "0 \<le> fp_interval_drawdown fp'"
    "fp_interval_drawdown fp' < 1" "fp_processed fp' = fp_processed fp \<union> set (concat (map fl_ledger_keys flows))"
proof -
  have "fp_peak fp \<le> fp_peak fp' \<and> 0 \<le> fp_units fp' \<and> 0 \<le> fp_interval_drawdown fp' \<and>
    fp_interval_drawdown fp' < 1 \<and> fp_processed fp' = fp_processed fp \<union> set (concat (map fl_ledger_keys flows))"
    using assms
  proof (induction flows arbitrary: fp)
    case (Cons flow flows)
    then obtain mid where mid: "flow_step command prior position before_positions entries flow fp = Inr mid"
      "flow_steps (flow_step command prior position before_positions entries) flows mid = Inr fp'"
      by (auto split: sum.splits)
    from mid(1) show ?case
    proof (cases rule: flow_stepE)
      case (1 before pre_equity amount)
      have nav: "0 < pre_equity / fp_units fp" using 1(5,6) by simp
      then have "0 < fp_peak mid" using 1(10) by simp
      with nav have "0 < pre_equity / fp_units fp / fp_peak mid" by (rule divide_pos_pos)
      then have "fp_interval_drawdown mid < 1" "0 \<le> fp_interval_drawdown mid" using Cons.prems(4,5) 1(11) by auto
      moreover have "0 < fp_peak mid" "fp_peak fp \<le> fp_peak mid" using Cons.prems(2) 1(10) by auto
      ultimately show ?thesis using Cons.IH [OF mid(2)] 1(9,12) by auto
    qed
  qed simp
  then show "fp_peak fp \<le> fp_peak fp'" "0 \<le> fp_units fp'" "0 \<le> fp_interval_drawdown fp'"
    "fp_interval_drawdown fp' < 1" "fp_processed fp' = fp_processed fp \<union> set (concat (map fl_ledger_keys flows))"
    by blast+
qed

text \<open>C15: Capital flows never change the value of a unit.  When the accounting succeeds, every declared flow
  has a positive equity before it, taken from its retained valuation, and an exact amount, taken from its
  ledger entries (zero for an internal transfer), and the new number of units is the old one scaled at
  every flow by (equity + amount) / equity.  The declared entries are exactly the new transfers.\<close>

theorem capital_flows_keep_unit_value:
  assumes "adjusted_units command prior position before_positions = Inr accounting"
    and "entries = dict_of ledger_key (\<lambda>e. e) (rs_authoritative_ledger (po_snapshot position))"
  shows "(\<exists>values. list_all2 (flow_valued prior position before_positions entries) (dc_capital_flows command) values \<and>
      ua_units accounting = scaled_units (fraction_of (ds_exact_units prior)) values) \<and>
    set (concat (map fl_ledger_keys (dc_capital_flows command))) =
      set (transfer_keys position) - set (ds_processed_transfers prior)"
proof -
  obtain fp where fp: "flow_steps (flow_step command prior position before_positions entries) (dc_capital_flows command)
      \<lparr>fp_units = fraction_of (ds_exact_units prior), fp_peak = fraction_of (ds_exact_peak prior),
       fp_interval_drawdown = 0, fp_processed = set (ds_processed_transfers prior),
       fp_preceding_flow_at = None\<rparr> = Inr fp" "ua_units accounting = fp_units fp"
    and "flow_coverage_reason command prior position = None"
    using assms by (auto simp: adjusted_units_def Let_def split: option.splits sum.splits)
  then show ?thesis
    using flow_steps_scaled [OF fp(1)]
    by (auto simp: flow_coverage_reason_def Let_def split: if_splits)
qed

lemma flow_amount_no_key_error:
  assumes "set keys \<subseteq> fst ` set entries"
  shows "flow_amount position entries t keys amount \<noteq> Inl (KeyError k)"
  using assms
proof (induction keys arbitrary: amount)
  case (Cons key keys)
  then obtain entry where "map_of entries key = Some entry"
    by (metis (no_types) list.set_intros(1) map_of_eq_None_iff not_Some_eq subsetD)
  moreover have "entry_amount position t key entry \<noteq> Inl (KeyError k)"
    by (auto simp: entry_amount_def split: option.splits)
  ultimately show ?case using Cons by (auto split: sum.splits)
qed simp

lemma flow_step_no_key_error:
  assumes "set (fl_ledger_keys flow) \<subseteq> fst ` set entries"
  shows "flow_step command prior position before_positions entries flow fp \<noteq> Inl (KeyError k)"
proof -
  have "equity_for v pos accounts currency t \<noteq> Inl (KeyError k)" for v pos accounts currency t
    by (auto simp: equity_for_def Let_def split: option.splits)
  then show ?thesis
    using flow_amount_no_key_error [OF assms, of position "fl_occurred_at flow" 0 k]
    by (auto simp: flow_step_def Let_def split: option.splits sum.splits)
qed

lemma adjusted_units_no_key_error:
  "adjusted_units command prior position before_positions \<noteq> Inl (KeyError k)"
proof (cases "flow_coverage_reason command prior position")
  case None
  let ?entries = "dict_of ledger_key (\<lambda>e. e) (rs_authoritative_ledger (po_snapshot position))"
  have "set (concat (map fl_ledger_keys (dc_capital_flows command))) \<subseteq> set (transfer_keys position)"
    using None by (auto simp: flow_coverage_reason_def Let_def split: if_splits)
  moreover have "set (transfer_keys position) \<subseteq> fst ` set ?entries"
    unfolding dict_of_keys transfer_keys_def by auto
  ultimately have "set (fl_ledger_keys flow) \<subseteq> fst ` set ?entries" if "flow \<in> set (dc_capital_flows command)" for flow
    using that by auto
  then have "flow_steps (flow_step command prior position before_positions ?entries) flows fp \<noteq> Inl (KeyError k)"
    if "set flows \<subseteq> set (dc_capital_flows command)" for flows fp
    using that
    by (induction flows arbitrary: fp) (auto split: sum.splits dest: flow_step_no_key_error)
  then show ?thesis using None by (auto simp: adjusted_units_def Let_def split: sum.splits)
qed (simp add: adjusted_units_def)

text \<open>The adjudication of a drawdown command always returns an outcome.  The only exception the code
  does not turn into an outcome, the lookup of a declared ledger entry that the position does not have,
  cannot be raised, because the declared entries are checked against the ledger first.\<close>

lemma adjudicate_drawdown_total:
  "adjudicate_drawdown command event_id account_ids authorizations position history met before_positions \<noteq> None"
proof -
  have "adjudicate_observation command event_id account_ids capital pos equity prior before_positions \<noteq> None"
    for capital pos equity prior
    using adjusted_units_no_key_error
    by (auto simp: adjudicate_observation_def Let_def split: option.splits sum.splits flow_error.splits)
  then show ?thesis
    by (auto simp: adjudicate_drawdown_def Let_def split: option.splits)
qed

subsection \<open>The cases of an adjudication\<close>

lemma adjudicate_drawdown_cases [consumes 1, case_names denied unknown observed]:
  assumes "adjudicate_drawdown command event_id account_ids authorizations position history met before_positions =
      Some outcome"
  obtains (denied) reason where "outcome = drawdown_denied [reason] None"
  | (unknown) capital reason where "do_state outcome = do_state (unknown_evidence (last_state history) command event_id reason)"
      "do_disposition outcome \<noteq> ACCEPTED"
      "drawdown_denial command account_ids capital (last_state history) history = None"
  | (observed) requested capital pos equity prior accounting closure_denied predecessor where
      "requested_capital command authorizations = Some requested"
      "capital = capital_for command (last_state history) authorizations requested"
      "drawdown_denial command account_ids capital (last_state history) history = None"
      "drawdown_evidence command account_ids
         (accounting_currencies command account_ids authorizations capital (last_state history)) position =
       Some (pos, equity)"
      "prior = (if dc_operation command = REAUTHORIZE then None else last_state history)"
      "case prior of None \<Rightarrow> accounting = opening_accounting equity
       | Some p \<Rightarrow> adjusted_units command p pos before_positions = Inr accounting"
      "dc_operation command \<in> {OPEN, REAUTHORIZE} \<Longrightarrow> 0 < equity"
      "dc_operation command = REAUTHORIZE \<Longrightarrow> fully_reconciled_zero (po_snapshot pos) \<and>
         new_stock_events (po_snapshot pos) (last_state history) = {}"
      "closure_denied \<longleftrightarrow> dc_operation command = CLOSE \<and> (\<not> fully_reconciled_zero (po_snapshot pos) \<or>
         (case last_state history of None \<Rightarrow> False | Some p \<Rightarrow> ds_epoch_status p = EPOCH_CLOSED))"
      "predecessor = (case last_state history of None \<Rightarrow> None
         | Some p \<Rightarrow> if dc_operation command = REAUTHORIZE then Some (ds_epoch_id p) else ds_previous_epoch_id p)"
      "outcome = observed_outcome command event_id account_ids capital pos equity closure_denied predecessor
         prior accounting"
proof -
  consider (d) reason where "outcome = drawdown_denied [reason] None"
    | (u) requested capital where "requested_capital command authorizations = Some requested"
      "capital = capital_for command (last_state history) authorizations requested"
      "drawdown_denial command account_ids capital (last_state history) history = None"
      "outcome = unknown_evidence (last_state history) command event_id ''DRAWDOWN_EVIDENCE_UNKNOWN''"
    | (e) requested capital pos equity where "requested_capital command authorizations = Some requested"
      "capital = capital_for command (last_state history) authorizations requested"
      "drawdown_denial command account_ids capital (last_state history) history = None"
      "drawdown_evidence command account_ids
         (accounting_currencies command account_ids authorizations capital (last_state history)) position =
       Some (pos, equity)"
      "adjudicate_observation command event_id account_ids capital pos equity (last_state history)
         before_positions = Some outcome"
    using assms unfolding adjudicate_drawdown_def Let_def
    by (simp split: option.splits if_splits prod.splits) blast+
  then show ?thesis
  proof cases
    case d
    then show ?thesis by (rule denied)
  next
    case u
    then show ?thesis by (intro unknown [of _ capital]) (auto simp: unknown_evidence_def)
  next
    case e
    note obs = e(5) [unfolded adjudicate_observation_def Let_def]
    show ?thesis
    proof (cases "outcome = drawdown_denied [''POSITIVE_INITIAL_CAPITAL_REQUIRED''] None \<or>
        outcome = drawdown_denied [''CAPITAL_EXECUTION_RECONCILIATION_REQUIRED''] None")
      case False
      let ?prior = "if dc_operation command = REAUTHORIZE then None else last_state history"
      show ?thesis
      proof (cases "dc_operation command = REAUTHORIZE \<and> new_stock_events (po_snapshot pos) (last_state history) \<noteq> {}")
        case True
        then show ?thesis
          using obs False e(3)
          by (intro unknown [of _ capital]) (auto simp: drawdown_denied_def split: if_splits)
      next
        case continuous: False
        show ?thesis
        proof (cases "\<exists>p reason. ?prior = Some p \<and>
            adjusted_units command p pos before_positions = Inl (ValueError reason)")
          case True
          then obtain p reason where "?prior = Some p"
            "adjusted_units command p pos before_positions = Inl (ValueError reason)" by blast
          then show ?thesis
            using obs False continuous e(3)
            by (intro unknown [of _ capital]) (auto simp: unknown_evidence_def split: if_splits)
        next
          case accounted: False
          then obtain accounting where "case ?prior of None \<Rightarrow> accounting = opening_accounting equity
              | Some p \<Rightarrow> adjusted_units command p pos before_positions = Inr accounting"
            using adjusted_units_no_key_error
            by (cases ?prior) (auto, metis flow_error.exhaust sum.exhaust)
          then show ?thesis
            using obs False continuous accounted
            by (intro observed [OF e(1-4) refl _ _ _ refl refl]) (auto split: if_splits option.splits)
        qed
      qed
    qed (auto intro: denied)
  qed
qed

subsection \<open>The risk state\<close>

fun risk_rank :: "risk_state \<Rightarrow> nat" where
  "risk_rank RISK_NORMAL = 0"
| "risk_rank CAUTION = 1"
| "risk_rank DEFENSIVE = 2"
| "risk_rank PRESERVATION = 3"

definition required_rank :: "drawdown_budget \<Rightarrow> rat \<Rightarrow> nat" where
  "required_rank thresholds d =
     (if d \<ge> db_preservation_ratio thresholds then 3
      else if d \<ge> db_defensive_ratio thresholds then 2
      else if d \<ge> db_caution_ratio thresholds then 1 else 0)"

lemma escalated_rank:
  "risk_rank r \<le> risk_rank (escalated_risk thresholds d r)"
  "required_rank thresholds d \<le> risk_rank (escalated_risk thresholds d r)"
  by (cases r; simp add: escalated_risk_def required_rank_def)+

lemma risk_after_cases:
  assumes "risk_after command thresholds prior observed interval drawdown exposure equity = (risk, count, last_session)"
  obtains (kept) "risk = escalated_risk thresholds interval
      (case prior of None \<Rightarrow> RISK_NORMAL | Some p \<Rightarrow> ds_risk_state p)"
  | (recovered) p d session where "prior = Some p" "drawdown = Some d"
      "escalated_risk thresholds interval (ds_risk_state p) = ds_risk_state p" "gate_clear command"
      "recovery_eligible (dc_policy command) thresholds (ds_risk_state p) interval d exposure equity"
      "new_close prior observed = Some session"
      "risk = (if ds_risk_state p = CAUTION then RISK_NORMAL else CAUTION)"
      "(if ds_last_recovery_session p = Some (ms_ordinal session - 1) then ds_recovery_sessions p + 1 else 1) \<ge>
        (if ds_risk_state p = CAUTION then dp_caution_recovery_sessions (dc_policy command)
         else dp_defensive_recovery_sessions (dc_policy command))"
proof (cases "risk = escalated_risk thresholds interval
    (case prior of None \<Rightarrow> RISK_NORMAL | Some p \<Rightarrow> ds_risk_state p)")
  case False
  obtain p d where "prior = Some p" "drawdown = Some d"
    using assms False by (auto simp: risk_after_def Let_def split: option.splits)
  moreover from this obtain session where "new_close prior observed = Some session"
    using assms False
    by (auto simp: risk_after_def Let_def recovered_risk_def split: option.splits if_splits)
  ultimately show ?thesis
    using assms False by (intro recovered [of p d session])
      (auto simp: risk_after_def Let_def recovered_risk_def split: option.splits if_splits)
qed (rule kept)

lemma risk_after_required:
  assumes "risk_after command thresholds prior observed interval drawdown exposure equity = (risk, count, last_session)"
    and "d \<le> interval"
    and "db_caution_ratio thresholds < db_defensive_ratio thresholds"
    and "db_defensive_ratio thresholds < db_preservation_ratio thresholds"
  shows "required_rank thresholds d \<le> risk_rank risk"
proof -
  have mono: "required_rank thresholds d \<le> required_rank thresholds interval"
    using assms(2-4) by (auto simp: required_rank_def)
  from assms(1) show ?thesis
  proof (cases rule: risk_after_cases)
    case kept
    then show ?thesis using mono escalated_rank(2) le_trans by blast
  next
    case (recovered p e session)
    have "interval < (if ds_risk_state p = CAUTION then db_caution_ratio thresholds
        else db_defensive_ratio thresholds)"
      using recovered(5) by (auto simp: recovery_eligible_def)
    then show ?thesis using assms(2-4) recovered(7) by (auto simp: required_rank_def split: if_splits)
  qed
qed

lemma observed_state_fields:
  fixes equity units
  assumes "nav = unit_value equity (ua_units accounting)" "peak = peak_after (ua_peak accounting) nav"
    and "drawdown = drawdown_from peak nav" "interval = interval_after (ua_interval_drawdown accounting) drawdown"
    and "thresholds = rb_drawdown (pp_risk_budget (pa_proposal capital))"
    and "risk_after command thresholds prior (observed_session command (po_snapshot position)) interval drawdown
      (stock_exposure (po_snapshot position)) equity = (risk, count, last_session)"
    and "epoch = epoch_after command (po_snapshot position) prior closure_denied
      (observed_session command (po_snapshot position)) count last_session"
    and "s = observed_state command event_id account_ids capital position equity closure_denied predecessor prior
      accounting"
  shows "ds_risk_state s = risk" "ds_thresholds s = thresholds" "ds_net_liquidation_equity s = Some equity"
    "fraction_of (ds_exact_units s) = ua_units accounting" "fraction_of (ds_exact_peak s) = peak"
    "ds_maximum_drawdown s = max (case prior of None \<Rightarrow> 0 | Some p \<Rightarrow> ds_maximum_drawdown p) (decimal_value interval)"
    "ds_epoch_id s = dc_epoch_id command" "ds_cutoff_at s = dc_cutoff_at command"
    "ds_epoch_status s = ep_status epoch" "ds_closed_at s = ep_closed_at epoch"
    "ds_risk_direction s = direction_of risk (stock_exposure (po_snapshot position))
      (exposure_target equity (exposure_limit (dc_policy command) risk))"
    "ds_new_exposure_blocked s = (risk \<noteq> RISK_NORMAL \<or> ep_status epoch = EPOCH_CLOSED \<or>
      dc_cutoff_at command \<ge> rb_expires_at (pp_risk_budget (pa_proposal capital)) \<or> nav = None)"
    "ds_processed_flow_ids s = ua_flow_ids accounting" "ds_previous_epoch_id s = predecessor"
    "ds_authorization_id s = pa_authorization_id capital"
    "ds_processed_transfers s = transfer_keys position"
  using assms by (simp_all add: observed_state_def Let_def)

lemma observed_stateE:
  fixes equity
  assumes "s = observed_state command event_id account_ids capital position equity closure_denied predecessor prior
      accounting"
  obtains nav peak drawdown interval risk count last_session epoch where
    "nav = unit_value equity (ua_units accounting)" "peak = peak_after (ua_peak accounting) nav"
    "drawdown = drawdown_from peak nav" "interval = interval_after (ua_interval_drawdown accounting) drawdown"
    "risk_after command (rb_drawdown (pp_risk_budget (pa_proposal capital))) prior
      (observed_session command (po_snapshot position)) interval drawdown
      (stock_exposure (po_snapshot position)) equity = (risk, count, last_session)"
    "epoch = epoch_after command (po_snapshot position) prior closure_denied
      (observed_session command (po_snapshot position)) count last_session"
proof -
  obtain risk count last_session where "risk_after command (rb_drawdown (pp_risk_budget (pa_proposal capital)))
      prior (observed_session command (po_snapshot position))
      (interval_after (ua_interval_drawdown accounting)
        (drawdown_from (peak_after (ua_peak accounting) (unit_value equity (ua_units accounting)))
          (unit_value equity (ua_units accounting))))
      (drawdown_from (peak_after (ua_peak accounting) (unit_value equity (ua_units accounting)))
          (unit_value equity (ua_units accounting)))
      (stock_exposure (po_snapshot position)) equity = (risk, count, last_session)"
    using prod_cases3 by blast
  from that [OF refl refl refl refl this refl] show ?thesis .
qed

lemma peak_after_le: "peak \<le> peak_after peak nav"
  by (cases nav) (simp_all add: peak_after_def)

lemma interval_after_ge:
  "interval \<le> interval_after interval drawdown" "drawdown = Some d \<Longrightarrow> d \<le> interval_after interval drawdown"
  by (cases drawdown; simp add: interval_after_def)+

text \<open>What the state of an unknown observation keeps of the state before.\<close>

definition retained_state :: "drawdown_state \<Rightarrow> drawdown_state \<Rightarrow> bool" where
  "retained_state p s \<longleftrightarrow>
     ds_epoch_id s = ds_epoch_id p \<and> ds_portfolio_id s = ds_portfolio_id p \<and>
     ds_authorization_id s = ds_authorization_id p \<and> ds_account_ids s = ds_account_ids p \<and>
     ds_accounting_cutoff_at s = ds_accounting_cutoff_at p \<and> ds_policy s = ds_policy p \<and>
     ds_thresholds s = ds_thresholds p \<and> ds_exact_units s = ds_exact_units p \<and>
     ds_exact_peak s = ds_exact_peak p \<and> ds_units s = ds_units p \<and> ds_high_water_nav s = ds_high_water_nav p \<and>
     ds_maximum_drawdown s = ds_maximum_drawdown p \<and> ds_risk_state s = ds_risk_state p \<and>
     ds_risk_direction s = ds_risk_direction p \<and> ds_stock_exposure_limit s = ds_stock_exposure_limit p \<and>
     ds_processed_transfers s = ds_processed_transfers p \<and>
     ds_processed_stock_events s = ds_processed_stock_events p \<and>
     ds_processed_flow_ids s = ds_processed_flow_ids p \<and> ds_epoch_status s = ds_epoch_status p \<and>
     ds_closed_at s = ds_closed_at p \<and> ds_last_observed_session s = ds_last_observed_session p"

lemma unknown_retains:
  assumes "do_state (unknown_evidence prior command event_id reason) = Some s"
  shows "\<exists>p. prior = Some p \<and> retained_state p s \<and> ds_net_liquidation_equity s = None \<and> ds_unit_nav s = None \<and>
    ds_cutoff_at s = dc_cutoff_at command \<and> ds_new_exposure_blocked s \<and> ds_execution_blocked s \<and>
    ds_recovery_sessions s = 0 \<and> ds_cooling_sessions s = 0"
proof (cases prior)
  case (Some p)
  with assms show ?thesis by (simp add: unknown_evidence_def retained_state_def) (auto simp: eq_commute)
qed (use assms in \<open>simp add: unknown_evidence_def\<close>)

text \<open>C14: The protection is never weaker than the drawdown demands.  Whenever a state is recorded with a
  known equity, the exact drawdown of equity per unit from its retained high-water mark determines a
  least level of risk (caution, defensive, preservation), and the recorded risk state is at least at
  that level; above normal new exposure is blocked, and preservation directs to exit.\<close>

theorem drawdown_escalates:
  assumes "adjudicate_drawdown command event_id account_ids authorizations position history met before_positions =
      Some outcome"
    and "do_state outcome = Some s" and "ds_net_liquidation_equity s = Some equity"
    and "fraction_of (ds_exact_units s) \<noteq> 0"
    and "validate_drawdown_threshold_order (ds_thresholds s) = None"
    and "d = 1 - equity / fraction_of (ds_exact_units s) / fraction_of (ds_exact_peak s)"
  shows "required_rank (ds_thresholds s) d \<le> risk_rank (ds_risk_state s) \<and>
    (0 < risk_rank (ds_risk_state s) \<longrightarrow> ds_new_exposure_blocked s) \<and>
    (ds_risk_state s = PRESERVATION \<longrightarrow> ds_risk_direction s = Some EXIT)"
  using assms(1)
proof (cases rule: adjudicate_drawdown_cases)
  case (denied reason)
  then show ?thesis using assms(2) by (simp add: drawdown_denied_def)
next
  case (unknown capital reason)
  then show ?thesis using unknown_retains [OF trans [OF unknown(1) [symmetric] assms(2)]] assms(3) by auto
next
  case (observed requested capital pos equity' prior accounting closure_denied predecessor)
  have s: "s = observed_state command event_id account_ids capital pos equity' closure_denied predecessor prior accounting"
    using observed(11) assms(2) by (simp add: observed_outcome_def)
  obtain nav peak drawdown interval risk count last_session epoch where
    eqs: "nav = unit_value equity' (ua_units accounting)" "peak = peak_after (ua_peak accounting) nav"
      "drawdown = drawdown_from peak nav" "interval = interval_after (ua_interval_drawdown accounting) drawdown"
    and risk: "risk_after command (rb_drawdown (pp_risk_budget (pa_proposal capital))) prior
      (observed_session command (po_snapshot pos)) interval drawdown
      (stock_exposure (po_snapshot pos)) equity' = (risk, count, last_session)"
    and epoch: "epoch = epoch_after command (po_snapshot pos) prior closure_denied
      (observed_session command (po_snapshot pos)) count last_session"
    using s by (rule observed_stateE)
  note state = observed_state_fields [OF eqs refl risk epoch s]
  have "equity' = equity" using state(3) assms(3) by simp
  then have d: "drawdown = Some d"
    using assms(4,6) state(4,5) eqs by (simp add: drawdown_from_def unit_value_def)
  have order: "db_caution_ratio (ds_thresholds s) < db_defensive_ratio (ds_thresholds s)"
    "db_defensive_ratio (ds_thresholds s) < db_preservation_ratio (ds_thresholds s)"
    using assms(5) by (auto simp: validate_drawdown_threshold_order_def split: if_splits)
  have "required_rank (ds_thresholds s) d \<le> risk_rank (ds_risk_state s)"
    using risk_after_required [OF risk, of d] interval_after_ge(2) [OF d] eqs(4) order unfolding state(1,2) by simp
  then show ?thesis
    unfolding state(1,11,12) by (auto simp: direction_of_def)
qed

text \<open>Risk is reduced one level at a time and only on evidence.  If an adjudication within an epoch
  records a lower risk state than the one before it, the state before it was caution or defensive (never
  preservation), the new one is the next lower, the other risk gates are clear, the command observes the
  close of a session later than any observed before, and that close completes the required number of
  consecutive recovery sessions.\<close>

lemma risk_recovers_by_sessions:
  assumes "adjudicate_drawdown command event_id account_ids authorizations position history met before_positions =
      Some outcome"
    and "last_state history = Some p" and "dc_operation command \<noteq> REAUTHORIZE"
    and "do_state outcome = Some s" and "risk_rank (ds_risk_state s) < risk_rank (ds_risk_state p)"
  shows "ds_risk_state p \<in> {CAUTION, DEFENSIVE} \<and> risk_rank (ds_risk_state p) = Suc (risk_rank (ds_risk_state s)) \<and>
    gate_clear command \<and>
    (\<exists>pos session. position = Some pos \<and> observed_session command (po_snapshot pos) = Some session \<and>
      (case ds_last_observed_session p of None \<Rightarrow> True | Some n \<Rightarrow> n < ms_ordinal session) \<and>
      (if ds_last_recovery_session p = Some (ms_ordinal session - 1) then ds_recovery_sessions p + 1 else 1) \<ge>
        (if ds_risk_state p = CAUTION then dp_caution_recovery_sessions (dc_policy command)
         else dp_defensive_recovery_sessions (dc_policy command)))"
  using assms(1)
proof (cases rule: adjudicate_drawdown_cases)
  case (denied reason)
  then show ?thesis using assms(4) by (simp add: drawdown_denied_def)
next
  case (unknown capital reason)
  then show ?thesis
    using unknown_retains [OF trans [OF unknown(1) [symmetric] assms(4)]] assms(2,5)
    by (auto simp: retained_state_def)
next
  case (observed requested capital pos equity prior accounting closure_denied predecessor)
  have s: "s = observed_state command event_id account_ids capital pos equity closure_denied predecessor prior accounting"
    using observed(11) assms(4) by (simp add: observed_outcome_def)
  have prior: "prior = Some p" using observed(5) assms(2,3) by simp
  have pos: "position = Some pos"
    using observed(4) by (auto simp: drawdown_evidence_def Let_def split: option.splits if_splits)
  obtain nav peak drawdown interval risk count last_session epoch where
    eqs: "nav = unit_value equity (ua_units accounting)" "peak = peak_after (ua_peak accounting) nav"
      "drawdown = drawdown_from peak nav" "interval = interval_after (ua_interval_drawdown accounting) drawdown"
    and risk: "risk_after command (rb_drawdown (pp_risk_budget (pa_proposal capital))) prior
      (observed_session command (po_snapshot pos)) interval drawdown
      (stock_exposure (po_snapshot pos)) equity = (risk, count, last_session)"
    and epoch: "epoch = epoch_after command (po_snapshot pos) prior closure_denied
      (observed_session command (po_snapshot pos)) count last_session"
    using s by (rule observed_stateE)
  note state = observed_state_fields(1) [OF eqs refl risk epoch s]
  from risk show ?thesis
  proof (cases rule: risk_after_cases)
    case kept
    then show ?thesis using assms(5) escalated_rank(1) state prior by (simp add: not_less [symmetric])
  next
    case (recovered q d session)
    have q: "q = p" using recovered(1) prior by simp
    have "observed_session command (po_snapshot pos) = Some session \<and>
        (case ds_last_observed_session p of None \<Rightarrow> True | Some n \<Rightarrow> n < ms_ordinal session)"
      using recovered(6) prior by (auto simp: new_close_def split: option.splits if_splits)
    moreover have "ds_risk_state p \<in> {CAUTION, DEFENSIVE}"
      using recovered(5) q by (auto simp: recovery_eligible_def)
    ultimately show ?thesis
      using recovered(4,7,8) q state pos by auto
  qed
qed

subsection \<open>What an epoch never takes back\<close>

inductive drawdown_reachable :: "drawdown_outcome list \<Rightarrow> bool" where
  empty: "drawdown_reachable []"
| adjudicated: "drawdown_reachable history \<Longrightarrow>
    adjudicate_drawdown command event_id account_ids authorizations position history met before_positions =
      Some outcome \<Longrightarrow> drawdown_reachable (history @ [outcome])"

definition recorded_states :: "drawdown_outcome list \<Rightarrow> drawdown_state list" where
  "recorded_states history = List.map_filter do_state history"

definition sound_state :: "drawdown_state \<Rightarrow> bool" where
  "sound_state s \<longleftrightarrow> 0 \<le> fraction_of (ds_exact_units s) \<and> 1 \<le> fraction_of (ds_exact_peak s) \<and>
     0 \<le> ds_maximum_drawdown s \<and> distinct (ds_processed_flow_ids s) \<and>
     (ds_epoch_status s = EPOCH_CLOSED \<longleftrightarrow> ds_closed_at s \<noteq> None) \<and>
     (ds_epoch_status s = EPOCH_CLOSED \<longrightarrow> ds_new_exposure_blocked s)"

definition progresses :: "drawdown_state \<Rightarrow> drawdown_state \<Rightarrow> bool" where
  "progresses s s' \<longleftrightarrow>
     fraction_of (ds_exact_peak s) \<le> fraction_of (ds_exact_peak s') \<and>
     ds_maximum_drawdown s \<le> ds_maximum_drawdown s' \<and>
     (ds_risk_state s = PRESERVATION \<longrightarrow> ds_risk_state s' = PRESERVATION) \<and>
     (ds_epoch_status s = EPOCH_CLOSED \<longrightarrow> ds_epoch_status s' = EPOCH_CLOSED)"

lemma progresses_trans: "progresses a b \<Longrightarrow> progresses b c \<Longrightarrow> progresses a c"
  by (auto simp: progresses_def)

lemma last_state_recorded:
  "last_state history = (if recorded_states history = [] then None else Some (last (recorded_states history)))"
  by (cases "recorded_states history") (simp_all add: last_state_def recorded_states_def)

lemma recorded_states_append:
  "recorded_states (history @ [outcome]) =
     recorded_states history @ (case do_state outcome of None \<Rightarrow> [] | Some s \<Rightarrow> [s])"
  by (simp add: recorded_states_def List.map_filter_def split: option.split)

lemma accounting_sound:
  assumes "case prior of None \<Rightarrow> accounting = opening_accounting equity
      | Some p \<Rightarrow> adjusted_units command p pos before_positions = Inr accounting"
    and "prior = None \<Longrightarrow> 0 < equity" and "\<And>p. prior = Some p \<Longrightarrow> sound_state p"
  shows "0 \<le> ua_units accounting" "1 \<le> ua_peak accounting" "distinct (ua_flow_ids accounting)"
    "prior = Some p \<Longrightarrow> fraction_of (ds_exact_peak p) \<le> ua_peak accounting"
proof -
  have "0 \<le> ua_units accounting \<and> 1 \<le> ua_peak accounting \<and> distinct (ua_flow_ids accounting) \<and>
    (\<forall>p. prior = Some p \<longrightarrow> fraction_of (ds_exact_peak p) \<le> ua_peak accounting)"
  proof (cases prior)
    case None
    then show ?thesis using assms by (simp add: opening_accounting_def)
  next
    case (Some p)
    let ?fp = "\<lparr>fp_units = fraction_of (ds_exact_units p), fp_peak = fraction_of (ds_exact_peak p),
       fp_interval_drawdown = 0, fp_processed = set (ds_processed_transfers p), fp_preceding_flow_at = None\<rparr>"
    let ?entries = "dict_of ledger_key (\<lambda>e. e) (rs_authoritative_ledger (po_snapshot pos))"
    have "sound_state p" using assms(3) Some by blast
    have covered: "flow_coverage_reason command p pos = None"
      using assms(1) Some by (auto simp: adjusted_units_def split: option.splits)
    then obtain fp where fp: "flow_steps (flow_step command p pos before_positions ?entries)
        (dc_capital_flows command) ?fp = Inr fp"
      "accounting = \<lparr>ua_units = fp_units fp, ua_peak = fp_peak fp,
         ua_flow_ids = ds_processed_flow_ids p @ map fl_flow_id (dc_capital_flows command),
         ua_interval_drawdown = fp_interval_drawdown fp\<rparr>"
      using assms(1) Some by (auto simp: adjusted_units_def Let_def split: sum.splits)
    have "distinct (map fl_flow_id (dc_capital_flows command))"
      "fl_flow_id ` set (dc_capital_flows command) \<inter> set (ds_processed_flow_ids p) = {}"
      using covered by (auto simp: flow_coverage_reason_def Let_def split: if_splits)
    then show ?thesis
      using flow_steps_bounds [OF fp(1)] \<open>sound_state p\<close> fp(2) Some
      by (auto simp: sound_state_def)
  qed
  then show "0 \<le> ua_units accounting" "1 \<le> ua_peak accounting" "distinct (ua_flow_ids accounting)"
    "prior = Some p \<Longrightarrow> fraction_of (ds_exact_peak p) \<le> ua_peak accounting" by blast+
qed

lemma preservation_absorbs:
  assumes "risk_after command thresholds (Some p) observed interval drawdown exposure equity = (risk, count, last_session)"
    and "ds_risk_state p = PRESERVATION"
  shows "risk = PRESERVATION"
  using assms(1)
proof (cases rule: risk_after_cases)
  case kept
  then show ?thesis using assms(2) by (simp add: escalated_risk_def)
qed (use assms(2) in \<open>auto simp: recovery_eligible_def\<close>)

lemma epoch_after_status:
  "ep_status (epoch_after command snapshot prior closure_denied observed count last_session) =
     (if dc_operation command = CLOSE \<and> \<not> closure_denied then EPOCH_CLOSED
      else case prior of None \<Rightarrow> EPOCH_OPEN | Some p \<Rightarrow> ds_epoch_status p)"
  "ep_closed_at (epoch_after command snapshot prior closure_denied observed count last_session) =
     (if dc_operation command = CLOSE \<and> \<not> closure_denied then Some (dc_cutoff_at command)
      else case prior of None \<Rightarrow> None | Some p \<Rightarrow> ds_closed_at p)"
  by (simp_all add: epoch_after_def Let_def split: option.split)

lemma observed_sound:
  fixes equity
  assumes "s = observed_state command event_id account_ids capital pos equity closure_denied predecessor prior accounting"
    and "case prior of None \<Rightarrow> accounting = opening_accounting equity
      | Some p \<Rightarrow> adjusted_units command p pos before_positions = Inr accounting"
    and "prior = None \<Longrightarrow> 0 < equity" and sound: "\<And>p. prior = Some p \<Longrightarrow> sound_state p"
  shows "sound_state s" and "prior = Some p \<Longrightarrow> progresses p s"
proof -
  obtain nav peak drawdown interval risk count last_session epoch where
    eqs: "nav = unit_value equity (ua_units accounting)" "peak = peak_after (ua_peak accounting) nav"
      "drawdown = drawdown_from peak nav" "interval = interval_after (ua_interval_drawdown accounting) drawdown"
    and risk: "risk_after command (rb_drawdown (pp_risk_budget (pa_proposal capital))) prior
      (observed_session command (po_snapshot pos)) interval drawdown
      (stock_exposure (po_snapshot pos)) equity = (risk, count, last_session)"
    and epoch: "epoch = epoch_after command (po_snapshot pos) prior closure_denied
      (observed_session command (po_snapshot pos)) count last_session"
    using assms(1) by (rule observed_stateE)
  note state = observed_state_fields [OF eqs refl risk epoch assms(1)]
  note accounted = accounting_sound [OF assms(2,3) sound]
  have peak: "ua_peak accounting \<le> peak" using peak_after_le eqs(2) by simp
  show "sound_state s"
    using accounted(1-3) peak sound unfolding sound_state_def state epoch epoch_after_status
    by (auto simp: sound_state_def split: option.splits)
  show "progresses p s" if "prior = Some p"
  proof -
    have "fraction_of (ds_exact_peak p) \<le> ua_peak accounting"
      using that by (intro accounting_sound(4) [OF assms(2,3) sound])
    then show ?thesis
      using peak risk preservation_absorbs that unfolding progresses_def state epoch epoch_after_status by auto
  qed
qed

lemma denial_None_prior:
  assumes "drawdown_denial command account_ids capital (Some p) history = None"
  shows "dc_operation command \<noteq> OPEN" "ds_cutoff_at p < dc_cutoff_at command"
    "dc_operation command \<noteq> REAUTHORIZE \<Longrightarrow> dc_epoch_id command = ds_epoch_id p"
    "dc_operation command = REAUTHORIZE \<Longrightarrow> q \<in> set (recorded_states history) \<Longrightarrow>
       ds_epoch_id q \<noteq> dc_epoch_id command"
    "dc_operation command = REAUTHORIZE \<Longrightarrow> \<not> reauthorization_invalid command capital (Some p) history"
proof -
  have valid: "\<not> epoch_revision_conflict command account_ids (Some p)" and op: "dc_operation command \<noteq> OPEN"
    and re: "dc_operation command = REAUTHORIZE \<Longrightarrow> \<not> reauthorization_invalid command capital (Some p) history"
    using assms by (auto simp: drawdown_denial_def split: if_splits)
  show "dc_operation command \<noteq> OPEN"
    "dc_operation command = REAUTHORIZE \<Longrightarrow> \<not> reauthorization_invalid command capital (Some p) history"
    by fact+
  show "ds_cutoff_at p < dc_cutoff_at command"
    "dc_operation command \<noteq> REAUTHORIZE \<Longrightarrow> dc_epoch_id command = ds_epoch_id p"
    using valid by (auto simp: epoch_revision_conflict_def)
  show "ds_epoch_id q \<noteq> dc_epoch_id command"
    if "dc_operation command = REAUTHORIZE" "q \<in> set (recorded_states history)"
    using re [OF that(1)] that(2)
    by (fastforce simp: reauthorization_invalid_def recorded_states_def set_map_filter list_ex_iff split: option.splits)
qed

lemma adjudicated_state:
  assumes "adjudicate_drawdown command event_id account_ids authorizations position history met before_positions =
      Some outcome"
    and "do_state outcome = Some s" and "\<And>p. last_state history = Some p \<Longrightarrow> sound_state p"
  shows "sound_state s"
    "last_state history = Some p \<Longrightarrow> ds_cutoff_at p < ds_cutoff_at s \<and>
       (ds_epoch_id s = ds_epoch_id p \<and> progresses p s \<or>
        (\<forall>q \<in> set (recorded_states history). ds_epoch_id q \<noteq> ds_epoch_id s))"
proof -
  have "sound_state s \<and> (\<forall>p. last_state history = Some p \<longrightarrow> ds_cutoff_at p < ds_cutoff_at s \<and>
       (ds_epoch_id s = ds_epoch_id p \<and> progresses p s \<or>
        (\<forall>q \<in> set (recorded_states history). ds_epoch_id q \<noteq> ds_epoch_id s)))"
    using assms(1)
  proof (cases rule: adjudicate_drawdown_cases)
    case (denied reason)
    then show ?thesis using assms(2) by (simp add: drawdown_denied_def)
  next
    case (unknown capital reason)
    from unknown_retains [OF trans [OF unknown(1) [symmetric] assms(2)]]
    obtain p where p: "last_state history = Some p" "retained_state p s" "ds_cutoff_at s = dc_cutoff_at command"
      "ds_new_exposure_blocked s" by blast
    have "sound_state p" using assms(3) p(1) .
    then show ?thesis
      using p denial_None_prior(2) [OF unknown(3) [unfolded p(1)]]
      by (auto simp: retained_state_def sound_state_def progresses_def)
  next
    case (observed requested capital pos equity prior accounting closure_denied predecessor)
    have s: "s = observed_state command event_id account_ids capital pos equity closure_denied predecessor prior accounting"
      using observed(11) assms(2) by (simp add: observed_outcome_def)
    have fields: "ds_epoch_id s = dc_epoch_id command" "ds_cutoff_at s = dc_cutoff_at command"
      unfolding s by (simp_all add: observed_state_def Let_def split_beta)
    have funded: "0 < equity" if "prior = None"
    proof -
      have "last_state history = None \<Longrightarrow> dc_operation command = OPEN"
        using observed(3) by (auto simp: drawdown_denial_def epoch_revision_conflict_def split: if_splits)
      then show ?thesis using that observed(5,7) by (auto split: if_splits)
    qed
    have sound: "sound_state p" if "prior = Some p" for p
      using that observed(5) assms(3) by (auto split: if_splits)
    note new = observed_sound [OF s observed(6) funded sound]
    have "ds_cutoff_at p < ds_cutoff_at s \<and> (ds_epoch_id s = ds_epoch_id p \<and> progresses p s \<or>
        (\<forall>q \<in> set (recorded_states history). ds_epoch_id q \<noteq> ds_epoch_id s))" if "last_state history = Some p" for p
    proof (cases "dc_operation command = REAUTHORIZE")
      case True
      then show ?thesis using denial_None_prior [OF observed(3) [unfolded that]] fields by auto
    next
      case False
      then have "prior = Some p" using that observed(5) by simp
      then show ?thesis
        using denial_None_prior(2,3) [OF observed(3) [unfolded that]] False fields new(2) by auto
    qed
    then show ?thesis using new(1) by blast
  qed
  then show "sound_state s"
    "last_state history = Some p \<Longrightarrow> ds_cutoff_at p < ds_cutoff_at s \<and>
       (ds_epoch_id s = ds_epoch_id p \<and> progresses p s \<or>
        (\<forall>q \<in> set (recorded_states history). ds_epoch_id q \<noteq> ds_epoch_id s))" by blast+
qed

text \<open>C13: In every history of adjudications each recorded state is sound (units are not negative, the
  high-water mark is at least the opening value of one, capital flows are processed once, a closed epoch
  blocks new exposure), recorded cutoffs strictly increase, and within an epoch the high-water mark and
  the maximum drawdown never decrease, preservation is never left and a closed epoch is never reopened.\<close>

theorem drawdown_history_invariant:
  assumes "drawdown_reachable history"
  shows "(\<forall>s \<in> set (recorded_states history). sound_state s) \<and>
    sorted_wrt (\<lambda>s s'. ds_cutoff_at s < ds_cutoff_at s' \<and> (ds_epoch_id s = ds_epoch_id s' \<longrightarrow> progresses s s'))
      (recorded_states history)"
  using assms
proof induction
  case empty
  then show ?case by (simp add: recorded_states_def List.map_filter_simps)
next
  case (adjudicated history command event_id account_ids authorizations position met before_positions outcome)
  let ?R = "\<lambda>s s'. ds_cutoff_at s < ds_cutoff_at s' \<and> (ds_epoch_id s = ds_epoch_id s' \<longrightarrow> progresses s s')"
  show ?case
  proof (cases "do_state outcome")
    case (Some s)
    have sound: "sound_state p" if "last_state history = Some p" for p
      using that adjudicated.IH by (auto simp: last_state_recorded split: if_splits)
    have "?R q s" if q: "q \<in> set (recorded_states history)" for q
    proof -
      obtain rest p where states: "recorded_states history = rest @ [p]"
        using q by (cases "recorded_states history" rule: rev_cases) auto
      then have "last_state history = Some p" by (simp add: last_state_recorded)
      note step = adjudicated_state(2) [OF adjudicated.hyps(2) Some sound this]
      have "q = p \<or> ?R q p" using adjudicated.IH q unfolding states by (simp add: sorted_wrt_append) blast
      then show ?thesis
      proof (elim disjE)
        assume "q = p"
        then show ?thesis using step q by auto
      next
        assume earlier: "?R q p"
        have "progresses q s" if "ds_epoch_id q = ds_epoch_id s"
          using step q that earlier progresses_trans by metis
        then show ?thesis using earlier step by (simp add: less_trans [of "instant (ds_cutoff_at q)"])
      qed
    qed
    then show ?thesis
      using adjudicated.IH adjudicated_state(1) [OF adjudicated.hyps(2) Some sound] Some
      by (auto simp: recorded_states_append sorted_wrt_append)
  qed (use adjudicated.IH in \<open>simp add: recorded_states_append\<close>)
qed

subsection \<open>Failing closed\<close>

text \<open>Evidence that cannot be established never loosens the protection.  An adjudication that ends as
  unknown records nothing if there was no state; otherwise it keeps units, high-water mark, maximum
  drawdown, risk state, processed entries and epoch of the state before it, blocks new exposure and
  execution, and restarts the counts of recovery and cooling sessions.\<close>

lemma unknown_evidence_retains_protection:
  assumes "adjudicate_drawdown command event_id account_ids authorizations position history met before_positions =
      Some outcome"
    and "do_disposition outcome = UNKNOWN_EVIDENCE"
  shows "case last_state history of
      None \<Rightarrow> do_state outcome = None
    | Some p \<Rightarrow> \<exists>s. do_state outcome = Some s \<and> retained_state p s \<and> ds_net_liquidation_equity s = None \<and>
        ds_new_exposure_blocked s \<and> ds_execution_blocked s \<and> ds_recovery_sessions s = 0 \<and>
        ds_cooling_sessions s = 0"
  using assms(1)
proof (cases rule: adjudicate_drawdown_cases)
  case (denied reason)
  then show ?thesis using assms(2) by (simp add: drawdown_denied_def)
next
  case (unknown capital reason)
  show ?thesis
  proof (cases "last_state history")
    case None
    then show ?thesis using unknown(1) by (simp add: unknown_evidence_def)
  next
    case (Some p)
    then obtain s where s: "do_state (unknown_evidence (last_state history) command event_id reason) = Some s"
      by (simp add: unknown_evidence_def)
    then show ?thesis using unknown_retains [OF s] unknown(1) Some by auto
  qed
next
  case (observed requested capital pos equity prior accounting closure_denied predecessor)
  then show ?thesis using assms(2) by (simp add: observed_outcome_def split: if_splits)
qed

lemma normal_risk_within_caution:
  assumes "risk_after command thresholds prior observed interval drawdown exposure equity =
      (RISK_NORMAL, count, last_session)"
  shows "interval < db_caution_ratio thresholds"
  using assms
proof (cases rule: risk_after_cases)
  case kept
  then show ?thesis by (auto simp: escalated_risk_def not_le split: if_splits option.splits)
next
  case (recovered p d session)
  then show ?thesis by (auto simp: recovery_eligible_def split: if_splits)
qed

lemma last_such_member: "last_such P xs = Some x \<Longrightarrow> x \<in> set xs"
  by (auto simp: last_such_def dest: find_SomeD)

lemma capital_member:
  assumes "requested_capital command authorizations = Some requested"
  shows "capital_for command prior authorizations requested \<in> set (List.map_filter out_authorization authorizations)"
  using assms
  by (auto simp: capital_for_def requested_capital_def effective_capital_def dest: last_such_member
      split: option.splits)

text \<open>C16: New exposure is left open only on complete evidence: a reconciled position at the cutoff with a
  known equity, an open epoch in the normal risk state, a recorded authorization that is effective and
  not expired, and an exact drawdown from the high-water mark below the caution threshold.\<close>

theorem drawdown_fails_closed:
  assumes "adjudicate_drawdown command event_id account_ids authorizations position history met before_positions =
      Some outcome"
    and "do_state outcome = Some s" and "\<not> ds_new_exposure_blocked s"
  shows "\<exists>pos equity capital. position = Some pos \<and> po_disposition pos = RECONCILED \<and>
    dt_eq (rs_cutoff_at (po_snapshot pos)) (dc_cutoff_at command) \<and> ds_net_liquidation_equity s = Some equity \<and>
    capital \<in> set (List.map_filter out_authorization authorizations) \<and>
    ds_authorization_id s = pa_authorization_id capital \<and>
    rb_effective_at (pp_risk_budget (pa_proposal capital)) \<le> dc_cutoff_at command \<and>
    dc_cutoff_at command < rb_expires_at (pp_risk_budget (pa_proposal capital)) \<and>
    ds_risk_state s = RISK_NORMAL \<and> ds_epoch_status s = EPOCH_OPEN \<and> fraction_of (ds_exact_units s) \<noteq> 0 \<and>
    1 - equity / fraction_of (ds_exact_units s) / fraction_of (ds_exact_peak s) < db_caution_ratio (ds_thresholds s)"
  using assms(1)
proof (cases rule: adjudicate_drawdown_cases)
  case (denied reason)
  then show ?thesis using assms(2) by (simp add: drawdown_denied_def)
next
  case (unknown capital reason)
  then show ?thesis using unknown_retains [OF trans [OF unknown(1) [symmetric] assms(2)]] assms(3) by auto
next
  case (observed requested capital pos equity prior accounting closure_denied predecessor)
  have s: "s = observed_state command event_id account_ids capital pos equity closure_denied predecessor prior accounting"
    using observed(11) assms(2) by (simp add: observed_outcome_def)
  obtain nav peak drawdown interval risk count last_session epoch where
    eqs: "nav = unit_value equity (ua_units accounting)" "peak = peak_after (ua_peak accounting) nav"
      "drawdown = drawdown_from peak nav" "interval = interval_after (ua_interval_drawdown accounting) drawdown"
    and risk: "risk_after command (rb_drawdown (pp_risk_budget (pa_proposal capital))) prior
      (observed_session command (po_snapshot pos)) interval drawdown
      (stock_exposure (po_snapshot pos)) equity = (risk, count, last_session)"
    and epoch: "epoch = epoch_after command (po_snapshot pos) prior closure_denied
      (observed_session command (po_snapshot pos)) count last_session"
    using s by (rule observed_stateE)
  note state = observed_state_fields [OF eqs refl risk epoch s]
  have free: "risk = RISK_NORMAL" "ep_status epoch \<noteq> EPOCH_CLOSED" "nav \<noteq> None"
    "dc_cutoff_at command < rb_expires_at (pp_risk_budget (pa_proposal capital))"
    using assms(3) unfolding state(12) by auto
  have units: "ua_units accounting \<noteq> 0" using free(3) eqs(1) by (auto simp: unit_value_def)
  then have "drawdown = Some (1 - equity / ua_units accounting / peak)"
    using eqs by (simp add: unit_value_def drawdown_from_def)
  then have "1 - equity / ua_units accounting / peak < db_caution_ratio (ds_thresholds s)"
    using normal_risk_within_caution [OF risk [unfolded free(1)]] interval_after_ge(2) eqs(4) state(2)
    by (metis le_less_trans)
  moreover have "rb_effective_at (pp_risk_budget (pa_proposal capital)) \<le> dc_cutoff_at command"
    using observed(3) by (auto simp: drawdown_denial_def capital_scope_invalid_def Let_def split: if_splits)
  moreover have "position = Some pos \<and> po_disposition pos = RECONCILED \<and>
      dt_eq (rs_cutoff_at (po_snapshot pos)) (dc_cutoff_at command)"
    using observed(4) by (auto simp: drawdown_evidence_def Let_def split: option.splits if_splits)
  moreover have "ep_status epoch = EPOCH_OPEN" using free(2) epoch_status.exhaust by blast
  ultimately show ?thesis
    using capital_member [OF observed(1), of "last_state history"] observed(2) units state(1,3,4,5,9,15) free(1,4)
    by (intro exI [of _ pos] exI [of _ equity] exI [of _ capital]) simp
qed

text \<open>A new epoch of capital is opened only after the old one is closed and cooled.  An accepted
  reauthorization follows a closed epoch with the required cooling sessions, names an authorization other
  than that epoch's and an epoch identifier never used before, on a position that is fully liquidated
  without stock movements since; the new epoch starts with positive equity at one per unit, no drawdown
  and a reference to the old one.\<close>

lemma reauthorization_opens_new_epoch:
  assumes "adjudicate_drawdown command event_id account_ids authorizations position history met before_positions =
      Some outcome"
    and "dc_operation command = REAUTHORIZE" and "do_disposition outcome = ACCEPTED"
  shows "\<exists>p s pos equity. last_state history = Some p \<and> do_state outcome = Some s \<and> position = Some pos \<and>
    ds_epoch_status p = EPOCH_CLOSED \<and> dp_cooling_sessions (ds_policy p) \<le> ds_cooling_sessions p \<and>
    ds_authorization_id s \<noteq> ds_authorization_id p \<and> ds_previous_epoch_id s = Some (ds_epoch_id p) \<and>
    (\<forall>q \<in> set (recorded_states history). ds_epoch_id q \<noteq> ds_epoch_id s) \<and>
    fully_reconciled_zero (po_snapshot pos) \<and>
    set (stock_events (po_snapshot pos)) \<subseteq> set (ds_processed_stock_events p) \<and>
    ds_net_liquidation_equity s = Some equity \<and> 0 < equity \<and> fraction_of (ds_exact_units s) = equity \<and>
    fraction_of (ds_exact_peak s) = 1 \<and> ds_maximum_drawdown s = 0"
  using assms(1)
proof (cases rule: adjudicate_drawdown_cases)
  case (denied reason)
  then show ?thesis using assms(3) by (simp add: drawdown_denied_def)
next
  case (unknown capital reason)
  then show ?thesis using assms(3) by simp
next
  case (observed requested capital pos equity prior accounting closure_denied predecessor)
  obtain s where s: "do_state outcome = Some s"
    "s = observed_state command event_id account_ids capital pos equity closure_denied predecessor prior accounting"
    using observed(11) by (simp add: observed_outcome_def)
  obtain p where p: "last_state history = Some p"
    using observed(3) assms(2)
    by (cases "last_state history") (auto simp: drawdown_denial_def epoch_revision_conflict_def split: if_splits)
  note denial = denial_None_prior [OF observed(3) [unfolded p]]
  have equity: "0 < equity" "accounting = opening_accounting equity" "prior = None"
    using observed(5,6,7) assms(2) by auto
  obtain nav peak drawdown interval risk count last_session epoch where
    eqs: "nav = unit_value equity (ua_units accounting)" "peak = peak_after (ua_peak accounting) nav"
      "drawdown = drawdown_from peak nav" "interval = interval_after (ua_interval_drawdown accounting) drawdown"
    and risk: "risk_after command (rb_drawdown (pp_risk_budget (pa_proposal capital))) prior
      (observed_session command (po_snapshot pos)) interval drawdown
      (stock_exposure (po_snapshot pos)) equity = (risk, count, last_session)"
    and epoch: "epoch = epoch_after command (po_snapshot pos) prior closure_denied
      (observed_session command (po_snapshot pos)) count last_session"
    using s(2) by (rule observed_stateE)
  note state = observed_state_fields [OF eqs refl risk epoch s(2)]
  have nav: "nav = Some 1" "peak = 1" "drawdown = Some 0" "interval = 0"
    using eqs equity by (simp_all add: opening_accounting_def unit_value_def peak_after_def drawdown_from_def
        interval_after_def)
  have "decimal_value 0 = 0" by (simp add: decimal_value_round)
  then have numbers: "ds_net_liquidation_equity s = Some equity" "fraction_of (ds_exact_units s) = equity"
    "fraction_of (ds_exact_peak s) = 1" "ds_maximum_drawdown s = 0"
    using state nav equity by (simp_all add: opening_accounting_def)
  have "ds_epoch_status p = EPOCH_CLOSED" "dp_cooling_sessions (ds_policy p) \<le> ds_cooling_sessions p"
    "ds_authorization_id s \<noteq> ds_authorization_id p"
    using denial(5) assms(2) state(15) by (auto simp: reauthorization_invalid_def split: option.splits)
  moreover have "position = Some pos"
    using observed(4) by (auto simp: drawdown_evidence_def Let_def split: option.splits if_splits)
  moreover have "\<forall>q \<in> set (recorded_states history). ds_epoch_id q \<noteq> ds_epoch_id s"
    using denial(4) assms(2) state(7) by auto
  moreover have "fully_reconciled_zero (po_snapshot pos)"
    "set (stock_events (po_snapshot pos)) \<subseteq> set (ds_processed_stock_events p)"
    using observed(8) assms(2) p by (auto simp: new_stock_events_def)
  moreover have "ds_previous_epoch_id s = Some (ds_epoch_id p)"
    using state(14) observed(10) assms(2) p by simp
  ultimately show ?thesis using p s(1) numbers equity(1) by blast
qed

end
