(* ===== verification/Drawdown_Examples.thy ===== *)
theory Drawdown_Examples
  imports Drawdown_Properties Stress_Properties
begin

text \<open>
  Concrete adjudications of drawdown commands: opening an epoch, recovering from caution, opening a new
  epoch after a closed one, and a command without a position.  They instantiate the theorems of
  \<open>Drawdown_Properties\<close>.
\<close>

definition dd_time :: datetime where "dd_time = utc_at 2042 5 20 15"

definition dd_evidence :: position_evidence where
  "dd_evidence = demo_evidence
     \<lparr>ev_business_effective_at := Some dd_time, ev_source_observed_at := Some dd_time,
      ev_locally_acquired_at := Some dd_time, ev_validated_at := Some dd_time, ev_cutoff_at := Some dd_time,
      ev_complete_through_at := Some dd_time\<rparr>"

definition dd_authorization :: portfolio_authorization where
  "dd_authorization = demo_authorization
     \<lparr>pa_authorization_id := ''AU2'',
      pa_proposal := demo_proposal\<lparr>pp_snapshot := (pp_snapshot demo_proposal)\<lparr>sn_cutoff_at := dd_time\<rparr>,
        pp_risk_budget := demo_budget\<lparr>rb_effective_at := dd_time,
          rb_expires_at := add_calendar_months dd_time 6\<rparr>\<rparr>,
      pa_confirmation := demo_confirmation\<lparr>cf_confirmed_at := dd_time\<rparr>\<rparr>"

definition dd_authorizations :: "portfolio_authorization_outcome list" where
  "dd_authorizations = [demo_usage\<lparr>out_authorization := Some dd_authorization, out_usage := None\<rparr>]"

definition dd_cash :: account_cash_state where
  "dd_cash = (account_cash_state_of demo_account)
     \<lparr>ac_account_evidence := dd_evidence, ac_account_equity_evidence := dd_evidence,
      ac_cash_state_evidence := dd_evidence, ac_frozen_cash := Some 0, ac_receivable_cash := Some 0,
      ac_payable_cash := Some 0\<rparr>"

text \<open>An account that holds nothing but a hundred in cash.\<close>

definition dd_position :: position_reconciliation_outcome where
  "dd_position =
     \<lparr>po_disposition = RECONCILED, po_reasons = [''AUTHORITATIVE_POSITION_FACTS_RECONCILED''],
      po_snapshot = \<lparr>rs_snapshot_id = ''PS'', rs_cutoff_at = dd_time, rs_valuation_currency = ''USD'',
        rs_snapshot_source = Some ''broker'', rs_evidence_clock = evidence_clock dd_evidence,
        rs_snapshot_evidence = dd_evidence, rs_total_account_equity = Some 100, rs_action_units = [],
        rs_issuer_exposures = [], rs_cash_states = [dd_cash], rs_unfinished_orders = [],
        rs_execution_restrictions = [], rs_authoritative_ledger = [], rs_user_annotations = []\<rparr>,
      po_conflicts = []\<rparr>"

definition dd_policy :: drawdown_policy where
  "dd_policy =
     \<lparr>dp_generator_version = ''g'', dp_seed = 7, dp_version_id = ''DP'', dp_defensive_exposure_ratio = 1 / 2,
      dp_caution_recovery_ratio = 1 / 20, dp_defensive_recovery_ratio = 1 / 10,
      dp_caution_recovery_sessions = 1, dp_defensive_recovery_sessions = 2, dp_cooling_sessions = 1,
      dp_market_calendar_version_id = ''synthetic-market-calendar-v1''\<rparr>"

definition dd_command :: "drawdown_operation \<Rightarrow> drawdown_command" where
  "dd_command operation =
     \<lparr>dc_operation = operation, dc_portfolio_id = ''PF'', dc_authorization_id = ''AU2'',
      dc_epoch_id = (if operation = REAUTHORIZE then ''E2'' else ''E1''),
      dc_previous_decision_id = (if operation = OPEN then None else Some ''D0''), dc_cutoff_at = dd_time,
      dc_valuation = \<lparr>dv_position_event_id = ''PE'', dv_liquidation_cost = Some 0, dv_evidence = dd_evidence\<rparr>,
      dc_policy = dd_policy, dc_market_session_ordinal = Some 6101,
      dc_other_risk_gate = Some \<lparr>rg_hard_gate_active = False, rg_evidence = dd_evidence\<rparr>,
      dc_capital_flows = [],
      dc_reauthorization = Some \<lparr>cr_confirmation_id = ''CF1'', cr_authorization_id = ''AU2'',
        cr_previous_epoch_id = ''E1'', cr_epoch_id = ''E2'', cr_confirmed_at = dd_time\<rparr>\<rparr>"

text \<open>A state of the day before, in caution and open, or closed and cooled.\<close>

definition dd_state :: "risk_state \<Rightarrow> epoch_status \<Rightarrow> drawdown_state" where
  "dd_state risk status =
     \<lparr>ds_decision_id = ''D0'', ds_epoch_id = ''E1'', ds_portfolio_id = ''PF'', ds_authorization_id = ''AU1'',
      ds_account_ids = [''A''], ds_cutoff_at = plus_days dd_time (- 1),
      ds_accounting_cutoff_at = plus_days dd_time (- 1), ds_policy = dd_policy,
      ds_thresholds = rb_drawdown demo_budget, ds_net_liquidation_equity = Some 100, ds_units = 100,
      ds_unit_nav = Some 1, ds_high_water_nav = 1, ds_maximum_drawdown = 1 / 10,
      ds_current_drawdown = Some 0, ds_risk_state = risk, ds_new_exposure_blocked = True,
      ds_valuation = dc_valuation (dd_command OPEN), ds_current_stock_exposure = Some 0,
      ds_stock_exposure_limit = None, ds_risk_direction = None, ds_execution_blocked = False,
      ds_stock_exposure_target_value = None, ds_recovery_sessions = 0, ds_last_recovery_session = None,
      ds_last_observed_session = None, ds_exact_units = from_fraction 100, ds_exact_peak = from_fraction 1,
      ds_processed_transfers = [], ds_processed_stock_events = [], ds_processed_flow_ids = [],
      ds_epoch_status = status,
      ds_closed_at = (if status = EPOCH_CLOSED then Some (plus_days dd_time (- 2)) else None),
      ds_cooling_sessions = 1, ds_previous_epoch_id = None, ds_reauthorization = None\<rparr>"

definition dd_history :: "risk_state \<Rightarrow> epoch_status \<Rightarrow> drawdown_outcome list" where
  "dd_history risk status =
     [\<lparr>do_disposition = ACCEPTED, do_reasons = [''DRAWDOWN_OBSERVED''], do_state = Some (dd_state risk status)\<rparr>]"

lemma dd_command_fields [simp]:
  "dc_operation (dd_command operation) = operation" "dc_portfolio_id (dd_command operation) = ''PF''"
  "dc_authorization_id (dd_command operation) = ''AU2''"
  "dc_epoch_id (dd_command operation) = (if operation = REAUTHORIZE then ''E2'' else ''E1'')"
  "dc_previous_decision_id (dd_command operation) = (if operation = OPEN then None else Some ''D0'')"
  "dc_cutoff_at (dd_command operation) = dd_time" "dc_policy (dd_command operation) = dd_policy"
  "dc_capital_flows (dd_command operation) = []" "dc_market_session_ordinal (dd_command operation) = Some 6101"
  "dc_reauthorization (dd_command operation) = Some \<lparr>cr_confirmation_id = ''CF1'', cr_authorization_id = ''AU2'',
        cr_previous_epoch_id = ''E1'', cr_epoch_id = ''E2'', cr_confirmed_at = dd_time\<rparr>"
  by (simp_all add: dd_command_def)

lemma dd_state_fields [simp]:
  "ds_decision_id (dd_state risk status) = ''D0''" "ds_epoch_id (dd_state risk status) = ''E1''"
  "ds_portfolio_id (dd_state risk status) = ''PF''" "ds_account_ids (dd_state risk status) = [''A'']"
  "ds_authorization_id (dd_state risk status) = ''AU1''"
  "ds_cutoff_at (dd_state risk status) = plus_days dd_time (- 1)" "ds_policy (dd_state risk status) = dd_policy"
  "ds_risk_state (dd_state risk status) = risk" "ds_epoch_status (dd_state risk status) = status"
  "ds_closed_at (dd_state risk status) =
     (if status = EPOCH_CLOSED then Some (plus_days dd_time (- 2)) else None)"
  "ds_cooling_sessions (dd_state risk status) = 1" "ds_previous_epoch_id (dd_state risk status) = None"
  "ds_last_observed_session (dd_state risk status) = None" "ds_recovery_sessions (dd_state risk status) = 0"
  "ds_last_recovery_session (dd_state risk status) = None"
  by (simp_all add: dd_state_def)

lemma dd_authorization_fields [simp]:
  "pa_authorization_id dd_authorization = ''AU2''"
  "cf_confirmed_at (pa_confirmation dd_authorization) = dd_time"
  "rb_drawdown (pp_risk_budget (pa_proposal dd_authorization)) = rb_drawdown demo_budget"
  by (simp_all add: dd_authorization_def)

lemma dd_calendar: "find_market_calendar ''synthetic-market-calendar-v1'' = Some market_calendar_v1"
  by (simp add: find_market_calendar_def synthetic_market_calendars_def capital_calendar_v1_def
      market_calendar_v1_def)

lemma dd_time_later: "plus_days dd_time (- 1) < dd_time" "dd_time < add_calendar_months dd_time 6"
  by (simp add: plus_days_def us_per_day_def) (rule add_six_months_later)

lemma dd_evidence_clean: "problem_codes dd_evidence dd_time True = []"
  by (simp add: problem_codes_def dd_evidence_def demo_evidence_def str_missing_def)

lemma dd_capital:
  "requested_capital (dd_command operation) dd_authorizations = Some dd_authorization"
  "effective_capital (dd_command operation) dd_authorizations = Some dd_authorization"
  "\<not> capital_scope_invalid (dd_command operation) [''A''] dd_authorization"
  using dd_time_later
  by (auto simp: requested_capital_def effective_capital_def last_such_def dd_authorizations_def
      List.map_filter_simps dd_command_def capital_scope_invalid_def Let_def dd_authorization_def
      authorization_evidence_available_by_def proposal_evidence_available_by_def demo_proposal_def
      demo_confirmation_def)

lemma dd_policy_valid: "\<not> drawdown_policy_invalid (dd_command operation) (rb_drawdown demo_budget)"
  by (simp add: drawdown_policy_invalid_def dd_command_def dd_policy_def dd_calendar demo_budget_def)

lemma dd_evidence_known:
  assumes "accounting_currencies (dd_command operation) [''A''] dd_authorizations dd_authorization prior = {''USD''}"
  shows "drawdown_evidence (dd_command operation) [''A'']
    (accounting_currencies (dd_command operation) [''A''] dd_authorizations dd_authorization prior)
    (Some dd_position) = Some (dd_position, 100)"
  unfolding assms
  by (simp add: drawdown_evidence_def dd_position_def dd_command_def dd_evidence_clean dd_cash_def
      account_cash_state_of_def Let_def demo_account_def dsub_def capital_precision_def)

lemma dd_currencies:
  "accounting_currencies (dd_command operation) [''A''] dd_authorizations dd_authorization prior = {''USD''}"
  by (auto simp: accounting_currencies_def Let_def dd_authorizations_def List.map_filter_simps
      dd_authorization_def demo_proposal_def split: option.split)

lemma dd_capital_for:
  "capital_for (dd_command operation) prior dd_authorizations dd_authorization = dd_authorization"
  by (simp add: capital_for_def dd_capital split: option.split)

lemma dd_last_state:
  "last_state (dd_history risk status) = Some (dd_state risk status)"
  "last_state [] = None"
  by (simp_all add: last_state_def dd_history_def List.map_filter_simps)

lemma dd_denial:
  "drawdown_denial (dd_command OPEN) [''A''] dd_authorization None [] = None"
  "drawdown_denial (dd_command OBSERVE) [''A''] dd_authorization (Some (dd_state CAUTION EPOCH_OPEN))
     (dd_history CAUTION EPOCH_OPEN) = None"
  "drawdown_denial (dd_command REAUTHORIZE) [''A''] dd_authorization (Some (dd_state PRESERVATION EPOCH_CLOSED))
     (dd_history PRESERVATION EPOCH_CLOSED) = None"
  using dd_time_later(1)
  by (simp_all add: drawdown_denial_def dd_capital dd_policy_valid epoch_revision_conflict_def
      reauthorization_invalid_def dd_history_def) (simp add: dd_policy_def)

lemma dd_no_flows:
  "adjusted_units (dd_command OBSERVE) (dd_state CAUTION EPOCH_OPEN) dd_position before_positions =
     Inr \<lparr>ua_units = 100, ua_peak = 1, ua_flow_ids = [], ua_interval_drawdown = 0\<rparr>"
  by (simp add: adjusted_units_def flow_coverage_reason_def dd_state_def dd_command_def transfer_keys_def
      dd_position_def Let_def)

lemma dd_zero: "fully_reconciled_zero (po_snapshot dd_position)" "stock_events (po_snapshot dd_position) = []"
  by (simp_all add: fully_reconciled_zero_def stock_events_def dd_position_def dd_cash_def)

lemma dd_opened:
  "adjudicate_drawdown (dd_command OPEN) ''D1'' [''A''] dd_authorizations (Some dd_position) [] True (\<lambda>_. None) =
   Some (observed_outcome (dd_command OPEN) ''D1'' [''A''] dd_authorization dd_position 100 False None None
     (opening_accounting 100))"
  by (simp add: adjudicate_drawdown_def dd_capital dd_capital_for dd_denial dd_last_state dd_currencies
      dd_evidence_known [OF dd_currencies, unfolded dd_currencies] adjudicate_observation_def Let_def dd_zero)

lemma dd_recovering:
  "adjudicate_drawdown (dd_command OBSERVE) ''D1'' [''A''] dd_authorizations (Some dd_position)
     (dd_history CAUTION EPOCH_OPEN) True (\<lambda>_. None) =
   Some (observed_outcome (dd_command OBSERVE) ''D1'' [''A''] dd_authorization dd_position 100 False None
     (Some (dd_state CAUTION EPOCH_OPEN))
     \<lparr>ua_units = 100, ua_peak = 1, ua_flow_ids = [], ua_interval_drawdown = 0\<rparr>)"
  by (simp add: adjudicate_drawdown_def dd_capital dd_capital_for dd_denial dd_last_state dd_currencies
      dd_evidence_known [OF dd_currencies, unfolded dd_currencies] adjudicate_observation_def Let_def dd_zero
      dd_no_flows)

lemma dd_reauthorized:
  "adjudicate_drawdown (dd_command REAUTHORIZE) ''D1'' [''A''] dd_authorizations (Some dd_position)
     (dd_history PRESERVATION EPOCH_CLOSED) True (\<lambda>_. None) =
   Some (observed_outcome (dd_command REAUTHORIZE) ''D1'' [''A''] dd_authorization dd_position 100 False
     (Some ''E1'') None (opening_accounting 100))"
  by (simp add: adjudicate_drawdown_def dd_capital dd_capital_for dd_denial dd_last_state dd_currencies
      dd_evidence_known [OF dd_currencies, unfolded dd_currencies] adjudicate_observation_def Let_def dd_zero
      new_stock_events_def)

lemma dd_observed: "do_state (observed_outcome c e acc a pos q cd pre prior acct) =
    Some (observed_state c e acc a pos q cd pre prior acct)"
  by (simp add: observed_outcome_def)

definition dd_open_state :: drawdown_state where
  "dd_open_state = observed_state (dd_command OPEN) ''D1'' [''A''] dd_authorization dd_position 100 False None None
     (opening_accounting 100)"

lemma dd_open_state_fields:
  "ds_net_liquidation_equity dd_open_state = Some 100" "fraction_of (ds_exact_units dd_open_state) = 100"
  "fraction_of (ds_exact_peak dd_open_state) = 1" "ds_thresholds dd_open_state = rb_drawdown demo_budget"
  "\<not> ds_new_exposure_blocked dd_open_state"
  using dd_time_later(2)
  by (simp_all add: dd_open_state_def observed_state_def Let_def split_beta opening_accounting_def unit_value_def
      peak_after_def drawdown_from_def interval_after_def risk_after_def escalated_risk_def epoch_after_def
      demo_budget_def dd_authorization_def)

text \<open>The session of the command is the first one of the calendar, observed at its close.\<close>

lemma dd_session:
  "observed_session (dd_command operation) (po_snapshot dd_position) = Some \<lparr>ms_ordinal = 6101, ms_closed_at = dd_time\<rparr>"
proof -
  have "utc_at 2042 5 20 15 < utc_at 2042 5 21 15" by code_simp
  then show ?thesis
    by (simp add: observed_session_def command_session_def dd_policy_def dd_calendar session_for_def
        next_session_after_def market_calendar_v1_def dd_position_def evidence_clock_def dd_evidence_def dd_time_def)
qed

definition dd_recovered_state :: drawdown_state where
  "dd_recovered_state = observed_state (dd_command OBSERVE) ''D1'' [''A''] dd_authorization dd_position 100 False None
     (Some (dd_state CAUTION EPOCH_OPEN))
     \<lparr>ua_units = 100, ua_peak = 1, ua_flow_ids = [], ua_interval_drawdown = 0\<rparr>"

lemma dd_recovered: "ds_risk_state dd_recovered_state = RISK_NORMAL"
proof -
  have "gate_clear (dd_command OBSERVE)" by (simp add: gate_clear_def dd_evidence_clean) (simp add: dd_command_def dd_evidence_clean)
  moreover have "escalated_risk (rb_drawdown demo_budget) 0 CAUTION = CAUTION"
    "recovery_eligible dd_policy (rb_drawdown demo_budget) CAUTION 0 0 0 100"
    by (simp_all add: escalated_risk_def recovery_eligible_def demo_budget_def dd_policy_def)
  moreover have "stock_exposure (po_snapshot dd_position) = 0"
    by (simp add: stock_exposure_def dd_position_def)
  ultimately show ?thesis
    by (simp add: dd_recovered_state_def observed_state_def Let_def split_beta unit_value_def peak_after_def
        drawdown_from_def interval_after_def risk_after_def dd_session invalid_period_def new_close_def
        recovered_risk_def) (simp add: dd_policy_def)
qed

theorem drawdown_escalates_witness:
  "required_rank (rb_drawdown demo_budget) 0 \<le> risk_rank (ds_risk_state dd_open_state)"
proof -
  have "validate_drawdown_threshold_order (ds_thresholds dd_open_state) = None"
    by (simp add: dd_open_state_fields validate_drawdown_threshold_order_def demo_budget_def)
  then show ?thesis
    using drawdown_escalates [OF dd_opened dd_observed, folded dd_open_state_def, of 100 0]
    by (simp add: dd_open_state_fields)
qed

theorem drawdown_fails_closed_witness:
  "\<not> ds_new_exposure_blocked dd_open_state \<and> ds_risk_state dd_open_state = RISK_NORMAL \<and>
   ds_epoch_status dd_open_state = EPOCH_OPEN"
  using drawdown_fails_closed [OF dd_opened dd_observed, folded dd_open_state_def] dd_open_state_fields(5)
  by blast

theorem risk_recovers_by_sessions_witness:
  "ds_risk_state dd_recovered_state = RISK_NORMAL \<and> gate_clear (dd_command OBSERVE)"
  using risk_recovers_by_sessions [OF dd_recovering dd_last_state(1) _ dd_observed, folded dd_recovered_state_def]
    dd_recovered by simp

theorem reauthorization_opens_new_epoch_witness:
  "\<exists>p. last_state (dd_history PRESERVATION EPOCH_CLOSED) = Some p \<and> ds_epoch_status p = EPOCH_CLOSED \<and>
     dp_cooling_sessions (ds_policy p) \<le> ds_cooling_sessions p"
  using reauthorization_opens_new_epoch [OF dd_reauthorized] by (auto simp: observed_outcome_def)

theorem unknown_evidence_retains_protection_witness:
  "\<exists>outcome s. adjudicate_drawdown (dd_command OBSERVE) ''D1'' [''A''] dd_authorizations None
     (dd_history CAUTION EPOCH_OPEN) True (\<lambda>_. None) = Some outcome \<and> do_state outcome = Some s \<and>
     retained_state (dd_state CAUTION EPOCH_OPEN) s \<and> ds_new_exposure_blocked s"
proof -
  have out: "adjudicate_drawdown (dd_command OBSERVE) ''D1'' [''A''] dd_authorizations None
     (dd_history CAUTION EPOCH_OPEN) True (\<lambda>_. None) =
     Some (unknown_evidence (Some (dd_state CAUTION EPOCH_OPEN)) (dd_command OBSERVE) ''D1'' ''DRAWDOWN_EVIDENCE_UNKNOWN'')"
    by (simp add: adjudicate_drawdown_def dd_capital dd_capital_for dd_denial dd_last_state drawdown_evidence_def)
  from unknown_evidence_retains_protection [OF this]
  show ?thesis by (simp add: dd_last_state out) (auto simp: unknown_evidence_def)
qed

theorem drawdown_history_invariant_witness:
  "sound_state dd_open_state"
proof -
  let ?outcome = "observed_outcome (dd_command OPEN) ''D1'' [''A''] dd_authorization dd_position 100 False None None
     (opening_accounting 100)"
  have "drawdown_reachable ([] @ [?outcome])"
    by (rule drawdown_reachable.adjudicated [OF drawdown_reachable.empty dd_opened])
  moreover have "recorded_states [?outcome] = [dd_open_state]"
    by (simp add: recorded_states_def List.map_filter_simps dd_observed dd_open_state_def)
  ultimately show ?thesis using drawdown_history_invariant [of "[?outcome]"] by simp
qed

text \<open>A deposit of fifty into an account worth a hundred in a hundred units.\<close>

definition dd_deposit :: authoritative_ledger_entry where
  "dd_deposit = (authoritative_entry ''A'' demo_entry)
     \<lparr>le_entry_type := TRANSFER_IN, le_quantity_delta := 0, le_cash_delta := 50, le_occurred_at := dd_time\<rparr>"

definition dd_deposited :: position_reconciliation_outcome where
  "dd_deposited = dd_position\<lparr>po_snapshot := (po_snapshot dd_position)
     \<lparr>rs_total_account_equity := Some 150, rs_authoritative_ledger := [dd_deposit]\<rparr>\<rparr>"

definition dd_flow :: capital_flow where
  "dd_flow = \<lparr>fl_flow_id = ''F1'', fl_kind = EXTERNAL, fl_occurred_at = dd_time,
     fl_before_valuation = dc_valuation (dd_command OPEN), fl_ledger_keys = [ledger_key dd_deposit]\<rparr>"

lemma dd_flow_values:
  "equity_for (fl_before_valuation dd_flow) (Some dd_position) [''A''] ''USD'' dd_time = Inr 100"
  "flow_amount dd_deposited [(ledger_key dd_deposit, dd_deposit)] dd_time [ledger_key dd_deposit] 0 = Inr 50"
  by (simp_all add: equity_for_def dd_flow_def dd_command_def dd_position_def dd_cash_def account_cash_state_of_def
      Let_def demo_account_def dd_evidence_clean valuation_evidence_def entry_amount_def dd_deposit_def demo_entry_def
      authoritative_entry_def)
    (simp_all add: dd_evidence_def demo_evidence_def position_ledger_entry.defs)

lemma dd_flow_accounting:
  "adjusted_units ((dd_command OBSERVE)\<lparr>dc_capital_flows := [dd_flow]\<rparr>) (dd_state CAUTION EPOCH_OPEN) dd_deposited
     (\<lambda>_. Some dd_position) =
   Inr \<lparr>ua_units = 150, ua_peak = 1, ua_flow_ids = [''F1''], ua_interval_drawdown = 0\<rparr>"
proof -
  have keys: "transfer_keys dd_deposited = [ledger_key dd_deposit]" "transfer_keys dd_position = []"
    by (simp_all add: transfer_keys_def dd_deposited_def dd_position_def) (simp add: dd_deposit_def)
  have flow: "fl_ledger_keys dd_flow = [ledger_key dd_deposit]" "fl_flow_id dd_flow = ''F1''"
    "fl_kind dd_flow = EXTERNAL" "fl_occurred_at dd_flow = dd_time"
    by (simp_all add: dd_flow_def)
  have state: "fraction_of (ds_exact_units (dd_state CAUTION EPOCH_OPEN)) = 100"
    "fraction_of (ds_exact_peak (dd_state CAUTION EPOCH_OPEN)) = 1"
    "ds_processed_transfers (dd_state CAUTION EPOCH_OPEN) = []"
    "ds_processed_flow_ids (dd_state CAUTION EPOCH_OPEN) = []"
    "ds_accounting_cutoff_at (dd_state CAUTION EPOCH_OPEN) = plus_days dd_time (- 1)"
    by (simp_all add: dd_state_def)
  have position: "rs_cutoff_at (po_snapshot dd_position) = dd_time"
    "rs_valuation_currency (po_snapshot dd_deposited) = ''USD''"
    "rs_authoritative_ledger (po_snapshot dd_deposited) = [dd_deposit]"
    by (simp_all add: dd_deposited_def dd_position_def)
  show ?thesis
    using dd_time_later(1)
    by (simp add: adjusted_units_def flow_coverage_reason_def Let_def keys flow state position dict_of_def
        flow_step_def dd_flow_values del: flow_amount.simps)
qed

theorem capital_flows_keep_unit_value_witness:
  "\<exists>equity amount. 0 < equity \<and> scaled_units 100 [(equity, amount)] = 150 \<and>
     flow_amount dd_deposited [(ledger_key dd_deposit, dd_deposit)] dd_time [ledger_key dd_deposit] 0 = Inr amount"
proof -
  have "dict_of ledger_key (\<lambda>e. e) (rs_authoritative_ledger (po_snapshot dd_deposited)) =
      [(ledger_key dd_deposit, dd_deposit)]"
    by (simp add: dd_deposited_def dict_of_def)
  moreover have "fraction_of (ds_exact_units (dd_state CAUTION EPOCH_OPEN)) = 100" by (simp add: dd_state_def)
  ultimately show ?thesis
    using capital_flows_keep_unit_value [OF dd_flow_accounting refl]
    by (auto simp: list_all2_Cons1 dd_flow_def)
qed

end
