(* ===== verification/Exact_Decimal.thy ===== *)
theory Exact_Decimal
  imports Py_Decimal
begin

text \<open>
  Decimals on which the arithmetic of a context is exact: numbers with \<open>k\<close> decimal places that stay below the
  digits of the context, and whole parts of quotients.
\<close>

definition places :: "nat \<Rightarrow> rat \<Rightarrow> bool" where
  "places k x \<longleftrightarrow> of_int \<lfloor>x * 10 ^ k\<rfloor> = x * 10 ^ k"

lemma places_Ints: "places k x \<longleftrightarrow> x * 10 ^ k \<in> \<int>"
  unfolding places_def by (metis Ints_cases Ints_of_int floor_of_int)

lemma places_add: "places k x \<Longrightarrow> places k y \<Longrightarrow> places k (x + y)"
  by (simp add: places_Ints distrib_right)

lemma places_diff: "places k x \<Longrightarrow> places k y \<Longrightarrow> places k (x - y)"
  by (simp add: places_Ints left_diff_distrib)

lemma places_0 [simp]: "places k 0"
  by (simp add: places_Ints)

lemma places_round:
  assumes "places k x" and "0 \<le> x" and "x * 10 ^ k < 10 ^ p"
  shows "dec_round p x = x"
proof -
  from assms(1) obtain n where n: "x * 10 ^ k = of_int n" by (auto simp: places_Ints elim: Ints_cases)
  then have "x = of_int n * 10 powi (- int k)" by (simp add: power_int_minus field_simps)
  moreover have "\<bar>n\<bar> < 10 ^ p"
  proof -
    have "of_int 0 \<le> (of_int n :: rat)" and "of_int n < (of_int (10 ^ p) :: rat)"
      using assms(2,3) unfolding n [symmetric] by simp_all
    then show ?thesis by (simp only: of_int_less_iff of_int_le_iff)
  qed
  ultimately show ?thesis by (rule dec_round_grid)
qed

lemma dsum_exact:
  assumes "\<forall>x \<in> set xs. 0 \<le> x \<and> places k x" and "sum_list xs * 10 ^ k < 10 ^ p"
  shows "dsum p xs = sum_list xs" and "places k (sum_list xs)"
proof -
  have "dsum p xs = sum_list xs \<and> places k (sum_list xs)" using assms
  proof (induction xs rule: rev_induct)
    case (snoc x xs)
    then have "0 \<le> x" "places k x" by auto
    have nn: "0 \<le> sum_list xs" using snoc.prems by (intro sum_list_nonneg) auto
    from \<open>0 \<le> x\<close> have "sum_list xs * 10 ^ k \<le> sum_list (xs @ [x]) * 10 ^ k"
      by (intro mult_right_mono) simp_all
    from this snoc.prems(2) have "sum_list xs * 10 ^ k < 10 ^ p" by (rule le_less_trans)
    then have IH: "dsum p xs = sum_list xs" "places k (sum_list xs)" using snoc by auto
    then have "dec_round p (sum_list xs + x) = sum_list xs + x"
      using nn \<open>0 \<le> x\<close> \<open>places k x\<close> snoc.prems(2) by (intro places_round [of k]) (auto intro: places_add)
    with IH \<open>places k x\<close> show ?case by (simp add: dsum_def dadd_def places_add)
  qed (simp add: dsum_def)
  then show "dsum p xs = sum_list xs" and "places k (sum_list xs)" by simp_all
qed

subsection \<open>Whole parts of quotients\<close>

text \<open>Where the divisor has at most twenty digits and the quotient at most six, rounding the quotient to at least
  thirty-eight digits does not lift it over a whole number.\<close>

lemma dec_quantum_below:
  assumes "0 < x" and "x < 10 ^ m" and "m < p"
  shows "dec_quantum p x \<le> 10 powi (int m - int p)"
proof -
  have "10 powi adjusted x < (10::rat) powi int m"
    using adjusted_bounds(1) [of x] assms by simp
  then have "adjusted x < int m" by (rule powi_10_less_cancel)
  then show ?thesis using assms(1) by (simp add: dec_quantum_def powi_10_mono)
qed

lemma floor_rounded_quotient:
  assumes "0 \<le> a" and "0 < b" and "places k a" and "places k b" and "b * 10 ^ k < 10 ^ 20" and "a / b < 10 ^ 6"
  shows "of_int \<lfloor>dec_round 38 (a / b)\<rfloor> \<le> a / b"
proof (cases "a = 0")
  case False
  then have x: "0 < a / b" using assms(1,2) by simp
  from assms(3) obtain m where m: "a * 10 ^ k = of_int m" by (auto simp: places_Ints elim: Ints_cases)
  from assms(4) obtain n where n: "b * 10 ^ k = of_int n" by (auto simp: places_Ints elim: Ints_cases)
  have "(0::rat) < of_int n" unfolding n [symmetric] using assms(2) by simp
  then have n0: "0 < n" by simp
  have ratio: "a / b = of_int m / of_int n" unfolding m [symmetric] n [symmetric] by simp
  let ?r = "dec_round 38 (a / b)"
  have "\<bar>?r - a / b\<bar> \<le> dec_quantum 38 (a / b) / 2" using False assms(2) by (intro dec_round_error) simp
  also have "dec_quantum 38 (a / b) \<le> 10 powi (int 6 - int 38)" using x assms(6) by (intro dec_quantum_below) auto
  also have "(10::rat) powi (int 6 - int 38) / 2 < 1 / 10 ^ 20" by (simp add: power_int_minus field_simps)
  also have "1 / 10 ^ 20 < 1 / (of_int n :: rat)"
    using assms(5) n0 unfolding n by (intro divide_strict_left_mono) auto
  finally have close: "?r - a / b < 1 / of_int n" by linarith
  show ?thesis
  proof (rule ccontr)
    assume "\<not> of_int \<lfloor>?r\<rfloor> \<le> a / b"
    then have "of_int m < of_int \<lfloor>?r\<rfloor> * (of_int n :: rat)" using n0 by (simp add: ratio not_le pos_divide_less_eq)
    then have "m < \<lfloor>?r\<rfloor> * n" by (metis of_int_less_iff of_int_mult)
    then have "m + 1 \<le> \<lfloor>?r\<rfloor> * n" by simp
    then have "(of_int (m + 1) :: rat) \<le> of_int (\<lfloor>?r\<rfloor> * n)" by (simp only: of_int_le_iff)
    then have "of_int m + 1 \<le> of_int \<lfloor>?r\<rfloor> * (of_int n :: rat)" by simp
    then have "of_int m / of_int n + 1 / of_int n \<le> (of_int \<lfloor>?r\<rfloor> :: rat)"
      using n0 by (simp add: pos_divide_le_eq flip: add_divide_distrib)
    also have "\<dots> \<le> ?r" by simp
    finally show False using close by (simp add: ratio)
  qed
qed simp

end
