(* ===== verification/Max_Flow.thy ===== *)
theory Max_Flow
  imports Exact_Decimal "HOL-Library.Monad_Syntax"
begin

text \<open>
  \<open>_add_edge\<close> and \<open>_maximum_flow\<close> of \<open>portfolio/liquidity_funding.py\<close>: the maximum flow through a
  residual graph by shortest augmenting paths.  A graph is a dictionary of dictionaries in insertion
  order, because the order decides which of several shortest paths is augmented.  The loops that need an
  argument to end are \<open>partial_function (option)\<close>: \<open>None\<close> is a \<open>KeyError\<close> or a run that never ends.
\<close>

type_synonym node = "str \<times> str"
type_synonym edges = "(node \<times> decimal) list"
type_synonym 'n network = "('n \<times> ('n \<times> decimal) list) list"
type_synonym graph = "node network"

definition source_node :: node where "source_node = (''source'', '''')"
definition sink_node :: node where "sink_node = (''sink'', '''')"

definition add_edge :: "nat \<Rightarrow> 'n network \<Rightarrow> 'n \<Rightarrow> 'n \<Rightarrow> decimal \<Rightarrow> 'n network" where
  "add_edge p graph source target capacity =
     (let old = dict_get (dict_get graph source []) target 0;
          g1 = dict_setdefault source [] graph;
          g2 = AList.update source (AList.update target (dadd p old capacity) (dict_get g1 source [])) g1;
          g3 = dict_setdefault target [] g2
      in AList.update target (dict_setdefault source 0 (dict_get g3 target [])) g3)"

record search =
  se_parents :: "(node \<times> node) list"
  se_queue :: "node list"
  se_visited :: "node set"

definition start_search :: search where
  "start_search = \<lparr>se_parents = [], se_queue = [source_node], se_visited = {source_node}\<rparr>"

fun visit_edge :: "node \<Rightarrow> search \<Rightarrow> node \<times> decimal \<Rightarrow> search" where
  "visit_edge source s (target, capacity) =
     (if 0 < capacity \<and> target \<notin> se_visited s
      then s\<lparr>se_visited := insert target (se_visited s),
             se_parents := AList.update target source (se_parents s),
             se_queue := se_queue s @ [target]\<rparr>
      else s)"

definition targets :: "'n network \<Rightarrow> 'n set" where
  "targets graph = (\<Union>(u, es) \<in> set graph. fst ` set es)"

lemma finite_targets [simp]: "finite (targets graph)"
  by (auto simp: targets_def)

definition search_measure :: "graph \<Rightarrow> search \<Rightarrow> nat" where
  "search_measure graph s = card (targets graph - se_visited s) + length (se_queue s)"

lemma visit_edge_measure:
  assumes "fst e \<in> targets graph"
  shows "search_measure graph (visit_edge u s e) = search_measure graph s"
proof (cases e)
  case (Pair target capacity)
  show ?thesis
  proof (cases "0 < capacity \<and> target \<notin> se_visited s")
    case True
    then have "target \<in> targets graph - se_visited s" using assms Pair by auto
    then have "Suc (card (targets graph - se_visited s - {target})) = card (targets graph - se_visited s)"
      by (intro card_Suc_Diff1) simp_all
    moreover have "targets graph - insert target (se_visited s) = targets graph - se_visited s - {target}"
      by auto
    ultimately show ?thesis using True Pair by (simp add: search_measure_def)
  qed (use Pair in auto)
qed

lemma visit_edges_measure:
  assumes "fst ` set es \<subseteq> targets graph"
  shows "search_measure graph (foldl (visit_edge u) s es) = search_measure graph s"
  using assms by (induction es arbitrary: s) (auto simp: visit_edge_measure)

function breadth_first :: "graph \<Rightarrow> search \<Rightarrow> search option" where
  "breadth_first graph s =
     (case se_queue s of
        [] \<Rightarrow> Some s
      | source # queue \<Rightarrow>
          if sink_node \<in> se_visited s then Some s
          else case map_of graph source of
                 None \<Rightarrow> None
               | Some edges \<Rightarrow>
                   breadth_first graph (foldl (visit_edge source) (s\<lparr>se_queue := queue\<rparr>) edges))"
  by pat_completeness auto
termination
proof (relation "measure (\<lambda>(graph, s). search_measure graph s)")
  fix graph :: graph and s :: search and source queue and edges :: edges
  assume "se_queue s = source # queue" and "map_of graph source = Some edges"
  then have "(source, edges) \<in> set graph" by (simp add: map_of_SomeD)
  then have "fst ` set edges \<subseteq> targets graph" 
    using UN_upper [of "(source, edges)" "set graph" "\<lambda>(u, es). fst ` set es"] by (simp add: targets_def)
  then show "((graph, foldl (visit_edge source) (s\<lparr>se_queue := queue\<rparr>) edges), graph, s)
      \<in> measure (\<lambda>(graph, s). search_measure graph s)"
    using \<open>se_queue s = source # queue\<close> by (simp add: visit_edges_measure) (simp add: search_measure_def)
qed simp

declare breadth_first.simps [simp del] visit_edge.simps [simp del]

definition edge_capacity :: "'n network \<Rightarrow> 'n \<Rightarrow> 'n \<Rightarrow> decimal option" where
  "edge_capacity graph source target = do { es \<leftarrow> map_of graph source; map_of es target }"

definition set_capacity :: "'n network \<Rightarrow> 'n \<Rightarrow> 'n \<Rightarrow> decimal \<Rightarrow> 'n network" where
  "set_capacity graph source target c =
     AList.update source (AList.update target c (dict_get graph source [])) graph"

partial_function (option) path_capacities ::
    "graph \<Rightarrow> (node \<times> node) list \<Rightarrow> node \<Rightarrow> decimal list option" where
  "path_capacities graph parents target =
     (if target = source_node then Some []
      else case map_of parents target of
        None \<Rightarrow> None
      | Some source \<Rightarrow>
          (case edge_capacity graph source target of
             None \<Rightarrow> None
           | Some capacity \<Rightarrow>
               do { capacities \<leftarrow> path_capacities graph parents source; Some (capacity # capacities) }))"

partial_function (option) augment_path ::
    "nat \<Rightarrow> decimal \<Rightarrow> (node \<times> node) list \<Rightarrow> node \<Rightarrow> graph \<Rightarrow> graph option" where
  "augment_path p amount parents target graph =
     (if target = source_node then Some graph
      else case map_of parents target of
        None \<Rightarrow> None
      | Some source \<Rightarrow>
          (case edge_capacity graph source target of
             None \<Rightarrow> None
           | Some forward \<Rightarrow>
               (case edge_capacity (set_capacity graph source target (dsub p forward amount)) target source of
                  None \<Rightarrow> None
                | Some backward \<Rightarrow>
                    augment_path p amount parents source
                      (set_capacity (set_capacity graph source target (dsub p forward amount))
                        target source (dadd p backward amount)))))"

partial_function (option) flow_loop :: "nat \<Rightarrow> decimal \<Rightarrow> graph \<Rightarrow> (decimal \<times> graph) option" where
  "flow_loop p flow graph =
     (case breadth_first graph start_search of
        None \<Rightarrow> None
      | Some s \<Rightarrow>
          if sink_node \<notin> se_visited s then Some (flow, graph)
          else (case path_capacities graph (se_parents s) sink_node of
                  None \<Rightarrow> None
                | Some capacities \<Rightarrow>
                    (case augment_path p (Min (set capacities)) (se_parents s) sink_node graph of
                       None \<Rightarrow> None
                     | Some graph' \<Rightarrow> flow_loop p (dadd p flow (Min (set capacities))) graph')))"

declare path_capacities.simps [code] augment_path.simps [code] flow_loop.simps [code]

definition maximum_flow :: "nat \<Rightarrow> graph \<Rightarrow> (decimal \<times> graph) option" where
  "maximum_flow p graph = flow_loop p 0 graph"

end
