(* ===== verification/Liquidity_Funding.thy ===== *)
theory Liquidity_Funding
  imports Max_Flow Portfolio_Contracts Position_Contracts "HOL-Library.Product_Lexorder"
begin

text \<open>
  \<open>portfolio/liquidity_funding.py\<close>: which part of the dated cash obligations can be funded, from
  transferable cash and hypothetical sales, over transfer routes between accounts.  The network has a node
  for every account at every relevant time; its maximum flow is computed by \<open>Max_Flow\<close>.  Arithmetic runs in
  the context of the caller, so the precision is a parameter.  \<open>None\<close> is a \<open>KeyError\<close> (or a run that never ends).
\<close>

subsection \<open>Texts of numbers and times\<close>

definition digit_char :: "nat \<Rightarrow> char" where
  "digit_char n = ''0123456789'' ! (n mod 10)"

fun nat_str :: "nat \<Rightarrow> str" where
  "nat_str n = (if n < 10 then [digit_char n] else nat_str (n div 10) @ [digit_char n])"

declare nat_str.simps [simp del]

text \<open>A number in at least \<open>w\<close> digits.\<close>

definition padded :: "nat \<Rightarrow> int \<Rightarrow> str" where
  "padded w n = (let s = nat_str (nat n) in replicate (w - length s) CHR ''0'' @ s)"

definition clock_str :: "int \<Rightarrow> bool \<Rightarrow> str" where
  "clock_str us always_seconds =
     padded 2 (us div 3600000000) @ '':'' @ padded 2 (us div 60000000 mod 60) @
     (if always_seconds \<or> us mod 60000000 \<noteq> 0 then '':'' @ padded 2 (us div 1000000 mod 60) else []) @
     (if us mod 1000000 \<noteq> 0 then ''.'' @ padded 6 (us mod 1000000) else [])"

definition isoformat :: "datetime \<Rightarrow> str" where
  "isoformat t =
     (let d = dt_date t in
      padded 4 (year_of d) @ ''-'' @ padded 2 (month_of d) @ ''-'' @ padded 2 (day_of d) @ ''T'' @
      clock_str (dt_time t) True @
      (if utcoffset t < 0 then ''-'' else ''+'') @ clock_str \<bar>utcoffset t\<bar> False)"

subsection \<open>Records\<close>

record sale_funding_terms =
  st_account_id :: str
  st_security_id :: str
  st_minimum_quantity :: decimal
  st_quantity_increment :: decimal
  st_allow_full_odd_lot :: bool
  st_commission_ratio :: decimal
  st_minimum_commission :: decimal
  st_other_cost_ratio :: decimal
  st_transferable_at :: datetime
  st_evidence :: position_evidence

record maximum_funding_leg =
  fl_account_id :: str
  fl_security_id :: str
  fl_quantity :: decimal
  fl_gross_proceeds :: decimal
  fl_disposal_cost :: decimal
  fl_net_proceeds :: decimal
  fl_deadline_funding_contribution :: decimal
  fl_transferable_at :: datetime
  fl_terms :: sale_funding_terms

record cash_transfer_route =
  cr_route_id :: str
  cr_source_account_id :: str
  cr_target_account_id :: str
  cr_departure_at :: datetime
  cr_arrival_at :: datetime
  cr_capacity :: decimal
  cr_evidence :: position_evidence

record obligation_funding =
  of_obligation_id :: str
  of_target_account_id :: str
  of_latest_usable_at :: datetime
  of_required_cash :: decimal
  of_maximum_covered_cash :: decimal
  of_uncovered_gap :: decimal

record funding_assessment =
  fa_reasons :: "str list"
  fa_maximum_fundable_cash :: "decimal option"
  fa_uncovered_gap :: "decimal option"
  fa_plan :: "maximum_funding_leg list"
  fa_obligations :: "obligation_funding list"

record available_cash_resource =
  ar_account_id :: str
  ar_available_at :: datetime
  ar_amount :: decimal

type_synonym cash_resource = "str \<times> datetime \<times> decimal"

subsection \<open>The network\<close>

text \<open>A \<open>for\<close> loop whose body may raise.\<close>

fun loop_option :: "('s \<Rightarrow> 'x \<Rightarrow> 's option) \<Rightarrow> 's \<Rightarrow> 'x list \<Rightarrow> 's option" where
  "loop_option f s [] = Some s"
| "loop_option f s (x # xs) = (case f s x of None \<Rightarrow> None | Some s' \<Rightarrow> loop_option f s' xs)"

text \<open>A set of datetimes keeps the first of equal ones.\<close>

fun datetime_set :: "datetime list \<Rightarrow> datetime list" where
  "datetime_set [] = []"
| "datetime_set (t # ts) = t # filter (\<lambda>u. \<not> dt_eq u t) (datetime_set ts)"

definition funding_times ::
    "cash_resource list \<Rightarrow> cash_transfer_route list \<Rightarrow> dated_cash_obligation list \<Rightarrow> datetime list" where
  "funding_times resources routes obligations =
     sort_key instant (datetime_set
       (map (\<lambda>(_, t, _). t) resources @ map cr_departure_at routes @ map cr_arrival_at routes @
        map co_latest_usable_at obligations))"

definition funding_accounts :: "cash_resource list \<Rightarrow> str list" where
  "funding_accounts resources = sort (remdups (map fst resources))"

type_synonym timeline = "((str \<times> int) \<times> node) list"

definition timeline_of :: "str list \<Rightarrow> datetime list \<Rightarrow> timeline" where
  "timeline_of accounts moments =
     concat (map (\<lambda>account. map (\<lambda>t. ((account, instant t), (''account'', account @ '':'' @ isoformat t))) moments) accounts)"

definition timeline_node :: "timeline \<Rightarrow> str \<Rightarrow> datetime \<Rightarrow> node option" where
  "timeline_node timeline account t = map_of timeline (account, instant t)"

definition waiting_edges ::
    "nat \<Rightarrow> decimal \<Rightarrow> timeline \<Rightarrow> str list \<Rightarrow> datetime list \<Rightarrow> graph \<Rightarrow> graph option" where
  "waiting_edges p total_cash timeline accounts moments graph =
     loop_option (\<lambda>g account.
       loop_option (\<lambda>g (before, after). do {
           source \<leftarrow> timeline_node timeline account before;
           target \<leftarrow> timeline_node timeline account after;
           Some (add_edge p g source target total_cash)
         }) g (zip moments (tl moments))) graph accounts"

definition resource_node :: "nat \<Rightarrow> node" where
  "resource_node index = (''resource'', nat_str index)"

definition resource_edges :: "nat \<Rightarrow> timeline \<Rightarrow> cash_resource list \<Rightarrow> graph \<Rightarrow> graph option" where
  "resource_edges p timeline resources graph =
     loop_option (\<lambda>g (index, account, t, amount). do {
         target \<leftarrow> timeline_node timeline account t;
         Some (add_edge p (add_edge p g source_node (resource_node index) amount)
           (resource_node index) target amount)
       }) graph (enumerate 0 resources)"

definition route_node :: "cash_transfer_route \<Rightarrow> node" where
  "route_node route = (''route'', cr_route_id route)"

definition route_edges :: "nat \<Rightarrow> timeline \<Rightarrow> cash_transfer_route list \<Rightarrow> graph \<Rightarrow> graph option" where
  "route_edges p timeline routes graph =
     loop_option (\<lambda>g route. do {
         source \<leftarrow> timeline_node timeline (cr_source_account_id route) (cr_departure_at route);
         target \<leftarrow> timeline_node timeline (cr_target_account_id route) (cr_arrival_at route);
         Some (add_edge p (add_edge p g source (route_node route) (cr_capacity route))
           (route_node route) target (cr_capacity route))
       }) graph (sort_key cr_route_id routes)"

definition obligation_node :: "dated_cash_obligation \<Rightarrow> node" where
  "obligation_node ob = (''obligation'', co_obligation_id ob)"

definition ordered_obligations :: "dated_cash_obligation list \<Rightarrow> dated_cash_obligation list" where
  "ordered_obligations obligations =
     sort_key (\<lambda>ob. (instant (co_latest_usable_at ob), co_obligation_id ob)) obligations"

definition obligation_edges ::
    "nat \<Rightarrow> decimal \<Rightarrow> bool \<Rightarrow> timeline \<Rightarrow> dated_cash_obligation list \<Rightarrow> graph \<Rightarrow> graph option" where
  "obligation_edges p total_cash limited timeline ordered graph =
     loop_option (\<lambda>g ob. do {
         source \<leftarrow> timeline_node timeline (co_target_account_id ob) (co_latest_usable_at ob);
         let capacity = (if limited then co_amount ob else total_cash);
         Some (add_edge p (add_edge p g source (obligation_node ob) capacity)
           (obligation_node ob) sink_node capacity)
       }) graph ordered"

definition funding_network ::
    "nat \<Rightarrow> bool \<Rightarrow> cash_resource list \<Rightarrow> cash_transfer_route list \<Rightarrow> dated_cash_obligation list \<Rightarrow> graph option" where
  "funding_network p limited resources routes obligations =
     (let total_cash = dsum p (map (\<lambda>(_, _, amount). amount) resources);
          moments = funding_times resources routes obligations;
          accounts = funding_accounts resources;
          timeline = timeline_of accounts moments
      in do {
        g \<leftarrow> waiting_edges p total_cash timeline accounts moments [(source_node, []), (sink_node, [])];
        g \<leftarrow> resource_edges p timeline resources g;
        g \<leftarrow> route_edges p timeline routes g;
        obligation_edges p total_cash limited timeline (ordered_obligations obligations) g
      })"

definition obligation_result ::
    "nat \<Rightarrow> graph \<Rightarrow> dated_cash_obligation \<Rightarrow> obligation_funding option" where
  "obligation_result p covered ob = do {
     gap \<leftarrow> edge_capacity covered (obligation_node ob) sink_node;
     Some \<lparr>of_obligation_id = co_obligation_id ob, of_target_account_id = co_target_account_id ob,
       of_latest_usable_at = co_latest_usable_at ob, of_required_cash = co_amount ob,
       of_maximum_covered_cash = dsub p (co_amount ob) gap, of_uncovered_gap = gap\<rparr>
   }"

definition resource_use :: "nat \<Rightarrow> graph \<Rightarrow> nat \<times> cash_resource \<Rightarrow> decimal option" where
  "resource_use p maximum_graph = (\<lambda>(index, _, _, amount). do {
     rest \<leftarrow> edge_capacity maximum_graph source_node (resource_node index);
     Some (dsub p amount rest)
   })"

definition fund_obligations ::
    "nat \<Rightarrow> cash_resource list \<Rightarrow> cash_transfer_route list \<Rightarrow> dated_cash_obligation list \<Rightarrow>
     (decimal \<times> obligation_funding list \<times> decimal list) option" where
  "fund_obligations p resources routes obligations =
     (if obligations = []
      then Some (dsum p (map (\<lambda>(_, _, amount). amount) resources), [], map (\<lambda>(_, _, amount). amount) resources)
      else do {
        covered \<leftarrow> funding_network p True resources routes obligations;
        maximum \<leftarrow> funding_network p False resources routes obligations;
        (_, covered_graph) \<leftarrow> maximum_flow p covered;
        (maximum_cash, maximum_graph) \<leftarrow> maximum_flow p maximum;
        results \<leftarrow> those (map (obligation_result p covered_graph) (ordered_obligations obligations));
        used \<leftarrow> those (map (resource_use p maximum_graph) (enumerate 0 resources));
        Some (maximum_cash, results, used)
      })"

definition assess_available_cash ::
    "nat \<Rightarrow> available_cash_resource list \<Rightarrow> cash_transfer_route list \<Rightarrow> dated_cash_obligation list \<Rightarrow>
     obligation_funding list option" where
  "assess_available_cash p resources routes obligations = do {
     (_, results, _) \<leftarrow> fund_obligations p
       (map (\<lambda>r. (ar_account_id r, ar_available_at r, ar_amount r)) resources) routes obligations;
     Some results
   }"

subsection \<open>The assessment\<close>

definition starts_with :: "str \<Rightarrow> str \<Rightarrow> bool" where
  "starts_with s prefix \<longleftrightarrow> take (length prefix) s = prefix"

definition known_unsellable :: "position_action_unit \<Rightarrow> bool" where
  "known_unsellable unit \<longleftrightarrow>
     au_exact_statistical_action_quantity unit = Some 0 \<or>
     (au_reasons unit \<noteq> [] \<and>
      list_all (\<lambda>reason. starts_with reason ''EXECUTION_RESTRICTION_ACTIVE:'') (au_reasons unit))"

definition funding_failure :: "str \<Rightarrow> funding_assessment" where
  "funding_failure reason =
     \<lparr>fa_reasons = [reason], fa_maximum_fundable_cash = None, fa_uncovered_gap = None, fa_plan = [],
      fa_obligations = []\<rparr>"

definition bad_route :: "reconciled_position_snapshot \<Rightarrow> cash_transfer_route \<Rightarrow> bool" where
  "bad_route snapshot route \<longleftrightarrow>
     (let account_ids = ac_account_id ` set (rs_cash_states snapshot); cutoff = rs_cutoff_at snapshot in
      cr_source_account_id route \<notin> account_ids \<or> cr_target_account_id route \<notin> account_ids \<or>
      cr_source_account_id route = cr_target_account_id route \<or>
      \<not> (cutoff \<le> cr_departure_at route \<and> cr_departure_at route \<le> cr_arrival_at route) \<or>
      problem_codes (cr_evidence route) cutoff True \<noteq> [])"

definition unit_key :: "position_action_unit \<Rightarrow> str \<times> str" where
  "unit_key unit = (au_account_id unit, au_security_id unit)"

definition terms_by_security :: "sale_funding_terms list \<Rightarrow> ((str \<times> str) \<times> sale_funding_terms) list" where
  "terms_by_security terms = dict_of (\<lambda>t. (st_account_id t, st_security_id t)) (\<lambda>t. t) terms"

definition saleable_quantity :: "nat \<Rightarrow> sale_funding_terms \<Rightarrow> position_action_unit \<Rightarrow> decimal \<Rightarrow> decimal" where
  "saleable_quantity p terms unit maximum =
     (if st_allow_full_odd_lot terms \<and> Some maximum = au_total_quantity unit then maximum
      else if maximum < st_minimum_quantity terms then 0
      else dadd p (st_minimum_quantity terms)
        (dmul p (of_int \<lfloor>ddiv p (dsub p maximum (st_minimum_quantity terms)) (st_quantity_increment terms)\<rfloor>)
          (st_quantity_increment terms)))"

text \<open>One turn of the loop over the action units: the plan grows by at most one leg.\<close>

definition funding_leg ::
    "nat \<Rightarrow> reconciled_position_snapshot \<Rightarrow> sale_funding_terms list \<Rightarrow> position_action_unit \<Rightarrow>
     (funding_assessment + maximum_funding_leg list) option" where
  "funding_leg p snapshot terms unit =
     (if known_unsellable unit then Some (Inr [])
      else do {
        term \<leftarrow> map_of (terms_by_security terms) (unit_key unit);
        if problem_codes (st_evidence term) (rs_cutoff_at snapshot) True \<noteq> [] \<or>
           st_transferable_at term < rs_cutoff_at snapshot
        then Some (Inl (funding_failure ''SALE_FUNDING_EVIDENCE_FAILED''))
        else case (au_exact_statistical_action_quantity unit, au_market_price unit) of
          (Some maximum, Some price) \<Rightarrow>
            let quantity = saleable_quantity p term unit maximum;
                gross = dmul p quantity price;
                cost = (if 0 < quantity
                  then dadd p (max (st_minimum_commission term) (dmul p gross (st_commission_ratio term)))
                    (dmul p gross (st_other_cost_ratio term))
                  else 0)
            in if gross \<le> cost then Some (Inr [])
               else Some (Inr [\<lparr>fl_account_id = au_account_id unit, fl_security_id = au_security_id unit,
                 fl_quantity = quantity, fl_gross_proceeds = gross, fl_disposal_cost = cost,
                 fl_net_proceeds = dsub p gross cost, fl_deadline_funding_contribution = 0,
                 fl_transferable_at = st_transferable_at term, fl_terms = term\<rparr>])
        | _ \<Rightarrow> Some (Inl (funding_failure ''SALE_FUNDING_QUANTITY_UNKNOWN''))
      })"

fun funding_plan ::
    "nat \<Rightarrow> reconciled_position_snapshot \<Rightarrow> sale_funding_terms list \<Rightarrow> maximum_funding_leg list \<Rightarrow>
     position_action_unit list \<Rightarrow> (funding_assessment + maximum_funding_leg list) option" where
  "funding_plan p snapshot terms plan [] = Some (Inr plan)"
| "funding_plan p snapshot terms plan (unit # units) =
     (case funding_leg p snapshot terms unit of
        None \<Rightarrow> None
      | Some (Inl failure) \<Rightarrow> Some (Inl failure)
      | Some (Inr legs) \<Rightarrow> funding_plan p snapshot terms (plan @ legs) units)"

definition cash_resources :: "reconciled_position_snapshot \<Rightarrow> cash_resource list" where
  "cash_resources snapshot =
     List.map_filter (\<lambda>cash. map_option (\<lambda>amount. (ac_account_id cash, rs_cutoff_at snapshot, amount))
       (ac_transferable_cash cash)) (rs_cash_states snapshot)"

definition funding_resources ::
    "reconciled_position_snapshot \<Rightarrow> maximum_funding_leg list \<Rightarrow> cash_resource list" where
  "funding_resources snapshot plan =
     cash_resources snapshot @ map (\<lambda>leg. (fl_account_id leg, fl_transferable_at leg, fl_net_proceeds leg)) plan"

definition assess_funding ::
    "nat \<Rightarrow> reconciled_position_snapshot \<Rightarrow> sale_funding_terms list \<Rightarrow> dated_cash_obligation list \<Rightarrow>
     cash_transfer_route list \<Rightarrow> funding_assessment option" where
  "assess_funding p snapshot terms obligations routes =
     (if \<not> distinct (map cr_route_id routes) \<or> list_ex (bad_route snapshot) routes
      then Some (funding_failure ''CASH_TRANSFER_EVIDENCE_FAILED'')
      else
        let by_security = terms_by_security terms;
            captured = unit_key ` set (rs_action_units snapshot);
            required = unit_key ` set (filter (\<lambda>unit. \<not> known_unsellable unit) (rs_action_units snapshot))
        in if length by_security \<noteq> length terms \<or> \<not> required \<subseteq> fst ` set by_security \<or>
              \<not> fst ` set by_security \<subseteq> captured
           then Some (funding_failure ''SALE_FUNDING_TERMS_INCOMPLETE'')
           else do {
             legs \<leftarrow> funding_plan p snapshot terms [] (rs_action_units snapshot);
             case legs of Inl failure \<Rightarrow> Some failure
             | Inr plan \<Rightarrow> do {
                 let resources = funding_resources snapshot plan;
                 (maximum_cash, results, used) \<leftarrow> fund_obligations p resources routes obligations;
                 let contributions = drop (length resources - length plan) used;
                 Some \<lparr>fa_reasons = [], fa_maximum_fundable_cash = Some maximum_cash,
                   fa_uncovered_gap = Some (dsum p (map of_uncovered_gap results)),
                   fa_plan = map (\<lambda>(leg, contribution). leg\<lparr>fl_deadline_funding_contribution := contribution\<rparr>)
                     (filter (\<lambda>(leg, contribution). obligations = [] \<or> 0 < contribution) (zip plan contributions)),
                   fa_obligations = results\<rparr>
               }
           })"

end
