(* ===== verification/Liquidity.thy ===== *)
theory Liquidity
  imports Liquidity_Funding
begin

text \<open>
  \<open>portfolio/liquidity.py\<close>: the cash reserve adjudication.  Receipts of settled obligations are retained over the
  history and reduce what is outstanding; deployable cash is what qualified cash leaves over the reserve and
  all outstanding obligations; a shortfall opens a remediation that stays until cash or a receipt confirms the
  restoration.  Decimals have 38 digits.  \<open>None\<close> as the result of \<open>assess_liquidity\<close> is an uncaught \<open>KeyError\<close> of
  the funding assessment.
\<close>

definition liquidity_precision :: nat where "liquidity_precision = 38"

abbreviation ladd :: "decimal \<Rightarrow> decimal \<Rightarrow> decimal" where "ladd \<equiv> dadd liquidity_precision"
abbreviation lsub :: "decimal \<Rightarrow> decimal \<Rightarrow> decimal" where "lsub \<equiv> dsub liquidity_precision"
abbreviation lmul :: "decimal \<Rightarrow> decimal \<Rightarrow> decimal" where "lmul \<equiv> dmul liquidity_precision"
abbreviation lsum :: "decimal list \<Rightarrow> decimal" where "lsum \<equiv> dsum liquidity_precision"

record settled_obligation_coverage =
  so_receipt_id :: str
  so_obligation_id :: str
  so_amount :: decimal
  so_evidence :: position_evidence

definition coverage_eq :: "settled_obligation_coverage \<Rightarrow> settled_obligation_coverage \<Rightarrow> bool" where
  "coverage_eq a b \<longleftrightarrow>
     so_receipt_id a = so_receipt_id b \<and> so_obligation_id a = so_obligation_id b \<and> so_amount a = so_amount b \<and>
     evidence_eq (so_evidence a) (so_evidence b)"

record liquidity_command =
  lc_generator_version :: str
  lc_seed :: int
  lc_portfolio_id :: str
  lc_authorization_id :: str
  lc_position_snapshot :: position_snapshot_command
  lc_expected_purchase_fees :: decimal
  lc_expected_liquidation_fees :: decimal
  lc_sale_terms :: "sale_funding_terms list"
  lc_transfer_routes :: "cash_transfer_route list"
  lc_settled_coverage :: "settled_obligation_coverage list"
  lc_cost_evidence :: "position_evidence option"

datatype liquidity_disposition =
  AVAILABLE | ZERO_DEPLOYABLE_CASH | REMEDIATION_REQUIRED | EVIDENCE_FAILED | FUNDING_INFEASIBLE

fun disposition_str :: "liquidity_disposition \<Rightarrow> str" where
  "disposition_str AVAILABLE = ''AVAILABLE''"
| "disposition_str ZERO_DEPLOYABLE_CASH = ''ZERO_DEPLOYABLE_CASH''"
| "disposition_str REMEDIATION_REQUIRED = ''REMEDIATION_REQUIRED''"
| "disposition_str EVIDENCE_FAILED = ''EVIDENCE_FAILED''"
| "disposition_str FUNDING_INFEASIBLE = ''FUNDING_INFEASIBLE''"

record liquidity_outcome =
  lo_disposition :: liquidity_disposition
  lo_reasons :: "str list"
  lo_authorization_id :: str
  lo_protection_authorization :: "portfolio_authorization_outcome option"
  lo_purchase_authorization :: "portfolio_authorization_outcome option"
  lo_position_snapshot :: position_reconciliation_outcome
  lo_net_liquidation_equity :: "decimal option"
  lo_normal_cash_target :: "decimal option"
  lo_hard_cash_floor :: "decimal option"
  lo_qualified_cash :: "decimal option"
  lo_reserved_buy_cash :: "decimal option"
  lo_six_month_obligations :: "decimal option"
  lo_deployable_purchase_cash :: "decimal option"
  lo_remediation_shortfall :: "decimal option"
  lo_remediation_id :: "str option"
  lo_restoration_cash_confirmed :: bool
  lo_retained_remediation_shortfall :: "decimal option"
  lo_maximum_fundable_cash :: "decimal option"
  lo_uncovered_obligation_gap :: "decimal option"
  lo_maximum_funding_plan :: "maximum_funding_leg list"
  lo_obligation_funding :: "obligation_funding list"
  lo_settled_coverage :: "settled_obligation_coverage list"
  lo_new_exposure_blocked :: bool

subsection \<open>The history\<close>

definition outcome_cutoff :: "liquidity_outcome \<Rightarrow> datetime" where
  "outcome_cutoff item = rs_cutoff_at (po_snapshot (lo_position_snapshot item))"

text \<open>\<open>max\<close> by cutoff and position in the history, of the outcomes that satisfy a condition.\<close>

definition latest_outcome :: "(liquidity_outcome \<Rightarrow> bool) \<Rightarrow> liquidity_outcome list \<Rightarrow> liquidity_outcome option" where
  "latest_outcome P history =
     foldl (\<lambda>best item.
       case best of None \<Rightarrow> Some item
       | Some b \<Rightarrow> if outcome_cutoff b \<le> outcome_cutoff item then Some item else best) None (filter P history)"

definition last_cash_assessment :: "liquidity_outcome list \<Rightarrow> str \<Rightarrow> liquidity_outcome option" where
  "last_cash_assessment history remediation_id =
     latest_outcome (\<lambda>item. lo_remediation_id item = Some remediation_id \<and> lo_qualified_cash item \<noteq> None) history"

definition restoration_confirmed ::
    "str \<Rightarrow> position_reconciliation_outcome \<Rightarrow> decimal \<Rightarrow> settled_obligation_coverage list \<Rightarrow>
     liquidity_outcome list \<Rightarrow> bool" where
  "restoration_confirmed remediation_id position qualified_cash coverage history =
     (case last_cash_assessment history remediation_id of
        None \<Rightarrow> False
      | Some progress \<Rightarrow>
          (case lo_qualified_cash progress of
             None \<Rightarrow> False
           | Some before \<Rightarrow>
               if lo_restoration_cash_confirmed progress then True
               else if list_ex (\<lambda>item. so_receipt_id item \<notin> so_receipt_id ` set (lo_settled_coverage progress)) coverage
               then True
               else if qualified_cash \<le> before then False
               else (case find (\<lambda>item. lo_remediation_id item = Some remediation_id) history of
                       None \<Rightarrow> False
                     | Some trigger \<Rightarrow>
                         let original = po_snapshot (lo_position_snapshot trigger);
                             original_entries = (\<lambda>entry. (le_account_id entry, le_entry_id entry)) ` set (rs_authoritative_ledger original)
                         in list_ex (\<lambda>entry. le_entry_type entry = FILL \<and> le_quantity_delta entry < 0 \<and>
                              0 < le_cash_delta entry \<and> rs_cutoff_at original < le_occurred_at entry \<and>
                              (le_account_id entry, le_entry_id entry) \<notin> original_entries)
                              (rs_authoritative_ledger (po_snapshot position)))))"

subsection \<open>Outstanding obligations\<close>

type_synonym receipts = "(str \<times> settled_obligation_coverage) list"

fun retain_receipts ::
    "(settled_obligation_coverage \<Rightarrow> bool) \<Rightarrow> receipts \<Rightarrow> settled_obligation_coverage list \<Rightarrow> receipts option" where
  "retain_receipts valid retained [] = Some retained"
| "retain_receipts valid retained (receipt # receipts) =
     (if \<not> valid receipt \<or>
         (case map_of retained (so_receipt_id receipt) of None \<Rightarrow> False | Some old \<Rightarrow> \<not> coverage_eq old receipt)
      then None
      else retain_receipts valid (AList.update (so_receipt_id receipt) receipt retained) receipts)"

fun settle_receipts :: "(str \<times> decimal) list \<Rightarrow> settled_obligation_coverage list \<Rightarrow> (str \<times> decimal) list option" where
  "settle_receipts remaining [] = Some remaining"
| "settle_receipts remaining (receipt # receipts) =
     (case map_of remaining (so_obligation_id receipt) of
        None \<Rightarrow> None
      | Some open_amount \<Rightarrow>
          let rest = lsub open_amount (so_amount receipt) in
          if rest < 0 then None
          else settle_receipts (AList.update (so_obligation_id receipt) rest remaining) receipts)"

definition outstanding_obligations ::
    "dated_cash_obligation list \<Rightarrow> liquidity_command \<Rightarrow> liquidity_outcome list \<Rightarrow>
     (dated_cash_obligation list \<times> settled_obligation_coverage list) option" where
  "outstanding_obligations obligations command history =
     (case retain_receipts (\<lambda>_. True) [] (concat (map lo_settled_coverage history)) of
        None \<Rightarrow> None
      | Some earlier \<Rightarrow>
          if \<not> distinct (map so_receipt_id (lc_settled_coverage command)) then None
          else (case retain_receipts
                  (\<lambda>receipt. problem_codes (so_evidence receipt) (psc_cutoff_at (lc_position_snapshot command)) False = [])
                  earlier (lc_settled_coverage command) of
                  None \<Rightarrow> None
                | Some retained \<Rightarrow>
                    (case settle_receipts (dict_of co_obligation_id co_amount obligations) (map snd retained) of
                       None \<Rightarrow> None
                     | Some remaining \<Rightarrow>
                         Some (List.map_filter (\<lambda>item. case map_of remaining (co_obligation_id item) of
                                 None \<Rightarrow> None
                               | Some rest \<Rightarrow> if 0 < rest then Some (item\<lparr>co_amount := rest\<rparr>) else None) obligations,
                           map (\<lambda>key. the (map_of retained key)) (sort (map fst retained))))))"

subsection \<open>The assessment\<close>

record liquidity_past =
  lp_prior :: "liquidity_outcome option"
  lp_cash_progress :: "liquidity_outcome option"
  lp_scope_incomplete :: bool

definition liquidity_history_of :: "liquidity_command \<Rightarrow> liquidity_outcome list \<Rightarrow> liquidity_past" where
  "liquidity_history_of command history =
     (let prior = latest_outcome (\<lambda>item. lo_disposition item \<noteq> EVIDENCE_FAILED \<or> lo_remediation_id item \<noteq> None) history;
          remediation = (case prior of None \<Rightarrow> None | Some item \<Rightarrow> lo_remediation_id item);
          progress = (case remediation of None \<Rightarrow> None | Some remediation_id \<Rightarrow> last_cash_assessment history remediation_id);
          incomplete = (remediation \<noteq> None \<and>
            (case progress of None \<Rightarrow> True
             | Some item \<Rightarrow> \<not> ac_account_id ` set (rs_cash_states (po_snapshot (lo_position_snapshot item))) \<subseteq>
                 set (psc_account_ids (lc_position_snapshot command))))
      in \<lparr>lp_prior = (if incomplete then None else prior), lp_cash_progress = progress, lp_scope_incomplete = incomplete\<rparr>)"

definition prior_remediation_id :: "liquidity_past \<Rightarrow> str option" where
  "prior_remediation_id past = (case lp_prior past of None \<Rightarrow> None | Some item \<Rightarrow> lo_remediation_id item)"

definition retained_shortfall :: "liquidity_past \<Rightarrow> decimal option" where
  "retained_shortfall past =
     (case lp_prior past of
        None \<Rightarrow> None
      | Some item \<Rightarrow> (case lo_remediation_shortfall item of
                        Some shortfall \<Rightarrow> Some shortfall | None \<Rightarrow> lo_retained_remediation_shortfall item))"

definition evidence_failure ::
    "liquidity_command \<Rightarrow> portfolio_authorization_outcome \<Rightarrow> portfolio_authorization_outcome \<Rightarrow>
     position_reconciliation_outcome \<Rightarrow> liquidity_past \<Rightarrow> settled_obligation_coverage list \<Rightarrow> str list \<Rightarrow> liquidity_outcome" where
  "evidence_failure command authorization purchase position past coverage reasons =
     \<lparr>lo_disposition = EVIDENCE_FAILED, lo_reasons = reasons, lo_authorization_id = lc_authorization_id command,
      lo_protection_authorization = Some authorization, lo_purchase_authorization = Some purchase,
      lo_position_snapshot = position, lo_net_liquidation_equity = None, lo_normal_cash_target = None,
      lo_hard_cash_floor = None, lo_qualified_cash = None, lo_reserved_buy_cash = None,
      lo_six_month_obligations = None, lo_deployable_purchase_cash = None, lo_remediation_shortfall = None,
      lo_remediation_id = prior_remediation_id past,
      lo_restoration_cash_confirmed = (case lp_cash_progress past of
          None \<Rightarrow> False | Some item \<Rightarrow> \<not> lp_scope_incomplete past \<and> lo_restoration_cash_confirmed item),
      lo_retained_remediation_shortfall = retained_shortfall past, lo_maximum_fundable_cash = None,
      lo_uncovered_obligation_gap = None, lo_maximum_funding_plan = [], lo_obligation_funding = [],
      lo_settled_coverage = coverage, lo_new_exposure_blocked = True\<rparr>"

text \<open>The amounts of the reserve, in the order the source computes them.\<close>

record reserve_figures =
  rf_equity :: decimal
  rf_reserved :: decimal
  rf_qualified :: decimal
  rf_obligations :: decimal
  rf_all_obligations :: decimal
  rf_system_reserve :: decimal
  rf_target :: decimal
  rf_floor :: decimal

definition six_month_horizon :: "datetime \<Rightarrow> datetime" where
  "six_month_horizon cutoff = add_calendar_months cutoff 6"

definition reserve_of ::
    "liquidity_command \<Rightarrow> cash_budget \<Rightarrow> reconciled_position_snapshot \<Rightarrow> decimal \<Rightarrow>
     dated_cash_obligation list \<Rightarrow> reserve_figures" where
  "reserve_of command budget snapshot total_equity outstanding =
     (let equity = lsub total_equity (lc_expected_liquidation_fees command);
          trading = lsum (List.map_filter ac_trading_cash (rs_cash_states snapshot));
          reserved = lsum (List.map_filter (\<lambda>order. if oo_side order = BUY then oo_reserved_cash order else None)
            (rs_unfinished_orders snapshot));
          qualified = max 0 (lsub trading (lc_expected_purchase_fees command));
          horizon = six_month_horizon (rs_cutoff_at snapshot);
          obligations = lsum (map co_amount (filter (\<lambda>item. co_latest_usable_at item \<le> horizon) outstanding));
          all_obligations = lsum (map co_amount outstanding);
          remaining_equity = max 0 (lsub equity obligations);
          system_reserve = lmul remaining_equity (cb_target_ratio budget)
      in \<lparr>rf_equity = equity, rf_reserved = reserved, rf_qualified = qualified, rf_obligations = obligations,
          rf_all_obligations = all_obligations, rf_system_reserve = system_reserve,
          rf_target = ladd obligations system_reserve,
          rf_floor = ladd obligations (lmul remaining_equity (cb_hard_ratio budget))\<rparr>)"

definition final_outcome ::
    "liquidity_command \<Rightarrow> portfolio_authorization_outcome \<Rightarrow> portfolio_authorization_outcome \<Rightarrow>
     position_reconciliation_outcome \<Rightarrow> str \<Rightarrow> liquidity_outcome list \<Rightarrow> liquidity_past \<Rightarrow>
     dated_cash_obligation list \<Rightarrow> settled_obligation_coverage list \<Rightarrow> reserve_figures \<Rightarrow> funding_assessment \<Rightarrow>
     liquidity_outcome" where
  "final_outcome command authorization purchase position event_id history past outstanding coverage f funding =
     (let prior_id = prior_remediation_id past;
          purchase_blocked = (out_disposition purchase \<noteq> APPROVED \<or> rf_equity f \<le> 0);
          free = (if purchase_blocked then 0
            else max 0 (lsub (lsub (rf_qualified f) (rf_system_reserve f)) (rf_all_obligations f)));
          restoration = (if rf_qualified f < rf_floor f \<or> prior_id \<noteq> None
            then max 0 (lsub (rf_target f) (rf_qualified f)) else 0);
          confirmed = (case prior_id of None \<Rightarrow> False
            | Some remediation_id \<Rightarrow> restoration = 0 \<and>
                restoration_confirmed remediation_id position (rf_qualified f) coverage history);
          remediation_active = (0 < restoration \<or> (prior_id \<noteq> None \<and> (fa_reasons funding \<noteq> [] \<or> \<not> confirmed)));
          infeasible = ((outstanding \<noteq> [] \<and> rf_equity f \<le> rf_obligations f) \<or>
            (case fa_uncovered_gap funding of None \<Rightarrow> False | Some gap \<Rightarrow> 0 < gap));
          disposition = (if fa_reasons funding \<noteq> [] then EVIDENCE_FAILED
            else if infeasible then FUNDING_INFEASIBLE
            else if remediation_active then REMEDIATION_REQUIRED
            else if free = 0 then ZERO_DEPLOYABLE_CASH else AVAILABLE);
          deployable = (if fa_reasons funding \<noteq> [] \<or> infeasible \<or> remediation_active then 0 else free)
      in \<lparr>lo_disposition = disposition,
          lo_reasons = [''LIQUIDITY_'' @ disposition_str disposition] @
            (if out_disposition purchase \<noteq> APPROVED then out_reasons purchase else []) @
            (if rf_equity f \<le> 0 then [''NONPOSITIVE_NET_LIQUIDATION_EQUITY''] else []) @
            (if remediation_active \<and> restoration = 0 then [''RESTORATION_CONFIRMATION_REQUIRED''] else []) @
            fa_reasons funding,
          lo_authorization_id = lc_authorization_id command, lo_protection_authorization = Some authorization,
          lo_purchase_authorization = Some purchase, lo_position_snapshot = position,
          lo_net_liquidation_equity = Some (rf_equity f), lo_normal_cash_target = Some (rf_target f),
          lo_hard_cash_floor = Some (rf_floor f), lo_qualified_cash = Some (rf_qualified f),
          lo_reserved_buy_cash = Some (rf_reserved f), lo_six_month_obligations = Some (rf_obligations f),
          lo_deployable_purchase_cash = Some deployable, lo_remediation_shortfall = Some restoration,
          lo_remediation_id = (if remediation_active
            then Some (case prior_id of None \<Rightarrow> event_id | Some r \<Rightarrow> if r = [] then event_id else r) else None),
          lo_restoration_cash_confirmed = confirmed,
          lo_retained_remediation_shortfall = (if fa_reasons funding \<noteq> [] then retained_shortfall past else None),
          lo_maximum_fundable_cash = fa_maximum_fundable_cash funding,
          lo_uncovered_obligation_gap = fa_uncovered_gap funding, lo_maximum_funding_plan = fa_plan funding,
          lo_obligation_funding = fa_obligations funding, lo_settled_coverage = coverage,
          lo_new_exposure_blocked = (rf_qualified f < rf_target f \<or> purchase_blocked \<or> infeasible \<or>
            remediation_active \<or> fa_reasons funding \<noteq> [])\<rparr>)"

definition assess_liquidity ::
    "liquidity_command \<Rightarrow> portfolio_authorization_outcome \<Rightarrow> position_reconciliation_outcome \<Rightarrow>
     portfolio_authorization_outcome \<Rightarrow> str \<Rightarrow> liquidity_outcome list \<Rightarrow> liquidity_outcome option" where
  "assess_liquidity command authorization position purchase event_id history =
     (let past = liquidity_history_of command history;
          failure = evidence_failure command authorization purchase position past;
          snapshot = po_snapshot position
      in if lp_scope_incomplete past then Some (failure [] [''LIQUIDITY_HISTORY_SCOPE_INCOMPLETE''])
         else (case out_usage authorization of
           None \<Rightarrow> Some (failure [] (out_reasons authorization))
         | Some usage \<Rightarrow>
             if \<not> us_allowed usage then Some (failure [] (out_reasons authorization))
             else
               let proposal = pa_proposal (us_authorization_snapshot usage) in
               (case outstanding_obligations (us_unfinished_cash_obligations usage) command history of
                 None \<Rightarrow> Some (failure [] [''SETTLED_OBLIGATION_COVERAGE_INVALID''])
               | Some (outstanding, coverage) \<Rightarrow>
                   if (case lc_cost_evidence command of None \<Rightarrow> True
                       | Some evidence \<Rightarrow> problem_codes evidence (rs_cutoff_at snapshot) True \<noteq> [])
                   then Some (failure coverage [''LIQUIDITY_COST_EVIDENCE_FAILED''])
                   else (case rs_total_account_equity snapshot of
                           None \<Rightarrow> Some (failure coverage [''LIQUIDITY_POSITION_EVIDENCE_FAILED''])
                         | Some total_equity \<Rightarrow>
                             if set (sn_selected_account_ids (pp_snapshot proposal)) \<noteq>
                                  ac_account_id ` set (rs_cash_states snapshot) \<or>
                                po_disposition position \<noteq> RECONCILED
                             then Some (failure coverage [''LIQUIDITY_POSITION_EVIDENCE_FAILED''])
                             else map_option
                               (final_outcome command authorization purchase position event_id history past outstanding
                                 coverage (reserve_of command (rb_cash (pp_risk_budget proposal)) snapshot total_equity outstanding))
                               (assess_funding liquidity_precision snapshot (lc_sale_terms command) outstanding
                                 (lc_transfer_routes command))))))"

end
