(* ===== verification/Flow_Optimal.thy ===== *)
theory Flow_Optimal
  imports Flow_Properties
begin

text \<open>
  Flows and cuts: the flow that \<open>_maximum_flow\<close> leaves behind is a flow of the original graph, and no flow
  has a greater value, provided that the capacities are sums of money the decimal context holds exactly.
\<close>

subsection \<open>Flows and cuts\<close>

definition net :: "('n \<times> 'n) set \<Rightarrow> ('n \<times> 'n \<Rightarrow> rat) \<Rightarrow> 'n \<Rightarrow> rat" where
  "net A f u = (\<Sum>e \<in> {e \<in> A. fst e = u}. f e)"

definition is_flow :: "graph \<Rightarrow> (node \<times> node \<Rightarrow> rat) \<Rightarrow> bool" where
  "is_flow graph f \<longleftrightarrow>
     (\<forall>e \<in> arcs graph. f (prod.swap e) = - f e \<and> f e \<le> residual graph e) \<and>
     (\<forall>u. u \<noteq> source_node \<and> u \<noteq> sink_node \<longrightarrow> net (arcs graph) f u = 0)"

definition flow_value :: "graph \<Rightarrow> (node \<times> node \<Rightarrow> rat) \<Rightarrow> rat" where
  "flow_value graph f = net (arcs graph) f source_node"

lemma swap_sum:
  fixes f :: "'n \<times> 'n \<Rightarrow> rat"
  assumes "\<And>e. e \<in> B \<Longrightarrow> prod.swap e \<in> B" and "\<And>e. e \<in> B \<Longrightarrow> f (prod.swap e) = - f e"
  shows "sum f B = 0"
proof -
  have "sum f B = (\<Sum>e \<in> B. f (prod.swap e))"
    using assms(1) by (intro sum.reindex_bij_witness [of _ prod.swap prod.swap]) auto
  also have "\<dots> = - sum f B" using assms(2) by (simp add: sum_negf)
  finally show ?thesis by simp
qed

text \<open>What leaves the source crosses every cut.\<close>

lemma flow_across_cut:
  assumes A: "finite A" "\<And>u v. (u, v) \<in> A \<Longrightarrow> (v, u) \<in> A"
    and anti: "\<And>e. e \<in> A \<Longrightarrow> f (prod.swap e) = - f e"
    and inner: "\<And>u. u \<noteq> s \<Longrightarrow> u \<noteq> t \<Longrightarrow> net A f u = 0" and "s \<in> S" and "t \<notin> S"
  shows "net A f s = sum f {e \<in> A. fst e \<in> S \<and> snd e \<notin> S}"
proof -
  let ?out = "{e \<in> A. fst e \<in> S}"
  have out: "?out = {e \<in> A. fst e \<in> S \<and> snd e \<notin> S} \<union> {e \<in> A. fst e \<in> S \<and> snd e \<in> S}" by auto
  have "sum f ?out = sum f {e \<in> A. fst e \<in> S \<and> snd e \<notin> S} + sum f {e \<in> A. fst e \<in> S \<and> snd e \<in> S}"
    unfolding out using A(1) by (intro sum.union_disjoint) auto
  also have "sum f {e \<in> A. fst e \<in> S \<and> snd e \<in> S} = 0"
    using A anti by (intro swap_sum) auto
  finally have cut: "sum f ?out = sum f {e \<in> A. fst e \<in> S \<and> snd e \<notin> S}" by simp
  let ?N = "insert s (fst ` ?out)"
  have "sum f ?out = (\<Sum>u \<in> ?N. sum f {e \<in> ?out. fst e = u})"
    using A(1) by (intro sum.group [symmetric]) auto
  also have "\<dots> = (\<Sum>u \<in> ?N. net A f u)"
    using \<open>s \<in> S\<close> unfolding net_def by (intro sum.cong refl arg_cong2 [of _ _ _ _ sum]) auto
  also have "\<dots> = net A f s + (\<Sum>u \<in> ?N - {s}. net A f u)"
    using A(1) by (subst sum.remove [of _ s]) auto
  also have "(\<Sum>u \<in> ?N - {s}. net A f u) = 0"
    using inner \<open>t \<notin> S\<close> by (intro sum.neutral) auto
  finally show ?thesis using cut by simp
qed

lemma flow_value_le_cut:
  assumes "flow_graph graph" and "is_flow graph f" and "source_node \<in> S" and "sink_node \<notin> S"
  shows "flow_value graph f \<le> sum (residual graph) {e \<in> arcs graph. fst e \<in> S \<and> snd e \<notin> S}"
proof -
  have "flow_value graph f = sum f {e \<in> arcs graph. fst e \<in> S \<and> snd e \<notin> S}"
    unfolding flow_value_def
    by (rule flow_across_cut [of _ _ _ sink_node])
      (use assms finite_arcs arcs_swap in \<open>auto simp: is_flow_def\<close>)
  also have "\<dots> \<le> sum (residual graph) {e \<in> arcs graph. fst e \<in> S \<and> snd e \<notin> S}"
    using assms(2) by (intro sum_mono) (auto simp: is_flow_def)
  finally show ?thesis .
qed

subsection \<open>The net effect of an augmentation\<close>

definition along :: "('n \<times> 'n) set \<Rightarrow> rat \<Rightarrow> 'n \<times> 'n \<Rightarrow> rat" where
  "along P a e = (if e \<in> P then a else 0) - (if prod.swap e \<in> P then a else 0)"

lemma net_along:
  assumes "finite A" and "\<And>u v. (u, v) \<in> A \<Longrightarrow> (v, u) \<in> A" and "P \<subseteq> A"
  shows "net A (along P a) u = a * (of_nat (card {e \<in> P. fst e = u}) - of_nat (card {e \<in> P. snd e = u}))"
proof -
  let ?A = "{e \<in> A. fst e = u}"
  have fin: "finite ?A" using assms(1) by simp
  have "(\<Sum>e \<in> ?A. if e \<in> P then a else 0) = (\<Sum>e \<in> {e \<in> P. fst e = u}. a)"
    using assms(1,3) by (intro sum.mono_neutral_cong_right) auto
  moreover have "(\<Sum>e \<in> ?A. if prod.swap e \<in> P then a else 0) = (\<Sum>e \<in> {e \<in> ?A. prod.swap e \<in> P}. a)"
    using assms(1) by (intro sum.mono_neutral_cong_right) auto
  moreover have "card {e \<in> ?A. prod.swap e \<in> P} = card {e \<in> P. snd e = u}"
    by (rule bij_betw_same_card [of prod.swap]) (use assms(2,3) in \<open>auto intro!: bij_betw_byWitness [of _ prod.swap]\<close>)
  ultimately show ?thesis
    by (simp add: net_def along_def sum_subtractf algebra_simps)
qed

lemma back_edges_net:
  assumes "distinct (back_edges v us)"
  shows "rat_of_nat (card {e \<in> set (back_edges v us). fst e = u}) -
      of_nat (card {e \<in> set (back_edges v us). snd e = u}) =
    (if u = last (v # us) then 1 else 0) - (if u = v then 1 else 0)"
  using assms
proof (induction us arbitrary: v)
  case (Cons w us)
  let ?es = "set (back_edges w us)"
  have "{e \<in> set (back_edges v (w # us)). fst e = u} =
      (if w = u then insert (w, v) {e \<in> ?es. fst e = u} else {e \<in> ?es. fst e = u})"
    and "{e \<in> set (back_edges v (w # us)). snd e = u} =
      (if v = u then insert (w, v) {e \<in> ?es. snd e = u} else {e \<in> ?es. snd e = u})" by auto
  moreover have "(w, v) \<notin> ?es" "distinct (back_edges w us)" using Cons.prems by auto
  ultimately show ?case using Cons.IH [of w] by auto
qed auto

lemma augmenting_net:
  assumes "flow_graph graph" and "augmenting graph es"
  shows "net (arcs graph) (along (set es) a) u =
    a * ((if u = source_node then 1 else 0) - (if u = sink_node then 1 else 0))"
proof -
  from assms(2) obtain us where us: "es = back_edges sink_node us" "last (sink_node # us) = source_node"
    "distinct es" "set es \<subseteq> open_edges graph" by (auto simp: augmenting_def)
  then have "set es \<subseteq> arcs graph" using open_edges_arcs by blast
  with us show ?thesis
    using net_along [OF finite_arcs arcs_swap [OF assms(1)], of "set es" a u]
      back_edges_net [of sink_node us u] by simp
qed

subsection \<open>Exact capacities\<close>

text \<open>Capacities with \<open>k\<close> decimal places whose sum has at most \<open>p\<close> digits.\<close>

definition exact_graph :: "nat \<Rightarrow> nat \<Rightarrow> 'n network \<Rightarrow> bool" where
  "exact_graph p k graph \<longleftrightarrow>
     (\<forall>e \<in> arcs graph. 0 \<le> residual graph e \<and> places k (residual graph e)) \<and>
     sum (residual graph) (arcs graph) * 10 ^ k < 10 ^ p"

text \<open>What every augmentation keeps of the original graph.\<close>

definition flow_inv :: "nat \<Rightarrow> graph \<Rightarrow> rat \<Rightarrow> graph \<Rightarrow> bool" where
  "flow_inv k graph0 flow graph \<longleftrightarrow>
     arcs graph = arcs graph0 \<and>
     (\<forall>e \<in> arcs graph0. 0 \<le> residual graph e \<and> places k (residual graph e) \<and>
        residual graph e + residual graph (prod.swap e) = residual graph0 e + residual graph0 (prod.swap e)) \<and>
     0 \<le> flow \<and> places k flow \<and>
     (\<forall>u. u \<noteq> sink_node \<longrightarrow> net (arcs graph0) (\<lambda>e. residual graph0 e - residual graph e) u =
        (if u = source_node then flow else 0))"

lemma net_add: "net A (\<lambda>e. f e + h e) u = net A f u + net A h u"
  by (simp add: net_def sum.distrib)

lemma net_le_sum:
  assumes "finite A" and "\<And>e. e \<in> A \<Longrightarrow> f e \<le> c e \<and> 0 \<le> c e"
  shows "net A f u \<le> sum c A"
proof -
  have "net A f u \<le> sum c {e \<in> A. fst e = u}" unfolding net_def using assms by (intro sum_mono) auto
  also have "\<dots> \<le> sum c A" using assms by (intro sum_mono2) auto
  finally show ?thesis .
qed

lemma pair_le_sum:
  fixes c :: "'n \<times> 'n \<Rightarrow> rat"
  assumes "finite A" and "\<And>e. e \<in> A \<Longrightarrow> 0 \<le> c e" and "e \<in> A" and "prod.swap e \<in> A" and "fst e \<noteq> snd e"
  shows "c e + c (prod.swap e) \<le> sum c A"
proof -
  have "prod.swap e \<noteq> e" using assms(5) by (cases e) auto
  then have "c e + c (prod.swap e) = sum c {e, prod.swap e}" by simp
  also have "\<dots> \<le> sum c A" using assms by (intro sum_mono2) auto
  finally show ?thesis .
qed

lemma exact_residual:
  assumes ex: "exact_graph p k graph0" and g0: "flow_graph graph0" and inv: "flow_inv k graph0 flow graph"
    and e: "e \<in> arcs graph0" and ne: "fst e \<noteq> snd e"
    and x: "places k x" "0 \<le> x" "x \<le> residual graph e + residual graph (prod.swap e)"
  shows "dec_round p x = x"
proof -
  have "prod.swap e \<in> arcs graph0" using arcs_swap [OF g0] e by (cases e) auto
  then have "residual graph0 e + residual graph0 (prod.swap e) \<le> sum (residual graph0) (arcs graph0)"
    using ex e ne by (intro pair_le_sum finite_arcs) (auto simp: exact_graph_def)
  with x(3) inv e have "x \<le> sum (residual graph0) (arcs graph0)" by (force simp: flow_inv_def)
  then have "x * 10 ^ k \<le> sum (residual graph0) (arcs graph0) * 10 ^ k" by simp
  also have "\<dots> < 10 ^ p" using ex by (simp add: exact_graph_def)
  finally show ?thesis using places_round x(1,2) by blast
qed

lemma augmented_residual:
  fixes graph es
  defines "a \<equiv> bottleneck graph es"
  assumes ex: "exact_graph p k graph0" and g0: "flow_graph graph0" and inv: "flow_inv k graph0 flow graph"
    and aug: "augmenting graph es"
  shows "0 < a" and "places k a" and "e \<in> set es \<Longrightarrow> a \<le> residual graph e"
    and "residual (foldl (push_edge p a) graph es) e = residual graph e - along (set es) a e"
proof -
  have sub: "set es \<subseteq> open_edges graph" and arcs: "arcs graph = arcs graph0"
    and path: "distinct es" "\<forall>e \<in> set es. fst e \<noteq> snd e \<and> prod.swap e \<notin> set es"
    using aug inv by (auto simp: augmenting_def flow_inv_def)
  then have in_arcs: "set es \<subseteq> arcs graph0" using open_edges_arcs by blast
  have "a \<in> residual graph ` set es"
    unfolding a_def bottleneck_def using augmenting_not_Nil [OF aug] by (intro Min_in) auto
  then obtain m where "m \<in> set es" "a = residual graph m" by auto
  then show a: "0 < a" "places k a"
    using sub in_arcs inv by (auto simp: open_edges_def flow_inv_def)
  show low: "e \<in> set es \<Longrightarrow> a \<le> residual graph e" for e
    unfolding a_def bottleneck_def by (intro Min_le) auto
  have nonneg: "0 \<le> residual graph e" "places k (residual graph e)" if "e \<in> arcs graph0" for e
    using inv that by (auto simp: flow_inv_def)
  have sw: "prod.swap e \<in> arcs graph0" if "e \<in> arcs graph0" for e
    using arcs_swap [OF g0] that by (cases e) auto
  have "dsub p (residual graph e) a = residual graph e - a" if "e \<in> set es" for e
  proof -
    have "e \<in> arcs graph0" "fst e \<noteq> snd e" using that in_arcs path by auto
    then show ?thesis
      unfolding dsub_def using low [OF that] a nonneg [of e] nonneg [OF sw, of e]
      by (intro exact_residual [OF ex g0 inv, of e]) (auto intro: places_diff)
  qed
  moreover have "dadd p (residual graph e) a = residual graph e + a" if "prod.swap e \<in> set es" for e
  proof -
    have e: "prod.swap e \<in> arcs graph0" "fst e \<noteq> snd e" using that in_arcs path by auto
    from sw [OF e(1)] have "e \<in> arcs graph0" by simp
    with e(2) show ?thesis
      unfolding dadd_def using low [OF that] a nonneg [of e]
      by (intro exact_residual [OF ex g0 inv, of e]) (auto intro: places_add)
  qed
  ultimately show "residual (foldl (push_edge p a) graph es) e = residual graph e - along (set es) a e"
    using path by (auto simp: push_path_residual along_def)
qed

lemma flow_inv_step:
  assumes ex: "exact_graph p k graph0" and g0: "flow_graph graph0"
    and g: "flow_graph graph" and inv: "flow_inv k graph0 flow graph" and aug: "augmenting graph es"
  shows "flow_inv k graph0 (dadd p flow (bottleneck graph es))
    (foldl (push_edge p (bottleneck graph es)) graph es)"
proof -
  define a where "a = bottleneck graph es"
  let ?g = "foldl (push_edge p a) graph es" and ?A = "arcs graph0"
  note aug' = augmented_residual [OF ex g0 inv aug, folded a_def]
  have arcs: "arcs graph = ?A" using inv by (simp add: flow_inv_def)
  have in_arcs: "set es \<subseteq> ?A" using aug open_edges_arcs unfolding arcs [symmetric] by (auto simp: augmenting_def)
  have swaps: "\<forall>e \<in> set es. prod.swap e \<notin> set es" using aug by (auto simp: augmenting_def)
  have keep: "0 \<le> residual ?g e \<and> places k (residual ?g e) \<and>
      residual ?g e + residual ?g (prod.swap e) = residual graph0 e + residual graph0 (prod.swap e)"
    if "e \<in> ?A" for e
    using inv that aug' swaps unfolding aug'(4) flow_inv_def along_def
    by (auto intro: places_add places_diff)
  have net: "net ?A (\<lambda>e. residual graph0 e - residual ?g e) u = (if u = source_node then flow + a else 0)"
    if "u \<noteq> sink_node" for u
  proof -
    have "net ?A (\<lambda>e. residual graph0 e - residual ?g e) u =
        net ?A (\<lambda>e. residual graph0 e - residual graph e) u + net ?A (along (set es) a) u"
      unfolding aug'(4) net_add [symmetric] by (simp add: algebra_simps)
    then show ?thesis
      using inv that augmenting_net [OF g aug, of a u] by (simp add: flow_inv_def arcs)
  qed
  have fl: "0 \<le> flow + a \<and> places k (flow + a)"
    using inv aug'(1,2) by (auto simp: flow_inv_def intro: places_add)
  have "flow + a = net ?A (\<lambda>e. residual graph0 e - residual ?g e) source_node" using net by simp
  also have "\<dots> \<le> sum (residual graph0) ?A"
    using ex keep by (intro net_le_sum finite_arcs) (auto simp: exact_graph_def)
  finally have "(flow + a) * 10 ^ k \<le> sum (residual graph0) ?A * 10 ^ k" by simp
  also have "\<dots> < 10 ^ p" using ex by (simp add: exact_graph_def)
  finally have "dadd p flow a = flow + a" unfolding dadd_def using fl places_round by blast
  moreover have "arcs ?g = ?A" using push_path_arcs(1) [OF g] in_arcs arcs by simp
  ultimately show ?thesis
    using keep net fl unfolding a_def [symmetric] flow_inv_def by simp
qed

lemma flow_inv_start:
  assumes "exact_graph p k graph"
  shows "flow_inv k graph 0 graph"
  using assms by (auto simp: flow_inv_def exact_graph_def net_def)

lemma flow_inv_is_flow:
  assumes "flow_graph graph0" and inv: "flow_inv k graph0 flow graph"
  shows "is_flow graph0 (\<lambda>e. residual graph0 e - residual graph e)"
    and "flow_value graph0 (\<lambda>e. residual graph0 e - residual graph e) = flow"
proof -
  have "residual graph0 (prod.swap e) - residual graph (prod.swap e) = - (residual graph0 e - residual graph e)"
    and "0 \<le> residual graph e" if "e \<in> arcs graph0" for e
    using inv that by (auto simp: flow_inv_def algebra_simps)
  then show "is_flow graph0 (\<lambda>e. residual graph0 e - residual graph e)"
    using inv unfolding is_flow_def flow_inv_def by auto
  show "flow_value graph0 (\<lambda>e. residual graph0 e - residual graph e) = flow"
    using inv by (simp add: flow_inv_def flow_value_def)
qed

text \<open>Without a path to the sink the flow fills the cut around the nodes that can be reached.\<close>

lemma flow_inv_maximal:
  assumes g0: "flow_graph graph0" and inv: "flow_inv k graph0 flow graph"
    and stop: "(source_node, sink_node) \<notin> (open_edges graph)\<^sup>*" and h: "is_flow graph0 h"
  shows "flow_value graph0 h \<le> flow"
proof -
  define S where "S = {v. (source_node, v) \<in> (open_edges graph)\<^sup>*}"
  let ?f = "\<lambda>e. residual graph0 e - residual graph e"
  let ?cut = "{e \<in> arcs graph0. fst e \<in> S \<and> snd e \<notin> S}"
  have S: "source_node \<in> S" "sink_node \<notin> S" using stop by (auto simp: S_def)
  have full: "residual graph e = 0" if "e \<in> ?cut" for e
  proof -
    have "e \<notin> open_edges graph" using that
      by (cases e) (auto simp: S_def dest: rtrancl_into_rtrancl)
    then show ?thesis using inv that by (auto simp: open_edges_def flow_inv_def)
  qed
  have "flow_value graph0 h \<le> sum (residual graph0) ?cut" by (rule flow_value_le_cut [OF g0 h S])
  also have "\<dots> = sum ?f ?cut" using full by (intro sum.cong) auto
  also have "\<dots> = flow_value graph0 ?f"
    unfolding flow_value_def
    using flow_inv_is_flow(1) [OF g0 inv] S finite_arcs arcs_swap [OF g0]
    by (intro flow_across_cut [symmetric, of _ _ _ sink_node]) (auto simp: is_flow_def)
  finally show ?thesis using flow_inv_is_flow(2) [OF g0 inv] by simp
qed

lemma maximum_flow_run:
  assumes "flow_graph graph" and "exact_graph p k graph"
  obtains flow graph' where "maximum_flow p graph = Some (flow, graph')" and "flow_inv k graph flow graph'"
    and "(source_node, sink_node) \<notin> (open_edges graph')\<^sup>*"
proof -
  have "\<exists>flow' graph'. flow_loop p 0 graph = Some (flow', graph') \<and> flow_inv k graph flow' graph' \<and>
      flow_graph graph' \<and> arcs graph' = arcs graph \<and> (source_node, sink_node) \<notin> (open_edges graph')\<^sup>*"
    by (rule flow_loop_invariant [of graph "flow_inv k graph" 0 p])
      (use assms flow_inv_start flow_inv_step [OF assms(2,1)] in auto)
  then show ?thesis using that by (auto simp: maximum_flow_def)
qed

text \<open>C18: The loop of \<open>_maximum_flow\<close> ends on every graph that \<open>_add_edge\<close> builds, at any precision: its result
  leaves no path with room from the source to the sink.\<close>

theorem maximum_flow_terminates:
  assumes "flow_graph graph"
  shows "\<exists>flow graph'. maximum_flow p graph = Some (flow, graph') \<and>
    (source_node, sink_node) \<notin> (open_edges graph')\<^sup>*"
  using flow_loop_invariant [of graph "\<lambda>_ _. True" 0 p] assms by (auto simp: maximum_flow_def)

text \<open>C19: On capacities that the decimal context holds exactly, what the residual graph has given up is a flow of
  the original graph with the returned value, and no flow of the original graph has a greater value.\<close>

theorem maximum_flow_is_maximum:
  assumes "flow_graph graph" and "exact_graph p k graph"
  shows "\<exists>flow graph'. maximum_flow p graph = Some (flow, graph') \<and>
    is_flow graph (\<lambda>e. residual graph e - residual graph' e) \<and>
    flow_value graph (\<lambda>e. residual graph e - residual graph' e) = flow \<and>
    (\<forall>h. is_flow graph h \<longrightarrow> flow_value graph h \<le> flow)"
proof -
  obtain flow graph' where run: "maximum_flow p graph = Some (flow, graph')"
    and inv: "flow_inv k graph flow graph'" and stop: "(source_node, sink_node) \<notin> (open_edges graph')\<^sup>*"
    by (rule maximum_flow_run [OF assms])
  from run flow_inv_is_flow [OF assms(1) inv] flow_inv_maximal [OF assms(1) inv stop]
  show ?thesis by blast
qed

end
