(* ===== verification/Funding_Properties.thy ===== *)
theory Funding_Properties
  imports Liquidity_Funding Flow_Optimal
begin

text \<open>
  Properties of the funding of dated obligations: the network is built edge by edge, so its capacities are
  sums of the amounts that were added; the results per obligation and per resource are bounded by them and
  add up, and what is covered together is the most that any flow through the network can cover.
\<close>

subsection \<open>Building a network edge by edge\<close>

lemma map_of_add_edge:
  "map_of (add_edge p graph s t c) =
     (let es = AList.update t (dadd p (residual graph (s, t)) c) (dict_get graph s []) in
      (map_of graph)(s \<mapsto> es,
        t \<mapsto> dict_setdefault s 0 (if t = s then es else dict_get graph t [])))"
proof -
  have "dict_get (dict_get graph s []) t 0 = residual graph (s, t)"
    by (simp add: residual_def edge_capacity_def dict_get_def split: option.splits)
  then show ?thesis
    by (auto simp: add_edge_def Let_def update_conv' map_of_setdefault dict_get_def fun_eq_iff
        split: option.splits)
qed

lemma map_of_dict_get: "map_of (dict_get graph u []) v = edge_capacity graph u v"
  by (simp add: dict_get_def edge_capacity_def split: option.splits)

lemma edge_capacity_add:
  "edge_capacity (add_edge p graph s t c) u v =
     (if (u, v) = (s, t) then Some (dadd p (residual graph (s, t)) c)
      else if (u, v) = (t, s) then Some (residual graph (t, s)) else edge_capacity graph u v)"
proof -
  let ?es = "AList.update t (dadd p (residual graph (s, t)) c) (dict_get graph s [])"
  have es: "map_of ?es v = (if v = t then Some (dadd p (residual graph (s, t)) c) else edge_capacity graph s v)" for v
    by (simp add: update_conv' map_of_dict_get)
  have sd: "map_of (dict_setdefault s 0 d) v = (if v = s then Some (case map_of d s of None \<Rightarrow> 0 | Some x \<Rightarrow> x)
      else map_of d v)" for d v
    by (auto simp: map_of_setdefault split: option.splits)
  consider "u = t" "t = s" | "u = t" "t \<noteq> s" | "u = s" "t \<noteq> s" | "u \<noteq> s" "u \<noteq> t" by blast
  then show ?thesis
  proof cases
    case 1
    then have "map_of (add_edge p graph s t c) u = Some (dict_setdefault s 0 ?es)"
      by (simp add: map_of_add_edge Let_def)
    then show ?thesis using 1 by (simp add: edge_capacity_def [of "add_edge p graph s s c"] sd update_conv' map_of_dict_get)
  next
    case 2
    then have "map_of (add_edge p graph s t c) u = Some (dict_setdefault s 0 (dict_get graph t []))"
      by (simp add: map_of_add_edge Let_def)
    then show ?thesis using 2
      by (simp add: edge_capacity_def [of "add_edge p graph s t c"] sd map_of_dict_get residual_def)
  next
    case 3
    then have "map_of (add_edge p graph s t c) u = Some ?es"
      by (simp add: map_of_add_edge Let_def)
    then show ?thesis using 3 by (simp add: edge_capacity_def [of "add_edge p graph s t c"] es)
  next
    case 4
    then show ?thesis by (simp add: edge_capacity_def map_of_add_edge Let_def)
  qed
qed

lemma arcs_add: "arcs (add_edge p graph s t c) = insert (s, t) (insert (t, s) (arcs graph))"
  by (auto simp: arcs_def edge_capacity_add split: if_splits)

lemma residual_add: "residual (add_edge p graph s t c) = (residual graph)((s, t) := dadd p (residual graph (s, t)) c)"
  by (auto simp: residual_def edge_capacity_add fun_eq_iff)

lemma flow_graph_add:
  assumes "linked_graph x graph"
  shows "linked_graph x (add_edge p graph s t c)"
proof -
  have sym: "sym (arcs (add_edge p graph s t c))"
    using assms unfolding arcs_add linked_graph_def sym_def by auto
  have dist: "distinct (map fst (dict_get graph u []))" for u
    using assms by (auto simp: linked_graph_def dict_get_def split: option.splits)
  have "distinct (map fst es)" if "map_of (add_edge p graph s t c) u = Some es" for u es
    using assms that dist unfolding map_of_add_edge Let_def linked_graph_def
    by (auto intro!: distinct_setdefault distinct_update split: if_splits)
  moreover have "map_of (add_edge p graph s t c) x \<noteq> None"
    using assms unfolding map_of_add_edge Let_def linked_graph_def by auto
  ultimately show ?thesis using sym by (auto simp: linked_graph_def)
qed

definition build :: "nat \<Rightarrow> 'n network \<Rightarrow> ('n \<times> 'n \<times> decimal) list \<Rightarrow> 'n network" where
  "build p graph es = foldl (\<lambda>g (u, v, c). add_edge p g u v c) graph es"

lemma build_simps [simp]:
  "build p graph [] = graph" "build p graph ((u, v, c) # es) = build p (add_edge p graph u v c) es"
  "build p graph (es @ fs) = build p (build p graph es) fs"
  by (simp_all add: build_def)

abbreviation capacity_of :: "'n \<times> 'n \<times> decimal \<Rightarrow> decimal" where "capacity_of e \<equiv> snd (snd e)"

lemma arcs_build:
  "(a, b) \<in> arcs (build p graph es) \<longleftrightarrow>
     (a, b) \<in> arcs graph \<or> (\<exists>c. (a, b, c) \<in> set es) \<or> (\<exists>c. (b, a, c) \<in> set es)"
  by (induction es arbitrary: graph) (auto simp: arcs_add)

lemma flow_graph_build: "linked_graph x graph \<Longrightarrow> linked_graph x (build p graph es)"
  by (induction es arbitrary: graph) (auto simp: flow_graph_add)

lemma sum_increase:
  fixes f :: "'e \<Rightarrow> rat"
  assumes "finite A" and "x \<in> A"
  shows "sum (f(x := f x + c)) A = sum f A + c"
proof -
  have "sum (f(x := f x + c)) (A - {x}) = sum f (A - {x})" by (intro sum.cong) auto
  then show ?thesis using assms by (simp add: sum.remove [of A x])
qed

text \<open>As long as the sum of all capacities has at most \<open>p\<close> digits, nothing is rounded.\<close>

lemma add_exact:
  assumes ex: "exact_graph p k graph" and c: "0 \<le> c" "places k c"
    and bound: "(sum (residual graph) (arcs graph) + c) * 10 ^ k < 10 ^ p"
  shows "residual (add_edge p graph s t c) = (residual graph)((s, t) := residual graph (s, t) + c)"
    and "sum (residual (add_edge p graph s t c)) (arcs (add_edge p graph s t c)) =
      sum (residual graph) (arcs graph) + c"
    and "exact_graph p k (add_edge p graph s t c)"
proof -
  have out: "residual graph e = 0" if "e \<notin> arcs graph" for e
    using that by (cases e) (auto simp: arcs_def residual_def)
  have nonneg: "0 \<le> residual graph e \<and> places k (residual graph e)" for e
    using ex out [of e] by (cases "e \<in> arcs graph") (auto simp: exact_graph_def)
  have "residual graph (s, t) \<le> sum (residual graph) (arcs graph)"
    using out [of "(s, t)"] nonneg finite_arcs [of graph]
    by (cases "(s, t) \<in> arcs graph") (auto intro!: member_le_sum sum_nonneg simp del: split_paired_All)
  then have "(residual graph (s, t) + c) * 10 ^ k \<le> (sum (residual graph) (arcs graph) + c) * 10 ^ k"
    by (intro mult_right_mono) simp_all
  from this bound have "(residual graph (s, t) + c) * 10 ^ k < 10 ^ p" by (rule le_less_trans)
  then have "dadd p (residual graph (s, t)) c = residual graph (s, t) + c"
    unfolding dadd_def using nonneg c by (intro places_round [of k]) (auto intro: places_add)
  then show res: "residual (add_edge p graph s t c) = (residual graph)((s, t) := residual graph (s, t) + c)"
    by (simp add: residual_add)
  let ?A = "insert (s, t) (insert (t, s) (arcs graph))"
  have "sum (residual graph) ?A = sum (residual graph) (arcs graph)"
    using finite_arcs out by (intro sum.mono_neutral_right) auto
  moreover have "sum ((residual graph)((s, t) := residual graph (s, t) + c)) ?A = sum (residual graph) ?A + c"
    using finite_arcs [of graph] by (intro sum_increase) auto
  ultimately show total: "sum (residual (add_edge p graph s t c)) (arcs (add_edge p graph s t c)) =
      sum (residual graph) (arcs graph) + c"
    by (simp add: res arcs_add)
  show "exact_graph p k (add_edge p graph s t c)"
    unfolding exact_graph_def total using nonneg c bound by (auto simp: res intro: places_add)
qed

lemma build_exact:
  assumes "exact_graph p k graph" and "\<forall>e \<in> set es. 0 \<le> capacity_of e \<and> places k (capacity_of e)"
    and "(sum (residual graph) (arcs graph) + sum_list (map capacity_of es)) * 10 ^ k < 10 ^ p"
  shows "exact_graph p k (build p graph es) \<and>
    residual (build p graph es) (a, b) =
      residual graph (a, b) + sum_list (map capacity_of (filter (\<lambda>(u, v, c). u = a \<and> v = b) es))"
  using assms
proof (induction es arbitrary: graph)
  case (Cons e es)
  obtain u v c where e: "e = (u, v, c)" by (cases e)
  let ?S = "sum (residual graph) (arcs graph)"
  have "0 \<le> sum_list (map capacity_of es)" using Cons.prems(2) by (intro sum_list_nonneg) auto
  then have "(?S + c) * 10 ^ k \<le> (?S + sum_list (map capacity_of (e # es))) * 10 ^ k"
    using e by (intro mult_right_mono) simp_all
  from this Cons.prems(3) have bound: "(?S + c) * 10 ^ k < 10 ^ p" by (rule le_less_trans)
  have "0 \<le> c" "places k c" using Cons.prems(2) e by auto
  note step = add_exact [OF Cons.prems(1) this bound, of u v]
  have "exact_graph p k (build p (add_edge p graph u v c) es) \<and>
    residual (build p (add_edge p graph u v c) es) (a, b) = residual (add_edge p graph u v c) (a, b) +
      sum_list (map capacity_of (filter (\<lambda>(u, v, c). u = a \<and> v = b) es))"
    using Cons.prems(2,3) e step(2,3) by (intro Cons.IH) (simp_all add: add.assoc)
  then show ?case using e step(1) by simp
qed simp

subsection \<open>The edges of the funding network\<close>

lemma loop_option_build:
  assumes "\<And>g x. x \<in> set xs \<Longrightarrow> f g x = Some (build p g (h x))"
  shows "loop_option f g xs = Some (build p g (concat (map h xs)))"
  using assms by (induction xs arbitrary: g) auto

lemma loop_option_build1:
  assumes "\<And>g x. x \<in> set xs \<Longrightarrow> f g x = Some (build p g [h x])"
  shows "loop_option f g xs = Some (build p g (map h xs))"
  using loop_option_build [of xs f p "\<lambda>x. [h x]" g] assms by simp

lemma loop_option_None:
  assumes "x \<in> set xs" and "\<And>g. f g x = None"
  shows "loop_option f g xs = None"
  using assms(1) by (induction xs arbitrary: g) (auto simp: assms(2) split: option.splits)

lemma datetime_set_instants [simp]: "instant ` set (datetime_set ts) = instant ` set ts"
proof (induction ts)
  case (Cons t ts)
  have "insert (instant t) (instant ` {u \<in> set (datetime_set ts). instant u \<noteq> instant t}) =
      insert (instant t) (instant ` set (datetime_set ts))" by auto
  with Cons show ?case by simp
qed simp

lemma length_datetime_set: "length (datetime_set ts) \<le> length ts"
proof (induction ts)
  case (Cons t ts)
  have "length (filter (\<lambda>u. instant u \<noteq> instant t) (datetime_set ts)) \<le> length ts"
    using length_filter_le Cons by (rule order_trans)
  then show ?case by simp
qed simp

lemma timeline_node_None:
  "timeline_node (timeline_of accounts moments) a t = None \<longleftrightarrow>
     \<not> (a \<in> set accounts \<and> instant t \<in> instant ` set moments)"
  by (auto simp: timeline_node_def timeline_of_def map_of_eq_None_iff image_iff)

lemma timeline_node_Some:
  assumes "timeline_node (timeline_of accounts moments) a t = Some n"
  shows "fst n = ''account''"
  using assms by (auto simp: timeline_node_def timeline_of_def dest!: map_of_SomeD)

definition moment_node :: "timeline \<Rightarrow> str \<Rightarrow> datetime \<Rightarrow> node" where
  "moment_node timeline a t = (case timeline_node timeline a t of None \<Rightarrow> (''account'', []) | Some n \<Rightarrow> n)"

lemma moment_node_account [simp]: "fst (moment_node (timeline_of accounts moments) a t) = ''account''"
  by (simp add: moment_node_def timeline_node_Some split: option.splits)

definition wait_list :: "rat \<Rightarrow> timeline \<Rightarrow> str list \<Rightarrow> datetime list \<Rightarrow> (node \<times> node \<times> decimal) list" where
  "wait_list c timeline accounts moments =
     concat (map (\<lambda>a. map (\<lambda>(s, t). (moment_node timeline a s, moment_node timeline a t, c))
       (zip moments (tl moments))) accounts)"

definition resource_list :: "timeline \<Rightarrow> cash_resource list \<Rightarrow> (node \<times> node \<times> decimal) list" where
  "resource_list timeline resources =
     concat (map (\<lambda>(i, a, t, amount). [(source_node, resource_node i, amount),
       (resource_node i, moment_node timeline a t, amount)]) (enumerate 0 resources))"

definition route_list :: "timeline \<Rightarrow> cash_transfer_route list \<Rightarrow> (node \<times> node \<times> decimal) list" where
  "route_list timeline routes =
     concat (map (\<lambda>r. [(moment_node timeline (cr_source_account_id r) (cr_departure_at r), route_node r, cr_capacity r),
       (route_node r, moment_node timeline (cr_target_account_id r) (cr_arrival_at r), cr_capacity r)])
       (sort_key cr_route_id routes))"

definition obligation_list ::
    "(dated_cash_obligation \<Rightarrow> rat) \<Rightarrow> timeline \<Rightarrow> dated_cash_obligation list \<Rightarrow> (node \<times> node \<times> decimal) list" where
  "obligation_list c timeline obligations =
     concat (map (\<lambda>ob. [(moment_node timeline (co_target_account_id ob) (co_latest_usable_at ob), obligation_node ob, c ob),
       (obligation_node ob, sink_node, c ob)]) (ordered_obligations obligations))"

definition total_resources :: "nat \<Rightarrow> cash_resource list \<Rightarrow> rat" where
  "total_resources p resources = dsum p (map (\<lambda>(_, _, amount). amount) resources)"

definition demand :: "nat \<Rightarrow> bool \<Rightarrow> cash_resource list \<Rightarrow> dated_cash_obligation \<Rightarrow> rat" where
  "demand p limited resources ob = (if limited then co_amount ob else total_resources p resources)"

definition funding_edges ::
    "nat \<Rightarrow> bool \<Rightarrow> cash_resource list \<Rightarrow> cash_transfer_route list \<Rightarrow> dated_cash_obligation list \<Rightarrow>
     (node \<times> node \<times> decimal) list" where
  "funding_edges p limited resources routes obligations =
     (let moments = funding_times resources routes obligations; accounts = funding_accounts resources;
          timeline = timeline_of accounts moments
      in wait_list (total_resources p resources) timeline accounts moments @ resource_list timeline resources @
         route_list timeline routes @ obligation_list (demand p limited resources) timeline obligations)"

definition empty_network :: graph where
  "empty_network = [(source_node, []), (sink_node, [])]"

text \<open>The accounts that routes and obligations name are accounts of resources.\<close>

definition known_accounts ::
    "cash_resource list \<Rightarrow> cash_transfer_route list \<Rightarrow> dated_cash_obligation list \<Rightarrow> bool" where
  "known_accounts resources routes obligations \<longleftrightarrow>
     cr_source_account_id ` set routes \<union> cr_target_account_id ` set routes \<union>
     co_target_account_id ` set obligations \<subseteq> fst ` set resources"

lemma set_funding_accounts [simp]: "set (funding_accounts resources) = fst ` set resources"
  by (simp add: funding_accounts_def)

lemma funding_instants:
  "instant ` set (funding_times resources routes obligations) =
     (\<lambda>(_, t, _). instant t) ` set resources \<union> (instant \<circ> cr_departure_at) ` set routes \<union>
     (instant \<circ> cr_arrival_at) ` set routes \<union> (instant \<circ> co_latest_usable_at) ` set obligations"
  by (simp add: funding_times_def image_Un image_image case_prod_unfold Un_assoc)

lemma timeline_node_moment:
  assumes "a \<in> set accounts" and "instant t \<in> instant ` set moments"
  shows "timeline_node (timeline_of accounts moments) a t = Some (moment_node (timeline_of accounts moments) a t)"
  using assms timeline_node_None [of accounts moments a t] by (auto simp: moment_node_def)

lemma enumerate_memD: "(i, x) \<in> set (enumerate 0 xs) \<Longrightarrow> x \<in> set xs"
  by (auto simp: in_set_enumerate_eq)

abbreviation funding_timeline ::
    "cash_resource list \<Rightarrow> cash_transfer_route list \<Rightarrow> dated_cash_obligation list \<Rightarrow> timeline" where
  "funding_timeline resources routes obligations \<equiv>
     timeline_of (funding_accounts resources) (funding_times resources routes obligations)"

lemma funding_node:
  assumes "a \<in> fst ` set resources" and "instant t \<in> instant ` set (funding_times resources routes obligations)"
  shows "timeline_node (funding_timeline resources routes obligations) a t =
    Some (moment_node (funding_timeline resources routes obligations) a t)"
  using assms by (intro timeline_node_moment) simp_all

lemma waiting_edges_build:
  "waiting_edges p c (timeline_of as ts) as ts g = Some (build p g (wait_list c (timeline_of as ts) as ts))"
  unfolding waiting_edges_def wait_list_def
proof (rule loop_option_build)
  have zip: "s \<in> set ts \<and> t \<in> set ts" if "(s, t) \<in> set (zip ts (tl ts))" for s t
    using that set_zip_rightD [OF that] by (cases ts) (auto dest: set_zip_leftD)
  fix g a assume "a \<in> set as"
  then have "timeline_node (timeline_of as ts) a t = Some (moment_node (timeline_of as ts) a t)"
    if "t \<in> set ts" for t using that by (intro timeline_node_moment) simp_all
  then show "loop_option (\<lambda>g (s, t). do { source \<leftarrow> timeline_node (timeline_of as ts) a s;
      target \<leftarrow> timeline_node (timeline_of as ts) a t; Some (add_edge p g source target c) }) g (zip ts (tl ts)) =
    Some (build p g (map (\<lambda>(s, t). (moment_node (timeline_of as ts) a s, moment_node (timeline_of as ts) a t, c))
      (zip ts (tl ts))))"
    using zip by (intro loop_option_build1) fastforce
qed

lemma resource_edges_build:
  fixes resources routes obligations
  defines "tline \<equiv> funding_timeline resources routes obligations"
  shows "resource_edges p tline resources g = Some (build p g (resource_list tline resources))"
  unfolding resource_edges_def resource_list_def
proof (rule loop_option_build)
  fix g x assume x: "x \<in> set (enumerate 0 resources)"
  obtain i a t c where e: "x = (i, a, t, c)" by (cases x)
  then have "(a, t, c) \<in> set resources" using x enumerate_memD by metis
  then have "timeline_node tline a t = Some (moment_node tline a t)"
    unfolding tline_def by (intro funding_node) (force simp: funding_instants)+
  then show "(case x of (i, a, t, c) \<Rightarrow> do { target \<leftarrow> timeline_node tline a t;
      Some (add_edge p (add_edge p g source_node (resource_node i) c) (resource_node i) target c) }) =
    Some (build p g (case x of (i, a, t, c) \<Rightarrow> [(source_node, resource_node i, c),
      (resource_node i, moment_node tline a t, c)]))"
    by (simp add: e)
qed

lemma route_edges_build:
  fixes resources routes obligations
  defines "tline \<equiv> funding_timeline resources routes obligations"
  shows "route_edges p tline routes g =
    (if cr_source_account_id ` set routes \<union> cr_target_account_id ` set routes \<subseteq> fst ` set resources
     then Some (build p g (route_list tline routes)) else None)"
proof (cases "cr_source_account_id ` set routes \<union> cr_target_account_id ` set routes \<subseteq> fst ` set resources")
  case True
  then have "route_edges p tline routes g = Some (build p g (route_list tline routes))"
    unfolding route_edges_def route_list_def tline_def
    by (intro loop_option_build) (simp add: funding_node image_subset_iff funding_instants)
  with True show ?thesis by simp
next
  case False
  then obtain r where "r \<in> set (sort_key cr_route_id routes)"
    "cr_source_account_id r \<notin> fst ` set resources \<or> cr_target_account_id r \<notin> fst ` set resources" by auto
  then have "route_edges p tline routes g = None"
    unfolding route_edges_def tline_def
    by (elim loop_option_None) (auto simp: bind_eq_None_conv timeline_node_None split: bind_splits)
  with False show ?thesis by simp
qed

lemma obligation_edges_build:
  fixes resources routes obligations
  defines "tline \<equiv> funding_timeline resources routes obligations"
  shows "obligation_edges p c limited tline (ordered_obligations obligations) g =
    (if co_target_account_id ` set obligations \<subseteq> fst ` set resources
     then Some (build p g (obligation_list (\<lambda>ob. if limited then co_amount ob else c) tline obligations)) else None)"
proof (cases "co_target_account_id ` set obligations \<subseteq> fst ` set resources")
  case True
  then have "obligation_edges p c limited tline (ordered_obligations obligations) g =
      Some (build p g (obligation_list (\<lambda>ob. if limited then co_amount ob else c) tline obligations))"
    unfolding obligation_edges_def obligation_list_def tline_def
    by (intro loop_option_build)
      (simp add: funding_node image_subset_iff funding_instants ordered_obligations_def Let_def)
  with True show ?thesis by simp
next
  case False
  then obtain ob where "ob \<in> set (ordered_obligations obligations)"
    "co_target_account_id ob \<notin> fst ` set resources" by (auto simp: ordered_obligations_def)
  then have "obligation_edges p c limited tline (ordered_obligations obligations) g = None"
    unfolding obligation_edges_def tline_def
    by (elim loop_option_None) (auto simp: bind_eq_None_conv timeline_node_None split: bind_splits)
  with False show ?thesis by simp
qed

text \<open>The network is built exactly when routes and obligations name accounts of resources.\<close>

lemma funding_network_build:
  "funding_network p limited resources routes obligations =
     (if known_accounts resources routes obligations
      then Some (build p empty_network (funding_edges p limited resources routes obligations)) else None)"
  unfolding funding_network_def funding_edges_def Let_def demand_def [abs_def] total_resources_def
    waiting_edges_build resource_edges_build route_edges_build obligation_edges_build known_accounts_def
  by (simp add: empty_network_def resource_edges_build route_edges_build obligation_edges_build)

text \<open>Numbers have distinct texts, so resources have distinct nodes.\<close>

lemma nat_str_not_Nil [simp]: "nat_str n \<noteq> []" "[] \<noteq> nat_str n"
  by (subst nat_str.simps, simp)+

lemma digit_char_inj: "digit_char m = digit_char n \<longleftrightarrow> m mod 10 = n mod 10"
proof -
  have "inj_on (\<lambda>i. ''0123456789'' ! i) {0..<10}" by (simp add: inj_on_def atLeastLessThan_nat_numeral)
  then show ?thesis by (auto simp: digit_char_def inj_on_def)
qed

lemma nat_str_inj: "nat_str m = nat_str n \<Longrightarrow> m = n"
proof (induction m arbitrary: n rule: nat_str.induct)
  case (1 m)
  have len: "nat_str k = [c] \<Longrightarrow> k < 10" for k c
    by (cases "k < 10") (simp_all add: nat_str.simps [of k])
  show ?case
  proof (cases "m < 10")
    case True
    then have "nat_str m = [digit_char m]" by (simp add: nat_str.simps)
    moreover from this 1 have "n < 10" using len by metis
    ultimately show ?thesis using 1(2) True by (simp add: nat_str.simps [of n] digit_char_inj)
  next
    case False
    then have m: "nat_str m = nat_str (m div 10) @ [digit_char m]" by (simp add: nat_str.simps [of m])
    moreover have "\<not> n < 10" using m 1(2) by (auto simp: nat_str.simps [of n])
    then have "nat_str n = nat_str (n div 10) @ [digit_char n]" by (simp add: nat_str.simps [of n])
    ultimately have "m div 10 = n div 10" "m mod 10 = n mod 10"
      using 1 False by (simp_all add: digit_char_inj)
    then show ?thesis by (metis div_mult_mod_eq)
  qed
qed

lemma resource_node_eq [simp]: "resource_node i = resource_node j \<longleftrightarrow> i = j"
  by (auto simp: resource_node_def dest: nat_str_inj)

lemma node_tags [simp]:
  "fst source_node = ''source''" "fst sink_node = ''sink''" "fst (resource_node i) = ''resource''"
  "fst (route_node r) = ''route''" "fst (obligation_node ob) = ''obligation''"
  by (simp_all add: source_node_def sink_node_def resource_node_def route_node_def obligation_node_def)

lemma tag_neq: "fst u \<noteq> fst v \<Longrightarrow> u \<noteq> v"
  by auto

lemmas node_neq [simp] = tag_neq [of "moment_node (timeline_of as ts) a t" sink_node for as ts a t, simplified]
  tag_neq [of "moment_node (timeline_of as ts) a t" source_node for as ts a t, simplified]
  tag_neq [of "resource_node i" source_node for i, simplified] tag_neq [of "resource_node i" sink_node for i, simplified]
  tag_neq [of "route_node r" source_node for r, simplified] tag_neq [of "route_node r" sink_node for r, simplified]
  tag_neq [of "obligation_node ob" source_node for ob, simplified]
  tag_neq [of "obligation_node ob" sink_node for ob, simplified]
  tag_neq [of "obligation_node ob" "moment_node (timeline_of as ts) a t" for ob as ts a t, simplified]
  tag_neq [of "obligation_node ob" "resource_node i" for ob i, simplified]
  tag_neq [of "obligation_node ob" "route_node r" for ob r, simplified]

declare node_neq [symmetric, simp]

subsection \<open>Capacities of the network\<close>

definition tally :: "'n \<Rightarrow> 'n \<Rightarrow> ('n \<times> 'n \<times> decimal) list \<Rightarrow> rat" where
  "tally a b es = sum_list (map capacity_of (filter (\<lambda>(u, v, c). u = a \<and> v = b) es))"

lemma tally_simps [simp]:
  "tally a b [] = 0" "tally a b ((u, v, c) # es) = (if u = a \<and> v = b then c else 0) + tally a b es"
  "tally a b (es @ fs) = tally a b es + tally a b fs"
  by (simp_all add: tally_def)

lemma tally_concat: "tally a b (concat (map h xs)) = (\<Sum>x\<leftarrow>xs. tally a b (h x))"
  by (induction xs) simp_all

lemma sum_list_single:
  assumes "distinct (map key xs)" and "x \<in> set xs"
  shows "(\<Sum>y\<leftarrow>xs. if key y = key x then f y else 0) = (f x :: rat)"
  using assms
proof (induction xs)
  case (Cons y ys)
  show ?case
  proof (cases "x = y")
    case True
    then have "key x \<notin> key ` set ys" using Cons.prems by auto
    then have "map (\<lambda>z. if key z = key x then f z else 0) ys = map (\<lambda>_. 0) ys" by (force simp: image_iff)
    then have "(\<Sum>z\<leftarrow>ys. if key z = key x then f z else 0) = 0" by (simp only: sum_list_0)
    then show ?thesis using True by simp
  next
    case False
    with Cons show ?thesis by auto
  qed
qed simp

abbreviation amount_of :: "cash_resource \<Rightarrow> rat" where "amount_of r \<equiv> snd (snd r)"

text \<open>The amounts have \<open>k\<close> decimal places, and the sum of all capacities of the network, which this volume
  bounds, has at most \<open>p\<close> digits.\<close>

definition funding_volume ::
    "cash_resource list \<Rightarrow> cash_transfer_route list \<Rightarrow> dated_cash_obligation list \<Rightarrow> rat" where
  "funding_volume resources routes obligations =
     (\<Sum>r\<leftarrow>resources. amount_of r) *
       of_nat (length resources * (length resources + 2 * length routes + length obligations) + 2 + 2 * length obligations) +
     2 * (\<Sum>r\<leftarrow>routes. cr_capacity r) + 2 * (\<Sum>ob\<leftarrow>obligations. co_amount ob)"

definition exact_amounts ::
    "nat \<Rightarrow> nat \<Rightarrow> cash_resource list \<Rightarrow> cash_transfer_route list \<Rightarrow> dated_cash_obligation list \<Rightarrow> bool" where
  "exact_amounts p k resources routes obligations \<longleftrightarrow>
     (\<forall>x \<in> set (map amount_of resources @ map cr_capacity routes @ map co_amount obligations). 0 \<le> x \<and> places k x) \<and>
     funding_volume resources routes obligations * 10 ^ k < 10 ^ p"

lemma amounts_sums:
  assumes "exact_amounts p k resources routes obligations"
  shows "0 \<le> (\<Sum>r\<leftarrow>resources. amount_of r)" "0 \<le> (\<Sum>r\<leftarrow>routes. cr_capacity r)"
    "0 \<le> (\<Sum>ob\<leftarrow>obligations. co_amount ob)"
  using assms by (auto simp: exact_amounts_def intro!: sum_list_nonneg)

lemma total_resources_exact:
  assumes "exact_amounts p k resources routes obligations"
  shows "total_resources p resources = (\<Sum>r\<leftarrow>resources. amount_of r)"
    and "places k (\<Sum>r\<leftarrow>resources. amount_of r)"
proof -
  let ?T = "\<Sum>r\<leftarrow>resources. amount_of r"
  note nn = amounts_sums [OF assms]
  define n where "n = length resources * (length resources + 2 * length routes + length obligations) + 2 + 2 * length obligations"
  have "?T * 1 \<le> ?T * of_nat n" using nn by (intro mult_left_mono) (simp_all add: n_def)
  then have "?T \<le> funding_volume resources routes obligations"
    unfolding funding_volume_def n_def [symmetric] using nn by linarith
  then have "?T * 10 ^ k \<le> funding_volume resources routes obligations * 10 ^ k" by simp
  also have "\<dots> < 10 ^ p" using assms by (simp add: exact_amounts_def)
  finally have "?T * 10 ^ k < 10 ^ p" .
  moreover have "\<forall>x \<in> set (map amount_of resources). 0 \<le> x \<and> places k x"
    using assms by (auto simp: exact_amounts_def)
  ultimately show "total_resources p resources = ?T" and "places k ?T"
    using dsum_exact [of "map amount_of resources" k p]
    by (simp_all add: total_resources_def case_prod_unfold)
qed

lemma capacities_concat: "sum_list (map capacity_of (concat (map h xs))) = (\<Sum>x\<leftarrow>xs. sum_list (map capacity_of (h x)))"
  by (induction xs) simp_all

lemma sum_list_const: "(\<Sum>x\<leftarrow>xs. c) = of_nat (length xs) * (c :: rat)"
  by (induction xs) (simp_all add: algebra_simps)

lemma enumerate_sum: "(\<Sum>(i, x)\<leftarrow>enumerate n xs. f x) = (\<Sum>x\<leftarrow>xs. (f x :: rat))"
  by (induction xs arbitrary: n) simp_all

lemma funding_edges_volume:
  assumes ex: "exact_amounts p k resources routes obligations"
  shows "sum_list (map capacity_of (funding_edges p limited resources routes obligations))
    \<le> funding_volume resources routes obligations"
proof -
  let ?T = "\<Sum>r\<leftarrow>resources. amount_of r"
  define ts where "ts = funding_times resources routes obligations"
  define as where "as = funding_accounts resources"
  note nn = amounts_sums [OF ex] and T = total_resources_exact(1) [OF ex]
  define n where "n = length as * length (zip ts (tl ts))"
  define m where "m = length resources * (length resources + 2 * length routes + length obligations)"
  have "length as \<le> length resources"
    unfolding as_def funding_accounts_def by (simp add: order_trans [OF length_remdups_leq])
  moreover have "length ts \<le> length resources + 2 * length routes + length obligations"
    using length_datetime_set [of "map (\<lambda>(_, t, _). t) resources @ map cr_departure_at routes @
      map cr_arrival_at routes @ map co_latest_usable_at obligations"]
    by (simp add: ts_def funding_times_def)
  ultimately have "n \<le> m" unfolding n_def m_def by (intro mult_le_mono) simp_all
  have wait: "sum_list (map capacity_of (wait_list ?T (timeline_of as ts) as ts)) = ?T * of_nat n"
    unfolding n_def of_nat_mult
    by (simp add: wait_list_def capacities_concat sum_list_const case_prod_unfold o_def del: length_zip)
  have res: "sum_list (map capacity_of (resource_list (timeline_of as ts) resources)) = 2 * ?T"
    using enumerate_sum [of "\<lambda>r. 2 * amount_of r" 0 resources]
    by (simp add: resource_list_def capacities_concat case_prod_unfold sum_list_const_mult)
  have rou: "sum_list (map capacity_of (route_list (timeline_of as ts) routes)) = 2 * (\<Sum>r\<leftarrow>routes. cr_capacity r)"
    by (simp add: route_list_def capacities_concat sum_list_sort_key sum_list_const_mult flip: mult_2)
  have "sum_list (map capacity_of (obligation_list (demand p limited resources) (timeline_of as ts) obligations)) =
      2 * (\<Sum>ob\<leftarrow>obligations. demand p limited resources ob)"
    by (simp add: obligation_list_def capacities_concat ordered_obligations_def sum_list_sort_key
        sum_list_const_mult flip: mult_2)
  moreover have "(\<Sum>ob\<leftarrow>obligations. demand p limited resources ob) \<le>
      ?T * of_nat (length obligations) + (\<Sum>ob\<leftarrow>obligations. co_amount ob)"
    using nn by (cases limited) (simp_all add: demand_def T sum_list_const mult.commute)
  moreover have "?T * of_nat n \<le> ?T * of_nat m" using \<open>n \<le> m\<close> nn by (intro mult_left_mono) simp_all
  ultimately show ?thesis
    using wait res rou nn
    by (simp add: funding_edges_def Let_def T funding_volume_def ts_def as_def m_def distrib_left)
qed

abbreviation funding_graph ::
    "nat \<Rightarrow> bool \<Rightarrow> cash_resource list \<Rightarrow> cash_transfer_route list \<Rightarrow> dated_cash_obligation list \<Rightarrow> graph" where
  "funding_graph p limited resources routes obligations \<equiv>
     build p empty_network (funding_edges p limited resources routes obligations)"

lemma funding_capacities:
  assumes ex: "exact_amounts p k resources routes obligations"
    and e: "e \<in> set (funding_edges p limited resources routes obligations)"
  shows "0 \<le> capacity_of e \<and> places k (capacity_of e)"
proof -
  have ok: "0 \<le> x \<and> places k x"
    if "x \<in> set (map amount_of resources @ map cr_capacity routes @ map co_amount obligations)" for x
    using ex that by (auto simp: exact_amounts_def)
  have T: "0 \<le> total_resources p resources \<and> places k (total_resources p resources)"
    using total_resources_exact [OF ex] amounts_sums [OF ex] by simp
  have "capacity_of e \<in> insert (total_resources p resources)
      (set (map amount_of resources @ map cr_capacity routes @ map co_amount obligations))"
    using e by (auto simp: funding_edges_def Let_def wait_list_def resource_list_def route_list_def
        obligation_list_def demand_def ordered_obligations_def dest: enumerate_memD intro: rev_image_eqI)
  then show ?thesis by (elim insertE) (simp add: T, rule ok)
qed

lemma empty_network_simps [simp]:
  "flow_graph empty_network" "arcs empty_network = {}" "residual empty_network e = 0"
  by (auto simp: empty_network_def linked_graph_def arcs_def edge_capacity_def residual_def sym_def
      source_not_sink split: if_splits option.splits)

lemma funding_graph_exact:
  assumes ex: "exact_amounts p k resources routes obligations"
  shows "exact_graph p k (funding_graph p limited resources routes obligations)"
    and "flow_graph (funding_graph p limited resources routes obligations)"
    and "residual (funding_graph p limited resources routes obligations) (a, b) =
      tally a b (funding_edges p limited resources routes obligations)"
proof -
  let ?es = "funding_edges p limited resources routes obligations"
  have "exact_graph p k empty_network" by (simp add: exact_graph_def)
  moreover have "\<forall>e \<in> set ?es. 0 \<le> capacity_of e \<and> places k (capacity_of e)"
    using funding_capacities [OF ex] by blast
  moreover have "(sum (residual empty_network) (arcs empty_network) + sum_list (map capacity_of ?es)) * 10 ^ k < 10 ^ p"
  proof -
    have "sum_list (map capacity_of ?es) * 10 ^ k \<le> funding_volume resources routes obligations * 10 ^ k"
      using funding_edges_volume [OF ex] by simp
    also have "\<dots> < 10 ^ p" using ex by (simp add: exact_amounts_def)
    finally show ?thesis by simp
  qed
  ultimately have "exact_graph p k (build p empty_network ?es) \<and>
    residual (build p empty_network ?es) (a, b) = residual empty_network (a, b) +
      sum_list (map capacity_of (filter (\<lambda>(u, v, c). u = a \<and> v = b) ?es))"
    by (rule build_exact)
  then show "exact_graph p k (build p empty_network ?es)"
    and "residual (build p empty_network ?es) (a, b) = tally a b ?es"
    by (simp_all add: tally_def)
  show "flow_graph (build p empty_network ?es)" by (rule flow_graph_build) simp
qed

text \<open>The edges at the sink are those of the obligations, the edges at the source those of the resources.\<close>

lemmas funding_lists = funding_edges_def Let_def wait_list_def resource_list_def route_list_def obligation_list_def
  ordered_obligations_def

lemma sink_edges:
  "(\<exists>c. (u, sink_node, c) \<in> set (funding_edges p limited resources routes obligations)) \<longleftrightarrow>
     (\<exists>ob \<in> set obligations. u = obligation_node ob)"
  "(sink_node, u, c) \<notin> set (funding_edges p limited resources routes obligations)"
  by (auto simp: funding_lists)

lemma source_edges:
  "(\<exists>c. (source_node, u, c) \<in> set (funding_edges p limited resources routes obligations)) \<longleftrightarrow>
     (\<exists>i < length resources. u = resource_node i)"
  "(u, source_node, c) \<notin> set (funding_edges p limited resources routes obligations)"
proof -
  let ?es = "funding_edges p limited resources routes obligations"
  have "\<exists>i < length resources. u = resource_node i" if "(source_node, u, c) \<in> set ?es" for c
    using that by (auto simp: funding_lists in_set_enumerate_eq)
  moreover have "\<exists>c. (source_node, resource_node i, c) \<in> set ?es" if "i < length resources" for i
  proof -
    have "(i, resources ! i) \<in> set (enumerate 0 resources)" using that by (simp add: in_set_enumerate_eq)
    then have "(source_node, resource_node i, amount_of (resources ! i)) \<in> set (resource_list tline resources)" for tline
      unfolding resource_list_def set_concat set_map case_prod_unfold
      by (intro UnionI [OF imageI [OF imageI]]) (assumption | simp)+
    then show ?thesis by (auto simp: funding_edges_def Let_def)
  qed
  ultimately show "(\<exists>c. (source_node, u, c) \<in> set ?es) \<longleftrightarrow> (\<exists>i < length resources. u = resource_node i)" by auto
  show "(u, source_node, c) \<notin> set ?es" by (auto simp: funding_lists)
qed

lemma tally_map: "tally a b (map h xs) = (\<Sum>x\<leftarrow>xs. tally a b [h x])"
  using tally_concat [of a b "\<lambda>x. [h x]" xs] by simp

lemma tally_none: "(\<And>c. (a, b, c) \<notin> set es) \<Longrightarrow> tally a b es = 0"
  unfolding tally_def by (subst filter_False) auto

lemma tally_obligation:
  assumes "distinct (map co_obligation_id obligations)" and "ob \<in> set obligations"
  shows "tally (obligation_node ob) sink_node (funding_edges p limited resources routes obligations) =
    demand p limited resources ob"
proof -
  let ?d = "demand p limited resources"
  define tline where "tline = timeline_of (funding_accounts resources) (funding_times resources routes obligations)"
  have node: "obligation_node x = obligation_node ob \<longleftrightarrow> co_obligation_id x = co_obligation_id ob" for x
    by (simp add: obligation_node_def)
  have "tally (obligation_node ob) sink_node (obligation_list ?d tline obligations) =
      (\<Sum>x\<leftarrow>ordered_obligations obligations. if co_obligation_id x = co_obligation_id ob then ?d x else 0)"
    by (simp add: obligation_list_def tally_concat node tline_def)
  also have "\<dots> = ?d ob"
    unfolding ordered_obligations_def sum_list_sort_key using assms by (rule sum_list_single)
  finally have "tally (obligation_node ob) sink_node (obligation_list ?d tline obligations) = ?d ob" .
  moreover have "tally (obligation_node ob) sink_node (wait_list c tline as ts) = 0" for c as ts
    by (rule tally_none) (auto simp: wait_list_def tline_def)
  moreover have "tally (obligation_node ob) sink_node (resource_list tline resources) = 0"
    by (rule tally_none) (auto simp: resource_list_def)
  moreover have "tally (obligation_node ob) sink_node (route_list tline routes) = 0"
    by (rule tally_none) (auto simp: route_list_def)
  ultimately show ?thesis by (simp add: funding_edges_def Let_def flip: tline_def)
qed

lemma tally_resource:
  assumes "i < length resources"
  shows "tally source_node (resource_node i) (funding_edges p limited resources routes obligations) =
    amount_of (resources ! i)"
proof -
  define tline where "tline = timeline_of (funding_accounts resources) (funding_times resources routes obligations)"
  have mem: "(i, resources ! i) \<in> set (enumerate 0 resources)" using assms by (simp add: in_set_enumerate_eq)
  have "tally source_node (resource_node i) (resource_list tline resources) =
      (\<Sum>x\<leftarrow>enumerate 0 resources. if fst x = fst (i, resources ! i) then amount_of (snd x) else 0)"
    by (simp add: resource_list_def tally_concat case_prod_unfold)
  also have "\<dots> = amount_of (resources ! i)"
    using sum_list_single [OF _ mem, of fst "\<lambda>x. amount_of (snd x)"] by simp
  finally have "tally source_node (resource_node i) (resource_list tline resources) = amount_of (resources ! i)" .
  moreover have "tally source_node (resource_node i) (wait_list c tline as ts) = 0" for c as ts
    by (rule tally_none) (auto simp: wait_list_def tline_def)
  moreover have "tally source_node (resource_node i) (route_list tline routes) = 0"
    by (rule tally_none) (auto simp: route_list_def tline_def)
  moreover have "tally source_node (resource_node i) (obligation_list d tline obligations) = 0" for d
    by (rule tally_none) (auto simp: obligation_list_def tline_def)
  ultimately show ?thesis by (simp add: funding_edges_def Let_def flip: tline_def)
qed

subsection \<open>What the flow funds\<close>

text \<open>One edge of a flow that the loop leaves behind.\<close>

lemma edge_use:
  assumes ex: "exact_graph p k graph0" and g0: "flow_graph graph0" and inv: "flow_inv k graph0 flow graph"
    and e: "(u, v) \<in> arcs graph0" and ne: "u \<noteq> v" and rev: "residual graph0 (v, u) = 0"
  shows "0 \<le> residual graph (u, v)" and "residual graph (u, v) \<le> residual graph0 (u, v)"
    and "dsub p (residual graph0 (u, v)) (residual graph (u, v)) =
      residual graph0 (u, v) - residual graph (u, v)"
proof -
  have "(v, u) \<in> arcs graph0" using arcs_swap [OF g0 e] .
  with e inv have nn: "0 \<le> residual graph (u, v)" "0 \<le> residual graph (v, u)"
    and bal: "residual graph (u, v) + residual graph (v, u) = residual graph0 (u, v)"
    and pl: "places k (residual graph (u, v))" "places k (residual graph0 (u, v))"
    using rev ex by (auto simp: flow_inv_def exact_graph_def)
  from nn(1) show "0 \<le> residual graph (u, v)" .
  from nn bal show le: "residual graph (u, v) \<le> residual graph0 (u, v)" by linarith
  show "dsub p (residual graph0 (u, v)) (residual graph (u, v)) = residual graph0 (u, v) - residual graph (u, v)"
    unfolding dsub_def using e ne nn bal le pl
    by (intro exact_residual [OF ex g0 inv, of "(u, v)"]) (auto intro: places_diff)
qed

lemma those_map_Some:
  assumes "\<And>x. x \<in> set xs \<Longrightarrow> f x = Some (h x)"
  shows "those (map f xs) = Some (map h xs)"
  using assms by (induction xs) auto

lemma sum_over_list:
  assumes "distinct (map key xs)"
  shows "sum f (key ` set xs) = (\<Sum>x\<leftarrow>xs. (f (key x) :: rat))"
proof -
  have "sum f (key ` set xs) = sum f (set (map key xs))" by simp
  also have "\<dots> = (\<Sum>x\<leftarrow>xs. f (key x))"
    using sum_list_distinct_conv_sum_set [OF assms, of f] by (simp add: o_def)
  finally show ?thesis .
qed

lemma edges_into:
  assumes "\<And>u. (u, t) \<in> A \<longleftrightarrow> (\<exists>x \<in> X. u = h x)" and "\<And>x. h x \<noteq> t"
  shows "{e \<in> A. fst e \<in> - {t} \<and> snd e \<notin> - {t}} = (\<lambda>x. (h x, t)) ` X"
  using assms by auto

lemma edges_out_of:
  assumes "\<And>u. (s, u) \<in> A \<longleftrightarrow> (\<exists>x \<in> X. u = h x)"
  shows "{e \<in> A. fst e = s} = (\<lambda>x. (s, h x)) ` X"
  using assms by auto

lemma flow_into_sink:
  assumes known: "distinct (map co_obligation_id obligations)"
    and f: "is_flow (funding_graph p limited resources routes obligations) f"
  shows "flow_value (funding_graph p limited resources routes obligations) f =
    (\<Sum>ob\<leftarrow>obligations. f (obligation_node ob, sink_node))"
proof -
  let ?g = "funding_graph p limited resources routes obligations"
  have g: "flow_graph ?g" by (rule flow_graph_build) simp
  have "flow_value ?g f = sum f {e \<in> arcs ?g. fst e \<in> - {sink_node} \<and> snd e \<notin> - {sink_node}}"
    unfolding flow_value_def
    by (rule flow_across_cut [of _ _ _ sink_node])
      (use f finite_arcs arcs_swap [OF g] in \<open>auto simp: is_flow_def\<close>)
  also have "{e \<in> arcs ?g. fst e \<in> - {sink_node} \<and> snd e \<notin> - {sink_node}} =
      (\<lambda>ob. (obligation_node ob, sink_node)) ` set obligations"
  proof (rule edges_into)
    show "(u, sink_node) \<in> arcs ?g \<longleftrightarrow> (\<exists>ob \<in> set obligations. u = obligation_node ob)" for u
      unfolding arcs_build using sink_edges [of u] by auto
  qed simp
  also have "sum f \<dots> = (\<Sum>ob\<leftarrow>obligations. f (obligation_node ob, sink_node))"
    using known by (intro sum_over_list) (simp add: distinct_map inj_on_def obligation_node_def)
  finally show ?thesis .
qed

lemma flow_out_of_source:
  "flow_value (funding_graph p limited resources routes obligations) f =
     (\<Sum>i\<leftarrow>[0..<length resources]. f (source_node, resource_node i))"
proof -
  let ?g = "funding_graph p limited resources routes obligations"
  have "(source_node, u) \<in> arcs ?g \<longleftrightarrow> (\<exists>i \<in> set [0..<length resources]. u = resource_node i)" for u
    unfolding arcs_build using source_edges [of u] by auto
  then have "{e \<in> arcs ?g. fst e = source_node} = (\<lambda>i. (source_node, resource_node i)) ` set [0..<length resources]"
    by (rule edges_out_of)
  then show ?thesis
    unfolding flow_value_def net_def
    using sum_over_list [of "\<lambda>i. (source_node, resource_node i)" "[0..<length resources]" f]
    by (simp add: distinct_map inj_on_def)
qed

lemma funding_graph_arcs:
  "ob \<in> set obligations \<Longrightarrow> (obligation_node ob, sink_node) \<in> arcs (funding_graph p limited resources routes obligations)"
  "i < length resources \<Longrightarrow> (source_node, resource_node i) \<in> arcs (funding_graph p limited resources routes obligations)"
  unfolding arcs_build
  using sink_edges(1) [of "obligation_node ob" p limited resources routes obligations]
    source_edges(1) [of "resource_node i" p limited resources routes obligations] by blast+

lemma funding_graph_zero:
  assumes ex: "exact_amounts p k resources routes obligations"
  shows "residual (funding_graph p limited resources routes obligations) (sink_node, u) = 0"
    and "residual (funding_graph p limited resources routes obligations) (u, source_node) = 0"
  unfolding funding_graph_exact(3) [OF ex] by (rule tally_none, rule sink_edges source_edges)+

definition covered_result :: "graph \<Rightarrow> dated_cash_obligation \<Rightarrow> obligation_funding" where
  "covered_result graph ob =
     (let gap = residual graph (obligation_node ob, sink_node) in
      \<lparr>of_obligation_id = co_obligation_id ob, of_target_account_id = co_target_account_id ob,
       of_latest_usable_at = co_latest_usable_at ob, of_required_cash = co_amount ob,
       of_maximum_covered_cash = co_amount ob - gap, of_uncovered_gap = gap\<rparr>)"

definition resource_used :: "cash_resource list \<Rightarrow> graph \<Rightarrow> nat \<Rightarrow> decimal" where
  "resource_used resources graph i = amount_of (resources ! i) - residual graph (source_node, resource_node i)"

lemma enumerate_map: "map f (enumerate 0 xs) = map (\<lambda>i. f (i, xs ! i)) [0..<length xs]"
  by (rule nth_equalityI) (simp_all add: nth_enumerate_eq)

lemma fund_obligations_run:
  assumes ne: "obligations \<noteq> []" and known: "known_accounts resources routes obligations"
    and ids: "distinct (map co_obligation_id obligations)" and ex: "exact_amounts p k resources routes obligations"
  obtains fc gc fm gm where
    "flow_inv k (funding_graph p True resources routes obligations) fc gc"
    "(source_node, sink_node) \<notin> (open_edges gc)\<^sup>*"
    "flow_inv k (funding_graph p False resources routes obligations) fm gm"
    "fund_obligations p resources routes obligations =
       Some (fm, map (covered_result gc) (ordered_obligations obligations),
         map (resource_used resources gm) [0..<length resources])"
proof -
  note ge = funding_graph_exact [OF ex] and ed = funding_graph_arcs funding_graph_zero [OF ex]
  obtain fc gc where c: "maximum_flow p (funding_graph p True resources routes obligations) = Some (fc, gc)"
    "flow_inv k (funding_graph p True resources routes obligations) fc gc"
    "(source_node, sink_node) \<notin> (open_edges gc)\<^sup>*"
    by (rule maximum_flow_run [OF ge(2,1)])
  obtain fm gm where m: "maximum_flow p (funding_graph p False resources routes obligations) = Some (fm, gm)"
    "flow_inv k (funding_graph p False resources routes obligations) fm gm"
    by (rule maximum_flow_run [OF ge(2,1)])
  have "obligation_result p gc ob = Some (covered_result gc ob)" if "ob \<in> set obligations" for ob
  proof -
    have "arcs gc = arcs (funding_graph p True resources routes obligations)" using c(2) by (simp add: flow_inv_def)
    with ed(1) [OF that] have "edge_capacity gc (obligation_node ob) sink_node =
        Some (residual gc (obligation_node ob, sink_node))" by (intro arcs_residual) simp
    moreover have "residual (funding_graph p True resources routes obligations) (obligation_node ob, sink_node) = co_amount ob"
      using tally_obligation [OF ids that] by (simp add: ge(3) demand_def)
    ultimately show ?thesis
      using edge_use(3) [OF ge(1,2) c(2) ed(1) [OF that] _ ed(3)]
      by (simp add: obligation_result_def covered_result_def Let_def)
  qed
  then have res: "those (map (obligation_result p gc) (ordered_obligations obligations)) =
      Some (map (covered_result gc) (ordered_obligations obligations))"
    by (intro those_map_Some) (simp add: ordered_obligations_def)
  have "resource_use p gm (i, resources ! i) = Some (resource_used resources gm i)" if "i < length resources" for i
  proof -
    have "arcs gm = arcs (funding_graph p False resources routes obligations)" using m(2) by (simp add: flow_inv_def)
    with ed(2) [OF that] have "edge_capacity gm source_node (resource_node i) =
        Some (residual gm (source_node, resource_node i))" by (intro arcs_residual) simp
    moreover have "residual (funding_graph p False resources routes obligations) (source_node, resource_node i) =
        amount_of (resources ! i)"
      using tally_resource [OF that] by (simp add: ge(3))
    ultimately show ?thesis
      using edge_use(3) [OF ge(1,2) m(2) ed(2) [OF that] _ ed(4)]
      by (simp add: resource_use_def resource_used_def case_prod_unfold)
  qed
  then have use: "those (map (resource_use p gm) (enumerate 0 resources)) =
      Some (map (resource_used resources gm) [0..<length resources])"
    unfolding enumerate_map by (intro those_map_Some) simp
  have "fund_obligations p resources routes obligations =
       Some (fm, map (covered_result gc) (ordered_obligations obligations),
         map (resource_used resources gm) [0..<length resources])"
    using ne c(1) m(1) res use by (simp add: fund_obligations_def funding_network_build known)
  with c(2,3) m(2) show ?thesis by (rule that)
qed

lemma those_map_not_None:
  assumes "\<And>x. x \<in> set xs \<Longrightarrow> f x \<noteq> None"
  shows "\<exists>ys. those (map f xs) = Some ys"
  using those_map_Some [of xs f "\<lambda>x. the (f x)"] assms by auto

lemma fund_obligations_None:
  "fund_obligations p resources routes obligations = None \<longleftrightarrow>
     obligations \<noteq> [] \<and> \<not> known_accounts resources routes obligations"
proof (cases "obligations \<noteq> [] \<and> known_accounts resources routes obligations")
  case True
  have run: "\<exists>f g. maximum_flow p (funding_graph p limited resources routes obligations) = Some (f, g) \<and>
      arcs g = arcs (funding_graph p limited resources routes obligations)" for limited
  proof -
    have "flow_graph (funding_graph p limited resources routes obligations)" by (rule flow_graph_build) simp
    from flow_loop_invariant [OF this, of "\<lambda>_ _. True" 0 p] show ?thesis by (auto simp: maximum_flow_def)
  qed
  from run [of True] run [of False] obtain fc gc fm gm where
    c: "maximum_flow p (funding_graph p True resources routes obligations) = Some (fc, gc)"
      "arcs gc = arcs (funding_graph p True resources routes obligations)" and
    m: "maximum_flow p (funding_graph p False resources routes obligations) = Some (fm, gm)"
      "arcs gm = arcs (funding_graph p False resources routes obligations)" by blast
  have "\<exists>rs. those (map (obligation_result p gc) (ordered_obligations obligations)) = Some rs"
    using funding_graph_arcs(1) c(2)
    by (intro those_map_not_None) (simp add: obligation_result_def ordered_obligations_def arcs_residual)
  moreover have "\<exists>us. those (map (resource_use p gm) (enumerate 0 resources)) = Some us"
    unfolding enumerate_map using funding_graph_arcs(2) m(2)
    by (intro those_map_not_None) (simp add: resource_use_def arcs_residual case_prod_unfold)
  ultimately show ?thesis
    using True c(1) m(1) by (auto simp: fund_obligations_def funding_network_build)
qed (auto simp: fund_obligations_def funding_network_build)

text \<open>C21: The funding of obligations always returns, except that it raises when a route or an obligation names an
  account without any resource (and there is an obligation at all).\<close>

theorem funding_raises_iff:
  "fund_obligations p resources routes obligations = None \<longleftrightarrow>
     obligations \<noteq> [] \<and> \<not> known_accounts resources routes obligations"
  by (rule fund_obligations_None)


lemma covered_results:
  fixes p resources routes obligations
  defines "C \<equiv> funding_graph p True resources routes obligations"
  assumes ids: "distinct (map co_obligation_id obligations)" and ex: "exact_amounts p k resources routes obligations"
    and inv: "flow_inv k C flow graph"
  shows "ob \<in> set obligations \<Longrightarrow> 0 \<le> residual graph (obligation_node ob, sink_node) \<and>
      residual graph (obligation_node ob, sink_node) \<le> co_amount ob"
    and "(\<Sum>ob\<leftarrow>ordered_obligations obligations. of_maximum_covered_cash (covered_result graph ob)) = flow"
proof -
  note ge = funding_graph_exact [OF ex, of True, folded C_def]
  have amount: "residual C (obligation_node ob, sink_node) = co_amount ob" if "ob \<in> set obligations" for ob
    using tally_obligation [OF ids that] by (simp add: ge(3) demand_def)
  show "0 \<le> residual graph (obligation_node ob, sink_node) \<and> residual graph (obligation_node ob, sink_node) \<le> co_amount ob"
    if "ob \<in> set obligations"
    using edge_use(1,2) [OF ge(1,2) inv funding_graph_arcs(1) [OF that, of p True resources routes, folded C_def] _
      funding_graph_zero(1) [OF ex, of True, folded C_def]] amount [OF that] by simp
  have "(\<Sum>ob\<leftarrow>ordered_obligations obligations. of_maximum_covered_cash (covered_result graph ob)) =
      (\<Sum>ob\<leftarrow>obligations. co_amount ob - residual graph (obligation_node ob, sink_node))"
    by (simp add: ordered_obligations_def sum_list_sort_key covered_result_def Let_def)
  also have "\<dots> = (\<Sum>ob\<leftarrow>obligations. residual C (obligation_node ob, sink_node) - residual graph (obligation_node ob, sink_node))"
    using amount by (intro arg_cong [where f = sum_list] map_cong) simp_all
  also have "\<dots> = flow"
    using flow_into_sink [OF ids flow_inv_is_flow(1) [OF ge(2) inv, unfolded C_def]] flow_inv_is_flow(2) [OF ge(2) inv]
    by (simp add: C_def)
  finally show "(\<Sum>ob\<leftarrow>ordered_obligations obligations. of_maximum_covered_cash (covered_result graph ob)) = flow" .
qed

lemma used_resources:
  fixes p resources routes obligations
  defines "M \<equiv> funding_graph p False resources routes obligations"
  assumes ex: "exact_amounts p k resources routes obligations" and inv: "flow_inv k M flow graph"
  shows "list_all2 (\<lambda>r u. 0 \<le> u \<and> u \<le> amount_of r) resources (map (resource_used resources graph) [0..<length resources])"
    and "sum_list (map (resource_used resources graph) [0..<length resources]) = flow"
proof -
  note ge = funding_graph_exact [OF ex, of False, folded M_def]
  have amount: "residual M (source_node, resource_node i) = amount_of (resources ! i)" if "i < length resources" for i
    using tally_resource [OF that] by (simp add: ge(3))
  have "0 \<le> resource_used resources graph i \<and> resource_used resources graph i \<le> amount_of (resources ! i)"
    if "i < length resources" for i
    using edge_use(1,2) [OF ge(1,2) inv funding_graph_arcs(2) [OF that, of p False routes obligations, folded M_def] _
      funding_graph_zero(2) [OF ex, of False, folded M_def]] amount [OF that] by (simp add: resource_used_def)
  then show "list_all2 (\<lambda>r u. 0 \<le> u \<and> u \<le> amount_of r) resources
      (map (resource_used resources graph) [0..<length resources])"
    by (simp add: list_all2_conv_all_nth)
  have "(\<Sum>i\<leftarrow>[0..<length resources]. resource_used resources graph i) =
      (\<Sum>i\<leftarrow>[0..<length resources]. residual M (source_node, resource_node i) - residual graph (source_node, resource_node i))"
    using amount by (intro arg_cong [where f = sum_list] map_cong) (simp_all add: resource_used_def)
  also have "\<dots> = flow"
    using flow_out_of_source [of p False resources routes obligations "\<lambda>e. residual M e - residual graph e"]
      flow_inv_is_flow(2) [OF ge(2) inv] by (simp add: M_def)
  finally show "sum_list (map (resource_used resources graph) [0..<length resources]) = flow" .
qed

text \<open>C20: On exact amounts, every obligation is covered up to a gap between nothing and what it requires, the
  covered amounts together are the value of a flow through the network and no flow through the network has a
  greater value, no resource is used for more than its amount, and the resources used add up to the maximum
  fundable cash.\<close>

theorem funding_covers_most:
  assumes "obligations \<noteq> []" and "known_accounts resources routes obligations"
    and "distinct (map co_obligation_id obligations)" and "exact_amounts p k resources routes obligations"
  shows "\<exists>network maximum results used.
    funding_network p True resources routes obligations = Some network \<and>
    fund_obligations p resources routes obligations = Some (maximum, results, used) \<and>
    map of_obligation_id results = map co_obligation_id (ordered_obligations obligations) \<and>
    (\<forall>r \<in> set results. 0 \<le> of_uncovered_gap r \<and> of_uncovered_gap r \<le> of_required_cash r \<and>
       of_maximum_covered_cash r = of_required_cash r - of_uncovered_gap r) \<and>
    (\<exists>h. is_flow network h \<and> flow_value network h = (\<Sum>r\<leftarrow>results. of_maximum_covered_cash r)) \<and>
    (\<forall>h. is_flow network h \<longrightarrow> flow_value network h \<le> (\<Sum>r\<leftarrow>results. of_maximum_covered_cash r)) \<and>
    list_all2 (\<lambda>r u. 0 \<le> u \<and> u \<le> amount_of r) resources used \<and> sum_list used = maximum"
proof -
  let ?C = "funding_graph p True resources routes obligations"
  note ge = funding_graph_exact [OF assms(4)]
  obtain fc gc fm gm where c: "flow_inv k ?C fc gc" "(source_node, sink_node) \<notin> (open_edges gc)\<^sup>*"
    and m: "flow_inv k (funding_graph p False resources routes obligations) fm gm"
    and run: "fund_obligations p resources routes obligations =
      Some (fm, map (covered_result gc) (ordered_obligations obligations),
        map (resource_used resources gm) [0..<length resources])"
    by (rule fund_obligations_run [OF assms])
  let ?results = "map (covered_result gc) (ordered_obligations obligations)"
  note covered = covered_results [OF assms(3,4) c(1)]
  have sum: "(\<Sum>r\<leftarrow>?results. of_maximum_covered_cash r) = fc" using covered(2) by (simp add: o_def)
  show ?thesis
  proof (intro exI conjI)
    show "funding_network p True resources routes obligations = Some ?C"
      using assms(2) by (simp add: funding_network_build)
    show "is_flow ?C (\<lambda>e. residual ?C e - residual gc e)" by (rule flow_inv_is_flow [OF ge(2) c(1)])
    show "flow_value ?C (\<lambda>e. residual ?C e - residual gc e) = (\<Sum>r\<leftarrow>?results. of_maximum_covered_cash r)"
      using sum flow_inv_is_flow(2) [OF ge(2) c(1)] by simp
    show "\<forall>h. is_flow ?C h \<longrightarrow> flow_value ?C h \<le> (\<Sum>r\<leftarrow>?results. of_maximum_covered_cash r)"
      unfolding sum using flow_inv_maximal [OF ge(2) c] by blast
    show "\<forall>r \<in> set ?results. 0 \<le> of_uncovered_gap r \<and> of_uncovered_gap r \<le> of_required_cash r \<and>
       of_maximum_covered_cash r = of_required_cash r - of_uncovered_gap r"
      using covered(1) by (auto simp: covered_result_def Let_def ordered_obligations_def)
  qed (use run used_resources [OF assms(4) m] in \<open>simp_all add: o_def covered_result_def Let_def\<close>)
qed

subsection \<open>Concrete fundings\<close>

definition small_network :: graph where
  "small_network = build 38 empty_network
     [(source_node, resource_node 0, 70), (resource_node 0, sink_node, 40), (source_node, sink_node, 5/2)]"

lemma small_network_flow_graph: "flow_graph small_network"
  unfolding small_network_def by (rule flow_graph_build) simp

lemma small_network_exact: "exact_graph 38 1 small_network"
  unfolding small_network_def by (rule build_exact [THEN conjunct1]) (simp_all add: exact_graph_def places_def)

theorem maximum_flow_terminates_witness:
  "flow_graph small_network \<and>
     (\<exists>flow graph'. maximum_flow 38 small_network = Some (flow, graph') \<and>
        (source_node, sink_node) \<notin> (open_edges graph')\<^sup>*)"
  using maximum_flow_terminates [of small_network 38] small_network_flow_graph by simp

theorem maximum_flow_is_maximum_witness:
  "flow_graph small_network \<and> exact_graph 38 1 small_network \<and>
     (\<exists>flow graph'. maximum_flow 38 small_network = Some (flow, graph') \<and>
        is_flow small_network (\<lambda>e. residual small_network e - residual graph' e) \<and>
        flow_value small_network (\<lambda>e. residual small_network e - residual graph' e) = flow \<and>
        (\<forall>h. is_flow small_network h \<longrightarrow> flow_value small_network h \<le> flow))"
  using maximum_flow_is_maximum [of small_network 38 1] small_network_flow_graph small_network_exact by simp

definition tax_resources :: "cash_resource list" where
  "tax_resources = [(''A'', Datetime 0 0, 100), (''B'', Datetime 86400000000 0, 11/2)]"

definition tax_route :: cash_transfer_route where
  "tax_route =
     \<lparr>cr_route_id = ''R'', cr_source_account_id = ''A'', cr_target_account_id = ''B'', cr_departure_at = Datetime 0 0,
      cr_arrival_at = Datetime 86400000000 3600000000, cr_capacity = 30,
      cr_evidence = \<lparr>ev_source = None, ev_source_version = None, ev_business_effective_at = None,
        ev_source_observed_at = None, ev_locally_acquired_at = None, ev_validated_at = None, ev_cutoff_at = None,
        ev_complete_through_at = None, ev_expires_at = None\<rparr>\<rparr>"

definition tax_obligation :: dated_cash_obligation where
  "tax_obligation =
     \<lparr>co_obligation_id = ''O'', co_amount = 50, co_purpose = ''TAX'', co_latest_usable_at = Datetime 86400000000 0,
      co_target_account_id = ''B''\<rparr>"

lemma tax_funding_known: "known_accounts tax_resources [tax_route] [tax_obligation]"
  by (simp add: known_accounts_def tax_resources_def tax_route_def tax_obligation_def)

lemma tax_funding_exact: "exact_amounts 38 1 tax_resources [tax_route] [tax_obligation]"
  by (simp add: exact_amounts_def funding_volume_def places_def tax_resources_def tax_route_def tax_obligation_def)

theorem funding_covers_most_witness:
  "known_accounts tax_resources [tax_route] [tax_obligation] \<and>
   exact_amounts 38 1 tax_resources [tax_route] [tax_obligation] \<and>
   (\<exists>network maximum results used.
      funding_network 38 True tax_resources [tax_route] [tax_obligation] = Some network \<and>
      fund_obligations 38 tax_resources [tax_route] [tax_obligation] = Some (maximum, results, used) \<and>
      map of_obligation_id results = map co_obligation_id (ordered_obligations [tax_obligation]) \<and>
      (\<forall>r \<in> set results. 0 \<le> of_uncovered_gap r \<and> of_uncovered_gap r \<le> of_required_cash r \<and>
         of_maximum_covered_cash r = of_required_cash r - of_uncovered_gap r) \<and>
      (\<exists>h. is_flow network h \<and> flow_value network h = (\<Sum>r\<leftarrow>results. of_maximum_covered_cash r)) \<and>
      (\<forall>h. is_flow network h \<longrightarrow> flow_value network h \<le> (\<Sum>r\<leftarrow>results. of_maximum_covered_cash r)) \<and>
      list_all2 (\<lambda>r u. 0 \<le> u \<and> u \<le> amount_of r) tax_resources used \<and> sum_list used = maximum)"
proof -
  have "[tax_obligation] \<noteq> []" and "distinct (map co_obligation_id [tax_obligation])" by simp_all
  from funding_covers_most [OF this(1) tax_funding_known this(2) tax_funding_exact]
  show ?thesis using tax_funding_known tax_funding_exact by blast
qed

end
