(* ===== verification/Liquidity_Properties.thy ===== *)
theory Liquidity_Properties
  imports Liquidity Funding_Properties
begin

text \<open>
  Properties of the cash reserve adjudication: the receipts of settled obligations are retained and reduce what
  is outstanding exactly once, a remediation stays open until its restoration is confirmed, and new exposure is
  open only when every input was available and the reserve is met.
\<close>

subsection \<open>Receipts\<close>

lemma opt_dt_eq_trans: "opt_dt_eq a b \<Longrightarrow> opt_dt_eq b c \<Longrightarrow> opt_dt_eq a c"
  by (cases a; cases b; cases c) auto

lemma coverage_eq_refl [simp]: "coverage_eq a a"
  by (simp add: coverage_eq_def evidence_eq_def)

lemma coverage_eq_trans: "coverage_eq a b \<Longrightarrow> coverage_eq b c \<Longrightarrow> coverage_eq a c"
  by (auto simp: coverage_eq_def evidence_eq_def intro: opt_dt_eq_trans)

lemma coverage_eq_sym: "coverage_eq a b \<Longrightarrow> coverage_eq b a"
proof -
  have "opt_dt_eq a b \<Longrightarrow> opt_dt_eq b a" for a b by (cases a; cases b) auto
  then show "coverage_eq a b \<Longrightarrow> coverage_eq b a" by (auto simp: coverage_eq_def evidence_eq_def)
qed

text \<open>A dictionary of receipts by their identity.\<close>

definition receipt_dict :: "receipts \<Rightarrow> bool" where
  "receipt_dict retained \<longleftrightarrow>
     distinct (map fst retained) \<and> (\<forall>key receipt. map_of retained key = Some receipt \<longrightarrow> key = so_receipt_id receipt)"

lemma receipt_dict_update:
  "receipt_dict retained \<Longrightarrow> receipt_dict (AList.update (so_receipt_id receipt) receipt retained)"
  by (auto simp: receipt_dict_def distinct_update update_conv')

lemma retain_receipts_keeps:
  assumes "receipt_dict retained" and "retain_receipts valid retained receipts = Some retained'"
  shows "receipt_dict retained' \<and>
    (\<forall>receipt \<in> ran (map_of retained) \<union> set receipts. \<exists>kept \<in> ran (map_of retained'). coverage_eq kept receipt) \<and>
    ran (map_of retained') \<subseteq> ran (map_of retained) \<union> set receipts"
  using assms
proof (induction receipts arbitrary: retained)
  case Nil
  then show ?case by (auto intro: coverage_eq_refl)
next
  case (Cons receipt receipts)
  let ?id = "so_receipt_id receipt"
  let ?r = "AList.update ?id receipt retained"
  have old: "coverage_eq old receipt" if "map_of retained ?id = Some old" for old
    using Cons.prems(2) that by (simp split: if_splits)
  have rest: "retain_receipts valid ?r receipts = Some retained'"
    using Cons.prems(2) by (simp split: if_splits)
  note IH = Cons.IH [OF receipt_dict_update [OF Cons.prems(1)] rest]
  have ran: "ran (map_of ?r) \<subseteq> insert receipt (ran (map_of retained))" "receipt \<in> ran (map_of ?r)"
    by (auto simp: update_conv' ran_def)
  have "\<exists>kept \<in> ran (map_of ?r). coverage_eq kept x" if "x \<in> ran (map_of retained)" for x
  proof (cases "so_receipt_id x = ?id")
    case True
    then have "map_of retained ?id = Some x" using Cons.prems(1) that by (auto simp: receipt_dict_def ran_def)
    then show ?thesis using old coverage_eq_sym ran(2) by blast
  next
    case False
    then have "x \<in> ran (map_of ?r)" using Cons.prems(1) that by (auto simp: receipt_dict_def ran_def update_conv')
    then show ?thesis by (auto intro: coverage_eq_refl)
  qed
  moreover have through: "\<exists>kept \<in> ran (map_of retained'). coverage_eq kept x"
    if "y \<in> ran (map_of ?r)" and "coverage_eq y x" for x y
    using IH that coverage_eq_trans by blast
  moreover have "\<exists>kept \<in> ran (map_of retained'). coverage_eq kept receipt"
    using through [OF ran(2)] by simp
  moreover have "ran (map_of retained') \<subseteq> ran (map_of retained) \<union> set (receipt # receipts)" using IH ran(1) by auto
  ultimately show ?case using IH by (simp add: ball_Un) blast
qed

text \<open>The sum of the receipts for one obligation.\<close>

definition settled_for :: "str \<Rightarrow> settled_obligation_coverage list \<Rightarrow> rat" where
  "settled_for obligation_id receipts =
     (\<Sum>receipt\<leftarrow>receipts. if so_obligation_id receipt = obligation_id then so_amount receipt else 0)"

lemma settled_for_simps [simp]:
  "settled_for i [] = 0"
  "settled_for i (r # rs) = (if so_obligation_id r = i then so_amount r else 0) + settled_for i rs"
  by (simp_all add: settled_for_def)

lemma scaled_less:
  fixes a x c :: rat
  assumes "0 \<le> x" and "a * 10 ^ k < c"
  shows "(a - x) * 10 ^ k < c"
proof (rule le_less_trans)
  show "(a - x) * 10 ^ k \<le> a * 10 ^ k" using assms(1) by (intro mult_right_mono) simp_all
qed (rule assms(2))

lemma settle_step:
  assumes "0 \<le> a" "places k a" "a * 10 ^ k < 10 ^ liquidity_precision" "0 \<le> x" "places k x" "\<not> lsub a x < 0"
  shows "lsub a x = a - x" and "x \<le> a"
proof -
  show le: "x \<le> a"
  proof (rule ccontr)
    assume "\<not> x \<le> a"
    then have "0 < dec_round liquidity_precision (x - a)" by (intro dec_round_pos) (simp_all add: liquidity_precision_def)
    then have "lsub a x < 0" using dec_round_minus [of liquidity_precision "x - a"] by (simp add: dsub_def)
    with assms(6) show False by simp
  qed
  show "lsub a x = a - x"
    unfolding dsub_def using le assms by (intro places_round [of k] places_diff scaled_less) auto
qed

lemma settle_receipts_exact:
  assumes "settle_receipts remaining receipts = Some remaining'"
    and "\<forall>a \<in> ran (map_of remaining). 0 \<le> a \<and> places k a \<and> a * 10 ^ k < 10 ^ liquidity_precision"
    and "\<forall>r \<in> set receipts. 0 \<le> so_amount r \<and> places k (so_amount r)"
  shows "map_of remaining' i = map_option (\<lambda>a. a - settled_for i receipts) (map_of remaining i) \<and>
    (\<forall>a. map_of remaining i = Some a \<longrightarrow> settled_for i receipts \<le> a)"
  using assms
proof (induction receipts arbitrary: remaining)
  case Nil
  then show ?case by (cases "map_of remaining i") (auto simp: ran_def)
next
  case (Cons r rs)
  let ?o = "so_obligation_id r"
  from Cons.prems(1) obtain a where a: "map_of remaining ?o = Some a" "\<not> lsub a (so_amount r) < 0"
    and rest: "settle_receipts (AList.update ?o (lsub a (so_amount r)) remaining) rs = Some remaining'"
    by (auto simp: Let_def split: option.splits if_splits)
  then have "a \<in> ran (map_of remaining)" by (auto simp: ran_def)
  with Cons.prems(2,3) have ok: "0 \<le> a" "places k a" "a * 10 ^ k < 10 ^ liquidity_precision" "0 \<le> so_amount r"
    "places k (so_amount r)" by auto
  note st = settle_step [OF ok a(2)]
  have new: "0 \<le> a - so_amount r \<and> places k (a - so_amount r) \<and> (a - so_amount r) * 10 ^ k < 10 ^ liquidity_precision"
    using st(2) ok by (auto intro: places_diff scaled_less)
  have "\<forall>x \<in> ran (map_of (AList.update ?o (a - so_amount r) remaining)).
      0 \<le> x \<and> places k x \<and> x * 10 ^ k < 10 ^ liquidity_precision"
    using Cons.prems(2) new by (auto simp: update_conv' ran_def)
  from Cons.IH [OF rest [unfolded st(1)] this] Cons.prems(3) a(1) show ?case
    by (cases "i = ?o") (auto simp: update_conv')
qed

text \<open>The receipts in the order of their identities.\<close>

definition by_identity :: "receipts \<Rightarrow> settled_obligation_coverage list" where
  "by_identity retained = map (\<lambda>key. the (map_of retained key)) (sort (map fst retained))"

lemma by_identity:
  assumes "receipt_dict retained"
  shows "map so_receipt_id (by_identity retained) = sort (map fst retained)"
    and "set (by_identity retained) = ran (map_of retained)"
    and "settled_for i (by_identity retained) = settled_for i (map snd retained)"
proof -
  have keys: "map_of retained key = Some (the (map_of retained key))" if "key \<in> set (map fst retained)" for key
    using that by (cases "map_of retained key") (auto simp: map_of_eq_None_iff)
  then have "map (\<lambda>key. so_receipt_id (the (map_of retained key))) (sort (map fst retained)) = sort (map fst retained)"
    using assms by (intro map_idI) (metis receipt_dict_def set_sort)
  then show "map so_receipt_id (by_identity retained) = sort (map fst retained)" by (simp add: by_identity_def o_def)
  have dist: "distinct (map fst retained)" using assms by (simp add: receipt_dict_def)
  have val: "map (\<lambda>key. the (map_of retained key)) (map fst retained) = map snd retained"
    using dist by (auto intro: map_of_is_SomeI)
  have "set (by_identity retained) = set (map (\<lambda>key. the (map_of retained key)) (map fst retained))"
    by (simp add: by_identity_def image_image)
  also have "\<dots> = snd ` set retained" unfolding val by simp
  finally show "set (by_identity retained) = ran (map_of retained)" by (simp add: ran_distinct [OF dist])
  have "settled_for i (by_identity retained) = settled_for i (map (\<lambda>key. the (map_of retained key)) (map fst retained))"
    by (simp add: settled_for_def by_identity_def o_def sum_list_sort_key [where key = "\<lambda>x. x"])
  then show "settled_for i (by_identity retained) = settled_for i (map snd retained)" unfolding val .
qed

lemma outstanding_obligations_parts:
  assumes "outstanding_obligations obligations command history = Some (outstanding, coverage)"
  obtains retained remaining where "receipt_dict retained"
    and "coverage = by_identity retained"
    and "\<forall>r \<in> set (concat (map lo_settled_coverage history)) \<union> set (lc_settled_coverage command).
      \<exists>kept \<in> ran (map_of retained). coverage_eq kept r"
    and "ran (map_of retained) \<subseteq> set (concat (map lo_settled_coverage history)) \<union> set (lc_settled_coverage command)"
    and "settle_receipts (dict_of co_obligation_id co_amount obligations) (map snd retained) = Some remaining"
    and "outstanding = List.map_filter (\<lambda>item. case map_of remaining (co_obligation_id item) of
      None \<Rightarrow> None | Some rest \<Rightarrow> if 0 < rest then Some (item\<lparr>co_amount := rest\<rparr>) else None) obligations"
proof -
  let ?valid = "\<lambda>receipt. problem_codes (so_evidence receipt) (psc_cutoff_at (lc_position_snapshot command)) False = []"
  from assms obtain earlier retained remaining where
    e: "retain_receipts (\<lambda>_. True) [] (concat (map lo_settled_coverage history)) = Some earlier"
    and r: "retain_receipts ?valid earlier (lc_settled_coverage command) = Some retained"
    and s: "settle_receipts (dict_of co_obligation_id co_amount obligations) (map snd retained) = Some remaining"
    and o: "outstanding = List.map_filter (\<lambda>item. case map_of remaining (co_obligation_id item) of
      None \<Rightarrow> None | Some rest \<Rightarrow> if 0 < rest then Some (item\<lparr>co_amount := rest\<rparr>) else None) obligations"
    and c: "coverage = by_identity retained"
    unfolding outstanding_obligations_def by_identity_def by (auto split: option.splits if_splits)
  have "receipt_dict []" by (simp add: receipt_dict_def)
  note k1 = retain_receipts_keeps [OF this e]
  note k2 = retain_receipts_keeps [OF k1 [THEN conjunct1] r]
  let ?all = "set (concat (map lo_settled_coverage history)) \<union> set (lc_settled_coverage command)"
  have later: "\<exists>kept \<in> ran (map_of retained). coverage_eq kept x" if "y \<in> ran (map_of earlier)" "coverage_eq y x" for x y
    using k2 that coverage_eq_trans by blast
  have "\<exists>kept \<in> ran (map_of retained). coverage_eq kept x" if "x \<in> ?all" for x
  proof (cases "x \<in> set (lc_settled_coverage command)")
    case True
    with k2 show ?thesis by blast
  next
    case False
    with that have "x \<in> set (concat (map lo_settled_coverage history))" by blast
    with k1 have "\<exists>y \<in> ran (map_of earlier). coverage_eq y x" by blast
    with later show ?thesis by blast
  qed
  then have all: "\<forall>x \<in> ?all. \<exists>kept \<in> ran (map_of retained). coverage_eq kept x" by blast
  have "ran (map_of retained) \<subseteq> ?all" using k1 k2 by (auto simp del: set_concat)
  then show ?thesis by (rule that [OF k2 [THEN conjunct1] c all _ s o])
qed

text \<open>When the receipts of settled obligations are accepted, every receipt of the history and of the command is
  retained under its own identity, no obligation is settled beyond its amount, and the outstanding obligations
  are exactly those not yet settled in full, each with its amount less its receipts (on amounts with a common
  number of decimal places).\<close>

lemma outstanding_obligations_exact:
  assumes "outstanding_obligations obligations command history = Some (outstanding, coverage)"
    and "distinct (map co_obligation_id obligations)"
    and "\<forall>ob \<in> set obligations. 0 \<le> co_amount ob \<and> places k (co_amount ob) \<and>
      co_amount ob * 10 ^ k < 10 ^ liquidity_precision"
    and "\<forall>r \<in> set (concat (map lo_settled_coverage history)) \<union> set (lc_settled_coverage command).
      0 \<le> so_amount r \<and> places k (so_amount r)"
  shows "sorted (map so_receipt_id coverage) \<and> distinct (map so_receipt_id coverage) \<and>
    (\<forall>r \<in> set (concat (map lo_settled_coverage history)) \<union> set (lc_settled_coverage command).
       \<exists>kept \<in> set coverage. coverage_eq kept r) \<and>
    (\<forall>ob \<in> set obligations. settled_for (co_obligation_id ob) coverage \<le> co_amount ob) \<and>
    outstanding = map (\<lambda>ob. ob\<lparr>co_amount := co_amount ob - settled_for (co_obligation_id ob) coverage\<rparr>)
      (filter (\<lambda>ob. settled_for (co_obligation_id ob) coverage < co_amount ob) obligations)"
proof -
  obtain retained remaining where d: "receipt_dict retained" and c: "coverage = by_identity retained"
    and kept: "\<forall>r \<in> set (concat (map lo_settled_coverage history)) \<union> set (lc_settled_coverage command).
      \<exists>kept \<in> ran (map_of retained). coverage_eq kept r"
    and origin: "ran (map_of retained) \<subseteq> set (concat (map lo_settled_coverage history)) \<union> set (lc_settled_coverage command)"
    and st: "settle_receipts (dict_of co_obligation_id co_amount obligations) (map snd retained) = Some remaining"
    and o: "outstanding = List.map_filter (\<lambda>item. case map_of remaining (co_obligation_id item) of
      None \<Rightarrow> None | Some rest \<Rightarrow> if 0 < rest then Some (item\<lparr>co_amount := rest\<rparr>) else None) obligations"
    by (rule outstanding_obligations_parts [OF assms(1)])
  note bi = by_identity [OF d, folded c]
  have "snd ` set retained = ran (map_of retained)" using d by (simp add: receipt_dict_def ran_distinct)
  then have amounts: "\<forall>r \<in> set (map snd retained). 0 \<le> so_amount r \<and> places k (so_amount r)"
    using origin assms(4) by auto
  have start: "\<forall>a \<in> ran (map_of (dict_of co_obligation_id co_amount obligations)).
      0 \<le> a \<and> places k a \<and> a * 10 ^ k < 10 ^ liquidity_precision"
    using assms(3) by (auto simp: ran_def elim!: dict_of_lookupD)
  have each: "map_of remaining (co_obligation_id ob) = Some (co_amount ob - settled_for (co_obligation_id ob) coverage) \<and>
      settled_for (co_obligation_id ob) coverage \<le> co_amount ob" if "ob \<in> set obligations" for ob
    using settle_receipts_exact [OF st start amounts, of "co_obligation_id ob"]
      dict_of_lookup_distinct [OF assms(2) that, of co_amount] bi(3) by simp
  have "outstanding = map (\<lambda>ob. ob\<lparr>co_amount := co_amount ob - settled_for (co_obligation_id ob) coverage\<rparr>)
      (filter (\<lambda>ob. settled_for (co_obligation_id ob) coverage < co_amount ob) obligations)"
    unfolding o using each by (induction obligations) (auto simp: List.map_filter_def)
  moreover have "sorted (map so_receipt_id coverage)" "distinct (map so_receipt_id coverage)"
    using bi(1) d by (simp_all add: receipt_dict_def)
  ultimately show ?thesis using each kept bi(2) by auto
qed

subsection \<open>Cases of the assessment\<close>

text \<open>What a command, its authorizations and its position have to offer before the reserve is computed.\<close>

definition liquidity_ready ::
    "liquidity_command \<Rightarrow> portfolio_authorization_outcome \<Rightarrow> position_reconciliation_outcome \<Rightarrow>
     portfolio_authorization_usage \<Rightarrow> decimal \<Rightarrow> bool" where
  "liquidity_ready command authorization position usage total_equity \<longleftrightarrow>
     out_usage authorization = Some usage \<and> us_allowed usage \<and> po_disposition position = RECONCILED \<and>
     rs_total_account_equity (po_snapshot position) = Some total_equity \<and>
     set (sn_selected_account_ids (pp_snapshot (pa_proposal (us_authorization_snapshot usage)))) =
       ac_account_id ` set (rs_cash_states (po_snapshot position)) \<and>
     (\<exists>evidence. lc_cost_evidence command = Some evidence \<and>
        problem_codes evidence (rs_cutoff_at (po_snapshot position)) True = [])"

definition usage_reserve ::
    "liquidity_command \<Rightarrow> position_reconciliation_outcome \<Rightarrow> portfolio_authorization_usage \<Rightarrow> decimal \<Rightarrow>
     dated_cash_obligation list \<Rightarrow> reserve_figures" where
  "usage_reserve command position usage total_equity outstanding =
     reserve_of command (rb_cash (pp_risk_budget (pa_proposal (us_authorization_snapshot usage)))) (po_snapshot position)
       total_equity outstanding"

lemma assess_liquidity_cases:
  assumes "assess_liquidity command authorization position purchase event_id history = Some out"
  obtains (failed) coverage reasons where
      "out = evidence_failure command authorization purchase position (liquidity_history_of command history) coverage reasons"
  | (assessed) usage total_equity outstanding coverage funding where
      "\<not> lp_scope_incomplete (liquidity_history_of command history)"
      "liquidity_ready command authorization position usage total_equity"
      "outstanding_obligations (us_unfinished_cash_obligations usage) command history = Some (outstanding, coverage)"
      "assess_funding liquidity_precision (po_snapshot position) (lc_sale_terms command) outstanding
         (lc_transfer_routes command) = Some funding"
      "out = final_outcome command authorization purchase position event_id history (liquidity_history_of command history)
         outstanding coverage (usage_reserve command position usage total_equity outstanding) funding"
  using assms unfolding assess_liquidity_def Let_def liquidity_ready_def usage_reserve_def
  by (auto split: if_splits option.splits prod.splits)

lemma funding_leg_failure: "funding_leg p snapshot terms unit = Some (Inl failure) \<Longrightarrow> fa_reasons failure \<noteq> []"
  by (auto simp: funding_leg_def funding_failure_def Let_def bind_eq_Some_conv split: if_splits option.splits)

lemma funding_plan_failure: "funding_plan p snapshot terms plan units = Some (Inl failure) \<Longrightarrow> fa_reasons failure \<noteq> []"
  by (induction units arbitrary: plan) (auto dest: funding_leg_failure split: option.splits sum.splits)

lemma assess_funding_gap:
  assumes "assess_funding p snapshot terms obligations routes = Some funding" and "fa_reasons funding = []"
  obtains gap where "fa_uncovered_gap funding = Some gap"
proof (cases "funding_plan p snapshot terms [] (rs_action_units snapshot)")
  case None
  with assms show ?thesis by (auto simp: assess_funding_def Let_def funding_failure_def split: if_splits)
next
  case (Some legs)
  with assms funding_plan_failure that show ?thesis
    by (cases legs) (auto simp: assess_funding_def Let_def funding_failure_def bind_eq_Some_conv split: if_splits)
qed

text \<open>C22: An assessment that leaves new exposure open rests on an allowed protection, an approved purchase
  authorization, a reconciled position of exactly the selected accounts, current cost evidence and consistent
  receipts; net equity is positive and exceeds the obligations of six months, qualified cash reaches the target,
  no obligation has a funding gap, no remediation is open, and the deployable cash is what qualified cash leaves
  over the reserve and all outstanding obligations.\<close>

theorem liquidity_fails_closed:
  assumes "assess_liquidity command authorization position purchase event_id history = Some out"
    and "\<not> lo_new_exposure_blocked out"
  shows "\<exists>usage total_equity outstanding coverage gap.
    liquidity_ready command authorization position usage total_equity \<and> out_disposition purchase = APPROVED \<and>
    outstanding_obligations (us_unfinished_cash_obligations usage) command history = Some (outstanding, coverage) \<and>
    lo_uncovered_obligation_gap out = Some gap \<and> gap \<le> 0 \<and> lo_remediation_id out = None \<and>
    lo_disposition out \<in> {AVAILABLE, ZERO_DEPLOYABLE_CASH} \<and>
    (let f = usage_reserve command position usage total_equity outstanding in
     0 < rf_equity f \<and> (outstanding \<noteq> [] \<longrightarrow> rf_obligations f < rf_equity f) \<and> rf_target f \<le> rf_qualified f \<and>
     lo_deployable_purchase_cash out =
       Some (max 0 (lsub (lsub (rf_qualified f) (rf_system_reserve f)) (rf_all_obligations f))))"
  using assms(1)
proof (cases rule: assess_liquidity_cases)
  case (failed coverage reasons)
  with assms(2) show ?thesis by (simp add: evidence_failure_def)
next
  case (assessed usage total_equity outstanding coverage funding)
  let ?f = "usage_reserve command position usage total_equity outstanding"
  note out = assessed(5) [unfolded final_outcome_def Let_def]
  from assms(2) have free: "fa_reasons funding = []" "out_disposition purchase = APPROVED" "0 < rf_equity ?f"
    "rf_target ?f \<le> rf_qualified ?f" "outstanding \<noteq> [] \<longrightarrow> rf_obligations ?f < rf_equity ?f"
    "\<forall>gap. fa_uncovered_gap funding = Some gap \<longrightarrow> gap \<le> 0"
    unfolding out by (auto simp: not_le not_less split: option.splits)
  obtain gap where gap: "fa_uncovered_gap funding = Some gap" using assess_funding_gap [OF assessed(4) free(1)] .
  have "lo_remediation_id out = None \<and> lo_disposition out \<in> {AVAILABLE, ZERO_DEPLOYABLE_CASH} \<and>
      lo_uncovered_obligation_gap out = Some gap \<and>
      lo_deployable_purchase_cash out =
        Some (max 0 (lsub (lsub (rf_qualified ?f) (rf_system_reserve ?f)) (rf_all_obligations ?f)))"
    using assms(2) free gap unfolding out by (auto split: if_splits option.splits)
  with assessed(2,3) free gap show ?thesis by (auto simp: Let_def)
qed

text \<open>What a confirmed restoration rests on.\<close>

definition restoration_evidence ::
    "str \<Rightarrow> position_reconciliation_outcome \<Rightarrow> decimal \<Rightarrow> settled_obligation_coverage list \<Rightarrow> liquidity_outcome list \<Rightarrow> bool" where
  "restoration_evidence remediation_id position qualified_cash coverage history \<longleftrightarrow>
     (\<exists>progress before. last_cash_assessment history remediation_id = Some progress \<and>
        lo_qualified_cash progress = Some before \<and>
        (lo_restoration_cash_confirmed progress \<or>
         (\<exists>receipt \<in> set coverage. so_receipt_id receipt \<notin> so_receipt_id ` set (lo_settled_coverage progress)) \<or>
         before < qualified_cash \<and>
         (\<exists>trigger \<in> set history. lo_remediation_id trigger = Some remediation_id \<and>
            (\<exists>entry \<in> set (rs_authoritative_ledger (po_snapshot position)).
               le_entry_type entry = FILL \<and> le_quantity_delta entry < 0 \<and> 0 < le_cash_delta entry \<and>
               outcome_cutoff trigger < le_occurred_at entry \<and>
               (\<forall>old \<in> set (rs_authoritative_ledger (po_snapshot (lo_position_snapshot trigger))).
                  (le_account_id old, le_entry_id old) \<noteq> (le_account_id entry, le_entry_id entry))))))"

lemma restoration_confirmed_evidence:
  assumes "restoration_confirmed remediation_id position qualified_cash coverage history"
  shows "restoration_evidence remediation_id position qualified_cash coverage history"
proof -
  from assms obtain progress before where progress: "last_cash_assessment history remediation_id = Some progress"
    "lo_qualified_cash progress = Some before"
    by (auto simp: restoration_confirmed_def split: option.splits)
  show ?thesis
  proof (cases "lo_restoration_cash_confirmed progress \<or>
      (\<exists>receipt \<in> set coverage. so_receipt_id receipt \<notin> so_receipt_id ` set (lo_settled_coverage progress))")
    case True
    with progress show ?thesis unfolding restoration_evidence_def by blast
  next
    case False
    then have "before < qualified_cash" using assms progress
      by (auto simp: restoration_confirmed_def list_ex_iff split: if_splits)
    moreover from False obtain trigger where trigger: "find (\<lambda>item. lo_remediation_id item = Some remediation_id) history = Some trigger"
      using assms progress by (auto simp: restoration_confirmed_def list_ex_iff split: if_splits option.splits)
    moreover obtain entry where "entry \<in> set (rs_authoritative_ledger (po_snapshot position))"
      "le_entry_type entry = FILL" "le_quantity_delta entry < 0" "0 < le_cash_delta entry"
      "outcome_cutoff trigger < le_occurred_at entry"
      "(le_account_id entry, le_entry_id entry) \<notin> (\<lambda>entry. (le_account_id entry, le_entry_id entry)) `
        set (rs_authoritative_ledger (po_snapshot (lo_position_snapshot trigger)))"
      using assms progress False trigger
      by (auto simp: restoration_confirmed_def list_ex_iff outcome_cutoff_def Let_def split: if_splits)
    moreover from this(6) have "\<forall>old \<in> set (rs_authoritative_ledger (po_snapshot (lo_position_snapshot trigger))).
        (le_account_id old, le_entry_id old) \<noteq> (le_account_id entry, le_entry_id entry)"
      unfolding image_iff by metis
    ultimately show ?thesis using progress find_SomeD [OF trigger] unfolding restoration_evidence_def by blast
  qed
qed

lemma lsub_nonpos:
  assumes "lsub a b \<le> 0"
  shows "a \<le> b"
proof (rule ccontr)
  assume "\<not> a \<le> b"
  then have "0 < lsub a b" unfolding dsub_def by (intro dec_round_pos) (simp_all add: liquidity_precision_def)
  with assms show False by simp
qed

text \<open>C23: An open remediation keeps its identity, also through assessments whose evidence fails, until an assessment
  with full evidence finds qualified cash at the target again and the restoration confirmed: by an earlier
  confirmation, by a new receipt, or by more cash together with a new sale after the remediation was opened.\<close>

theorem remediation_persists:
  assumes "assess_liquidity command authorization position purchase event_id history = Some out"
    and "prior_remediation_id (liquidity_history_of command history) = Some remediation_id" and "remediation_id \<noteq> []"
    and "lo_remediation_id out \<noteq> Some remediation_id"
  shows "lo_remediation_id out = None \<and> lo_disposition out \<noteq> EVIDENCE_FAILED \<and> lo_restoration_cash_confirmed out \<and>
    (\<exists>usage total_equity outstanding coverage.
       liquidity_ready command authorization position usage total_equity \<and>
       outstanding_obligations (us_unfinished_cash_obligations usage) command history = Some (outstanding, coverage) \<and>
       (let f = usage_reserve command position usage total_equity outstanding in
        rf_target f \<le> rf_qualified f \<and>
        restoration_evidence remediation_id position (rf_qualified f) coverage history))"
  using assms(1)
proof (cases rule: assess_liquidity_cases)
  case (failed coverage reasons)
  with assms(2,4) show ?thesis by (simp add: evidence_failure_def)
next
  case (assessed usage total_equity outstanding coverage funding)
  let ?f = "usage_reserve command position usage total_equity outstanding"
  note out = assessed(5) [unfolded final_outcome_def Let_def assms(2)]
  let ?short = "max 0 (lsub (rf_target ?f) (rf_qualified ?f))"
  let ?confirmed = "?short = 0 \<and> restoration_confirmed remediation_id position (rf_qualified ?f) coverage history"
  have "lo_remediation_id out =
      (if 0 < ?short \<or> fa_reasons funding \<noteq> [] \<or> \<not> ?confirmed then Some remediation_id else None)"
    unfolding out using assms(3) by simp
  with assms(4) have closed: "fa_reasons funding = []" "?short = 0"
    "restoration_confirmed remediation_id position (rf_qualified ?f) coverage history"
    by (auto split: if_splits)
  from closed(2) have "lsub (rf_target ?f) (rf_qualified ?f) \<le> 0" by (metis max.cobounded2)
  then have "rf_target ?f \<le> rf_qualified ?f" by (rule lsub_nonpos)
  moreover have "lo_remediation_id out = None \<and> lo_disposition out \<noteq> EVIDENCE_FAILED \<and> lo_restoration_cash_confirmed out"
    using closed unfolding out by simp
  ultimately show ?thesis
    using assessed(2,3) restoration_confirmed_evidence [OF closed(3)] by (auto simp: Let_def)
qed

end
