(* ===== verification/Liquidity_Examples.thy ===== *)
theory Liquidity_Examples
  imports Liquidity_Properties Stress_Properties
begin

text \<open>
  Concrete assessments of liquidity: an account with enough cash, the end of a remediation after a sale, and
  receipts of two settlements of one obligation.  They instantiate the theorems of \<open>Liquidity_Properties\<close>.
\<close>

definition lq_cash :: account_cash_state where
  "lq_cash = account_cash_state_of demo_account"

text \<open>The account has fifty in cash of its equity of one hundred; a sale for thirty lies behind it.\<close>

definition lq_sale :: authoritative_ledger_entry where
  "lq_sale = authoritative_entry ''A'' (demo_entry\<lparr>le_entry_id := ''L2'', le_quantity_delta := - 3, le_cost_basis_delta := - 30,
     le_cash_delta := 30\<rparr>)"

definition lq_position :: position_reconciliation_outcome where
  "lq_position =
     \<lparr>po_disposition = RECONCILED, po_reasons = [''AUTHORITATIVE_POSITION_FACTS_RECONCILED''],
      po_snapshot = \<lparr>rs_snapshot_id = ''PS'', rs_cutoff_at = demo_time, rs_valuation_currency = ''USD'',
        rs_snapshot_source = Some ''broker'', rs_evidence_clock = evidence_clock demo_evidence,
        rs_snapshot_evidence = demo_evidence, rs_total_account_equity = Some 100, rs_action_units = [],
        rs_issuer_exposures = [], rs_cash_states = [lq_cash], rs_unfinished_orders = [],
        rs_execution_restrictions = [], rs_authoritative_ledger = [lq_sale], rs_user_annotations = []\<rparr>,
      po_conflicts = []\<rparr>"

definition lq_receipt :: "str \<Rightarrow> decimal \<Rightarrow> settled_obligation_coverage" where
  "lq_receipt receipt_id amount =
     \<lparr>so_receipt_id = receipt_id, so_obligation_id = ''O'', so_amount = amount, so_evidence = demo_evidence\<rparr>"

definition lq_command :: liquidity_command where
  "lq_command =
     \<lparr>lc_generator_version = ''g'', lc_seed = 7, lc_portfolio_id = ''PF'', lc_authorization_id = ''AU1'',
      lc_position_snapshot = demo_command, lc_expected_purchase_fees = 0, lc_expected_liquidation_fees = 0,
      lc_sale_terms = [], lc_transfer_routes = [], lc_settled_coverage = [], lc_cost_evidence = Some demo_evidence\<rparr>"

definition lq_outcome :: liquidity_outcome where
  "lq_outcome =
     \<lparr>lo_disposition = AVAILABLE, lo_reasons = [''LIQUIDITY_AVAILABLE''], lo_authorization_id = ''AU1'',
      lo_protection_authorization = Some demo_usage, lo_purchase_authorization = Some demo_usage,
      lo_position_snapshot = lq_position, lo_net_liquidation_equity = Some 100, lo_normal_cash_target = Some 40,
      lo_hard_cash_floor = Some 20, lo_qualified_cash = Some 50, lo_reserved_buy_cash = Some 0,
      lo_six_month_obligations = Some 0, lo_deployable_purchase_cash = Some 10, lo_remediation_shortfall = Some 0,
      lo_remediation_id = None, lo_restoration_cash_confirmed = False, lo_retained_remediation_shortfall = None,
      lo_maximum_fundable_cash = Some 50, lo_uncovered_obligation_gap = Some 0, lo_maximum_funding_plan = [],
      lo_obligation_funding = [], lo_settled_coverage = [], lo_new_exposure_blocked = False\<rparr>"

text \<open>The day before, the account had twenty in cash and a remediation was opened.\<close>

definition lq_trigger :: liquidity_outcome where
  "lq_trigger = lq_outcome
     \<lparr>lo_disposition := REMEDIATION_REQUIRED, lo_qualified_cash := Some 20, lo_remediation_shortfall := Some 20,
      lo_remediation_id := Some ''E1'', lo_new_exposure_blocked := True,
      lo_position_snapshot := lq_position\<lparr>po_snapshot := (po_snapshot lq_position)
        \<lparr>rs_cutoff_at := plus_days demo_time (- 1), rs_authoritative_ledger := []\<rparr>\<rparr>\<rparr>"

lemma lq_run: "assess_liquidity lq_command demo_usage lq_position demo_usage ''E2'' [] = Some lq_outcome"
  by code_simp

lemma lq_restored:
  "assess_liquidity lq_command demo_usage lq_position demo_usage ''E2'' [lq_trigger] =
     Some (lq_outcome\<lparr>lo_restoration_cash_confirmed := True\<rparr>)"
  by code_simp

theorem liquidity_fails_closed_witness:
  "\<exists>usage total_equity outstanding coverage gap.
    liquidity_ready lq_command demo_usage lq_position usage total_equity \<and> out_disposition demo_usage = APPROVED \<and>
    outstanding_obligations (us_unfinished_cash_obligations usage) lq_command [] = Some (outstanding, coverage) \<and>
    lo_uncovered_obligation_gap lq_outcome = Some gap \<and> gap \<le> 0 \<and> lo_remediation_id lq_outcome = None \<and>
    lo_disposition lq_outcome \<in> {AVAILABLE, ZERO_DEPLOYABLE_CASH} \<and>
    (let f = usage_reserve lq_command lq_position usage total_equity outstanding in
     0 < rf_equity f \<and> (outstanding \<noteq> [] \<longrightarrow> rf_obligations f < rf_equity f) \<and> rf_target f \<le> rf_qualified f \<and>
     lo_deployable_purchase_cash lq_outcome =
       Some (max 0 (lsub (lsub (rf_qualified f) (rf_system_reserve f)) (rf_all_obligations f))))"
  using liquidity_fails_closed [OF lq_run] by (simp add: lq_outcome_def)

lemma lq_prior: "prior_remediation_id (liquidity_history_of lq_command [lq_trigger]) = Some ''E1''"
  by code_simp

theorem remediation_persists_witness:
  "lo_remediation_id lq_outcome = None \<and>
    (\<exists>usage total_equity outstanding coverage.
       liquidity_ready lq_command demo_usage lq_position usage total_equity \<and>
       outstanding_obligations (us_unfinished_cash_obligations usage) lq_command [lq_trigger] = Some (outstanding, coverage) \<and>
       (let f = usage_reserve lq_command lq_position usage total_equity outstanding in
        rf_target f \<le> rf_qualified f \<and>
        restoration_evidence ''E1'' lq_position (rf_qualified f) coverage [lq_trigger]))"
proof -
  have "lo_remediation_id (lq_outcome\<lparr>lo_restoration_cash_confirmed := True\<rparr>) \<noteq> Some ''E1''"
    by (simp add: lq_outcome_def)
  from remediation_persists [OF lq_restored lq_prior _ this] show ?thesis by (simp add: lq_outcome_def)
qed

text \<open>Of fifty, twenty were settled before and ten are now.\<close>

definition lq_history :: "liquidity_outcome list" where
  "lq_history = [lq_outcome\<lparr>lo_settled_coverage := [lq_receipt ''R2'' 20]\<rparr>]"

definition lq_settling :: liquidity_command where
  "lq_settling = lq_command\<lparr>lc_settled_coverage := [lq_receipt ''R1'' (21/2), lq_receipt ''R2'' 20]\<rparr>"

lemma lq_settled:
  "outstanding_obligations [tax_obligation] lq_settling lq_history =
     Some ([tax_obligation\<lparr>co_amount := 39/2\<rparr>], [lq_receipt ''R1'' (21/2), lq_receipt ''R2'' 20])"
  by code_simp

theorem outstanding_obligations_exact_witness:
  "\<exists>outstanding coverage. outstanding_obligations [tax_obligation] lq_settling lq_history = Some (outstanding, coverage) \<and>
     distinct (map so_receipt_id coverage) \<and>
     outstanding = map (\<lambda>ob. ob\<lparr>co_amount := co_amount ob - settled_for (co_obligation_id ob) coverage\<rparr>)
       (filter (\<lambda>ob. settled_for (co_obligation_id ob) coverage < co_amount ob) [tax_obligation])"
proof -
  have "distinct (map co_obligation_id [tax_obligation])"
    and "\<forall>ob \<in> set [tax_obligation]. 0 \<le> co_amount ob \<and> places 1 (co_amount ob) \<and>
      co_amount ob * 10 ^ 1 < 10 ^ liquidity_precision"
    and "\<forall>r \<in> set (concat (map lo_settled_coverage lq_history)) \<union> set (lc_settled_coverage lq_settling).
      0 \<le> so_amount r \<and> places 1 (so_amount r)"
    by (simp_all add: tax_obligation_def places_def liquidity_precision_def lq_history_def lq_settling_def lq_receipt_def)
  from outstanding_obligations_exact [OF lq_settled this] show ?thesis
    by (intro exI conjI) (rule lq_settled | (elim conjE, assumption))+
qed

end
