(* ===== verification/Concentration.thy ===== *)
theory Concentration
  imports Portfolio_Contracts Position_Contracts Py_Hashlib
begin

text \<open>
  \<open>position_management/concentration_contracts.py\<close> and \<open>position_management/concentration.py\<close>: the weight of every
  issuer in the net equity of the portfolio, and the life of an obligation to reduce it.  A field whose values are
  the literal \<open>REDUCE\<close> or nothing is a truth value.  \<open>assess_concentration\<close> returns \<open>None\<close> where the \<open>assert\<close> of
  \<open>_quantity_targets\<close> would fail.  The calculation runs under a decimal context of 34 digits, with
  \<open>ROUND_FLOOR\<close> where quantities are cut.
\<close>

definition concentration_precision :: nat where "concentration_precision = 34"

abbreviation cadd :: "decimal \<Rightarrow> decimal \<Rightarrow> decimal" where "cadd \<equiv> dadd concentration_precision"
abbreviation csub :: "decimal \<Rightarrow> decimal \<Rightarrow> decimal" where "csub \<equiv> dsub concentration_precision"
abbreviation cmul :: "decimal \<Rightarrow> decimal \<Rightarrow> decimal" where "cmul \<equiv> dmul concentration_precision"
abbreviation cdiv :: "decimal \<Rightarrow> decimal \<Rightarrow> decimal" where "cdiv \<equiv> ddiv concentration_precision"
abbreviation csum :: "decimal list \<Rightarrow> decimal" where "csum \<equiv> dsum concentration_precision"

text \<open>Rounding under \<open>ROUND_FLOOR\<close>.\<close>

definition dec_floor :: "nat \<Rightarrow> rat \<Rightarrow> decimal" where
  "dec_floor p x = (if x = 0 then 0 else of_int \<lfloor>x / dec_quantum p x\<rfloor> * dec_quantum p x)"

subsection \<open>Contracts\<close>

record account_liquidation_cost =
  al_account_id :: str
  al_amount :: "decimal option"
  al_evidence :: position_evidence

record concentration_command =
  cn_authorization :: portfolio_use_command
  cn_position_snapshot :: position_snapshot_command
  cn_liquidation_costs :: "account_liquidation_cost list"

definition validate_protection_request :: "concentration_command \<Rightarrow> str option" where
  "validate_protection_request command =
     (let ids = map al_account_id (cn_liquidation_costs command) in
      if puc_requested_action (cn_authorization command) \<noteq> DETERMINISTIC_PROTECTION
      then Some ''concentration assessment requires deterministic protection''
      else if \<not> distinct ids then Some ''liquidation costs must have unique accounts''
      else if \<not> set ids \<subseteq> set (psc_account_ids (cn_position_snapshot command))
      then Some ''liquidation costs must belong to the snapshot''
      else None)"

record concentration_target =
  cg_security_id :: str
  cg_target_quantity :: decimal
  cg_required_reduction_quantity :: "decimal option"

record concentration_quantity_basis =
  qb_account_id :: str
  qb_security_id :: str
  qb_quantity :: decimal
  qb_cutoff_at :: datetime

datatype concentration_state =
  ISSUER_NORMAL | ISSUER_BUFFER | ISSUER_REMEDIATION_REQUIRED | ISSUER_RESOLVED | ISSUER_UNKNOWN

record issuer_concentration =
  ic_issuer_id :: str
  ic_current_market_exposure :: "decimal option"
  ic_position_weight :: "decimal option"
  ic_state :: concentration_state
  ic_new_exposure_blocked :: bool
  ic_reduce :: bool
  ic_obligation_id :: "str option"
  ic_obligation_started_at :: "datetime option"
  ic_obligation_risk_budget_version_id :: "str option"
  ic_obligation_thresholds :: "two_threshold_budget option"
  ic_obligation_quantity_basis :: "concentration_quantity_basis list"
  ic_targets :: "concentration_target list"
  ic_exposure_gap :: "decimal option"
  ic_execution_blocked :: bool

datatype concentration_disposition = CONCENTRATION_ASSESSED | CONCENTRATION_BLOCKED

record concentration_outcome =
  cn_disposition :: concentration_disposition
  cn_reasons :: "str list"
  cn_portfolio_id :: str
  cn_snapshot_id :: str
  cn_cutoff_at :: datetime
  cn_valuation_currency :: str
  cn_portfolio_net_liquidation_equity :: "decimal option"
  cn_risk_budget_version_id :: "str option"
  cn_thresholds :: "two_threshold_budget option"
  cn_issuers :: "issuer_concentration list"

record concentration_history =
  ch_outcomes :: "concentration_outcome list"
  ch_uncovered_obligation :: bool

subsection \<open>Quantities\<close>

fun unit_totals ::
    "(str \<times> decimal) list \<Rightarrow> (str \<times> decimal) list \<Rightarrow> position_action_unit list \<Rightarrow>
     ((str \<times> decimal) list \<times> (str \<times> decimal) list) option" where
  "unit_totals quantities prices [] = Some (quantities, prices)"
| "unit_totals quantities prices (u # us) =
     (case (au_total_quantity u, au_market_price u) of
        (Some quantity, Some price) \<Rightarrow>
          unit_totals
            (AList.update (au_security_id u) (cadd (dict_get quantities (au_security_id u) 0) quantity) quantities)
            (AList.update (au_security_id u) price prices) us
      | _ \<Rightarrow> None)"

definition retained_caps ::
    "(str \<times> decimal) list \<Rightarrow> issuer_concentration option \<Rightarrow> (str \<times> decimal) list" where
  "retained_caps quantities previous =
     (case previous of
        Some issuer \<Rightarrow> if ic_obligation_id issuer \<noteq> None
          then dict_of cg_security_id cg_target_quantity (ic_targets issuer) else quantities
      | None \<Rightarrow> quantities)"

definition reduced_caps ::
    "(str \<times> decimal) list \<Rightarrow> (str \<times> decimal) list \<Rightarrow> (str \<times> decimal) list \<Rightarrow> decimal \<Rightarrow> (str \<times> decimal) list" where
  "reduced_caps quantities prices caps target_value =
     (let retained = map (\<lambda>(code, cap). (code, min (dict_get quantities code 0) cap)) caps;
          retained_value = csum (map (\<lambda>(code, quantity). cmul quantity (dict_get prices code 0)) retained)
      in if target_value < retained_value
         then map (\<lambda>(code, quantity). (code,
                dec_floor concentration_precision
                  (dec_floor concentration_precision (quantity * target_value) / retained_value))) retained
         else caps)"

definition quantity_targets ::
    "position_action_unit list \<Rightarrow> issuer_concentration option \<Rightarrow> decimal \<Rightarrow> concentration_target list option" where
  "quantity_targets units previous target_value =
     (case unit_totals [] [] units of
        None \<Rightarrow> None
      | Some (quantities, prices) \<Rightarrow>
          Some (map (\<lambda>(code, cap).
              \<lparr>cg_security_id = code, cg_target_quantity = cap,
               cg_required_reduction_quantity = Some (max 0 (csub (dict_get quantities code 0) cap))\<rparr>)
            (sort_key fst (reduced_caps quantities prices (retained_caps quantities previous) target_value))))"

definition closed_by_fills ::
    "position_reconciliation_outcome \<Rightarrow> issuer_concentration \<Rightarrow> str \<Rightarrow> bool" where
  "closed_by_fills position issuer security_id \<longleftrightarrow>
     po_disposition position = RECONCILED \<and>
     (case ic_obligation_started_at issuer of
        None \<Rightarrow> False
      | Some started \<Rightarrow>
          let entries = filter (\<lambda>e. le_security_id e = Some security_id) (rs_authoritative_ledger (po_snapshot position));
              subsequent = filter (\<lambda>e. started < le_occurred_at e) entries
          in entries \<noteq> [] \<and> csum (map le_quantity_delta entries) = 0 \<and>
             csum (map le_quantity_delta (filter (\<lambda>e. le_entry_type e = FILL) subsequent)) < 0 \<and>
             csum (map le_quantity_delta (filter (\<lambda>e. le_entry_type e \<noteq> FILL) subsequent)) = 0 \<and>
             \<not> list_ex (\<lambda>u. au_security_id u = security_id \<and> au_total_quantity u \<noteq> Some 0)
               (rs_action_units (po_snapshot position)))"

definition fills_between ::
    "position_reconciliation_outcome \<Rightarrow> str \<Rightarrow> str \<Rightarrow> datetime \<Rightarrow> decimal list" where
  "fills_between position account_id security_id after =
     map le_quantity_delta (filter (\<lambda>e. le_account_id e = account_id \<and> le_security_id e = Some security_id \<and>
         le_entry_type e = FILL \<and> after < le_occurred_at e \<and> le_occurred_at e \<le> rs_cutoff_at (po_snapshot position))
       (rs_authoritative_ledger (po_snapshot position)))"

definition expected_quantity ::
    "position_reconciliation_outcome \<Rightarrow> concentration_quantity_basis list \<Rightarrow> str \<Rightarrow> decimal" where
  "expected_quantity position basis security_id =
     foldl (\<lambda>expected item. cadd expected (cadd (qb_quantity item)
         (csum (fills_between position (qb_account_id item) security_id (qb_cutoff_at item))))) 0
       (filter (\<lambda>item. qb_security_id item = security_id) basis)"

definition quantities_explained_by_fills ::
    "position_reconciliation_outcome \<Rightarrow> concentration_quantity_basis list \<Rightarrow> bool" where
  "quantities_explained_by_fills position basis \<longleftrightarrow>
     basis \<noteq> [] \<and>
     (\<forall>security_id \<in> set (map qb_security_id basis).
        let quantities = map au_total_quantity (filter (\<lambda>u. au_security_id u = security_id)
              (rs_action_units (po_snapshot position)))
        in None \<notin> set quantities \<and>
           expected_quantity position basis security_id \<le> csum (List.map_filter (\<lambda>q. q) quantities))"

type_synonym basis_dict = "((str \<times> str) \<times> concentration_quantity_basis) list"

fun extend_basis_loop ::
    "position_reconciliation_outcome \<Rightarrow> (str \<Rightarrow> datetime option) option \<Rightarrow> basis_dict \<Rightarrow> (str \<times> str) list \<Rightarrow>
     basis_dict option" where
  "extend_basis_loop position admission_cutoffs basis [] = Some basis"
| "extend_basis_loop position admission_cutoffs basis ((account_id, security_id) # keys) =
     (if map_of basis (account_id, security_id) \<noteq> None
      then extend_basis_loop position admission_cutoffs basis keys
      else
        let snapshot = po_snapshot position;
            quantities = map au_total_quantity (filter (\<lambda>u. au_account_id u = account_id \<and> au_security_id u = security_id)
              (rs_action_units snapshot));
            entry = (\<lambda>quantity cutoff. \<lparr>qb_account_id = account_id, qb_security_id = security_id,
              qb_quantity = quantity, qb_cutoff_at = cutoff\<rparr>)
        in if None \<in> set quantities then None
           else (case admission_cutoffs of
                   None \<Rightarrow> extend_basis_loop position admission_cutoffs
                     (AList.update (account_id, security_id)
                       (entry (csum (List.map_filter (\<lambda>q. q) quantities)) (rs_cutoff_at snapshot)) basis) keys
                 | Some admissions \<Rightarrow>
                     (case admissions account_id of
                        None \<Rightarrow> None
                      | Some cutoff \<Rightarrow> extend_basis_loop position admission_cutoffs
                          (AList.update (account_id, security_id)
                            (entry (csum (map le_quantity_delta (filter (\<lambda>e. le_account_id e = account_id \<and>
                                le_security_id e = Some security_id \<and> le_occurred_at e \<le> cutoff)
                              (rs_authoritative_ledger snapshot)))) cutoff) basis) keys)))"

definition extend_quantity_basis ::
    "concentration_command \<Rightarrow> position_reconciliation_outcome \<Rightarrow> concentration_target list \<Rightarrow>
     concentration_quantity_basis list \<Rightarrow> (str \<Rightarrow> datetime option) option \<Rightarrow> concentration_quantity_basis list" where
  "extend_quantity_basis command position targets prior admission_cutoffs =
     (if rs_total_account_equity (po_snapshot position) = None then prior
      else case extend_basis_loop position admission_cutoffs
          (dict_of (\<lambda>item. (qb_account_id item, qb_security_id item)) (\<lambda>item. item) prior)
          (concat (map (\<lambda>account_id. map (\<lambda>target. (account_id, cg_security_id target)) targets)
            (sort (psc_account_ids (cn_position_snapshot command))))) of
        None \<Rightarrow> prior
      | Some basis \<Rightarrow> map snd basis)"

subsection \<open>Admission of accounts\<close>

definition eligible_authorizations ::
    "concentration_command \<Rightarrow> portfolio_authorization_outcome list \<Rightarrow> (str \<times> portfolio_authorization) list" where
  "eligible_authorizations command history =
     (let cutoff = psc_cutoff_at (cn_position_snapshot command) in
      dict_of pa_authorization_id (\<lambda>a. a)
        (filter (\<lambda>a. pp_portfolio_id (pa_proposal a) = puc_portfolio_id (cn_authorization command) \<and>
            authorization_evidence_available_by a cutoff \<and> rb_effective_at (pp_risk_budget (pa_proposal a)) \<le> cutoff)
          (List.map_filter out_authorization history)))"

function predecessor_chain ::
    "(str \<times> portfolio_authorization) list \<Rightarrow> str set \<Rightarrow> portfolio_authorization \<Rightarrow> portfolio_authorization list option" where
  "predecessor_chain eligible seen current =
     (case pa_previous_authorization_id current of
        None \<Rightarrow> Some []
      | Some previous_id \<Rightarrow>
          (case map_of eligible previous_id of
             None \<Rightarrow> None
           | Some previous \<Rightarrow>
               if pa_authorization_id previous \<in> seen then None
               else map_option (\<lambda>chain. previous # chain)
                 (predecessor_chain eligible (insert (pa_authorization_id previous) seen) previous)))"
  by pat_completeness auto
termination
proof (relation "measure (\<lambda>(eligible, seen, current). card (pa_authorization_id ` snd ` set eligible - seen))")
  fix eligible :: "(str \<times> portfolio_authorization) list" and seen current previous_id previous
  assume "map_of eligible previous_id = Some previous" and "pa_authorization_id previous \<notin> seen"
  then have "pa_authorization_id previous \<in> pa_authorization_id ` snd ` set eligible - seen"
    by (force dest: map_of_SomeD)
  then have "card (pa_authorization_id ` snd ` set eligible - insert (pa_authorization_id previous) seen)
      < card (pa_authorization_id ` snd ` set eligible - seen)"
    by (intro psubset_card_mono) auto
  then show "((eligible, insert (pa_authorization_id previous) seen, previous), eligible, seen, current)
      \<in> measure (\<lambda>(eligible, seen, current). card (pa_authorization_id ` snd ` set eligible - seen))" by simp
qed simp

declare predecessor_chain.simps [simp del]

definition account_admission_cutoffs ::
    "concentration_command \<Rightarrow> portfolio_authorization_outcome \<Rightarrow> portfolio_authorization_outcome list \<Rightarrow>
     str \<Rightarrow> datetime option" where
  "account_admission_cutoffs command portfolio history =
     (case out_usage portfolio of
        None \<Rightarrow> (\<lambda>_. None)
      | Some usage \<Rightarrow>
          if \<not> us_allowed usage then (\<lambda>_. None)
          else
            let current = us_authorization_snapshot usage in
            (case predecessor_chain (eligible_authorizations command history) {pa_authorization_id current} current of
               None \<Rightarrow> (\<lambda>_. None)
             | Some chain \<Rightarrow>
                 foldl (\<lambda>admissions a.
                     let selected = set (sn_selected_account_ids (pp_snapshot (pa_proposal a))) in
                     (\<lambda>account. if account \<in> selected
                        then (case admissions account of
                                Some cutoff \<Rightarrow> Some cutoff
                              | None \<Rightarrow> if account \<in> set (psc_account_ids (cn_position_snapshot command))
                                  then Some (rb_effective_at (pp_risk_budget (pa_proposal a))) else None)
                        else None))
                   (\<lambda>_. None) (rev (current # chain))))"

subsection \<open>The retained issuers\<close>

definition retain_issuer ::
    "(str \<times> issuer_concentration) list \<Rightarrow> issuer_concentration \<Rightarrow> (str \<times> issuer_concentration) list" where
  "retain_issuer prior issuer =
     (case map_of prior (ic_issuer_id issuer) of
        Some old \<Rightarrow> if ic_reduce old \<and> ic_obligation_id issuer = None then prior
          else AList.update (ic_issuer_id issuer) issuer prior
      | None \<Rightarrow> AList.update (ic_issuer_id issuer) issuer prior)"

definition prior_issuers :: "datetime \<Rightarrow> concentration_outcome list \<Rightarrow> (str \<times> issuer_concentration) list" where
  "prior_issuers cutoff outcomes =
     foldl retain_issuer [] (concat (map cn_issuers (filter (\<lambda>item. \<not> cutoff < cn_cutoff_at item) outcomes)))"

definition missing_issuers ::
    "(str \<times> issuer_concentration) list \<Rightarrow> reconciled_position_snapshot \<Rightarrow> issuer_concentration list" where
  "missing_issuers prior snapshot =
     filter (\<lambda>issuer. ic_reduce issuer \<and> ic_issuer_id issuer \<notin> ie_issuer_id ` set (rs_issuer_exposures snapshot))
       (map snd prior)"

definition issuer_closed :: "position_reconciliation_outcome \<Rightarrow> issuer_concentration \<Rightarrow> bool" where
  "issuer_closed position issuer \<longleftrightarrow>
     list_all (\<lambda>target. closed_by_fills position issuer (cg_security_id target)) (ic_targets issuer)"

definition usage_in_scope :: "concentration_command \<Rightarrow> portfolio_authorization_outcome \<Rightarrow> bool" where
  "usage_in_scope command portfolio \<longleftrightarrow>
     (case out_usage portfolio of
        None \<Rightarrow> False
      | Some usage \<Rightarrow> us_allowed usage \<and>
          set (sn_selected_account_ids (pp_snapshot (pa_proposal (us_authorization_snapshot usage)))) =
            set (psc_account_ids (cn_position_snapshot command)))"

definition pending_basis ::
    "concentration_command \<Rightarrow> portfolio_authorization_outcome \<Rightarrow> position_reconciliation_outcome \<Rightarrow>
     portfolio_authorization_outcome list \<Rightarrow> issuer_concentration \<Rightarrow> concentration_quantity_basis list" where
  "pending_basis command portfolio position authorization_history issuer =
     (if ic_obligation_quantity_basis issuer \<noteq> [] \<and> usage_in_scope command portfolio
      then extend_quantity_basis command position (ic_targets issuer) (ic_obligation_quantity_basis issuer)
        (Some (account_admission_cutoffs command portfolio authorization_history))
      else ic_obligation_quantity_basis issuer)"

definition execution_unexplained ::
    "concentration_command \<Rightarrow> position_reconciliation_outcome \<Rightarrow> issuer_concentration \<Rightarrow>
     concentration_quantity_basis list \<Rightarrow> bool" where
  "execution_unexplained command position issuer basis \<longleftrightarrow>
     \<not> (set (psc_account_ids (cn_position_snapshot command)) \<times> set (map cg_security_id (ic_targets issuer)) \<subseteq>
         set (map (\<lambda>item. (qb_account_id item, qb_security_id item)) basis)) \<or>
     \<not> quantities_explained_by_fills position basis"

definition securities_unexplained :: "position_reconciliation_outcome \<Rightarrow> issuer_concentration \<Rightarrow> bool" where
  "securities_unexplained position issuer \<longleftrightarrow>
     (let current = set (map au_security_id (filter (\<lambda>u. au_issuer_id u = ic_issuer_id issuer)
            (rs_action_units (po_snapshot position))));
          codes = set (map cg_security_id (ic_targets issuer))
      in \<not> current \<subseteq> codes \<or> (\<exists>code \<in> codes - current. \<not> closed_by_fills position issuer code))"

text \<open>The loop over the retained issuers: it stops at the first issuer whose securities are not explained.\<close>

fun pending_loop ::
    "concentration_command \<Rightarrow> portfolio_authorization_outcome \<Rightarrow> position_reconciliation_outcome \<Rightarrow>
     portfolio_authorization_outcome list \<Rightarrow> issuer_concentration list \<Rightarrow>
     (str \<times> concentration_quantity_basis list) list \<times> str list" where
  "pending_loop command portfolio position authorization_history [] = ([], [])"
| "pending_loop command portfolio position authorization_history (issuer # issuers) =
     (if \<not> ic_reduce issuer then pending_loop command portfolio position authorization_history issuers
      else
        let basis = pending_basis command portfolio position authorization_history issuer;
            execution = (if execution_unexplained command position issuer basis
              then [''CONCENTRATION_EXECUTION_LINEAGE_UNRESOLVED''] else [])
        in if securities_unexplained position issuer
           then ([(ic_issuer_id issuer, basis)], execution @ [''CONCENTRATION_SECURITY_LINEAGE_UNRESOLVED''])
           else (let (bases, reasons) = pending_loop command portfolio position authorization_history issuers
                 in ((ic_issuer_id issuer, basis) # bases, execution @ reasons)))"

definition quantity_basis_unresolved ::
    "concentration_command \<Rightarrow> datetime \<Rightarrow> issuer_concentration \<Rightarrow> bool" where
  "quantity_basis_unresolved command cutoff issuer \<longleftrightarrow>
     ic_reduce issuer \<and>
     (case ic_obligation_started_at issuer of
        None \<Rightarrow> False
      | Some started \<Rightarrow>
          list_ex (\<lambda>account. list_ex (\<lambda>e. le_entry_type e = CORPORATE_ACTION \<and> le_quantity_delta e \<noteq> 0 \<and>
              started < le_occurred_at e \<and> le_occurred_at e \<le> cutoff \<and>
              (case le_security_id e of None \<Rightarrow> False | Some code \<Rightarrow> code \<in> set (map cg_security_id (ic_targets issuer))))
            (ap_ledger_entries account)) (psc_accounts (cn_position_snapshot command)))"

subsection \<open>The reasons\<close>

definition current_authorization_superseded ::
    "concentration_command \<Rightarrow> personal_risk_budget option \<Rightarrow> datetime \<Rightarrow> portfolio_authorization_outcome list \<Rightarrow> bool" where
  "current_authorization_superseded command budget cutoff lineage =
     (case budget of
        None \<Rightarrow> False
      | Some b \<Rightarrow> list_ex (\<lambda>item. case out_authorization item of None \<Rightarrow> False
          | Some a \<Rightarrow> pa_authorization_id a \<noteq> puc_authorization_id (cn_authorization command) \<and>
              rb_effective_at b < rb_effective_at (pp_risk_budget (pa_proposal a)) \<and>
              rb_effective_at (pp_risk_budget (pa_proposal a)) \<le> cutoff) lineage)"

definition price_conflict :: "position_action_unit list \<Rightarrow> bool" where
  "price_conflict units \<longleftrightarrow>
     (\<exists>u \<in> set units. \<exists>v \<in> set units. au_security_id u = au_security_id v \<and> au_market_price u \<noteq> au_market_price v)"

definition costs_unresolved :: "concentration_command \<Rightarrow> datetime \<Rightarrow> bool" where
  "costs_unresolved command cutoff \<longleftrightarrow>
     set (map al_account_id (cn_liquidation_costs command)) \<noteq> set (psc_account_ids (cn_position_snapshot command)) \<or>
     list_ex (\<lambda>cost. al_amount cost = None \<or> problem_codes (al_evidence cost) cutoff True \<noteq> []) (cn_liquidation_costs command)"

definition concentration_budget :: "portfolio_authorization_outcome \<Rightarrow> personal_risk_budget option" where
  "concentration_budget portfolio =
     map_option (\<lambda>usage. pp_risk_budget (pa_proposal (us_authorization_snapshot usage))) (out_usage portfolio)"

definition early_reasons ::
    "concentration_command \<Rightarrow> portfolio_authorization_outcome \<Rightarrow> position_reconciliation_outcome \<Rightarrow>
     concentration_history \<Rightarrow> portfolio_authorization_outcome list \<Rightarrow> portfolio_authorization_outcome list \<Rightarrow> str list" where
  "early_reasons command portfolio position history lineage authorization_history =
     (let snapshot = po_snapshot position;
          prior = prior_issuers (rs_cutoff_at snapshot) (ch_outcomes history)
      in (if ch_uncovered_obligation history then [''CONCENTRATION_HISTORY_SCOPE_UNRESOLVED''] else []) @
         (if list_ex (\<lambda>item. rs_cutoff_at snapshot \<le> cn_cutoff_at item) (ch_outcomes history)
          then [''CONCENTRATION_SNAPSHOT_OUT_OF_ORDER''] else []) @
         (if list_ex (\<lambda>issuer. \<not> issuer_closed position issuer) (missing_issuers prior snapshot)
          then [''CONCENTRATION_ISSUER_LINEAGE_UNRESOLVED''] else []) @
         snd (pending_loop command portfolio position authorization_history (map snd prior)) @
         (if list_ex (quantity_basis_unresolved command (rs_cutoff_at snapshot)) (map snd prior)
          then [''CONCENTRATION_QUANTITY_BASIS_UNRESOLVED''] else []) @
         (case out_usage portfolio of
            None \<Rightarrow> out_reasons portfolio
          | Some usage \<Rightarrow> if \<not> us_allowed usage then out_reasons portfolio
              else if \<not> usage_in_scope command portfolio then [''CONCENTRATION_PORTFOLIO_SCOPE_MISMATCH''] else []) @
         (if current_authorization_superseded command (concentration_budget portfolio) (rs_cutoff_at snapshot) lineage
          then [''CONCENTRATION_CURRENT_AUTHORIZATION_REQUIRED''] else []) @
         (if price_conflict (rs_action_units snapshot) then [''CONCENTRATION_SECURITY_PRICE_CONFLICT''] else []) @
         (if costs_unresolved command (rs_cutoff_at snapshot) then [''CONCENTRATION_LIQUIDATION_COSTS_UNRESOLVED''] else []))"

definition concentration_equity ::
    "concentration_command \<Rightarrow> reconciled_position_snapshot \<Rightarrow> str list \<Rightarrow> decimal option \<times> str list" where
  "concentration_equity command snapshot reasons =
     (case rs_total_account_equity snapshot of
        None \<Rightarrow> (None, reasons)
      | Some total_equity \<Rightarrow>
          if reasons \<noteq> [] then (None, reasons)
          else
            let equity = csub total_equity (csum (List.map_filter al_amount (cn_liquidation_costs command))) in
            if equity \<le> 0 then (None, reasons @ [''CONCENTRATION_NET_EQUITY_NONPOSITIVE'']) else (Some equity, reasons))"

subsection \<open>The issuers\<close>

definition obligation_identity :: "str \<Rightarrow> str \<Rightarrow> str \<Rightarrow> str" where
  "obligation_identity portfolio_id snapshot_id issuer_id =
     ''concentration-obligation-'' @
     sha256_hexdigest (json_dumps (JList [JString portfolio_id, JString snapshot_id, JString issuer_id]))"

definition reduction_of :: "concentration_target \<Rightarrow> decimal" where
  "reduction_of target = (case cg_required_reduction_quantity target of None \<Rightarrow> 0 | Some q \<Rightarrow> q)"

definition exposure_gap :: "position_action_unit list \<Rightarrow> concentration_target list \<Rightarrow> decimal" where
  "exposure_gap units targets =
     csum (map (\<lambda>target. cmul (reduction_of target)
       (case find (\<lambda>u. au_security_id u = cg_security_id target \<and> au_market_price u \<noteq> None) units of
          None \<Rightarrow> 0 | Some u \<Rightarrow> (case au_market_price u of None \<Rightarrow> 0 | Some price \<Rightarrow> price))) targets)"

definition reduction_blocked :: "position_action_unit list \<Rightarrow> concentration_target list \<Rightarrow> bool" where
  "reduction_blocked units targets \<longleftrightarrow>
     list_ex (\<lambda>target.
       csum (map (\<lambda>u. case au_exact_statistical_action_quantity u of None \<Rightarrow> 0 | Some q \<Rightarrow> q)
         (filter (\<lambda>u. au_security_id u = cg_security_id target) units)) < reduction_of target) targets"

definition live_previous :: "(str \<times> issuer_concentration) list \<Rightarrow> str \<Rightarrow> issuer_concentration option" where
  "live_previous prior issuer_id =
     (case map_of prior issuer_id of
        None \<Rightarrow> None | Some issuer \<Rightarrow> if ic_state issuer = ISSUER_RESOLVED then None else Some issuer)"

definition obligation_pending :: "issuer_concentration option \<Rightarrow> bool" where
  "obligation_pending previous = (case previous of None \<Rightarrow> False | Some issuer \<Rightarrow> ic_obligation_id issuer \<noteq> None)"

record issuer_verdict =
  iv_state :: concentration_state
  iv_normal :: bool
  iv_reduce :: bool
  iv_obligation_id :: "str option"
  iv_targets :: "concentration_target list"
  iv_gap :: "decimal option"
  iv_blocked :: bool

definition issuer_verdict_of ::
    "concentration_command \<Rightarrow> reconciled_position_snapshot \<Rightarrow> personal_risk_budget option \<Rightarrow> decimal option \<Rightarrow>
     issuer_concentration option \<Rightarrow> issuer_exposure \<Rightarrow> issuer_verdict option" where
  "issuer_verdict_of command snapshot budget equity previous exposure =
     (let pending = obligation_pending previous in
      case (ie_current_market_exposure exposure, equity, budget) of
        (Some exposed, Some net, Some b) \<Rightarrow>
          let target_value = cmul net (tt_target_ratio (rb_concentration b)) in
          if exposed \<le> target_value \<and> \<not> pending
          then Some \<lparr>iv_state = ISSUER_NORMAL, iv_normal = True, iv_reduce = False, iv_obligation_id = None,
            iv_targets = [], iv_gap = Some 0, iv_blocked = False\<rparr>
          else if exposed \<le> cmul net (tt_hard_ratio (rb_concentration b)) \<and> \<not> pending
          then Some \<lparr>iv_state = ISSUER_BUFFER, iv_normal = False, iv_reduce = False, iv_obligation_id = None,
            iv_targets = [], iv_gap = Some 0, iv_blocked = False\<rparr>
          else
            let units = filter (\<lambda>u. au_issuer_id u = ie_issuer_id exposure) (rs_action_units snapshot) in
            (case quantity_targets units previous target_value of
               None \<Rightarrow> None
             | Some targets \<Rightarrow>
                 let gap = exposure_gap units targets;
                     resolved = (pending \<and> gap = 0 \<and> exposed \<le> target_value)
                 in Some \<lparr>iv_state = (if resolved then ISSUER_RESOLVED else ISSUER_REMEDIATION_REQUIRED),
                      iv_normal = resolved, iv_reduce = (\<not> resolved),
                      iv_obligation_id = Some (case previous of
                          None \<Rightarrow> obligation_identity (puc_portfolio_id (cn_authorization command))
                            (rs_snapshot_id snapshot) (ie_issuer_id exposure)
                        | Some issuer \<Rightarrow> (case ic_obligation_id issuer of
                            None \<Rightarrow> obligation_identity (puc_portfolio_id (cn_authorization command))
                              (rs_snapshot_id snapshot) (ie_issuer_id exposure)
                          | Some obligation_id \<Rightarrow> obligation_id)),
                      iv_targets = targets, iv_gap = Some gap, iv_blocked = reduction_blocked units targets\<rparr>)
      | _ \<Rightarrow>
          (case previous of
             Some issuer \<Rightarrow>
               if pending
               then Some \<lparr>iv_state = ISSUER_REMEDIATION_REQUIRED, iv_normal = False, iv_reduce = True,
                 iv_obligation_id = ic_obligation_id issuer,
                 iv_targets = map (\<lambda>target. target\<lparr>cg_required_reduction_quantity := None\<rparr>) (ic_targets issuer),
                 iv_gap = None, iv_blocked = True\<rparr>
               else Some \<lparr>iv_state = ISSUER_UNKNOWN, iv_normal = False, iv_reduce = False, iv_obligation_id = None,
                 iv_targets = [], iv_gap = None, iv_blocked = True\<rparr>
           | None \<Rightarrow> Some \<lparr>iv_state = ISSUER_UNKNOWN, iv_normal = False, iv_reduce = False, iv_obligation_id = None,
               iv_targets = [], iv_gap = None, iv_blocked = True\<rparr>))"

definition issuer_entry ::
    "concentration_command \<Rightarrow> position_reconciliation_outcome \<Rightarrow> personal_risk_budget option \<Rightarrow> decimal option \<Rightarrow>
     (str \<times> concentration_quantity_basis list) list \<Rightarrow> issuer_concentration option \<Rightarrow> issuer_exposure \<Rightarrow>
     issuer_verdict \<Rightarrow> issuer_concentration" where
  "issuer_entry command position budget equity bases previous exposure v =
     (let pending = obligation_pending previous;
          opened = (iv_obligation_id v \<noteq> None)
      in \<lparr>ic_issuer_id = ie_issuer_id exposure, ic_current_market_exposure = ie_current_market_exposure exposure,
          ic_position_weight = (case (ie_current_market_exposure exposure, equity) of
              (Some exposed, Some net) \<Rightarrow> Some (cdiv exposed net) | _ \<Rightarrow> None),
          ic_state = iv_state v, ic_new_exposure_blocked = (\<not> iv_normal v), ic_reduce = iv_reduce v,
          ic_obligation_id = iv_obligation_id v,
          ic_obligation_started_at = (if pending then Option.bind previous ic_obligation_started_at
            else if opened then Some (rs_cutoff_at (po_snapshot position)) else None),
          ic_obligation_risk_budget_version_id = (if pending then Option.bind previous ic_obligation_risk_budget_version_id
            else if opened then map_option rb_version_id budget else None),
          ic_obligation_thresholds = (if pending then Option.bind previous ic_obligation_thresholds
            else if opened then map_option rb_concentration budget else None),
          ic_obligation_quantity_basis = (if pending then dict_get bases (ie_issuer_id exposure) []
            else if opened then extend_quantity_basis command position (iv_targets v) [] None else []),
          ic_targets = iv_targets v, ic_exposure_gap = iv_gap v, ic_execution_blocked = iv_blocked v\<rparr>)"

definition missing_entry ::
    "(str \<times> concentration_quantity_basis list) list \<Rightarrow> bool \<Rightarrow> issuer_concentration \<Rightarrow> issuer_concentration" where
  "missing_entry bases is_closed issuer =
     issuer\<lparr>ic_state := (if is_closed then ISSUER_RESOLVED else ISSUER_REMEDIATION_REQUIRED), ic_reduce := \<not> is_closed,
       ic_new_exposure_blocked := \<not> is_closed, ic_current_market_exposure := (if is_closed then Some 0 else None),
       ic_position_weight := (if is_closed then Some 0 else None), ic_exposure_gap := (if is_closed then Some 0 else None),
       ic_execution_blocked := \<not> is_closed, ic_obligation_quantity_basis := dict_get bases (ic_issuer_id issuer) [],
       ic_targets := map (\<lambda>target. target\<lparr>cg_required_reduction_quantity := (if is_closed then Some 0 else None)\<rparr>)
         (ic_targets issuer)\<rparr>"

fun issuer_loop ::
    "(issuer_exposure \<Rightarrow> issuer_concentration option) \<Rightarrow> issuer_exposure list \<Rightarrow> issuer_concentration list option" where
  "issuer_loop f [] = Some []"
| "issuer_loop f (exposure # exposures) =
     (case f exposure of
        None \<Rightarrow> None
      | Some issuer \<Rightarrow> (case issuer_loop f exposures of None \<Rightarrow> None | Some issuers \<Rightarrow> Some (issuer # issuers)))"

definition assessed_issuer ::
    "concentration_command \<Rightarrow> position_reconciliation_outcome \<Rightarrow> personal_risk_budget option \<Rightarrow> decimal option \<Rightarrow>
     (str \<times> issuer_concentration) list \<Rightarrow> (str \<times> concentration_quantity_basis list) list \<Rightarrow> issuer_exposure \<Rightarrow>
     issuer_concentration option" where
  "assessed_issuer command position budget equity prior bases exposure =
     (let previous = live_previous prior (ie_issuer_id exposure) in
      map_option (issuer_entry command position budget equity bases previous exposure)
        (issuer_verdict_of command (po_snapshot position) budget equity previous exposure))"

definition assess_concentration ::
    "concentration_command \<Rightarrow> portfolio_authorization_outcome \<Rightarrow> position_reconciliation_outcome \<Rightarrow>
     concentration_history \<Rightarrow> portfolio_authorization_outcome list \<Rightarrow> portfolio_authorization_outcome list \<Rightarrow>
     concentration_outcome option" where
  "assess_concentration command portfolio position history lineage authorization_history =
     (let snapshot = po_snapshot position;
          budget = concentration_budget portfolio;
          prior = prior_issuers (rs_cutoff_at snapshot) (ch_outcomes history);
          bases = fst (pending_loop command portfolio position authorization_history (map snd prior));
          (equity, equity_reasons) = concentration_equity command snapshot
            (early_reasons command portfolio position history lineage authorization_history);
          reasons = equity_reasons @
            (if po_disposition position \<noteq> RECONCILED then [''CONCENTRATION_POSITION_FACTS_UNRESOLVED''] else [])
      in case issuer_loop (assessed_issuer command position budget equity prior bases)
             (rs_issuer_exposures snapshot) of
           None \<Rightarrow> None
         | Some issuers \<Rightarrow>
             Some \<lparr>cn_disposition = (if reasons \<noteq> [] then CONCENTRATION_BLOCKED else CONCENTRATION_ASSESSED),
               cn_reasons = (if reasons \<noteq> [] then reasons else [''CONCENTRATION_ASSESSED'']),
               cn_portfolio_id = puc_portfolio_id (cn_authorization command), cn_snapshot_id = rs_snapshot_id snapshot,
               cn_cutoff_at = rs_cutoff_at snapshot, cn_valuation_currency = rs_valuation_currency snapshot,
               cn_portfolio_net_liquidation_equity = equity, cn_risk_budget_version_id = map_option rb_version_id budget,
               cn_thresholds = map_option rb_concentration budget,
               cn_issuers = issuers @ map (\<lambda>issuer. missing_entry bases
                   (issuer_closed position issuer \<and> reasons = [] \<and> equity \<noteq> None) issuer)
                 (missing_issuers prior snapshot)\<rparr>)"

end
