(* ===== verification/Concentration_Ledger.thy ===== *)
theory Concentration_Ledger
  imports Concentration Authorization_Ledger
begin

text \<open>
  The history of concentration outcomes as \<open>concentration_history\<close> of
  \<open>adapters/persistence/decision_ledger.py\<close> reads it from the decision events, and the relation
  \<open>concentration_ledger\<close>: the events a host appends, one rule for each kind.
\<close>

record concentration_fact =
  cf_corrects_event_id :: "str option"
  cf_access_scope :: "result_access_scope option"
  cf_concentration :: "concentration_outcome option"

definition scoped_concentration ::
    "result_access_scope \<Rightarrow> str \<Rightarrow> concentration_fact \<Rightarrow> (result_access_scope \<times> concentration_outcome) option" where
  "scoped_concentration access_scope portfolio_id event =
     (case (cf_access_scope event, cf_concentration event) of
        (Some scope, Some concentration) \<Rightarrow>
          if ras_user_id scope = ras_user_id access_scope \<and> ras_visibility scope = ras_visibility access_scope \<and>
             cn_portfolio_id concentration = portfolio_id \<and>
             ''CONCENTRATION_SNAPSHOT_OUT_OF_ORDER'' \<notin> set (cn_reasons concentration) \<and>
             ''CONCENTRATION_HISTORY_SCOPE_UNRESOLVED'' \<notin> set (cn_reasons concentration)
          then Some (scope, concentration) else None
      | _ \<Rightarrow> None)"

definition concentration_lineage ::
    "concentration_fact list \<Rightarrow> result_access_scope \<Rightarrow> str \<Rightarrow> (result_access_scope \<times> concentration_outcome) list" where
  "concentration_lineage facts access_scope portfolio_id =
     sort_key (\<lambda>item. instant (cn_cutoff_at (snd item)))
       (List.map_filter (scoped_concentration access_scope portfolio_id)
         (filter (\<lambda>event. cf_corrects_event_id event = None) facts))"

definition latest_obligations ::
    "(result_access_scope \<times> concentration_outcome) list \<Rightarrow> (str \<times> (result_access_scope \<times> issuer_concentration)) list" where
  "latest_obligations lineage =
     dict_of (\<lambda>(scope, issuer). ic_issuer_id issuer) (\<lambda>item. item)
       (concat (map (\<lambda>(scope, outcome). map (Pair scope)
         (filter (\<lambda>issuer. ic_obligation_id issuer \<noteq> None) (cn_issuers outcome))) lineage))"

definition scope_covered :: "result_access_scope \<Rightarrow> result_access_scope \<Rightarrow> bool" where
  "scope_covered access_scope scope \<longleftrightarrow> set (ras_account_ids scope) \<subseteq> set (ras_account_ids access_scope)"

definition concentration_history ::
    "concentration_fact list \<Rightarrow> result_access_scope \<Rightarrow> str \<Rightarrow> concentration_history" where
  "concentration_history facts access_scope portfolio_id =
     (let lineage = concentration_lineage facts access_scope portfolio_id in
      \<lparr>ch_outcomes = map snd (filter (\<lambda>item. scope_covered access_scope (fst item)) lineage),
       ch_uncovered_obligation = list_ex (\<lambda>(scope, issuer). ic_reduce issuer \<and> \<not> scope_covered access_scope scope)
         (map snd (latest_obligations lineage))\<rparr>)"

inductive concentration_ledger :: "concentration_fact list \<Rightarrow> bool" where
  no_event: "concentration_ledger []"
| other_event: "concentration_ledger facts \<Longrightarrow> cf_concentration event = None \<Longrightarrow> concentration_ledger (facts @ [event])"
| correction: "concentration_ledger facts \<Longrightarrow> cf_corrects_event_id event \<noteq> None \<Longrightarrow> concentration_ledger (facts @ [event])"
| assessment: "concentration_ledger facts \<Longrightarrow> cf_access_scope event = Some scope \<Longrightarrow>
    assess_concentration command portfolio position
      (concentration_history facts scope (puc_portfolio_id (cn_authorization command))) lineage authorization_history
      = Some outcome \<Longrightarrow> cf_concentration event = Some outcome \<Longrightarrow> concentration_ledger (facts @ [event])"

end
