(* ===== verification/Concentration_Properties.thy ===== *)
theory Concentration_Properties
  imports Concentration_Ledger Stress_Properties
begin

text \<open>
  What the concentration assessment guarantees: it ends without a failed assertion, new exposure to an issuer is open
  only within the target, an obligation to reduce keeps its identity and its targets never rise until it is resolved,
  and no obligation in the ledger is lost to an assessment.
\<close>

subsection \<open>The shape of an assessment\<close>

lemma issuer_loop_Some: "issuer_loop f xs = Some ys \<Longrightarrow> list_all2 (\<lambda>x y. f x = Some y) xs ys"
  by (induction xs arbitrary: ys) (auto split: option.splits)

lemma issuer_loop_None: "issuer_loop f xs = None \<longleftrightarrow> (\<exists>x \<in> set xs. f x = None)"
  by (induction xs) (auto split: option.splits)

lemma assess_concentrationE:
  assumes "assess_concentration command portfolio position history lineage authorization_history = Some out"
  obtains issuers prior bases equity reasons where
    "prior = prior_issuers (rs_cutoff_at (po_snapshot position)) (ch_outcomes history)"
    "bases = fst (pending_loop command portfolio position authorization_history (map snd prior))"
    "(equity, reasons) = concentration_equity command (po_snapshot position)
       (early_reasons command portfolio position history lineage authorization_history)"
    "list_all2 (\<lambda>exposure issuer. assessed_issuer command position (concentration_budget portfolio) equity prior bases
       exposure = Some issuer) (rs_issuer_exposures (po_snapshot position)) issuers"
    "cn_issuers out = issuers @ map (\<lambda>issuer. missing_entry bases
       (issuer_closed position issuer \<and> reasons = [] \<and> po_disposition position = RECONCILED \<and> equity \<noteq> None) issuer)
       (missing_issuers prior (po_snapshot position))"
    "cn_portfolio_net_liquidation_equity out = equity"
    "cn_disposition out = CONCENTRATION_ASSESSED \<longleftrightarrow> reasons = [] \<and> po_disposition position = RECONCILED"
  using assms unfolding assess_concentration_def Let_def
  by (force dest: issuer_loop_Some split: prod.splits option.splits if_splits)

lemma assess_concentration_sel:
  assumes "assess_concentration command portfolio position history lineage authorization_history = Some out"
  shows "cn_portfolio_id out = puc_portfolio_id (cn_authorization command)"
    and "cn_cutoff_at out = rs_cutoff_at (po_snapshot position)"
    and "cn_disposition out = CONCENTRATION_ASSESSED \<Longrightarrow> cn_reasons out = [''CONCENTRATION_ASSESSED'']"
  using assms by (auto simp: assess_concentration_def Let_def split: prod.splits option.splits if_splits)

lemma assessed_issuer_cases:
  assumes "assessed_issuer command position budget equity prior bases exposure = Some issuer"
  obtains v where
    "issuer_verdict_of command (po_snapshot position) budget equity (live_previous prior (ie_issuer_id exposure))
       exposure = Some v"
    "issuer = issuer_entry command position budget equity bases (live_previous prior (ie_issuer_id exposure)) exposure v"
  using assms by (auto simp: assessed_issuer_def Let_def)

lemma issuer_verdict_cases:
  assumes "issuer_verdict_of command snapshot budget equity previous exposure = Some v"
  obtains (normal) exposed net b where
      "ie_current_market_exposure exposure = Some exposed" "equity = Some net" "budget = Some b"
      "exposed \<le> cmul net (tt_target_ratio (rb_concentration b))" "\<not> obligation_pending previous"
      "v = \<lparr>iv_state = ISSUER_NORMAL, iv_normal = True, iv_reduce = False, iv_obligation_id = None,
         iv_targets = [], iv_gap = Some 0, iv_blocked = False\<rparr>"
  | (buffer) exposed net b where
      "ie_current_market_exposure exposure = Some exposed" "equity = Some net" "budget = Some b"
      "\<not> exposed \<le> cmul net (tt_target_ratio (rb_concentration b))"
      "exposed \<le> cmul net (tt_hard_ratio (rb_concentration b))" "\<not> obligation_pending previous"
      "v = \<lparr>iv_state = ISSUER_BUFFER, iv_normal = False, iv_reduce = False, iv_obligation_id = None,
         iv_targets = [], iv_gap = Some 0, iv_blocked = False\<rparr>"
  | (reducing) exposed net b targets obligation_id resolved units where
      "ie_current_market_exposure exposure = Some exposed" "equity = Some net" "budget = Some b"
      "units = filter (\<lambda>u. au_issuer_id u = ie_issuer_id exposure) (rs_action_units snapshot)"
      "quantity_targets units previous (cmul net (tt_target_ratio (rb_concentration b))) = Some targets"
      "obligation_pending previous \<or> cmul net (tt_hard_ratio (rb_concentration b)) < exposed"
      "resolved \<longleftrightarrow> obligation_pending previous \<and> exposure_gap units targets = 0 \<and>
         exposed \<le> cmul net (tt_target_ratio (rb_concentration b))"
      "obligation_pending previous \<Longrightarrow> Some obligation_id = Option.bind previous ic_obligation_id"
      "v = \<lparr>iv_state = (if resolved then ISSUER_RESOLVED else ISSUER_REMEDIATION_REQUIRED), iv_normal = resolved,
         iv_reduce = (\<not> resolved), iv_obligation_id = Some obligation_id, iv_targets = targets,
         iv_gap = Some (exposure_gap units targets), iv_blocked = reduction_blocked units targets\<rparr>"
  | (retained) issuer where
      "ie_current_market_exposure exposure = None \<or> equity = None \<or> budget = None"
      "previous = Some issuer" "obligation_pending previous"
      "v = \<lparr>iv_state = ISSUER_REMEDIATION_REQUIRED, iv_normal = False, iv_reduce = True,
         iv_obligation_id = ic_obligation_id issuer,
         iv_targets = map (\<lambda>target. target\<lparr>cg_required_reduction_quantity := None\<rparr>) (ic_targets issuer),
         iv_gap = None, iv_blocked = True\<rparr>"
  | (unknown) "ie_current_market_exposure exposure = None \<or> equity = None \<or> budget = None" "\<not> obligation_pending previous"
      "v = \<lparr>iv_state = ISSUER_UNKNOWN, iv_normal = False, iv_reduce = False, iv_obligation_id = None,
         iv_targets = [], iv_gap = None, iv_blocked = True\<rparr>"
proof (cases "ie_current_market_exposure exposure = None \<or> equity = None \<or> budget = None")
  case True
  show ?thesis
  proof (cases "obligation_pending previous")
    case pending: True
    then obtain issuer where "previous = Some issuer" by (auto simp: obligation_pending_def split: option.splits)
    with True pending assms show ?thesis by (intro retained) (auto simp: issuer_verdict_of_def split: option.splits)
  next
    case False
    with True assms show ?thesis by (intro unknown) (auto simp: issuer_verdict_of_def split: option.splits)
  qed
next
  case False
  then obtain exposed net b where known: "ie_current_market_exposure exposure = Some exposed" "equity = Some net"
    "budget = Some b" by auto
  let ?units = "filter (\<lambda>u. au_issuer_id u = ie_issuer_id exposure) (rs_action_units snapshot)"
  consider (n) "exposed \<le> cmul net (tt_target_ratio (rb_concentration b)) \<and> \<not> obligation_pending previous"
    | (b) "\<not> exposed \<le> cmul net (tt_target_ratio (rb_concentration b))"
        "exposed \<le> cmul net (tt_hard_ratio (rb_concentration b)) \<and> \<not> obligation_pending previous"
    | (r) "\<not> (exposed \<le> cmul net (tt_target_ratio (rb_concentration b)) \<and> \<not> obligation_pending previous)"
        "\<not> (exposed \<le> cmul net (tt_hard_ratio (rb_concentration b)) \<and> \<not> obligation_pending previous)"
    by blast
  then show ?thesis
  proof cases
    case n
    with assms known show ?thesis by (intro normal) (auto simp: issuer_verdict_of_def)
  next
    case b
    with assms known show ?thesis by (intro buffer) (auto simp: issuer_verdict_of_def)
  next
    case r
    from assms known r obtain targets where
      targets: "quantity_targets ?units previous (cmul net (tt_target_ratio (rb_concentration b))) = Some targets"
      by (auto simp: issuer_verdict_of_def Let_def split: option.splits)
    from assms r known targets show ?thesis
      by (intro reducing [OF known refl targets _ refl])
        (auto simp: issuer_verdict_of_def Let_def obligation_pending_def split: option.splits)
  qed
qed

lemma concentration_equity_Some:
  assumes "(Some equity, reasons) = concentration_equity command snapshot early"
  shows "early = []" "0 < equity"
    "rs_total_account_equity snapshot \<noteq> None" "reasons = []"
    "equity = csub (the (rs_total_account_equity snapshot)) (csum (List.map_filter al_amount (cn_liquidation_costs command)))"
  using assms by (auto simp: concentration_equity_def Let_def split: option.splits if_splits)

subsection \<open>Well-formed entries\<close>

definition wf_issuer :: "issuer_concentration \<Rightarrow> bool" where
  "wf_issuer issuer \<longleftrightarrow>
     (ic_reduce issuer \<longleftrightarrow> ic_state issuer = ISSUER_REMEDIATION_REQUIRED) \<and>
     (ic_obligation_id issuer \<noteq> None \<longleftrightarrow> ic_state issuer \<in> {ISSUER_REMEDIATION_REQUIRED, ISSUER_RESOLVED}) \<and>
     (ic_new_exposure_blocked issuer \<longleftrightarrow> ic_state issuer \<notin> {ISSUER_NORMAL, ISSUER_RESOLVED}) \<and>
     (ic_obligation_id issuer = None \<longrightarrow> ic_targets issuer = [] \<and> ic_obligation_quantity_basis issuer = []) \<and>
     (ic_obligation_started_at issuer = None \<longleftrightarrow> ic_obligation_id issuer = None)"

definition wf_prior :: "(str \<times> issuer_concentration) list \<Rightarrow> bool" where
  "wf_prior prior \<longleftrightarrow> distinct (map fst prior) \<and>
     (\<forall>i issuer. map_of prior i = Some issuer \<longrightarrow> ic_issuer_id issuer = i \<and> wf_issuer issuer)"

lemma live_previousD:
  assumes "live_previous prior i = Some issuer"
  shows "map_of prior i = Some issuer" "ic_state issuer \<noteq> ISSUER_RESOLVED"
  using assms by (auto simp: live_previous_def split: option.splits if_splits)

lemma wf_prior_lookup: "wf_prior prior \<Longrightarrow> map_of prior i = Some issuer \<Longrightarrow> ic_issuer_id issuer = i \<and> wf_issuer issuer"
  by (auto simp: wf_prior_def)

lemma wf_prior_member: "wf_prior prior \<Longrightarrow> (i, issuer) \<in> set prior \<Longrightarrow> ic_issuer_id issuer = i \<and> wf_issuer issuer"
  by (auto simp: wf_prior_def)

text \<open>In a well-formed history the entry in force for an issuer is either an obligation to reduce, or none.\<close>

lemma obligation_pending_iff:
  assumes "wf_prior prior"
  shows "obligation_pending (live_previous prior i) \<longleftrightarrow> (\<exists>issuer. map_of prior i = Some issuer \<and> ic_reduce issuer)"
  using wf_prior_lookup [OF assms, of i]
  by (auto simp: obligation_pending_def live_previous_def wf_issuer_def split: option.splits)

lemma issuer_entry_wf:
  assumes "issuer_verdict_of command snapshot budget equity previous exposure = Some v"
    and "\<And>issuer. previous = Some issuer \<Longrightarrow> wf_issuer issuer"
  shows "wf_issuer (issuer_entry command position budget equity bases previous exposure v)"
proof -
  have started: "obligation_pending previous \<Longrightarrow> Option.bind previous ic_obligation_started_at \<noteq> None"
    using assms(2) by (auto simp: obligation_pending_def wf_issuer_def split: option.splits)
  have "obligation_pending previous \<Longrightarrow> Option.bind previous ic_obligation_id \<noteq> None"
    by (auto simp: obligation_pending_def split: option.splits)
  from assms(1) this started show ?thesis
    by (cases rule: issuer_verdict_cases) (auto simp: wf_issuer_def issuer_entry_def Let_def)
qed

lemma missing_entry_sel [simp]:
  "ic_issuer_id (missing_entry bases c issuer) = ic_issuer_id issuer"
  "ic_obligation_id (missing_entry bases c issuer) = ic_obligation_id issuer"
  "ic_obligation_started_at (missing_entry bases c issuer) = ic_obligation_started_at issuer"
  "ic_obligation_risk_budget_version_id (missing_entry bases c issuer) = ic_obligation_risk_budget_version_id issuer"
  "ic_obligation_thresholds (missing_entry bases c issuer) = ic_obligation_thresholds issuer"
  "ic_obligation_quantity_basis (missing_entry bases c issuer) = dict_get bases (ic_issuer_id issuer) []"
  "ic_state (missing_entry bases c issuer) = (if c then ISSUER_RESOLVED else ISSUER_REMEDIATION_REQUIRED)"
  "ic_reduce (missing_entry bases c issuer) \<longleftrightarrow> \<not> c"
  "ic_new_exposure_blocked (missing_entry bases c issuer) \<longleftrightarrow> \<not> c"
  "ic_execution_blocked (missing_entry bases c issuer) \<longleftrightarrow> \<not> c"
  "ic_exposure_gap (missing_entry bases c issuer) = (if c then Some 0 else None)"
  "ic_targets (missing_entry bases c issuer) =
     map (\<lambda>target. target\<lparr>cg_required_reduction_quantity := (if c then Some 0 else None)\<rparr>) (ic_targets issuer)"
  by (simp_all add: missing_entry_def)

lemma missing_entry_wf: "wf_issuer issuer \<Longrightarrow> ic_reduce issuer \<Longrightarrow> wf_issuer (missing_entry bases c issuer)"
  by (auto simp: wf_issuer_def)

lemma closed_by_fills_cong:
  "ic_obligation_started_at a = ic_obligation_started_at b \<Longrightarrow> closed_by_fills position a code \<longleftrightarrow> closed_by_fills position b code"
  by (simp add: closed_by_fills_def)

lemma missing_issuers_iff:
  "issuer \<in> set (missing_issuers prior snapshot) \<longleftrightarrow>
     (\<exists>i. (i, issuer) \<in> set prior) \<and> ic_reduce issuer \<and> ic_issuer_id issuer \<notin> ie_issuer_id ` set (rs_issuer_exposures snapshot)"
  by (force simp: missing_issuers_def)

lemma assess_concentration_wf:
  assumes "assess_concentration command portfolio position history lineage authorization_history = Some out"
    and "wf_prior (prior_issuers (rs_cutoff_at (po_snapshot position)) (ch_outcomes history))"
    and "issuer \<in> set (cn_issuers out)"
  shows "wf_issuer issuer"
  using assms(1)
proof (cases rule: assess_concentrationE)
  case (1 issuers prior bases equity reasons)
  note wf = assms(2) [folded 1(1)]
  from assms(3) 1(5) consider "issuer \<in> set issuers"
    | c old where "issuer = missing_entry bases c old" "old \<in> set (missing_issuers prior (po_snapshot position))"
    by auto
  then show ?thesis
  proof cases
    case 1
    with \<open>list_all2 _ _ _\<close> obtain exposure where
      "assessed_issuer command position (concentration_budget portfolio) equity prior bases exposure = Some issuer"
      by (auto simp: list_all2_conv_all_nth in_set_conv_nth)
    then show ?thesis
      by (elim assessed_issuer_cases) (auto intro!: issuer_entry_wf dest: live_previousD wf_prior_lookup [OF wf])
  next
    case 2
    with wf show ?thesis by (auto simp: missing_issuers_iff dest: wf_prior_member intro!: missing_entry_wf)
  qed
qed

lemma retain_issuer_wf: "wf_prior prior \<Longrightarrow> wf_issuer issuer \<Longrightarrow> wf_prior (retain_issuer prior issuer)"
  unfolding wf_prior_def retain_issuer_def
  by (auto simp: distinct_update update_conv simp del: map_of_eq_Some_iff split: option.splits if_splits)

lemma foldl_retain_wf: "wf_prior prior \<Longrightarrow> list_all wf_issuer issuers \<Longrightarrow> wf_prior (foldl retain_issuer prior issuers)"
  by (induction issuers arbitrary: prior) (auto simp: retain_issuer_wf)

lemma prior_issuers_wf:
  assumes "\<And>outcome issuer. outcome \<in> set outcomes \<Longrightarrow> issuer \<in> set (cn_issuers outcome) \<Longrightarrow> wf_issuer issuer"
  shows "wf_prior (prior_issuers cutoff outcomes)"
  unfolding prior_issuers_def using assms
  by (intro foldl_retain_wf) (auto simp: wf_prior_def list_all_iff)

subsection \<open>No assertion fails\<close>

lemma unit_totals_priced: "list_all unit_priced units \<Longrightarrow> unit_totals quantities prices units \<noteq> None"
  by (induction units arbitrary: quantities prices) (auto simp: unit_priced_def)

lemma quantity_targets_priced: "list_all unit_priced units \<Longrightarrow> quantity_targets units previous value \<noteq> None"
  using unit_totals_priced [of units "[]" "[]"] by (auto simp: quantity_targets_def split: option.splits)

lemma issuer_verdict_priced:
  assumes "\<And>net. equity = Some net \<Longrightarrow> list_all unit_priced (rs_action_units snapshot)"
  shows "issuer_verdict_of command snapshot budget equity previous exposure \<noteq> None"
proof (cases equity)
  case (Some net)
  let ?units = "filter (\<lambda>u. au_issuer_id u = ie_issuer_id exposure) (rs_action_units snapshot)"
  from Some have "list_all unit_priced ?units" using assms by (auto simp: list_all_iff)
  then have "\<exists>targets. quantity_targets ?units previous target_value = Some targets" for target_value
    using quantity_targets_priced by auto
  then obtain targets where "\<And>target_value. quantity_targets ?units previous target_value = Some (targets target_value)" by metis
  then show ?thesis by (auto simp: issuer_verdict_of_def Let_def split: option.splits)
qed (auto simp: issuer_verdict_of_def Let_def split: option.splits)

lemma assess_concentration_defined:
  assumes "rs_total_account_equity (po_snapshot position) \<noteq> None \<Longrightarrow> list_all unit_priced (rs_action_units (po_snapshot position))"
  obtains out where "assess_concentration command portfolio position history lineage authorization_history = Some out"
proof -
  obtain equity reasons where equity: "(equity, reasons) = concentration_equity command (po_snapshot position)
      (early_reasons command portfolio position history lineage authorization_history)"
    by (metis surj_pair)
  have "list_all unit_priced (rs_action_units (po_snapshot position))" if "equity = Some net" for net
    using concentration_equity_Some(3) [OF equity [unfolded that]] assms by simp
  then have verdict: "issuer_verdict_of command (po_snapshot position) budget equity previous exposure \<noteq> None"
    for budget previous exposure
    by (rule issuer_verdict_priced)
  have "issuer_loop (assessed_issuer command position budget equity prior bases) exposures \<noteq> None"
    for budget prior bases exposures
    unfolding issuer_loop_None using verdict by (simp add: assessed_issuer_def Let_def)
  then have "assess_concentration command portfolio position history lineage authorization_history \<noteq> None"
    unfolding assess_concentration_def Let_def equity [symmetric] by (auto split: option.splits)
  with that show thesis by auto
qed

text \<open>On every outcome of the position reconciliation the concentration assessment returns a result: the
  assertion of \<open>_quantity_targets\<close> cannot fail, because a net equity is computed only where a total equity is
  stated, and then every action unit has a quantity and a price.\<close>

lemma assess_concentration_total:
  "assess_concentration command portfolio (reconcile positions prior_ledger prior_cash) history lineage
     authorization_history \<noteq> None"
proof -
  have "list_all unit_priced (rs_action_units (po_snapshot (reconcile positions prior_ledger prior_cash)))"
    if "rs_total_account_equity (po_snapshot (reconcile positions prior_ledger prior_cash)) \<noteq> None"
    unfolding list_all_iff using priced_units [OF that] by blast
  from assess_concentration_defined [OF this] show ?thesis by (metis option.distinct(1))
qed

subsection \<open>New exposure\<close>

lemma early_reasons_Nil:
  assumes "early_reasons command portfolio position history lineage authorization_history = []"
  shows "\<not> ch_uncovered_obligation history"
    and "\<forall>outcome \<in> set (ch_outcomes history). cn_cutoff_at outcome < rs_cutoff_at (po_snapshot position)"
    and "out_reasons portfolio \<noteq> [] \<Longrightarrow> usage_in_scope command portfolio"
    and "\<not> current_authorization_superseded command (concentration_budget portfolio) (rs_cutoff_at (po_snapshot position)) lineage"
    and "\<not> price_conflict (rs_action_units (po_snapshot position))"
    and "\<not> costs_unresolved command (rs_cutoff_at (po_snapshot position))"
    and "snd (pending_loop command portfolio position authorization_history
      (map snd (prior_issuers (rs_cutoff_at (po_snapshot position)) (ch_outcomes history)))) = []"
  using assms
  by (auto simp: early_reasons_def Let_def list_ex_iff not_le usage_in_scope_def split: if_splits option.splits)

lemma assessed_not_blocked:
  assumes "assessed_issuer command position budget equity prior bases exposure = Some issuer"
    and "\<not> ic_new_exposure_blocked issuer"
  shows "\<exists>exposed net b. ic_current_market_exposure issuer = Some exposed \<and> equity = Some net \<and> budget = Some b \<and>
    exposed \<le> cmul net (tt_target_ratio (rb_concentration b)) \<and> ic_exposure_gap issuer = Some 0"
  using assms(1)
proof (cases rule: assessed_issuer_cases)
  case (1 v)
  from 1(1) show ?thesis
    using assms(2) 1(2) by (cases rule: issuer_verdict_cases) (auto simp: issuer_entry_def Let_def split: if_splits)
qed

lemma assessed_member:
  assumes "list_all2 (\<lambda>exposure issuer. assessed_issuer command position budget equity prior bases exposure = Some issuer)
    exposures issuers" and "issuer \<in> set issuers"
  obtains exposure where "exposure \<in> set exposures"
    "assessed_issuer command position budget equity prior bases exposure = Some issuer"
  using assms by (metis (mono_tags, lifting) in_set_conv_nth list_all2_conv_all_nth)

text \<open>C25: New exposure to an issuer is open only on complete evidence: the use is allowed for exactly the accounts of
  the snapshot, every earlier outcome is older than the snapshot and no obligation is out of view, no later
  authorization is in force, prices agree, all liquidation costs are known, and the net equity is positive; then the
  exposure is within the target share of the net equity and nothing is left to reduce, or the issuer is gone from a
  reconciled snapshot and all its securities were sold by fills.\<close>

theorem concentration_fails_closed:
  assumes "assess_concentration command portfolio position history lineage authorization_history = Some out"
    and "issuer \<in> set (cn_issuers out)" and "\<not> ic_new_exposure_blocked issuer" and "out_reasons portfolio \<noteq> []"
  shows "usage_in_scope command portfolio \<and> \<not> ch_uncovered_obligation history \<and>
     (\<forall>outcome \<in> set (ch_outcomes history). cn_cutoff_at outcome < rs_cutoff_at (po_snapshot position)) \<and>
     \<not> current_authorization_superseded command (concentration_budget portfolio) (rs_cutoff_at (po_snapshot position)) lineage \<and>
     \<not> price_conflict (rs_action_units (po_snapshot position)) \<and> \<not> costs_unresolved command (rs_cutoff_at (po_snapshot position)) \<and>
     ic_exposure_gap issuer = Some 0 \<and>
     (\<exists>net. cn_portfolio_net_liquidation_equity out = Some net \<and> 0 < net \<and>
        ((\<exists>exposed b. ic_current_market_exposure issuer = Some exposed \<and> concentration_budget portfolio = Some b \<and>
            exposed \<le> cmul net (tt_target_ratio (rb_concentration b))) \<or>
         ic_issuer_id issuer \<notin> ie_issuer_id ` set (rs_issuer_exposures (po_snapshot position)) \<and>
         cn_disposition out = CONCENTRATION_ASSESSED \<and>
         (\<forall>target \<in> set (ic_targets issuer). closed_by_fills position issuer (cg_security_id target))))"
  using assms(1)
proof (cases rule: assess_concentrationE)
  case (1 issuers prior bases equity reasons)
  from assms(2) 1(5) consider "issuer \<in> set issuers"
    | c old where "issuer = missing_entry bases c old" "old \<in> set (missing_issuers prior (po_snapshot position))"
        "c \<longleftrightarrow> issuer_closed position old \<and> reasons = [] \<and> po_disposition position = RECONCILED \<and> equity \<noteq> None"
    by auto
  then show ?thesis
  proof cases
    case known: 1
    with \<open>list_all2 _ _ _\<close> obtain exposure where
      "assessed_issuer command position (concentration_budget portfolio) equity prior bases exposure = Some issuer"
      by (rule assessed_member)
    from assessed_not_blocked [OF this assms(3)] obtain exposed net b where verdict:
      "ic_current_market_exposure issuer = Some exposed" "equity = Some net" "concentration_budget portfolio = Some b"
      "exposed \<le> cmul net (tt_target_ratio (rb_concentration b))" "ic_exposure_gap issuer = Some 0" by auto
    note net = concentration_equity_Some [OF 1(3) [unfolded verdict(2)]]
    show ?thesis using early_reasons_Nil [OF net(1)] net(2) verdict assms(4) 1(6) by blast
  next
    case (2 c old)
    then have c: "c" using assms(3) by simp
    with 2(3) obtain net where eq: "equity = Some net" by auto
    note net = concentration_equity_Some [OF 1(3) [unfolded eq]]
    have "\<forall>target \<in> set (ic_targets issuer). closed_by_fills position issuer (cg_security_id target)"
      "ic_issuer_id issuer \<notin> ie_issuer_id ` set (rs_issuer_exposures (po_snapshot position))"
      "ic_exposure_gap issuer = Some 0" "cn_disposition out = CONCENTRATION_ASSESSED"
      using 2 c 1(7) closed_by_fills_cong [of issuer old position]
      by (auto simp: issuer_closed_def list_all_iff missing_issuers_iff)
    then show ?thesis using early_reasons_Nil [OF net(1)] net(2) assms(4) 1(6) eq by blast
  qed
qed

subsection \<open>Obligations in force\<close>

definition same_obligation :: "issuer_concentration \<Rightarrow> issuer_concentration \<Rightarrow> bool" where
  "same_obligation old issuer \<longleftrightarrow>
     ic_issuer_id issuer = ic_issuer_id old \<and> ic_obligation_id issuer = ic_obligation_id old \<and>
     ic_obligation_started_at issuer = ic_obligation_started_at old \<and>
     ic_obligation_risk_budget_version_id issuer = ic_obligation_risk_budget_version_id old \<and>
     ic_obligation_thresholds issuer = ic_obligation_thresholds old"

text \<open>What a resolved entry rests on: the exposure is within the target and nothing is left to reduce, or every
  security was sold by fills.\<close>

definition restored ::
    "portfolio_authorization_outcome \<Rightarrow> position_reconciliation_outcome \<Rightarrow> concentration_outcome \<Rightarrow> issuer_concentration \<Rightarrow> bool" where
  "restored portfolio position out issuer \<longleftrightarrow>
     ic_state issuer = ISSUER_RESOLVED \<and> ic_exposure_gap issuer = Some 0 \<and>
     (\<exists>net. cn_portfolio_net_liquidation_equity out = Some net \<and> 0 < net \<and>
        ((\<exists>exposed b. ic_current_market_exposure issuer = Some exposed \<and> concentration_budget portfolio = Some b \<and>
            exposed \<le> cmul net (tt_target_ratio (rb_concentration b))) \<or>
         issuer_closed position issuer))"

lemma assessed_pending:
  assumes "assessed_issuer command position budget equity prior bases exposure = Some issuer"
    and "wf_prior prior" and "map_of prior (ie_issuer_id exposure) = Some old" and "ic_reduce old"
  shows "same_obligation old issuer" and "ic_reduce issuer \<or> ic_state issuer = ISSUER_RESOLVED"
    and "ic_obligation_quantity_basis issuer = dict_get bases (ic_issuer_id old) []"
proof -
  from wf_prior_lookup [OF assms(2,3)] have old: "ic_issuer_id old = ie_issuer_id exposure" "wf_issuer old" by auto
  with assms(3,4) have live: "live_previous prior (ie_issuer_id exposure) = Some old" "obligation_pending (Some old)"
    by (auto simp: live_previous_def wf_issuer_def obligation_pending_def)
  from assms(1) obtain v where
    v: "issuer_verdict_of command (po_snapshot position) budget equity (Some old) exposure = Some v"
    "issuer = issuer_entry command position budget equity bases (Some old) exposure v"
    by (elim assessed_issuer_cases) (simp add: live)
  from v(1) have "iv_obligation_id v = ic_obligation_id old" "iv_reduce v \<or> iv_state v = ISSUER_RESOLVED"
    using live(2) by (cases rule: issuer_verdict_cases; simp)+
  then show "same_obligation old issuer" "ic_reduce issuer \<or> ic_state issuer = ISSUER_RESOLVED"
    "ic_obligation_quantity_basis issuer = dict_get bases (ic_issuer_id old) []"
    using live(2) old by (auto simp: v(2) issuer_entry_def Let_def same_obligation_def)
qed

lemma obligation_carried:
  assumes "assess_concentration command portfolio position history lineage authorization_history = Some out"
    and "wf_prior (prior_issuers (rs_cutoff_at (po_snapshot position)) (ch_outcomes history))"
    and "map_of (prior_issuers (rs_cutoff_at (po_snapshot position)) (ch_outcomes history)) i = Some old" and "ic_reduce old"
  shows "\<exists>issuer \<in> set (cn_issuers out). same_obligation old issuer \<and>
    (ic_reduce issuer \<and> ic_new_exposure_blocked issuer \<or> restored portfolio position out issuer)"
  using assms(1)
proof (cases rule: assess_concentrationE)
  case (1 issuers prior bases equity reasons)
  note prior = assms(2-3) [folded 1(1)]
  note id = wf_prior_lookup [OF prior, THEN conjunct1]
  show ?thesis
  proof (cases "i \<in> ie_issuer_id ` set (rs_issuer_exposures (po_snapshot position))")
    case True
    with 1(4) obtain exposure issuer where e: "ie_issuer_id exposure = i" "issuer \<in> set issuers"
      "assessed_issuer command position (concentration_budget portfolio) equity prior bases exposure = Some issuer"
      by (auto simp: list_all2_conv_all_nth in_set_conv_nth) (metis nth_mem)
    note pending = assessed_pending [OF e(3) prior(1) prior(2) [folded e(1)] assms(4)]
    have member: "issuer \<in> set (cn_issuers out)" using e(2) 1(5) by simp
    note wf = assess_concentration_wf [OF assms(1,2) member]
    have "restored portfolio position out issuer" if resolved: "ic_state issuer = ISSUER_RESOLVED"
    proof -
      from resolved wf have open_: "\<not> ic_new_exposure_blocked issuer" by (auto simp: wf_issuer_def)
      from assessed_not_blocked [OF e(3) this] concentration_equity_Some(2) 1(3,6) resolved
      show ?thesis by (fastforce simp: restored_def)
    qed
    with pending wf member show ?thesis by (auto simp: wf_issuer_def intro!: bexI [of _ issuer])
  next
    case False
    define c where "c \<longleftrightarrow> issuer_closed position old \<and> reasons = [] \<and> po_disposition position = RECONCILED \<and> equity \<noteq> None"
    have "old \<in> set (missing_issuers prior (po_snapshot position))"
      using False id assms(4) prior(2) by (auto simp: missing_issuers_iff dest: map_of_SomeD)
    then have "missing_entry bases c old \<in> set (cn_issuers out)" unfolding 1(5) c_def by auto
    moreover have "restored portfolio position out (missing_entry bases c old)" if c
      using that concentration_equity_Some(2) 1(3,6) closed_by_fills_cong [of "missing_entry bases c old" old position]
      by (fastforce simp: restored_def c_def issuer_closed_def list_all_iff)
    ultimately show ?thesis by (intro bexI [of _ "missing_entry bases c old"]) (auto simp: same_obligation_def)
  qed
qed

text \<open>With a reason the whole assessment is closed.\<close>

lemma reasons_block:
  assumes "assess_concentration command portfolio position history lineage authorization_history = Some out"
    and "early_reasons command portfolio position history lineage authorization_history \<noteq> []"
  shows "cn_disposition out = CONCENTRATION_BLOCKED \<and>
    (\<forall>issuer \<in> set (cn_issuers out). ic_new_exposure_blocked issuer \<and> ic_execution_blocked issuer)"
  using assms(1)
proof (cases rule: assess_concentrationE)
  case (1 issuers prior bases equity reasons)
  have none: "equity = None" "reasons \<noteq> []"
    using 1(3) assms(2) by (auto simp: concentration_equity_def Let_def split: option.splits if_splits)
  have "ic_new_exposure_blocked issuer \<and> ic_execution_blocked issuer" if "issuer \<in> set issuers" for issuer
  proof -
    from 1(4) that obtain exposure where
      "assessed_issuer command position (concentration_budget portfolio) equity prior bases exposure = Some issuer"
      by (rule assessed_member)
    then show ?thesis
      by (elim assessed_issuer_cases, elim issuer_verdict_cases) (auto simp: none issuer_entry_def Let_def)
  qed
  moreover have "cn_disposition out = CONCENTRATION_BLOCKED"
    using 1(7) none by (cases "cn_disposition out") auto
  ultimately show ?thesis using 1(5) none by auto
qed

lemma retain_issuer_lookup:
  "map_of (retain_issuer prior issuer) i =
     (if i = ic_issuer_id issuer \<and>
         \<not> (\<exists>old. map_of prior i = Some old \<and> ic_reduce old \<and> ic_obligation_id issuer = None)
      then Some issuer else map_of prior i)"
  by (auto simp: retain_issuer_def update_conv split: option.splits)

text \<open>The obligation the ledger calls the latest of an issuer, where it is in view, is the entry the assessment
  starts from: entries without an obligation do not replace it.\<close>

lemma latest_retained:
  assumes "find (\<lambda>item. ic_issuer_id (snd item) = i) (rev (filter (\<lambda>item. ic_obligation_id (snd item) \<noteq> None) items)) = Some (scope, old)"
    and "ic_reduce old" and "covered scope"
  shows "map_of (foldl retain_issuer [] (map snd (filter (\<lambda>item. covered (fst item)) items))) i = Some old"
  using assms(1)
proof (induction items rule: rev_induct)
  case (snoc item items)
  let ?prior = "foldl retain_issuer [] (map snd (filter (\<lambda>item. covered (fst item)) items))"
  show ?case
  proof (cases "ic_issuer_id (snd item) = i \<and> ic_obligation_id (snd item) \<noteq> None")
    case True
    with snoc(2) assms(3) show ?thesis by (auto simp: retain_issuer_lookup)
  next
    case False
    with snoc have "map_of ?prior i = Some old" by (auto split: if_splits)
    with False assms(2) show ?thesis by (auto simp: retain_issuer_lookup)
  qed
qed simp

lemma latest_obligations_lookup:
  "map_of (latest_obligations lineage) i =
     find (\<lambda>item. ic_issuer_id (snd item) = i) (rev (filter (\<lambda>item. ic_obligation_id (snd item) \<noteq> None)
       (concat (map (\<lambda>(scope, outcome). map (Pair scope) (cn_issuers outcome)) lineage))))"
proof -
  have "concat (map (\<lambda>(scope, outcome). map (Pair scope)
        (filter (\<lambda>issuer. ic_obligation_id issuer \<noteq> None) (cn_issuers outcome))) lineage) =
      filter (\<lambda>item. ic_obligation_id (snd item) \<noteq> None)
        (concat (map (\<lambda>(scope, outcome). map (Pair scope) (cn_issuers outcome)) lineage))"
    by (induction lineage) (auto simp: filter_map o_def)
  then show ?thesis
    by (simp add: latest_obligations_def dict_of_lookup split_def option.map_ident)
qed

lemma covered_issuers:
  "concat (map cn_issuers (map snd (filter (\<lambda>item. covered (fst item)) lineage))) =
     map snd (filter (\<lambda>item. covered (fst item)) (concat (map (\<lambda>(scope, outcome). map (Pair scope) (cn_issuers outcome)) lineage)))"
  by (induction lineage) (auto simp: filter_map o_def)

lemma latest_obligation_in_view:
  assumes "map_of (latest_obligations (concentration_lineage facts access_scope portfolio_id)) i = Some (scope, old)"
    and "ic_reduce old" and "\<not> ch_uncovered_obligation (concentration_history facts access_scope portfolio_id)"
    and "\<forall>outcome \<in> set (ch_outcomes (concentration_history facts access_scope portfolio_id)). cn_cutoff_at outcome < cutoff"
  shows "map_of (prior_issuers cutoff (ch_outcomes (concentration_history facts access_scope portfolio_id))) i = Some old"
proof -
  let ?lineage = "concentration_lineage facts access_scope portfolio_id"
  have "(i, scope, old) \<in> set (latest_obligations ?lineage)" using assms(1) by (rule map_of_SomeD)
  with assms(2,3) have covered: "scope_covered access_scope scope"
    by (force simp: concentration_history_def Let_def list_ex_iff)
  have "prior_issuers cutoff (ch_outcomes (concentration_history facts access_scope portfolio_id)) =
      foldl retain_issuer [] (concat (map cn_issuers (ch_outcomes (concentration_history facts access_scope portfolio_id))))"
    using assms(4) unfolding prior_issuers_def by (subst filter_True) auto
  also have "\<dots> = foldl retain_issuer [] (map snd (filter (\<lambda>item. scope_covered access_scope (fst item))
      (concat (map (\<lambda>(scope, outcome). map (Pair scope) (cn_issuers outcome)) ?lineage))))"
    by (simp only: concentration_history_def Let_def concentration_history.simps covered_issuers)
  finally show ?thesis
    using latest_retained [where covered = "scope_covered access_scope",
        OF assms(1) [unfolded latest_obligations_lookup] assms(2) covered] by simp
qed

text \<open>Every outcome read from a ledger is well formed.\<close>

lemma scoped_concentrationD:
  "scoped_concentration access_scope portfolio_id event = Some item \<Longrightarrow> cf_concentration event = Some (snd item)"
  by (auto simp: scoped_concentration_def split: option.splits if_splits)

lemma concentration_lineage_member:
  assumes "item \<in> set (concentration_lineage facts access_scope portfolio_id)"
  obtains event where "event \<in> set facts" "cf_corrects_event_id event = None" "cf_concentration event = Some (snd item)"
  using assms
  by (auto simp: concentration_lineage_def set_map_filter dest: scoped_concentrationD)

lemma concentration_ledger_wf:
  assumes "concentration_ledger facts"
  shows "event \<in> set facts \<Longrightarrow> cf_corrects_event_id event = None \<Longrightarrow> cf_concentration event = Some outcome \<Longrightarrow>
    issuer \<in> set (cn_issuers outcome) \<Longrightarrow> wf_issuer issuer"
  using assms
proof (induction arbitrary: event outcome issuer rule: concentration_ledger.induct)
  case (assessment facts appended scope command portfolio position lineage authorization_history out)
  have "wf_prior (prior_issuers (rs_cutoff_at (po_snapshot position))
      (ch_outcomes (concentration_history facts scope (puc_portfolio_id (cn_authorization command)))))"
    by (rule prior_issuers_wf)
      (auto simp: concentration_history_def Let_def elim!: concentration_lineage_member dest: assessment.IH)
  with assessment show ?case by (auto dest: assess_concentration_wf)
qed auto

lemma concentration_history_wf:
  assumes "concentration_ledger facts"
  shows "wf_prior (prior_issuers cutoff (ch_outcomes (concentration_history facts scope portfolio_id)))"
  by (rule prior_issuers_wf)
    (auto simp: concentration_history_def Let_def elim!: concentration_lineage_member
      dest: concentration_ledger_wf [OF assms])

text \<open>C24: No obligation of a ledger is lost.  Whenever the latest obligation recorded for an issuer is still to be
  reduced, the next assessment for the same owner and portfolio either is blocked, with every issuer closed for new
  exposure and for execution, or states the obligation again under the same identity, start, budget version and
  thresholds: still to be reduced and closed for new exposure, or resolved because the exposure is within the target
  and nothing is left to reduce, or because every security was sold by fills.\<close>

theorem concentration_obligation_in_force:
  assumes "concentration_ledger facts"
    and "map_of (latest_obligations (concentration_lineage facts scope portfolio_id)) i = Some (granted, old)"
    and "ic_reduce old"
    and "assess_concentration command portfolio position (concentration_history facts scope portfolio_id) lineage
      authorization_history = Some out"
  shows "cn_disposition out = CONCENTRATION_BLOCKED \<and>
      (\<forall>issuer \<in> set (cn_issuers out). ic_new_exposure_blocked issuer \<and> ic_execution_blocked issuer) \<or>
    (\<exists>issuer \<in> set (cn_issuers out). same_obligation old issuer \<and>
      (ic_reduce issuer \<and> ic_new_exposure_blocked issuer \<or> restored portfolio position out issuer))"
proof (cases "early_reasons command portfolio position (concentration_history facts scope portfolio_id) lineage
    authorization_history = []")
  case True
  from early_reasons_Nil(1,2) [OF True]
  have "map_of (prior_issuers (rs_cutoff_at (po_snapshot position))
      (ch_outcomes (concentration_history facts scope portfolio_id))) i = Some old"
    by (intro latest_obligation_in_view [OF assms(2,3)])
  from obligation_carried [OF assms(4) concentration_history_wf [OF assms(1)] this assms(3)] show ?thesis ..
qed (use reasons_block [OF assms(4)] in blast)

end
