(* ===== verification/Concentration_Targets.thy ===== *)
theory Concentration_Targets
  imports Concentration_Properties
begin

text \<open>
  The quantities an obligation leaves to hold: they add up to no more than the target value, they never rise while the
  obligation is pending, and the quantities the fills are measured against are lost for the issuers after one
  whose securities are not explained.
\<close>

subsection \<open>Rounding down\<close>

lemma dec_floor_le: "dec_floor p x \<le> x"
proof (cases "x = 0")
  case False
  have "of_int \<lfloor>x / dec_quantum p x\<rfloor> * dec_quantum p x \<le> x / dec_quantum p x * dec_quantum p x"
    by (intro mult_right_mono of_int_floor_le less_imp_le dec_quantum_pos)
  with False show ?thesis by (simp add: dec_floor_def)
qed (simp add: dec_floor_def)

lemma dec_floor_nonneg:
  assumes "0 \<le> x"
  shows "0 \<le> dec_floor p x"
proof -
  have "0 \<le> \<lfloor>x / dec_quantum p x\<rfloor>" using assms by (simp add: divide_nonneg_pos)
  then have "0 \<le> of_int \<lfloor>x / dec_quantum p x\<rfloor> * dec_quantum p x"
    by (intro mult_nonneg_nonneg less_imp_le [OF dec_quantum_pos]) (simp only: of_int_0_le_iff)
  then show ?thesis by (auto simp only: dec_floor_def split: if_split)
qed

definition scaled_cap :: "decimal \<Rightarrow> decimal \<Rightarrow> decimal \<Rightarrow> decimal" where
  "scaled_cap target_value retained_value quantity =
     dec_floor concentration_precision (dec_floor concentration_precision (quantity * target_value) / retained_value)"

lemma scaled_cap_bounds:
  assumes "0 \<le> target_value" "target_value < retained_value" "0 \<le> quantity"
  shows "0 \<le> scaled_cap target_value retained_value quantity"
    and "scaled_cap target_value retained_value quantity \<le> quantity * target_value / retained_value"
    and "scaled_cap target_value retained_value quantity \<le> quantity"
proof -
  show "0 \<le> scaled_cap target_value retained_value quantity"
    using assms by (auto simp: scaled_cap_def intro!: dec_floor_nonneg divide_nonneg_nonneg)
  have "scaled_cap target_value retained_value quantity
      \<le> dec_floor concentration_precision (quantity * target_value) / retained_value"
    unfolding scaled_cap_def by (rule dec_floor_le)
  also have "\<dots> \<le> quantity * target_value / retained_value"
    using assms by (intro divide_right_mono dec_floor_le) auto
  finally show le: "scaled_cap target_value retained_value quantity \<le> quantity * target_value / retained_value" .
  also have "\<dots> = quantity * (target_value / retained_value)" by simp
  also have "\<dots> \<le> quantity"
    using assms by (intro mult_left_le) auto
  finally show "scaled_cap target_value retained_value quantity \<le> quantity" .
qed

subsection \<open>Caps\<close>

definition held :: "(str \<times> decimal) list \<Rightarrow> str \<Rightarrow> decimal" where
  "held quantities code = dict_get quantities code 0"

definition retained_value :: "(str \<times> decimal) list \<Rightarrow> (str \<times> decimal) list \<Rightarrow> (str \<times> decimal) list \<Rightarrow> decimal" where
  "retained_value quantities prices caps =
     csum (map (\<lambda>(code, cap). cmul (min (held quantities code) cap) (held prices code)) caps)"

lemma reduced_caps_cases:
  "reduced_caps quantities prices caps target_value =
     (if target_value < retained_value quantities prices caps
      then map (\<lambda>(code, cap). (code, scaled_cap target_value (retained_value quantities prices caps)
             (min (held quantities code) cap))) caps
      else caps)"
  by (simp add: reduced_caps_def Let_def retained_value_def scaled_cap_def held_def o_def split_def)

lemma reduced_caps_le:
  assumes "(code, cap') \<in> set (reduced_caps quantities prices caps target_value)" and "0 \<le> target_value"
    and "\<And>code. 0 \<le> held quantities code" and "\<And>code cap. (code, cap) \<in> set caps \<Longrightarrow> 0 \<le> cap"
  shows "\<exists>cap. (code, cap) \<in> set caps \<and> 0 \<le> cap' \<and> cap' \<le> cap"
proof (cases "target_value < retained_value quantities prices caps")
  case True
  with assms(1) obtain cap where cap: "(code, cap) \<in> set caps"
    "cap' = scaled_cap target_value (retained_value quantities prices caps) (min (held quantities code) cap)"
    by (auto simp: reduced_caps_cases)
  then have "0 \<le> min (held quantities code) cap" using assms(3,4) by auto
  from scaled_cap_bounds(1,3) [OF assms(2) True this] cap show ?thesis by (auto simp: min_le_iff_disj)
next
  case False
  with assms show ?thesis by (auto simp: reduced_caps_cases)
qed

lemma reduced_caps_keys: "map fst (reduced_caps quantities prices caps target_value) = map fst caps"
  by (auto simp: reduced_caps_cases)

text \<open>What is left after the reductions is worth no more than the target value.\<close>

lemma reduced_caps_fit:
  assumes "0 \<le> target_value" and "\<And>code. 0 \<le> held quantities code" and "\<And>code. 0 \<le> held prices code"
    and "\<And>code cap. (code, cap) \<in> set caps \<Longrightarrow> 0 \<le> cap"
    and exact: "retained_value quantities prices caps =
      (\<Sum>(code, cap) \<leftarrow> caps. min (held quantities code) cap * held prices code)"
  shows "(\<Sum>(code, cap) \<leftarrow> reduced_caps quantities prices caps target_value.
      min (held quantities code) cap * held prices code) \<le> target_value"
proof (cases "target_value < retained_value quantities prices caps")
  case True
  let ?r = "retained_value quantities prices caps"
  let ?q = "\<lambda>(code, cap). min (held quantities code) cap"
  have "(\<Sum>(code, cap) \<leftarrow> reduced_caps quantities prices caps target_value. min (held quantities code) cap * held prices code)
      \<le> (\<Sum>x \<leftarrow> caps. (?q x * held prices (fst x)) * (target_value / ?r))"
    unfolding reduced_caps_cases if_P [OF True] map_map o_def split_def fst_conv snd_conv
  proof (rule sum_list_mono)
    fix x assume "x \<in> set caps"
    then have "0 \<le> snd x" using assms(4) [of "fst x" "snd x"] by simp
    then have "0 \<le> ?q x" using assms(2) by (simp add: split_def)
    from scaled_cap_bounds(2) [OF assms(1) True this]
    have "min (held quantities (fst x)) (scaled_cap target_value ?r (min (held quantities (fst x)) (snd x)))
        \<le> ?q x * target_value / ?r" by (simp add: split_def min_le_iff_disj)
    from mult_right_mono [OF this assms(3) [of "fst x"]]
    show "min (held quantities (fst x)) (scaled_cap target_value ?r (min (held quantities (fst x)) (snd x))) *
        held prices (fst x) \<le> min (held quantities (fst x)) (snd x) * held prices (fst x) * (target_value / ?r)"
      by (simp add: split_def mult_ac)
  qed
  also have "\<dots> = (\<Sum>(code, cap) \<leftarrow> caps. min (held quantities code) cap * held prices code) * (target_value / ?r)"
    unfolding sum_list_mult_const [symmetric] by (simp add: split_def)
  also have "\<dots> = target_value" using True assms(1) by (simp add: exact [symmetric])
  finally show ?thesis .
next
  case False
  then show ?thesis by (simp add: reduced_caps_cases exact)
qed

subsection \<open>The totals of the units\<close>

definition units_nonneg :: "position_action_unit list \<Rightarrow> bool" where
  "units_nonneg units \<longleftrightarrow> (\<forall>u \<in> set units. (\<forall>q. au_total_quantity u = Some q \<longrightarrow> 0 \<le> q) \<and>
     (\<forall>p. au_market_price u = Some p \<longrightarrow> 0 \<le> p))"

lemma held_update [simp]:
  "held (AList.update k v d) code = (if code = k then v else held d code)"
  by (simp add: held_def dict_get_def update_conv)

lemma unit_totals_nonneg:
  assumes "unit_totals quantities prices units = Some (quantities', prices')" and "units_nonneg units"
    and "\<And>code. 0 \<le> held quantities code" and "\<And>code. 0 \<le> held prices code"
  shows "0 \<le> held quantities' code" and "0 \<le> held prices' code"
proof (atomize (full), use assms in \<open>induction units arbitrary: quantities prices\<close>)
  case (Cons u units)
  from Cons.prems(1) obtain quantity price where u: "au_total_quantity u = Some quantity" "au_market_price u = Some price"
    by (auto split: option.splits)
  with Cons.prems(2) have "0 \<le> quantity" "0 \<le> price" by (auto simp: units_nonneg_def)
  with Cons u show ?case
    by (intro Cons.IH [of "AList.update (au_security_id u) (cadd (held quantities (au_security_id u)) quantity) quantities"
          "AList.update (au_security_id u) price prices"])
      (auto simp: units_nonneg_def held_def [symmetric] intro!: dadd_nonneg)
qed simp

lemma retained_caps_nonneg:
  assumes "(code, cap) \<in> set (retained_caps quantities previous)" and "\<And>code. 0 \<le> held quantities code"
    and "distinct (map fst quantities)"
    and "\<And>issuer target. previous = Some issuer \<Longrightarrow> target \<in> set (ic_targets issuer) \<Longrightarrow> 0 \<le> cg_target_quantity target"
  shows "0 \<le> cap"
proof (cases "obligation_pending previous")
  case True
  with assms(1) obtain issuer where "previous = Some issuer"
    "(code, cap) \<in> set (dict_of cg_security_id cg_target_quantity (ic_targets issuer))"
    by (auto simp: retained_caps_def obligation_pending_def split: option.splits)
  then have "map_of (dict_of cg_security_id cg_target_quantity (ic_targets issuer)) code = Some cap"
    by (intro map_of_is_SomeI dict_of_distinct)
  then show ?thesis using assms(4) \<open>previous = Some issuer\<close> by (auto elim!: dict_of_lookupD)
next
  case False
  with assms(1) have "(code, cap) \<in> set quantities"
    by (auto simp: retained_caps_def obligation_pending_def split: option.splits)
  with assms(3) have "map_of quantities code = Some cap" by simp
  with assms(2) [of code] show ?thesis by (simp add: held_def dict_get_def)
qed

lemma unit_totals_distinct:
  "unit_totals quantities prices units = Some (quantities', prices') \<Longrightarrow> distinct (map fst quantities) \<Longrightarrow>
   distinct (map fst quantities')"
  by (induction units arbitrary: quantities prices) (auto simp: distinct_update split: option.splits)

subsection \<open>Targets\<close>

lemma quantity_targetsE:
  assumes "quantity_targets units previous target_value = Some targets"
  obtains quantities prices where "unit_totals [] [] units = Some (quantities, prices)"
    "map (\<lambda>target. (cg_security_id target, cg_target_quantity target)) targets =
       sort_key fst (reduced_caps quantities prices (retained_caps quantities previous) target_value)"
  using assms by (auto simp: quantity_targets_def o_def split_def split: option.splits)

lemma units_totals:
  assumes "unit_totals [] [] units = Some (quantities, prices)" and "units_nonneg units"
  shows "0 \<le> held quantities code" "0 \<le> held prices code" "distinct (map fst quantities)"
  using unit_totals_nonneg [OF assms] unit_totals_distinct [OF assms(1)] by (auto simp: held_def dict_get_def)

text \<open>The quantities that are left after the required reductions are worth no more than the target value, at the
  prices of the snapshot, whenever the valuation of the retained quantities fits the 34 digits of the
  calculation.\<close>

lemma reduction_reaches_target:
  assumes "quantity_targets units previous target_value = Some targets"
    and "unit_totals [] [] units = Some (quantities, prices)" and "units_nonneg units" and "0 \<le> target_value"
    and "\<And>issuer target. previous = Some issuer \<Longrightarrow> target \<in> set (ic_targets issuer) \<Longrightarrow> 0 \<le> cg_target_quantity target"
    and "retained_value quantities prices (retained_caps quantities previous) =
      (\<Sum>(code, cap) \<leftarrow> retained_caps quantities previous. min (held quantities code) cap * held prices code)"
  shows "(\<Sum>target \<leftarrow> targets. min (held quantities (cg_security_id target)) (cg_target_quantity target) *
      held prices (cg_security_id target)) \<le> target_value"
proof -
  note nonneg = units_totals [OF assms(2,3)]
  let ?caps = "reduced_caps quantities prices (retained_caps quantities previous) target_value"
  let ?f = "\<lambda>(code, cap). min (held quantities code) cap * held prices code"
  from assms(1,2) have "map (\<lambda>target. (cg_security_id target, cg_target_quantity target)) targets = sort_key fst ?caps"
    by (auto elim: quantity_targetsE)
  then have "map ?f (map (\<lambda>target. (cg_security_id target, cg_target_quantity target)) targets) = map ?f (sort_key fst ?caps)"
    by simp
  then have "(\<Sum>target \<leftarrow> targets. min (held quantities (cg_security_id target)) (cg_target_quantity target) *
      held prices (cg_security_id target)) = (\<Sum>x \<leftarrow> ?caps. ?f x)"
    by (simp add: o_def sum_list_sort_key)
  also have "\<dots> \<le> target_value"
    using assms(4-6) nonneg retained_caps_nonneg [OF _ nonneg(1,3) assms(5)] by (intro reduced_caps_fit) auto
  finally show ?thesis .
qed

definition targets_within :: "concentration_target list \<Rightarrow> concentration_target list \<Rightarrow> bool" where
  "targets_within old new \<longleftrightarrow>
     cg_security_id ` set new = cg_security_id ` set old \<and>
     (\<forall>target \<in> set new. \<exists>target' \<in> set old. cg_security_id target' = cg_security_id target \<and>
        0 \<le> cg_target_quantity target \<and> cg_target_quantity target \<le> cg_target_quantity target')"

lemma targets_within_update:
  assumes "\<And>target. target \<in> set targets \<Longrightarrow> 0 \<le> cg_target_quantity target"
  shows "targets_within targets (map (\<lambda>target. target\<lparr>cg_required_reduction_quantity := r\<rparr>) targets)"
  using assms unfolding targets_within_def by (auto simp: image_image intro!: bexI)

lemma quantity_targets_within:
  assumes "quantity_targets units (Some issuer) target_value = Some targets" and "obligation_pending (Some issuer)"
    and "units_nonneg units" and "0 \<le> target_value"
    and "\<And>target. target \<in> set (ic_targets issuer) \<Longrightarrow> 0 \<le> cg_target_quantity target"
  shows "targets_within (ic_targets issuer) targets"
proof -
  from assms(1) obtain quantities prices where totals: "unit_totals [] [] units = Some (quantities, prices)"
    and targets: "map (\<lambda>target. (cg_security_id target, cg_target_quantity target)) targets =
       sort_key fst (reduced_caps quantities prices (retained_caps quantities (Some issuer)) target_value)"
    by (rule quantity_targetsE)
  let ?caps = "dict_of cg_security_id cg_target_quantity (ic_targets issuer)"
  have caps: "retained_caps quantities (Some issuer) = ?caps"
    using assms(2) by (simp add: retained_caps_def obligation_pending_def)
  have old: "\<exists>target' \<in> set (ic_targets issuer). cg_security_id target' = code \<and> cg_target_quantity target' = cap"
    if "(code, cap) \<in> set ?caps" for code cap
    using that by (metis dict_of_lookupD map_of_is_SomeI dict_of_distinct)
  have "fst ` set (map (\<lambda>target. (cg_security_id target, cg_target_quantity target)) targets) = fst ` set ?caps"
    unfolding targets caps set_sort by (metis reduced_caps_keys list.set_map)
  then have "cg_security_id ` set targets = cg_security_id ` set (ic_targets issuer)"
    by (simp add: image_image dict_of_keys)
  moreover have "\<exists>target' \<in> set (ic_targets issuer). cg_security_id target' = cg_security_id target \<and>
      0 \<le> cg_target_quantity target \<and> cg_target_quantity target \<le> cg_target_quantity target'"
    if "target \<in> set targets" for target
  proof -
    have "(cg_security_id target, cg_target_quantity target) \<in>
        set (map (\<lambda>target. (cg_security_id target, cg_target_quantity target)) targets)"
      using that by simp
    then have "(cg_security_id target, cg_target_quantity target) \<in> set (reduced_caps quantities prices ?caps target_value)"
      unfolding targets caps by simp
    from reduced_caps_le [OF this assms(4) units_totals(1) [OF totals assms(3)]] old assms(5)
    show ?thesis by metis
  qed
  ultimately show ?thesis by (auto simp: targets_within_def)
qed

text \<open>C26: While an obligation is pending its target quantities never rise and its securities stay the same, whatever
  the equity, the prices and the holdings become, and also where they are unknown.\<close>

theorem concentration_targets_never_increase:
  assumes "assess_concentration command portfolio position history lineage authorization_history = Some out"
    and "wf_prior (prior_issuers (rs_cutoff_at (po_snapshot position)) (ch_outcomes history))"
    and "map_of (prior_issuers (rs_cutoff_at (po_snapshot position)) (ch_outcomes history)) i = Some old" and "ic_reduce old"
    and "issuer \<in> set (cn_issuers out)" and "ic_issuer_id issuer = i"
    and "units_nonneg (rs_action_units (po_snapshot position))"
    and "\<And>target. target \<in> set (ic_targets old) \<Longrightarrow> 0 \<le> cg_target_quantity target"
    and "\<And>b. concentration_budget portfolio = Some b \<Longrightarrow> 0 \<le> tt_target_ratio (rb_concentration b)"
  shows "targets_within (ic_targets old) (ic_targets issuer)"
  using assms(1)
proof (cases rule: assess_concentrationE)
  case (1 issuers prior bases equity reasons)
  note prior = assms(2-3) [folded 1(1)]
  from wf_prior_lookup [OF prior] have old: "ic_issuer_id old = i" "wf_issuer old" by auto
  from assms(5) 1(5) consider "issuer \<in> set issuers"
    | c x where "issuer = missing_entry bases c x" "x \<in> set (missing_issuers prior (po_snapshot position))" by auto
  then show ?thesis
  proof cases
    case 1
    with \<open>list_all2 _ _ _\<close> obtain exposure where
      "assessed_issuer command position (concentration_budget portfolio) equity prior bases exposure = Some issuer"
      by (rule assessed_member)
    then obtain v where
      v: "issuer_verdict_of command (po_snapshot position) (concentration_budget portfolio) equity
            (live_previous prior (ie_issuer_id exposure)) exposure = Some v"
      "issuer = issuer_entry command position (concentration_budget portfolio) equity bases
         (live_previous prior (ie_issuer_id exposure)) exposure v"
      by (rule assessed_issuer_cases)
    then have "ie_issuer_id exposure = i" using assms(6) by (simp add: issuer_entry_def Let_def)
    with prior old assms(4) have live: "live_previous prior (ie_issuer_id exposure) = Some old" "obligation_pending (Some old)"
      by (auto simp: live_previous_def wf_issuer_def obligation_pending_def)
    have targets: "ic_targets issuer = iv_targets v" by (simp add: v(2) issuer_entry_def Let_def)
    from v(1) [unfolded live(1)] show ?thesis
    proof (cases rule: issuer_verdict_cases)
      case (reducing exposed net b targets obligation_id resolved units)
      then have "0 \<le> cmul net (tt_target_ratio (rb_concentration b))"
        using assms(9) concentration_equity_Some(2) \<open>(equity, reasons) = _\<close> by (intro dmul_nonneg) (auto intro: less_imp_le)
      moreover have "units_nonneg units" using assms(7) reducing(4) by (auto simp: units_nonneg_def)
      ultimately have "targets_within (ic_targets old) targets"
        using quantity_targets_within [OF reducing(5) live(2)] assms(8) by blast
      then show ?thesis using reducing(9) targets by simp
    qed (use live(2) targets assms(8) in \<open>auto intro: targets_within_update\<close>)
  next
    case (2 c x)
    with prior assms(6) have "x = old"
      by (metis missing_entry_sel(1) missing_issuers_iff wf_prior_def wf_prior_member map_of_is_SomeI option.inject)
    with 2 show ?thesis using assms(8) targets_within_update by simp
  qed
qed

subsection \<open>The lost quantity basis\<close>

lemma pending_loop_entry:
  assumes "(i, basis) \<in> set (fst (pending_loop command portfolio position authorization_history issuers))"
  obtains issuer where "issuer \<in> set issuers" "ic_issuer_id issuer = i"
    "basis = pending_basis command portfolio position authorization_history issuer"
  using assms
  by (induction issuers) (auto simp: Let_def split: if_splits prod.splits)

lemma pending_loop_break:
  assumes "ic_reduce stopped" and "securities_unexplained position stopped"
  shows "fst (pending_loop command portfolio position authorization_history (before @ stopped # later)) =
    fst (pending_loop command portfolio position authorization_history (before @ [stopped]))"
  by (induction before) (auto simp: Let_def assms split: prod.splits)

lemma pending_loop_empty_basis:
  assumes "issuer \<in> set issuers" and "ic_reduce issuer" and "ic_obligation_quantity_basis issuer = []"
  shows "snd (pending_loop command portfolio position authorization_history issuers) \<noteq> []"
  using assms(1)
proof (induction issuers)
  case (Cons x issuers)
  have "execution_unexplained command position issuer (pending_basis command portfolio position authorization_history issuer)"
    using assms(3) by (simp add: pending_basis_def execution_unexplained_def quantities_explained_by_fills_def)
  with Cons assms(2) show ?case by (auto simp: Let_def split: prod.splits)
qed simp

lemma pending_entry:
  assumes "assess_concentration command portfolio position history lineage authorization_history = Some out"
    and "prior = prior_issuers (rs_cutoff_at (po_snapshot position)) (ch_outcomes history)" and "wf_prior prior"
    and "map_of prior i = Some old" and "ic_reduce old" and "issuer \<in> set (cn_issuers out)" and "ic_issuer_id issuer = i"
  shows "same_obligation old issuer" "ic_reduce issuer \<or> ic_state issuer = ISSUER_RESOLVED"
    "ic_obligation_quantity_basis issuer =
      dict_get (fst (pending_loop command portfolio position authorization_history (map snd prior))) i []"
proof (atomize (full), use assms(1) in \<open>cases rule: assess_concentrationE\<close>)
  case (1 issuers prior' bases equity reasons)
  let ?goal = "same_obligation old issuer \<and> (ic_reduce issuer \<or> ic_state issuer = ISSUER_RESOLVED) \<and>
    ic_obligation_quantity_basis issuer =
      dict_get (fst (pending_loop command portfolio position authorization_history (map snd prior))) i []"
  have same: "prior' = prior" "bases = fst (pending_loop command portfolio position authorization_history (map snd prior))"
    using 1(1,2) assms(2) by simp_all
  have old: "ic_issuer_id old = i" using wf_prior_lookup [OF assms(3,4)] by simp
  show ?goal
  proof (cases "issuer \<in> set issuers")
    case True
    with 1(4) obtain exposure where
      e: "assessed_issuer command position (concentration_budget portfolio) equity prior bases exposure = Some issuer"
      unfolding same(1) by (rule assessed_member)
    then have "ie_issuer_id exposure = i"
      using assms(7) by (auto elim!: assessed_issuer_cases simp: issuer_entry_def Let_def)
    with assessed_pending [OF e assms(3) _ assms(5)] assms(4) old same(2) show ?thesis by simp
  next
    case False
    with assms(6) 1(5) obtain c x where x: "issuer = missing_entry bases c x"
      "x \<in> set (missing_issuers prior (po_snapshot position))" unfolding same(1) by auto
    with assms(3,4,7) have "x = old"
      by (metis missing_entry_sel(1) missing_issuers_iff wf_prior_def wf_prior_member map_of_is_SomeI option.inject)
    with x same(2) old show ?thesis by (auto simp: same_obligation_def)
  qed
qed

lemma pending_loop_stopped:
  assumes "ic_reduce stopped" and "securities_unexplained position stopped"
  shows "snd (pending_loop command portfolio position authorization_history (before @ stopped # later)) \<noteq> []"
  by (induction before) (auto simp: Let_def assms split: prod.splits)

lemma wf_prior_identities:
  assumes "wf_prior prior"
  shows "map ic_issuer_id (map snd prior) = map fst prior"
proof -
  have "ic_issuer_id (snd x) = fst x" if "x \<in> set prior" for x
    using wf_prior_member [OF assms, of "fst x" "snd x"] that by simp
  then show ?thesis by simp
qed

lemma wf_prior_of:
  assumes "wf_prior prior" and "issuer \<in> set (map snd prior)"
  shows "map_of prior (ic_issuer_id issuer) = Some issuer"
proof -
  from assms(2) obtain i where i: "(i, issuer) \<in> set prior" by auto
  moreover have "distinct (map fst prior)" using assms(1) by (simp add: wf_prior_def)
  ultimately show ?thesis using wf_prior_member [OF assms(1) i] by simp
qed

text \<open>An entry of a blocked assessment for a pending issuer is still to be reduced.\<close>

lemma blocked_entry_reduces:
  assumes "assess_concentration command portfolio position history lineage authorization_history = Some out"
    and "prior = prior_issuers (rs_cutoff_at (po_snapshot position)) (ch_outcomes history)" and "wf_prior prior"
    and "map_of prior i = Some old" and "ic_reduce old" and "issuer \<in> set (cn_issuers out)" and "ic_issuer_id issuer = i"
    and "snd (pending_loop command portfolio position authorization_history (map snd prior)) \<noteq> []"
  shows "ic_reduce issuer" and "cn_disposition out = CONCENTRATION_BLOCKED"
proof -
  have "early_reasons command portfolio position history lineage authorization_history \<noteq> []"
    using early_reasons_Nil(7) assms(2,8) by blast
  note blocked = reasons_block [OF assms(1) this]
  then have "ic_state issuer \<noteq> ISSUER_RESOLVED"
    using assess_concentration_wf [OF assms(1) assms(3) [unfolded assms(2)] assms(6)] assms(6) by (auto simp: wf_issuer_def)
  then show "ic_reduce issuer" using pending_entry(2) [OF assms(1-7)] by blast
  show "cn_disposition out = CONCENTRATION_BLOCKED" using blocked ..
qed

lemma empty_basis_stays:
  assumes "wf_prior prior" and "map_of prior i = Some issuer" and "ic_obligation_quantity_basis issuer = []"
  shows "dict_get (fst (pending_loop command portfolio position authorization_history (map snd prior))) i [] = []"
proof (cases "map_of (fst (pending_loop command portfolio position authorization_history (map snd prior))) i")
  case (Some basis)
  from map_of_SomeD [OF this] obtain x where x: "x \<in> set (map snd prior)" "ic_issuer_id x = i"
    "basis = pending_basis command portfolio position authorization_history x" by (rule pending_loop_entry)
  with wf_prior_of [OF assms(1) x(1)] assms(2,3) show ?thesis using Some by (simp add: dict_get_def pending_basis_def)
qed (simp add: dict_get_def)

lemma basis_after_break:
  assumes "wf_prior prior" and "map snd prior = before @ stopped # after" and "ic_reduce stopped"
    and "securities_unexplained position stopped" and "old \<in> set after"
  shows "dict_get (fst (pending_loop command portfolio position authorization_history (map snd prior))) (ic_issuer_id old) [] = []"
proof -
  have "distinct (map ic_issuer_id (before @ stopped # after))"
    using assms(1,2) wf_prior_identities [OF assms(1)] by (simp add: wf_prior_def)
  with assms(5) have "ic_issuer_id old \<notin> ic_issuer_id ` set (before @ [stopped])" by (auto simp: image_iff)
  then have "(ic_issuer_id old, basis) \<notin> set (fst (pending_loop command portfolio position authorization_history (map snd prior)))"
    for basis
    unfolding assms(2) pending_loop_break [OF assms(3,4), of _ _ _ before after]
    by (metis imageI pending_loop_entry)
  then show ?thesis by (auto simp: dict_get_def split: option.split dest: map_of_SomeD)
qed

text \<open>C27: Where the securities of one pending issuer are not explained, the loop over the retained issuers stops, and
  every pending issuer after it loses the quantities its obligation started from.  From then on every assessment that
  starts from such an entry is blocked, and states the obligation again without them.\<close>

theorem lost_basis_blocks_forever:
  assumes "assess_concentration command portfolio position history lineage authorization_history = Some out"
    and "prior = prior_issuers (rs_cutoff_at (po_snapshot position)) (ch_outcomes history)" and "wf_prior prior"
    and "map snd prior = before @ stopped # after" and "ic_reduce stopped" and "securities_unexplained position stopped"
    and "old \<in> set after" and "ic_reduce old"
    and "issuer \<in> set (cn_issuers out)" and "ic_issuer_id issuer = ic_issuer_id old"
    and "assess_concentration command' portfolio' position' history' lineage' authorization_history' = Some out'"
    and "prior' = prior_issuers (rs_cutoff_at (po_snapshot position')) (ch_outcomes history')" and "wf_prior prior'"
    and "map_of prior' (ic_issuer_id old) = Some issuer"
  shows "ic_obligation_quantity_basis issuer = [] \<and> ic_reduce issuer \<and> cn_disposition out' = CONCENTRATION_BLOCKED \<and>
    (\<forall>next_issuer \<in> set (cn_issuers out'). ic_issuer_id next_issuer = ic_issuer_id issuer \<longrightarrow>
       same_obligation issuer next_issuer \<and> ic_obligation_quantity_basis next_issuer = [] \<and> ic_reduce next_issuer)"
proof -
  have old: "map_of prior (ic_issuer_id old) = Some old"
    using assms(4,7) by (intro wf_prior_of [OF assms(3)]) simp
  have stopped: "snd (pending_loop command portfolio position authorization_history (map snd prior)) \<noteq> []"
    unfolding assms(4) by (rule pending_loop_stopped [OF assms(5,6)])
  have basis: "ic_obligation_quantity_basis issuer = []"
    using pending_entry(3) [OF assms(1-3) old assms(8-10)] basis_after_break [OF assms(3-7)] by simp
  have reduce: "ic_reduce issuer"
    using blocked_entry_reduces(1) [OF assms(1-3) old assms(8-10) stopped] .
  have member: "issuer \<in> set (map snd prior')" using map_of_SomeD [OF assms(14)] by force
  note empty = pending_loop_empty_basis [OF member reduce basis]
  have "early_reasons command' portfolio' position' history' lineage' authorization_history' \<noteq> []"
    using early_reasons_Nil(7) assms(12) empty by blast
  note blocked = reasons_block [OF assms(11) this, THEN conjunct1]
  show ?thesis
    using basis reduce blocked pending_entry(1,3) [OF assms(11-14) reduce] blocked_entry_reduces(1) [OF assms(11-14) reduce _ _ empty]
      empty_basis_stays [OF assms(13,14) basis] assms(10) by auto
qed

end
