(* ===== verification/Concentration_Examples.thy ===== *)
theory Concentration_Examples
  imports Concentration_Targets
begin

text \<open>
  Concrete concentration assessments: an issuer within its target, an obligation that is opened and then carried while
  shares are sold, and an issuer whose quantity basis is lost.  They instantiate the theorems of
  \<open>Concentration_Properties\<close> and \<open>Concentration_Targets\<close>.
\<close>

definition cn_unit :: "str \<Rightarrow> str \<Rightarrow> decimal \<Rightarrow> position_action_unit" where
  "cn_unit issuer_id security_id quantity = (action_unit demo_account demo_position [])
     \<lparr>au_issuer_id := issuer_id, au_security_id := security_id, au_total_quantity := Some quantity,
      au_exact_statistical_action_quantity := Some quantity\<rparr>"

definition cn_position :: "datetime \<Rightarrow> decimal \<Rightarrow> position_action_unit list \<Rightarrow> authoritative_ledger_entry list \<Rightarrow>
    position_reconciliation_outcome" where
  "cn_position cutoff equity units ledger =
     \<lparr>po_disposition = RECONCILED, po_reasons = [''AUTHORITATIVE_POSITION_FACTS_RECONCILED''],
      po_snapshot = \<lparr>rs_snapshot_id = ''PS'', rs_cutoff_at = cutoff, rs_valuation_currency = ''USD'',
        rs_snapshot_source = Some ''broker'', rs_evidence_clock = evidence_clock demo_evidence,
        rs_snapshot_evidence = demo_evidence, rs_total_account_equity = Some equity, rs_action_units = units,
        rs_issuer_exposures = map (\<lambda>u. \<lparr>ie_issuer_id = au_issuer_id u, ie_valuation_currency = ''USD'', ie_account_ids = [''A''],
          ie_current_market_exposure = Some (the (au_total_quantity u) * 20)\<rparr>) units,
        rs_cash_states = [], rs_unfinished_orders = [],
        rs_execution_restrictions = [], rs_authoritative_ledger = ledger, rs_user_annotations = []\<rparr>,
      po_conflicts = []\<rparr>"

definition cn_demo :: concentration_command where
  "cn_demo =
     \<lparr>cn_authorization = \<lparr>puc_portfolio_id = ''PF'', puc_authorization_id = ''AU1'',
        puc_requested_action = DETERMINISTIC_PROTECTION\<rparr>,
      cn_position_snapshot = demo_command,
      cn_liquidation_costs = [\<lparr>al_account_id = ''A'', al_amount = Some 0, al_evidence = demo_evidence\<rparr>]\<rparr>"

definition no_history :: concentration_history where
  "no_history = \<lparr>ch_outcomes = [], ch_uncovered_obligation = False\<rparr>"

lemma units_nonneg_code [simp]: "units_nonneg []" "units_nonneg (u # us) \<longleftrightarrow> pred_option ((\<le>) 0) (au_total_quantity u) \<and>
    pred_option ((\<le>) 0) (au_market_price u) \<and> units_nonneg us"
  by (auto simp: units_nonneg_def option.pred_set)

lemma cn_unit_fields [simp]:
  "au_issuer_id (cn_unit i s q) = i" "au_security_id (cn_unit i s q) = s" "au_total_quantity (cn_unit i s q) = Some q"
  "au_market_price (cn_unit i s q) = Some 20" "unit_priced (cn_unit i s q)"
  by (simp_all add: cn_unit_def action_unit_def unit_priced_def demo_position_def)

definition yesterday :: datetime where
  "yesterday = plus_days demo_time (- 1)"

text \<open>A pending obligation for an issuer: at most two shares are to be left.\<close>

definition cn_pending :: "str \<Rightarrow> str \<Rightarrow> issuer_concentration" where
  "cn_pending issuer_id security_id =
     \<lparr>ic_issuer_id = issuer_id, ic_current_market_exposure = Some 100, ic_position_weight = Some (1 / 2),
      ic_state = ISSUER_REMEDIATION_REQUIRED, ic_new_exposure_blocked = True, ic_reduce = True,
      ic_obligation_id = Some issuer_id, ic_obligation_started_at = Some yesterday,
      ic_obligation_risk_budget_version_id = Some ''B1'',
      ic_obligation_thresholds = Some \<lparr>tt_target_ratio = 1 / 5, tt_hard_ratio = 2 / 5\<rparr>,
      ic_obligation_quantity_basis = [\<lparr>qb_account_id = ''A'', qb_security_id = security_id, qb_quantity = 5, qb_cutoff_at = yesterday\<rparr>],
      ic_targets = [\<lparr>cg_security_id = security_id, cg_target_quantity = 2, cg_required_reduction_quantity = Some 3\<rparr>],
      ic_exposure_gap = Some 60, ic_execution_blocked = False\<rparr>"

definition cn_outcome :: "datetime \<Rightarrow> issuer_concentration list \<Rightarrow> concentration_outcome" where
  "cn_outcome cutoff issuers =
     \<lparr>cn_disposition = CONCENTRATION_ASSESSED, cn_reasons = [''CONCENTRATION_ASSESSED''], cn_portfolio_id = ''PF'',
      cn_snapshot_id = ''PS'', cn_cutoff_at = cutoff, cn_valuation_currency = ''USD'',
      cn_portfolio_net_liquidation_equity = Some 200, cn_risk_budget_version_id = Some ''B1'',
      cn_thresholds = Some \<lparr>tt_target_ratio = 1 / 5, tt_hard_ratio = 2 / 5\<rparr>, cn_issuers = issuers\<rparr>"

subsection \<open>Within the target\<close>

definition cn_normal :: issuer_concentration where
  "cn_normal =
     \<lparr>ic_issuer_id = ''I'', ic_current_market_exposure = Some 100, ic_position_weight = Some (1 / 10),
      ic_state = ISSUER_NORMAL, ic_new_exposure_blocked = False, ic_reduce = False, ic_obligation_id = None,
      ic_obligation_started_at = None, ic_obligation_risk_budget_version_id = None, ic_obligation_thresholds = None,
      ic_obligation_quantity_basis = [], ic_targets = [], ic_exposure_gap = Some 0, ic_execution_blocked = False\<rparr>"

definition cn_small :: position_reconciliation_outcome where
  "cn_small = cn_position demo_time 1000 [cn_unit ''I'' ''S'' 5] []"

lemma cn_small_run:
  "assess_concentration cn_demo demo_usage cn_small no_history [] [] =
     Some (cn_outcome demo_time [cn_normal]\<lparr>cn_portfolio_net_liquidation_equity := Some 1000\<rparr>)"
  by code_simp

theorem concentration_fails_closed_witness:
  "usage_in_scope cn_demo demo_usage \<and> \<not> price_conflict (rs_action_units (po_snapshot cn_small)) \<and>
     \<not> costs_unresolved cn_demo (rs_cutoff_at (po_snapshot cn_small)) \<and>
     (\<exists>b. concentration_budget demo_usage = Some b \<and> 100 \<le> cmul 1000 (tt_target_ratio (rb_concentration b)))"
proof -
  have "cn_normal \<in> set (cn_issuers (cn_outcome demo_time [cn_normal]\<lparr>cn_portfolio_net_liquidation_equity := Some 1000\<rparr>))"
    and "\<not> ic_new_exposure_blocked cn_normal" and "out_reasons demo_usage \<noteq> []"
    by (simp_all add: cn_outcome_def cn_normal_def demo_usage_def)
  from concentration_fails_closed [OF cn_small_run this] show ?thesis
    by (auto simp: cn_normal_def cn_small_def cn_position_def cn_outcome_def)
qed

subsection \<open>Targets\<close>

definition cn_units :: "position_action_unit list" where
  "cn_units = [cn_unit ''I'' ''S'' 5, cn_unit ''I'' ''T'' 3, cn_unit ''I'' ''S'' 2]"

definition cn_quantities :: "(str \<times> decimal) list" where
  "cn_quantities = [(''S'', 7), (''T'', 3)]"

definition cn_prices :: "(str \<times> decimal) list" where
  "cn_prices = [(''S'', 20), (''T'', 20)]"

lemma cn_units_totals: "unit_totals [] [] cn_units = Some (cn_quantities, cn_prices)"
  by code_simp

lemma cn_retained: "retained_value cn_quantities cn_prices cn_quantities = 200"
  by code_simp

lemma cn_scaled: "scaled_cap 50 200 7 = 7 / 4" "scaled_cap 50 200 3 = 3 / 4"
  by code_simp+

lemma cn_units_targets:
  "quantity_targets cn_units None 50 = Some
     [\<lparr>cg_security_id = ''S'', cg_target_quantity = 7 / 4, cg_required_reduction_quantity = Some (21 / 4)\<rparr>,
      \<lparr>cg_security_id = ''T'', cg_target_quantity = 3 / 4, cg_required_reduction_quantity = Some (9 / 4)\<rparr>]"
proof -
  have "reduced_caps cn_quantities cn_prices (retained_caps cn_quantities None) 50 = [(''S'', 7 / 4), (''T'', 3 / 4)]"
    by (simp add: reduced_caps_cases retained_caps_def cn_retained cn_scaled held_def dict_get_def, simp add: cn_quantities_def cn_scaled)
  moreover have "csub 7 (7 / 4) = 21 / 4" "csub 3 (3 / 4) = 9 / 4" by code_simp+
  moreover have "sort_key fst [(''S'', 7 / 4 :: rat), (''T'', 3 / 4)] = [(''S'', 7 / 4), (''T'', 3 / 4)]" by code_simp
  ultimately show ?thesis
    by (simp add: quantity_targets_def cn_units_totals dict_get_def, simp add: cn_quantities_def)
qed

theorem reduction_reaches_target_witness:
  "(7 / 4) * 20 + (3 / 4) * 20 \<le> (50 :: decimal) \<and>
   (\<Sum>target \<leftarrow> the (quantity_targets cn_units None 50).
      min (held cn_quantities (cg_security_id target)) (cg_target_quantity target) *
      held cn_prices (cg_security_id target)) \<le> 50"
proof -
  have "units_nonneg cn_units" by (simp add: cn_units_def)
  moreover have "retained_value cn_quantities cn_prices (retained_caps cn_quantities None) =
      (\<Sum>(code, cap) \<leftarrow> retained_caps cn_quantities None. min (held cn_quantities code) cap * held cn_prices code)"
    by code_simp
  ultimately show ?thesis
    using reduction_reaches_target [OF cn_units_targets cn_units_totals] by (simp add: cn_units_targets)
qed

subsection \<open>A pending obligation\<close>

text \<open>Two of five shares were sold today, and the equity has fallen to one hundred and fifty.\<close>

definition cn_fill :: authoritative_ledger_entry where
  "cn_fill = authoritative_entry ''A'' (demo_entry\<lparr>le_entry_id := ''L2'', le_quantity_delta := - 2, le_cash_delta := 40\<rparr>)"

definition cn_sold :: position_reconciliation_outcome where
  "cn_sold = cn_position demo_time 150 [cn_unit ''I'' ''S'' 3] [cn_fill]"

lemma cn_sold_priced: "list_all unit_priced (rs_action_units (po_snapshot cn_sold))"
  by (simp add: cn_sold_def cn_position_def)

definition cn_history :: "issuer_concentration list \<Rightarrow> concentration_history" where
  "cn_history issuers = \<lparr>ch_outcomes = [cn_outcome yesterday issuers], ch_uncovered_obligation = False\<rparr>"

lemma cn_position_fields [simp]:
  "rs_cutoff_at (po_snapshot (cn_position c e us l)) = c"
  "rs_action_units (po_snapshot (cn_position c e us l)) = us"
  by (simp_all add: cn_position_def)

lemma yesterday_before: "\<not> instant demo_time < instant yesterday" "instant yesterday < instant demo_time"
  by (code_simp)+

lemma wf_pending: "wf_issuer (cn_pending i s)" "ic_issuer_id (cn_pending i s) = i" "ic_reduce (cn_pending i s)"
  by (simp_all add: cn_pending_def wf_issuer_def)

lemma cn_prior: "prior_issuers demo_time (ch_outcomes (cn_history [cn_pending i s])) = [(i, cn_pending i s)]"
  by (simp add: prior_issuers_def cn_history_def cn_outcome_def yesterday_before retain_issuer_def wf_pending)

lemma wf_cn_prior: "wf_prior [(i, cn_pending i s)]"
  by (simp add: wf_prior_def wf_pending)

theorem concentration_targets_never_increase_witness:
  "\<exists>out. \<exists>issuer \<in> set (cn_issuers out).
     assess_concentration cn_demo demo_usage cn_sold (cn_history [cn_pending ''I'' ''S'']) [] [] = Some out \<and>
     targets_within [\<lparr>cg_security_id = ''S'', cg_target_quantity = 2, cg_required_reduction_quantity = Some 3\<rparr>]
       (ic_targets issuer)"
proof -
  obtain out where out: "assess_concentration cn_demo demo_usage cn_sold (cn_history [cn_pending ''I'' ''S'']) [] [] = Some out"
    by (rule assess_concentration_defined [OF cn_sold_priced])
  have wf: "wf_prior (prior_issuers (rs_cutoff_at (po_snapshot cn_sold)) (ch_outcomes (cn_history [cn_pending ''I'' ''S''])))"
    and old: "map_of (prior_issuers (rs_cutoff_at (po_snapshot cn_sold)) (ch_outcomes (cn_history [cn_pending ''I'' ''S''])))
      ''I'' = Some (cn_pending ''I'' ''S'')"
    by (simp_all add: cn_sold_def cn_prior wf_cn_prior)
  from obligation_carried [OF out wf old wf_pending(3)] obtain issuer where
    issuer: "issuer \<in> set (cn_issuers out)" "ic_issuer_id issuer = ''I''"
    by (auto simp: same_obligation_def wf_pending)
  have "targets_within (ic_targets (cn_pending ''I'' ''S'')) (ic_targets issuer)"
  proof (rule concentration_targets_never_increase [OF out wf old wf_pending(3) issuer])
    show "units_nonneg (rs_action_units (po_snapshot cn_sold))" by (simp add: cn_sold_def)
  qed (auto simp: cn_pending_def concentration_budget_def demo_portfolio_defs)
  with out issuer(1) show ?thesis by (auto simp: cn_pending_def)
qed

subsection \<open>A ledger with an obligation\<close>

definition cn_large :: position_reconciliation_outcome where
  "cn_large = cn_position demo_time 150 [cn_unit ''I'' ''S'' 5] []"

lemma cn_large_priced: "list_all unit_priced (rs_action_units (po_snapshot cn_large))"
  by (simp add: cn_large_def cn_position_def)

lemma cn_large_equity:
  "concentration_equity cn_demo (po_snapshot cn_large) (early_reasons cn_demo demo_usage cn_large no_history [] []) = (Some 150, [])"
  by code_simp

lemma cn_large_thresholds: "\<not> 100 \<le> cmul 150 (1 / 5)" "\<not> 100 \<le> cmul 150 (2 / 5)"
  by code_simp+

lemma cn_opened:
  obtains out issuer where "assess_concentration cn_demo demo_usage cn_large no_history [] [] = Some out"
    "cn_issuers out = [issuer]" "ic_reduce issuer" "ic_issuer_id issuer = ''I''" "cn_reasons out = [''CONCENTRATION_ASSESSED'']"
    "cn_portfolio_id out = ''PF''" "cn_cutoff_at out = demo_time" "ic_obligation_id issuer \<noteq> None"
proof -
  obtain out where out: "assess_concentration cn_demo demo_usage cn_large no_history [] [] = Some out"
    by (rule assess_concentration_defined [OF cn_large_priced])
  then show thesis
  proof (cases rule: assess_concentrationE)
    case (1 issuers prior bases equity reasons)
    have prior: "prior = []" using 1(1) by (simp add: no_history_def prior_issuers_def)
    have equity: "equity = Some 150" "reasons = []" using 1(3) by (simp_all add: cn_large_equity)
    obtain exposure where exposure: "rs_issuer_exposures (po_snapshot cn_large) = [exposure]"
      "ie_issuer_id exposure = ''I''" "ie_current_market_exposure exposure = Some 100"
      by (simp add: cn_large_def cn_position_def)
    from 1(4) obtain issuer where issuer: "issuers = [issuer]"
      "assessed_issuer cn_demo cn_large (concentration_budget demo_usage) equity prior bases exposure = Some issuer"
      by (auto simp: exposure list_all2_Cons1)
    have budget: "concentration_budget demo_usage = Some demo_budget"
      by (simp add: concentration_budget_def demo_usage_def demo_authorization_def demo_proposal_def)
    from issuer(2) obtain v where
      v: "issuer_verdict_of cn_demo (po_snapshot cn_large) (Some demo_budget) (Some 150) None exposure = Some v"
      "issuer = issuer_entry cn_demo cn_large (Some demo_budget) (Some 150) bases None exposure v"
      by (elim assessed_issuer_cases) (auto simp: prior live_previous_def equity budget)
    from v(1) have "iv_reduce v \<and> iv_obligation_id v \<noteq> None"
      using cn_large_thresholds
      by (cases rule: issuer_verdict_cases) (auto simp: exposure obligation_pending_def demo_budget_def)
    moreover have "cn_disposition out = CONCENTRATION_ASSESSED"
      using 1(7) equity by (simp add: cn_large_def cn_position_def)
    ultimately show thesis
      using that [OF out] 1(5) issuer(1) v(2) assess_concentration_sel [OF out]
      by (simp add: missing_issuers_def prior exposure issuer_entry_def Let_def cn_demo_def) (simp add: cn_large_def)
  qed
qed

definition cn_scope :: result_access_scope where
  "cn_scope = \<lparr>ras_user_id = ''U'', ras_visibility = ''PRIVATE'', ras_account_ids = [''A'']\<rparr>"

theorem concentration_obligation_in_force_witness:
  "\<exists>facts old out. concentration_ledger facts \<and> ic_reduce old \<and> ic_issuer_id old = ''I'' \<and>
     assess_concentration cn_demo demo_usage cn_sold (concentration_history facts cn_scope ''PF'') [] [] = Some out \<and>
     (cn_disposition out = CONCENTRATION_BLOCKED \<and>
        (\<forall>issuer \<in> set (cn_issuers out). ic_new_exposure_blocked issuer \<and> ic_execution_blocked issuer) \<or>
      (\<exists>issuer \<in> set (cn_issuers out). same_obligation old issuer \<and>
        (ic_reduce issuer \<and> ic_new_exposure_blocked issuer \<or> restored demo_usage cn_sold out issuer)))"
proof -
  obtain first old where first: "assess_concentration cn_demo demo_usage cn_large no_history [] [] = Some first"
    "cn_issuers first = [old]" "ic_reduce old" "ic_issuer_id old = ''I''" "cn_reasons first = [''CONCENTRATION_ASSESSED'']"
    "cn_portfolio_id first = ''PF''" "cn_cutoff_at first = demo_time" "ic_obligation_id old \<noteq> None"
    by (rule cn_opened)
  define event where "event = \<lparr>cf_corrects_event_id = None, cf_access_scope = Some cn_scope, cf_concentration = Some first\<rparr>"
  have "concentration_history [] cn_scope (puc_portfolio_id (cn_authorization cn_demo)) = no_history"
    by (simp add: concentration_history_def concentration_lineage_def latest_obligations_def dict_of_def no_history_def)
  then have reachable: "concentration_ledger [event]"
    using concentration_ledger.assessment [OF concentration_ledger.no_event, of event cn_scope cn_demo] first(1)
    by (simp add: event_def)
  have "scoped_concentration cn_scope ''PF'' event = Some (cn_scope, first)"
    using first(5,6) by (simp add: scoped_concentration_def event_def)
  then have "concentration_lineage [event] cn_scope ''PF'' = [(cn_scope, first)]"
    by (simp add: concentration_lineage_def map_filter_simps) (simp add: event_def)
  then have latest: "map_of (latest_obligations (concentration_lineage [event] cn_scope ''PF'')) ''I'' = Some (cn_scope, old)"
    using first by (simp add: latest_obligations_def dict_of_def)
  obtain out where out: "assess_concentration cn_demo demo_usage cn_sold (concentration_history [event] cn_scope ''PF'') [] [] = Some out"
    by (rule assess_concentration_defined [OF cn_sold_priced])
  from concentration_obligation_in_force [OF reachable latest first(3) out] reachable first(3,4) out show ?thesis by blast
qed

subsection \<open>A lost quantity basis\<close>

text \<open>The first issuer holds a security it has no target for; the second is held as it was.\<close>

definition cn_swapped :: position_reconciliation_outcome where
  "cn_swapped = cn_position demo_time 200 [cn_unit ''I'' ''X'' 5, cn_unit ''J'' ''T'' 5] []"

lemma cn_swapped_priced: "list_all unit_priced (rs_action_units (po_snapshot cn_swapped))"
  by (simp add: cn_swapped_def cn_position_def)

lemma cn_swapped_unexplained: "securities_unexplained cn_swapped (cn_pending ''I'' ''S'')"
  by (simp add: securities_unexplained_def cn_swapped_def cn_pending_def)

definition cn_two :: "issuer_concentration list" where
  "cn_two = [cn_pending ''I'' ''S'', cn_pending ''J'' ''T'']"

definition cn_forgotten :: issuer_concentration where
  "cn_forgotten = (cn_pending ''J'' ''T'')
     \<lparr>ic_position_weight := None, ic_obligation_quantity_basis := [],
      ic_targets := [\<lparr>cg_security_id = ''T'', cg_target_quantity = 2, cg_required_reduction_quantity = None\<rparr>],
      ic_exposure_gap := None, ic_execution_blocked := True\<rparr>"

lemma cn_swapped_issuers:
  "map ic_issuer_id (cn_issuers (the (assess_concentration cn_demo demo_usage cn_swapped (cn_history cn_two) [] []))) = [''I'', ''J'']"
  "cn_issuers (the (assess_concentration cn_demo demo_usage cn_swapped (cn_history cn_two) [] [])) ! 1 = cn_forgotten"
  by code_simp+

definition tomorrow :: datetime where
  "tomorrow = plus_days demo_time 1"

lemma tomorrow_after: "\<not> instant tomorrow < instant demo_time"
  by code_simp

definition cn_later :: position_reconciliation_outcome where
  "cn_later = cn_position tomorrow 200 [cn_unit ''J'' ''T'' 5] []"

lemma cn_later_priced: "list_all unit_priced (rs_action_units (po_snapshot cn_later))"
  by (simp add: cn_later_def cn_position_def)

theorem lost_basis_blocks_forever_witness:
  "\<exists>out out'. assess_concentration cn_demo demo_usage cn_swapped (cn_history cn_two) [] [] = Some out \<and>
     cn_forgotten \<in> set (cn_issuers out) \<and>
     assess_concentration cn_demo demo_usage cn_later \<lparr>ch_outcomes = [out], ch_uncovered_obligation = False\<rparr> [] [] = Some out' \<and>
     cn_disposition out' = CONCENTRATION_BLOCKED \<and>
     (\<forall>issuer \<in> set (cn_issuers out'). ic_issuer_id issuer = ''J'' \<longrightarrow> ic_obligation_quantity_basis issuer = [] \<and> ic_reduce issuer)"
proof -
  obtain out where out: "assess_concentration cn_demo demo_usage cn_swapped (cn_history cn_two) [] [] = Some out"
    by (rule assess_concentration_defined [OF cn_swapped_priced])
  define prior where "prior = prior_issuers (rs_cutoff_at (po_snapshot cn_swapped)) (ch_outcomes (cn_history cn_two))"
  have prior: "prior = [(''I'', cn_pending ''I'' ''S''), (''J'', cn_pending ''J'' ''T'')]"
    by (simp add: prior_def prior_issuers_def cn_history_def cn_outcome_def yesterday_before retain_issuer_def wf_pending
        cn_swapped_def cn_two_def)
  have wf: "wf_prior prior" by (simp add: prior wf_prior_def wf_pending)
  obtain x where issuers: "cn_issuers out = [x, cn_forgotten]" and x: "ic_issuer_id x = ''I''"
    using cn_swapped_issuers by (auto simp: out map_eq_Cons_conv)
  have J: "ic_issuer_id cn_forgotten = ic_issuer_id (cn_pending ''J'' ''T'')" "ic_issuer_id cn_forgotten = ''J''"
    by (simp_all add: cn_forgotten_def cn_pending_def)
  define history' where "history' = \<lparr>ch_outcomes = [out], ch_uncovered_obligation = False\<rparr>"
  obtain out' where out': "assess_concentration cn_demo demo_usage cn_later history' [] [] = Some out'"
    by (rule assess_concentration_defined [OF cn_later_priced])
  define prior' where "prior' = prior_issuers (rs_cutoff_at (po_snapshot cn_later)) (ch_outcomes history')"
  have cutoff: "cn_cutoff_at out = demo_time"
    using assess_concentration_sel(2) [OF out] by (simp add: cn_swapped_def)
  have "prior' = [(''I'', x), (''J'', cn_forgotten)]"
    by (simp add: prior'_def prior_issuers_def history'_def cutoff cn_later_def tomorrow_after issuers retain_issuer_def x J(2))
  then have lookup: "map_of prior' (ic_issuer_id (cn_pending ''J'' ''T'')) = Some cn_forgotten" by (simp add: wf_pending)
  have wf': "wf_prior prior'"
    unfolding prior'_def history'_def
    by (rule prior_issuers_wf) (auto dest: assess_concentration_wf [OF out wf [unfolded prior_def]])
  have before: "map snd prior = [] @ cn_pending ''I'' ''S'' # [cn_pending ''J'' ''T'']" by (simp add: prior)
  from lost_basis_blocks_forever [OF out prior_def wf before wf_pending(3) cn_swapped_unexplained _ wf_pending(3) _ J(1) out'
      prior'_def wf' lookup]
  show ?thesis using out out' issuers J(2) by (auto simp: history'_def)
qed

end
