(* ===== verification/Position_History.thy ===== *)
theory Position_History
  imports Position_Contracts
begin

text \<open>
  \<open>position_management/history.py\<close>: the ledger entries and the opening cash that were first observed by a frozen
  cutoff.  An account snapshot computes for each entry from when on it is visible, along the chain of the entries it
  corrects, with a memo; the resolvers keep the canonical entries of every cutoff asked for in a cache that each accepted
  snapshot extends.  The closure \<open>visible_after\<close> passes its memo on, and a resolver is a record that every
  operation returns; a dictionary keyed by datetimes is keyed by their instants.
\<close>

subsection \<open>One account snapshot\<close>

type_synonym visibility_memo = "(str \<times> datetime option) list"
type_synonym entry_dict = "(str \<times> authoritative_ledger_entry) list"

record ledger_snapshot =
  ls_account_id :: str
  ls_entries :: "authoritative_ledger_entry list"
  ls_entries_by_id :: "(str \<times> authoritative_ledger_entry list) list"
  ls_visible_after :: visibility_memo

definition index_entries :: "authoritative_ledger_entry list \<Rightarrow> (str \<times> authoritative_ledger_entry list) list" where
  "index_entries entries =
     map (\<lambda>entry_id. (entry_id, filter (\<lambda>e. le_entry_id e = entry_id) entries)) (dict_fromkeys (map le_entry_id entries))"

definition unique_entries :: "(str \<times> authoritative_ledger_entry list) list \<Rightarrow> entry_dict" where
  "unique_entries indexed = List.map_filter (\<lambda>(entry_id, es). case es of [e] \<Rightarrow> Some (entry_id, e) | _ \<Rightarrow> None) indexed"

text \<open>From when on the entry is visible by itself.\<close>

definition own_visible_after :: "authoritative_ledger_entry \<Rightarrow> datetime option" where
  "own_visible_after entry =
     (case ev_cutoff_at (le_evidence entry) of
        None \<Rightarrow> None
      | Some cutoff \<Rightarrow>
          let visible = dt_max (le_occurred_at entry) cutoff
          in if \<not> ledger_entry_evidence_is_visible entry visible \<or>
                (le_security_id entry = None \<and> (le_entry_type entry \<in> {FILL, CORPORATE_ACTION} \<or>
                   le_quantity_delta entry \<noteq> 0 \<or> le_cost_basis_delta entry \<noteq> 0))
             then None else Some visible)"

definition correction_target :: "entry_dict \<Rightarrow> authoritative_ledger_entry \<Rightarrow> str \<Rightarrow> bool" where
  "correction_target unique entry target_id \<longleftrightarrow>
     (case map_of unique target_id of
        None \<Rightarrow> False
      | Some target \<Rightarrow> target_id \<noteq> le_entry_id entry \<and>
          (case ev_source_observed_at (le_evidence entry) of
             None \<Rightarrow> False | Some observed \<Rightarrow> \<not> observed < le_occurred_at target))"

function visible_after ::
    "entry_dict \<Rightarrow> str \<Rightarrow> str set \<Rightarrow> visibility_memo \<Rightarrow> datetime option \<times> visibility_memo" where
  "visible_after unique entry_id lineage memo =
     (case map_of memo entry_id of
        Some known \<Rightarrow> (known, memo)
      | None \<Rightarrow>
          if entry_id \<in> lineage then (None, memo)
          else (case map_of unique entry_id of
             None \<Rightarrow> (None, AList.update entry_id None memo)
           | Some entry \<Rightarrow>
               (case own_visible_after entry of
                  None \<Rightarrow> (None, AList.update entry_id None memo)
                | Some visible \<Rightarrow>
                    (case le_corrects_entry_id entry of
                       None \<Rightarrow> (Some visible, AList.update entry_id (Some visible) memo)
                     | Some target_id \<Rightarrow>
                         if \<not> correction_target unique entry target_id then (None, AList.update entry_id None memo)
                         else (case visible_after unique target_id (insert entry_id lineage) memo of
                           (None, memo') \<Rightarrow> (None, AList.update entry_id None memo')
                         | (Some later, memo') \<Rightarrow>
                             (Some (dt_max visible later), AList.update entry_id (Some (dt_max visible later)) memo'))))))"
  by pat_completeness auto
termination
proof (relation "measure (\<lambda>(unique, entry_id, lineage, memo). card (fst ` set unique - lineage))")
  fix unique :: entry_dict and entry_id target_id :: str and lineage :: "str set" and memo entry visible
  assume "entry_id \<notin> lineage" and "map_of unique entry_id = Some entry"
  then have "entry_id \<in> fst ` set unique - lineage" by (force dest: map_of_SomeD)
  then have "card (fst ` set unique - insert entry_id lineage) < card (fst ` set unique - lineage)"
    by (intro psubset_card_mono) auto
  then show "((unique, target_id, insert entry_id lineage, memo), unique, entry_id, lineage, memo)
      \<in> measure (\<lambda>(unique, entry_id, lineage, memo). card (fst ` set unique - lineage))" by simp
qed simp

declare visible_after.simps [simp del]

definition snapshot_of_entries :: "str \<Rightarrow> authoritative_ledger_entry list \<Rightarrow> ledger_snapshot" where
  "snapshot_of_entries account_id entries =
     (let indexed = index_entries entries; unique = unique_entries indexed
      in \<lparr>ls_account_id = account_id, ls_entries = entries, ls_entries_by_id = indexed,
          ls_visible_after = foldl (\<lambda>memo entry_id. snd (visible_after unique entry_id {} memo)) [] (map fst indexed)\<rparr>)"

definition preserves :: "ledger_snapshot \<Rightarrow> entry_dict \<Rightarrow> bool" where
  "preserves snapshot canonical \<longleftrightarrow>
     list_all (\<lambda>(entry_id, entry). case dict_get (ls_entries_by_id snapshot) entry_id [] of
         [current] \<Rightarrow> ledger_entry_eq current entry | _ \<Rightarrow> False) canonical"

type_synonym canonical_entries = "((str \<times> str) \<times> authoritative_ledger_entry) list"

definition visible_by :: "ledger_snapshot \<Rightarrow> datetime \<Rightarrow> authoritative_ledger_entry \<Rightarrow> bool" where
  "visible_by snapshot cutoff entry \<longleftrightarrow>
     (case dict_get (ls_visible_after snapshot) (le_entry_id entry) None of None \<Rightarrow> False | Some visible \<Rightarrow> visible \<le> cutoff)"

definition add_visible_entries_to ::
    "ledger_snapshot \<Rightarrow> datetime \<Rightarrow> canonical_entries \<Rightarrow> canonical_entries" where
  "add_visible_entries_to snapshot cutoff canonical =
     foldl (\<lambda>canon entry.
         let key = (ls_account_id snapshot, le_entry_id entry) in
         if key \<notin> fst ` set canon \<and> visible_by snapshot cutoff entry then canon @ [(key, entry)] else canon)
       canonical (ls_entries snapshot)"

subsection \<open>The resolver of ledger entries\<close>

record ledger_resolver =
  lr_accepted :: "ledger_snapshot list"
  lr_canonical :: "(int \<times> datetime \<times> canonical_entries) list"

definition empty_resolver :: ledger_resolver where
  "empty_resolver = \<lparr>lr_accepted = [], lr_canonical = []\<rparr>"

definition canonical_entries_at :: "ledger_resolver \<Rightarrow> datetime \<Rightarrow> canonical_entries \<times> ledger_resolver" where
  "canonical_entries_at resolver cutoff =
     (case map_of (lr_canonical resolver) (instant cutoff) of
        Some (_, cached) \<Rightarrow> (cached, resolver)
      | None \<Rightarrow>
          let canonical = foldl (\<lambda>canon snapshot. add_visible_entries_to snapshot cutoff canon) [] (lr_accepted resolver)
          in (canonical, resolver\<lparr>lr_canonical := lr_canonical resolver @ [(instant cutoff, cutoff, canonical)]\<rparr>))"

definition account_entries :: "str \<Rightarrow> canonical_entries \<Rightarrow> entry_dict" where
  "account_entries account_id canonical =
     List.map_filter (\<lambda>((account, entry_id), entry). if account = account_id then Some (entry_id, entry) else None) canonical"

definition accept_if_preserving :: "ledger_snapshot \<Rightarrow> datetime \<Rightarrow> ledger_resolver \<Rightarrow> ledger_resolver" where
  "accept_if_preserving snapshot cutoff resolver =
     (let (canonical, resolver) = canonical_entries_at resolver cutoff
      in if \<not> preserves snapshot (account_entries (ls_account_id snapshot) canonical) then resolver
         else \<lparr>lr_accepted = lr_accepted resolver @ [snapshot],
               lr_canonical = map (\<lambda>(key, cached_cutoff, cached).
                 (key, cached_cutoff, add_visible_entries_to snapshot cached_cutoff cached)) (lr_canonical resolver)\<rparr>)"

definition entries_by_account ::
    "str list \<Rightarrow> authoritative_ledger_entry list \<Rightarrow> (str \<times> authoritative_ledger_entry list) list" where
  "entries_by_account account_ids entries =
     (let scoped = filter (\<lambda>e. le_account_id e \<in> set account_ids) entries
      in map (\<lambda>account. (account, filter (\<lambda>e. le_account_id e = account) scoped)) (dict_fromkeys (map le_account_id scoped)))"

definition observe_position :: "str list \<Rightarrow> ledger_resolver \<Rightarrow> position_reconciliation_outcome \<Rightarrow> ledger_resolver" where
  "observe_position account_ids resolver position =
     foldl (\<lambda>resolver (account_id, entries).
         accept_if_preserving (snapshot_of_entries account_id entries) (rs_cutoff_at (po_snapshot position)) resolver)
       resolver (entries_by_account account_ids (rs_authoritative_ledger (po_snapshot position)))"

definition authoritative_ledger_history ::
    "position_reconciliation_outcome list \<Rightarrow> str list \<Rightarrow> datetime \<Rightarrow> authoritative_ledger_entry list" where
  "authoritative_ledger_history positions account_ids cutoff =
     map snd (fst (canonical_entries_at (foldl (observe_position account_ids) empty_resolver positions) cutoff))"

subsection \<open>The resolver of opening cash\<close>

definition opening_cash_is_historically_valid :: "account_cash_state \<Rightarrow> datetime \<Rightarrow> bool" where
  "opening_cash_is_historically_valid cash_state cutoff \<longleftrightarrow>
     ac_opening_ledger_cash cash_state \<noteq> None \<and>
     problem_codes (ac_opening_ledger_cash_evidence cash_state) cutoff False = []"

type_synonym canonical_cash = "(str \<times> account_cash_state) list"

record cash_resolver =
  kr_accepted :: "account_cash_state list"
  kr_canonical :: "(int \<times> datetime \<times> canonical_cash) list"

definition empty_cash_resolver :: cash_resolver where
  "empty_cash_resolver = \<lparr>kr_accepted = [], kr_canonical = []\<rparr>"

definition add_cash_state :: "datetime \<Rightarrow> canonical_cash \<Rightarrow> account_cash_state \<Rightarrow> canonical_cash" where
  "add_cash_state cutoff canonical cash_state =
     (if ac_account_id cash_state \<notin> fst ` set canonical \<and> opening_cash_is_historically_valid cash_state cutoff
      then canonical @ [(ac_account_id cash_state, cash_state)] else canonical)"

definition cash_states_at :: "cash_resolver \<Rightarrow> datetime \<Rightarrow> canonical_cash \<times> cash_resolver" where
  "cash_states_at resolver cutoff =
     (case map_of (kr_canonical resolver) (instant cutoff) of
        Some (_, cached) \<Rightarrow> (cached, resolver)
      | None \<Rightarrow>
          let canonical = foldl (add_cash_state cutoff) [] (kr_accepted resolver)
          in (canonical, resolver\<lparr>kr_canonical := kr_canonical resolver @ [(instant cutoff, cutoff, canonical)]\<rparr>))"

definition accept_cash_if_preserving :: "datetime \<Rightarrow> cash_resolver \<Rightarrow> account_cash_state \<Rightarrow> cash_resolver" where
  "accept_cash_if_preserving cutoff resolver cash_state =
     (if \<not> opening_cash_is_historically_valid cash_state cutoff then resolver
      else
        let (canonical, resolver) = cash_states_at resolver cutoff
        in if (case map_of canonical (ac_account_id cash_state) of
                 None \<Rightarrow> False | Some existing \<Rightarrow> ac_opening_ledger_cash existing \<noteq> ac_opening_ledger_cash cash_state)
           then resolver
           else \<lparr>kr_accepted = kr_accepted resolver @ [cash_state],
                 kr_canonical = map (\<lambda>(key, cached_cutoff, cached).
                   (key, cached_cutoff, add_cash_state cached_cutoff cached cash_state)) (kr_canonical resolver)\<rparr>)"

definition authoritative_cash_history ::
    "position_reconciliation_outcome list \<Rightarrow> str list \<Rightarrow> datetime \<Rightarrow> account_cash_state list" where
  "authoritative_cash_history positions account_ids cutoff =
     map snd (fst (cash_states_at
       (foldl (\<lambda>resolver position.
           foldl (accept_cash_if_preserving (rs_cutoff_at (po_snapshot position))) resolver
             (filter (\<lambda>cash_state. ac_account_id cash_state \<in> set account_ids) (rs_cash_states (po_snapshot position))))
         empty_cash_resolver positions) cutoff))"

end
