(* ===== verification/Execution_Routing.thy ===== *)
theory Execution_Routing
  imports Position_Contracts Liquidity_Funding
begin

text \<open>
  \<open>position_management/execution_contracts.py\<close> and \<open>position_management/execution_routing.py\<close>: the quantities that can
  be sold at every account, and the exhaustive search for the cheapest way to reach the sale each target requires.
  The only caller sets a decimal context of 38 digits.  A callback that computes the gap in the funding of
  obligations may fail with a \<open>KeyError\<close>; this, and a failing \<open>assert\<close>, is the result \<open>None\<close> of \<open>route_targets\<close>.  Where the
  code sums over a set of securities, whose order Python leaves open, the model takes the order of their first
  occurrence.
\<close>

definition execution_precision :: nat where "execution_precision = 38"

abbreviation xadd :: "decimal \<Rightarrow> decimal \<Rightarrow> decimal" where "xadd \<equiv> dadd execution_precision"
abbreviation xsub :: "decimal \<Rightarrow> decimal \<Rightarrow> decimal" where "xsub \<equiv> dsub execution_precision"
abbreviation xmul :: "decimal \<Rightarrow> decimal \<Rightarrow> decimal" where "xmul \<equiv> dmul execution_precision"
abbreviation xdiv :: "decimal \<Rightarrow> decimal \<Rightarrow> decimal" where "xdiv \<equiv> ddiv execution_precision"
abbreviation xsum :: "decimal list \<Rightarrow> decimal" where "xsum \<equiv> dsum execution_precision"

subsection \<open>Contracts\<close>

record disposal_dividend_lot =
  dl_lot_id :: str
  dl_quantity :: decimal
  dl_tax_per_share :: decimal

record disposal_cost_curve =
  cv_version_id :: str
  cv_commission_ratio :: decimal
  cv_minimum_commission :: decimal
  cv_trading_fee_ratio :: decimal
  cv_settlement_fee_ratio :: decimal
  cv_tax_ratio :: decimal
  cv_slippage_ratio :: decimal
  cv_market_impact_ratio :: decimal
  cv_dividend_lots :: "disposal_dividend_lot list"
  cv_evidence :: position_evidence

fun dividend_tax :: "nat \<Rightarrow> disposal_dividend_lot list \<Rightarrow> decimal \<Rightarrow> decimal \<Rightarrow> decimal" where
  "dividend_tax p [] remaining tax = tax"
| "dividend_tax p (lot # lots) remaining tax =
     (let used = min remaining (dl_quantity lot)
      in dividend_tax p lots (dsub p remaining used) (dadd p tax (dmul p used (dl_tax_per_share lot))))"

definition curve_cost :: "nat \<Rightarrow> disposal_cost_curve \<Rightarrow> decimal \<Rightarrow> decimal \<Rightarrow> decimal" where
  "curve_cost p curve quantity price =
     (if quantity = 0 then 0
      else
        let gross = dmul p quantity price;
            rates = dadd p (dadd p (dadd p (dadd p (cv_trading_fee_ratio curve) (cv_settlement_fee_ratio curve))
              (cv_tax_ratio curve)) (cv_slippage_ratio curve)) (cv_market_impact_ratio curve)
        in dadd p (dadd p (max (cv_minimum_commission curve) (dmul p gross (cv_commission_ratio curve)))
             (dmul p gross rates)) (dividend_tax p (cv_dividend_lots curve) quantity 0))"

record execution_route =
  rt_account_id :: str
  rt_security_id :: str
  rt_minimum_quantity :: decimal
  rt_quantity_increment :: decimal
  rt_allow_full_odd_lot :: bool
  rt_first_sellable_at :: datetime
  rt_transferable_at :: datetime
  rt_rules_evidence :: position_evidence
  rt_cost_curve :: "disposal_cost_curve option"
  rt_conservative_cost_curve :: "disposal_cost_curve option"

definition qualified_curve :: "execution_route \<Rightarrow> datetime \<Rightarrow> disposal_cost_curve option" where
  "qualified_curve route cutoff =
     find (\<lambda>curve. problem_codes (cv_evidence curve) cutoff True = [])
       (List.map_filter (\<lambda>curve. curve) [rt_cost_curve route, rt_conservative_cost_curve route])"

datatype target_direction = HOLD_TARGET | REDUCE_TARGET | EXIT_TARGET

record established_quantity_target =
  et_target_id :: str
  et_security_id :: str
  et_target_quantity :: decimal
  et_direction :: target_direction
  et_qualified :: bool
  et_policy_version :: str
  et_priority :: "str option"
  et_evidence :: position_evidence

definition validate_direction :: "established_quantity_target \<Rightarrow> str option" where
  "validate_direction target =
     (if (et_direction target = EXIT_TARGET) \<noteq> (et_target_quantity target = 0)
      then Some ''zero quantity requires an explicit exit target''
      else if et_priority target = Some ''P0'' \<and> et_direction target \<noteq> EXIT_TARGET
      then Some ''protective priority requires an explicit exit target''
      else None)"

record execution_plan_command =
  ep_portfolio_id :: str
  ep_authorization_id :: str
  ep_cutoff_at :: datetime
  ep_concentration_event_id :: str
  ep_stress_event_id :: str
  ep_liquidity_event_id :: str
  ep_drawdown_event_id :: str
  ep_routes :: "execution_route list"
  ep_established_targets :: "established_quantity_target list"

record execution_target =
  xt_security_id :: str
  xt_target_quantity :: decimal
  xt_required_sale_quantity :: "decimal option"
  xt_source_obligation_ids :: "str list"
  xt_remaining_quantity :: "decimal option"
  xt_remaining_gap :: "decimal option"
  xt_direction :: target_direction
  xt_rounding_induced_full_sale :: bool

record execution_leg =
  xl_account_id :: str
  xl_security_id :: str
  xl_quantity :: decimal
  xl_gross_proceeds :: decimal
  xl_disposal_cost :: decimal
  xl_net_proceeds :: decimal
  xl_route :: execution_route

datatype plan_disposition = PLAN_BLOCKED | PLANNED | RECONFIRMATION_REQUIRED

datatype cost_routing_basis = VERIFIED_FULL_COST | CONSERVATIVE_BOUND_PROPORTIONAL

record execution_plan_outcome =
  xp_disposition :: plan_disposition
  xp_reasons :: "str list"
  xp_new_exposure_blocked :: bool
  xp_legs :: "execution_leg list"
  xp_targets :: "execution_target list"
  xp_requires_confirmation :: bool
  xp_initial_target_sale_value :: "decimal option"
  xp_projected_stress_gap :: "decimal option"
  xp_projected_cash_gap :: "decimal option"
  xp_projected_exposure_gap :: "decimal option"
  xp_cost_routing_basis :: "cost_routing_basis option"

definition blocked_plan :: "str list \<Rightarrow> execution_target list \<Rightarrow> execution_plan_outcome" where
  "blocked_plan reasons goals =
     \<lparr>xp_disposition = PLAN_BLOCKED, xp_reasons = reasons, xp_new_exposure_blocked = True, xp_legs = [],
      xp_targets = goals, xp_requires_confirmation = False, xp_initial_target_sale_value = None,
      xp_projected_stress_gap = None, xp_projected_cash_gap = None, xp_projected_exposure_gap = None,
      xp_cost_routing_basis = None\<rparr>"

subsection \<open>Legal quantities\<close>

type_synonym unit_id = "str \<times> str"
type_synonym route_dict = "(unit_id \<times> execution_route) list"
type_synonym unit_dict = "(unit_id \<times> position_action_unit) list"
type_synonym option_dict = "(unit_id \<times> decimal list) list"

definition routes_of :: "execution_plan_command \<Rightarrow> route_dict" where
  "routes_of command = dict_of (\<lambda>route. (rt_account_id route, rt_security_id route)) (\<lambda>route. route) (ep_routes command)"

definition units_of :: "reconciled_position_snapshot \<Rightarrow> unit_dict" where
  "units_of snapshot = dict_of unit_key (\<lambda>unit. unit) (rs_action_units snapshot)"

definition lot_count :: "execution_route \<Rightarrow> decimal \<Rightarrow> int" where
  "lot_count route maximum =
     (if rt_minimum_quantity route \<le> maximum
      then \<lfloor>xdiv (xsub maximum (rt_minimum_quantity route)) (rt_quantity_increment route)\<rfloor> + 1 else 0)"

definition lot_quantity :: "execution_route \<Rightarrow> nat \<Rightarrow> decimal" where
  "lot_quantity route i = xadd (rt_minimum_quantity route) (xmul (of_nat i) (rt_quantity_increment route))"

definition legal_quantities :: "execution_route \<Rightarrow> position_action_unit \<Rightarrow> decimal \<Rightarrow> decimal list" where
  "legal_quantities route unit maximum =
     sort (remdups (0 # map (lot_quantity route) [0..<nat (lot_count route maximum)] @
       (if rt_allow_full_odd_lot route \<and> Some maximum = au_total_quantity unit then [maximum] else [])))"

text \<open>What can be sold of a unit, with the security where only the conservative curve qualifies; or the reason.\<close>

definition unit_quantities ::
    "execution_plan_command \<Rightarrow> route_dict \<Rightarrow> str set \<Rightarrow> unit_id \<Rightarrow> position_action_unit \<Rightarrow> str + decimal list \<times> str list" where
  "unit_quantities command routes active key unit =
     (if au_exact_statistical_action_quantity unit = Some 0 \<or> au_security_id unit \<notin> active then Inr ([0], [])
      else case (au_exact_statistical_action_quantity unit, au_market_price unit) of
        (Some maximum, Some price) \<Rightarrow>
          (case map_of routes key of
             None \<Rightarrow> Inl ''EXECUTION_COST_EVIDENCE_FAILED''
           | Some route \<Rightarrow>
               if qualified_curve route (ep_cutoff_at command) = None then Inl ''EXECUTION_COST_EVIDENCE_FAILED''
               else if problem_codes (rt_rules_evidence route) (ep_cutoff_at command) True \<noteq> [] \<or>
                  rt_first_sellable_at route < ep_cutoff_at command \<or> rt_transferable_at route < rt_first_sellable_at route
               then Inl ''EXECUTION_RULE_EVIDENCE_FAILED''
               else if 100000 < lot_count route maximum then Inl ''EXECUTION_SEARCH_LIMIT''
               else Inr (legal_quantities route unit maximum,
                 if qualified_curve route (ep_cutoff_at command) \<noteq> rt_cost_curve route then [au_security_id unit] else []))
      | _ \<Rightarrow> Inl ''EXECUTION_QUANTITY_UNKNOWN'')"

fun quantity_options ::
    "execution_plan_command \<Rightarrow> route_dict \<Rightarrow> str set \<Rightarrow> unit_dict \<Rightarrow> str + option_dict \<times> str list" where
  "quantity_options command routes active [] = Inr ([], [])"
| "quantity_options command routes active ((key, unit) # units) =
     (case unit_quantities command routes active key unit of
        Inl reason \<Rightarrow> Inl reason
      | Inr (values, conservative) \<Rightarrow>
          (case quantity_options command routes active units of
             Inl reason \<Rightarrow> Inl reason
           | Inr (options, securities) \<Rightarrow> Inr ((key, values) # options, conservative @ securities)))"

subsection \<open>Legs and their rank\<close>

definition make_leg ::
    "execution_plan_command \<Rightarrow> route_dict \<Rightarrow> unit_dict \<Rightarrow> unit_id \<Rightarrow> decimal \<Rightarrow> execution_leg option" where
  "make_leg command routes units key quantity =
     (case (map_of routes key, map_of units key) of
        (Some route, Some unit) \<Rightarrow>
          (case (qualified_curve route (ep_cutoff_at command), au_market_price unit) of
             (Some curve, Some price) \<Rightarrow>
               let gross = xmul quantity price; cost = curve_cost execution_precision curve quantity price
               in Some \<lparr>xl_account_id = fst key, xl_security_id = snd key, xl_quantity = quantity,
                    xl_gross_proceeds = gross, xl_disposal_cost = cost, xl_net_proceeds = xsub gross cost, xl_route = route\<rparr>
           | _ \<Rightarrow> None)
      | _ \<Rightarrow> None)"

fun make_legs ::
    "execution_plan_command \<Rightarrow> route_dict \<Rightarrow> unit_dict \<Rightarrow> (unit_id \<times> decimal) list \<Rightarrow> execution_leg list option" where
  "make_legs command routes units [] = Some []"
| "make_legs command routes units ((key, quantity) # rest) =
     (if quantity = 0 then make_legs command routes units rest
      else case make_leg command routes units key quantity of
        None \<Rightarrow> None
      | Some leg \<Rightarrow> (case make_legs command routes units rest of None \<Rightarrow> None | Some legs \<Rightarrow> Some (leg # legs)))"

type_synonym funding_gap = "(execution_leg list \<Rightarrow> decimal option) option"

definition exact_quantity_of :: "position_action_unit \<Rightarrow> decimal" where
  "exact_quantity_of unit = (case au_exact_statistical_action_quantity unit of None \<Rightarrow> 0 | Some q \<Rightarrow> q)"

definition security_deviation :: "unit_dict \<Rightarrow> (unit_id \<times> decimal) list \<Rightarrow> str \<Rightarrow> decimal" where
  "security_deviation units quantities security =
     (let held = filter (\<lambda>(key, unit). snd key = security) units;
          total = xsum (map (\<lambda>(key, unit). dict_get quantities key 0) held);
          sellable = xsum (map (\<lambda>(key, unit). exact_quantity_of unit) held)
      in xsum (map (\<lambda>(key, unit). \<bar>xsub (xmul (dict_get quantities key 0) sellable) (xmul total (exact_quantity_of unit))\<bar>) held))"

definition deviation_over :: "unit_dict \<Rightarrow> (unit_id \<times> decimal) list \<Rightarrow> str list \<Rightarrow> decimal" where
  "deviation_over units quantities securities = foldl (\<lambda>d security. xadd d (security_deviation units quantities security)) 0 securities"

definition plan_rank ::
    "execution_plan_command \<Rightarrow> unit_dict \<Rightarrow> str list \<Rightarrow> funding_gap \<Rightarrow> execution_leg list \<Rightarrow> decimal list option" where
  "plan_rank command units conservative funding_gap candidate =
     (let quantities = dict_of (\<lambda>leg. (xl_account_id leg, xl_security_id leg)) xl_quantity candidate;
          windows = sort_key instant (datetime_set (map rt_first_sellable_at (ep_routes command)));
          earlier = map (\<lambda>window. - xsum (map xl_gross_proceeds
            (filter (\<lambda>leg. dt_eq (rt_first_sellable_at (xl_route leg)) window) candidate))) windows;
          cost = (\<lambda>bound. xsum (map xl_disposal_cost (filter (\<lambda>leg. (xl_security_id leg \<in> set conservative) = bound) candidate)));
          deviation = (\<lambda>bound. deviation_over units quantities
            (filter (\<lambda>security. (security \<in> set conservative) = bound) (dict_fromkeys (map (snd \<circ> fst) units))));
          tail = earlier @ [cost False, deviation True, cost True, deviation False] @
            map (\<lambda>key. dict_get quantities key 0) (sort (map fst units))
      in case funding_gap of
           None \<Rightarrow> Some (0 # tail)
         | Some gap \<Rightarrow> (case gap candidate of None \<Rightarrow> None | Some g \<Rightarrow> Some (g # tail)))"

text \<open>\<open>min(..., key=...)\<close>: the first of the least.\<close>

fun least_from :: "'a \<times> 'k::linorder \<Rightarrow> ('a \<times> 'k) list \<Rightarrow> 'a \<times> 'k" where
  "least_from best [] = best"
| "least_from best (x # xs) = least_from (if snd x < snd best then x else best) xs"

definition least_ranked :: "('a \<Rightarrow> 'k::linorder option) \<Rightarrow> 'a list \<Rightarrow> 'a option" where
  "least_ranked rank xs =
     (case those (map (\<lambda>x. map_option (Pair x) (rank x)) xs) of
        Some (x # ranked) \<Rightarrow> Some (fst (least_from x ranked)) | _ \<Rightarrow> None)"

subsection \<open>The search\<close>

definition target_keys :: "unit_dict \<Rightarrow> execution_target \<Rightarrow> unit_id list" where
  "target_keys units goal = sort (filter (\<lambda>key. snd key = xt_security_id goal) (map fst units))"

definition target_choices :: "option_dict \<Rightarrow> unit_dict \<Rightarrow> execution_target \<Rightarrow> decimal list list" where
  "target_choices options units goal = map (\<lambda>key. dict_get options key []) (target_keys units goal)"

definition most_sold :: "decimal list list \<Rightarrow> decimal" where
  "most_sold choices = xsum (map (\<lambda>choice. Max (set choice)) choices)"

definition eligible_sales :: "decimal list list \<Rightarrow> decimal \<Rightarrow> decimal list list" where
  "eligible_sales choices required =
     (let achievable = min required (most_sold choices)
      in filter (\<lambda>values. achievable \<le> xsum values) (product_lists choices))"

definition least_sold :: "decimal list list \<Rightarrow> decimal \<Rightarrow> decimal" where
  "least_sold choices required = Min (set (map xsum (eligible_sales choices required)))"

definition revised_target :: "execution_target \<Rightarrow> decimal \<Rightarrow> decimal \<Rightarrow> execution_target" where
  "revised_target goal required sold =
     (let current = xadd (xt_target_quantity goal) required in
      goal\<lparr>xt_remaining_quantity := Some (xsub current sold),
        xt_remaining_gap := Some (max 0 (xsub required sold)),
        xt_rounding_induced_full_sale := sold = current \<and> 0 < xt_target_quantity goal\<rparr>)"

definition target_search ::
    "execution_plan_command \<Rightarrow> route_dict \<Rightarrow> unit_dict \<Rightarrow> option_dict \<Rightarrow> str list \<Rightarrow> funding_gap \<Rightarrow> execution_target \<Rightarrow>
     (str + execution_leg list list \<times> execution_target) option" where
  "target_search command routes units options conservative funding_gap goal =
     (let choices = target_choices options units goal
      in if 200000 < prod_list (map length choices) then Some (Inl ''EXECUTION_SEARCH_LIMIT'')
         else case xt_required_sale_quantity goal of
           None \<Rightarrow> Some (Inl ''EXECUTION_QUANTITY_UNKNOWN'')
         | Some required \<Rightarrow>
             let sold = least_sold choices required
             in case those (map (\<lambda>values. make_legs command routes units (zip (target_keys units goal) values))
                       (filter (\<lambda>values. xsum values = sold) (eligible_sales choices required))) of
                  None \<Rightarrow> None
                | Some variants \<Rightarrow>
                    if funding_gap \<noteq> None then Some (Inr (variants, revised_target goal required sold))
                    else map_option (\<lambda>legs. Inr ([legs], revised_target goal required sold))
                      (least_ranked (plan_rank command units conservative funding_gap) variants))"

fun search_targets ::
    "(execution_target \<Rightarrow> (str + execution_leg list list \<times> execution_target) option) \<Rightarrow> execution_target list \<Rightarrow>
     (str + execution_leg list list list \<times> execution_target list) option" where
  "search_targets search [] = Some (Inr ([], []))"
| "search_targets search (target # goals) =
     (case search target of
        None \<Rightarrow> None
      | Some (Inl reason) \<Rightarrow> Some (Inl reason)
      | Some (Inr (variants, revised)) \<Rightarrow>
          (case search_targets search goals of
             None \<Rightarrow> None
           | Some (Inl reason) \<Rightarrow> Some (Inl reason)
           | Some (Inr (alternatives, rest)) \<Rightarrow> Some (Inr (variants # alternatives, revised # rest))))"

definition incomplete_target :: "execution_target \<Rightarrow> bool" where
  "incomplete_target target = (case xt_remaining_gap target of None \<Rightarrow> True | Some gap \<Rightarrow> 0 < gap)"

definition planned ::
    "execution_target list \<Rightarrow> execution_target list \<Rightarrow> str list \<Rightarrow> execution_leg list \<Rightarrow> execution_plan_outcome" where
  "planned goals revised conservative legs =
     (let incomplete = list_ex incomplete_target revised;
          reconfirm = list_ex xt_rounding_induced_full_sale revised
      in \<lparr>xp_disposition = (if incomplete then PLAN_BLOCKED else if reconfirm then RECONFIRMATION_REQUIRED else PLANNED),
          xp_reasons = (if incomplete then [''RISK_REMEDIATION_BLOCKED''] else []) @
            (if reconfirm then [''TRADING_UNIT_FULL_SALE''] else []),
          xp_new_exposure_blocked = list_ex (\<lambda>target. xt_source_obligation_ids target \<noteq> []) goals,
          xp_legs = legs, xp_targets = revised, xp_requires_confirmation = (legs \<noteq> []),
          xp_initial_target_sale_value = None, xp_projected_stress_gap = None, xp_projected_cash_gap = None,
          xp_projected_exposure_gap = None,
          xp_cost_routing_basis = Some (if conservative \<noteq> [] then CONSERVATIVE_BOUND_PROPORTIONAL else VERIFIED_FULL_COST)\<rparr>)"

definition active_securities :: "execution_target list \<Rightarrow> str set" where
  "active_securities goals = xt_security_id ` set (filter (\<lambda>goal. xt_required_sale_quantity goal \<noteq> Some 0) goals)"

definition route_targets ::
    "execution_plan_command \<Rightarrow> reconciled_position_snapshot \<Rightarrow> execution_target list \<Rightarrow> funding_gap \<Rightarrow>
     execution_plan_outcome option" where
  "route_targets command snapshot goals funding_gap =
     (let routes = routes_of command; units = units_of snapshot
      in if length routes \<noteq> length (ep_routes command) \<or> \<not> fst ` set routes \<subseteq> fst ` set units
         then Some (blocked_plan [''EXECUTION_ROUTE_SCOPE_INVALID''] goals)
         else case quantity_options command routes (active_securities goals) units of
           Inl reason \<Rightarrow> Some (blocked_plan [reason] goals)
         | Inr (options, conservative) \<Rightarrow>
             (case search_targets (target_search command routes units options conservative funding_gap) goals of
                None \<Rightarrow> None
              | Some (Inl reason) \<Rightarrow> Some (blocked_plan [reason] goals)
              | Some (Inr (alternatives, revised)) \<Rightarrow>
                  if 200000 < prod_list (map length alternatives)
                  then Some (blocked_plan [''EXECUTION_SEARCH_LIMIT''] goals)
                  else map_option (planned goals revised conservative)
                    (least_ranked (plan_rank command units conservative funding_gap)
                      (map concat (product_lists alternatives)))))"

end
