(* ===== verification/Host_Ledger.thy ===== *)
theory Host_Ledger
  imports Position_History Execution_Routing Authorization_Ledger Drawdown Liquidity Concentration
begin

text \<open>
  The decision ledger as the execution plan and the position actions read it: the committed facts in the order of their
  event sequence, with the parts of the frozen case and of the result that these adjudications look at, and the formal
  reports that are published for an event.  The queries are those of \<open>adapters/persistence/decision_ledger.py\<close>; how rows
  become facts and reports is database access.  An event identifier is a primary key, and a business object has one
  original event.
\<close>

record host_fact =
  hf_event_id :: str
  hf_business_object_id :: str
  hf_corrects_event_id :: "str option"
  hf_access_scope :: "result_access_scope option"
  hf_plan_command :: "execution_plan_command option"
  hf_liquidity_command :: "liquidity_command option"
  hf_position :: "position_reconciliation_outcome option"
  hf_plan :: "execution_plan_outcome option"

record formal_report =
  fr_business_object_id :: str
  fr_access_scope :: "result_access_scope option"
  fr_position :: "position_reconciliation_outcome option"
  fr_concentration :: "concentration_outcome option"
  fr_stress :: "portfolio_stress_outcome option"
  fr_liquidity :: "liquidity_outcome option"
  fr_drawdown :: "drawdown_outcome option"

record ('f, 'r) host_ledger =
  hl_facts :: "'f host_fact_scheme list"
  hl_reports :: "(str \<times> 'r formal_report_scheme) list"

subsection \<open>Scopes and equality\<close>

definition same_scope_as :: "result_access_scope \<Rightarrow> result_access_scope \<Rightarrow> bool" where
  "same_scope_as a b \<longleftrightarrow>
     set (ras_account_ids a) = set (ras_account_ids b) \<and>
     ras_user_id a = ras_user_id b \<and> ras_visibility a = ras_visibility b"

definition same_owner :: "result_access_scope \<Rightarrow> result_access_scope \<Rightarrow> bool" where
  "same_owner a b \<longleftrightarrow> ras_user_id a = ras_user_id b \<and> ras_visibility a = ras_visibility b"

definition scoped_report :: "result_access_scope \<Rightarrow> 'r formal_report_scheme option \<Rightarrow> bool" where
  "scoped_report scope report \<longleftrightarrow>
     (case report of None \<Rightarrow> False
      | Some r \<Rightarrow> (case fr_access_scope r of None \<Rightarrow> False | Some s \<Rightarrow> same_scope_as scope s))"

text \<open>
  Two outcomes are equal where their fields are, and two datetimes where their instants are: \<open>position_utc\<close> moves every
  datetime of an outcome to the offset zero.
\<close>

definition utc :: "datetime \<Rightarrow> datetime" where
  "utc d = Datetime (instant d) 0"

definition evidence_utc :: "position_evidence \<Rightarrow> position_evidence" where
  "evidence_utc e =
     e\<lparr>ev_business_effective_at := map_option utc (ev_business_effective_at e),
       ev_source_observed_at := map_option utc (ev_source_observed_at e),
       ev_locally_acquired_at := map_option utc (ev_locally_acquired_at e),
       ev_validated_at := map_option utc (ev_validated_at e), ev_cutoff_at := map_option utc (ev_cutoff_at e),
       ev_complete_through_at := map_option utc (ev_complete_through_at e),
       ev_expires_at := map_option utc (ev_expires_at e)\<rparr>"

definition clock_utc :: "position_evidence_clock \<Rightarrow> position_evidence_clock" where
  "clock_utc c =
     c\<lparr>ec_business_effective_at := map_option utc (ec_business_effective_at c),
       ec_source_observed_at := map_option utc (ec_source_observed_at c),
       ec_locally_acquired_at := map_option utc (ec_locally_acquired_at c),
       ec_validated_at := map_option utc (ec_validated_at c)\<rparr>"

definition cash_utc :: "account_cash_state \<Rightarrow> account_cash_state" where
  "cash_utc c =
     c\<lparr>ac_account_evidence := evidence_utc (ac_account_evidence c),
       ac_account_equity_evidence := evidence_utc (ac_account_equity_evidence c),
       ac_opening_ledger_cash_evidence := evidence_utc (ac_opening_ledger_cash_evidence c),
       ac_cash_state_evidence := evidence_utc (ac_cash_state_evidence c)\<rparr>"

definition snapshot_utc :: "reconciled_position_snapshot \<Rightarrow> reconciled_position_snapshot" where
  "snapshot_utc s =
     s\<lparr>rs_cutoff_at := utc (rs_cutoff_at s), rs_evidence_clock := clock_utc (rs_evidence_clock s),
       rs_snapshot_evidence := evidence_utc (rs_snapshot_evidence s),
       rs_action_units := map (\<lambda>u. u\<lparr>au_position_evidence := evidence_utc (au_position_evidence u)\<rparr>) (rs_action_units s),
       rs_cash_states := map cash_utc (rs_cash_states s),
       rs_unfinished_orders := map (\<lambda>ord. ord\<lparr>oo_evidence := evidence_utc (oo_evidence ord)\<rparr>) (rs_unfinished_orders s),
       rs_execution_restrictions :=
         map (\<lambda>r. r\<lparr>er_evidence := evidence_utc (er_evidence r)\<rparr>) (rs_execution_restrictions s),
       rs_authoritative_ledger :=
         map (\<lambda>e. e\<lparr>le_occurred_at := utc (le_occurred_at e), le_evidence := evidence_utc (le_evidence e)\<rparr>)
           (rs_authoritative_ledger s),
       rs_user_annotations := map (\<lambda>n. n\<lparr>an_created_at := utc (an_created_at n)\<rparr>) (rs_user_annotations s)\<rparr>"

definition position_utc :: "position_reconciliation_outcome \<Rightarrow> position_reconciliation_outcome" where
  "position_utc p = p\<lparr>po_snapshot := snapshot_utc (po_snapshot p)\<rparr>"

definition position_eq :: "position_reconciliation_outcome \<Rightarrow> position_reconciliation_outcome \<Rightarrow> bool" where
  "position_eq a b \<longleftrightarrow> position_utc a = position_utc b"

lemma position_eq_refl [simp]: "position_eq a a"
  by (simp add: position_eq_def)

subsection \<open>Queries\<close>

definition formal_report_for_event :: "('f, 'r) host_ledger \<Rightarrow> str \<Rightarrow> 'r formal_report_scheme option" where
  "formal_report_for_event ledger event_id = map_of (hl_reports ledger) event_id"

definition get_decision_event :: "('f, 'r) host_ledger \<Rightarrow> str \<Rightarrow> 'f host_fact_scheme option" where
  "get_decision_event ledger event_id = find (\<lambda>event. hf_event_id event = event_id) (hl_facts ledger)"

definition original_facts :: "('f, 'r) host_ledger \<Rightarrow> 'f host_fact_scheme list" where
  "original_facts ledger = filter (\<lambda>event. hf_corrects_event_id event = None) (hl_facts ledger)"

definition get_original_decision_event :: "('f, 'r) host_ledger \<Rightarrow> str \<Rightarrow> 'f host_fact_scheme option" where
  "get_original_decision_event ledger business_object_id =
     find (\<lambda>event. hf_business_object_id event = business_object_id) (original_facts ledger)"

definition owned_by :: "result_access_scope \<Rightarrow> 'f host_fact_scheme \<Rightarrow> bool" where
  "owned_by access_scope event \<longleftrightarrow>
     (case hf_access_scope event of None \<Rightarrow> False | Some scope \<Rightarrow> same_owner scope access_scope)"

text \<open>The facts \<open>execution_plan_history\<close> returns have a scope, a command and a plan; these are what is read of them.\<close>

definition dismissed_reasons :: "str list" where
  "dismissed_reasons =
     [''EXECUTION_HISTORY_SCOPE_INCOMPLETE'', ''EXECUTION_SNAPSHOT_NOT_FORWARD'', ''RISK_HANDOFF_IDENTITY_MISMATCH'',
      ''TARGET_SCOPE_INVALID'']"

type_synonym past_plan = "result_access_scope \<times> execution_plan_command \<times> execution_plan_outcome"

definition past_plan_of :: "result_access_scope \<Rightarrow> str \<Rightarrow> 'f host_fact_scheme \<Rightarrow> past_plan option" where
  "past_plan_of access_scope portfolio_id event =
     (case (hf_access_scope event, hf_plan_command event, hf_plan event) of
        (Some scope, Some command, Some plan) \<Rightarrow>
          if same_owner scope access_scope \<and> ep_portfolio_id command = portfolio_id \<and> xp_targets plan \<noteq> [] \<and>
             set (xp_reasons plan) \<inter> set dismissed_reasons = {}
          then Some (scope, command, plan) else None
      | _ \<Rightarrow> None)"

definition execution_plan_history :: "('f, 'r) host_ledger \<Rightarrow> result_access_scope \<Rightarrow> str \<Rightarrow> past_plan list" where
  "execution_plan_history ledger access_scope portfolio_id =
     List.map_filter (past_plan_of access_scope portfolio_id) (original_facts ledger)"

definition position_evidence_for_drawdown ::
    "('f, 'r) host_ledger \<Rightarrow> result_access_scope \<Rightarrow> str \<Rightarrow> datetime \<Rightarrow> position_reconciliation_outcome option" where
  "position_evidence_for_drawdown ledger access_scope event_id cutoff =
     (case get_decision_event ledger event_id of
        None \<Rightarrow> None
      | Some event \<Rightarrow>
          (case (hf_access_scope event, hf_position event) of
             (Some scope, Some position) \<Rightarrow>
               if hf_corrects_event_id event \<noteq> None \<or> \<not> same_scope_as scope access_scope \<or>
                  cutoff < rs_cutoff_at (po_snapshot position)
               then None else Some position
           | _ \<Rightarrow> None))"

definition position_history :: "('f, 'r) host_ledger \<Rightarrow> result_access_scope \<Rightarrow> position_reconciliation_outcome list" where
  "position_history ledger access_scope = List.map_filter hf_position (filter (owned_by access_scope) (original_facts ledger))"

definition position_ledger_history ::
    "('f, 'r) host_ledger \<Rightarrow> result_access_scope \<Rightarrow> datetime \<Rightarrow> authoritative_ledger_entry list" where
  "position_ledger_history ledger access_scope cutoff =
     authoritative_ledger_history (position_history ledger access_scope) (ras_account_ids access_scope) cutoff"

definition position_cash_history ::
    "('f, 'r) host_ledger \<Rightarrow> result_access_scope \<Rightarrow> datetime \<Rightarrow> account_cash_state list" where
  "position_cash_history ledger access_scope cutoff =
     authoritative_cash_history (position_history ledger access_scope) (ras_account_ids access_scope) cutoff"

end
