(* ===== verification/Action_Contracts.thy ===== *)
theory Action_Contracts
  imports Host_Ledger
begin

text \<open>
  \<open>position_management/exit_contracts.py\<close> and \<open>action_contracts.py\<close>: the evidence on a security, the conclusions on a
  position, and the facts and reports that carry them.  The fields that identify a qualification or the version of a
  capability belong to the qualification of strategies and are left out, but for the identifier of the policy version.
\<close>

subsection \<open>Evidence on a security\<close>

datatype evidence_authority = DISCLOSURE | EXCHANGE | MODEL_AUTHORITY | NEWS
datatype evidence_family = SECURITY_FAMILY | MARKET_FAMILY | RISK_FAMILY
datatype proposition_operator = LE_OPERATOR | GE_OPERATOR | EQ_OPERATOR
datatype exit_target_kind = D20 | V60

record exit_proposition =
  pr_proposition_id :: str
  pr_statement :: str
  pr_metric :: str
  pr_authority :: evidence_authority
  pr_source :: str
  pr_operator :: proposition_operator
  pr_threshold :: decimal

record exit_thesis =
  th_thesis_id :: str
  th_version :: str
  th_security_id :: str
  th_lifecycle_id :: str
  th_origin :: position_origin
  th_registered_at :: datetime
  th_valid_until :: datetime
  th_propositions :: "exit_proposition list"

record thesis_registration =
  tr_cutoff_at :: datetime
  tr_position_event_id :: str
  tr_position_id :: str
  tr_thesis :: exit_thesis

record security_evidence =
  se_evidence_id :: str
  se_family :: evidence_family
  se_security_id :: str
  se_source :: str
  se_authority :: evidence_authority
  se_source_version :: str
  se_public_at :: datetime
  se_acquired_at :: datetime
  se_validated_at :: datetime
  se_valid_until :: datetime
  se_complete :: bool
  se_metric :: str
  se_value :: decimal
  se_legal_termination :: bool

definition usable_at :: "security_evidence \<Rightarrow> str \<Rightarrow> datetime \<Rightarrow> bool" where
  "usable_at e security_id cutoff \<longleftrightarrow>
     se_security_id e = security_id \<and> se_complete e \<and>
     (se_family e \<in> {SECURITY_FAMILY, MARKET_FAMILY} \<and> se_authority e = EXCHANGE \<or>
      se_family e = RISK_FAMILY \<and> se_authority e \<in> {DISCLOSURE, EXCHANGE}) \<and>
     se_public_at e \<le> se_acquired_at e \<and> se_acquired_at e \<le> se_validated_at e \<and> se_validated_at e \<le> cutoff \<and>
     cutoff \<le> se_valid_until e"

record security_assessment =
  sa_cutoff_at :: datetime
  sa_security_id :: str
  sa_lifecycle_id :: str
  sa_thesis_event_id :: "str option"
  sa_market_state :: str
  sa_board :: str
  sa_standard_price :: decimal
  sa_calendar_version :: str
  sa_evidence :: "security_evidence list"

datatype exit_command = REGISTER_THESIS thesis_registration | ASSESS_SECURITY security_assessment

record guarded_exit_probability =
  gp_security_id :: str
  gp_target :: exit_target_kind
  gp_loss_boundary :: "str option"
  gp_point :: decimal
  gp_guarded_lower :: "decimal option"
  gp_guarded_upper :: "decimal option"
  gp_produced_at :: datetime
  gp_valid_until :: datetime
  gp_reasons :: "str list"

record exit_hard_gate =
  hg_gate_id :: str
  hg_evidence_id :: str
  hg_authority :: evidence_authority
  hg_source :: str
  hg_thesis_event_id :: "str option"
  hg_established_at :: datetime

datatype exit_disposition = THESIS_REGISTERED | ASSESSED | NON_ACTIONABLE | EXIT_BLOCKED

record exit_outcome =
  eo_disposition :: exit_disposition
  eo_reasons :: "str list"
  eo_thesis :: "exit_thesis option"
  eo_thesis_event_id :: "str option"
  eo_hard_gates :: "exit_hard_gate list"
  eo_standard_price :: "decimal option"
  eo_security_id :: "str option"
  eo_evidence :: "security_evidence list"
  eo_probabilities :: "guarded_exit_probability list"

subsection \<open>Conclusions on a position\<close>

record position_action_policy =
  ay_generator_version :: str
  ay_seed :: int
  ay_version_id :: str
  ay_downside_safe_upper :: decimal
  ay_downside_risky_lower :: decimal
  ay_value_established_lower :: decimal
  ay_value_denied_upper :: decimal
  ay_reduction_ratio :: decimal
  ay_lifecycle_cost_ratio :: decimal
  ay_maximum_cost_ratio :: decimal
  ay_maximum_minimum_commission :: decimal
  ay_maximum_dividend_tax_per_share :: decimal

definition normal_grid :: str where "normal_grid = ''0.10''"
definition risk_grid :: str where "risk_grid = ''0.05''"

definition disjoint_bands :: "position_action_policy \<Rightarrow> str option" where
  "disjoint_bands policy =
     (if ay_downside_risky_lower policy \<le> ay_downside_safe_upper policy then Some ''downside bands must be disjoint''
      else if ay_value_established_lower policy \<le> ay_value_denied_upper policy then Some ''value bands must be disjoint''
      else None)"

record position_action_command =
  pn_cutoff_at :: datetime
  pn_security_id :: str
  pn_lifecycle_id :: str
  pn_security_event_id :: str
  pn_execution :: execution_plan_command
  pn_policy :: position_action_policy
  pn_qualification_id :: str

definition host_owned_targets :: "position_action_command \<Rightarrow> str option" where
  "host_owned_targets command =
     (if ep_established_targets (pn_execution command) \<noteq> []
      then Some ''position action targets must come from committed host evidence'' else None)"

record statistical_reduction_anchor =
  sr_event_id :: str
  sr_quantity :: decimal
  sr_market_value :: decimal
  sr_frozen_at :: datetime

datatype action_disposition = CONCLUDED | ABSTAINED | DATA_OBSERVATION | ACTION_BLOCKED

record position_action_outcome =
  px_disposition :: action_disposition
  px_security_id :: str
  px_lifecycle_id :: str
  px_direction :: "target_direction option"
  px_model_direction :: "target_direction option"
  px_target_quantity :: "decimal option"
  px_current_quantity :: "decimal option"
  px_selected_grid :: "str option"
  px_reasons :: "str list"
  px_deterministic_execution :: "execution_plan_outcome option"
  px_execution :: "execution_plan_outcome option"
  px_anchor :: "statistical_reduction_anchor option"
  px_cost_anchor :: "statistical_reduction_anchor option"

subsection \<open>Facts and reports\<close>

record action_fact = host_fact +
  hf_action_command :: "position_action_command option"
  hf_action :: "position_action_outcome option"
  hf_exit_command :: "exit_command option"

record action_report = formal_report +
  fr_exit_assessment :: "exit_outcome option"

type_synonym action_ledger = "(unit action_fact_ext, unit action_report_ext) host_ledger"

type_synonym past_action = "result_access_scope \<times> position_action_command \<times> position_action_outcome"

definition past_action_of :: "result_access_scope \<Rightarrow> str \<Rightarrow> str \<Rightarrow> action_fact \<Rightarrow> past_action option" where
  "past_action_of access_scope portfolio_id lifecycle_id event =
     (case (hf_access_scope event, hf_action_command event, hf_action event) of
        (Some scope, Some command, Some outcome) \<Rightarrow>
          if same_owner scope access_scope \<and> ep_portfolio_id (pn_execution command) = portfolio_id \<and>
             pn_lifecycle_id command = lifecycle_id \<and> px_disposition outcome = CONCLUDED
          then Some (scope, command, outcome) else None
      | _ \<Rightarrow> None)"

definition position_action_history :: "action_ledger \<Rightarrow> result_access_scope \<Rightarrow> str \<Rightarrow> str \<Rightarrow> past_action list" where
  "position_action_history ledger access_scope portfolio_id lifecycle_id =
     List.map_filter (past_action_of access_scope portfolio_id lifecycle_id) (original_facts ledger)"

end
