(* ===== verification/Action_Costs.thy ===== *)
theory Action_Costs
  imports Action_Contracts
begin

text \<open>
  \<open>position_management/action_policy.py\<close> and \<open>action_costs.py\<close>: the direction the guarded bounds allow, and whether
  the cost of leaving a position stays within the frozen budget.  The caller sets a context of 38 digits.  \<open>None\<close> is a
  failing assertion.
\<close>

subsection \<open>The statistical direction\<close>

record statistical_action =
  sx_direction :: "target_direction option"
  sx_evidence_missing :: bool

definition assess_statistical_action ::
    "position_action_policy \<Rightarrow> guarded_exit_probability list \<Rightarrow> str \<Rightarrow> statistical_action" where
  "assess_statistical_action policy probabilities grid =
     (let down = find (\<lambda>p. gp_target p = D20 \<and> gp_loss_boundary p = Some grid) probabilities;
          value_of = find (\<lambda>p. gp_target p = V60) probabilities;
          bounds = (\<lambda>p. do { q \<leftarrow> p; low \<leftarrow> gp_guarded_lower q; high \<leftarrow> gp_guarded_upper q; Some (low, high) });
          concluded = (\<lambda>d. \<lparr>sx_direction = d, sx_evidence_missing = False\<rparr>);
          missing = \<lparr>sx_direction = None, sx_evidence_missing = True\<rparr>
      in case bounds value_of of
           None \<Rightarrow> missing
         | Some (value_lower, value_upper) \<Rightarrow>
             if value_upper \<le> ay_value_denied_upper policy then concluded (Some EXIT_TARGET)
             else case bounds down of
               None \<Rightarrow> missing
             | Some (down_lower, down_upper) \<Rightarrow>
                 if ay_downside_risky_lower policy \<le> down_lower then concluded (Some REDUCE_TARGET)
                 else if down_upper \<le> ay_downside_safe_upper policy \<and> ay_value_established_lower policy \<le> value_lower
                 then concluded (Some HOLD_TARGET) else concluded None)"

subsection \<open>Costs\<close>

definition or_zero :: "decimal option \<Rightarrow> decimal" where
  "or_zero v = (case v of None \<Rightarrow> 0 | Some x \<Rightarrow> x)"

definition security_units :: "reconciled_position_snapshot \<Rightarrow> str \<Rightarrow> position_action_unit list" where
  "security_units snapshot security = filter (\<lambda>unit. au_security_id unit = security) (rs_action_units snapshot)"

definition units_quantity :: "position_action_unit list \<Rightarrow> decimal" where
  "units_quantity units = xsum (map (\<lambda>unit. or_zero (au_total_quantity unit)) units)"

definition units_value :: "position_action_unit list \<Rightarrow> decimal" where
  "units_value units = xsum (map (\<lambda>unit. xmul (or_zero (au_total_quantity unit)) (or_zero (au_market_price unit))) units)"

definition current_curve :: "position_action_command \<Rightarrow> execution_route option \<Rightarrow> disposal_cost_curve option" where
  "current_curve command route =
     (case Option.bind route rt_cost_curve of
        None \<Rightarrow> None
      | Some curve \<Rightarrow> if problem_codes (cv_evidence curve) (pn_cutoff_at command) True \<noteq> [] then None else Some curve)"

definition outside_envelope :: "position_action_policy \<Rightarrow> disposal_cost_curve \<Rightarrow> bool" where
  "outside_envelope policy curve \<longleftrightarrow>
     ay_maximum_cost_ratio policy <
       xadd (xadd (xadd (xadd (xadd (cv_commission_ratio curve) (cv_trading_fee_ratio curve)) (cv_settlement_fee_ratio curve))
         (cv_tax_ratio curve)) (cv_slippage_ratio curve)) (cv_market_impact_ratio curve) \<or>
     ay_maximum_minimum_commission policy < cv_minimum_commission curve \<or>
     list_ex (\<lambda>lot. ay_maximum_dividend_tax_per_share policy < dl_tax_per_share lot) (cv_dividend_lots curve)"

definition accrued_cost ::
    "position_action_command \<Rightarrow> reconciled_position_snapshot \<Rightarrow> statistical_reduction_anchor option \<Rightarrow> decimal" where
  "accrued_cost command snapshot cost_anchor =
     xsum (List.map_filter (\<lambda>entry. case cost_anchor of
         None \<Rightarrow> None
       | Some anchor \<Rightarrow>
           if le_security_id entry = Some (pn_security_id command) \<and> le_entry_type entry = FEE \<and>
              sr_frozen_at anchor < le_occurred_at entry
           then Some (xsub 0 (le_cash_delta entry)) else None) (rs_authoritative_ledger snapshot))"

text \<open>The quantity a unit would have to sell of a blocked plan, rounded up to a legal one.\<close>

definition bounded_amount :: "execution_route \<Rightarrow> decimal \<Rightarrow> decimal \<Rightarrow> decimal" where
  "bounded_amount route total_quantity amount =
     (if amount = 0 then 0
      else
        let over = max 0 (xsub amount (rt_minimum_quantity route));
            increments = of_int \<lceil>xdiv over (rt_quantity_increment route)\<rceil>
        in min total_quantity (xadd (rt_minimum_quantity route) (xmul increments (rt_quantity_increment route))))"

fun cost_bound ::
    "route_dict \<Rightarrow> decimal \<Rightarrow> decimal \<Rightarrow> decimal \<Rightarrow> position_action_unit list \<Rightarrow> decimal option" where
  "cost_bound routes required quantity bound [] = Some bound"
| "cost_bound routes required quantity bound (unit # units) =
     (case map_of routes (unit_key unit) of
        None \<Rightarrow> None
      | Some route \<Rightarrow>
          (case (rt_cost_curve route, au_total_quantity unit) of
             (Some curve, Some total_quantity) \<Rightarrow>
               cost_bound routes required quantity
                 (xadd bound (curve_cost execution_precision curve
                   (bounded_amount route total_quantity (xdiv (xmul required total_quantity) quantity))
                   (or_zero (au_market_price unit)))) units
           | _ \<Rightarrow> None))"

record action_cost =
  az_evidence_failed :: bool
  az_outside_envelope :: bool

definition assess_action_costs ::
    "position_action_command \<Rightarrow> position_reconciliation_outcome \<Rightarrow> execution_plan_outcome \<Rightarrow>
     statistical_reduction_anchor option \<Rightarrow> bool \<Rightarrow> action_cost option" where
  "assess_action_costs command position plan cost_anchor first_exit_seen =
     (let snapshot = po_snapshot position; policy = pn_policy command;
          units = security_units snapshot (pn_security_id command);
          quantity = units_quantity units;
          routes = routes_of (pn_execution command);
          curves = map (\<lambda>unit. current_curve command (map_of routes (unit_key unit))) units;
          cost_failure = (first_exit_seen \<and> cost_anchor = None \<or> None \<in> set curves);
          outside = list_ex (outside_envelope policy) (List.map_filter (\<lambda>c. c) curves);
          planned_cost = xsum (map xl_disposal_cost (filter (\<lambda>leg. xl_security_id leg = pn_security_id command) (xp_legs plan)));
          conjoined = map_option xt_target_quantity (find (\<lambda>goal. xt_security_id goal = pn_security_id command) (xp_targets plan));
          bounded = (case conjoined of
            None \<Rightarrow> Some planned_cost
          | Some target_quantity \<Rightarrow>
              if xp_disposition plan = PLAN_BLOCKED \<and> 0 < quantity \<and> \<not> cost_failure
              then map_option (max planned_cost) (cost_bound routes (max 0 (xsub quantity target_quantity)) quantity 0 units)
              else Some planned_cost);
          budget = xmul (case cost_anchor of None \<Rightarrow> units_value units | Some anchor \<Rightarrow> sr_market_value anchor)
            (ay_lifecycle_cost_ratio policy)
      in map_option (\<lambda>cost. \<lparr>az_evidence_failed = cost_failure,
           az_outside_envelope = (outside \<or> budget < xadd (max 0 (accrued_cost command snapshot cost_anchor)) cost)\<rparr>) bounded)"

end
