(* ===== verification/Execution_Waterfall.thy ===== *)
theory Execution_Waterfall
  imports Execution_Routing Portfolio_Stress Drawdown Liquidity
begin

text \<open>
  \<open>position_management/execution_waterfall.py\<close>: the targets of the issuers are routed first; where a portfolio gap in
  stress, cash or exposure remains, all targets are lowered by one fraction of what is still sellable, found by
  bisection.  \<open>None\<close> is a failing assertion, or a \<open>KeyError\<close> of the funding assessment or of a target without units.
\<close>

definition stock_value :: "reconciled_position_snapshot \<Rightarrow> decimal" where
  "stock_value snapshot =
     xsum (List.map_filter (\<lambda>unit. case (au_total_quantity unit, au_market_price unit) of
         (Some quantity, Some price) \<Rightarrow> Some (xmul quantity price) | _ \<Rightarrow> None) (rs_action_units snapshot))"

definition paid_by_obligation :: "liquidity_outcome \<Rightarrow> (str \<times> decimal) list" where
  "paid_by_obligation liquidity =
     foldl (\<lambda>paid receipt. AList.update (settled_obligation_coverage.so_obligation_id receipt)
         (xadd (dict_get paid (settled_obligation_coverage.so_obligation_id receipt) 0) (so_amount receipt)) paid)
       [] (lo_settled_coverage liquidity)"

definition unpaid_obligations :: "liquidity_outcome \<Rightarrow> dated_cash_obligation list \<Rightarrow> dated_cash_obligation list" where
  "unpaid_obligations liquidity obligations =
     (let paid = paid_by_obligation liquidity in
      map (\<lambda>ob. ob\<lparr>co_amount := xsub (co_amount ob) (dict_get paid (co_obligation_id ob) 0)\<rparr>)
        (filter (\<lambda>ob. dict_get paid (co_obligation_id ob) 0 < co_amount ob) obligations))"

definition plan_resources ::
    "reconciled_position_snapshot \<Rightarrow> execution_leg list \<Rightarrow> available_cash_resource list" where
  "plan_resources snapshot legs =
     map (\<lambda>cash. \<lparr>ar_account_id = ac_account_id cash, ar_available_at = rs_cutoff_at snapshot,
         ar_amount = max 0 (xadd (case ac_transferable_cash cash of None \<Rightarrow> 0 | Some amount \<Rightarrow> amount)
           (xsum (map (\<lambda>leg. min 0 (xl_net_proceeds leg))
             (filter (\<lambda>leg. xl_account_id leg = ac_account_id cash) legs))))\<rparr>) (rs_cash_states snapshot) @
     map (\<lambda>leg. \<lparr>ar_account_id = xl_account_id leg, ar_available_at = rt_transferable_at (xl_route leg),
         ar_amount = xl_net_proceeds leg\<rparr>) (filter (\<lambda>leg. 0 < xl_net_proceeds leg) legs)"

definition deadline_gap ::
    "reconciled_position_snapshot \<Rightarrow> liquidity_command \<Rightarrow> dated_cash_obligation list \<Rightarrow> execution_leg list \<Rightarrow> decimal option" where
  "deadline_gap snapshot command obligations legs =
     map_option (\<lambda>funding. xsum (map of_uncovered_gap funding))
       (assess_available_cash execution_precision (plan_resources snapshot legs) (lc_transfer_routes command) obligations)"

definition routing_failed :: "execution_plan_outcome \<Rightarrow> bool" where
  "routing_failed plan \<longleftrightarrow>
     xp_reasons plan \<noteq> [] \<and> xp_reasons plan \<noteq> [''RISK_REMEDIATION_BLOCKED''] \<and>
     ''TRADING_UNIT_FULL_SALE'' \<notin> set (xp_reasons plan)"

definition stress_gap ::
    "portfolio_stress_outcome \<Rightarrow> decimal \<Rightarrow> decimal \<Rightarrow> decimal option" where
  "stress_gap stress stock sold =
     (if \<not> is_outstanding (st_obligation stress) then Some 0
      else case (st_obligation stress, st_calculation_policy stress, st_net_liquidation_equity stress) of
        (Some ob, Some policy, Some equity) \<Rightarrow>
          Some (max 0 (xsub (xmul (xsub stock sold) (xadd (sp_shock_ratio policy) (sp_disposal_friction_ratio policy)))
            (xmul (so_target_stress_ratio ob) equity)))
      | _ \<Rightarrow> None)"

definition project_plan ::
    "reconciled_position_snapshot \<Rightarrow> portfolio_stress_outcome \<Rightarrow> liquidity_outcome \<Rightarrow> drawdown_state \<Rightarrow>
     (execution_leg list \<Rightarrow> decimal option) \<Rightarrow> decimal \<Rightarrow> execution_plan_outcome \<Rightarrow> execution_plan_outcome option" where
  "project_plan snapshot stress liquidity drawdown funding_gap initial_value plan =
     (let stock = stock_value snapshot;
          sold = xsum (map xl_gross_proceeds (xp_legs plan));
          net_cash = xsum (map xl_net_proceeds (xp_legs plan));
          cash_required = (case lo_remediation_shortfall liquidity of None \<Rightarrow> 0 | Some shortfall \<Rightarrow> shortfall);
          exposure_gap = (case ds_stock_exposure_target_value drawdown of
            None \<Rightarrow> 0 | Some target_value \<Rightarrow> max 0 (xsub (xsub stock sold) target_value))
      in case (stress_gap stress stock sold, funding_gap (xp_legs plan)) of
           (Some gap, Some deadline) \<Rightarrow>
             Some (plan\<lparr>xp_initial_target_sale_value := Some initial_value, xp_projected_stress_gap := Some gap,
               xp_projected_cash_gap := Some (max (max 0 (xsub cash_required net_cash)) deadline),
               xp_projected_exposure_gap := Some exposure_gap\<rparr>)
         | _ \<Rightarrow> None)"

definition plan_restored :: "execution_plan_outcome \<Rightarrow> bool" where
  "plan_restored plan \<longleftrightarrow>
     xp_projected_stress_gap plan = xp_projected_cash_gap plan \<and>
     xp_projected_cash_gap plan = xp_projected_exposure_gap plan \<and> xp_projected_exposure_gap plan = Some 0"

definition portfolio_ids ::
    "portfolio_stress_outcome \<Rightarrow> liquidity_outcome \<Rightarrow> drawdown_state \<Rightarrow> str list" where
  "portfolio_ids stress liquidity drawdown =
     (if is_outstanding (st_obligation stress)
      then (case st_obligation stress of None \<Rightarrow> [] | Some ob \<Rightarrow> [stress_obligation.so_obligation_id ob]) else []) @
     (case lo_remediation_id liquidity of None \<Rightarrow> [] | Some rid \<Rightarrow> if rid = [] then [] else [rid]) @
     (if ds_risk_direction drawdown \<noteq> None then [ds_decision_id drawdown] else [])"

definition with_portfolio_ids :: "str list \<Rightarrow> execution_target \<Rightarrow> execution_target" where
  "with_portfolio_ids ids goal =
     goal\<lparr>xt_source_obligation_ids := dict_fromkeys (xt_source_obligation_ids goal @ ids),
       xt_direction := (if ids \<noteq> [] \<and> xt_direction goal = HOLD_TARGET then REDUCE_TARGET else xt_direction goal)\<rparr>"

text \<open>What is held, and what is still sellable after the first legs; by security.\<close>

fun holdings ::
    "(str \<times> decimal) list \<Rightarrow> (str \<times> decimal) list \<Rightarrow> position_action_unit list \<Rightarrow>
     ((str \<times> decimal) list \<times> (str \<times> decimal) list) option" where
  "holdings current sellable [] = Some (current, sellable)"
| "holdings current sellable (unit # units) =
     (case au_total_quantity unit of
        None \<Rightarrow> None
      | Some quantity \<Rightarrow>
          holdings (AList.update (au_security_id unit) (xadd (dict_get current (au_security_id unit) 0) quantity) current)
            (AList.update (au_security_id unit) (xadd (dict_get sellable (au_security_id unit) 0) (exact_quantity_of unit)) sellable)
            units)"

fun sell_legs :: "(str \<times> decimal) list \<Rightarrow> execution_leg list \<Rightarrow> (str \<times> decimal) list option" where
  "sell_legs sellable [] = Some sellable"
| "sell_legs sellable (leg # legs) =
     (case map_of sellable (xl_security_id leg) of
        None \<Rightarrow> None
      | Some quantity \<Rightarrow> sell_legs (AList.update (xl_security_id leg) (xsub quantity (xl_quantity leg)) sellable) legs)"

definition allocated_target ::
    "(str \<times> decimal) list \<Rightarrow> (str \<times> decimal) list \<Rightarrow> str list \<Rightarrow> decimal \<Rightarrow> execution_target \<Rightarrow> execution_target option" where
  "allocated_target current sellable ids fraction goal =
     (case (xt_remaining_quantity goal, map_of sellable (xt_security_id goal), map_of current (xt_security_id goal)) of
        (Some remaining, Some rest, Some quantity) \<Rightarrow>
          let cap = (if xt_rounding_induced_full_sale goal then xt_target_quantity goal
            else min (xt_target_quantity goal) (xsub remaining (xmul fraction rest)))
          in Some (goal\<lparr>xt_target_quantity := cap, xt_required_sale_quantity := Some (max 0 (xsub quantity cap)),
               xt_source_obligation_ids := dict_fromkeys (xt_source_obligation_ids goal @ ids),
               xt_direction := (if xt_direction goal = EXIT_TARGET then EXIT_TARGET else REDUCE_TARGET)\<rparr>)
      | _ \<Rightarrow> None)"

fun allocated_targets ::
    "(execution_target \<Rightarrow> execution_target option) \<Rightarrow> execution_target list \<Rightarrow> execution_target list option" where
  "allocated_targets f [] = Some []"
| "allocated_targets f (goal # goals) =
     (case f goal of
        None \<Rightarrow> None
      | Some revised \<Rightarrow> (case allocated_targets f goals of None \<Rightarrow> None | Some rest \<Rightarrow> Some (revised # rest)))"

text \<open>The bisection keeps the last plan that was checked to restore everything.\<close>

fun bisect_fraction ::
    "(decimal \<Rightarrow> execution_plan_outcome option) \<Rightarrow> nat \<Rightarrow> decimal \<Rightarrow> decimal \<Rightarrow> execution_plan_outcome \<Rightarrow>
     execution_plan_outcome option" where
  "bisect_fraction allocate 0 low high best = Some best"
| "bisect_fraction allocate (Suc n) low high best =
     (let middle = xdiv (xadd low high) 2 in
      case allocate middle of
        None \<Rightarrow> None
      | Some candidate \<Rightarrow>
          if plan_restored candidate then bisect_fraction allocate n low middle candidate
          else bisect_fraction allocate n middle high best)"

definition blocked_maximum :: "execution_plan_outcome \<Rightarrow> execution_plan_outcome \<Rightarrow> execution_plan_outcome" where
  "blocked_maximum initial maximum =
     (let plan = (if xp_projected_stress_gap maximum = xp_projected_stress_gap initial \<and>
            xp_projected_cash_gap maximum = xp_projected_cash_gap initial \<and>
            xp_projected_exposure_gap maximum = xp_projected_exposure_gap initial then initial else maximum)
      in plan\<lparr>xp_disposition := PLAN_BLOCKED,
           xp_reasons := dict_fromkeys (xp_reasons plan @ [''RISK_REMEDIATION_BLOCKED''])\<rparr>)"

definition conjoin_portfolio_targets ::
    "execution_plan_command \<Rightarrow> reconciled_position_snapshot \<Rightarrow> execution_target list \<Rightarrow> portfolio_stress_outcome \<Rightarrow>
     liquidity_outcome \<Rightarrow> drawdown_state \<Rightarrow> liquidity_command \<Rightarrow> execution_plan_outcome option" where
  "conjoin_portfolio_targets command snapshot goals stress liquidity drawdown liquidity_command = do {
     protection \<leftarrow> lo_protection_authorization liquidity;
     usage \<leftarrow> out_usage protection;
     let obligations = unpaid_obligations liquidity (us_unfinished_cash_obligations usage);
     let funding_gap = deadline_gap snapshot liquidity_command obligations;
     let gap_callback = (if obligations \<noteq> [] then Some funding_gap else None);
     let ids = portfolio_ids stress liquidity drawdown;
     routed \<leftarrow> route_targets command snapshot goals gap_callback;
     let initial_value = xsum (map xl_gross_proceeds (xp_legs routed));
     let project = project_plan snapshot stress liquidity drawdown funding_gap initial_value;
     projected \<leftarrow> project routed;
     let initial = projected\<lparr>xp_new_exposure_blocked := xp_new_exposure_blocked projected \<or>
           st_new_exposure_blocked stress \<or> lo_new_exposure_blocked liquidity \<or> ds_new_exposure_blocked drawdown,
         xp_targets := map (with_portfolio_ids ids) (xp_targets projected)\<rparr>;
     if routing_failed routed \<or> plan_restored initial then Some initial
     else do {
       (current, all_sellable) \<leftarrow> holdings [] [] (rs_action_units snapshot);
       sellable \<leftarrow> sell_legs all_sellable (xp_legs initial);
       let allocate = (\<lambda>fraction. do {
         revised \<leftarrow> allocated_targets (allocated_target current sellable ids fraction) (xp_targets initial);
         plan \<leftarrow> route_targets command snapshot revised gap_callback;
         project plan
       });
       maximum \<leftarrow> allocate 1;
       if \<not> plan_restored maximum then Some (blocked_maximum initial maximum)
       else bisect_fraction allocate 64 0 1 maximum
     }
   }"

end
