(* ===== verification/Execution_Plan.thy ===== *)
theory Execution_Plan
  imports Execution_Waterfall Host_Ledger
begin

text \<open>
  \<open>decision_cases/execution_plans.py\<close>: the targets of all earlier plans, of the established targets of the command, of the
  pending concentration obligations and of a portfolio in preservation are retained; the reports the command names are
  checked to be about one portfolio, one authorization, one cutoff and one snapshot; then the targets go through the
  waterfall.  \<open>None\<close> is a failing assertion of the waterfall.
\<close>

subsection \<open>Retained targets\<close>

type_synonym target_dict = "(str \<times> execution_target) list"

definition quantity_target :: "str \<Rightarrow> decimal \<Rightarrow> str list \<Rightarrow> target_direction \<Rightarrow> execution_target" where
  "quantity_target security quantity sources direction =
     \<lparr>xt_security_id = security, xt_target_quantity = quantity, xt_required_sale_quantity = None,
      xt_source_obligation_ids = sources, xt_remaining_quantity = None, xt_remaining_gap = None,
      xt_direction = direction, xt_rounding_induced_full_sale = False\<rparr>"

definition reduction_direction :: "decimal \<Rightarrow> target_direction" where
  "reduction_direction quantity = (if quantity = 0 then EXIT_TARGET else REDUCE_TARGET)"

definition retain :: "target_dict \<Rightarrow> execution_target \<Rightarrow> target_dict" where
  "retain retained goal =
     (let prior = map_of retained (xt_security_id goal);
          quantity = (case prior of None \<Rightarrow> xt_target_quantity goal
            | Some p \<Rightarrow> min (xt_target_quantity p) (xt_target_quantity goal));
          sources = dict_fromkeys ((case prior of None \<Rightarrow> [] | Some p \<Rightarrow> xt_source_obligation_ids p) @
            xt_source_obligation_ids goal)
      in AList.update (xt_security_id goal)
           (quantity_target (xt_security_id goal) quantity sources (reduction_direction quantity)) retained)"

definition history_targets :: "past_plan list \<Rightarrow> execution_target list" where
  "history_targets history =
     concat (map (\<lambda>(scope, command, plan). filter (\<lambda>goal. xt_source_obligation_ids goal \<noteq> []) (xp_targets plan)) history)"

definition established_targets :: "execution_plan_command \<Rightarrow> execution_target list" where
  "established_targets command =
     map (\<lambda>established. quantity_target (et_security_id established) (et_target_quantity established)
         [et_target_id established] (et_direction established))
       (filter (\<lambda>established. et_qualified established \<and>
           problem_codes (et_evidence established) (ep_cutoff_at command) True = []) (ep_established_targets command))"

definition issuer_targets :: "issuer_concentration \<Rightarrow> execution_target list" where
  "issuer_targets issuer =
     (case ic_obligation_id issuer of
        None \<Rightarrow> []
      | Some obligation_id \<Rightarrow>
          if ic_state issuer = ISSUER_RESOLVED then []
          else map (\<lambda>cap. quantity_target (cg_security_id cap) (cg_target_quantity cap) [obligation_id]
            (reduction_direction (cg_target_quantity cap))) (ic_targets issuer))"

definition concentration_targets ::
    "execution_plan_command \<Rightarrow> result_access_scope \<Rightarrow> 'r formal_report_scheme option \<Rightarrow> execution_target list" where
  "concentration_targets command scope report =
     (if \<not> scoped_report scope report then []
      else case Option.bind report fr_concentration of
        None \<Rightarrow> []
      | Some concentration \<Rightarrow>
          if cn_portfolio_id concentration = ep_portfolio_id command \<and> dt_eq (cn_cutoff_at concentration) (ep_cutoff_at command)
          then concat (map issuer_targets (cn_issuers concentration)) else [])"

definition preservation_targets ::
    "('f, 'r) host_ledger \<Rightarrow> execution_plan_command \<Rightarrow> result_access_scope \<Rightarrow> 'r formal_report_scheme option \<Rightarrow>
     execution_target list" where
  "preservation_targets ledger command scope report =
     (if \<not> scoped_report scope report then []
      else case Option.bind report fr_drawdown of
        None \<Rightarrow> []
      | Some drawdown \<Rightarrow>
          (case do_state drawdown of
             None \<Rightarrow> []
           | Some state \<Rightarrow>
               if do_disposition drawdown = ACCEPTED \<and> ds_risk_state state = PRESERVATION \<and>
                  dt_eq (ds_cutoff_at state) (ep_cutoff_at command) \<and> ds_portfolio_id state = ep_portfolio_id command \<and>
                  ds_authorization_id state = ep_authorization_id command
               then (case position_evidence_for_drawdown ledger scope (dv_position_event_id (ds_valuation state))
                        (ep_cutoff_at command) of
                      None \<Rightarrow> []
                    | Some position \<Rightarrow> map (\<lambda>unit. quantity_target (au_security_id unit) 0 [ds_decision_id state] EXIT_TARGET)
                        (rs_action_units (po_snapshot position)))
               else []))"

definition retained_targets ::
    "('f, 'r) host_ledger \<Rightarrow> execution_plan_command \<Rightarrow> result_access_scope \<Rightarrow> past_plan list \<Rightarrow> target_dict" where
  "retained_targets ledger command scope history =
     foldl retain []
       (history_targets history @ established_targets command @
        concentration_targets command scope (formal_report_for_event ledger (ep_concentration_event_id command)) @
        preservation_targets ledger command scope (formal_report_for_event ledger (ep_drawdown_event_id command)))"

subsection \<open>Refusals\<close>

fun history_refusal :: "result_access_scope \<Rightarrow> datetime \<Rightarrow> past_plan list \<Rightarrow> str option" where
  "history_refusal scope cutoff [] = None"
| "history_refusal scope cutoff ((prior_scope, prior_command, prior_plan) # history) =
     (if \<not> set (ras_account_ids prior_scope) \<subseteq> set (ras_account_ids scope) then Some ''EXECUTION_HISTORY_SCOPE_INCOMPLETE''
      else if cutoff < ep_cutoff_at prior_command then Some ''EXECUTION_SNAPSHOT_NOT_FORWARD''
      else history_refusal scope cutoff history)"

definition sorted_values :: "target_dict \<Rightarrow> execution_target list" where
  "sorted_values retained = List.map_filter (map_of retained) (sort (map fst retained))"

text \<open>What the four reports hand over.\<close>

record risk_handoff =
  rh_concentration :: concentration_outcome
  rh_stress :: portfolio_stress_outcome
  rh_liquidity :: liquidity_outcome
  rh_drawdown :: drawdown_outcome
  rh_state :: drawdown_state
  rh_position :: position_reconciliation_outcome
  rh_liquidity_command :: liquidity_command

definition risk_handoff_of ::
    "('f, 'r) host_ledger \<Rightarrow> execution_plan_command \<Rightarrow> result_access_scope \<Rightarrow> risk_handoff option" where
  "risk_handoff_of ledger command scope =
     (let report = formal_report_for_event ledger;
          reports = map report [ep_concentration_event_id command, ep_stress_event_id command,
            ep_liquidity_event_id command, ep_drawdown_event_id command]
      in if list_ex (\<lambda>r. \<not> scoped_report scope r) reports then None
         else do {
           concentration_report \<leftarrow> report (ep_concentration_event_id command);
           stress_report \<leftarrow> report (ep_stress_event_id command);
           liquidity_report \<leftarrow> report (ep_liquidity_event_id command);
           drawdown_report \<leftarrow> report (ep_drawdown_event_id command);
           liquidity_fact \<leftarrow> get_original_decision_event ledger (fr_business_object_id liquidity_report);
           liquidity_command \<leftarrow> hf_liquidity_command liquidity_fact;
           concentration \<leftarrow> fr_concentration concentration_report;
           stress \<leftarrow> fr_stress stress_report;
           liquidity \<leftarrow> fr_liquidity liquidity_report;
           drawdown \<leftarrow> fr_drawdown drawdown_report;
           position \<leftarrow> fr_position concentration_report;
           state \<leftarrow> do_state drawdown;
           Some \<lparr>rh_concentration = concentration, rh_stress = stress, rh_liquidity = liquidity, rh_drawdown = drawdown,
             rh_state = state, rh_position = position, rh_liquidity_command = liquidity_command\<rparr>
         })"

definition identity_mismatch ::
    "('f, 'r) host_ledger \<Rightarrow> execution_plan_command \<Rightarrow> result_access_scope \<Rightarrow> risk_handoff \<Rightarrow> bool" where
  "identity_mismatch ledger command scope h =
     (let concentration = rh_concentration h; stress = rh_stress h; liquidity = rh_liquidity h; state = rh_state h;
          position = rh_position h; snapshot = po_snapshot position;
          capital_position = position_evidence_for_drawdown ledger scope (dv_position_event_id (ds_valuation state))
            (ep_cutoff_at command)
      in cn_portfolio_id concentration \<noteq> ep_portfolio_id command \<or> st_portfolio_id stress \<noteq> ep_portfolio_id command \<or>
         ds_portfolio_id state \<noteq> ep_portfolio_id command \<or> st_authorization_id stress \<noteq> ep_authorization_id command \<or>
         lo_authorization_id liquidity \<noteq> ep_authorization_id command \<or>
         ds_authorization_id state \<noteq> ep_authorization_id command \<or>
         \<not> dt_eq (cn_cutoff_at concentration) (ep_cutoff_at command) \<or> \<not> dt_eq (st_cutoff_at stress) (ep_cutoff_at command) \<or>
         \<not> dt_eq (ds_cutoff_at state) (ep_cutoff_at command) \<or> \<not> dt_eq (rs_cutoff_at snapshot) (ep_cutoff_at command) \<or>
         cn_snapshot_id concentration \<noteq> rs_snapshot_id snapshot \<or> st_snapshot_id stress \<noteq> rs_snapshot_id snapshot \<or>
         \<not> position_eq (lo_position_snapshot liquidity) position \<or>
         (case capital_position of None \<Rightarrow> True | Some p \<Rightarrow> \<not> position_eq p position) \<or>
         cn_risk_budget_version_id concentration \<noteq> st_risk_budget_version_id stress)"

definition evidence_failed :: "risk_handoff \<Rightarrow> bool" where
  "evidence_failed h \<longleftrightarrow>
     cn_disposition (rh_concentration h) \<noteq> CONCENTRATION_ASSESSED \<or> st_state (rh_stress h) = UNKNOWN_STRESS \<or>
     do_disposition (rh_drawdown h) \<noteq> ACCEPTED \<or> lo_disposition (rh_liquidity h) = EVIDENCE_FAILED"

subsection \<open>The plan\<close>

fun total_quantities :: "(str \<times> decimal) list \<Rightarrow> position_action_unit list \<Rightarrow> (str \<times> decimal) list option" where
  "total_quantities quantities [] = Some quantities"
| "total_quantities quantities (unit # units) =
     (case au_total_quantity unit of
        None \<Rightarrow> None
      | Some quantity \<Rightarrow> total_quantities
          (AList.update (au_security_id unit) (xadd (dict_get quantities (au_security_id unit) 0) quantity) quantities) units)"

text \<open>The loop over \<open>retained.items()\<close>: the caps and the obligations of every security that is held.\<close>

fun cap_quantities ::
    "(str \<times> decimal) list \<Rightarrow> (str \<times> decimal) list \<Rightarrow> (str \<times> str list) list \<Rightarrow> target_dict \<Rightarrow>
     ((str \<times> decimal) list \<times> (str \<times> str list) list) option" where
  "cap_quantities quantities caps obligations [] = Some (caps, obligations)"
| "cap_quantities quantities caps obligations ((security, goal) # retained) =
     (if security \<notin> fst ` set quantities then None
      else cap_quantities quantities
        (AList.update security (min (dict_get caps security 0) (xt_target_quantity goal)) caps)
        (AList.update security (dict_get obligations security [] @ xt_source_obligation_ids goal) obligations) retained)"

definition basis_unresolved :: "execution_plan_command \<Rightarrow> authoritative_ledger_entry list \<Rightarrow> past_plan list \<Rightarrow> bool" where
  "basis_unresolved command entries history \<longleftrightarrow>
     list_ex (\<lambda>(prior_scope, prior_command, prior_plan). list_ex (\<lambda>entry.
         le_entry_type entry = CORPORATE_ACTION \<and> le_quantity_delta entry \<noteq> 0 \<and>
         ep_cutoff_at prior_command < le_occurred_at entry \<and> le_occurred_at entry \<le> ep_cutoff_at command \<and>
         (case le_security_id entry of None \<Rightarrow> False
          | Some security \<Rightarrow> security \<in> xt_security_id ` set (xp_targets prior_plan))) entries) history"

definition plan_targets ::
    "(str \<times> decimal) list \<Rightarrow> (str \<times> decimal) list \<Rightarrow> (str \<times> str list) list \<Rightarrow> execution_target list" where
  "plan_targets quantities caps obligations =
     map (\<lambda>security.
         let quantity = dict_get quantities security 0; cap = dict_get caps security 0 in
         (quantity_target security cap (dict_get obligations security [])
            (if cap = 0 then EXIT_TARGET else if cap < quantity then REDUCE_TARGET else HOLD_TARGET))
           \<lparr>xt_required_sale_quantity := Some (max 0 (xsub quantity cap))\<rparr>)
       (sort (map fst quantities))"

definition conjoined_plan ::
    "execution_plan_command \<Rightarrow> risk_handoff \<Rightarrow> execution_target list \<Rightarrow> execution_plan_outcome option" where
  "conjoined_plan command h goals =
     map_option (\<lambda>plan. plan\<lparr>xp_new_exposure_blocked := xp_new_exposure_blocked plan \<or>
           ds_new_exposure_blocked (rh_state h) \<or> st_new_exposure_blocked (rh_stress h) \<or>
           lo_new_exposure_blocked (rh_liquidity h) \<or> list_ex ic_new_exposure_blocked (cn_issuers (rh_concentration h))\<rparr>)
       (conjoin_portfolio_targets command (po_snapshot (rh_position h)) goals (rh_stress h) (rh_liquidity h) (rh_state h)
         (rh_liquidity_command h))"

definition adjudicate_execution_plan ::
    "('f, 'r) host_ledger \<Rightarrow> result_access_scope \<Rightarrow> execution_plan_command \<Rightarrow> execution_plan_outcome option" where
  "adjudicate_execution_plan ledger scope command =
     (let history = execution_plan_history ledger scope (ep_portfolio_id command) in
      case history_refusal scope (ep_cutoff_at command) history of
        Some reason \<Rightarrow> Some (blocked_plan [reason] [])
      | None \<Rightarrow>
          let retained = retained_targets ledger command scope history;
              missing = (\<lambda>reason. Some (blocked_plan [reason] (sorted_values retained)))
          in case risk_handoff_of ledger command scope of
               None \<Rightarrow> missing ''RISK_HANDOFF_UNAVAILABLE''
             | Some h \<Rightarrow>
                 if identity_mismatch ledger command scope h then missing ''RISK_HANDOFF_IDENTITY_MISMATCH''
                 else if evidence_failed h then missing ''RISK_HANDOFF_EVIDENCE_FAILED''
                 else case total_quantities [] (rs_action_units (po_snapshot (rh_position h))) of
                   None \<Rightarrow> missing ''POSITION_QUANTITY_UNKNOWN''
                 | Some quantities \<Rightarrow>
                     (case cap_quantities quantities quantities (map (\<lambda>(security, quantity). (security, [])) quantities) retained of
                        None \<Rightarrow> missing ''TARGET_SCOPE_INVALID''
                      | Some (caps, obligations) \<Rightarrow>
                          if basis_unresolved command (position_ledger_history ledger scope (ep_cutoff_at command)) history
                          then missing ''EXECUTION_QUANTITY_BASIS_UNRESOLVED''
                          else conjoined_plan command h (plan_targets quantities caps obligations)))"

end
