(* ===== verification/Position_Actions.thy ===== *)
theory Position_Actions
  imports Action_Costs Execution_Plan
begin

text \<open>
  \<open>decision_cases/position_actions.py\<close>: the conclusion on one position, from the security evidence, the retained targets
  of its lifecycle, the execution plan and the statistical direction.  What \<open>check_action_qualification\<close> returns for the
  qualification of the policy is an argument, \<open>check\<close>.  \<open>None\<close> is a failing assertion, of this module or of the
  execution plan, or a contract that refuses its fields.
\<close>

subsection \<open>Targets and anchors\<close>

definition make_established ::
    "position_action_policy \<Rightarrow> position_evidence \<Rightarrow> str option \<Rightarrow> str \<Rightarrow> str \<Rightarrow> decimal \<Rightarrow> established_quantity_target option" where
  "make_established policy evidence priority target_id security quantity =
     (let established = \<lparr>et_target_id = target_id, et_security_id = security, et_target_quantity = quantity,
            et_direction = reduction_direction quantity, et_qualified = True, et_policy_version = ay_version_id policy,
            et_priority = priority, et_evidence = evidence\<rparr>
      in if quantity < 0 \<or> validate_direction established \<noteq> None then None else Some established)"

fun those_made :: "'a option list \<Rightarrow> 'a list option" where
  "those_made [] = Some []"
| "those_made (x # xs) = (case x of None \<Rightarrow> None
     | Some y \<Rightarrow> (case those_made xs of None \<Rightarrow> None | Some ys \<Rightarrow> Some (y # ys)))"

text \<open>One established target for every source obligation of the targets.\<close>

definition established_for ::
    "position_action_policy \<Rightarrow> position_evidence \<Rightarrow> execution_target list \<Rightarrow> established_quantity_target list option" where
  "established_for policy evidence goals =
     those_made (concat (map (\<lambda>goal. map (\<lambda>identity.
         make_established policy evidence None identity (xt_security_id goal) (xt_target_quantity goal))
       (xt_source_obligation_ids goal)) goals))"

definition with_established ::
    "execution_plan_command \<Rightarrow> established_quantity_target list \<Rightarrow> execution_plan_command" where
  "with_established command established = command\<lparr>ep_established_targets := ep_established_targets command @ established\<rparr>"

definition new_cost_anchor ::
    "str \<Rightarrow> position_action_command \<Rightarrow> position_reconciliation_outcome \<Rightarrow> statistical_reduction_anchor option" where
  "new_cost_anchor event_id command position =
     (let units = security_units (po_snapshot position) (pn_security_id command);
          quantity = units_quantity units; market_value = units_value units
      in if po_disposition position \<noteq> RECONCILED \<or> units = [] \<or>
            list_ex (\<lambda>unit. au_total_quantity unit = None \<or> au_market_price unit = None) units \<or>
            quantity \<le> 0 \<or> market_value \<le> 0
         then None
         else Some \<lparr>sr_event_id = event_id, sr_quantity = quantity, sr_market_value = market_value,
           sr_frozen_at = pn_cutoff_at command\<rparr>)"

definition complete_quantity_gaps :: "execution_plan_outcome \<Rightarrow> str \<Rightarrow> decimal \<Rightarrow> execution_plan_outcome" where
  "complete_quantity_gaps plan security current =
     (let remaining = xsub current (xsum (map xl_quantity (filter (\<lambda>leg. xl_security_id leg = security) (xp_legs plan))))
      in plan\<lparr>xp_targets := map (\<lambda>goal.
           if xt_security_id goal = security \<and> xt_remaining_gap goal = None
           then goal\<lparr>xt_remaining_quantity := Some remaining,
             xt_remaining_gap := Some (max 0 (xsub remaining (xt_target_quantity goal)))\<rparr>
           else goal) (xp_targets plan)\<rparr>)"

subsection \<open>The past of a lifecycle\<close>

definition obliged_target :: "str \<Rightarrow> execution_target \<Rightarrow> bool" where
  "obliged_target security goal \<longleftrightarrow> xt_security_id goal = security \<and> xt_source_obligation_ids goal \<noteq> []"

fun action_refusal :: "result_access_scope \<Rightarrow> position_action_command \<Rightarrow> past_action list \<Rightarrow> str option" where
  "action_refusal scope command [] = None"
| "action_refusal scope command ((prior_scope, prior, outcome) # history) =
     (if pn_security_id prior \<noteq> pn_security_id command then Some ''ACTION_HISTORY_SECURITY_MISMATCH''
      else if \<not> same_scope_as scope prior_scope then Some ''ACTION_HISTORY_SCOPE_INCOMPLETE''
      else if pn_cutoff_at command < pn_cutoff_at prior then Some ''ACTION_SNAPSHOT_NOT_FORWARD''
      else action_refusal scope command history)"

definition first_anchor ::
    "(position_action_outcome \<Rightarrow> statistical_reduction_anchor option) \<Rightarrow> past_action list \<Rightarrow> statistical_reduction_anchor option" where
  "first_anchor anchor_of history =
     (case List.map_filter (\<lambda>(scope, command, outcome). anchor_of outcome) history of [] \<Rightarrow> None | anchor # _ \<Rightarrow> Some anchor)"

definition exit_seen :: "past_action list \<Rightarrow> bool" where
  "exit_seen history =
     list_ex (\<lambda>(scope, command, outcome). px_direction outcome \<in> {Some REDUCE_TARGET, Some EXIT_TARGET}) history"

definition past_targets :: "past_action list \<Rightarrow> execution_target list" where
  "past_targets history =
     concat (map (\<lambda>(scope, command, outcome).
       case px_execution outcome of None \<Rightarrow> [] | Some plan \<Rightarrow> xp_targets plan) history)"

text \<open>The plan an earlier action owes to deterministic risk, or to a hard gate of its security.\<close>

definition deterministic_plan_of :: "action_ledger \<Rightarrow> past_action \<Rightarrow> execution_plan_outcome option" where
  "deterministic_plan_of ledger past =
     (case past of (scope, command, outcome) \<Rightarrow>
        (case px_deterministic_execution outcome of
           Some plan \<Rightarrow> Some plan
         | None \<Rightarrow>
             (case Option.bind (formal_report_for_event ledger (pn_security_event_id command)) fr_exit_assessment of
                None \<Rightarrow> None
              | Some security \<Rightarrow> if eo_hard_gates security \<noteq> [] then px_execution outcome else None)))"

definition inherited_targets ::
    "action_ledger \<Rightarrow> result_access_scope \<Rightarrow> position_action_command \<Rightarrow> established_quantity_target list option" where
  "inherited_targets ledger scope command =
     (case Option.bind (formal_report_for_event ledger (ep_concentration_event_id (pn_execution command))) fr_position of
        None \<Rightarrow> Some []
      | Some position \<Rightarrow>
          established_for (pn_policy command) (rs_snapshot_evidence (po_snapshot position))
            (concat (map (\<lambda>past. case past of (prior_scope, original, outcome) \<Rightarrow>
                 if \<not> same_scope_as scope prior_scope \<or> pn_cutoff_at command < pn_cutoff_at original then []
                 else (case deterministic_plan_of ledger past of None \<Rightarrow> [] | Some plan \<Rightarrow> xp_targets plan))
               (position_action_history ledger scope (ep_portfolio_id (pn_execution command)) (pn_lifecycle_id command)))))"

subsection \<open>What is concluded when a handoff is missing\<close>

definition handoff_missing :: "position_action_command \<Rightarrow> position_action_outcome" where
  "handoff_missing command =
     \<lparr>px_disposition = ACTION_BLOCKED, px_security_id = pn_security_id command, px_lifecycle_id = pn_lifecycle_id command,
      px_direction = None, px_model_direction = None, px_target_quantity = None, px_current_quantity = None,
      px_selected_grid = None, px_reasons = [''ACTION_HANDOFF_UNAVAILABLE''], px_deterministic_execution = None,
      px_execution = None, px_anchor = None, px_cost_anchor = None\<rparr>"

definition independent_target_of :: "position_action_command \<Rightarrow> execution_plan_outcome \<Rightarrow> execution_target option" where
  "independent_target_of command base_plan = find (obliged_target (pn_security_id command)) (xp_targets base_plan)"

definition independent_conclusion ::
    "position_action_command \<Rightarrow> execution_plan_outcome \<Rightarrow> position_action_outcome" where
  "independent_conclusion command base_plan =
     (case independent_target_of command base_plan of
        None \<Rightarrow> handoff_missing command
      | Some goal \<Rightarrow> (handoff_missing command)
          \<lparr>px_disposition := CONCLUDED, px_direction := Some (reduction_direction (xt_target_quantity goal)),
           px_target_quantity := Some (xt_target_quantity goal),
           px_execution := Some (base_plan\<lparr>xp_disposition := PLAN_BLOCKED\<rparr>)\<rparr>)"

definition binding_targets ::
    "position_action_command \<Rightarrow> past_action list \<Rightarrow> execution_plan_outcome \<Rightarrow> execution_target list" where
  "binding_targets command history base_plan =
     filter (obliged_target (pn_security_id command)) (past_targets history) @
     (case independent_target_of command base_plan of None \<Rightarrow> [] | Some goal \<Rightarrow> [goal])"

definition ceiling_target :: "str \<Rightarrow> execution_target list \<Rightarrow> execution_target" where
  "ceiling_target security goals =
     (let ceiling = Min (set (map xt_target_quantity goals))
      in quantity_target security ceiling (dict_fromkeys (concat (map xt_source_obligation_ids goals)))
           (reduction_direction ceiling))"

definition others_of :: "str \<Rightarrow> execution_plan_outcome \<Rightarrow> execution_target list" where
  "others_of security plan = filter (\<lambda>goal. xt_security_id goal \<noteq> security) (xp_targets plan)"

definition retained_conclusion ::
    "position_action_command \<Rightarrow> past_action list \<Rightarrow> execution_plan_outcome \<Rightarrow> position_action_outcome" where
  "retained_conclusion command history base_plan =
     (let missing = independent_conclusion command base_plan; goals = binding_targets command history base_plan
      in if goals = [] then missing
         else let retained = ceiling_target (pn_security_id command) goals
           in missing\<lparr>px_disposition := CONCLUDED, px_direction := Some (xt_direction retained),
                px_target_quantity := Some (xt_target_quantity retained),
                px_anchor := first_anchor px_anchor history, px_cost_anchor := first_anchor px_cost_anchor history,
                px_execution := Some (base_plan\<lparr>xp_disposition := PLAN_BLOCKED, xp_legs := [],
                  xp_targets := retained # others_of (pn_security_id command) base_plan\<rparr>)\<rparr>)"

definition exit_directions :: "target_direction option set" where
  "exit_directions = {Some REDUCE_TARGET, Some EXIT_TARGET}"

definition anchored_conclusion ::
    "str \<Rightarrow> position_action_command \<Rightarrow> past_action list \<Rightarrow> position_reconciliation_outcome option \<Rightarrow>
     position_action_outcome \<Rightarrow> position_action_outcome" where
  "anchored_conclusion event_id command history position missing =
     (case position of
        None \<Rightarrow> missing
      | Some p \<Rightarrow>
          if px_direction missing \<in> exit_directions \<and> \<not> exit_seen history \<and>
             dt_eq (rs_cutoff_at (po_snapshot p)) (pn_cutoff_at command)
          then missing\<lparr>px_cost_anchor := new_cost_anchor event_id command p\<rparr> else missing)"

subsection \<open>The conclusion\<close>

text \<open>The security handoff: the published assessment and the command that asked for it.\<close>

definition security_handoff ::
    "action_ledger \<Rightarrow> result_access_scope \<Rightarrow> position_action_command \<Rightarrow> (security_assessment \<times> exit_outcome) option" where
  "security_handoff ledger scope command =
     (let report = formal_report_for_event ledger (pn_security_event_id command)
      in if \<not> scoped_report scope report then None
         else case (Option.bind (get_decision_event ledger (pn_security_event_id command)) hf_exit_command,
               Option.bind report fr_exit_assessment) of
           (Some (ASSESS_SECURITY assessment), Some security) \<Rightarrow>
             if sa_security_id assessment \<noteq> pn_security_id command \<or> sa_lifecycle_id assessment \<noteq> pn_lifecycle_id command \<or>
                \<not> dt_eq (sa_cutoff_at assessment) (pn_cutoff_at command)
             then None else Some (assessment, security)
         | _ \<Rightarrow> None)"

definition position_handoff ::
    "action_ledger \<Rightarrow> result_access_scope \<Rightarrow> position_action_command \<Rightarrow> position_reconciliation_outcome option" where
  "position_handoff ledger scope command =
     (let report = formal_report_for_event ledger (ep_concentration_event_id (pn_execution command))
      in if scoped_report scope report then Option.bind report fr_position else None)"

definition gate_ids :: "exit_outcome \<Rightarrow> str list" where
  "gate_ids security = map hg_gate_id (eo_hard_gates security)"

text \<open>A hard gate exits even where the position is unknown.\<close>

definition unresolved_exit ::
    "position_action_command \<Rightarrow> execution_plan_outcome \<Rightarrow> exit_outcome \<Rightarrow> position_action_outcome \<Rightarrow> position_action_outcome" where
  "unresolved_exit command base_plan security missing =
     (let zero = quantity_target (pn_security_id command) 0 [pn_security_event_id command] EXIT_TARGET
      in missing\<lparr>px_disposition := CONCLUDED, px_direction := Some EXIT_TARGET, px_target_quantity := Some 0,
           px_current_quantity := None, px_reasons := px_reasons missing @ gate_ids security,
           px_execution := Some (base_plan\<lparr>xp_disposition := PLAN_BLOCKED,
             xp_targets := zero # others_of (pn_security_id command) base_plan\<rparr>)\<rparr>)"

definition liquidation_exit ::
    "str \<Rightarrow> position_action_command \<Rightarrow> past_action list \<Rightarrow> position_reconciliation_outcome \<Rightarrow> exit_outcome \<Rightarrow>
     execution_plan_outcome \<Rightarrow> decimal \<Rightarrow> position_action_outcome" where
  "liquidation_exit event_id command history position security plan quantity =
     (let prior_cost_anchor = first_anchor px_cost_anchor history
      in (handoff_missing command)
        \<lparr>px_disposition := CONCLUDED, px_direction := Some EXIT_TARGET, px_target_quantity := Some 0,
         px_current_quantity := Some quantity,
         px_reasons := (if gate_ids security = [] then [''ESTABLISHED_LIQUIDATION_TARGET''] else gate_ids security),
         px_execution := Some (complete_quantity_gaps plan (pn_security_id command) quantity),
         px_anchor := first_anchor px_anchor history,
         px_cost_anchor := (if prior_cost_anchor \<noteq> None then prior_cost_anchor
           else if exit_seen history then None else new_cost_anchor event_id command position)\<rparr>)"

definition risk_buffer ::
    "action_ledger \<Rightarrow> position_action_command \<Rightarrow> position_action_unit list \<Rightarrow> bool" where
  "risk_buffer ledger command units =
     (let report = formal_report_for_event ledger; execution = pn_execution command
      in case (Option.bind (report (ep_concentration_event_id execution)) fr_concentration,
               Option.bind (report (ep_stress_event_id execution)) fr_stress,
               Option.bind (report (ep_liquidity_event_id execution)) fr_liquidity,
               Option.bind (Option.bind (report (ep_drawdown_event_id execution)) fr_drawdown) do_state) of
           (Some concentration, Some stress, Some liquidity, Some state) \<Rightarrow>
             list_ex (\<lambda>issuer. list_ex (\<lambda>unit. au_issuer_id unit = ic_issuer_id issuer) units \<and>
               ic_new_exposure_blocked issuer) (cn_issuers concentration) \<or>
             st_new_exposure_blocked stress \<or> lo_new_exposure_blocked liquidity \<or> ds_risk_state state \<noteq> RISK_NORMAL
         | _ \<Rightarrow> True)"

definition quantity_basis_unresolved ::
    "position_action_command \<Rightarrow> reconciled_position_snapshot \<Rightarrow> statistical_reduction_anchor option \<Rightarrow> bool" where
  "quantity_basis_unresolved command snapshot prior_anchor =
     (case prior_anchor of
        None \<Rightarrow> False
      | Some anchor \<Rightarrow> list_ex (\<lambda>entry.
          le_security_id entry = Some (pn_security_id command) \<and> le_entry_type entry = CORPORATE_ACTION \<and>
          le_quantity_delta entry \<noteq> 0 \<and> sr_frozen_at anchor < le_occurred_at entry \<and>
          le_occurred_at entry \<le> pn_cutoff_at command) (rs_authoritative_ledger snapshot))"

definition handoff_prefixes :: "str list" where
  "handoff_prefixes = [''RISK_HANDOFF'', ''EXECUTION_HISTORY'', ''EXECUTION_SNAPSHOT'', ''TARGET_SCOPE'']"

definition startswith :: "str \<Rightarrow> str \<Rightarrow> bool" where
  "startswith s prefix \<longleftrightarrow> take (length prefix) s = prefix"

definition fact_reasons ::
    "position_action_command \<Rightarrow> past_action list \<Rightarrow> position_reconciliation_outcome \<Rightarrow> exit_outcome \<Rightarrow>
     execution_plan_outcome \<Rightarrow> decimal \<Rightarrow> str list" where
  "fact_reasons command history position security plan quantity =
     (if quantity_basis_unresolved command (po_snapshot position) (first_anchor px_anchor history)
      then [''EXECUTION_QUANTITY_BASIS_UNRESOLVED''] else []) @
     (if quantity \<le> 0 \<or> po_disposition position \<noteq> RECONCILED \<or>
         list_ex (\<lambda>unit. au_market_price unit \<noteq> eo_standard_price security)
           (security_units (po_snapshot position) (pn_security_id command))
      then [''POSITION_FACTS_UNRESOLVED''] else []) @
     (if list_ex (\<lambda>reason. list_ex (startswith reason) handoff_prefixes) (xp_reasons plan)
      then [''RISK_HANDOFF_UNAVAILABLE''] else [])"

definition reduction_anchor ::
    "str \<Rightarrow> position_action_command \<Rightarrow> past_action list \<Rightarrow> exit_outcome \<Rightarrow> decimal \<Rightarrow> statistical_reduction_anchor option" where
  "reduction_anchor event_id command history security quantity =
     (case first_anchor px_anchor history of
        Some anchor \<Rightarrow> Some anchor
      | None \<Rightarrow>
          let market_value = xmul quantity (or_zero (eo_standard_price security))
          in if quantity \<le> 0 \<or> market_value \<le> 0 then None
             else Some \<lparr>sr_event_id = event_id, sr_quantity = quantity, sr_market_value = market_value,
               sr_frozen_at = pn_cutoff_at command\<rparr>)"

record action_step =
  as_direction :: "target_direction option"
  as_target :: "decimal option"
  as_anchor :: "statistical_reduction_anchor option"
  as_plan :: execution_plan_outcome
  as_reasons :: "str list"

text \<open>The plan with the target of the statistical direction.\<close>

definition directed_plan ::
    "action_ledger \<Rightarrow> result_access_scope \<Rightarrow> str \<Rightarrow> position_action_command \<Rightarrow> past_action list \<Rightarrow>
     position_reconciliation_outcome \<Rightarrow> exit_outcome \<Rightarrow> execution_plan_command \<Rightarrow> execution_plan_outcome \<Rightarrow> decimal \<Rightarrow>
     target_direction option \<Rightarrow> str list \<Rightarrow> action_step option" where
  "directed_plan ledger scope event_id command history position security execution plan quantity direction reasons =
     (let evidence = rs_snapshot_evidence (po_snapshot position);
          extended = (\<lambda>target_id target_quantity. do {
            established \<leftarrow> make_established (pn_policy command) evidence (Some ''P2'') target_id (pn_security_id command) target_quantity;
            adjudicate_execution_plan ledger scope (with_established execution [established])
          })
      in case direction of
           None \<Rightarrow> Some \<lparr>as_direction = None, as_target = None, as_anchor = None, as_plan = plan, as_reasons = reasons\<rparr>
         | Some HOLD_TARGET \<Rightarrow> Some \<lparr>as_direction = direction, as_target = Some quantity, as_anchor = None, as_plan = plan,
             as_reasons = reasons\<rparr>
         | Some EXIT_TARGET \<Rightarrow> map_option (\<lambda>revised. \<lparr>as_direction = direction, as_target = Some 0, as_anchor = None,
             as_plan = revised, as_reasons = reasons\<rparr>) (extended event_id 0)
         | Some REDUCE_TARGET \<Rightarrow>
             (case reduction_anchor event_id command history security quantity of
                None \<Rightarrow> None
              | Some anchor \<Rightarrow>
                  let target_quantity = min quantity (xmul (sr_quantity anchor) (ay_reduction_ratio (pn_policy command)))
                  in if target_quantity = 0 then None
                     else map_option (\<lambda>revised. \<lparr>as_direction = direction, as_target = Some target_quantity, as_anchor = Some anchor,
                       as_plan = revised, as_reasons = reasons\<rparr>) (extended (sr_event_id anchor) target_quantity)))"

text \<open>An action whose cost is unknown or out of its budget falls back to the retained targets.\<close>

definition within_costs ::
    "action_ledger \<Rightarrow> result_access_scope \<Rightarrow> position_action_command \<Rightarrow> established_quantity_target list \<Rightarrow> action_cost \<Rightarrow>
     action_step \<Rightarrow> action_step option" where
  "within_costs ledger scope command retained cost action =
     (if \<not> az_evidence_failed cost \<and> \<not> az_outside_envelope cost then Some action
      else map_option (\<lambda>revised. \<lparr>as_direction = None, as_target = None, as_anchor = None, as_plan = revised,
          as_reasons = as_reasons action @
            [if az_evidence_failed cost then ''EXECUTION_COST_EVIDENCE_FAILED'' else ''STATISTICAL_COST_OUT_OF_SCOPE'']\<rparr>)
        (adjudicate_execution_plan ledger scope ((pn_execution command)\<lparr>ep_established_targets := retained\<rparr>)))"

text \<open>The strictest target: an obliged target of the plan binds where it is below what is concluded.\<close>

definition conjoin_strictest :: "str \<Rightarrow> action_step \<Rightarrow> action_step" where
  "conjoin_strictest security action =
     (case find (obliged_target security) (xp_targets (as_plan action)) of
        None \<Rightarrow> action
      | Some effective \<Rightarrow>
          (if (case as_target action of None \<Rightarrow> True | Some target_quantity \<Rightarrow> xt_target_quantity effective < target_quantity)
           then action\<lparr>as_target := Some (xt_target_quantity effective),
             as_direction := Some (reduction_direction (xt_target_quantity effective))\<rparr>
           else action)\<lparr>as_reasons := as_reasons action @ [''STRICTEST_TARGET_CONJUNCTION'']\<rparr>)"

definition observation_reasons :: "str list" where
  "observation_reasons =
     [''POSITION_FACTS_UNRESOLVED'', ''RISK_HANDOFF_UNAVAILABLE'', ''STATISTICAL_EVIDENCE_UNAVAILABLE'',
      ''BUSINESS_PREREQUISITE_FAILED'', ''EXECUTION_QUANTITY_BASIS_UNRESOLVED'']"

definition action_outcome ::
    "str \<Rightarrow> position_action_command \<Rightarrow> past_action list \<Rightarrow> position_reconciliation_outcome \<Rightarrow> decimal \<Rightarrow> str \<Rightarrow>
     target_direction option \<Rightarrow> bool \<Rightarrow> action_step \<Rightarrow> position_action_outcome" where
  "action_outcome event_id command history position quantity grid model_direction cost_failure action =
     (let prior_anchor = first_anchor px_anchor history; plan = as_plan action;
          final_plan = (if quantity_basis_unresolved command (po_snapshot position) prior_anchor
            then plan\<lparr>xp_disposition := PLAN_BLOCKED, xp_legs := [],
              xp_reasons := xp_reasons plan @ [''EXECUTION_QUANTITY_BASIS_UNRESOLVED''],
              xp_targets := map (\<lambda>goal. goal\<lparr>xt_remaining_quantity := None, xt_remaining_gap := None\<rparr>) (xp_targets plan)\<rparr>
            else complete_quantity_gaps plan (pn_security_id command) quantity)
      in (handoff_missing command)
        \<lparr>px_disposition := (if as_direction action \<noteq> None then CONCLUDED
           else if cost_failure \<or> list_ex (\<lambda>reason. reason \<in> set observation_reasons) (as_reasons action)
           then DATA_OBSERVATION else ABSTAINED),
         px_direction := as_direction action, px_model_direction := model_direction,
         px_target_quantity := as_target action, px_current_quantity := Some quantity, px_selected_grid := Some grid,
         px_execution := Some final_plan,
         px_anchor := (if as_anchor action \<noteq> None then as_anchor action else prior_anchor),
         px_cost_anchor := (if as_direction action \<in> exit_directions \<and> \<not> exit_seen history
           then new_cost_anchor event_id command position else first_anchor px_cost_anchor history),
         px_reasons := as_reasons action @ (if model_direction = None then [''STATISTICAL_MATRIX_ABSTAINED''] else [])\<rparr>)"

text \<open>The qualification of the policy: its reasons for an assessment, a security outcome, a position and a grid.\<close>

type_synonym qualification_check =
  "security_assessment \<Rightarrow> exit_outcome \<Rightarrow> position_reconciliation_outcome \<Rightarrow> str \<Rightarrow> str list"

definition statistical_conclusion ::
    "action_ledger \<Rightarrow> result_access_scope \<Rightarrow> str \<Rightarrow> bool \<Rightarrow> qualification_check \<Rightarrow> position_action_command \<Rightarrow>
     past_action list \<Rightarrow> position_reconciliation_outcome \<Rightarrow> security_assessment \<Rightarrow> exit_outcome \<Rightarrow>
     established_quantity_target list \<Rightarrow> execution_plan_command \<Rightarrow> execution_plan_outcome \<Rightarrow> decimal \<Rightarrow> position_action_outcome option" where
  "statistical_conclusion ledger scope event_id prerequisite_met check command history position assessment security retained execution plan quantity =
     (let units = security_units (po_snapshot position) (pn_security_id command);
          grid = (if risk_buffer ledger command units then risk_grid else normal_grid);
          reasons = fact_reasons command history position security plan quantity @ check assessment security position grid;
          statistical = assess_statistical_action (pn_policy command) (eo_probabilities security) grid;
          direction = (if prerequisite_met \<and> reasons = [] then sx_direction statistical else None);
          stated = reasons @ (if \<not> prerequisite_met then [''BUSINESS_PREREQUISITE_FAILED''] else []) @
            (if direction = None \<and> sx_evidence_missing statistical then [''STATISTICAL_EVIDENCE_UNAVAILABLE''] else [])
      in do {
        action \<leftarrow> directed_plan ledger scope event_id command history position security execution plan quantity direction stated;
        cost \<leftarrow> assess_action_costs command position (as_plan action) (first_anchor px_cost_anchor history) (exit_seen history);
        affordable \<leftarrow> within_costs ledger scope command retained cost action;
        Some (action_outcome event_id command history position quantity grid direction (az_evidence_failed cost)
          (conjoin_strictest (pn_security_id command) affordable))
      })"

definition adjudicate_action ::
    "action_ledger \<Rightarrow> result_access_scope \<Rightarrow> str \<Rightarrow> bool \<Rightarrow> qualification_check \<Rightarrow> position_action_command \<Rightarrow>
     execution_plan_outcome \<Rightarrow> position_action_outcome option" where
  "adjudicate_action ledger scope event_id prerequisite_met check command base_plan =
     (let history = position_action_history ledger scope (ep_portfolio_id (pn_execution command)) (pn_lifecycle_id command)
      in case action_refusal scope command history of
           Some reason \<Rightarrow> Some ((independent_conclusion command base_plan)\<lparr>px_reasons := [reason]\<rparr>)
         | None \<Rightarrow>
             let position = position_handoff ledger scope command;
                 missing = anchored_conclusion event_id command history position (retained_conclusion command history base_plan)
             in case security_handoff ledger scope command of
                  None \<Rightarrow> Some missing
                | Some (assessment, security) \<Rightarrow>
                    (case position of
                       None \<Rightarrow> Some (if eo_hard_gates security = [] then missing else unresolved_exit command base_plan security missing)
                     | Some p \<Rightarrow>
                         let units = security_units (po_snapshot p) (pn_security_id command); quantity = units_quantity units
                         in if \<not> dt_eq (rs_cutoff_at (po_snapshot p)) (pn_cutoff_at command) \<or>
                               list_ex (\<lambda>unit. au_total_quantity unit = None) units
                            then Some (if eo_hard_gates security = [] then missing else unresolved_exit command base_plan security missing)
                            else if units = [] then Some missing
                            else do {
                              retained \<leftarrow> established_for (pn_policy command) (rs_snapshot_evidence (po_snapshot p))
                                (filter (\<lambda>goal. xt_security_id goal = pn_security_id command) (past_targets history));
                              gate \<leftarrow> (if eo_hard_gates security = [] then Some []
                                else map_option (\<lambda>established. [established]) (make_established (pn_policy command)
                                  (rs_snapshot_evidence (po_snapshot p)) (Some ''P0'') (pn_security_event_id command) (pn_security_id command) 0));
                              let execution = with_established (with_established (pn_execution command) retained) gate;
                              plan \<leftarrow> adjudicate_execution_plan ledger scope execution;
                              if eo_hard_gates security \<noteq> [] \<or>
                                 list_ex (\<lambda>goal. obliged_target (pn_security_id command) goal \<and> xt_target_quantity goal = 0) (xp_targets plan)
                              then Some (liquidation_exit event_id command history p security plan quantity)
                              else statistical_conclusion ledger scope event_id prerequisite_met check command history p assessment security
                                retained execution plan quantity
                            }))"

definition adjudicate_position_action ::
    "action_ledger \<Rightarrow> result_access_scope \<Rightarrow> str \<Rightarrow> bool \<Rightarrow> qualification_check \<Rightarrow> position_action_command \<Rightarrow>
     position_action_outcome option" where
  "adjudicate_position_action ledger scope event_id prerequisite_met check command = do {
     inherited \<leftarrow> inherited_targets ledger scope command;
     base_plan \<leftarrow> adjudicate_execution_plan ledger scope (with_established (pn_execution command) inherited);
     outcome \<leftarrow> adjudicate_action ledger scope event_id prerequisite_met check command base_plan;
     let protective = (case Option.bind (formal_report_for_event ledger (pn_security_event_id command)) fr_exit_assessment of
       None \<Rightarrow> False | Some security \<Rightarrow> eo_hard_gates security \<noteq> []);
     Some (outcome\<lparr>px_deterministic_execution := (if protective then px_execution outcome else Some base_plan)\<rparr>)
   }"

end
