(* ===== verification/Execution_Properties.thy ===== *)
theory Execution_Properties
  imports Execution_Routing
begin

text \<open>
  The exhaustive search of \<open>route_targets\<close>: it ends in a plan, every leg is a legal quantity within what can be sold,
  for every target the sale is the least legal one that reaches what is required, and the plan has the least rank
  of all plans that sell as much.
\<close>

subsection \<open>Units and their quantities\<close>

lemma units_of_distinct: "distinct (map fst (units_of snapshot))"
  by (simp add: units_of_def dict_of_distinct)

lemma units_of_member:
  assumes "map_of (units_of snapshot) key = Some unit"
  shows "unit \<in> set (rs_action_units snapshot)" and "unit_key unit = key"
  using assms by (auto simp: units_of_def elim!: dict_of_lookupD)

lemma routes_of_member:
  assumes "map_of (routes_of command) key = Some route"
  shows "route \<in> set (ep_routes command)" and "(rt_account_id route, rt_security_id route) = key"
  using assms by (auto simp: routes_of_def elim!: dict_of_lookupD)

lemma legal_quantities_0: "0 \<in> set (legal_quantities route unit maximum)"
  by (simp add: legal_quantities_def)

lemma unit_quantities_cases:
  assumes "unit_quantities command routes active key unit = Inr (values, conservative)"
  obtains (idle) "values = [0]"
  | (active) maximum price route curve where
      "au_exact_statistical_action_quantity unit = Some maximum" "au_market_price unit = Some price"
      "map_of routes key = Some route" "qualified_curve route (ep_cutoff_at command) = Some curve"
      "problem_codes (rt_rules_evidence route) (ep_cutoff_at command) True = []"
      "ep_cutoff_at command \<le> rt_first_sellable_at route" "rt_first_sellable_at route \<le> rt_transferable_at route"
      "lot_count route maximum \<le> 100000" "values = legal_quantities route unit maximum"
  using assms
  by (auto simp: unit_quantities_def not_less not_le split: if_splits option.splits)

lemma unit_quantities_0:
  "unit_quantities command routes active key unit = Inr (values, conservative) \<Longrightarrow> 0 \<in> set values"
  by (erule unit_quantities_cases) (simp_all add: legal_quantities_0)

lemma quantity_options_Inr:
  assumes "quantity_options command routes active units = Inr (options, conservative)"
  shows "list_all2 (\<lambda>(key, unit) (key', values). key' = key \<and>
    (\<exists>cs. unit_quantities command routes active key unit = Inr (values, cs))) units options"
  using assms
  by (induction units arbitrary: options conservative) (force split: sum.splits prod.splits)+

lemma options_lookup:
  assumes "quantity_options command routes active units = Inr (options, conservative)"
    and "distinct (map fst units)" and "map_of units key = Some unit"
  obtains cs where "unit_quantities command routes active key unit = Inr (dict_get options key [], cs)"
proof -
  have "\<exists>cs. unit_quantities command routes active key unit = Inr (dict_get options key [], cs)"
    using quantity_options_Inr [OF assms(1)] assms(2,3)
    by (induction rule: list_all2_induct) (auto simp: dict_get_def split: if_splits)
  with that show thesis by blast
qed

subsection \<open>Legs\<close>

definition leg_key :: "execution_leg \<Rightarrow> unit_id" where
  "leg_key leg = (xl_account_id leg, xl_security_id leg)"

lemma make_leg_sel:
  assumes "make_leg command routes units key quantity = Some leg"
  shows "leg_key leg = key" "xl_quantity leg = quantity" "map_of routes key = Some (xl_route leg)"
    "\<exists>curve price unit. qualified_curve (xl_route leg) (ep_cutoff_at command) = Some curve \<and>
       map_of units key = Some unit \<and> au_market_price unit = Some price \<and>
       xl_gross_proceeds leg = xmul quantity price \<and> xl_disposal_cost leg = curve_cost execution_precision curve quantity price \<and>
       xl_net_proceeds leg = xsub (xl_gross_proceeds leg) (xl_disposal_cost leg)"
  using assms by (auto simp: make_leg_def leg_key_def Let_def split: option.splits)

lemma make_legs_member:
  assumes "make_legs command routes units entries = Some legs" and "leg \<in> set legs"
  shows "\<exists>(key, quantity) \<in> set entries. quantity \<noteq> 0 \<and> make_leg command routes units key quantity = Some leg"
  using assms
proof (induction entries arbitrary: legs)
  case (Cons entry entries)
  obtain key quantity where "entry = (key, quantity)" by (cases entry)
  with Cons show ?case by (auto split: if_splits option.splits)
qed simp

lemma make_legs_defined:
  assumes "\<And>key quantity. (key, quantity) \<in> set entries \<Longrightarrow> quantity \<noteq> 0 \<Longrightarrow>
    make_leg command routes units key quantity \<noteq> None"
  shows "make_legs command routes units entries \<noteq> None"
  using assms
proof (induction entries)
  case (Cons entry entries)
  obtain key quantity where entry: "entry = (key, quantity)" by (cases entry)
  have rest: "make_legs command routes units entries \<noteq> None" using Cons by auto
  have "quantity \<noteq> 0 \<Longrightarrow> make_leg command routes units key quantity \<noteq> None" using Cons.prems entry by auto
  with rest show ?case by (auto simp: entry)
qed simp

lemma legal_leg:
  assumes "unit_quantities command routes active key unit = Inr (values, cs)" and "map_of units key = Some unit"
    and "quantity \<in> set values" and "quantity \<noteq> 0"
  shows "make_leg command routes units key quantity \<noteq> None"
  using assms(1) by (cases rule: unit_quantities_cases) (use assms in \<open>auto simp: make_leg_def Let_def\<close>)

subsection \<open>The first of the least\<close>

lemma list_all2_left: "list_all2 P xs ys \<Longrightarrow> x \<in> set xs \<Longrightarrow> \<exists>y \<in> set ys. P x y"
  by (induction rule: list_all2_induct) auto

lemma list_all2_right: "list_all2 P xs ys \<Longrightarrow> y \<in> set ys \<Longrightarrow> \<exists>x \<in> set xs. P x y"
  by (induction rule: list_all2_induct) auto

lemma least_from_least:
  "least_from best xs \<in> insert best (set xs) \<and> (\<forall>x \<in> insert best (set xs). snd (least_from best xs) \<le> snd x)"
proof (induction xs arbitrary: best)
  case (Cons x xs)
  let ?b = "if snd x < snd best then x else best"
  have "least_from ?b xs \<in> insert ?b (set xs)" "snd (least_from ?b xs) \<le> snd ?b"
    "\<forall>y \<in> set xs. snd (least_from ?b xs) \<le> snd y" using Cons [of ?b] by auto
  moreover have "snd ?b \<le> snd x" "snd ?b \<le> snd best" "?b \<in> {x, best}" by auto
  ultimately show ?case by (auto intro: order_trans)
qed simp

lemma those_map_list_all2:
  "those (map f xs) = Some ys \<longleftrightarrow> list_all2 (\<lambda>x y. f x = Some y) xs ys"
  by (induction xs arbitrary: ys) (auto simp: list_all2_Cons1 split: option.splits)

lemma those_map_None: "those (map f xs) = None \<longleftrightarrow> (\<exists>x \<in> set xs. f x = None)"
  by (induction xs) (auto split: option.splits)

lemma least_ranked_Some:
  assumes "least_ranked rank xs = Some x"
  shows "x \<in> set xs" and "\<exists>r. rank x = Some r \<and> (\<forall>y \<in> set xs. \<exists>r'. rank y = Some r' \<and> r \<le> r')"
proof -
  from assms obtain z ranked where those: "those (map (\<lambda>x. map_option (Pair x) (rank x)) xs) = Some (z # ranked)"
    and x: "x = fst (least_from z ranked)"
    by (auto simp: least_ranked_def split: option.splits list.splits)
  from those have pairs: "list_all2 (\<lambda>x y. map_option (Pair x) (rank x) = Some y) xs (z # ranked)"
    by (simp add: those_map_list_all2)
  have from_list: "fst y \<in> set xs \<and> rank (fst y) = Some (snd y)" if "y \<in> set (z # ranked)" for y
    using list_all2_right [OF pairs that] by auto
  have to_list: "\<exists>r. rank y = Some r \<and> (y, r) \<in> set (z # ranked)" if "y \<in> set xs" for y
    using list_all2_left [OF pairs that] by auto
  have least: "least_from z ranked \<in> set (z # ranked)" "\<And>y. y \<in> set (z # ranked) \<Longrightarrow> snd (least_from z ranked) \<le> snd y"
    using least_from_least [of z ranked] by auto
  from from_list [OF least(1)] show "x \<in> set xs" by (simp add: x)
  show "\<exists>r. rank x = Some r \<and> (\<forall>y \<in> set xs. \<exists>r'. rank y = Some r' \<and> r \<le> r')"
    using from_list [OF least(1)] to_list least(2) by (fastforce simp: x)
qed

lemma least_ranked_defined:
  assumes "xs \<noteq> []" and "\<And>x. x \<in> set xs \<Longrightarrow> rank x \<noteq> None"
  shows "least_ranked rank xs \<noteq> None"
proof -
  have "those (map (\<lambda>x. map_option (Pair x) (rank x)) xs) \<noteq> None"
    unfolding those_map_None using assms(2) by auto
  then obtain ys where ys: "those (map (\<lambda>x. map_option (Pair x) (rank x)) xs) = Some ys" by blast
  then have "length ys = length xs" by (auto simp: those_map_list_all2 dest: list_all2_lengthD)
  with assms(1) ys show ?thesis by (auto simp: least_ranked_def split: list.split)
qed

lemma plan_rank_defined: "(case gap of None \<Rightarrow> True | Some g \<Rightarrow> g candidate \<noteq> None) \<Longrightarrow>
    plan_rank command units conservative gap candidate \<noteq> None"
  by (auto simp: plan_rank_def Let_def split: option.splits)

subsection \<open>Legal sales\<close>

text \<open>A quantity for every account that holds the security of the target, each among those that can be sold there.\<close>

definition legal_sale ::
    "execution_plan_command \<Rightarrow> reconciled_position_snapshot \<Rightarrow> execution_target list \<Rightarrow> execution_target \<Rightarrow> decimal list \<Rightarrow> bool" where
  "legal_sale command snapshot goals goal quantities \<longleftrightarrow>
     list_all2 (\<lambda>key quantity. \<exists>unit legal cs. map_of (units_of snapshot) key = Some unit \<and>
       unit_quantities command (routes_of command) (active_securities goals) key unit = Inr (legal, cs) \<and> quantity \<in> set legal)
       (target_keys (units_of snapshot) goal) quantities"

text \<open>The least legal sale that reaches what is required; where none does, the greatest.\<close>

definition least_sale ::
    "execution_plan_command \<Rightarrow> reconciled_position_snapshot \<Rightarrow> execution_target list \<Rightarrow> execution_target \<Rightarrow> decimal \<Rightarrow> decimal \<Rightarrow> bool" where
  "least_sale command snapshot goals goal required sold \<longleftrightarrow>
     (\<exists>quantities. legal_sale command snapshot goals goal quantities \<and> xsum quantities = sold) \<and>
     (\<forall>quantities. legal_sale command snapshot goals goal quantities \<longrightarrow>
        (required \<le> xsum quantities \<longrightarrow> sold \<le> xsum quantities) \<and> (sold < required \<longrightarrow> xsum quantities \<le> sold))"

lemma dsum_mono:
  assumes "list_all2 (\<le>) xs ys" and "0 < p"
  shows "dsum p xs \<le> dsum p ys"
proof -
  have "a \<le> b \<Longrightarrow> foldl (dadd p) a xs \<le> foldl (dadd p) b ys" for a b
    using assms(1)
  proof (induction arbitrary: a b rule: list_all2_induct)
    case (Cons x xs y ys)
    have "dadd p a x \<le> dadd p b y"
      unfolding dadd_def using Cons.prems Cons.hyps(1) assms(2) by (intro dec_round_mono add_mono)
    from Cons.IH [OF this] show ?case by simp
  qed simp
  then show ?thesis by (simp add: dsum_def)
qed

lemma target_keys_lookup:
  assumes "key \<in> set (target_keys (units_of snapshot) goal)"
  obtains unit where "map_of (units_of snapshot) key = Some unit"
proof -
  from assms have "key \<in> fst ` set (units_of snapshot)" by (auto simp: target_keys_def)
  then have "map_of (units_of snapshot) key \<noteq> None" by (simp add: map_of_eq_None_iff)
  with that show thesis by blast
qed

text \<open>The candidates of the search are the legal sales.\<close>

lemma legal_sale_product:
  assumes "quantity_options command (routes_of command) (active_securities goals) (units_of snapshot) = Inr (options, conservative)"
  shows "quantities \<in> set (product_lists (target_choices options (units_of snapshot) goal)) \<longleftrightarrow>
    legal_sale command snapshot goals goal quantities"
proof -
  have legal: "q \<in> set (dict_get options key []) \<longleftrightarrow>
      (\<exists>unit legal cs. map_of (units_of snapshot) key = Some unit \<and>
        unit_quantities command (routes_of command) (active_securities goals) key unit = Inr (legal, cs) \<and> q \<in> set legal)"
    if "key \<in> set (target_keys (units_of snapshot) goal)" for key q
  proof -
    from that obtain unit where unit: "map_of (units_of snapshot) key = Some unit" by (rule target_keys_lookup)
    from options_lookup [OF assms units_of_distinct unit] obtain cs where
      "unit_quantities command (routes_of command) (active_securities goals) key unit = Inr (dict_get options key [], cs)" .
    with unit show ?thesis by auto
  qed
  have "quantities \<in> set (product_lists (target_choices options (units_of snapshot) goal)) \<longleftrightarrow>
      list_all2 (\<lambda>key q. q \<in> set (dict_get options key [])) (target_keys (units_of snapshot) goal) quantities"
    unfolding product_lists_set target_choices_def mem_Collect_eq by (auto simp: list_all2_conv_all_nth)
  also have "\<dots> \<longleftrightarrow> legal_sale command snapshot goals goal quantities"
    unfolding legal_sale_def using legal by (auto simp: list_all2_conv_all_nth)
  finally show ?thesis .
qed

lemma choices_nonempty:
  assumes "quantity_options command (routes_of command) (active_securities goals) (units_of snapshot) = Inr (options, conservative)"
    and "choice \<in> set (target_choices options (units_of snapshot) goal)"
  shows "choice \<noteq> []"
proof -
  from assms(2) obtain key where key: "key \<in> set (target_keys (units_of snapshot) goal)" "choice = dict_get options key []"
    by (auto simp: target_choices_def)
  from key(1) obtain unit where unit: "map_of (units_of snapshot) key = Some unit" by (rule target_keys_lookup)
  from options_lookup [OF assms(1) units_of_distinct unit] obtain cs where
    "unit_quantities command (routes_of command) (active_securities goals) key unit = Inr (choice, cs)" unfolding key(2) .
  from unit_quantities_0 [OF this] show ?thesis by auto
qed

subsection \<open>The search for one target\<close>

text \<open>The legs of one target: the legal sales of the least quantity.\<close>

definition least_legs ::
    "execution_plan_command \<Rightarrow> reconciled_position_snapshot \<Rightarrow> execution_target list \<Rightarrow> execution_target \<Rightarrow> decimal \<Rightarrow>
     execution_leg list \<Rightarrow> bool" where
  "least_legs command snapshot goals goal sold legs \<longleftrightarrow>
     (\<exists>quantities. legal_sale command snapshot goals goal quantities \<and> xsum quantities = sold \<and>
       make_legs command (routes_of command) (units_of snapshot)
         (zip (target_keys (units_of snapshot) goal) quantities) = Some legs)"

lemma legal_sale_legs:
  assumes "legal_sale command snapshot goals goal quantities"
  shows "make_legs command (routes_of command) (units_of snapshot)
    (zip (target_keys (units_of snapshot) goal) quantities) \<noteq> None"
proof (rule make_legs_defined)
  fix key quantity
  assume "(key, quantity) \<in> set (zip (target_keys (units_of snapshot) goal) quantities)" and "quantity \<noteq> 0"
  with assms show "make_leg command (routes_of command) (units_of snapshot) key quantity \<noteq> None"
    unfolding legal_sale_def by (auto simp: list_all2_iff dest!: legal_leg)
qed

lemma least_sold_least:
  assumes options: "quantity_options command (routes_of command) (active_securities goals) (units_of snapshot) = Inr (options, conservative)"
    and choices: "choices = target_choices options (units_of snapshot) goal"
  shows "least_sale command snapshot goals goal required (least_sold choices required)"
    and "min required (most_sold choices) \<le> least_sold choices required"
proof -
  let ?eligible = "eligible_sales choices required" and ?sold = "least_sold choices required"
  note legal = legal_sale_product [OF options, where goal = goal, folded choices]
  have "map (\<lambda>choice. Max (set choice)) choices \<in> set (product_lists choices)"
    using choices_nonempty [OF options, where goal = goal, folded choices] by (auto simp: product_lists_set list_all2_conv_all_nth)
  then have "map (\<lambda>choice. Max (set choice)) choices \<in> set ?eligible"
    by (simp add: eligible_sales_def Let_def most_sold_def)
  then have nonempty: "?eligible \<noteq> []" by auto
  have below: "xsum qs \<le> most_sold choices" if "qs \<in> set (product_lists choices)" for qs
  proof -
    have "list_all2 (\<le>) qs (map (\<lambda>choice. Max (set choice)) choices)"
      using that by (auto simp: product_lists_set list_all2_conv_all_nth)
    then show ?thesis unfolding most_sold_def by (rule dsum_mono) (simp add: execution_precision_def)
  qed
  have "?sold \<in> set (map xsum ?eligible)" unfolding least_sold_def using nonempty by (intro Min_in) auto
  then obtain qs where qs: "qs \<in> set ?eligible" "xsum qs = ?sold" by auto
  then show reaches: "min required (most_sold choices) \<le> ?sold" by (auto simp: eligible_sales_def Let_def)
  have sold_le: "?sold \<le> xsum qs" if "qs \<in> set ?eligible" for qs
    unfolding least_sold_def using that by (intro Min_le) auto
  show "least_sale command snapshot goals goal required ?sold"
    unfolding least_sale_def
  proof (intro conjI allI impI)
    show "\<exists>quantities. legal_sale command snapshot goals goal quantities \<and> xsum quantities = ?sold"
      using qs legal by (auto simp: eligible_sales_def Let_def)
  next
    fix quantities assume "legal_sale command snapshot goals goal quantities" and "required \<le> xsum quantities"
    then show "?sold \<le> xsum quantities"
      using legal by (intro sold_le) (auto simp: eligible_sales_def Let_def min_le_iff_disj)
  next
    fix quantities assume "legal_sale command snapshot goals goal quantities" and less: "?sold < required"
    then have "xsum quantities \<le> most_sold choices" using legal below by blast
    also have "\<dots> \<le> ?sold" using reaches less by (auto simp: min_le_iff_disj)
    finally show "xsum quantities \<le> ?sold" .
  qed
qed

lemma target_search_cases:
  assumes options: "quantity_options command (routes_of command) (active_securities goals) (units_of snapshot) = Inr (options, conservative)"
  obtains (stopped) reason where
      "target_search command (routes_of command) (units_of snapshot) options conservative gap goal = Some (Inl reason)"
  | (found) variants required sold where
      "target_search command (routes_of command) (units_of snapshot) options conservative gap goal =
         Some (Inr (variants, revised_target goal required sold))"
      "xt_required_sale_quantity goal = Some required" "least_sale command snapshot goals goal required sold"
      "variants \<noteq> []" "\<forall>legs \<in> set variants. least_legs command snapshot goals goal sold legs"
      "gap \<noteq> None \<Longrightarrow> set variants = {legs. least_legs command snapshot goals goal sold legs}"
proof -
  let ?units = "units_of snapshot" and ?routes = "routes_of command"
  let ?choices = "target_choices options ?units goal"
  let ?search = "target_search command ?routes ?units options conservative gap goal"
  show thesis
  proof (cases "200000 < prod_list (map length ?choices) \<or> xt_required_sale_quantity goal = None")
    case True
    then have "\<exists>reason. ?search = Some (Inl reason)" by (auto simp: target_search_def Let_def)
    with stopped show thesis by blast
  next
    case False
    then obtain required where required: "xt_required_sale_quantity goal = Some required" by auto
    let ?eligible = "eligible_sales ?choices required" and ?sold = "least_sold ?choices required"
    define sales where "sales = filter (\<lambda>qs. xsum qs = ?sold) ?eligible"
    note legal = legal_sale_product [OF options, where goal = goal] and least = least_sold_least [OF options refl, where goal = goal and required = required]
    have sales_iff: "qs \<in> set sales \<longleftrightarrow> legal_sale command snapshot goals goal qs \<and> xsum qs = ?sold" for qs
      using least(2) by (auto simp: sales_def eligible_sales_def Let_def legal)
    let ?legs = "\<lambda>qs. make_legs command ?routes ?units (zip (target_keys ?units goal) qs)"
    have "those (map ?legs sales) \<noteq> None"
      unfolding those_map_None using sales_iff legal_sale_legs by auto
    then obtain variants where variants: "those (map ?legs sales) = Some variants" by blast
    then have pairs: "list_all2 (\<lambda>qs legs. ?legs qs = Some legs) sales variants" by (simp add: those_map_list_all2)
    have all: "set variants = {legs. least_legs command snapshot goals goal ?sold legs}"
      using list_all2_left [OF pairs] list_all2_right [OF pairs] sales_iff
      by (fastforce simp: least_legs_def)
    have "sales \<noteq> []" using least(1) sales_iff by (fastforce simp: least_sale_def)
    then have nonempty: "variants \<noteq> []" using list_all2_lengthD [OF pairs] by auto
    show thesis
    proof (cases gap)
      case None
      obtain legs where legs: "least_ranked (plan_rank command ?units conservative None) variants = Some legs"
        using least_ranked_defined [OF nonempty, of "plan_rank command ?units conservative None"]
        by (auto simp: plan_rank_defined)
      have "?search = Some (Inr ([legs], revised_target goal required ?sold))"
        using False legs variants by (simp add: target_search_def Let_def required None flip: sales_def)
      then show thesis
        using required least(1) all least_ranked_Some(1) [OF legs] by (intro found) (auto simp: None)
    next
      case (Some g)
      have "?search = Some (Inr (variants, revised_target goal required ?sold))"
        using False variants by (simp add: target_search_def Let_def required Some flip: sales_def)
      then show thesis using required least(1) all nonempty by (intro found) auto
    qed
  qed
qed

subsection \<open>The shape of a plan\<close>

lemma search_targets_Inr:
  assumes "search_targets search goals = Some (Inr (alternatives, revised))"
  shows "list_all2 (\<lambda>goal variants. \<exists>result. search goal = Some (Inr (variants, result))) goals alternatives"
    and "list_all2 (\<lambda>goal result. \<exists>variants. search goal = Some (Inr (variants, result))) goals revised"
  using assms
  by (induction goals arbitrary: alternatives revised) (auto split: option.splits sum.splits)

lemma search_targets_defined:
  "\<forall>goal \<in> set goals. search goal \<noteq> None \<Longrightarrow> search_targets search goals \<noteq> None"
  by (induction goals) (auto split: option.splits sum.splits)

definition least_result ::
    "execution_plan_command \<Rightarrow> reconciled_position_snapshot \<Rightarrow> execution_target list \<Rightarrow> execution_target \<Rightarrow> execution_target \<Rightarrow> bool" where
  "least_result command snapshot goals goal result \<longleftrightarrow>
     (\<exists>required sold. xt_required_sale_quantity goal = Some required \<and>
       least_sale command snapshot goals goal required sold \<and> result = revised_target goal required sold)"

text \<open>Legs for every target that sell the least.\<close>

definition least_group ::
    "execution_plan_command \<Rightarrow> reconciled_position_snapshot \<Rightarrow> execution_target list \<Rightarrow> execution_target \<Rightarrow> execution_leg list \<Rightarrow> bool" where
  "least_group command snapshot goals goal legs \<longleftrightarrow>
     (\<exists>required sold. xt_required_sale_quantity goal = Some required \<and>
       least_sale command snapshot goals goal required sold \<and> least_legs command snapshot goals goal sold legs)"

lemma least_sale_unique:
  assumes "least_sale command snapshot goals goal required a" and "least_sale command snapshot goals goal required b"
  shows "a = b"
proof -
  obtain qa qb where q: "legal_sale command snapshot goals goal qa" "xsum qa = a"
    "legal_sale command snapshot goals goal qb" "xsum qb = b" using assms by (auto simp: least_sale_def)
  then show ?thesis using assms unfolding least_sale_def by (metis linorder_not_less order_antisym order.trans)
qed

definition conservative_of :: "execution_plan_command \<Rightarrow> reconciled_position_snapshot \<Rightarrow> execution_target list \<Rightarrow> str list" where
  "conservative_of command snapshot goals =
     (case quantity_options command (routes_of command) (active_securities goals) (units_of snapshot) of
        Inl _ \<Rightarrow> [] | Inr (_, conservative) \<Rightarrow> conservative)"

definition rank_of ::
    "execution_plan_command \<Rightarrow> reconciled_position_snapshot \<Rightarrow> execution_target list \<Rightarrow> funding_gap \<Rightarrow> execution_leg list \<Rightarrow>
     decimal list option" where
  "rank_of command snapshot goals gap = plan_rank command (units_of snapshot) (conservative_of command snapshot goals) gap"

lemma route_targets_cases:
  assumes "route_targets command snapshot goals gap = Some out"
  obtains (stopped) reason where "out = blocked_plan [reason] goals"
  | (searched) groups revised conservative where
      "list_all2 (least_result command snapshot goals) goals revised" "list_all2 (least_group command snapshot goals) goals groups"
      "out = planned goals revised conservative (concat groups)"
      "gap \<noteq> None \<Longrightarrow> \<forall>groups'. list_all2 (least_group command snapshot goals) goals groups' \<longrightarrow>
         (\<exists>r r'. rank_of command snapshot goals gap (concat groups) = Some r \<and>
            rank_of command snapshot goals gap (concat groups') = Some r' \<and> r \<le> r')"
proof -
  let ?routes = "routes_of command" and ?units = "units_of snapshot"
  show thesis
  proof (cases "\<exists>reason. out = blocked_plan [reason] goals")
    case True
    with stopped show thesis by blast
  next
    case False
    with assms obtain options conservative where
      options: "quantity_options command ?routes (active_securities goals) ?units = Inr (options, conservative)"
      by (auto simp: route_targets_def Let_def split: if_splits sum.splits)
    define search where "search = target_search command ?routes ?units options conservative gap"
    from assms False options obtain alternatives revised legs where
      found: "search_targets search goals = Some (Inr (alternatives, revised))"
      and legs: "least_ranked (plan_rank command ?units conservative gap) (map concat (product_lists alternatives)) = Some legs"
      and out: "out = planned goals revised conservative legs"
      by (auto simp: route_targets_def Let_def search_def split: if_splits option.splits sum.splits)
    have "least_result command snapshot goals goal result \<and> (\<forall>legs \<in> set variants. least_group command snapshot goals goal legs) \<and>
        (gap \<noteq> None \<longrightarrow> set variants = {legs. least_group command snapshot goals goal legs})"
      if "search goal = Some (Inr (variants, result))" for goal variants result
      using options
    proof (cases rule: target_search_cases [of _ _ _ _ _ gap goal])
      case (found variants' required sold)
      then have group_iff: "least_group command snapshot goals goal legs \<longleftrightarrow> least_legs command snapshot goals goal sold legs" for legs
        unfolding least_group_def using found(2,3) least_sale_unique [OF found(3)] by (metis option.inject)
      from found(1) that have "variants = variants'" "result = revised_target goal required sold"
        by (simp_all add: search_def)
      with found(2-6) show ?thesis unfolding group_iff least_result_def by blast
    qed (use that in \<open>simp add: search_def\<close>)
    note member = this
    have revised: "list_all2 (least_result command snapshot goals) goals revised"
      using search_targets_Inr(2) [OF found] by (rule list_all2_mono) (elim exE, drule member, elim conjE)
    have groups_of: "list_all2 (\<lambda>goal variants. (\<forall>legs \<in> set variants. least_group command snapshot goals goal legs) \<and>
        (gap \<noteq> None \<longrightarrow> set variants = {legs. least_group command snapshot goals goal legs})) goals alternatives"
      using search_targets_Inr(1) [OF found] by (rule list_all2_mono) (elim exE, drule member, elim conjE, intro conjI)
    from least_ranked_Some(1) [OF legs] obtain groups where groups: "groups \<in> set (product_lists alternatives)" "legs = concat groups"
      by auto
    have least: "list_all2 (least_group command snapshot goals) goals groups"
      using groups(1) groups_of by (auto simp: product_lists_set list_all2_conv_all_nth)
    moreover have "gap \<noteq> None \<Longrightarrow> \<forall>groups'. list_all2 (least_group command snapshot goals) goals groups' \<longrightarrow>
         (\<exists>r r'. rank_of command snapshot goals gap (concat groups) = Some r \<and>
            rank_of command snapshot goals gap (concat groups') = Some r' \<and> r \<le> r')"
    proof (intro allI impI)
      fix groups' assume "gap \<noteq> None" and "list_all2 (least_group command snapshot goals) goals groups'"
      then have "groups' \<in> set (product_lists alternatives)"
        using groups_of by (auto simp: product_lists_set list_all2_conv_all_nth)
      then have "concat groups' \<in> set (map concat (product_lists alternatives))" by simp
      moreover have "rank_of command snapshot goals gap = plan_rank command ?units conservative gap"
        by (simp add: rank_of_def conservative_of_def options)
      ultimately show "\<exists>r r'. rank_of command snapshot goals gap (concat groups) = Some r \<and>
          rank_of command snapshot goals gap (concat groups') = Some r' \<and> r \<le> r'"
        using least_ranked_Some(2) [OF legs] groups(2) by auto
    qed
    ultimately show thesis using searched revised out groups(2) by blast
  qed
qed

subsection \<open>The plan\<close>

text \<open>The routing ends in a plan or a reason: where the callback for the funding gap always returns, no leg is built
  from a missing route, cost curve or price, no candidate list is empty, and the search has a result.\<close>

lemma route_targets_returns:
  assumes "\<And>g legs. gap = Some g \<Longrightarrow> g legs \<noteq> None"
  shows "route_targets command snapshot goals gap \<noteq> None"
proof (cases "quantity_options command (routes_of command) (active_securities goals) (units_of snapshot)")
  case (Inl reason)
  then show ?thesis by (simp add: route_targets_def Let_def)
next
  case (Inr both)
  then obtain options conservative where
    options: "quantity_options command (routes_of command) (active_securities goals) (units_of snapshot) = Inr (options, conservative)"
    by (cases both) auto
  define search where "search = target_search command (routes_of command) (units_of snapshot) options conservative gap"
  have "search_targets search goals \<noteq> None"
    unfolding search_def by (intro search_targets_defined ballI) (rule target_search_cases [OF options]; auto)
  then obtain result where result: "search_targets search goals = Some result" by blast
  have ranked: "plan_rank command (units_of snapshot) conservative gap legs \<noteq> None" for legs
    using assms by (intro plan_rank_defined) (auto split: option.split)
  show ?thesis
  proof (cases result)
    case (Inr found)
    then obtain alternatives revised where found: "search_targets search goals = Some (Inr (alternatives, revised))"
      using result by (cases found) auto
    have "[] \<notin> set alternatives"
    proof
      assume "[] \<in> set alternatives"
      then obtain goal r where "search goal = Some (Inr ([], r))"
        using list_all2_right [OF search_targets_Inr(1) [OF found]] by blast
      then show False unfolding search_def by (cases rule: target_search_cases [OF options, of gap goal]) auto
    qed
    then have "map hd alternatives \<in> set (product_lists alternatives)"
      by (auto simp: product_lists_set list_all2_conv_all_nth) (metis list.set_sel(1) nth_mem)
    then have "map concat (product_lists alternatives) \<noteq> []" by auto
    from least_ranked_defined [OF this ranked] show ?thesis
      using options found by (auto simp: route_targets_def Let_def simp flip: search_def)
  qed (use options result in \<open>simp add: route_targets_def Let_def flip: search_def\<close>)
qed

text \<open>C31: Where the search completes it sells, for every target, the least legal quantity that reaches what is required,
  and where nothing legal reaches it, the most that is legal; what remains is stated in the revised target.\<close>

theorem route_targets_least_sale:
  assumes "route_targets command snapshot goals gap = Some out" and "xp_cost_routing_basis out \<noteq> None"
  shows "list_all2 (least_result command snapshot goals) goals (xp_targets out) \<and>
    (\<exists>groups. list_all2 (least_group command snapshot goals) goals groups \<and> xp_legs out = concat groups)"
  using assms(1)
proof (cases rule: route_targets_cases)
  case (searched groups revised conservative)
  then show ?thesis by (auto simp: planned_def Let_def)
qed (use assms(2) in \<open>simp add: blocked_plan_def\<close>)

text \<open>C32: Of all plans that sell the least for every target, the routing returns one of the least rank, compared
  lexicographically: so no such plan leaves a smaller gap in the funding of the dated obligations.\<close>

theorem route_targets_least_rank:
  assumes "route_targets command snapshot goals (Some gap) = Some out" and "xp_cost_routing_basis out \<noteq> None"
    and "list_all2 (least_group command snapshot goals) goals groups"
  shows "(\<exists>r r'. rank_of command snapshot goals (Some gap) (xp_legs out) = Some r \<and>
      rank_of command snapshot goals (Some gap) (concat groups) = Some r' \<and> r \<le> r') \<and>
    (\<exists>g g'. gap (xp_legs out) = Some g \<and> gap (concat groups) = Some g' \<and> g \<le> g')"
  using assms(1)
proof (cases rule: route_targets_cases)
  case (searched groups' revised conservative)
  from searched(3) have legs: "xp_legs out = concat groups'" by (simp add: planned_def Let_def)
  from searched(4) assms(3) obtain r r' where "rank_of command snapshot goals (Some gap) (xp_legs out) = Some r"
    "rank_of command snapshot goals (Some gap) (concat groups) = Some r'" "r \<le> r'"
    unfolding legs by blast
  moreover from this have "\<exists>g g'. gap (xp_legs out) = Some g \<and> gap (concat groups) = Some g' \<and> g \<le> g'"
    by (auto simp: rank_of_def plan_rank_def Let_def split: option.splits)
  ultimately show ?thesis by blast
qed (use assms(2) in \<open>simp add: blocked_plan_def\<close>)

subsection \<open>Legs are legal\<close>

text \<open>Quantities on which the arithmetic of lots is exact.\<close>

definition exact_lots :: "nat \<Rightarrow> execution_route \<Rightarrow> decimal \<Rightarrow> bool" where
  "exact_lots k route maximum \<longleftrightarrow>
     0 < rt_minimum_quantity route \<and> 0 < rt_quantity_increment route \<and>
     (\<forall>x \<in> {rt_minimum_quantity route, rt_quantity_increment route, maximum}. places k x \<and> x * 10 ^ k < 10 ^ 20)"

lemma lots_within:
  assumes "exact_lots k route maximum" and "lot_count route maximum \<le> 100000" and "i < nat (lot_count route maximum)"
  shows "lot_quantity route i = rt_minimum_quantity route + of_nat i * rt_quantity_increment route"
    and "rt_minimum_quantity route + of_nat i * rt_quantity_increment route \<le> maximum"
proof -
  let ?min = "rt_minimum_quantity route" and ?inc = "rt_quantity_increment route"
  have pos: "0 < ?min" "0 < ?inc" and exact: "places k ?min" "places k ?inc" "places k maximum"
    "?min * 10 ^ k < 10 ^ 20" "?inc * 10 ^ k < 10 ^ 20" "maximum * 10 ^ k < 10 ^ 20"
    using assms(1) by (auto simp: exact_lots_def)
  have le: "?min \<le> maximum" using assms(3) by (simp add: lot_count_def split: if_splits)
  have small: "x * 10 ^ k < 10 ^ execution_precision" if "x \<le> maximum" for x
  proof -
    have "x * 10 ^ k \<le> maximum * 10 ^ k" using that by (intro mult_right_mono) auto
    also have "\<dots> < 10 ^ 20" by (rule exact(6))
    also have "(10 ^ 20 :: rat) < 10 ^ execution_precision" by (simp add: execution_precision_def)
    finally show ?thesis .
  qed
  have diff: "xsub maximum ?min = maximum - ?min"
    unfolding dsub_def using le pos by (intro places_round [of k] places_diff exact small) auto
  let ?x = "(maximum - ?min) / ?inc"
  have count: "lot_count route maximum = \<lfloor>dec_round 38 ?x\<rfloor> + 1"
    using le diff by (simp add: lot_count_def ddiv_def execution_precision_def)
  have "?x < 10 ^ 6"
  proof (rule ccontr)
    assume "\<not> ?x < 10 ^ 6"
    then have "dec_round 38 (of_int (10 ^ 6)) \<le> dec_round 38 ?x" by (intro dec_round_mono) auto
    then have "10 ^ 6 \<le> dec_round 38 ?x" by (simp add: dec_round_of_int)
    then have "(10 ^ 6 :: int) \<le> \<lfloor>dec_round 38 ?x\<rfloor>" by (simp add: le_floor_iff)
    then show False using assms(2) count by simp
  qed
  then have floor: "of_int \<lfloor>dec_round 38 ?x\<rfloor> \<le> ?x"
    using le pos exact by (intro floor_rounded_quotient [of _ _ k] places_diff) auto
  have "int i \<le> \<lfloor>dec_round 38 ?x\<rfloor>" using assms(3) count by linarith
  then have "(of_nat i :: rat) \<le> of_int \<lfloor>dec_round 38 ?x\<rfloor>" by (metis of_int_le_iff of_int_of_nat_eq)
  then have "of_nat i \<le> ?x" using floor by (rule order_trans)
  then have "of_nat i * ?inc \<le> maximum - ?min" using pos by (simp add: pos_le_divide_eq)
  then show within: "?min + of_nat i * ?inc \<le> maximum" by simp
  have lots: "places k (of_nat i * ?inc)"
    using exact(2) by (metis Ints_mult Ints_of_nat mult.assoc places_Ints)
  have "xmul (of_nat i) ?inc = of_nat i * ?inc"
    unfolding dmul_def using within pos by (intro places_round [OF lots] small) auto
  moreover have "xadd ?min (of_nat i * ?inc) = ?min + of_nat i * ?inc"
    unfolding dadd_def using pos within by (intro places_round [of k] places_add lots exact small) auto
  ultimately show "lot_quantity route i = ?min + of_nat i * ?inc" by (simp add: lot_quantity_def)
qed


end
