(* ===== verification/Waterfall_Properties.thy ===== *)
theory Waterfall_Properties
  imports Execution_Waterfall Execution_Properties Funding_Properties
begin

text \<open>
  What the waterfall promises: a plan that is not blocked removes every portfolio gap with its own legs and completes every
  target, targets are only tightened, and the routine has a result wherever its handoffs are complete.
\<close>

subsection \<open>Routed plans\<close>

definition routing_reasons :: "str set" where
  "routing_reasons = {''EXECUTION_ROUTE_SCOPE_INVALID'', ''EXECUTION_COST_EVIDENCE_FAILED'', ''EXECUTION_RULE_EVIDENCE_FAILED'',
     ''EXECUTION_SEARCH_LIMIT'', ''EXECUTION_QUANTITY_UNKNOWN''}"

lemma unit_quantities_reason: "unit_quantities command routes active key unit = Inl reason \<Longrightarrow> reason \<in> routing_reasons"
  by (auto simp: unit_quantities_def routing_reasons_def split: if_splits option.splits)

lemma quantity_options_reason:
  "quantity_options command routes active units = Inl reason \<Longrightarrow> reason \<in> routing_reasons"
  by (induction units) (auto split: sum.splits dest: unit_quantities_reason)

lemma target_search_reason:
  "target_search command routes units options conservative gap goal = Some (Inl reason) \<Longrightarrow> reason \<in> routing_reasons"
  by (auto simp: target_search_def Let_def routing_reasons_def split: if_splits option.splits)

lemma search_targets_reason:
  "search_targets search goals = Some (Inl reason) \<Longrightarrow> \<exists>goal. search goal = Some (Inl reason)"
  by (induction goals) (auto split: option.splits sum.splits)

lemma route_targets_reason:
  assumes "route_targets command snapshot goals gap = Some (blocked_plan [reason] goals)"
  shows "reason \<in> routing_reasons"
proof -
  have "planned goals revised conservative legs \<noteq> blocked_plan [reason] goals" for revised conservative legs
    by (metis execution_plan_outcome.select_convs(11) blocked_plan_def planned_def option.distinct(1))
  then show ?thesis using assms
    by (auto simp: route_targets_def Let_def blocked_plan_def routing_reasons_def
        split: if_splits option.splits sum.splits
        dest: quantity_options_reason[unfolded routing_reasons_def] dest!: search_targets_reason target_search_reason[unfolded routing_reasons_def])
qed

lemma routing_reasons_fail: "reason \<in> routing_reasons \<Longrightarrow> routing_failed (blocked_plan [reason] goals)"
  by (auto simp: routing_failed_def blocked_plan_def routing_reasons_def)

lemma planned_not_failed: "\<not> routing_failed (planned goals revised conservative legs)"
  by (auto simp: routing_failed_def planned_def Let_def)

lemma routed_disposition:
  assumes "route_targets command snapshot goals gap = Some out" and "xp_disposition out \<noteq> PLAN_BLOCKED"
  shows "list_all (\<lambda>goal. \<not> incomplete_target goal) (xp_targets out)"
  using assms(1)
proof (cases rule: route_targets_cases)
  case (searched groups revised conservative)
  then show ?thesis using assms(2) by (auto simp: planned_def Let_def list_ex_iff list_all_iff split: if_splits)
qed (use assms(2) in \<open>simp add: blocked_plan_def\<close>)

lemma failed_disposition:
  assumes "route_targets command snapshot goals gap = Some out" and "routing_failed out"
  shows "xp_disposition out = PLAN_BLOCKED"
  using assms(1) by (cases rule: route_targets_cases) (use assms(2) in \<open>auto simp: blocked_plan_def planned_not_failed\<close>)

definition tightens :: "execution_target \<Rightarrow> execution_target \<Rightarrow> bool" where
  "tightens goal result \<longleftrightarrow>
     xt_security_id result = xt_security_id goal \<and> xt_target_quantity result \<le> xt_target_quantity goal \<and>
     set (xt_source_obligation_ids goal) \<subseteq> set (xt_source_obligation_ids result) \<and>
     (xt_direction goal = EXIT_TARGET \<longrightarrow> xt_direction result = EXIT_TARGET) \<and>
     (xt_direction goal = REDUCE_TARGET \<longrightarrow> xt_direction result \<noteq> HOLD_TARGET)"

lemma tightens_refl [simp]: "tightens goal goal"
  by (simp add: tightens_def)

lemma tightens_trans: "tightens a b \<Longrightarrow> tightens b c \<Longrightarrow> tightens a c"
  by (cases "xt_direction b") (auto simp: tightens_def)

lemma tightens_revised: "tightens goal (revised_target goal required sold)"
  by (simp add: tightens_def revised_target_def Let_def)

lemma tightens_with_ids: "tightens goal (with_portfolio_ids ids goal)"
  by (auto simp: tightens_def with_portfolio_ids_def)

lemma tightens_allocated:
  assumes "allocated_target current sellable ids fraction goal = Some result"
  shows "tightens goal result"
proof -
  from assms obtain remaining rest quantity where
    "xt_remaining_quantity goal = Some remaining" "map_of sellable (xt_security_id goal) = Some rest"
    "map_of current (xt_security_id goal) = Some quantity"
    by (auto simp: allocated_target_def split: option.splits)
  note result = assms[unfolded allocated_target_def this Let_def option.case prod.case option.inject, symmetric]
  show ?thesis unfolding result tightens_def by simp
qed

lemma list_all2_tightens_refl: "list_all2 tightens goals goals"
  by (simp add: list_all2_refl)

lemma list_all2_tightens_trans: "list_all2 tightens a b \<Longrightarrow> list_all2 tightens b c \<Longrightarrow> list_all2 tightens a c"
  by (rule list_all2_trans[where ?P1.0 = tightens and ?P2.0 = tightens]) (erule tightens_trans)

lemma routed_tightens:
  assumes "route_targets command snapshot goals gap = Some out"
  shows "list_all2 tightens goals (xp_targets out)"
  using assms
proof (cases rule: route_targets_cases)
  case (searched groups revised conservative)
  from searched(1) have "list_all2 tightens goals revised"
    by (rule list_all2_mono) (auto simp: least_result_def tightens_revised)
  with searched(3) show ?thesis by (simp add: planned_def Let_def)
qed (simp add: blocked_plan_def list_all2_tightens_refl)

lemma allocated_tightens:
  "allocated_targets (allocated_target current sellable ids fraction) goals = Some results \<Longrightarrow> list_all2 tightens goals results"
proof (induction goals arbitrary: results)
  case (Cons goal goals)
  then obtain result rest where "allocated_target current sellable ids fraction goal = Some result"
    "allocated_targets (allocated_target current sellable ids fraction) goals = Some rest" "results = result # rest"
    by (simp split: option.splits)
  with Cons.IH[of rest] show ?case by (simp add: tightens_allocated)
qed simp

subsection \<open>Projected plans\<close>

definition gaps_removed ::
    "reconciled_position_snapshot \<Rightarrow> portfolio_stress_outcome \<Rightarrow> liquidity_outcome \<Rightarrow> drawdown_state \<Rightarrow>
     (execution_leg list \<Rightarrow> decimal option) \<Rightarrow> execution_leg list \<Rightarrow> bool" where
  "gaps_removed snapshot stress liquidity drawdown funding_gap legs \<longleftrightarrow>
     stress_gap stress (stock_value snapshot) (xsum (map xl_gross_proceeds legs)) = Some 0 \<and>
     (\<exists>deadline. funding_gap legs = Some deadline \<and> deadline \<le> 0) \<and>
     xsub (case lo_remediation_shortfall liquidity of None \<Rightarrow> 0 | Some shortfall \<Rightarrow> shortfall)
       (xsum (map xl_net_proceeds legs)) \<le> 0 \<and>
     (\<forall>target_value. ds_stock_exposure_target_value drawdown = Some target_value \<longrightarrow>
        xsub (xsub (stock_value snapshot) (xsum (map xl_gross_proceeds legs))) target_value \<le> 0)"

lemma project_plan_keeps:
  assumes "project_plan snapshot stress liquidity drawdown funding_gap initial_value plan = Some out"
  shows "xp_legs out = xp_legs plan" "xp_targets out = xp_targets plan" "xp_disposition out = xp_disposition plan"
    "xp_reasons out = xp_reasons plan"
  using assms by (auto simp: project_plan_def Let_def split: option.splits)

lemma project_plan_restored:
  assumes "project_plan snapshot stress liquidity drawdown funding_gap initial_value plan = Some out" and "plan_restored out"
  shows "gaps_removed snapshot stress liquidity drawdown funding_gap (xp_legs out)"
proof -
  let ?sold = "xsum (map xl_gross_proceeds (xp_legs plan))"
  from assms(1) obtain gap deadline where gap: "stress_gap stress (stock_value snapshot) ?sold = Some gap"
    and deadline: "funding_gap (xp_legs plan) = Some deadline"
    by (auto simp: project_plan_def Let_def split: option.splits)
  from assms(1) have "xp_projected_stress_gap out = Some gap"
    and "xp_projected_cash_gap out = Some (max (max 0 (xsub (case lo_remediation_shortfall liquidity of None \<Rightarrow> 0 | Some s \<Rightarrow> s)
        (xsum (map xl_net_proceeds (xp_legs plan))))) deadline)"
    and "xp_projected_exposure_gap out = Some (case ds_stock_exposure_target_value drawdown of None \<Rightarrow> 0
        | Some v \<Rightarrow> max 0 (xsub (xsub (stock_value snapshot) ?sold) v))"
    by (auto simp: project_plan_def Let_def gap deadline)
  with assms(2) have "gap = 0" "max (max 0 (xsub (case lo_remediation_shortfall liquidity of None \<Rightarrow> 0 | Some s \<Rightarrow> s)
        (xsum (map xl_net_proceeds (xp_legs plan))))) deadline = 0"
    and "(case ds_stock_exposure_target_value drawdown of None \<Rightarrow> 0
        | Some v \<Rightarrow> max 0 (xsub (xsub (stock_value snapshot) ?sold) v)) = 0"
    by (simp_all add: plan_restored_def)
  then show ?thesis unfolding gaps_removed_def project_plan_keeps(1)[OF assms(1)]
    using gap deadline by (auto simp: max_def split: if_splits)
qed

lemma bisect_fraction_invariant:
  assumes "bisect_fraction allocate n low high best = Some out" and "P best"
    and "\<And>fraction candidate. allocate fraction = Some candidate \<Longrightarrow> plan_restored candidate \<Longrightarrow> P candidate"
  shows "P out"
  using assms by (induction n arbitrary: low high best) (auto simp: Let_def split: option.splits if_splits)

lemma bisect_fraction_defined:
  "(\<And>fraction. allocate fraction \<noteq> None) \<Longrightarrow> bisect_fraction allocate n low high best \<noteq> None"
  by (induction n arbitrary: low high best) (auto simp: Let_def split: option.splits)

subsection \<open>The waterfall\<close>

definition callback_of :: "dated_cash_obligation list \<Rightarrow> (execution_leg list \<Rightarrow> decimal option) \<Rightarrow> funding_gap" where
  "callback_of obligations gap = (if obligations \<noteq> [] then Some gap else None)"

definition first_plan ::
    "portfolio_stress_outcome \<Rightarrow> liquidity_outcome \<Rightarrow> drawdown_state \<Rightarrow> execution_plan_outcome \<Rightarrow> execution_plan_outcome" where
  "first_plan stress liquidity drawdown projected =
     projected\<lparr>xp_new_exposure_blocked := xp_new_exposure_blocked projected \<or>
         st_new_exposure_blocked stress \<or> lo_new_exposure_blocked liquidity \<or> ds_new_exposure_blocked drawdown,
       xp_targets := map (with_portfolio_ids (portfolio_ids stress liquidity drawdown)) (xp_targets projected)\<rparr>"

text \<open>The plan for one fraction of what is still sellable.\<close>

definition allocate_plan ::
    "execution_plan_command \<Rightarrow> reconciled_position_snapshot \<Rightarrow> funding_gap \<Rightarrow>
     (execution_plan_outcome \<Rightarrow> execution_plan_outcome option) \<Rightarrow> str list \<Rightarrow> execution_target list \<Rightarrow>
     (str \<times> decimal) list \<Rightarrow> (str \<times> decimal) list \<Rightarrow> decimal \<Rightarrow> execution_plan_outcome option" where
  "allocate_plan command snapshot callback project ids goals current sellable fraction =
     Option.bind (allocated_targets (allocated_target current sellable ids fraction) goals)
       (\<lambda>revised. Option.bind (route_targets command snapshot revised callback) project)"

lemma conjoin_eq:
  assumes "lo_protection_authorization liquidity = Some protection" "out_usage protection = Some usage"
    and "gap = deadline_gap snapshot lcommand (unpaid_obligations liquidity (us_unfinished_cash_obligations usage))"
    and "callback = callback_of (unpaid_obligations liquidity (us_unfinished_cash_obligations usage)) gap"
    and "route_targets command snapshot goals callback = Some routed"
    and "project = project_plan snapshot stress liquidity drawdown gap (xsum (map xl_gross_proceeds (xp_legs routed)))"
    and "project routed = Some initial"
    and "first = first_plan stress liquidity drawdown initial"
    and "allocate = allocate_plan command snapshot callback project (portfolio_ids stress liquidity drawdown) (xp_targets first)"
  shows "conjoin_portfolio_targets command snapshot goals stress liquidity drawdown lcommand =
    (if routing_failed routed \<or> plan_restored first then Some first
      else Option.bind (holdings [] [] (rs_action_units snapshot)) (\<lambda>(current, all_sellable).
        Option.bind (sell_legs all_sellable (xp_legs first)) (\<lambda>sellable.
          Option.bind (allocate current sellable 1) (\<lambda>maximum.
            if \<not> plan_restored maximum then Some (blocked_maximum first maximum)
            else bisect_fraction (allocate current sellable) 64 0 1 maximum))))"
proof -
  note routed = assms(5)[unfolded assms(3,4) callback_of_def] and initial = assms(7)[unfolded assms(6,3)]
  show ?thesis
    unfolding conjoin_portfolio_targets_def Let_def assms(1,2) Option.bind.bind_lunit routed initial
    unfolding assms(9,8,6,4,3) callback_of_def first_plan_def allocate_plan_def ..
qed

lemma conjoin_cases:
  assumes "conjoin_portfolio_targets command snapshot goals stress liquidity drawdown lcommand = Some out"
  obtains protection usage gap callback routed project initial where
    "lo_protection_authorization liquidity = Some protection" "out_usage protection = Some usage"
    "gap = deadline_gap snapshot lcommand (unpaid_obligations liquidity (us_unfinished_cash_obligations usage))"
    "callback = callback_of (unpaid_obligations liquidity (us_unfinished_cash_obligations usage)) gap"
    "route_targets command snapshot goals callback = Some routed"
    "project = project_plan snapshot stress liquidity drawdown gap (xsum (map xl_gross_proceeds (xp_legs routed)))"
    "project routed = Some initial"
    "out = first_plan stress liquidity drawdown initial \<and> (routing_failed routed \<or> plan_restored out) \<or>
     (\<exists>revised plan second. list_all2 tightens (xp_targets (first_plan stress liquidity drawdown initial)) revised \<and>
        route_targets command snapshot revised callback = Some plan \<and> project plan = Some second \<and>
        (out = blocked_maximum (first_plan stress liquidity drawdown initial) second \<or> out = second \<and> plan_restored second))"
proof -
  from assms obtain protection usage where usage: "lo_protection_authorization liquidity = Some protection" "out_usage protection = Some usage"
    by (auto simp: conjoin_portfolio_targets_def Option.bind_eq_Some_conv)
  define obligations where "obligations = unpaid_obligations liquidity (us_unfinished_cash_obligations usage)"
  define gap where "gap = deadline_gap snapshot lcommand obligations"
  define callback where "callback = callback_of obligations gap"
  from assms usage obtain routed where routed: "route_targets command snapshot goals callback = Some routed"
    by (auto simp: conjoin_portfolio_targets_def Option.bind_eq_Some_conv Let_def callback_def callback_of_def gap_def obligations_def)
  define project where "project = project_plan snapshot stress liquidity drawdown gap (xsum (map xl_gross_proceeds (xp_legs routed)))"
  from assms usage routed obtain initial where projected: "project routed = Some initial"
    by (auto simp: conjoin_portfolio_targets_def Option.bind_eq_Some_conv Let_def callback_def callback_of_def gap_def obligations_def project_def)
  define first where "first = first_plan stress liquidity drawdown initial"
  define allocate where
    "allocate = allocate_plan command snapshot callback project (portfolio_ids stress liquidity drawdown) (xp_targets first)"
  note rest = assms[unfolded conjoin_eq[OF usage gap_def[unfolded obligations_def] callback_def[unfolded obligations_def]
      routed project_def projected first_def allocate_def]]
  have allocated: "\<exists>revised plan. list_all2 tightens (xp_targets first) revised \<and>
      route_targets command snapshot revised callback = Some plan \<and> project plan = Some second"
    if "allocate current sellable fraction = Some second" for current sellable fraction second
    using that by (auto simp: allocate_def allocate_plan_def Option.bind_eq_Some_conv dest: allocated_tightens)
  have "out = first \<and> (routing_failed routed \<or> plan_restored out) \<or>
     (\<exists>revised plan second. list_all2 tightens (xp_targets first) revised \<and>
        route_targets command snapshot revised callback = Some plan \<and> project plan = Some second \<and>
        (out = blocked_maximum first second \<or> out = second \<and> plan_restored second))"
  proof (cases "routing_failed routed \<or> plan_restored first")
    case False
    with rest obtain current sellable maximum where maximum: "allocate current sellable 1 = Some maximum"
      and out: "(if \<not> plan_restored maximum then Some (blocked_maximum first maximum)
            else bisect_fraction (allocate current sellable) 64 0 1 maximum) = Some out"
      by (auto simp: Option.bind_eq_Some_conv)
    show ?thesis
    proof (cases "plan_restored maximum")
      case True
      with out have "bisect_fraction (allocate current sellable) 64 0 1 maximum = Some out" by simp
      then have "\<exists>fraction. allocate current sellable fraction = Some out \<and> plan_restored out"
        by (rule bisect_fraction_invariant) (use maximum True in blast)+
      then show ?thesis using allocated by blast
    qed (use out allocated[OF maximum] in auto)
  qed (use rest in auto)
  with usage routed projected show thesis
    by (intro that[OF usage refl refl _ refl]) (simp_all add: gap_def callback_def obligations_def project_def first_def)
qed

text \<open>A plan of the waterfall that is not blocked removes by its own legs the gaps in stress, cash, dated obligations and
  exposure, and leaves no target incomplete.\<close>

lemma waterfall_fails_closed:
  assumes "conjoin_portfolio_targets command snapshot goals stress liquidity drawdown lcommand = Some out"
    and "xp_disposition out \<noteq> PLAN_BLOCKED"
  shows "\<exists>protection usage. lo_protection_authorization liquidity = Some protection \<and> out_usage protection = Some usage \<and>
    gaps_removed snapshot stress liquidity drawdown
      (deadline_gap snapshot lcommand (unpaid_obligations liquidity (us_unfinished_cash_obligations usage))) (xp_legs out) \<and>
    (\<forall>goal \<in> set (xp_targets out). xt_remaining_gap goal \<noteq> None \<and> (\<forall>gap. xt_remaining_gap goal = Some gap \<longrightarrow> gap \<le> 0))"
  using assms(1)
proof (cases rule: conjoin_cases)
  case (1 protection usage gap callback routed project initial)
  have complete: "list_all (\<lambda>goal. \<not> incomplete_target goal) (xp_targets plan)"
    if "route_targets command snapshot gs callback = Some plan" "project plan = Some x" "xp_disposition x \<noteq> PLAN_BLOCKED" for gs plan x
    using that routed_disposition[OF that(1)] project_plan_keeps(3)[of _ _ _ _ _ _ plan x] by (simp add: 1(6))
  have "gaps_removed snapshot stress liquidity drawdown gap (xp_legs out) \<and> list_all (\<lambda>goal. \<not> incomplete_target goal) (xp_targets out)"
    using 1(8)
  proof (elim disjE exE conjE)
    assume out: "out = first_plan stress liquidity drawdown initial" and "routing_failed routed"
    then have "xp_disposition routed = PLAN_BLOCKED" using failed_disposition[OF 1(5)] by blast
    then show ?thesis using assms(2) out project_plan_keeps(3)[OF 1(7)[unfolded 1(6)]] by (simp add: first_plan_def)
  next
    assume out: "out = first_plan stress liquidity drawdown initial" and "plan_restored out"
    then have "plan_restored initial" by (simp add: first_plan_def plan_restored_def)
    then have "gaps_removed snapshot stress liquidity drawdown gap (xp_legs initial)"
      by (rule project_plan_restored[OF 1(7)[unfolded 1(6)]])
    moreover have "list_all (\<lambda>goal. \<not> incomplete_target goal) (xp_targets initial)"
      using complete[OF 1(5,7)] assms(2) out project_plan_keeps(2)[OF 1(7)[unfolded 1(6)]] by (simp add: first_plan_def)
    ultimately show ?thesis
      by (simp add: out first_plan_def list_all_iff with_portfolio_ids_def incomplete_target_def)
  next
    fix revised plan second
    assume "out = blocked_maximum (first_plan stress liquidity drawdown initial) second"
    then show ?thesis using assms(2) by (simp add: blocked_maximum_def Let_def)
  next
    fix revised plan second
    assume second: "route_targets command snapshot revised callback = Some plan" "project plan = Some second"
      "out = second" "plan_restored second"
    then show ?thesis
      using complete[OF second(1,2)] assms(2) project_plan_restored[OF second(2)[unfolded 1(6)]]
        project_plan_keeps(2)[OF second(2)[unfolded 1(6)]] by simp
  qed
  with 1(1-3) show ?thesis
    by (auto simp: list_all_iff incomplete_target_def split: option.splits)
qed

text \<open>Whatever the waterfall decides, the targets of its plan are those it was given, in order: none is dropped, no target
  quantity is raised, no source obligation is lost, and an exit stays an exit.\<close>

lemma waterfall_tightens:
  assumes "conjoin_portfolio_targets command snapshot goals stress liquidity drawdown lcommand = Some out"
  shows "list_all2 tightens goals (xp_targets out)"
  using assms
proof (cases rule: conjoin_cases)
  case (1 protection usage gap callback routed project initial)
  have "xp_targets initial = xp_targets routed" by (rule project_plan_keeps(2)[OF 1(7)[unfolded 1(6)]])
  then have "list_all2 tightens goals (xp_targets initial)" using routed_tightens[OF 1(5)] by simp
  moreover have "list_all2 tightens (xp_targets initial) (xp_targets (first_plan stress liquidity drawdown initial))"
    by (simp add: first_plan_def list_all2_conv_all_nth tightens_with_ids)
  ultimately have first: "list_all2 tightens goals (xp_targets (first_plan stress liquidity drawdown initial))"
    by (rule list_all2_tightens_trans)
  have second: "list_all2 tightens goals (xp_targets second)"
    if "list_all2 tightens (xp_targets (first_plan stress liquidity drawdown initial)) revised"
      "route_targets command snapshot revised callback = Some plan" "project plan = Some second" for revised plan second
    using list_all2_tightens_trans[OF list_all2_tightens_trans[OF first that(1)] routed_tightens[OF that(2)]]
      project_plan_keeps(2)[OF that(3)[unfolded 1(6)]] by simp
  from 1(8) show ?thesis
    using first second by (auto simp: blocked_maximum_def Let_def split: if_splits)
qed

subsection \<open>The waterfall returns\<close>

lemma holdings_defined:
  "\<forall>unit \<in> set units. au_total_quantity unit \<noteq> None \<Longrightarrow>
     \<exists>current' sellable'. holdings current sellable units = Some (current', sellable') \<and>
       fst ` set current' = fst ` set current \<union> au_security_id ` set units \<and>
       fst ` set sellable' = fst ` set sellable \<union> au_security_id ` set units"
proof (induction units arbitrary: current sellable)
  case (Cons unit units)
  then obtain quantity where "au_total_quantity unit = Some quantity" by auto
  moreover obtain current' sellable' where
    "holdings (AList.update (au_security_id unit) (xadd (dict_get current (au_security_id unit) 0) quantity) current)
       (AList.update (au_security_id unit) (xadd (dict_get sellable (au_security_id unit) 0) (exact_quantity_of unit)) sellable)
       units = Some (current', sellable')"
    "fst ` set current' = insert (au_security_id unit) (fst ` set current) \<union> au_security_id ` set units"
    "fst ` set sellable' = insert (au_security_id unit) (fst ` set sellable) \<union> au_security_id ` set units"
    using Cons.IH[of "AList.update (au_security_id unit) (xadd (dict_get current (au_security_id unit) 0) quantity) current"
        "AList.update (au_security_id unit) (xadd (dict_get sellable (au_security_id unit) 0) (exact_quantity_of unit)) sellable"]
      Cons.prems by (auto simp: dom_update)
  ultimately show ?case by auto
qed auto

lemma sell_legs_defined:
  "xl_security_id ` set legs \<subseteq> fst ` set sellable \<Longrightarrow>
     \<exists>sellable'. sell_legs sellable legs = Some sellable' \<and> fst ` set sellable' = fst ` set sellable"
proof (induction legs arbitrary: sellable)
  case (Cons leg legs)
  then obtain quantity where quantity: "map_of sellable (xl_security_id leg) = Some quantity"
    by (metis insert_subset list.simps(15) image_insert map_of_eq_None_iff option.exhaust)
  have "fst ` set (AList.update (xl_security_id leg) (xsub quantity (xl_quantity leg)) sellable) = fst ` set sellable"
    using Cons.prems by (auto simp: dom_update)
  with Cons.IH[of "AList.update (xl_security_id leg) (xsub quantity (xl_quantity leg)) sellable"] Cons.prems quantity
  show ?case by simp
qed simp

lemma allocated_targets_defined:
  "\<forall>goal \<in> set goals. xt_remaining_quantity goal \<noteq> None \<and> xt_security_id goal \<in> fst ` set current \<and>
      xt_security_id goal \<in> fst ` set sellable \<Longrightarrow>
     allocated_targets (allocated_target current sellable ids fraction) goals \<noteq> None"
proof (induction goals)
  case (Cons goal goals)
  have "map_of current (xt_security_id goal) \<noteq> None" "map_of sellable (xt_security_id goal) \<noteq> None"
    using Cons.prems by (auto simp: map_of_eq_None_iff)
  then have "allocated_target current sellable ids fraction goal \<noteq> None"
    using Cons.prems by (auto simp: allocated_target_def Let_def)
  with Cons show ?case by auto
qed simp

lemma routed_leg_security:
  assumes "route_targets command snapshot goals gap = Some out" and "leg \<in> set (xp_legs out)"
  shows "xl_security_id leg \<in> au_security_id ` set (rs_action_units snapshot)"
proof -
  from assms obtain groups where "list_all2 (least_group command snapshot goals) goals groups" and "leg \<in> set (concat groups)"
    by (cases rule: route_targets_cases) (auto simp: blocked_plan_def planned_def Let_def)
  then obtain goal group where "least_group command snapshot goals goal group" "leg \<in> set group"
    by (auto dest: list_all2_right)
  then obtain key quantity where "make_leg command (routes_of command) (units_of snapshot) key quantity = Some leg"
    by (auto simp: least_group_def least_legs_def dest: make_legs_member)
  then obtain unit where "map_of (units_of snapshot) key = Some unit" "xl_security_id leg = snd key"
    by (auto simp: make_leg_def Let_def split: option.splits)
  then show ?thesis using units_of_member[of snapshot key unit] by (auto simp: unit_key_def)
qed

lemma routed_targets:
  assumes "route_targets command snapshot goals gap = Some out" and "\<not> routing_failed out"
  shows "\<forall>goal \<in> set (xp_targets out). xt_remaining_quantity goal \<noteq> None"
  using assms(1)
proof (cases rule: route_targets_cases)
  case (stopped reason)
  then show ?thesis using assms route_targets_reason routing_reasons_fail by blast
next
  case (searched groups revised conservative)
  then show ?thesis by (auto simp: planned_def Let_def least_result_def revised_target_def dest!: list_all2_right)
qed

lemma project_plan_defined:
  assumes "\<And>legs. gap legs \<noteq> None"
    and "is_outstanding (st_obligation stress) \<Longrightarrow> st_calculation_policy stress \<noteq> None \<and> st_net_liquidation_equity stress \<noteq> None"
  shows "project_plan snapshot stress liquidity drawdown gap initial_value plan \<noteq> None"
proof -
  have "stress_gap stress stock sold \<noteq> None" for stock sold
    using assms(2) by (auto simp: stress_gap_def is_outstanding_def split: option.splits)
  with assms(1) obtain gap' deadline where
    "stress_gap stress (stock_value snapshot) (xsum (map xl_gross_proceeds (xp_legs plan))) = Some gap'"
    "gap (xp_legs plan) = Some deadline" by (meson not_None_eq)
  then show ?thesis by (simp add: project_plan_def)
qed

lemma deadline_gap_defined:
  assumes "obligations \<noteq> [] \<Longrightarrow> cr_source_account_id ` set (lc_transfer_routes lcommand) \<union>
      cr_target_account_id ` set (lc_transfer_routes lcommand) \<union> co_target_account_id ` set obligations
      \<subseteq> ac_account_id ` set (rs_cash_states snapshot)"
  shows "deadline_gap snapshot lcommand obligations legs \<noteq> None"
proof -
  let ?resources = "map (\<lambda>r. (ar_account_id r, ar_available_at r, ar_amount r)) (plan_resources snapshot legs)"
  have "ac_account_id ` set (rs_cash_states snapshot) \<subseteq> fst ` set ?resources"
    by (auto simp: plan_resources_def image_image image_Un)
  then have "fund_obligations execution_precision ?resources (lc_transfer_routes lcommand) obligations \<noteq> None"
    using assms unfolding fund_obligations_None known_accounts_def by blast
  then show ?thesis by (auto simp: deadline_gap_def assess_available_cash_def)
qed

lemma unpaid_obligations_accounts:
  "co_target_account_id ` set (unpaid_obligations liquidity obligations) \<subseteq> co_target_account_id ` set obligations"
  by (auto simp: unpaid_obligations_def Let_def)

text \<open>C34: The waterfall returns wherever its handoffs are complete and every obligation and transfer names an account of the
  snapshot: no assertion fails, no account and no security of a target or a leg is unknown, the search for legs ends in a
  plan or a reason, the funding of the obligations ends for every candidate plan, and so does the bisection.\<close>

theorem waterfall_returns:
  assumes usage: "lo_protection_authorization liquidity = Some protection" "out_usage protection = Some usage"
    and accounts: "cr_source_account_id ` set (lc_transfer_routes lcommand) \<union> cr_target_account_id ` set (lc_transfer_routes lcommand) \<union>
      co_target_account_id ` set (us_unfinished_cash_obligations usage) \<subseteq> ac_account_id ` set (rs_cash_states snapshot)"
    and stress: "is_outstanding (st_obligation stress) \<Longrightarrow>
      st_calculation_policy stress \<noteq> None \<and> st_net_liquidation_equity stress \<noteq> None"
    and units: "\<And>unit. unit \<in> set (rs_action_units snapshot) \<Longrightarrow> au_total_quantity unit \<noteq> None"
    and goals: "\<And>goal. goal \<in> set goals \<Longrightarrow> xt_security_id goal \<in> au_security_id ` set (rs_action_units snapshot)"
  shows "conjoin_portfolio_targets command snapshot goals stress liquidity drawdown lcommand \<noteq> None"
proof -
  define gap where "gap = deadline_gap snapshot lcommand (unpaid_obligations liquidity (us_unfinished_cash_obligations usage))"
  have funded: "gap legs \<noteq> None" for legs
  proof -
    have "co_target_account_id ` set (unpaid_obligations liquidity (us_unfinished_cash_obligations usage))
        \<subseteq> ac_account_id ` set (rs_cash_states snapshot)"
      using accounts by (intro subset_trans[OF unpaid_obligations_accounts]) simp
    then show ?thesis unfolding gap_def using accounts by (intro deadline_gap_defined) simp
  qed
  define callback where "callback = callback_of (unpaid_obligations liquidity (us_unfinished_cash_obligations usage)) gap"
  have routes: "route_targets command snapshot gs callback \<noteq> None" for gs
    by (rule route_targets_returns) (use funded in \<open>auto simp: callback_def callback_of_def split: if_splits\<close>)
  then obtain routed where routed: "route_targets command snapshot goals callback = Some routed" by blast
  define project where "project = project_plan snapshot stress liquidity drawdown gap (xsum (map xl_gross_proceeds (xp_legs routed)))"
  have projects: "project plan \<noteq> None" for plan
    unfolding project_def by (rule project_plan_defined) (use funded stress in auto)
  then obtain initial where initial: "project routed = Some initial" by blast
  define first where "first = first_plan stress liquidity drawdown initial"
  obtain current all_sellable where holdings: "holdings [] [] (rs_action_units snapshot) = Some (current, all_sellable)"
    and keys: "fst ` set current = au_security_id ` set (rs_action_units snapshot)"
      "fst ` set all_sellable = au_security_id ` set (rs_action_units snapshot)"
    using holdings_defined[of "rs_action_units snapshot" "[]" "[]"] units by auto
  have legs: "xp_legs first = xp_legs routed" and goals': "xp_targets first = map (with_portfolio_ids (portfolio_ids stress liquidity drawdown)) (xp_targets routed)"
    using project_plan_keeps[OF initial[unfolded project_def]] by (simp_all add: first_def first_plan_def)
  obtain sellable where sold: "sell_legs all_sellable (xp_legs first) = Some sellable" "fst ` set sellable = fst ` set all_sellable"
    using sell_legs_defined[of "xp_legs first" all_sellable] routed_leg_security[OF routed] unfolding legs keys by blast
  define allocate where
    "allocate = allocate_plan command snapshot callback project (portfolio_ids stress liquidity drawdown) (xp_targets first)"
  have allocates: "allocate current sellable fraction \<noteq> None" if "\<not> routing_failed routed" for fraction
  proof -
    have "xt_security_id goal \<in> au_security_id ` set (rs_action_units snapshot)" if "goal \<in> set (xp_targets routed)" for goal
      using list_all2_right[OF routed_tightens[OF routed] that] goals by (force simp: tightens_def)
    then have "\<forall>goal \<in> set (xp_targets first). xt_remaining_quantity goal \<noteq> None \<and> xt_security_id goal \<in> fst ` set current \<and>
        xt_security_id goal \<in> fst ` set sellable"
      using routed_targets[OF routed that] unfolding goals' sold(2) keys by (simp add: with_portfolio_ids_def)
    from allocated_targets_defined[OF this] show ?thesis
      unfolding allocate_def allocate_plan_def using routes projects by (auto simp: bind_eq_None_conv)
  qed
  have "(if routing_failed routed \<or> plan_restored first then Some first
      else Option.bind (allocate current sellable 1) (\<lambda>maximum.
            if \<not> plan_restored maximum then Some (blocked_maximum first maximum)
            else bisect_fraction (allocate current sellable) 64 0 1 maximum)) \<noteq> None"
  proof (cases "routing_failed routed \<or> plan_restored first")
    case False
    then obtain maximum where "allocate current sellable 1 = Some maximum" using allocates by blast
    with False show ?thesis using bisect_fraction_defined[of "allocate current sellable"] allocates by simp
  qed simp
  then show ?thesis
    unfolding conjoin_eq[OF usage gap_def callback_def routed project_def initial first_def allocate_def] holdings
    by (auto simp: sold(1) simp del: not_None_eq split: if_split_asm)
qed

end
