(* ===== verification/Execution_Plan_Properties.thy ===== *)
theory Execution_Plan_Properties
  imports Execution_Plan Waterfall_Properties
begin

text \<open>
  No plan forgets a target it has to retain, so along the plans of a portfolio the caps never rise; and a plan that is not
  blocked rests on four reports about one snapshot and removes every gap.
\<close>

subsection \<open>Retained targets are kept\<close>

definition keeps :: "execution_target \<Rightarrow> execution_target \<Rightarrow> bool" where
  "keeps goal result \<longleftrightarrow>
     xt_security_id result = xt_security_id goal \<and> xt_target_quantity result \<le> xt_target_quantity goal \<and>
     set (xt_source_obligation_ids goal) \<subseteq> set (xt_source_obligation_ids result)"

lemma keeps_refl [simp]: "keeps goal goal"
  by (simp add: keeps_def)

lemma keeps_trans: "keeps a b \<Longrightarrow> keeps b c \<Longrightarrow> keeps a c"
  by (auto simp: keeps_def)

lemma tightens_keeps: "tightens a b \<Longrightarrow> keeps a b"
  by (simp add: tightens_def keeps_def)

lemma quantity_target_simps [simp]:
  "xt_security_id (quantity_target security quantity sources direction) = security"
  "xt_target_quantity (quantity_target security quantity sources direction) = quantity"
  "xt_source_obligation_ids (quantity_target security quantity sources direction) = sources"
  by (simp_all add: quantity_target_def)

definition keyed_targets :: "target_dict \<Rightarrow> bool" where
  "keyed_targets retained \<longleftrightarrow> (\<forall>(security, goal) \<in> set retained. xt_security_id goal = security) \<and> distinct (map fst retained)"

lemma keyed_targetsD: "keyed_targets retained \<Longrightarrow> map_of retained security = Some goal \<Longrightarrow> xt_security_id goal = security"
  by (drule map_of_SomeD) (auto simp: keyed_targets_def)

lemma retain_keyed:
  assumes "keyed_targets retained"
  shows "keyed_targets (retain retained goal)"
proof -
  have "xt_security_id g = security"
    if "(security, g) \<in> set (AList.update k (quantity_target k q s d) retained)" for security g k q s d
  proof -
    have "distinct (map fst (AList.update k (quantity_target k q s d) retained))"
      using assms by (simp add: keyed_targets_def distinct_update)
    then have "map_of (AList.update k (quantity_target k q s d) retained) security = Some g"
      using that by simp
    then show ?thesis using keyed_targetsD[OF assms] by (auto simp: update_conv' split: if_splits)
  qed
  then show ?thesis using assms by (auto simp: keyed_targets_def retain_def Let_def distinct_update)
qed

lemma retain_keeps:
  assumes "keyed_targets retained"
  shows "\<exists>t. map_of (retain retained goal) (xt_security_id goal) = Some t \<and> keeps goal t"
    and "map_of retained security = Some prior \<Longrightarrow> \<exists>t. map_of (retain retained goal) security = Some t \<and> keeps prior t"
proof -
  show "\<exists>t. map_of (retain retained goal) (xt_security_id goal) = Some t \<and> keeps goal t"
    by (auto simp: retain_def Let_def update_conv' keeps_def split: option.splits)
  show "\<exists>t. map_of (retain retained goal) security = Some t \<and> keeps prior t" if "map_of retained security = Some prior"
    using that keyed_targetsD[OF assms that]
    by (cases "security = xt_security_id goal") (auto simp: retain_def Let_def update_conv' keeps_def)
qed

lemma retain_all:
  assumes "keyed_targets retained"
  shows "keyed_targets (foldl retain retained goals) \<and>
    (\<forall>security prior. map_of retained security = Some prior \<longrightarrow>
      (\<exists>t. map_of (foldl retain retained goals) security = Some t \<and> keeps prior t)) \<and>
    (\<forall>goal \<in> set goals. \<exists>t. map_of (foldl retain retained goals) (xt_security_id goal) = Some t \<and> keeps goal t)"
  using assms
proof (induction goals arbitrary: retained)
  case (Cons goal goals)
  note step = retain_keyed[OF Cons.prems, of goal] retain_keeps[OF Cons.prems]
  note IH = Cons.IH[OF step(1)]
  have later: "\<exists>t. map_of (foldl retain (retain retained goal) goals) security = Some t \<and> keeps prior t"
    if "map_of (retain retained goal) security = Some p" "keeps prior p" for security prior p
    using IH that by (meson keeps_trans)
  show ?case using IH later step(2)[of goal] step(3)[of _ _ goal] by (simp, blast)
qed simp

definition retained_sources ::
    "('f, 'r) host_ledger \<Rightarrow> execution_plan_command \<Rightarrow> result_access_scope \<Rightarrow> past_plan list \<Rightarrow> execution_target list" where
  "retained_sources ledger command scope history =
     history_targets history @ established_targets command @
     concentration_targets command scope (formal_report_for_event ledger (ep_concentration_event_id command)) @
     preservation_targets ledger command scope (formal_report_for_event ledger (ep_drawdown_event_id command))"

lemma retained_targets_keep:
  "keyed_targets (retained_targets ledger command scope history)"
  "goal \<in> set (retained_sources ledger command scope history) \<Longrightarrow>
     \<exists>t. map_of (retained_targets ledger command scope history) (xt_security_id goal) = Some t \<and> keeps goal t"
  unfolding retained_targets_def retained_sources_def[symmetric]
proof -
  have "keyed_targets []" by (simp add: keyed_targets_def)
  note all = retain_all[OF this, of "retained_sources ledger command scope history"]
  show "keyed_targets (foldl retain [] (retained_sources ledger command scope history))" using all by blast
  show "\<exists>t. map_of (foldl retain [] (retained_sources ledger command scope history)) (xt_security_id goal) = Some t \<and> keeps goal t"
    if "goal \<in> set (retained_sources ledger command scope history)" using all that by blast
qed

lemma sorted_values_member: "map_of retained security = Some goal \<Longrightarrow> goal \<in> set (sorted_values retained)"
  by (auto simp: sorted_values_def List.map_filter_def dest: map_of_SomeD intro!: rev_image_eqI)

subsection \<open>Capped quantities\<close>

lemma cap_quantities_keeps:
  assumes "cap_quantities quantities caps obligations retained = Some (caps', obligations')"
  shows "dict_get caps' security 0 \<le> dict_get caps security 0 \<or> map_of caps security = None"
    and "set (dict_get obligations security []) \<subseteq> set (dict_get obligations' security [])"
    and "map_of retained security = Some goal \<Longrightarrow> security \<in> fst ` set quantities \<and>
      dict_get caps' security 0 \<le> xt_target_quantity goal \<and>
      set (xt_source_obligation_ids goal) \<subseteq> set (dict_get obligations' security [])"
proof -
  have *: "(map_of caps security \<noteq> None \<longrightarrow> map_of caps' security \<noteq> None \<and> dict_get caps' security 0 \<le> dict_get caps security 0) \<and>
      set (dict_get obligations security []) \<subseteq> set (dict_get obligations' security []) \<and>
      (\<forall>goal. map_of retained security = Some goal \<longrightarrow> security \<in> fst ` set quantities \<and>
        dict_get caps' security 0 \<le> xt_target_quantity goal \<and>
        set (xt_source_obligation_ids goal) \<subseteq> set (dict_get obligations' security []))"
    using assms
  proof (induction retained arbitrary: caps obligations)
    case (Cons item retained)
    obtain s g where item: "item = (s, g)" by (cases item)
    let ?caps = "AList.update s (min (dict_get caps s 0) (xt_target_quantity g)) caps"
    let ?obligations = "AList.update s (dict_get obligations s [] @ xt_source_obligation_ids g) obligations"
    from Cons.prems item have known: "s \<in> fst ` set quantities"
      and rest: "cap_quantities quantities ?caps ?obligations retained = Some (caps', obligations')"
      by (auto split: if_splits)
    note IH = Cons.IH[OF rest]
    show ?case
    proof (cases "s = security")
      case True
      have "map_of ?caps security \<noteq> None" "dict_get ?caps security 0 = min (dict_get caps security 0) (xt_target_quantity g)"
        "dict_get ?obligations security [] = dict_get obligations security [] @ xt_source_obligation_ids g"
        using True by (simp_all add: dict_get_def update_conv')
      with IH item True known show ?thesis by auto
    next
      case False
      then have "map_of ?caps security = map_of caps security" "dict_get ?caps security 0 = dict_get caps security 0"
        "dict_get ?obligations security [] = dict_get obligations security []"
        by (simp_all add: dict_get_def update_conv')
      with IH item False show ?thesis by auto
    qed
  qed (simp add: dict_get_def)
  then show "dict_get caps' security 0 \<le> dict_get caps security 0 \<or> map_of caps security = None"
    and "set (dict_get obligations security []) \<subseteq> set (dict_get obligations' security [])"
    and "map_of retained security = Some goal \<Longrightarrow> security \<in> fst ` set quantities \<and>
      dict_get caps' security 0 \<le> xt_target_quantity goal \<and>
      set (xt_source_obligation_ids goal) \<subseteq> set (dict_get obligations' security [])"
    by blast+
qed

lemma plan_targets_keep:
  assumes "cap_quantities quantities quantities obligations retained = Some (caps, obligations')"
    and "map_of retained (xt_security_id goal) = Some goal"
  shows "\<exists>t \<in> set (plan_targets quantities caps obligations'). keeps goal t"
proof -
  note capped = cap_quantities_keeps(3)[OF assms]
  let ?security = "xt_security_id goal"
  define t where "t = (quantity_target ?security (dict_get caps ?security 0) (dict_get obligations' ?security [])
      (if dict_get caps ?security 0 = 0 then EXIT_TARGET
       else if dict_get caps ?security 0 < dict_get quantities ?security 0 then REDUCE_TARGET else HOLD_TARGET))
      \<lparr>xt_required_sale_quantity := Some (max 0 (xsub (dict_get quantities ?security 0) (dict_get caps ?security 0)))\<rparr>"
  have "t \<in> set (plan_targets quantities caps obligations')"
    using capped by (auto simp: plan_targets_def t_def Let_def intro!: rev_image_eqI)
  moreover have "keeps goal t" using capped by (simp add: keeps_def t_def)
  ultimately show ?thesis ..
qed

subsection \<open>The adjudication\<close>

lemma adjudicate_plan_cases:
  assumes "adjudicate_execution_plan ledger scope command = Some out"
  obtains (refused) reason where
      "history_refusal scope (ep_cutoff_at command) (execution_plan_history ledger scope (ep_portfolio_id command)) = Some reason"
      "out = blocked_plan [reason] []"
  | (missing) reason where
      "history_refusal scope (ep_cutoff_at command) (execution_plan_history ledger scope (ep_portfolio_id command)) = None"
      "out = blocked_plan [reason] (sorted_values (retained_targets ledger command scope
         (execution_plan_history ledger scope (ep_portfolio_id command))))"
  | (conjoined) h quantities caps obligations where
      "history_refusal scope (ep_cutoff_at command) (execution_plan_history ledger scope (ep_portfolio_id command)) = None"
      "risk_handoff_of ledger command scope = Some h" "\<not> identity_mismatch ledger command scope h" "\<not> evidence_failed h"
      "total_quantities [] (rs_action_units (po_snapshot (rh_position h))) = Some quantities"
      "cap_quantities quantities quantities (map (\<lambda>(security, quantity). (security, [])) quantities)
         (retained_targets ledger command scope (execution_plan_history ledger scope (ep_portfolio_id command))) =
         Some (caps, obligations)"
      "conjoined_plan command h (plan_targets quantities caps obligations) = Some out"
  using assms unfolding adjudicate_execution_plan_def Let_def
  by (simp split: option.splits if_splits prod.splits) blast+

lemma history_refusal_reason:
  "history_refusal scope cutoff history = Some reason \<Longrightarrow>
     reason = ''EXECUTION_HISTORY_SCOPE_INCOMPLETE'' \<or> reason = ''EXECUTION_SNAPSHOT_NOT_FORWARD''"
  by (induction history) (auto split: if_splits)

lemma conjoined_plan_tightens:
  assumes "conjoined_plan command h goals = Some out"
  shows "list_all2 tightens goals (xp_targets out)"
  using assms by (auto simp: conjoined_plan_def dest: waterfall_tightens)

lemma adjudicated_not_refused:
  assumes "adjudicate_execution_plan ledger scope command = Some out"
    and "xp_reasons out \<noteq> [''EXECUTION_HISTORY_SCOPE_INCOMPLETE'']" "xp_reasons out \<noteq> [''EXECUTION_SNAPSHOT_NOT_FORWARD'']"
  shows "history_refusal scope (ep_cutoff_at command) (execution_plan_history ledger scope (ep_portfolio_id command)) = None"
  using assms(1)
proof (cases rule: adjudicate_plan_cases)
  case (refused reason)
  then show ?thesis using assms(2,3) history_refusal_reason[OF refused(1)] by (auto simp: blocked_plan_def)
qed

lemma adjudicated_keeps:
  assumes "adjudicate_execution_plan ledger scope command = Some out"
    and "history_refusal scope (ep_cutoff_at command) (execution_plan_history ledger scope (ep_portfolio_id command)) = None"
    and "goal \<in> set (retained_sources ledger command scope (execution_plan_history ledger scope (ep_portfolio_id command)))"
  shows "\<exists>t \<in> set (xp_targets out). keeps goal t"
proof -
  from retained_targets_keep(2)[OF assms(3)] obtain t where
    t: "map_of (retained_targets ledger command scope (execution_plan_history ledger scope (ep_portfolio_id command)))
      (xt_security_id goal) = Some t" "keeps goal t" by blast
  from assms(1) show ?thesis
  proof (cases rule: adjudicate_plan_cases)
    case (refused reason)
    then show ?thesis using assms(2) by simp
  next
    case (missing reason)
    then show ?thesis using sorted_values_member[OF t(1)] t(2) by (auto simp: blocked_plan_def)
  next
    case (conjoined h quantities caps obligations)
    have "xt_security_id t = xt_security_id goal" using t(2) by (simp add: keeps_def)
    with t(1) obtain planned where "planned \<in> set (plan_targets quantities caps obligations)" "keeps t planned"
      using plan_targets_keep[OF conjoined(6), of t] by auto
    moreover obtain result where "result \<in> set (xp_targets out)" "tightens planned result"
      using list_all2_left[OF conjoined_plan_tightens[OF conjoined(7)] calculation(1)] by blast
    ultimately show ?thesis using t(2) tightens_keeps keeps_trans by blast
  qed
qed

lemma sorted_values_securities:
  assumes "keyed_targets retained"
  shows "distinct (map xt_security_id (sorted_values retained))"
proof -
  have "map xt_security_id (List.map_filter (map_of retained) keys) = filter (\<lambda>k. map_of retained k \<noteq> None) keys" for keys
    using keyed_targetsD[OF assms] by (induction keys) (auto simp: List.map_filter_def)
  then show ?thesis using assms by (simp add: sorted_values_def keyed_targets_def)
qed

lemma total_quantities_distinct:
  "total_quantities quantities units = Some quantities' \<Longrightarrow> distinct (map fst quantities) \<Longrightarrow> distinct (map fst quantities')"
  by (induction units arbitrary: quantities) (auto simp: distinct_update split: option.splits)

text \<open>Every plan has at most one target for a security.\<close>

lemma adjudicated_securities:
  assumes "adjudicate_execution_plan ledger scope command = Some out"
  shows "distinct (map xt_security_id (xp_targets out))"
  using assms
proof (cases rule: adjudicate_plan_cases)
  case (conjoined h quantities caps obligations)
  have "map xt_security_id (plan_targets quantities caps obligations) = sort (map fst quantities)"
    by (simp add: plan_targets_def Let_def comp_def)
  moreover have "distinct (map fst quantities)" using total_quantities_distinct[OF conjoined(5)] by simp
  moreover have "map xt_security_id (xp_targets out) = map xt_security_id (plan_targets quantities caps obligations)"
    using conjoined_plan_tightens[OF conjoined(7)] by (induction rule: list_all2_induct) (auto simp: tightens_def)
  ultimately show ?thesis by simp
qed (simp_all add: blocked_plan_def sorted_values_securities retained_targets_keep(1))

text \<open>C36: Whatever a plan decides, it names every target it has to retain, of earlier plans, of the command, of pending
  concentration obligations and of a portfolio in preservation, at no greater quantity and with all its source
  obligations; only a plan refused because its scope or its cutoff falls behind the history names none.
\<close>

theorem plan_retains_targets:
  assumes "adjudicate_execution_plan ledger scope command = Some out"
    and "xp_reasons out \<noteq> [''EXECUTION_HISTORY_SCOPE_INCOMPLETE'']" "xp_reasons out \<noteq> [''EXECUTION_SNAPSHOT_NOT_FORWARD'']"
    and "goal \<in> set (retained_sources ledger command scope (execution_plan_history ledger scope (ep_portfolio_id command)))"
  shows "\<exists>t \<in> set (xp_targets out). keeps goal t"
  using assms(1) adjudicated_not_refused[OF assms(1-3)] assms(4) by (rule adjudicated_keeps)

text \<open>C35: A plan that is not blocked rests on four reports in the scope of the caller about one portfolio, authorization, cutoff
  and snapshot, none of which failed for want of evidence; its legs remove the gaps in stress, cash, dated obligations and
  exposure, and no target stays incomplete.
\<close>

theorem plan_fails_closed:
  assumes "adjudicate_execution_plan ledger scope command = Some out" and "xp_disposition out \<noteq> PLAN_BLOCKED"
  shows "\<exists>h protection usage. risk_handoff_of ledger command scope = Some h \<and>
    \<not> identity_mismatch ledger command scope h \<and> \<not> evidence_failed h \<and>
    lo_protection_authorization (rh_liquidity h) = Some protection \<and> out_usage protection = Some usage \<and>
    gaps_removed (po_snapshot (rh_position h)) (rh_stress h) (rh_liquidity h) (rh_state h)
      (deadline_gap (po_snapshot (rh_position h)) (rh_liquidity_command h)
        (unpaid_obligations (rh_liquidity h) (us_unfinished_cash_obligations usage))) (xp_legs out) \<and>
    (\<forall>goal \<in> set (xp_targets out). xt_remaining_gap goal \<noteq> None \<and> (\<forall>gap. xt_remaining_gap goal = Some gap \<longrightarrow> gap \<le> 0))"
  using assms(1)
proof (cases rule: adjudicate_plan_cases)
  case (conjoined h quantities caps obligations)
  from conjoined(7) obtain plan where plan: "conjoin_portfolio_targets command (po_snapshot (rh_position h))
      (plan_targets quantities caps obligations) (rh_stress h) (rh_liquidity h) (rh_state h) (rh_liquidity_command h) = Some plan"
    and out: "xp_disposition out = xp_disposition plan" "xp_legs out = xp_legs plan" "xp_targets out = xp_targets plan"
    by (auto simp: conjoined_plan_def)
  from waterfall_fails_closed[OF plan] assms(2) out conjoined(2-4) show ?thesis by auto
qed (use assms(2) in \<open>simp_all add: blocked_plan_def\<close>)

subsection \<open>The plans of a ledger\<close>

text \<open>
  The events of a ledger: one without a plan, the correction of an earlier event, and an adjudicated plan.  Reports are
  published at any time.
\<close>

inductive plan_ledger :: "('f, 'r) host_ledger \<Rightarrow> bool" where
  no_event: "hl_facts ledger = [] \<Longrightarrow> plan_ledger ledger"
| reports: "plan_ledger ledger \<Longrightarrow> plan_ledger (ledger\<lparr>hl_reports := published\<rparr>)"
| other_event: "plan_ledger ledger \<Longrightarrow> hf_plan event = None \<or> hf_plan_command event = None \<Longrightarrow>
    plan_ledger (ledger\<lparr>hl_facts := hl_facts ledger @ [event]\<rparr>)"
| correction: "plan_ledger ledger \<Longrightarrow> hf_corrects_event_id event \<noteq> None \<Longrightarrow>
    plan_ledger (ledger\<lparr>hl_facts := hl_facts ledger @ [event]\<rparr>)"
| plan: "plan_ledger ledger \<Longrightarrow> hf_access_scope event = Some scope \<Longrightarrow> hf_plan_command event = Some command \<Longrightarrow>
    adjudicate_execution_plan ledger scope command = Some out \<Longrightarrow> hf_plan event = Some out \<Longrightarrow>
    plan_ledger (ledger\<lparr>hl_facts := hl_facts ledger @ [event]\<rparr>)"

definition succeeds :: "past_plan \<Rightarrow> past_plan \<Rightarrow> bool" where
  "succeeds earlier later =
     (case (earlier, later) of ((scope, command, plan), (scope', command', plan')) \<Rightarrow>
        set (ras_account_ids scope) \<subseteq> set (ras_account_ids scope') \<and> ep_cutoff_at command \<le> ep_cutoff_at command' \<and>
        (\<forall>goal \<in> set (xp_targets plan). xt_source_obligation_ids goal \<noteq> [] \<longrightarrow>
           (\<exists>goal' \<in> set (xp_targets plan'). keeps goal goal' \<and> xt_source_obligation_ids goal' \<noteq> [])))"

lemma history_not_refused:
  "history_refusal scope cutoff history = None \<Longrightarrow> (prior_scope, prior_command, prior_plan) \<in> set history \<Longrightarrow>
     set (ras_account_ids prior_scope) \<subseteq> set (ras_account_ids scope) \<and> ep_cutoff_at prior_command \<le> cutoff"
  by (induction history) (auto split: if_splits)

lemma plan_history_reports: "execution_plan_history (ledger\<lparr>hl_reports := published\<rparr>) scope pid = execution_plan_history ledger scope pid"
  by (simp add: execution_plan_history_def original_facts_def)

lemma plan_history_append:
  "execution_plan_history (ledger\<lparr>hl_facts := hl_facts ledger @ [event]\<rparr>) scope pid =
     execution_plan_history ledger scope pid @
     (if hf_corrects_event_id event = None then (case past_plan_of scope pid event of None \<Rightarrow> [] | Some past \<Rightarrow> [past]) else [])"
  by (cases "past_plan_of scope pid event")
    (auto simp: execution_plan_history_def original_facts_def List.map_filter_def)

lemma past_plan_owner: "past_plan_of access_scope pid event = Some (scope, command, plan) \<Longrightarrow>
    hf_access_scope event = Some scope \<and> hf_plan_command event = Some command \<and> hf_plan event = Some plan \<and>
    same_owner scope access_scope \<and> ep_portfolio_id command = pid \<and> set (xp_reasons plan) \<inter> set dismissed_reasons = {}"
  by (auto simp: past_plan_of_def split: option.splits if_splits)

lemma plan_history_same_owner: "same_owner scope scope' \<Longrightarrow> execution_plan_history ledger scope pid = execution_plan_history ledger scope' pid"
proof -
  assume "same_owner scope scope'"
  then have "past_plan_of scope pid = (past_plan_of scope' pid :: 'a host_fact_scheme \<Rightarrow> _)"
    by (auto simp: fun_eq_iff past_plan_of_def same_owner_def split: option.splits)
  then show ?thesis by (simp add: execution_plan_history_def)
qed

text \<open>C37: In every ledger the plans of a portfolio that count form a chain: a later one covers the accounts of an earlier one, is
  not before it, and names each of its obliged targets at no greater quantity and with all its source obligations; so a cap
  once stated never rises.
\<close>

theorem execution_caps_never_rise:
  assumes "plan_ledger ledger"
  shows "sorted_wrt succeeds (execution_plan_history ledger scope pid)"
  using assms
proof (induction arbitrary: scope)
  case (plan ledger event scope' command out)
  show ?case
  proof (cases "past_plan_of scope pid event")
    case (Some past)
    obtain s c p where "past = (s, c, p)" by (cases past)
    with Some past_plan_owner[of scope pid event s c p] plan.hyps have past: "past = (scope', command, out)"
      and owner: "same_owner scope' scope" and pid: "ep_portfolio_id command = pid"
      and reasons: "set (xp_reasons out) \<inter> set dismissed_reasons = {}" by auto
    have history: "execution_plan_history ledger scope' (ep_portfolio_id command) = execution_plan_history ledger scope pid"
      using plan_history_same_owner[OF owner] pid by simp
    have current: "xp_reasons out \<noteq> [''EXECUTION_HISTORY_SCOPE_INCOMPLETE'']" "xp_reasons out \<noteq> [''EXECUTION_SNAPSHOT_NOT_FORWARD'']"
      using reasons by (auto simp: dismissed_reasons_def)
    then have fresh: "history_refusal scope' (ep_cutoff_at command) (execution_plan_history ledger scope pid) = None"
      using adjudicated_not_refused[OF plan.hyps(4)] unfolding history by blast
    then have "succeeds prior past" if "prior \<in> set (execution_plan_history ledger scope pid)" for prior
    proof -
      obtain ps pc pp where prior: "prior = (ps, pc, pp)" by (cases prior)
      have "\<exists>t \<in> set (xp_targets out). keeps goal t \<and> xt_source_obligation_ids t \<noteq> []"
        if "goal \<in> set (xp_targets pp)" "xt_source_obligation_ids goal \<noteq> []" for goal
      proof -
        have "goal \<in> set (retained_sources ledger command scope' (execution_plan_history ledger scope' (ep_portfolio_id command)))"
          using that \<open>prior \<in> _\<close> by (force simp: retained_sources_def history_targets_def history prior)
        from adjudicated_keeps[OF plan.hyps(4) fresh[folded history] this] that(2) show ?thesis by (fastforce simp: keeps_def)
      qed
      with history_not_refused[OF fresh] that show ?thesis
        by (simp add: succeeds_def past prior del: less_eq_datetime_def)
    qed
    then have "\<forall>prior \<in> set (execution_plan_history ledger scope pid). succeeds prior past" by blast
    with plan.IH[of scope] have "sorted_wrt succeeds (execution_plan_history ledger scope pid @ [past])"
      by (simp only: sorted_wrt_append sorted_wrt.simps list.set) blast
    with plan.IH[of scope] show ?thesis by (simp only: plan_history_append Some option.case) simp
  qed (use plan.IH[of scope] in \<open>simp add: plan_history_append\<close>)
next
  case (no_event ledger)
  then show ?case by (simp add: execution_plan_history_def original_facts_def List.map_filter_def)
next
  case (other_event ledger event)
  then have "past_plan_of scope pid event = None" by (auto simp: past_plan_of_def split: option.splits)
  with other_event.IH show ?case by (simp add: plan_history_append)
qed (auto simp: plan_history_reports plan_history_append)

end
