(* ===== verification/Action_Properties.thy ===== *)
theory Action_Properties
  imports Position_Actions Execution_Plan_Properties
begin

text \<open>
  A hard gate of the security exits whatever the statistics say, a statistical direction rests on facts that are all in
  order, and no conclusion goes above a target that an earlier action of the lifecycle is obliged to.
\<close>

subsection \<open>Missing handoffs\<close>

lemma obliged_quantity_target [simp]:
  "obliged_target security (quantity_target s q sources d) \<longleftrightarrow> s = security \<and> sources \<noteq> []"
  by (simp add: obliged_target_def)

lemma anchored_conclusion_keeps [simp]:
  "px_disposition (anchored_conclusion event_id command history position missing) = px_disposition missing"
  "px_direction (anchored_conclusion event_id command history position missing) = px_direction missing"
  "px_target_quantity (anchored_conclusion event_id command history position missing) = px_target_quantity missing"
  "px_model_direction (anchored_conclusion event_id command history position missing) = px_model_direction missing"
  by (auto simp: anchored_conclusion_def split: option.splits)

lemma retained_conclusion_model [simp]: "px_model_direction (retained_conclusion command history base_plan) = None"
  "px_model_direction (independent_conclusion command base_plan) = None"
  by (auto simp: retained_conclusion_def independent_conclusion_def handoff_missing_def Let_def split: option.splits)

lemma retained_conclusion_target:
  assumes "goal \<in> set (past_targets history)" and "obliged_target (pn_security_id command) goal"
  shows "\<exists>q. px_target_quantity (retained_conclusion command history base_plan) = Some q \<and> q \<le> xt_target_quantity goal \<and>
    px_direction (retained_conclusion command history base_plan) = Some (reduction_direction q)"
proof -
  let ?goals = "binding_targets command history base_plan"
  have "goal \<in> set ?goals" using assms by (simp add: binding_targets_def)
  then have "?goals \<noteq> []" and "Min (set (map xt_target_quantity ?goals)) \<le> xt_target_quantity goal"
    by (auto intro!: Min_le)
  then show ?thesis
    by (auto simp: retained_conclusion_def ceiling_target_def Let_def) (simp_all add: quantity_target_def)
qed

lemma unresolved_exit_exits [simp]:
  "px_disposition (unresolved_exit command base_plan security missing) = CONCLUDED"
  "px_direction (unresolved_exit command base_plan security missing) = Some EXIT_TARGET"
  "px_target_quantity (unresolved_exit command base_plan security missing) = Some 0"
  "px_model_direction (unresolved_exit command base_plan security missing) = px_model_direction missing"
  by (simp_all add: unresolved_exit_def Let_def)

lemma liquidation_exits [simp]:
  "px_disposition (liquidation_exit event_id command history p security plan quantity) = CONCLUDED"
  "px_direction (liquidation_exit event_id command history p security plan quantity) = Some EXIT_TARGET"
  "px_target_quantity (liquidation_exit event_id command history p security plan quantity) = Some 0"
  "px_model_direction (liquidation_exit event_id command history p security plan quantity) = None"
  by (simp_all add: liquidation_exit_def Let_def handoff_missing_def)

subsection \<open>The branches of an adjudication\<close>

lemma adjudicate_action_cases:
  assumes "adjudicate_action ledger scope event_id prerequisite_met check command base_plan = Some out"
    and "action_refusal scope command
      (position_action_history ledger scope (ep_portfolio_id (pn_execution command)) (pn_lifecycle_id command)) = None"
  obtains (missing) history where
      "history = position_action_history ledger scope (ep_portfolio_id (pn_execution command)) (pn_lifecycle_id command)"
      "out = anchored_conclusion event_id command history (position_handoff ledger scope command)
         (retained_conclusion command history base_plan)"
      "\<And>assessment security. security_handoff ledger scope command = Some (assessment, security) \<Longrightarrow> eo_hard_gates security = [] \<or>
         (\<exists>p. position_handoff ledger scope command = Some p \<and> security_units (po_snapshot p) (pn_security_id command) = [])"
  | (unresolved) assessment security missing where
      "security_handoff ledger scope command = Some (assessment, security)" "eo_hard_gates security \<noteq> []"
      "px_model_direction missing = None" "out = unresolved_exit command base_plan security missing"
  | (liquidation) history p security plan quantity where
      "out = liquidation_exit event_id command history p security plan quantity"
  | (statistical) history p assessment security retained execution plan quantity where
      "history = position_action_history ledger scope (ep_portfolio_id (pn_execution command)) (pn_lifecycle_id command)"
      "security_handoff ledger scope command = Some (assessment, security)" "position_handoff ledger scope command = Some p"
      "eo_hard_gates security = []" "quantity = units_quantity (security_units (po_snapshot p) (pn_security_id command))"
      "established_for (pn_policy command) (rs_snapshot_evidence (po_snapshot p))
         (filter (\<lambda>goal. xt_security_id goal = pn_security_id command) (past_targets history)) = Some retained"
      "execution = with_established (pn_execution command) retained"
      "adjudicate_execution_plan ledger scope execution = Some plan"
      "statistical_conclusion ledger scope event_id prerequisite_met check command history p assessment security retained
         execution plan quantity = Some out"
proof -
  let ?history = "position_action_history ledger scope (ep_portfolio_id (pn_execution command)) (pn_lifecycle_id command)"
  let ?missing = "anchored_conclusion event_id command ?history (position_handoff ledger scope command)
    (retained_conclusion command ?history base_plan)"
  show thesis
  proof (cases "security_handoff ledger scope command")
    case None
    with assms have "out = ?missing" by (simp add: adjudicate_action_def Let_def)
    with None show thesis by (intro missing) auto
  next
    case (Some both)
    then obtain assessment security where handoff: "security_handoff ledger scope command = Some (assessment, security)"
      by (cases both) auto
    have both: thesis if "out = (if eo_hard_gates security = [] then ?missing else unresolved_exit command base_plan security ?missing)"
    proof (cases "eo_hard_gates security = []")
      case True
      with that handoff show thesis by (intro missing) auto
    next
      case False
      with that handoff show thesis by (intro unresolved) auto
    qed
    show thesis
    proof (cases "position_handoff ledger scope command")
      case None
      with assms handoff have "out = (if eo_hard_gates security = [] then ?missing
          else unresolved_exit command base_plan security ?missing)"
        by (auto simp: adjudicate_action_def Let_def)
      from both[OF this] show thesis .
    next
      case position: (Some p)
      let ?units = "security_units (po_snapshot p) (pn_security_id command)"
      show thesis
      proof (cases "\<not> dt_eq (rs_cutoff_at (po_snapshot p)) (pn_cutoff_at command) \<or> list_ex (\<lambda>unit. au_total_quantity unit = None) ?units")
        case True
        with assms handoff position have "out = (if eo_hard_gates security = [] then ?missing
            else unresolved_exit command base_plan security ?missing)"
          by (auto simp: adjudicate_action_def Let_def simp del: dt_eq_def)
        from both[OF this] show thesis .
      next
        case known: False
        show thesis
        proof (cases "?units = []")
          case True
          with assms handoff position known have "out = ?missing" by (simp add: adjudicate_action_def Let_def del: dt_eq_def)
          with position True show thesis by (intro missing) auto
        next
          case False
          let ?made = "established_for (pn_policy command) (rs_snapshot_evidence (po_snapshot p))
            (filter (\<lambda>goal. xt_security_id goal = pn_security_id command) (past_targets ?history))"
          from assms handoff position known False obtain retained gate plan where
            retained: "?made = Some retained"
            and gate: "(if eo_hard_gates security = [] then Some []
                else map_option (\<lambda>established. [established]) (make_established (pn_policy command)
                  (rs_snapshot_evidence (po_snapshot p)) (Some ''P0'') (pn_security_event_id command) (pn_security_id command) 0)) = Some gate"
            and plan: "adjudicate_execution_plan ledger scope
              (with_established (with_established (pn_execution command) retained) gate) = Some plan"
            and out: "(if eo_hard_gates security \<noteq> [] \<or>
                 list_ex (\<lambda>goal. obliged_target (pn_security_id command) goal \<and> xt_target_quantity goal = 0) (xp_targets plan)
              then Some (liquidation_exit event_id command ?history p security plan (units_quantity ?units))
              else statistical_conclusion ledger scope event_id prerequisite_met check command ?history p assessment security
                retained (with_established (with_established (pn_execution command) retained) gate) plan (units_quantity ?units)) = Some out"
            by (auto simp: adjudicate_action_def Let_def Option.bind_eq_Some_conv simp del: dt_eq_def)
          show thesis
          proof (cases "eo_hard_gates security \<noteq> [] \<or>
                 list_ex (\<lambda>goal. obliged_target (pn_security_id command) goal \<and> xt_target_quantity goal = 0) (xp_targets plan)")
            case True
            with out have "out = liquidation_exit event_id command ?history p security plan (units_quantity ?units)" by auto
            then show thesis by (rule liquidation)
          next
            case False
            with gate have "gate = []" by simp
            then have "with_established (with_established (pn_execution command) retained) gate =
                with_established (pn_execution command) retained" by (simp add: with_established_def)
            with False out plan show thesis
              by (intro statistical[OF refl handoff position _ refl retained refl]) auto
          qed
        qed
      qed
    qed
  qed
qed


subsection \<open>The statistical direction\<close>

lemma within_costs_reduced: "within_costs ledger scope command retained cost action = Some affordable \<Longrightarrow>
    as_direction affordable = as_direction action \<or> as_direction affordable = None"
  by (auto simp: within_costs_def split: if_splits)

lemma statistical_conclusion_parts:
  assumes "statistical_conclusion ledger scope event_id prerequisite_met check command history p assessment security
    retained execution plan quantity = Some out"
  obtains grid reasons direction action cost affordable where
    "grid = (if risk_buffer ledger command (security_units (po_snapshot p) (pn_security_id command)) then risk_grid else normal_grid)"
    "reasons = fact_reasons command history p security plan quantity @ check assessment security p grid"
    "direction = (if prerequisite_met \<and> reasons = []
      then sx_direction (assess_statistical_action (pn_policy command) (eo_probabilities security) grid) else None)"
    "\<exists>stated. directed_plan ledger scope event_id command history p security execution plan quantity direction stated = Some action"
    "within_costs ledger scope command retained cost action = Some affordable"
    "out = action_outcome event_id command history p quantity grid direction (az_evidence_failed cost)
      (conjoin_strictest (pn_security_id command) affordable)"
  using assms unfolding statistical_conclusion_def Let_def Option.bind_eq_Some_conv by blast


subsection \<open>Targets of the lifecycle bind\<close>

lemma those_made_member: "those_made xs = Some ys \<Longrightarrow> x \<in> set xs \<Longrightarrow> \<exists>y \<in> set ys. x = Some y"
  by (induction xs arbitrary: ys) (auto split: option.splits)

lemma established_for_member:
  assumes "established_for policy evidence goals = Some established" and "goal \<in> set goals"
    and "identity \<in> set (xt_source_obligation_ids goal)"
  shows "\<exists>e \<in> set established. et_security_id e = xt_security_id goal \<and> et_target_quantity e = xt_target_quantity goal \<and>
    et_target_id e = identity \<and> et_qualified e \<and> et_evidence e = evidence"
proof -
  have "make_established policy evidence None identity (xt_security_id goal) (xt_target_quantity goal) \<in>
      set (concat (map (\<lambda>goal. map (\<lambda>identity. make_established policy evidence None identity (xt_security_id goal) (xt_target_quantity goal))
        (xt_source_obligation_ids goal)) goals))"
    using assms(2,3) by auto
  from those_made_member[OF assms(1)[unfolded established_for_def] this] obtain e where
    "e \<in> set established" "make_established policy evidence None identity (xt_security_id goal) (xt_target_quantity goal) = Some e"
    by auto
  then show ?thesis by (intro bexI[of _ e]) (auto simp: make_established_def Let_def split: if_splits)
qed

text \<open>An established target binds every plan that is not refused for its history.\<close>

lemma established_binds:
  assumes "adjudicate_execution_plan ledger scope execution = Some plan"
    and "history_refusal scope (ep_cutoff_at execution) (execution_plan_history ledger scope (ep_portfolio_id execution)) = None"
    and "e \<in> set (ep_established_targets execution)" "et_qualified e"
    and "problem_codes (et_evidence e) (ep_cutoff_at execution) True = []"
  shows "\<exists>t. find (obliged_target (et_security_id e)) (xp_targets plan) = Some t \<and> xt_target_quantity t \<le> et_target_quantity e"
proof -
  let ?goal = "quantity_target (et_security_id e) (et_target_quantity e) [et_target_id e] (et_direction e)"
  have "?goal \<in> set (retained_sources ledger execution scope (execution_plan_history ledger scope (ep_portfolio_id execution)))"
    using assms(3-5) by (auto simp: retained_sources_def established_targets_def)
  from adjudicated_keeps[OF assms(1,2) this] obtain t where t: "t \<in> set (xp_targets plan)" "keeps ?goal t" by blast
  then have obliged: "obliged_target (et_security_id e) t" "xt_target_quantity t \<le> et_target_quantity e"
    by (auto simp: keeps_def obliged_target_def)
  obtain found where found: "find (obliged_target (et_security_id e)) (xp_targets plan) = Some found"
    using t(1) obliged(1) by (cases "find (obliged_target (et_security_id e)) (xp_targets plan)") (auto simp: find_None_iff)
  then have "found \<in> set (xp_targets plan)" "obliged_target (et_security_id e) found"
    by (auto simp: find_Some_iff)
  then have "found = t"
    using t(1) obliged(1) inj_onD[of xt_security_id "set (xp_targets plan)" found t] adjudicated_securities[OF assms(1)]
    by (simp add: obliged_target_def distinct_map)
  with found obliged(2) show ?thesis by blast
qed

lemma conjoin_strictest_binds:
  assumes "find (obliged_target security) (xp_targets (as_plan action)) = Some t" and "xt_target_quantity t \<le> bound"
  shows "\<exists>q. as_target (conjoin_strictest security action) = Some q \<and> q \<le> bound"
  using assms by (auto simp: conjoin_strictest_def split: option.splits)

lemma directed_plan_command:
  assumes "directed_plan ledger scope event_id command history p security execution plan quantity direction stated = Some action"
    and "adjudicate_execution_plan ledger scope execution = Some plan"
  shows "\<exists>extra. adjudicate_execution_plan ledger scope (with_established execution extra) = Some (as_plan action)"
    and "as_direction action = direction"
proof -
  have same: "with_established execution [] = execution" by (simp add: with_established_def)
  have "(\<exists>extra. adjudicate_execution_plan ledger scope (with_established execution extra) = Some (as_plan action)) \<and>
      as_direction action = direction"
  proof (cases direction)
    case None
    then show ?thesis using assms same by (auto simp: directed_plan_def intro: exI[of _ "[]"])
  next
    case (Some d)
    then show ?thesis using assms same
      by (cases d) (auto simp: directed_plan_def Let_def Option.bind_eq_Some_conv split: option.splits if_splits
          intro: exI[of _ "[]"])
  qed
  then show "\<exists>extra. adjudicate_execution_plan ledger scope (with_established execution extra) = Some (as_plan action)"
    and "as_direction action = direction" by blast+
qed

lemma refused_reason:
  assumes "adjudicate_execution_plan ledger scope execution = Some plan"
    and "history_refusal scope (ep_cutoff_at execution) (execution_plan_history ledger scope (ep_portfolio_id execution)) = Some reason"
  shows "list_ex (\<lambda>reason. list_ex (startswith reason) handoff_prefixes) (xp_reasons plan)"
proof -
  have "plan = blocked_plan [reason] []" using assms by (simp add: adjudicate_execution_plan_def Let_def)
  then show ?thesis
    using history_refusal_reason[OF assms(2)] by (auto simp: blocked_plan_def handoff_prefixes_def startswith_def)
qed

lemma with_established_simps [simp]:
  "ep_cutoff_at (with_established execution extra) = ep_cutoff_at execution"
  "ep_portfolio_id (with_established execution extra) = ep_portfolio_id execution"
  "ep_established_targets (with_established execution extra) = ep_established_targets execution @ extra"
  by (simp_all add: with_established_def)

text \<open>In the statistical branch: what is established binds what is concluded.\<close>

lemma statistical_conclusion_binds:
  assumes "statistical_conclusion ledger scope event_id prerequisite_met check command history p assessment security
      retained execution plan quantity = Some out"
    and execution: "execution = with_established (pn_execution command) retained"
    and plan: "adjudicate_execution_plan ledger scope execution = Some plan"
    and e: "e \<in> set retained" "et_security_id e = pn_security_id command" "et_qualified e"
      "problem_codes (et_evidence e) (ep_cutoff_at (pn_execution command)) True = []"
    and "px_disposition out = CONCLUDED"
  shows "\<exists>q. px_target_quantity out = Some q \<and> q \<le> et_target_quantity e"
proof -
  from assms(1) obtain grid reasons direction action cost affordable where
    grid: "grid = (if risk_buffer ledger command (security_units (po_snapshot p) (pn_security_id command)) then risk_grid else normal_grid)"
    and reasons: "reasons = fact_reasons command history p security plan quantity @ check assessment security p grid"
    and direction: "direction = (if prerequisite_met \<and> reasons = []
      then sx_direction (assess_statistical_action (pn_policy command) (eo_probabilities security) grid) else None)"
    and directed: "\<exists>stated. directed_plan ledger scope event_id command history p security execution plan quantity direction stated = Some action"
    and costs: "within_costs ledger scope command retained cost action = Some affordable"
    and out: "out = action_outcome event_id command history p quantity grid direction (az_evidence_failed cost)
      (conjoin_strictest (pn_security_id command) affordable)"
    by (rule statistical_conclusion_parts)
  obtain stated where directed': "directed_plan ledger scope event_id command history p security execution plan quantity direction stated = Some action"
    using directed by blast
  note command_of = directed_plan_command[OF directed' plan]
  let ?pn = "pn_execution command"
  have "\<exists>command'. adjudicate_execution_plan ledger scope command' = Some (as_plan affordable) \<and>
      ep_cutoff_at command' = ep_cutoff_at ?pn \<and> ep_portfolio_id command' = ep_portfolio_id ?pn \<and>
      e \<in> set (ep_established_targets command')"
  proof (cases "az_evidence_failed cost \<or> az_outside_envelope cost")
    case True
    with costs have "adjudicate_execution_plan ledger scope (?pn\<lparr>ep_established_targets := retained\<rparr>) = Some (as_plan affordable)"
      by (auto simp: within_costs_def)
    then show ?thesis using e(1) by (intro exI[of _ "?pn\<lparr>ep_established_targets := retained\<rparr>"]) simp
  next
    case False
    with costs have "affordable = action" by (simp add: within_costs_def)
    with command_of(1) obtain extra where "adjudicate_execution_plan ledger scope (with_established execution extra) = Some (as_plan affordable)"
      by blast
    then show ?thesis using e(1) by (intro exI[of _ "with_established execution extra"]) (simp add: execution)
  qed
  then obtain command' where command': "adjudicate_execution_plan ledger scope command' = Some (as_plan affordable)"
    "ep_cutoff_at command' = ep_cutoff_at ?pn" "ep_portfolio_id command' = ep_portfolio_id ?pn"
    "e \<in> set (ep_established_targets command')" by blast
  show ?thesis
  proof (cases "history_refusal scope (ep_cutoff_at ?pn) (execution_plan_history ledger scope (ep_portfolio_id ?pn))")
    case None
    with established_binds[OF command'(1) _ command'(4) e(3)] e(2,4) command'(2,3) obtain t where
      "find (obliged_target (pn_security_id command)) (xp_targets (as_plan affordable)) = Some t"
      "xt_target_quantity t \<le> et_target_quantity e" by auto
    from conjoin_strictest_binds[OF this] show ?thesis by (simp add: out action_outcome_def Let_def)
  next
    case (Some reason)
    have "list_ex (\<lambda>reason. list_ex (startswith reason) handoff_prefixes) (xp_reasons plan)"
      by (rule refused_reason[OF plan]) (use Some in \<open>simp add: execution\<close>)
    then have "reasons \<noteq> []" by (simp add: reasons fact_reasons_def)
    then have "as_direction affordable = None"
      using direction command_of(2) within_costs_reduced[OF costs] by (auto split: if_splits)
    moreover have "as_plan affordable = blocked_plan [reason] []"
      using command'(1) Some by (simp add: adjudicate_execution_plan_def Let_def command'(2,3))
    then have "xp_targets (as_plan affordable) = []" by (simp add: blocked_plan_def)
    ultimately have "as_direction (conjoin_strictest (pn_security_id command) affordable) = None"
      by (simp add: conjoin_strictest_def)
    then have "px_disposition out \<noteq> CONCLUDED" by (simp add: out action_outcome_def Let_def)
    with assms(8) show ?thesis by simp
  qed
qed


end
