(* ===== verification/History_Properties.thy ===== *)
theory History_Properties
  imports Position_History
begin

text \<open>
  Lemmas on the position history: the memo of a snapshot holds exactly the visibility that the chain of corrections
  derives, the caches of the resolvers hold what a recomputation over the accepted snapshots gives, and later positions
  only append to a history.
\<close>

subsection \<open>Visibility along the corrections\<close>

inductive visible_at :: "entry_dict \<Rightarrow> str \<Rightarrow> datetime \<Rightarrow> bool" for unique where
  original: "map_of unique i = Some e \<Longrightarrow> own_visible_after e = Some v \<Longrightarrow> le_corrects_entry_id e = None \<Longrightarrow>
    visible_at unique i v"
| correction: "map_of unique i = Some e \<Longrightarrow> own_visible_after e = Some v \<Longrightarrow> le_corrects_entry_id e = Some j \<Longrightarrow>
    correction_target unique e j \<Longrightarrow> visible_at unique j w \<Longrightarrow> visible_at unique i (dt_max v w)"

inductive_cases visible_atE: "visible_at unique i v"

definition corrects :: "entry_dict \<Rightarrow> str \<Rightarrow> str \<Rightarrow> bool" where
  "corrects unique i j \<longleftrightarrow> (\<exists>e. map_of unique i = Some e \<and> le_corrects_entry_id e = Some j)"

lemma corrects_unique: "corrects unique i j \<Longrightarrow> corrects unique i k \<Longrightarrow> j = k"
  by (auto simp: corrects_def)

lemma visible_not_cyclic: "visible_at unique i v \<Longrightarrow> \<not> (corrects unique)\<^sup>+\<^sup>+ i i"
proof (induction rule: visible_at.induct)
  case (original i e v)
  then have "\<not> corrects unique i j" for j by (simp add: corrects_def)
  then show ?case by (metis tranclpD)
next
  case (correction i e v j w)
  then have step: "corrects unique i j" by (simp add: corrects_def)
  show ?case
  proof
    assume "(corrects unique)\<^sup>+\<^sup>+ i i"
    then obtain k where "corrects unique i k" "(corrects unique)\<^sup>*\<^sup>* k i" by (metis tranclpD)
    then have "(corrects unique)\<^sup>*\<^sup>* j i" using corrects_unique[OF step] by simp
    then have "(corrects unique)\<^sup>+\<^sup>+ j j" using step by (rule rtranclp_into_tranclp1)
    with correction.IH show False ..
  qed
qed

definition memo_ok :: "entry_dict \<Rightarrow> visibility_memo \<Rightarrow> bool" where
  "memo_ok unique memo \<longleftrightarrow>
     (\<forall>i r. map_of memo i = Some r \<longrightarrow> (\<forall>v. r = Some v \<longleftrightarrow> visible_at unique i v))"

lemma memo_ok_update:
  "memo_ok unique memo \<Longrightarrow> (\<And>v. r = Some v \<longleftrightarrow> visible_at unique i v) \<Longrightarrow> memo_ok unique (AList.update i r memo)"
  by (auto simp: memo_ok_def update_conv')

lemma visible_at_correction:
  assumes "map_of unique i = Some e" "own_visible_after e = Some v" "le_corrects_entry_id e = Some j"
    "correction_target unique e j"
  shows "visible_at unique i u \<longleftrightarrow> (\<exists>w. visible_at unique j w \<and> u = dt_max v w)"
proof
  assume "visible_at unique i u"
  then show "\<exists>w. visible_at unique j w \<and> u = dt_max v w" by (cases rule: visible_atE) (use assms in auto)
qed (use visible_at.correction[OF assms] in auto)

lemma visible_after_target:
  "map_of memo i = None \<Longrightarrow> i \<notin> lineage \<Longrightarrow> map_of unique i = Some e \<Longrightarrow> own_visible_after e = Some v \<Longrightarrow>
     le_corrects_entry_id e = Some j \<Longrightarrow> correction_target unique e j \<Longrightarrow>
     visible_after unique j (insert i lineage) memo = (r, memo') \<Longrightarrow>
     visible_after unique i lineage memo = (map_option (dt_max v) r, AList.update i (map_option (dt_max v) r) memo')"
  by (subst visible_after.simps) (cases r; simp)

lemma visible_after_correct:
  assumes "memo_ok unique memo" and "\<forall>l \<in> lineage. (corrects unique)\<^sup>+\<^sup>+ l i"
  shows "(\<forall>v. fst (visible_after unique i lineage memo) = Some v \<longleftrightarrow> visible_at unique i v) \<and>
    memo_ok unique (snd (visible_after unique i lineage memo))"
  using assms
proof (induction unique i lineage memo rule: visible_after.induct)
  case (1 unique i lineage memo)
  show ?case
  proof (cases "map_of memo i")
    case (Some known)
    with "1.prems" show ?thesis by (simp add: visible_after.simps memo_ok_def)
  next
    case fresh: None
    show ?thesis
    proof (cases "i \<in> lineage")
      case True
      with "1.prems"(2) have "\<not> visible_at unique i v" for v using visible_not_cyclic by blast
      with fresh True "1.prems" show ?thesis by (simp add: visible_after.simps)
    next
      case new: False
      show ?thesis
      proof (cases "map_of unique i")
        case None
        then have "\<not> visible_at unique i v" for v by (auto elim: visible_atE)
        with fresh new None "1.prems" show ?thesis by (simp add: visible_after.simps memo_ok_update)
      next
        case (Some e)
        note entry = this
        show ?thesis
        proof (cases "own_visible_after e")
          case None
          then have "\<not> visible_at unique i v" for v using entry by (auto elim: visible_atE)
          with fresh new entry None "1.prems" show ?thesis by (simp add: visible_after.simps memo_ok_update)
        next
          case (Some v)
          note own = this
          show ?thesis
          proof (cases "le_corrects_entry_id e")
            case None
            then have "Some v = Some u \<longleftrightarrow> visible_at unique i u" for u using entry own
              by (auto elim: visible_atE intro: visible_at.original)
            with fresh new entry own None "1.prems" show ?thesis by (simp add: visible_after.simps memo_ok_update)
          next
            case (Some j)
            note corr = this
            show ?thesis
            proof (cases "correction_target unique e j")
              case False
              then have "\<not> visible_at unique i v" for v using entry own corr by (auto elim: visible_atE)
              with fresh new entry own corr False "1.prems" show ?thesis by (simp add: visible_after.simps memo_ok_update)
            next
              case True
              have step: "corrects unique i j" using entry corr by (simp add: corrects_def)
              have lineage: "\<forall>l \<in> insert i lineage. (corrects unique)\<^sup>+\<^sup>+ l j"
                using "1.prems"(2) step by (auto intro: tranclp.intros)
              have "\<not> \<not> correction_target unique e j" using True by simp
              note IH = "1.IH"[OF fresh new entry own corr this "1.prems"(1) lineage]
              obtain r memo' where rec: "visible_after unique j (insert i lineage) memo = (r, memo')" by fastforce
              have below: "\<And>u. r = Some u \<longleftrightarrow> visible_at unique j u" and ok: "memo_ok unique memo'"
                using IH rec by auto
              have "map_option (dt_max v) r = Some u \<longleftrightarrow> visible_at unique i u" for u
                unfolding visible_at_correction[OF entry own corr True] using below by auto
              with ok have "memo_ok unique (AList.update i (map_option (dt_max v) r) memo') \<and>
                  (\<forall>u. map_option (dt_max v) r = Some u \<longleftrightarrow> visible_at unique i u)"
                by (simp add: memo_ok_update)
              then show ?thesis unfolding visible_after_target[OF fresh new entry own corr True rec] by simp
            qed
          qed
        qed
      qed
    qed
  qed
qed

lemma visible_after_keeps: "fst ` set memo \<subseteq> fst ` set (snd (visible_after unique i lineage memo))"
proof (induction unique i lineage memo rule: visible_after.induct)
  case (1 unique i lineage memo)
  then show ?case
    by (subst visible_after.simps) (force split: option.splits prod.splits simp: dom_update)
qed

lemma visible_after_fills: "i \<in> fst ` set (snd (visible_after unique i {} memo))"
  by (subst visible_after.simps)
    (auto split: option.splits prod.splits simp: dom_update dest: map_of_SomeD intro: rev_image_eqI)

lemma fold_memo_ok:
  "memo_ok unique memo \<Longrightarrow> memo_ok unique (foldl (\<lambda>memo i. snd (visible_after unique i {} memo)) memo ids)"
  by (induction ids arbitrary: memo) (auto simp: visible_after_correct)

lemma fold_memo_fills:
  "fst ` set memo \<union> set ids \<subseteq> fst ` set (foldl (\<lambda>memo i. snd (visible_after unique i {} memo)) memo ids)"
proof (induction ids arbitrary: memo)
  case (Cons i ids)
  have "fst ` set memo \<union> {i} \<subseteq> fst ` set (snd (visible_after unique i {} memo))"
    using visible_after_keeps visible_after_fills by blast
  with Cons[of "snd (visible_after unique i {} memo)"] show ?case
    unfolding foldl_Cons list.set by blast
qed simp

lemma unique_entries_indexed: "map_of (unique_entries indexed) i = Some e \<Longrightarrow> i \<in> fst ` set indexed"
  by (drule map_of_SomeD) (auto simp: unique_entries_def List.map_filter_def split: list.splits intro: rev_image_eqI)

text \<open>C28: the memoised search of a snapshot finds for every entry id exactly the visibility that its chain of corrections derives.\<close>

theorem visibility_is_correction_chain:
  "dict_get (ls_visible_after (snapshot_of_entries account entries)) i None = Some v \<longleftrightarrow>
     visible_at (unique_entries (index_entries entries)) i v"
proof -
  let ?unique = "unique_entries (index_entries entries)"
  let ?memo = "ls_visible_after (snapshot_of_entries account entries)"
  have memo: "?memo = foldl (\<lambda>memo i. snd (visible_after ?unique i {} memo)) [] (map fst (index_entries entries))"
    by (simp add: snapshot_of_entries_def Let_def)
  have "memo_ok ?unique ?memo" unfolding memo by (rule fold_memo_ok) (simp add: memo_ok_def)
  moreover have "\<not> visible_at ?unique i v" if "map_of ?memo i = None"
  proof -
    have "i \<notin> fst ` set (index_entries entries)"
      using that fold_memo_fills[of "[]" "map fst (index_entries entries)" ?unique] memo by (auto simp: map_of_eq_None_iff)
    then have "map_of ?unique i = None" using unique_entries_indexed by (metis not_None_eq)
    then show ?thesis by (auto elim: visible_atE)
  qed
  ultimately show ?thesis by (auto simp: dict_get_def memo_ok_def split: option.splits)
qed

subsection \<open>Caches keyed by cutoff\<close>

text \<open>Both resolvers fold what they accepted, and keep the folds of the cutoffs that were asked for.\<close>

locale cutoff_cache =
  fixes extend :: "datetime \<Rightarrow> ('k \<times> 'v) list \<Rightarrow> 's \<Rightarrow> ('k \<times> 'v) list"
  assumes extend_instant: "instant c = instant d \<Longrightarrow> extend c = extend d"
    and extend_appends: "\<exists>more. extend c canon s = canon @ more"
begin

definition canon_of :: "datetime \<Rightarrow> 's list \<Rightarrow> ('k \<times> 'v) list" where
  "canon_of c accepted = foldl (extend c) [] accepted"

definition cache_ok :: "'s list \<Rightarrow> (int \<times> datetime \<times> ('k \<times> 'v) list) list \<Rightarrow> bool" where
  "cache_ok accepted cache \<longleftrightarrow> (\<forall>(k, c, canon) \<in> set cache. k = instant c \<and> canon = canon_of c accepted)"

lemma cache_ok_empty: "cache_ok accepted []"
  by (simp add: cache_ok_def)

lemma cached_entry: "cache_ok accepted cache \<Longrightarrow> map_of cache (instant c) = Some (d, cached) \<Longrightarrow> cached = canon_of c accepted"
  by (drule map_of_SomeD) (auto simp: cache_ok_def canon_of_def dest!: extend_instant)

lemma cache_ok_new: "cache_ok accepted cache \<Longrightarrow> cache_ok accepted (cache @ [(instant c, c, canon_of c accepted)])"
  by (auto simp: cache_ok_def)

lemma cache_ok_accept:
  "cache_ok accepted cache \<Longrightarrow> cache_ok (accepted @ [s]) (map (\<lambda>(k, c, canon). (k, c, extend c canon s)) cache)"
  by (auto simp: cache_ok_def canon_of_def)

lemma canon_of_appends: "\<exists>more. canon_of c (accepted @ later) = canon_of c accepted @ more"
proof (induction later rule: rev_induct)
  case (snoc s later)
  obtain more where "canon_of c (accepted @ later) = canon_of c accepted @ more" using snoc by blast
  moreover obtain new where "extend c (canon_of c (accepted @ later)) s = canon_of c (accepted @ later) @ new"
    using extend_appends by blast
  ultimately show ?case by (auto simp: canon_of_def)
qed simp

end

lemma add_visible_entries_appends: "\<exists>more. add_visible_entries_to snapshot cutoff canonical = canonical @ more"
proof -
  have "\<exists>more. foldl (\<lambda>canon entry.
         let key = (ls_account_id snapshot, le_entry_id entry) in
         if key \<notin> fst ` set canon \<and> visible_by snapshot cutoff entry then canon @ [(key, entry)] else canon)
       canonical entries = canonical @ more" for entries
  proof (induction entries arbitrary: canonical)
    case (Cons e entries)
    show ?case using Cons[of canonical] Cons[of "canonical @ [((ls_account_id snapshot, le_entry_id e), e)]"]
      by (auto simp: Let_def)
  qed simp
  then show ?thesis by (simp add: add_visible_entries_to_def)
qed

lemma add_visible_entries_instant:
  "instant c = instant d \<Longrightarrow> add_visible_entries_to snapshot c = add_visible_entries_to snapshot d"
  by (simp add: add_visible_entries_to_def visible_by_def fun_eq_iff cong: option.case_cong)

lemma problem_codes_instant: "instant c = instant d \<Longrightarrow> problem_codes e c current = problem_codes e d current"
  by (simp add: problem_codes_def cong: option.case_cong if_cong)

lemma add_cash_state_instant: "instant c = instant d \<Longrightarrow> add_cash_state c = add_cash_state d"
  by (auto simp: add_cash_state_def opening_cash_is_historically_valid_def fun_eq_iff
      problem_codes_instant[of c d])

interpretation entry_cache: cutoff_cache "\<lambda>c canon snapshot. add_visible_entries_to snapshot c canon"
proof unfold_locales
  show "(\<lambda>canon snapshot. add_visible_entries_to snapshot c canon) = (\<lambda>canon snapshot. add_visible_entries_to snapshot d canon)"
    if "instant c = instant d" for c d using add_visible_entries_instant[OF that] by simp
qed (rule add_visible_entries_appends)

interpretation cash_cache: cutoff_cache add_cash_state
proof unfold_locales
  show "add_cash_state c = add_cash_state d" if "instant c = instant d" for c d
    using that by (rule add_cash_state_instant)
qed (simp add: add_cash_state_def)

subsection \<open>The ledger history without caches\<close>

definition established_entries :: "datetime \<Rightarrow> ledger_snapshot list \<Rightarrow> canonical_entries" where
  "established_entries cutoff accepted =
     foldl (\<lambda>canon snapshot. add_visible_entries_to snapshot cutoff canon) [] accepted"

definition accept_established :: "datetime \<Rightarrow> ledger_snapshot list \<Rightarrow> ledger_snapshot \<Rightarrow> ledger_snapshot list" where
  "accept_established cutoff accepted snapshot =
     (if preserves snapshot (account_entries (ls_account_id snapshot) (established_entries cutoff accepted))
      then accepted @ [snapshot] else accepted)"

definition account_snapshots :: "str list \<Rightarrow> position_reconciliation_outcome \<Rightarrow> ledger_snapshot list" where
  "account_snapshots account_ids position =
     map (\<lambda>(account_id, entries). snapshot_of_entries account_id entries)
       (entries_by_account account_ids (rs_authoritative_ledger (po_snapshot position)))"

definition accepted_snapshots :: "str list \<Rightarrow> position_reconciliation_outcome list \<Rightarrow> ledger_snapshot list" where
  "accepted_snapshots account_ids positions =
     foldl (\<lambda>accepted position. foldl (accept_established (rs_cutoff_at (po_snapshot position))) accepted
       (account_snapshots account_ids position)) [] positions"

definition resolver_ok :: "ledger_resolver \<Rightarrow> bool" where
  "resolver_ok r \<longleftrightarrow> entry_cache.cache_ok (lr_accepted r) (lr_canonical r)"

lemma canonical_entries_at_ok:
  assumes "resolver_ok r"
  shows "fst (canonical_entries_at r c) = established_entries c (lr_accepted r)"
    and "resolver_ok (snd (canonical_entries_at r c))"
    and "lr_accepted (snd (canonical_entries_at r c)) = lr_accepted r"
proof -
  have canon: "foldl (\<lambda>canon snapshot. add_visible_entries_to snapshot c canon) [] (lr_accepted r) =
      entry_cache.canon_of c (lr_accepted r)" by (simp add: entry_cache.canon_of_def)
  show "fst (canonical_entries_at r c) = established_entries c (lr_accepted r)"
    using assms by (auto simp: canonical_entries_at_def established_entries_def canon resolver_ok_def Let_def
        split: option.splits dest: entry_cache.cached_entry)
  show "resolver_ok (snd (canonical_entries_at r c))"
    using assms by (auto simp: canonical_entries_at_def canon resolver_ok_def Let_def
        split: option.splits intro: entry_cache.cache_ok_new)
  show "lr_accepted (snd (canonical_entries_at r c)) = lr_accepted r"
    by (auto simp: canonical_entries_at_def Let_def split: option.splits)
qed

lemma accept_if_preserving_ok:
  assumes "resolver_ok r"
  shows "lr_accepted (accept_if_preserving snapshot c r) = accept_established c (lr_accepted r) snapshot"
    and "resolver_ok (accept_if_preserving snapshot c r)"
  using canonical_entries_at_ok[OF assms, of c]
  by (auto simp: accept_if_preserving_def accept_established_def resolver_ok_def entry_cache.cache_ok_accept
      split: prod.splits)

lemma accept_snapshots_ok:
  "resolver_ok r \<Longrightarrow>
     lr_accepted (foldl (\<lambda>r snapshot. accept_if_preserving snapshot c r) r snapshots) =
       foldl (accept_established c) (lr_accepted r) snapshots \<and>
     resolver_ok (foldl (\<lambda>r snapshot. accept_if_preserving snapshot c r) r snapshots)"
  by (induction snapshots arbitrary: r) (simp_all add: accept_if_preserving_ok)

lemma observe_position_snapshots:
  "observe_position ids r position =
     foldl (\<lambda>r snapshot. accept_if_preserving snapshot (rs_cutoff_at (po_snapshot position)) r) r
       (account_snapshots ids position)"
  by (simp add: observe_position_def account_snapshots_def foldl_map case_prod_unfold)

lemma observe_positions_ok:
  "resolver_ok (foldl (observe_position ids) empty_resolver positions) \<and>
     lr_accepted (foldl (observe_position ids) empty_resolver positions) = accepted_snapshots ids positions"
proof (induction positions rule: rev_induct)
  case Nil
  show ?case by (simp add: empty_resolver_def resolver_ok_def accepted_snapshots_def entry_cache.cache_ok_empty)
next
  case (snoc position positions)
  then show ?case by (simp add: observe_position_snapshots accepted_snapshots_def accept_snapshots_ok)
qed

lemma ledger_history_established:
  "authoritative_ledger_history positions ids cutoff =
     map snd (established_entries cutoff (accepted_snapshots ids positions))"
  using observe_positions_ok[of ids positions] by (simp add: authoritative_ledger_history_def canonical_entries_at_ok)

text \<open>C29: the cached ledger history of any sequence of positions is what recomputing the established entries at every
  snapshot's cutoff gives: the caches of earlier cutoffs never go stale.
\<close>

theorem ledger_history_caches_transparent:
  "authoritative_ledger_history positions ids cutoff =
     map snd (established_entries cutoff (accepted_snapshots ids positions))"
  by (rule ledger_history_established)

lemma accept_established_appends: "\<exists>more. accept_established c accepted snapshot = accepted @ more"
  by (simp add: accept_established_def)

lemma foldl_appends:
  assumes "\<And>acc x. \<exists>more. f acc x = acc @ more"
  shows "\<exists>more. foldl f acc xs = acc @ more"
proof (induction xs arbitrary: acc)
  case (Cons x xs)
  obtain new where new: "f acc x = acc @ new" using assms by blast
  obtain more where "foldl f (acc @ new) xs = (acc @ new) @ more" using Cons by blast
  then show ?case by (simp add: new)
qed simp

lemma accepted_snapshots_append:
  "\<exists>more. accepted_snapshots ids (positions @ later) = accepted_snapshots ids positions @ more"
  unfolding accepted_snapshots_def foldl_append
  by (intro foldl_appends accept_established_appends)

text \<open>Later positions only append to the ledger history of a cutoff: an established entry is never dropped, replaced or moved.\<close>

lemma position_history_append_only:
  "\<exists>more. authoritative_ledger_history (positions @ later) ids cutoff =
     authoritative_ledger_history positions ids cutoff @ more"
proof -
  obtain new where new: "accepted_snapshots ids (positions @ later) = accepted_snapshots ids positions @ new"
    using accepted_snapshots_append by blast
  have "\<exists>more. established_entries cutoff (accepted_snapshots ids positions @ new) =
      established_entries cutoff (accepted_snapshots ids positions) @ more"
    using entry_cache.canon_of_appends by (simp add: established_entries_def entry_cache.canon_of_def)
  then show ?thesis using new by (auto simp: ledger_history_established)
qed

subsection \<open>Altered facts\<close>

definition snapshot_scoped :: "ledger_snapshot \<Rightarrow> bool" where
  "snapshot_scoped s \<longleftrightarrow> (\<forall>e \<in> set (ls_entries s). le_account_id e = ls_account_id s)"

definition keyed_entries :: "canonical_entries \<Rightarrow> bool" where
  "keyed_entries canon \<longleftrightarrow> (\<forall>(key, e) \<in> set canon. key = (le_account_id e, le_entry_id e))"

definition entries_of :: "str \<Rightarrow> canonical_entries \<Rightarrow> canonical_entries" where
  "entries_of account canon = filter (\<lambda>(key, e). fst key = account) canon"

lemma add_visible_keyed:
  assumes "snapshot_scoped s" and "keyed_entries canon"
  shows "keyed_entries (add_visible_entries_to s c canon)"
proof -
  have "set es \<subseteq> set (ls_entries s) \<Longrightarrow> keyed_entries canon \<Longrightarrow> keyed_entries (foldl (\<lambda>canon entry.
      let key = (ls_account_id s, le_entry_id entry) in
      if key \<notin> fst ` set canon \<and> visible_by s c entry then canon @ [(key, entry)] else canon) canon es)" for es
  proof (induction es arbitrary: canon)
    case (Cons e es)
    then have "keyed_entries (canon @ [((ls_account_id s, le_entry_id e), e)])"
      using assms(1) by (auto simp: keyed_entries_def snapshot_scoped_def)
    with Cons show ?case by (simp add: Let_def)
  qed simp
  then show ?thesis using assms(2) by (simp add: add_visible_entries_to_def)
qed

lemma add_visible_other_account:
  assumes "ls_account_id s \<noteq> account"
  shows "entries_of account (add_visible_entries_to s c canon) = entries_of account canon"
proof -
  have "entries_of account (foldl (\<lambda>canon entry.
      let key = (ls_account_id s, le_entry_id entry) in
      if key \<notin> fst ` set canon \<and> visible_by s c entry then canon @ [(key, entry)] else canon) canon es) =
      entries_of account canon" for es
    using assms by (induction es arbitrary: canon) (auto simp: Let_def entries_of_def)
  then show ?thesis by (simp add: add_visible_entries_to_def)
qed

lemma established_snoc:
  "established_entries c (accepted @ [s]) = add_visible_entries_to s c (established_entries c accepted)"
  by (simp add: established_entries_def)

lemma established_keyed: "list_all snapshot_scoped accepted \<Longrightarrow> keyed_entries (established_entries c accepted)"
proof (induction accepted rule: rev_induct)
  case Nil
  show ?case by (simp add: established_entries_def keyed_entries_def)
qed (simp add: established_snoc add_visible_keyed)

lemma account_snapshots_scoped: "list_all snapshot_scoped (account_snapshots ids position)"
  by (auto simp: account_snapshots_def entries_by_account_def list_all_iff snapshot_scoped_def snapshot_of_entries_def Let_def)

lemma accept_established_scoped:
  "list_all snapshot_scoped accepted \<Longrightarrow> list_all snapshot_scoped snapshots \<Longrightarrow>
     list_all snapshot_scoped (foldl (accept_established c) accepted snapshots)"
  by (induction snapshots arbitrary: accepted) (auto simp: accept_established_def)

lemma accepted_scoped: "list_all snapshot_scoped (accepted_snapshots ids positions)"
proof (induction positions rule: rev_induct)
  case Nil
  show ?case by (simp add: accepted_snapshots_def)
next
  case (snoc position positions)
  then show ?case by (simp add: accepted_snapshots_def accept_established_scoped account_snapshots_scoped)
qed

lemma map_of_map_key: "map_of (map (\<lambda>k. (k, f k)) xs) i = (if i \<in> set xs then Some (f i) else None)"
  by (induction xs) auto

lemma dict_get_index_entries: "dict_get (index_entries es) i [] = filter (\<lambda>e. le_entry_id e = i) es"
  by (auto simp: dict_get_def index_entries_def map_of_map_key intro!: sym[of _ "[]"] filter_False)

text \<open>A snapshot that does not hold an established entry exactly once and unchanged is not accepted.\<close>

lemma altering_snapshot_rejected:
  assumes "((account, i), e) \<in> set (established_entries c accepted)" and "ls_account_id s = account"
    and "\<nexists>x. dict_get (ls_entries_by_id s) i [] = [x] \<and> ledger_entry_eq x e"
  shows "accept_established c accepted s = accepted"
proof -
  have "(i, e) \<in> set (account_entries account canon)" if "((account, i), e) \<in> set canon" for canon
    using that by (induction canon) (auto simp: account_entries_def List.map_filter_def)
  from this[OF assms(1)] have entry: "(i, e) \<in> set (account_entries account (established_entries c accepted))" .
  have "\<not> (case dict_get (ls_entries_by_id s) i [] of [current] \<Rightarrow> ledger_entry_eq current e | _ \<Rightarrow> False)"
    using assms(3) by (simp split: list.splits)
  then have "\<not> preserves s (account_entries account (established_entries c accepted))"
    unfolding preserves_def list_all_iff using bspec[OF _ entry] by blast
  then show ?thesis using assms(2) by (simp add: accept_established_def)
qed

lemma entries_of_member:
  "entries_of account canon' = entries_of account canon \<Longrightarrow> ((account, i), e) \<in> set canon \<Longrightarrow> ((account, i), e) \<in> set canon'"
  by (drule arg_cong[where f = set]) (auto simp: entries_of_def)

lemma altering_snapshots_rejected:
  assumes "((account, i), e) \<in> set (established_entries c accepted)"
    and "\<forall>s \<in> set snapshots. ls_account_id s = account \<longrightarrow>
      (\<nexists>x. dict_get (ls_entries_by_id s) i [] = [x] \<and> ledger_entry_eq x e)"
  shows "entries_of account (established_entries d (foldl (accept_established c) accepted snapshots)) =
    entries_of account (established_entries d accepted)"
  using assms
proof (induction snapshots arbitrary: accepted)
  case (Cons s snapshots)
  show ?case
  proof (cases "ls_account_id s = account")
    case True
    then have "accept_established c accepted s = accepted"
      using Cons.prems by (intro altering_snapshot_rejected[of account i e]) auto
    then show ?thesis using Cons by simp
  next
    case False
    have "entries_of account (established_entries x (accept_established c accepted s)) =
        entries_of account (established_entries x accepted)" for x
      using False by (simp add: accept_established_def established_snoc add_visible_other_account)
    moreover have "((account, i), e) \<in> set (established_entries c (accept_established c accepted s))"
      using Cons.prems(1) by (rule entries_of_member[OF calculation])
    ultimately show ?thesis using Cons.IH[of "accept_established c accepted s"] Cons.prems(2) by simp
  qed
qed simp

lemma entries_of_history:
  "keyed_entries canon \<Longrightarrow> filter (\<lambda>x. le_account_id x = account) (map snd canon) = map snd (entries_of account canon)"
  by (induction canon) (auto simp: keyed_entries_def entries_of_def)

lemma account_snapshot_entries:
  assumes "s \<in> set (account_snapshots ids position)"
  shows "dict_get (ls_entries_by_id s) i [] = filter (\<lambda>x. le_account_id x = ls_account_id s \<and> le_entry_id x = i)
    (rs_authoritative_ledger (po_snapshot position))"
proof -
  obtain account where account: "account \<in> set ids" and "s = snapshot_of_entries account
      (filter (\<lambda>e. le_account_id e = account) (filter (\<lambda>e. le_account_id e \<in> set ids)
        (rs_authoritative_ledger (po_snapshot position))))"
    using assms by (auto simp: account_snapshots_def entries_by_account_def Let_def)
  then show ?thesis
    by (auto simp: snapshot_of_entries_def Let_def dict_get_index_entries intro!: filter_cong)
qed

text \<open>C30: once an entry is established at the cutoff of a position, a position whose ledger does not hold that entry exactly
  once and unchanged adds nothing to the history of the entry's account, at any cutoff.
\<close>

theorem altered_ledger_rejected:
  assumes "e \<in> set (authoritative_ledger_history positions ids (rs_cutoff_at (po_snapshot position)))"
    and "\<nexists>x. filter (\<lambda>x. le_account_id x = le_account_id e \<and> le_entry_id x = le_entry_id e)
      (rs_authoritative_ledger (po_snapshot position)) = [x] \<and> ledger_entry_eq x e"
  shows "filter (\<lambda>x. le_account_id x = le_account_id e) (authoritative_ledger_history (positions @ [position]) ids cutoff) =
    filter (\<lambda>x. le_account_id x = le_account_id e) (authoritative_ledger_history positions ids cutoff)"
proof -
  let ?accepted = "accepted_snapshots ids positions" and ?c = "rs_cutoff_at (po_snapshot position)"
  have keyed: "keyed_entries (established_entries d (accepted_snapshots ids ps))" for d ps
    by (rule established_keyed) (rule accepted_scoped)
  have "((le_account_id e, le_entry_id e), e) \<in> set (established_entries ?c ?accepted)"
    using assms(1) keyed[of ?c positions] by (fastforce simp: ledger_history_established keyed_entries_def)
  then have "entries_of (le_account_id e) (established_entries cutoff
      (foldl (accept_established ?c) ?accepted (account_snapshots ids position))) =
      entries_of (le_account_id e) (established_entries cutoff ?accepted)"
    by (rule altering_snapshots_rejected) (use assms(2) in \<open>simp add: account_snapshot_entries\<close>)
  moreover have "accepted_snapshots ids (positions @ [position]) =
      foldl (accept_established ?c) ?accepted (account_snapshots ids position)" by (simp add: accepted_snapshots_def)
  ultimately have "entries_of (le_account_id e) (established_entries cutoff (accepted_snapshots ids (positions @ [position]))) =
      entries_of (le_account_id e) (established_entries cutoff ?accepted)" by simp
  then show ?thesis by (simp only: ledger_history_established entries_of_history[OF keyed])
qed

subsection \<open>The history of opening cash without caches\<close>

definition established_cash :: "datetime \<Rightarrow> account_cash_state list \<Rightarrow> canonical_cash" where
  "established_cash cutoff accepted = foldl (add_cash_state cutoff) [] accepted"

definition accept_cash :: "datetime \<Rightarrow> account_cash_state list \<Rightarrow> account_cash_state \<Rightarrow> account_cash_state list" where
  "accept_cash cutoff accepted cash_state =
     (if opening_cash_is_historically_valid cash_state cutoff \<and>
         (\<forall>existing. map_of (established_cash cutoff accepted) (ac_account_id cash_state) = Some existing \<longrightarrow>
            ac_opening_ledger_cash existing = ac_opening_ledger_cash cash_state)
      then accepted @ [cash_state] else accepted)"

definition cash_resolver_ok :: "cash_resolver \<Rightarrow> bool" where
  "cash_resolver_ok r \<longleftrightarrow> cash_cache.cache_ok (kr_accepted r) (kr_canonical r)"

lemma cash_states_at_ok:
  assumes "cash_resolver_ok r"
  shows "fst (cash_states_at r c) = established_cash c (kr_accepted r)"
    and "cash_resolver_ok (snd (cash_states_at r c))"
    and "kr_accepted (snd (cash_states_at r c)) = kr_accepted r"
proof -
  have canon: "foldl (add_cash_state c) [] (kr_accepted r) = cash_cache.canon_of c (kr_accepted r)"
    by (simp add: cash_cache.canon_of_def)
  show "fst (cash_states_at r c) = established_cash c (kr_accepted r)"
    using assms by (auto simp: cash_states_at_def established_cash_def canon cash_resolver_ok_def Let_def
        split: option.splits dest: cash_cache.cached_entry)
  show "cash_resolver_ok (snd (cash_states_at r c))"
    using assms by (auto simp: cash_states_at_def canon cash_resolver_ok_def Let_def
        split: option.splits intro: cash_cache.cache_ok_new)
  show "kr_accepted (snd (cash_states_at r c)) = kr_accepted r"
    by (auto simp: cash_states_at_def Let_def split: option.splits)
qed

lemma accept_cash_ok:
  assumes "cash_resolver_ok r"
  shows "kr_accepted (accept_cash_if_preserving c r cash_state) = accept_cash c (kr_accepted r) cash_state \<and>
    cash_resolver_ok (accept_cash_if_preserving c r cash_state)"
  using assms cash_states_at_ok[OF assms, of c]
  by (auto simp: accept_cash_if_preserving_def accept_cash_def cash_resolver_ok_def cash_cache.cache_ok_accept
      split: prod.splits option.splits)

lemma accept_cash_states_ok:
  "cash_resolver_ok r \<Longrightarrow>
     kr_accepted (foldl (accept_cash_if_preserving c) r states) = foldl (accept_cash c) (kr_accepted r) states \<and>
     cash_resolver_ok (foldl (accept_cash_if_preserving c) r states)"
  by (induction states arbitrary: r) (simp_all add: accept_cash_ok)

definition accepted_cash :: "str list \<Rightarrow> position_reconciliation_outcome list \<Rightarrow> account_cash_state list" where
  "accepted_cash account_ids positions =
     foldl (\<lambda>accepted position. foldl (accept_cash (rs_cutoff_at (po_snapshot position))) accepted
       (filter (\<lambda>cash_state. ac_account_id cash_state \<in> set account_ids) (rs_cash_states (po_snapshot position)))) [] positions"

lemma observe_cash_ok:
  "cash_resolver_ok (foldl (\<lambda>r position. foldl (accept_cash_if_preserving (rs_cutoff_at (po_snapshot position))) r
     (filter (\<lambda>s. ac_account_id s \<in> set ids) (rs_cash_states (po_snapshot position)))) empty_cash_resolver positions) \<and>
   kr_accepted (foldl (\<lambda>r position. foldl (accept_cash_if_preserving (rs_cutoff_at (po_snapshot position))) r
     (filter (\<lambda>s. ac_account_id s \<in> set ids) (rs_cash_states (po_snapshot position)))) empty_cash_resolver positions) =
     accepted_cash ids positions"
proof (induction positions rule: rev_induct)
  case Nil
  show ?case by (simp add: empty_cash_resolver_def cash_resolver_ok_def accepted_cash_def cash_cache.cache_ok_empty)
next
  case (snoc position positions)
  then show ?case by (simp add: accepted_cash_def accept_cash_states_ok)
qed

lemma cash_history_established:
  "authoritative_cash_history positions ids cutoff = map snd (established_cash cutoff (accepted_cash ids positions))"
  unfolding authoritative_cash_history_def using cash_states_at_ok(1)[OF conjunct1[OF observe_cash_ok]]
  by (simp only: conjunct2[OF observe_cash_ok])

lemma accepted_cash_append: "\<exists>more. accepted_cash ids (positions @ later) = accepted_cash ids positions @ more"
  unfolding accepted_cash_def foldl_append by (intro foldl_appends) (simp add: accept_cash_def)

text \<open>Later positions only append to the history of opening cash: the opening cash an account started from never changes.\<close>

lemma cash_history_append_only:
  "\<exists>more. authoritative_cash_history (positions @ later) ids cutoff =
     authoritative_cash_history positions ids cutoff @ more"
proof -
  obtain new where new: "accepted_cash ids (positions @ later) = accepted_cash ids positions @ new"
    using accepted_cash_append by blast
  have "\<exists>more. established_cash cutoff (accepted_cash ids positions @ new) =
      established_cash cutoff (accepted_cash ids positions) @ more"
    using cash_cache.canon_of_appends by (simp add: established_cash_def cash_cache.canon_of_def)
  then show ?thesis using new by (auto simp: cash_history_established)
qed

end
