(* ===== verification/Execution_Examples.thy ===== *)
theory Execution_Examples
  imports Action_Properties History_Properties Liquidity_Examples Concentration_Examples Drawdown_Examples
begin

text \<open>
  Concrete plans for one account with five shares: routing a sale of two, a waterfall, a ledger with the four reports of a
  plan, two plans that follow each other, a rewritten ledger entry, and actions on the position.  They instantiate the
  theorems on execution, history and position actions.
\<close>

subsection \<open>Routing\<close>

definition ex_curve :: disposal_cost_curve where
  "ex_curve =
     \<lparr>cv_version_id = ''CV'', cv_commission_ratio = 1 / 100, cv_minimum_commission = 1, cv_trading_fee_ratio = 0,
      cv_settlement_fee_ratio = 0, cv_tax_ratio = 0, cv_slippage_ratio = 0, cv_market_impact_ratio = 0,
      cv_dividend_lots = [], cv_evidence = demo_evidence\<rparr>"

definition ex_route :: execution_route where
  "ex_route =
     \<lparr>rt_account_id = ''A'', rt_security_id = ''S'', rt_minimum_quantity = 1, rt_quantity_increment = 1,
      rt_allow_full_odd_lot = False, rt_first_sellable_at = demo_time, rt_transferable_at = demo_time,
      rt_rules_evidence = demo_evidence, rt_cost_curve = Some ex_curve, rt_conservative_cost_curve = None\<rparr>"

definition ex_command :: execution_plan_command where
  "ex_command =
     \<lparr>ep_portfolio_id = ''PF'', ep_authorization_id = ''AU1'', ep_cutoff_at = demo_time, ep_concentration_event_id = ''EC'',
      ep_stress_event_id = ''ES'', ep_liquidity_event_id = ''EL'', ep_drawdown_event_id = ''ED'', ep_routes = [ex_route],
      ep_established_targets = []\<rparr>"

definition ex_snapshot :: reconciled_position_snapshot where
  "ex_snapshot = po_snapshot cn_small"

definition ex_goal :: execution_target where
  "ex_goal = (quantity_target ''S'' 3 [''O1''] REDUCE_TARGET)\<lparr>xt_required_sale_quantity := Some 2\<rparr>"

definition ex_leg :: execution_leg where
  "ex_leg =
     \<lparr>xl_account_id = ''A'', xl_security_id = ''S'', xl_quantity = 2, xl_gross_proceeds = 40, xl_disposal_cost = 1,
      xl_net_proceeds = 39, xl_route = ex_route\<rparr>"

definition ex_gap :: "execution_leg list \<Rightarrow> decimal option" where
  "ex_gap legs = Some (max 0 (30 - xsum (map xl_net_proceeds legs)))"

definition ex_planned :: execution_plan_outcome where
  "ex_planned = planned [ex_goal] [revised_target ex_goal 2 2] [] [ex_leg]"

lemma ex_quantities: "legal_quantities ex_route unit 5 = [0, 1, 2, 3, 4, 5]"
proof -
  have "lot_count ex_route 5 = 5" by code_simp
  then have "nat (lot_count ex_route 5) = 5" by simp
  moreover have "map (lot_quantity ex_route) [0, 1, 2, 3, 4] = [1, 2, 3, 4, 5]" by code_simp
  moreover have "[0..<5] = [0, 1, 2, 3, 4]" by (simp add: upt_rec)
  moreover have "sort [0, 1, 2, 3, 4, 5 :: rat] = [0, 1, 2, 3, 4, 5]" by simp
  moreover have "\<not> rt_allow_full_odd_lot ex_route" by (simp add: ex_route_def)
  ultimately show ?thesis by (simp add: legal_quantities_def)
qed

lemma ex_unit: "au_security_id (cn_unit ''I'' ''S'' 5) = ''S''" "au_exact_statistical_action_quantity (cn_unit ''I'' ''S'' 5) = Some 5"
  "au_market_price (cn_unit ''I'' ''S'' 5) = Some 20"
  by code_simp+

lemma ex_unit_quantities:
  assumes "''S'' \<in> active"
  shows "unit_quantities ex_command (routes_of ex_command) active (''A'', ''S'') (cn_unit ''I'' ''S'' 5) = Inr ([0, 1, 2, 3, 4, 5], [])"
proof -
  have "map_of (routes_of ex_command) (''A'', ''S'') = Some ex_route" by code_simp
  moreover have "qualified_curve ex_route (ep_cutoff_at ex_command) = rt_cost_curve ex_route \<and> rt_cost_curve ex_route \<noteq> None \<and>
      problem_codes (rt_rules_evidence ex_route) (ep_cutoff_at ex_command) True = [] \<and>
      \<not> rt_first_sellable_at ex_route < ep_cutoff_at ex_command \<and> \<not> rt_transferable_at ex_route < rt_first_sellable_at ex_route \<and>
      \<not> 100000 < lot_count ex_route 5" by code_simp
  ultimately show ?thesis using assms by (simp add: unit_quantities_def ex_unit ex_quantities)
qed

lemma ex_units: "units_of ex_snapshot = [((''A'', ''S''), cn_unit ''I'' ''S'' 5)]"
  by code_simp

lemma ex_options:
  "''S'' \<in> active \<Longrightarrow> quantity_options ex_command (routes_of ex_command) active (units_of ex_snapshot) =
     Inr ([((''A'', ''S''), [0, 1, 2, 3, 4, 5])], [])"
  by (simp add: ex_units ex_unit_quantities)

lemma ex_search:
  "target_search ex_command (routes_of ex_command) (units_of ex_snapshot) [((''A'', ''S''), [0, 1, 2, 3, 4, 5])] [] (Some ex_gap) ex_goal =
     Some (Inr ([[ex_leg]], revised_target ex_goal 2 2))"
proof -
  have keys: "target_keys (units_of ex_snapshot) ex_goal = [(''A'', ''S'')]" by code_simp
  have "target_choices [((''A'', ''S''), [0, 1, 2, 3, 4, 5])] (units_of ex_snapshot) ex_goal = [[0, 1, 2, 3, 4, 5]]"
    by (simp add: target_choices_def keys dict_get_def)
  moreover have "xt_required_sale_quantity ex_goal = Some 2" by code_simp
  moreover have "least_sold [[0, 1, 2, 3, 4, 5]] 2 = 2" by code_simp
  moreover have "filter (\<lambda>values. xsum values = 2) (eligible_sales [[0, 1, 2, 3, 4, 5]] 2) = [[2]]" by code_simp
  moreover have "make_legs ex_command (routes_of ex_command) (units_of ex_snapshot) (zip [(''A'', ''S'')] [2]) = Some [ex_leg]" by code_simp
  ultimately show ?thesis by (simp add: target_search_def Let_def keys)
qed

lemma ex_routed: "route_targets ex_command ex_snapshot [ex_goal] (Some ex_gap) = Some ex_planned"
proof -
  have scope: "\<not> (length (routes_of ex_command) \<noteq> length (ep_routes ex_command) \<or>
      \<not> fst ` set (routes_of ex_command) \<subseteq> fst ` set (units_of ex_snapshot))" by code_simp
  have "''S'' \<in> active_securities [ex_goal]" by code_simp
  note options = ex_options[OF this]
  have "least_ranked (plan_rank ex_command (units_of ex_snapshot) [] (Some ex_gap)) [[ex_leg]] = Some [ex_leg]" by code_simp
  with options ex_search show ?thesis unfolding route_targets_def Let_def if_not_P[OF scope] by (simp add: ex_planned_def)
qed

theorem route_targets_least_sale_witness:
  "xp_legs ex_planned = [ex_leg] \<and> least_result ex_command ex_snapshot [ex_goal] ex_goal (revised_target ex_goal 2 2)"
proof -
  have planned: "xp_targets ex_planned = [revised_target ex_goal 2 2]" "xp_cost_routing_basis ex_planned \<noteq> None"
    "xp_legs ex_planned = [ex_leg]"
    by (simp_all add: ex_planned_def planned_def Let_def)
  from route_targets_least_sale [OF ex_routed planned(2)] show ?thesis by (simp add: planned)
qed

theorem route_targets_least_rank_witness:
  "\<exists>groups. list_all2 (least_group ex_command ex_snapshot [ex_goal]) [ex_goal] groups \<and>
     (\<exists>g g'. ex_gap (xp_legs ex_planned) = Some g \<and> ex_gap (concat groups) = Some g' \<and> g \<le> g')"
proof -
  have basis: "xp_cost_routing_basis ex_planned \<noteq> None" by (simp add: ex_planned_def planned_def Let_def)
  from ex_routed obtain groups where "list_all2 (least_group ex_command ex_snapshot [ex_goal]) [ex_goal] groups"
  proof (cases rule: route_targets_cases)
    case (stopped reason)
    then have "xp_cost_routing_basis ex_planned = xp_cost_routing_basis (blocked_plan [reason] [ex_goal])" by (rule arg_cong)
    also have "\<dots> = None" by (simp add: blocked_plan_def)
    finally have "xp_cost_routing_basis ex_planned = None" .
    with basis show thesis by blast
  qed (rule that)
  with route_targets_least_rank [OF ex_routed basis this] show ?thesis by blast
qed


subsection \<open>Four reports\<close>

definition ex_stress :: portfolio_stress_outcome where
  "ex_stress =
     \<lparr>st_state = NORMAL, st_reasons = [''STRESS_WITHIN_TARGET''], st_portfolio_id = ''PF'', st_authorization_id = ''AU1'',
      st_snapshot_id = ''PS'', st_cutoff_at = demo_time, st_account_ids = [''A''], st_gross_stress_loss = Some 10,
      st_net_liquidation_equity = Some 1000, st_stress_ratio = Some (1 / 100), st_contributions = [],
      st_new_exposure_blocked = False, st_obligation = None, st_execution_blocked = False,
      st_residual_restoration_gap = None, st_risk_budget_version_id = Some ''B1'', st_calculation_policy = None,
      st_budget = None\<rparr>"

definition ex_liquidity :: liquidity_outcome where
  "ex_liquidity = lq_outcome\<lparr>lo_position_snapshot := cn_small\<rparr>"

definition ex_state :: drawdown_state where
  "ex_state =
     \<lparr>ds_decision_id = ''D0'', ds_epoch_id = ''E1'', ds_portfolio_id = ''PF'', ds_authorization_id = ''AU1'',
      ds_account_ids = [''A''], ds_cutoff_at = demo_time, ds_accounting_cutoff_at = demo_time, ds_policy = dd_policy,
      ds_thresholds = rb_drawdown demo_budget, ds_net_liquidation_equity = Some 1000, ds_units = 1000,
      ds_unit_nav = Some 1, ds_high_water_nav = 1, ds_maximum_drawdown = 0, ds_current_drawdown = Some 0,
      ds_risk_state = RISK_NORMAL, ds_new_exposure_blocked = False,
      ds_valuation = \<lparr>dv_position_event_id = ''EP'', dv_liquidation_cost = Some 0, dv_evidence = demo_evidence\<rparr>,
      ds_current_stock_exposure = Some 100, ds_stock_exposure_limit = None, ds_risk_direction = None,
      ds_execution_blocked = False, ds_stock_exposure_target_value = None, ds_recovery_sessions = 0,
      ds_last_recovery_session = None, ds_last_observed_session = None, ds_exact_units = from_fraction 1000,
      ds_exact_peak = from_fraction 1, ds_processed_transfers = [], ds_processed_stock_events = [],
      ds_processed_flow_ids = [], ds_epoch_status = EPOCH_OPEN, ds_closed_at = None, ds_cooling_sessions = 1,
      ds_previous_epoch_id = None, ds_reauthorization = None\<rparr>"

definition ex_report :: action_report where
  "ex_report =
     \<lparr>fr_business_object_id = ''BO'', fr_access_scope = Some cn_scope, fr_position = None, fr_concentration = None,
      fr_stress = None, fr_liquidity = None, fr_drawdown = None, fr_exit_assessment = None\<rparr>"

definition ex_fact :: "str \<Rightarrow> action_fact" where
  "ex_fact event_id =
     \<lparr>hf_event_id = event_id, hf_business_object_id = event_id, hf_corrects_event_id = None, hf_access_scope = Some cn_scope,
      hf_plan_command = None, hf_liquidity_command = None, hf_position = None, hf_plan = None, hf_action_command = None,
      hf_action = None, hf_exit_command = None\<rparr>"

definition ex_assessment :: security_assessment where
  "ex_assessment =
     \<lparr>sa_cutoff_at = demo_time, sa_security_id = ''S'', sa_lifecycle_id = ''C'', sa_thesis_event_id = None,
      sa_market_state = ''M'', sa_board = ''B'', sa_standard_price = 20, sa_calendar_version = ''V'', sa_evidence = []\<rparr>"

definition ex_probability :: "exit_target_kind \<Rightarrow> str option \<Rightarrow> decimal \<Rightarrow> decimal \<Rightarrow> guarded_exit_probability" where
  "ex_probability kind boundary low high =
     \<lparr>gp_security_id = ''S'', gp_target = kind, gp_loss_boundary = boundary, gp_point = low, gp_guarded_lower = Some low,
      gp_guarded_upper = Some high, gp_produced_at = demo_time, gp_valid_until = demo_time, gp_reasons = []\<rparr>"

definition ex_security :: exit_outcome where
  "ex_security =
     \<lparr>eo_disposition = ASSESSED, eo_reasons = [], eo_thesis = None, eo_thesis_event_id = None, eo_hard_gates = [],
      eo_standard_price = Some 20, eo_security_id = Some ''S'', eo_evidence = [],
      eo_probabilities = [ex_probability D20 (Some normal_grid) (1 / 100) (2 / 100), ex_probability V60 None (8 / 10) (9 / 10)]\<rparr>"

definition ex_ledger :: action_ledger where
  "ex_ledger =
     \<lparr>hl_facts = [(ex_fact ''EP'')\<lparr>hf_position := Some cn_small\<rparr>,
        (ex_fact ''FL'')\<lparr>hf_business_object_id := ''BL'', hf_liquidity_command := Some lq_command\<rparr>,
        (ex_fact ''EX'')\<lparr>hf_exit_command := Some (ASSESS_SECURITY ex_assessment)\<rparr>],
      hl_reports = [(''EC'', ex_report\<lparr>fr_position := Some cn_small, fr_concentration := Some (cn_outcome demo_time [cn_normal])\<rparr>),
        (''ES'', ex_report\<lparr>fr_stress := Some ex_stress\<rparr>),
        (''EL'', ex_report\<lparr>fr_business_object_id := ''BL'', fr_liquidity := Some ex_liquidity\<rparr>),
        (''ED'', ex_report\<lparr>fr_drawdown := Some \<lparr>do_disposition = ACCEPTED, do_reasons = [], do_state = Some ex_state\<rparr>\<rparr>),
        (''EX'', ex_report\<lparr>fr_exit_assessment := Some ex_security\<rparr>)]\<rparr>"

definition ex_handoff :: risk_handoff where
  "ex_handoff =
     \<lparr>rh_concentration = cn_outcome demo_time [cn_normal], rh_stress = ex_stress, rh_liquidity = ex_liquidity,
      rh_drawdown = \<lparr>do_disposition = ACCEPTED, do_reasons = [], do_state = Some ex_state\<rparr>, rh_state = ex_state,
      rh_position = cn_small, rh_liquidity_command = lq_command\<rparr>"

lemma ex_scope [simp]: "same_scope_as cn_scope cn_scope" "same_owner cn_scope cn_scope"
  by (simp_all add: same_scope_as_def same_owner_def)

lemma ex_reports [simp]:
  "formal_report_for_event ex_ledger ''EC'' =
     Some (ex_report\<lparr>fr_position := Some cn_small, fr_concentration := Some (cn_outcome demo_time [cn_normal])\<rparr>)"
  "formal_report_for_event ex_ledger ''ES'' = Some (ex_report\<lparr>fr_stress := Some ex_stress\<rparr>)"
  "formal_report_for_event ex_ledger ''EL'' =
     Some (ex_report\<lparr>fr_business_object_id := ''BL'', fr_liquidity := Some ex_liquidity\<rparr>)"
  "formal_report_for_event ex_ledger ''ED'' =
     Some (ex_report\<lparr>fr_drawdown := Some \<lparr>do_disposition = ACCEPTED, do_reasons = [], do_state = Some ex_state\<rparr>\<rparr>)"
  "formal_report_for_event ex_ledger ''EX'' = Some (ex_report\<lparr>fr_exit_assessment := Some ex_security\<rparr>)"
  by (simp_all add: formal_report_for_event_def ex_ledger_def)

lemma ex_report_fields [simp]:
  "fr_access_scope ex_report = Some cn_scope" "fr_position ex_report = None" "fr_concentration ex_report = None"
  "fr_stress ex_report = None" "fr_liquidity ex_report = None" "fr_drawdown ex_report = None"
  by (simp_all add: ex_report_def)

lemma ex_command_fields [simp]:
  "ep_concentration_event_id ex_command = ''EC''" "ep_stress_event_id ex_command = ''ES''"
  "ep_liquidity_event_id ex_command = ''EL''" "ep_drawdown_event_id ex_command = ''ED''"
  "ep_portfolio_id ex_command = ''PF''" "ep_authorization_id ex_command = ''AU1''" "ep_cutoff_at ex_command = demo_time"
  "ep_established_targets ex_command = []"
  by (simp_all add: ex_command_def)

lemma ex_risk_handoff:
  "risk_handoff_of ex_ledger (ex_command\<lparr>ep_established_targets := established\<rparr>) cn_scope = Some ex_handoff"
  by (simp add: risk_handoff_of_def Let_def scoped_report_def get_original_decision_event_def original_facts_def ex_handoff_def,
      simp add: ex_ledger_def ex_fact_def)

lemma ex_capital_position: "position_evidence_for_drawdown ex_ledger cn_scope ''EP'' demo_time = Some cn_small"
  by (simp add: position_evidence_for_drawdown_def get_decision_event_def ex_ledger_def ex_fact_def cn_small_def cn_position_def)

lemma ex_identity: "\<not> identity_mismatch ex_ledger (ex_command\<lparr>ep_established_targets := established\<rparr>) cn_scope ex_handoff"
  by (simp add: identity_mismatch_def Let_def ex_handoff_def ex_capital_position ex_state_def ex_stress_def ex_liquidity_def
      lq_outcome_def cn_outcome_def, simp add: cn_small_def cn_position_def)

lemma ex_evidence: "\<not> evidence_failed ex_handoff"
  by (simp add: evidence_failed_def ex_handoff_def cn_outcome_def ex_stress_def ex_liquidity_def lq_outcome_def)

lemma ex_no_history: "execution_plan_history ex_ledger scope pid = []"
  by (simp add: execution_plan_history_def original_facts_def ex_ledger_def ex_fact_def List.map_filter_def past_plan_of_def)

subsection \<open>A waterfall\<close>

theorem waterfall_returns_witness:
  "\<exists>plan. conjoin_portfolio_targets ex_command ex_snapshot [quantity_target ''S'' 3 [''O1''] REDUCE_TARGET]
     ex_stress ex_liquidity ex_state lq_command = Some plan"
proof -
  obtain usage where usage: "out_usage demo_usage = Some usage" "us_unfinished_cash_obligations usage = []"
    by (simp add: demo_usage_def)
  have protection: "lo_protection_authorization ex_liquidity = Some demo_usage"
    by (simp add: ex_liquidity_def lq_outcome_def)
  show ?thesis
    using waterfall_returns [OF protection usage(1), of lq_command ex_snapshot ex_stress
        "[quantity_target ''S'' 3 [''O1''] REDUCE_TARGET]" ex_command ex_state]
    by (simp add: usage(2) lq_command_def ex_stress_def is_outstanding_def ex_snapshot_def cn_small_def cn_position_def quantity_target_def)
qed

subsection \<open>A rewritten entry\<close>

definition ex_entry :: "decimal \<Rightarrow> authoritative_ledger_entry" where
  "ex_entry cash = authoritative_entry ''A'' (demo_entry\<lparr>le_cash_delta := cash\<rparr>)"

definition ex_recorded :: "decimal \<Rightarrow> position_reconciliation_outcome" where
  "ex_recorded cash = cn_position demo_time 1000 [] [ex_entry cash]"

lemma ex_established: "authoritative_ledger_history [ex_recorded (- 50)] [''A''] demo_time = [ex_entry (- 50)]"
  by code_simp

theorem altered_ledger_rejected_witness:
  "filter (\<lambda>x. le_account_id x = ''A'') (authoritative_ledger_history [ex_recorded (- 50), ex_recorded (- 40)] [''A''] demo_time) =
     [ex_entry (- 50)]"
proof -
  have fields: "rs_cutoff_at (po_snapshot (ex_recorded cash)) = demo_time"
    "rs_authoritative_ledger (po_snapshot (ex_recorded cash)) = [ex_entry cash]"
    "le_account_id (ex_entry cash) = ''A''" "le_entry_id (ex_entry cash) = ''L1''" for cash
    by (simp_all add: ex_recorded_def cn_position_def ex_entry_def authoritative_entry_def demo_entry_def
        position_ledger_entry.defs authoritative_ledger_entry.defs)
  have "\<not> ledger_entry_eq (ex_entry (- 40)) (ex_entry (- 50))" by code_simp
  then show ?thesis
    using altered_ledger_rejected [of "ex_entry (- 50)" "[ex_recorded (- 50)]" "[''A'']" "ex_recorded (- 40)" demo_time]
    by (simp add: fields ex_established)
qed

subsection \<open>Plans that follow each other\<close>

text \<open>Without reports a plan is blocked, and names the targets of its command and of the plans before.\<close>

definition ex_capped :: "str \<Rightarrow> decimal \<Rightarrow> execution_plan_command" where
  "ex_capped target_id quantity = ex_command
     \<lparr>ep_established_targets := [\<lparr>et_target_id = target_id, et_security_id = ''S'', et_target_quantity = quantity,
        et_direction = REDUCE_TARGET, et_qualified = True, et_policy_version = ''P1'', et_priority = None,
        et_evidence = demo_evidence\<rparr>]\<rparr>"

definition ex_blocked :: "str list \<Rightarrow> execution_plan_outcome" where
  "ex_blocked sources = blocked_plan [''RISK_HANDOFF_UNAVAILABLE''] [quantity_target ''S'' 3 sources REDUCE_TARGET]"

definition ex_plan_fact :: "execution_plan_command \<Rightarrow> execution_plan_outcome \<Rightarrow> action_fact" where
  "ex_plan_fact command out = (ex_fact ''P'')\<lparr>hf_plan_command := Some command, hf_plan := Some out\<rparr>"

definition ex_facts :: "action_fact list \<Rightarrow> action_ledger" where
  "ex_facts facts = \<lparr>hl_facts = facts, hl_reports = []\<rparr>"

lemma ex_first_plan: "adjudicate_execution_plan (ex_facts []) cn_scope (ex_capped ''O1'' 3) = Some (ex_blocked [''O1''])"
  by code_simp

lemma ex_second_plan:
  "adjudicate_execution_plan (ex_facts [ex_plan_fact (ex_capped ''O1'' 3) (ex_blocked [''O1''])]) cn_scope (ex_capped ''O2'' 4) =
     Some (ex_blocked [''O1'', ''O2''])"
  by code_simp

lemma ex_first_history:
  "execution_plan_history (ex_facts [ex_plan_fact (ex_capped ''O1'' 3) (ex_blocked [''O1''])]) cn_scope ''PF'' =
     [(cn_scope, ex_capped ''O1'' 3, ex_blocked [''O1''])]"
  by code_simp

theorem plan_retains_targets_witness:
  "\<exists>t \<in> set (xp_targets (ex_blocked [''O1'', ''O2''])). keeps (quantity_target ''S'' 3 [''O1''] REDUCE_TARGET) t"
proof (rule plan_retains_targets [OF ex_second_plan])
  show "quantity_target ''S'' 3 [''O1''] REDUCE_TARGET \<in> set (retained_sources (ex_facts [ex_plan_fact (ex_capped ''O1'' 3)
      (ex_blocked [''O1''])]) (ex_capped ''O2'' 4) cn_scope (execution_plan_history (ex_facts [ex_plan_fact (ex_capped ''O1'' 3)
      (ex_blocked [''O1''])]) cn_scope (ep_portfolio_id (ex_capped ''O2'' 4))))"
    by (simp add: ex_capped_def ex_first_history[unfolded ex_capped_def])
      (simp add: retained_sources_def history_targets_def ex_blocked_def blocked_plan_def quantity_target_def)
qed (simp_all add: ex_blocked_def blocked_plan_def)

lemma ex_plan_ledger: "plan_ledger (ex_facts [ex_plan_fact (ex_capped ''O1'' 3) (ex_blocked [''O1'']),
    ex_plan_fact (ex_capped ''O2'' 4) (ex_blocked [''O1'', ''O2''])])"
proof -
  have "plan_ledger (ex_facts [])" by (intro plan_ledger.no_event) (simp add: ex_facts_def)
  from plan_ledger.plan [OF this _ _ ex_first_plan]
  have "plan_ledger (ex_facts [ex_plan_fact (ex_capped ''O1'' 3) (ex_blocked [''O1''])])"
    by (simp add: ex_facts_def ex_plan_fact_def ex_fact_def)
  from plan_ledger.plan [OF this _ _ ex_second_plan] show ?thesis by (simp add: ex_facts_def ex_plan_fact_def ex_fact_def)
qed

theorem execution_caps_never_rise_witness:
  "succeeds (cn_scope, ex_capped ''O1'' 3, ex_blocked [''O1'']) (cn_scope, ex_capped ''O2'' 4, ex_blocked [''O1'', ''O2''])"
proof -
  have "execution_plan_history (ex_facts [ex_plan_fact (ex_capped ''O1'' 3) (ex_blocked [''O1'']),
      ex_plan_fact (ex_capped ''O2'' 4) (ex_blocked [''O1'', ''O2''])]) cn_scope ''PF'' =
      [(cn_scope, ex_capped ''O1'' 3, ex_blocked [''O1'']), (cn_scope, ex_capped ''O2'' 4, ex_blocked [''O1'', ''O2''])]"
    by code_simp
  with execution_caps_never_rise [OF ex_plan_ledger, of cn_scope "''PF''"] show ?thesis by simp
qed

subsection \<open>A plan on four reports\<close>

lemma ex_retained: "retained_targets ex_ledger ex_command cn_scope [] = []"
  by (simp add: retained_targets_def history_targets_def established_targets_def concentration_targets_def preservation_targets_def
      issuer_targets_def scoped_report_def cn_outcome_def cn_normal_def ex_state_def)

definition ex_hold :: execution_target where
  "ex_hold = (quantity_target ''S'' 5 [] HOLD_TARGET)\<lparr>xt_required_sale_quantity := Some 0\<rparr>"

lemma ex_hold_inactive: "active_securities [ex_hold] = {}"
  by (simp add: active_securities_def ex_hold_def)

lemma ex_hold_options:
  "quantity_options ex_command (routes_of ex_command) (active_securities [ex_hold]) (units_of ex_snapshot) =
     Inr ([((''A'', ''S''), [0])], [])"
  by (simp add: ex_units unit_quantities_def ex_unit ex_hold_inactive)

lemma ex_hold_search:
  "target_search ex_command (routes_of ex_command) (units_of ex_snapshot) [((''A'', ''S''), [0])] [] None ex_hold =
     Some (Inr ([[]], revised_target ex_hold 0 0))"
proof -
  have keys: "target_keys (units_of ex_snapshot) ex_hold = [(''A'', ''S'')]" by code_simp
  have "target_choices [((''A'', ''S''), [0])] (units_of ex_snapshot) ex_hold = [[0]]"
    by (simp add: target_choices_def keys dict_get_def)
  moreover have "xt_required_sale_quantity ex_hold = Some 0" by code_simp
  moreover have "least_sold [[0]] 0 = 0" by code_simp
  moreover have "filter (\<lambda>values. xsum values = 0) (eligible_sales [[0]] 0) = [[0]]" by code_simp
  moreover have "make_legs ex_command (routes_of ex_command) (units_of ex_snapshot) (zip [(''A'', ''S'')] [0]) = Some []" by code_simp
  moreover have "least_ranked (plan_rank ex_command (units_of ex_snapshot) [] None) [[]] = Some []" by code_simp
  ultimately show ?thesis by (simp add: target_search_def Let_def keys)
qed

lemma ex_hold_routed: "route_targets ex_command ex_snapshot [ex_hold] None = Some (planned [ex_hold] [revised_target ex_hold 0 0] [] [])"
proof -
  have scope: "\<not> (length (routes_of ex_command) \<noteq> length (ep_routes ex_command) \<or>
      \<not> fst ` set (routes_of ex_command) \<subseteq> fst ` set (units_of ex_snapshot))" by code_simp
  have "least_ranked (plan_rank ex_command (units_of ex_snapshot) [] None) [[]] = Some []" by code_simp
  with ex_hold_options ex_hold_search show ?thesis unfolding route_targets_def Let_def if_not_P[OF scope] by simp
qed

lemma ex_unfunded: "deadline_gap ex_snapshot lq_command [] legs = Some 0"
  by (simp add: deadline_gap_def assess_available_cash_def fund_obligations_def)

definition ex_held :: execution_plan_outcome where
  "ex_held = planned [ex_hold] [revised_target ex_hold 0 0] [] []"

definition ex_projected :: execution_plan_outcome where
  "ex_projected = ex_held
     \<lparr>xp_initial_target_sale_value := Some 0, xp_projected_stress_gap := Some 0, xp_projected_cash_gap := Some 0,
      xp_projected_exposure_gap := Some 0\<rparr>"

lemma ex_project:
  "project_plan ex_snapshot ex_stress ex_liquidity ex_state (deadline_gap ex_snapshot lq_command []) 0 ex_held = Some ex_projected"
proof -
  have "project_plan ex_snapshot ex_stress ex_liquidity ex_state (\<lambda>_. Some 0) 0 ex_held = Some ex_projected" by code_simp
  moreover have "deadline_gap ex_snapshot lq_command [] = (\<lambda>_. Some 0)" using ex_unfunded by (rule ext)
  ultimately show ?thesis by simp
qed

lemma ex_conjoined:
  "conjoin_portfolio_targets ex_command ex_snapshot [ex_hold] ex_stress ex_liquidity ex_state lq_command = Some ex_projected"
proof -
  obtain usage where usage: "out_usage demo_usage = Some usage" "us_unfinished_cash_obligations usage = []"
    by (simp add: demo_usage_def)
  have "lo_protection_authorization ex_liquidity = Some demo_usage" by (simp add: ex_liquidity_def lq_outcome_def)
  moreover have "xsum (map xl_gross_proceeds (xp_legs ex_held)) = 0" by code_simp
  moreover have "portfolio_ids ex_stress ex_liquidity ex_state = []" by code_simp
  moreover have "ex_projected\<lparr>xp_new_exposure_blocked := xp_new_exposure_blocked ex_projected \<or>
      st_new_exposure_blocked ex_stress \<or> lo_new_exposure_blocked ex_liquidity \<or> ds_new_exposure_blocked ex_state,
      xp_targets := map (with_portfolio_ids []) (xp_targets ex_projected)\<rparr> = ex_projected" by code_simp
  moreover have "plan_restored ex_projected" by code_simp
  ultimately show ?thesis
    unfolding conjoin_portfolio_targets_def
    by (simp add: usage unpaid_obligations_def Let_def ex_hold_routed ex_held_def [symmetric] ex_project)
qed

lemma ex_plan:
  "adjudicate_execution_plan ex_ledger cn_scope ex_command = Some ex_projected"
proof -
  have command: "ex_command\<lparr>ep_established_targets := []\<rparr> = ex_command" by (simp add: ex_command_def)
  have "total_quantities [] (rs_action_units (po_snapshot cn_small)) = Some [(''S'', 5)]" by code_simp
  moreover have "cap_quantities [(''S'', 5)] [(''S'', 5)] [(''S'', [])] [] = Some ([(''S'', 5)], [(''S'', [])])" by simp
  moreover have "plan_targets [(''S'', 5)] [(''S'', 5)] [(''S'', [])] = [ex_hold]" by code_simp
  moreover have "ex_projected\<lparr>xp_new_exposure_blocked := xp_new_exposure_blocked ex_projected \<or>
      ds_new_exposure_blocked ex_state \<or> st_new_exposure_blocked ex_stress \<or> lo_new_exposure_blocked ex_liquidity \<or>
      list_ex ic_new_exposure_blocked (cn_issuers (cn_outcome demo_time [cn_normal]))\<rparr> = ex_projected" by code_simp
  ultimately show ?thesis
    using ex_risk_handoff [of "[]"] ex_identity [of "[]"] ex_evidence ex_conjoined
    by (simp add: adjudicate_execution_plan_def Let_def ex_no_history ex_retained command basis_unresolved_def
        conjoined_plan_def ex_handoff_def ex_snapshot_def)
qed

theorem plan_fails_closed_witness:
  "\<exists>h. risk_handoff_of ex_ledger ex_command cn_scope = Some h \<and> \<not> evidence_failed h \<and>
     xp_disposition ex_projected = PLANNED"
proof -
  have "xp_disposition ex_projected = PLANNED" by code_simp
  with plan_fails_closed [OF ex_plan] show ?thesis by auto
qed

subsection \<open>Actions on the position\<close>

definition ex_policy :: position_action_policy where
  "ex_policy =
     \<lparr>ay_generator_version = ''g'', ay_seed = 7, ay_version_id = ''P1'', ay_downside_safe_upper = 1 / 10,
      ay_downside_risky_lower = 3 / 10, ay_value_established_lower = 6 / 10, ay_value_denied_upper = 4 / 10,
      ay_reduction_ratio = 1 / 2, ay_lifecycle_cost_ratio = 1 / 10, ay_maximum_cost_ratio = 1 / 10,
      ay_maximum_minimum_commission = 5, ay_maximum_dividend_tax_per_share = 1\<rparr>"

definition ex_action :: position_action_command where
  "ex_action =
     \<lparr>pn_cutoff_at = demo_time, pn_security_id = ''S'', pn_lifecycle_id = ''C'', pn_security_event_id = ''EX'',
      pn_execution = ex_command, pn_policy = ex_policy, pn_qualification_id = ''Q''\<rparr>"

definition unqualified :: qualification_check where
  "unqualified assessment security position grid = []"

lemma ex_action_fields [simp]:
  "ep_portfolio_id (pn_execution ex_action) = ''PF''" "pn_lifecycle_id ex_action = ''C''" "pn_security_id ex_action = ''S''"
  "pn_execution ex_action = ex_command" "pn_policy ex_action = ex_policy" "pn_cutoff_at ex_action = demo_time"
  by (simp_all add: ex_action_def)

text \<open>A gate, and no report on the position.\<close>

definition ex_gated :: exit_outcome where
  "ex_gated = ex_security\<lparr>eo_hard_gates := [\<lparr>hg_gate_id = ''G'', hg_evidence_id = ''EV'', hg_authority = EXCHANGE,
     hg_source = ''X'', hg_thesis_event_id = None, hg_established_at = demo_time\<rparr>]\<rparr>"

definition ex_gate_ledger :: action_ledger where
  "ex_gate_ledger = \<lparr>hl_facts = [(ex_fact ''EX'')\<lparr>hf_exit_command := Some (ASSESS_SECURITY ex_assessment)\<rparr>],
     hl_reports = [(''EX'', ex_report\<lparr>fr_exit_assessment := Some ex_gated\<rparr>)]\<rparr>"

lemma ex_gate_handoff:
  "position_action_history ex_gate_ledger cn_scope ''PF'' ''C'' = []"
  "security_handoff ex_gate_ledger cn_scope ex_action = Some (ex_assessment, ex_gated)"
  "position_handoff ex_gate_ledger cn_scope ex_action = None"
  by code_simp+

lemma ex_gate_run:
  "\<exists>out. adjudicate_action ex_gate_ledger cn_scope ''E'' True unqualified ex_action ex_projected = Some out"
  by (simp add: adjudicate_action_def Let_def ex_gate_handoff)


text \<open>An action that was concluded at a target of three, and no report at all.\<close>

definition ex_goal_of_three :: execution_target where
  "ex_goal_of_three = quantity_target ''S'' 3 [''O1''] REDUCE_TARGET"

definition ex_concluded :: position_action_outcome where
  "ex_concluded = (handoff_missing ex_action)\<lparr>px_disposition := CONCLUDED, px_direction := Some REDUCE_TARGET,
     px_target_quantity := Some 3, px_execution := Some (ex_blocked [''O1''])\<rparr>"

definition ex_past_ledger :: action_ledger where
  "ex_past_ledger = ex_facts [(ex_fact ''A1'')\<lparr>hf_action_command := Some ex_action, hf_action := Some ex_concluded\<rparr>]"

lemma ex_past_handoff:
  "position_action_history ex_past_ledger cn_scope ''PF'' ''C'' = [(cn_scope, ex_action, ex_concluded)]"
  "security_handoff ex_past_ledger cn_scope ex_action = None"
  "position_handoff ex_past_ledger cn_scope ex_action = None"
  "action_refusal cn_scope ex_action [(cn_scope, ex_action, ex_concluded)] = None"
  "past_targets [(cn_scope, ex_action, ex_concluded)] = [ex_goal_of_three]"
  "px_disposition (retained_conclusion ex_action [(cn_scope, ex_action, ex_concluded)] ex_projected) = CONCLUDED"
  by code_simp+


text \<open>Four reports and a security that holds its value.\<close>

lemma ex_action_handoff:
  "position_action_history ex_ledger cn_scope ''PF'' ''C'' = []"
  "security_handoff ex_ledger cn_scope ex_action = Some (ex_assessment, ex_security)"
  "position_handoff ex_ledger cn_scope ex_action = Some cn_small"
  by code_simp+

lemma ex_action_parts:
  "fact_reasons ex_action [] cn_small ex_security ex_projected 5 = []"
  "assess_statistical_action ex_policy (eo_probabilities ex_security) normal_grid =
     \<lparr>sx_direction = Some HOLD_TARGET, sx_evidence_missing = False\<rparr>"
  "assess_action_costs ex_action cn_small ex_projected None False = Some \<lparr>az_evidence_failed = False, az_outside_envelope = False\<rparr>"
  "find (obliged_target ''S'') (xp_targets ex_projected) = None"
  "security_units (po_snapshot cn_small) ''S'' = [cn_unit ''I'' ''S'' 5]"
  "units_quantity [cn_unit ''I'' ''S'' 5] = 5"
  by code_simp+

lemma ex_no_buffer: "\<not> risk_buffer ex_ledger ex_action [cn_unit ''I'' ''S'' 5]"
proof -
  have "\<not> risk_buffer ex_ledger ex_action (security_units (po_snapshot cn_small) ''S'')" by code_simp
  then show ?thesis by (simp only: ex_action_parts(5) not_False_eq_True)
qed

definition ex_step :: action_step where
  "ex_step = \<lparr>as_direction = Some HOLD_TARGET, as_target = Some 5, as_anchor = None, as_plan = ex_projected, as_reasons = []\<rparr>"

lemma ex_statistical:
  "statistical_conclusion ex_ledger cn_scope ''E'' True unqualified ex_action [] cn_small ex_assessment ex_security []
     ex_command ex_projected 5 = Some (action_outcome ''E'' ex_action [] cn_small 5 normal_grid (Some HOLD_TARGET) False ex_step)"
proof -
  have "first_anchor px_cost_anchor [] = None" "\<not> exit_seen []" by code_simp+
  moreover have "conjoin_strictest ''S'' ex_step = ex_step" by (simp add: conjoin_strictest_def ex_step_def ex_action_parts)
  ultimately show ?thesis
    by (simp add: statistical_conclusion_def Let_def ex_action_parts ex_no_buffer unqualified_def directed_plan_def within_costs_def
        ex_step_def [symmetric]) (simp add: ex_step_def ex_action_parts)
qed

lemma ex_concluded_hold:
  "adjudicate_action ex_ledger cn_scope ''E'' True unqualified ex_action ex_projected =
     Some (action_outcome ''E'' ex_action [] cn_small 5 normal_grid (Some HOLD_TARGET) False ex_step)"
proof -
  have "dt_eq (rs_cutoff_at (po_snapshot cn_small)) demo_time" by code_simp
  moreover have "eo_hard_gates ex_security = []" by (simp add: ex_security_def)
  moreover have "established_for ex_policy evidence [] = Some []" for evidence by (simp add: established_for_def)
  moreover have "with_established (with_established ex_command []) [] = ex_command" by (simp add: with_established_def)
  moreover have "\<not> list_ex (\<lambda>goal. obliged_target ''S'' goal \<and> xt_target_quantity goal = 0) (xp_targets ex_projected)" by code_simp
  ultimately show ?thesis
    by (simp add: adjudicate_action_def Let_def ex_action_handoff ex_action_parts ex_plan ex_statistical past_targets_def del: dt_eq_def)
qed


end
