(* ===== verification/Spec2Isabelle.thy ===== *)
theory Spec2Isabelle
  imports Market_Calendar Position_Properties Authorization_Properties Drawdown_Examples Liquidity_Examples
    Concentration_Examples Execution_Examples
begin

text \<open>
  Verification of the capital-protection core of \<open>stock_profiler\<close>.

  \<^bold>\<open>The program.\<close>  \<open>stock_profiler\<close> keeps the decisions about a private stock portfolio in an append-only
  ledger.  Broker facts arrive as snapshots of accounts; \<open>modules/position_management\<close> reconciles a
  snapshot with the retained ledger entries of its predecessors and says what can be acted on exactly.
  \<open>modules/portfolio\<close> decides on the reconciled snapshot: whether a portfolio has an authorization in
  force, how much loss the gross exposures stand for under stress, and in which state of drawdown
  protection the portfolio is.  Their reports are handed over to the execution plan, which retains every target
  stated before and routes the sales, and to the action on a single position.  Each of these adjudications is a
  pure function of a command, of the retained history of outcomes and of the reconciled snapshot; the
  decision-case service calls it inside a transaction and appends its outcome to the ledger, and the next
  adjudication reads it back.  So the safety of the system rests on functions and on invariants of histories,
  and this is what the development models and proves.

  \<^bold>\<open>The theories\<close>, from the bottom up (paths under \<open>src/src/stock_profiler/\<close>):
  \<^item> \<open>Prelude\<close>: strings, dictionaries, Python's sorting and grouping, the shared collections of rewrite rules.
  \<^item> \<open>Py_Decimal\<close>, \<open>Py_Datetime\<close>, \<open>Py_Hashlib\<close>: the standard-library types the code computes with.  Decimals
    are rational numbers, rounded half-even to the digits of the context after every operation; fractions
    are rational numbers without rounding; an aware datetime is an instant with an offset; a date is its
    ordinal; \<open>json.dumps\<close> and SHA-256 (on 32-bit words) as far as identifiers need them.
  \<^item> \<open>Exact_Decimal\<close>: when the arithmetic of a context is exact.
  \<^item> \<open>Market_Calendar\<close>: \<open>modules/portfolio/market_calendar.py\<close>, the four synthetic calendars and every query.
  \<^item> \<open>Position_Contracts\<close>: \<open>modules/position_management/contracts.py\<close>.
  \<^item> \<open>Conflict_Recorder\<close>, \<open>Position_Checks\<close>, \<open>Ledger_Pass\<close>, \<open>Position_Facts\<close>, \<open>Position_Reconcile\<close>:
    \<open>modules/position_management/service.py\<close>.  The closure \<open>record\<close> with the collections it writes is the
    record \<open>recorder\<close>, which every check passes on; the local variables of a loop are a record and its body
    is a step on it.  The interface of the recorder is the locale \<open>conflict_log\<close>, interpreted on it.
  \<^item> \<open>Portfolio_Contracts\<close>, \<open>Portfolio_Stress\<close>, \<open>Portfolio_Authorization\<close>: \<open>contracts.py\<close>, \<open>stress.py\<close> and
    \<open>service.py\<close> of \<open>modules/portfolio\<close>.
  \<^item> \<open>Authorization_Ledger\<close>: the queries of \<open>adapters/persistence/decision_ledger.py\<close> that read retained
    authorizations, and the step of \<open>modules/decision_cases/service.py\<close> that adjudicates a portfolio case
    against them and appends the outcome, as an inductive relation of reachable ledgers.
  \<^item> \<open>Capital_Units\<close>, \<open>Drawdown\<close>: \<open>drawdown_contracts.py\<close>, \<open>drawdown_flows.py\<close> and \<open>drawdown.py\<close> of
    \<open>modules/portfolio\<close>.
  \<^item> \<open>Max_Flow\<close>, \<open>Liquidity_Funding\<close>, \<open>Liquidity\<close>: \<open>liquidity_funding.py\<close> and \<open>liquidity.py\<close> of \<open>modules/portfolio\<close>.
    The loops of \<open>_maximum_flow\<close> are \<open>partial_function (option)\<close>; that they return is proved, not assumed, so no
    fuel is needed.
  \<^item> \<open>Flow_Properties\<close>, \<open>Flow_Optimal\<close>, \<open>Funding_Properties\<close>, \<open>Liquidity_Properties\<close>, \<open>Liquidity_Examples\<close>: their properties.
  \<^item> \<open>Concentration\<close>: \<open>concentration_contracts.py\<close> and \<open>concentration.py\<close> of \<open>modules/position_management\<close>;
    \<open>Concentration_Ledger\<close>: \<open>concentration_history\<close> of the decision ledger and the relation of the ledgers that
    assessments lead to; \<open>Concentration_Properties\<close>, \<open>Concentration_Targets\<close>, \<open>Concentration_Examples\<close>: their
    properties.
  \<^item> \<open>Position_History\<close>, \<open>History_Properties\<close>: \<open>modules/position_management/history.py\<close>.  A resolver is a record that every
    operation returns; the caches keyed by cutoff, of entries and of opening cash, are the locale \<open>cutoff_cache\<close>, interpreted
    on both.
  \<^item> \<open>Execution_Routing\<close>, \<open>Execution_Properties\<close>: \<open>execution_contracts.py\<close> and \<open>execution_routing.py\<close> of
    \<open>modules/position_management\<close>; \<open>Execution_Waterfall\<close>, \<open>Waterfall_Properties\<close>: \<open>execution_waterfall.py\<close>, whose bisection runs
    the 64 steps of the code.
  \<^item> \<open>Host_Ledger\<close>: committed facts, published reports and the queries of \<open>decision_ledger.py\<close> the two adjudications below make;
    \<open>Execution_Plan\<close>, \<open>Execution_Plan_Properties\<close>: \<open>modules/decision_cases/execution_plans.py\<close> and the relation of the ledgers that
    plans lead to.
  \<^item> \<open>Action_Contracts\<close>, \<open>Action_Costs\<close>, \<open>Position_Actions\<close>, \<open>Action_Properties\<close>: \<open>exit_contracts.py\<close>, \<open>action_contracts.py\<close>,
    \<open>action_policy.py\<close>, \<open>action_costs.py\<close> of \<open>modules/position_management\<close>, and \<open>modules/decision_cases/position_actions.py\<close>.
  \<^item> \<open>Execution_Examples\<close>: concrete plans, histories and actions.
  \<^item> \<open>Position_Properties\<close>, \<open>Stress_Properties\<close>, \<open>Authorization_Properties\<close>, \<open>Drawdown_Properties\<close>,
    \<open>Drawdown_Examples\<close>: the properties of the components and the concrete runs that instantiate them.

  \<^bold>\<open>How the code is read.\<close>  A pydantic model is a record, an enumeration or a discriminated union a
  datatype, a validator a function that returns the message it raises or \<open>None\<close>.  A raised \<open>ValueError\<close> is
  \<open>Inl\<close>; a failing \<open>assert\<close> or an exception nobody catches is the \<open>None\<close> of the whole operation, and theorems
  say that it does not occur.  A chain of \<open>elif\<close> that sets one reason is the first reason that applies.  The
  decimal contexts keep their precision: 34 digits in the reconciliation, the stress and the concentration assessment, 50 in
  the drawdown adjudication, 38 in the liquidity assessment, the execution plan and the position actions.  Bounds of single fields that pydantic enforces are predicates
  (\<open>valid_risk_budget\<close> and the like), assumed where a theorem needs them.

  \<^bold>\<open>What is shown.\<close>
  \<^item> Reconciliation: the outcome is \<open>RECONCILED\<close> exactly when all facts agree; retained ledger entries cannot be
    removed or changed unnoticed; a conflict blocks everything in its scope; exact quantities, exposures and
    equity are the sums they stand for; the recursive lineage checks agree with their reference definitions,
    and every loop is a total function.
  \<^item> Calendar: the generated sessions are complete and keep their ordinals, and the queries find the first
    and the latest session in question.
  \<^item> Stress: new exposure is open only on complete evidence, an obligation to reduce persists until confirmed
    sales settle it, and no assertion fails on the outcome of a reconciliation.
  \<^item> Authorization: in every reachable ledger the authorizations of a portfolio are one chain; the leaf the
    code computes is the authorization in force; approvals, relaxations and retained protection rest on it.
  \<^item> Drawdown: exact unit accounting, the invariant of the recorded history (high-water mark, maximum drawdown
    and preservation are never taken back in an epoch), escalation and recovery, and the opening of epochs.
  \<^item> Liquidity: the maximum-flow loop ends at any precision, because whether an edge has room does not depend on
    rounding, and on amounts that the context holds exactly no flow exceeds its result; so the funding of
    obligations covers as much as can be covered.  Receipts are counted once, an open remediation stays until
    its restoration is confirmed, and new exposure is open only when all of it succeeds.
  \<^item> Concentration: in every reachable ledger an obligation to reduce an issuer stays in force until it is resolved
    within the target or by fills, its target quantities never rise and reach the target value, and new exposure
    fails closed.  One theorem shows a defect: where the securities of an issuer are not explained, the pending
    issuers after it lose their quantity basis for good.
  \<^item> History: the memoised search for when an entry is visible agrees with the chain of its corrections, the caches never go
    stale, and a snapshot that changes an established entry adds nothing to the history of its account.
  \<^item> Execution: routed legs are legal, reach each target with the least sale, and are the best by the ranking of the code;
    the waterfall fails no assertion on complete handoffs; a plan that is not blocked rests on four matching reports and
    removes every gap; and along the plans of a ledger no cap ever rises.
  \<^item> Position actions: a hard gate exits whatever else is known, a statistical direction needs all facts in order, and no
    conclusion goes above a target of an earlier action.

  \<^bold>\<open>Not modelled.\<close>  SQL, HTTP, authentication, migrations and the command line are input and output.  The
  research contracts and the adapter of the agent framework, the statistical calibration and inference on
  floating-point arrays, and the allocation solver, a mixed-integer program handed to \<open>scipy\<close>, are outside
  the exact core.  The adjudication of a position takes what \<open>check_action_qualification\<close> returns as an argument: it hashes
  a policy and asks the governance of strategy versions, \<open>modules/qualification\<close>, which is a program of its own.
\<close>

end
